(* ===== verification/Prelude.thy ===== *)
theory Prelude
  imports Main "HOL-Library.List_Lexorder" "HOL-Library.Char_ord"
begin

text \<open>
  What every component of the model shares.

  \<^item> Python values (\<open>pyval\<close>), the string methods the services call, \<open>str\<close> of an id.
  \<^item> The exceptions of the services (\<open>error\<close>, with \<open>Does_not_return\<close> for a loop that runs forever) and the
    shape of a service call (\<open>op\<close>): it reads the database and returns a value or an exception together with the
    database it leaves. \<open>atomic\<close> is \<open>transaction.atomic\<close>: an exception that leaves
    the block restores the database the block started from.
  \<^item> Database tables (\<open>table\<close>): the rows in insertion order under their primary keys, and
    the sequence the next key is taken from, so that a key is never given out twice.
\<close>

named_theorems op_simps \<open>unfolding rules of the operation combinators\<close>
named_theorems table_simps \<open>unfolding rules of the table operations\<close>

section \<open>Python values and strings\<close>

type_synonym pk = nat
type_synonym instant = int
type_synonym day = int

text \<open>
  \<open>PFloat\<close> and \<open>POther\<close> carry the text Python prints for the value: the code never looks
  inside a float, and takes \<open>str(value)\<close> of anything else.
\<close>

datatype pyval =
    PNone
  | PBool bool
  | PInt int
  | PFloat string
  | PStr string
  | PList "pyval list"
  | PDict "(string \<times> pyval) list"
  | POther string

type_synonym pydict = "(string \<times> pyval) list"

fun py_truthy :: "pyval \<Rightarrow> bool" where
  "py_truthy PNone = False"
| "py_truthy (PBool b) = b"
| "py_truthy (PInt i) = (i \<noteq> 0)"
| "py_truthy (PFloat t) = (t \<noteq> ''0.0'' \<and> t \<noteq> ''-0.0'')"
| "py_truthy (PStr t) = (t \<noteq> [])"
| "py_truthy (PList xs) = (xs \<noteq> [])"
| "py_truthy (PDict d) = (d \<noteq> [])"
| "py_truthy (POther t) = True"

text \<open>A dict display with a repeated key keeps the first position and the last value.\<close>

fun dict_set :: "'k \<Rightarrow> 'v \<Rightarrow> ('k \<times> 'v) list \<Rightarrow> ('k \<times> 'v) list" where
  "dict_set k v [] = [(k, v)]"
| "dict_set k v ((k', v') # d) = (if k = k' then (k', v) # d else (k', v') # dict_set k v d)"

definition dict_build :: "('k \<times> 'v) list \<Rightarrow> ('k \<times> 'v) list" where
  "dict_build kvs = foldl (\<lambda>d (k, v). dict_set k v d) [] kvs"

definition dict_get :: "'k \<Rightarrow> ('k \<times> pyval) list \<Rightarrow> pyval" where
  "dict_get k d = (case map_of d k of None \<Rightarrow> PNone | Some v \<Rightarrow> v)"

lemma keys_dict_set:
  "map fst (dict_set k v d) = (if k \<in> fst ` set d then map fst d else map fst d @ [k])"
  by (induction k v d rule: dict_set.induct) auto

lemma distinct_dict_set: "distinct (map fst d) \<Longrightarrow> distinct (map fst (dict_set k v d))"
  by (simp add: keys_dict_set)

lemma set_dict_set: "set (dict_set k v d) \<subseteq> insert (k, v) (set d)"
  by (induction k v d rule: dict_set.induct) auto

lemma dict_set_new: "k \<notin> fst ` set d \<Longrightarrow> dict_set k v d = d @ [(k, v)]"
  by (induction d) auto

lemma map_of_dict_set: "map_of (dict_set k v d) = (map_of d)(k \<mapsto> v)"
  by (induction d) auto

lemma dict_fold_distinct:
  "distinct (map fst d) \<Longrightarrow>
   distinct (map fst (foldl (\<lambda>d (k, v). dict_set k v d) d kvs))"
  by (induction kvs arbitrary: d) (auto simp: distinct_dict_set)

lemma distinct_dict_build: "distinct (map fst (dict_build kvs))"
  by (simp add: dict_build_def dict_fold_distinct)

lemma dict_fold_set:
  "set (foldl (\<lambda>d (k, v). dict_set k v d) d kvs) \<subseteq> set d \<union> set kvs"
proof (induction kvs arbitrary: d)
  case Nil
  then show ?case by simp
next
  case (Cons kv kvs)
  obtain k v where kv: "kv = (k, v)" by (cases kv)
  show ?case using Cons.IH [of "dict_set k v d"] set_dict_set [of k v d] kv by auto
qed

lemma set_dict_build: "set (dict_build kvs) \<subseteq> set kvs"
  using dict_fold_set [of "[]" kvs] by (simp add: dict_build_def)

lemma dict_fold_id:
  "distinct (map fst (d @ kvs)) \<Longrightarrow> foldl (\<lambda>d (k, v). dict_set k v d) d kvs = d @ kvs"
proof (induction kvs arbitrary: d)
  case Nil
  then show ?case by simp
next
  case (Cons kv kvs)
  obtain k v where kv: "kv = (k, v)" by (cases kv)
  have "k \<notin> fst ` set d" using Cons.prems kv by auto
  then show ?case using Cons.IH [of "d @ [(k, v)]"] Cons.prems kv by (simp add: dict_set_new)
qed

lemma dict_build_id: "distinct (map fst kvs) \<Longrightarrow> dict_build kvs = kvs"
  using dict_fold_id [of "[]" kvs] by (simp add: dict_build_def)

text \<open>
  Characters stand for the code points below 256. \<open>str.strip\<close> drops the white space of that
  range, \<open>str.lower\<close> changes its letters.
\<close>

definition is_space :: "char \<Rightarrow> bool" where
  "is_space c = (let n = of_char c :: nat
                 in (9 \<le> n \<and> n \<le> 13) \<or> (28 \<le> n \<and> n \<le> 32) \<or> n = 133 \<or> n = 160)"

definition py_strip :: "string \<Rightarrow> string" where
  "py_strip t = rev (dropWhile is_space (rev (dropWhile is_space t)))"

definition lower_char :: "char \<Rightarrow> char" where
  "lower_char c = (let n = of_char c :: nat
     in if (65 \<le> n \<and> n \<le> 90) \<or> (192 \<le> n \<and> n \<le> 222 \<and> n \<noteq> 215) then char_of (n + 32) else c)"

definition py_lower :: "string \<Rightarrow> string" where
  "py_lower t = map lower_char t"

fun py_startswith :: "string \<Rightarrow> string \<Rightarrow> bool" where
  "py_startswith t [] = True"
| "py_startswith [] (p # ps) = False"
| "py_startswith (c # t) (p # ps) = (c = p \<and> py_startswith t ps)"

fun py_contains :: "string \<Rightarrow> string \<Rightarrow> bool" where
  "py_contains [] p = (p = [])"
| "py_contains (c # t) p = (py_startswith (c # t) p \<or> py_contains t p)"

fun py_join :: "string \<Rightarrow> string list \<Rightarrow> string" where
  "py_join sep [] = []"
| "py_join sep [t] = t"
| "py_join sep (t # u # ts) = t @ sep @ py_join sep (u # ts)"

definition digit_char :: "nat \<Rightarrow> char" where
  "digit_char d = char_of (48 + d)"

fun str_of_nat :: "nat \<Rightarrow> string" where
  "str_of_nat n = (if n < 10 then [digit_char n] else str_of_nat (n div 10) @ [digit_char (n mod 10)])"

declare str_of_nat.simps [simp del]

definition str_of_int :: "int \<Rightarrow> string" where
  "str_of_int i = (if i < 0 then CHR ''-'' # str_of_nat (nat (- i)) else str_of_nat (nat i))"

lemma py_startswith_iff: "py_startswith t p \<longleftrightarrow> (\<exists>r. t = p @ r)"
  by (induction t p rule: py_startswith.induct) auto

lemma py_contains_iff: "py_contains t p \<longleftrightarrow> (\<exists>a b. t = a @ p @ b)"
proof (induction t p rule: py_contains.induct)
  case (1 p)
  then show ?case by auto
next
  case (2 c t p)
  show ?case
  proof
    assume "py_contains (c # t) p"
    then consider "\<exists>r. c # t = p @ r" | "\<exists>a b. t = a @ p @ b"
      using 2 by (auto simp: py_startswith_iff)
    then show "\<exists>a b. c # t = a @ p @ b"
      by cases (metis append_Nil, metis append_Cons)
  next
    assume "\<exists>a b. c # t = a @ p @ b"
    then obtain a b where ab: "c # t = a @ p @ b" by blast
    show "py_contains (c # t) p"
    proof (cases a)
      case Nil
      then have "py_startswith (c # t) p" using ab by (simp add: py_startswith_iff)
      then show ?thesis by simp
    next
      case (Cons x xs)
      then show ?thesis using ab 2 by auto
    qed
  qed
qed

lemma py_contains_prefix: "py_contains (take n t) p \<Longrightarrow> py_contains t p"
proof -
  assume "py_contains (take n t) p"
  then obtain a b where "take n t = a @ p @ b" by (auto simp: py_contains_iff)
  then have "t = a @ p @ (b @ drop n t)" by (metis append.assoc append_take_drop_id)
  then show ?thesis unfolding py_contains_iff by blast
qed

lemma digit_char_inj: "a < 10 \<Longrightarrow> b < 10 \<Longrightarrow> digit_char a = digit_char b \<Longrightarrow> a = b"
proof -
  assume a: "a < 10" and b: "b < 10" and eq: "digit_char a = digit_char b"
  have "of_char (digit_char a) = (of_char (digit_char b) :: nat)" using eq by simp
  then have "(48 + a) mod 256 = (48 + b) mod 256"
    unfolding digit_char_def of_char_of by simp
  then show "a = b" using a b by simp
qed

lemma str_of_nat_inject: "str_of_nat m = str_of_nat n \<longleftrightarrow> m = n"
proof
  show "str_of_nat m = str_of_nat n \<Longrightarrow> m = n"
  proof (induction m arbitrary: n rule: less_induct)
    case (less m)
    show ?case
    proof (cases "m < 10 \<or> n < 10")
      case True
      have ne: "str_of_nat k \<noteq> []" for k by (subst str_of_nat.simps) simp
      show ?thesis
        using True less.prems ne [of "m div 10"] ne [of "n div 10"]
        by (auto simp: str_of_nat.simps [of m] str_of_nat.simps [of n] dest: digit_char_inj
            split: if_splits)
    next
      case False
      then have "str_of_nat (m div 10) = str_of_nat (n div 10)"
        and "digit_char (m mod 10) = digit_char (n mod 10)"
        using less.prems by (auto simp: str_of_nat.simps [of m] str_of_nat.simps [of n])
      then have "m div 10 = n div 10" "m mod 10 = n mod 10"
        using less.IH [of "m div 10" "n div 10"] False
          digit_char_inj [of "m mod 10" "n mod 10"] by auto
      then show ?thesis by (metis div_mod_decomp)
    qed
  qed
qed simp

lemma py_strip_nonempty_iff: "py_strip t \<noteq> [] \<longleftrightarrow> (\<exists>c \<in> set t. \<not> is_space c)"
  by (auto simp: py_strip_def dropWhile_eq_Nil_conv dest: set_dropWhileD)
    (metis dropWhile_eq_Nil_conv set_dropWhileD hd_dropWhile list.set_sel(1))

section \<open>Exceptions and operations\<close>

datatype error =
    PermissionError string
  | PermissionDenied string
  | ValidationError string
  | FieldError string string
  | ValueError string
  | ResourceConflict pydict
  | VersionConflict pydict
  | IntegrityError string
  | DataError string
  | TransactionManagementError
  | DoesNotExist string
  | MultipleObjectsReturned string
  | ZoneInfoNotFoundError string
  | KeyError string
  | TypeError string
  | AttributeError string
  | InvalidOperation string
  | OverflowError string
  | Does_not_return
  | PaperImportError string string

type_synonym ('s, 'a) op = "'s \<Rightarrow> (error + 'a) \<times> 's"

definition atomic :: "('s, 'a) op \<Rightarrow> ('s, 'a) op" where
  "atomic m s = (case m s of (Inl e, _) \<Rightarrow> (Inl e, s) | (Inr x, s') \<Rightarrow> (Inr x, s'))"

definition bind_op :: "('s, 'a) op \<Rightarrow> ('a \<Rightarrow> ('s, 'b) op) \<Rightarrow> ('s, 'b) op" where
  "bind_op m f s = (case m s of (Inl e, s') \<Rightarrow> (Inl e, s') | (Inr x, s') \<Rightarrow> f x s')"

definition ok :: "'a \<Rightarrow> ('s, 'a) op" where
  "ok x s = (Inr x, s)"

definition raise :: "error \<Rightarrow> ('s, 'a) op" where
  "raise e s = (Inl e, s)"

definition guard :: "bool \<Rightarrow> error \<Rightarrow> ('s, unit) op" where
  "guard b e s = (if b then (Inr (), s) else (Inl e, s))"

definition lift_res :: "error + 'a \<Rightarrow> ('s, 'a) op" where
  "lift_res r s = (r, s)"

definition of_option :: "error \<Rightarrow> 'a option \<Rightarrow> ('s, 'a) op" where
  "of_option e x s = (case x of None \<Rightarrow> (Inl e, s) | Some y \<Rightarrow> (Inr y, s))"

fun for_each :: "('a \<Rightarrow> ('s, unit) op) \<Rightarrow> 'a list \<Rightarrow> ('s, unit) op" where
  "for_each f [] s = (Inr (), s)"
| "for_each f (x # xs) s = (case f x s of (Inl e, s') \<Rightarrow> (Inl e, s') | (Inr _, s') \<Rightarrow> for_each f xs s')"

definition void :: "('s, 'a) op \<Rightarrow> ('s, unit) op" where
  "void m s = (case m s of (Inl e, s') \<Rightarrow> (Inl e, s') | (Inr _, s') \<Rightarrow> (Inr (), s'))"

lemma snd_void [simp]: "snd (void m s) = snd (m s)"
  by (simp add: void_def split: prod.splits sum.splits)

lemmas op_defs = ok_def raise_def guard_def lift_res_def of_option_def
declare op_defs [op_simps]

lemma ok_inv [op_simps]: "ok x s = (r, s') \<longleftrightarrow> r = Inr x \<and> s' = s"
  by (auto simp: ok_def)

lemma bind_op_Inr: "bind_op m f s = (Inr y, s') \<longleftrightarrow> (\<exists>x t. m s = (Inr x, t) \<and> f x t = (Inr y, s'))"
  by (auto simp: bind_op_def split: prod.splits sum.splits)

lemma atomic_Inr [simp]: "atomic m s = (Inr x, s') \<longleftrightarrow> m s = (Inr x, s')"
  by (auto simp: atomic_def split: prod.splits sum.splits)

lemma atomic_Inl [simp]: "atomic m s = (Inl e, s') \<longleftrightarrow> s' = s \<and> (\<exists>t. m s = (Inl e, t))"
  by (auto simp: atomic_def split: prod.splits sum.splits)

lemma fst_atomic [simp]: "fst (atomic m s) = fst (m s)"
  by (auto simp: atomic_def split: prod.splits sum.splits)

end
