(* ===== verification/Tables.thy ===== *)
theory Tables
  imports Prelude
begin

text \<open>
  The database as the services see it through the object-relational mapper. A table is the
  list of its rows under their primary keys, in insertion order, and the next value of its key
  sequence. \<open>objects.create\<close> is \<open>tbl_insert\<close>, \<open>get(pk=...)\<close> is \<open>tbl_get\<close>,
  \<open>instance.save()\<close> is \<open>tbl_put\<close> (an update of the row with that key, an insert when there is
  none), \<open>queryset.update\<close> is \<open>tbl_update_where\<close>, \<open>filter\<close> is \<open>tbl_filter\<close> and
  \<open>delete\<close> is \<open>tbl_delete\<close>.

  The locale \<open>keyed_store\<close> is what the components rely on: lookups after each write, and
  that a key handed out is new. It is interpreted on these tables as \<open>tbl\<close>.
\<close>

record 'a table =
  tbl_rows :: "(pk \<times> 'a) list"
  tbl_next :: pk

definition tbl_empty :: "'a table" where
  "tbl_empty = \<lparr>tbl_rows = [], tbl_next = 1\<rparr>"

definition tbl_get :: "'a table \<Rightarrow> pk \<Rightarrow> 'a option" where
  "tbl_get t k = map_of (tbl_rows t) k"

definition tbl_insert :: "'a \<Rightarrow> 'a table \<Rightarrow> 'a table" where
  "tbl_insert r t = t\<lparr>tbl_rows := tbl_rows t @ [(tbl_next t, r)], tbl_next := Suc (tbl_next t)\<rparr>"

definition tbl_put :: "pk \<Rightarrow> 'a \<Rightarrow> 'a table \<Rightarrow> 'a table" where
  "tbl_put k r t = t\<lparr>tbl_rows := dict_set k r (tbl_rows t), tbl_next := max (tbl_next t) (Suc k)\<rparr>"

definition tbl_delete :: "pk \<Rightarrow> 'a table \<Rightarrow> 'a table" where
  "tbl_delete k t = t\<lparr>tbl_rows := filter (\<lambda>(k', _). k' \<noteq> k) (tbl_rows t)\<rparr>"

definition tbl_update_where :: "(pk \<Rightarrow> 'a \<Rightarrow> bool) \<Rightarrow> ('a \<Rightarrow> 'a) \<Rightarrow> 'a table \<Rightarrow> 'a table" where
  "tbl_update_where p f t =
     t\<lparr>tbl_rows := map (\<lambda>(k, r). (k, if p k r then f r else r)) (tbl_rows t)\<rparr>"

definition tbl_filter :: "(pk \<Rightarrow> 'a \<Rightarrow> bool) \<Rightarrow> 'a table \<Rightarrow> (pk \<times> 'a) list" where
  "tbl_filter p t = filter (\<lambda>(k, r). p k r) (tbl_rows t)"

definition tbl_exists :: "(pk \<Rightarrow> 'a \<Rightarrow> bool) \<Rightarrow> 'a table \<Rightarrow> bool" where
  "tbl_exists p t = list_ex (\<lambda>(k, r). p k r) (tbl_rows t)"

definition tbl_count :: "(pk \<Rightarrow> 'a \<Rightarrow> bool) \<Rightarrow> 'a table \<Rightarrow> nat" where
  "tbl_count p t = length (tbl_filter p t)"

text \<open>\<open>queryset.first()\<close> of an unordered query: the row with the least key.\<close>

fun min_key :: "(pk \<times> 'a) list \<Rightarrow> (pk \<times> 'a) option" where
  "min_key [] = None"
| "min_key ((k, r) # rs) =
     (case min_key rs of None \<Rightarrow> Some (k, r) | Some (k', r') \<Rightarrow> if k \<le> k' then Some (k, r) else Some (k', r'))"

definition tbl_first :: "(pk \<Rightarrow> 'a \<Rightarrow> bool) \<Rightarrow> 'a table \<Rightarrow> (pk \<times> 'a) option" where
  "tbl_first p t = min_key (tbl_filter p t)"

definition tbl_wf :: "'a table \<Rightarrow> bool" where
  "tbl_wf t \<longleftrightarrow> distinct (map fst (tbl_rows t)) \<and> (\<forall>k \<in> fst ` set (tbl_rows t). k < tbl_next t)"

lemma rows_insert [simp]: "tbl_rows (tbl_insert r t) = tbl_rows t @ [(tbl_next t, r)]"
  and next_insert [simp]: "tbl_next (tbl_insert r t) = Suc (tbl_next t)"
  by (simp_all add: tbl_insert_def)

lemma rows_put [simp]: "tbl_rows (tbl_put k r t) = dict_set k r (tbl_rows t)"
  by (simp add: tbl_put_def)

lemma rows_update_where [simp]:
  "tbl_rows (tbl_update_where p f t) = map (\<lambda>(k, r). (k, if p k r then f r else r)) (tbl_rows t)"
  and next_update_where [simp]: "tbl_next (tbl_update_where p f t) = tbl_next t"
  by (simp_all add: tbl_update_where_def)

lemma tbl_exists_iff: "tbl_exists p t \<longleftrightarrow> (\<exists>(k, r) \<in> set (tbl_rows t). p k r)"
  by (simp add: tbl_exists_def list_ex_iff)

lemma set_tbl_filter: "(k, r) \<in> set (tbl_filter p t) \<longleftrightarrow> (k, r) \<in> set (tbl_rows t) \<and> p k r"
  by (simp add: tbl_filter_def)

lemma tbl_getD: "tbl_get t k = Some r \<Longrightarrow> (k, r) \<in> set (tbl_rows t)"
  by (simp add: tbl_get_def map_of_SomeD)

lemma tbl_get_iff: "tbl_wf t \<Longrightarrow> tbl_get t k = Some r \<longleftrightarrow> (k, r) \<in> set (tbl_rows t)"
  by (auto simp: tbl_get_def tbl_wf_def map_of_eq_Some_iff)

lemma tbl_get_None: "tbl_get t k = None \<longleftrightarrow> k \<notin> fst ` set (tbl_rows t)"
  by (simp add: tbl_get_def map_of_eq_None_iff)

lemma tbl_get_update_where:
  "tbl_get (tbl_update_where p f t) k = map_option (\<lambda>r. if p k r then f r else r) (tbl_get t k)"
proof -
  have "map_of (map (\<lambda>(k, r). (k, if p k r then f r else r)) d) k =
      map_option (\<lambda>r. if p k r then f r else r) (map_of d k)" for d
    by (induction d) auto
  then show ?thesis by (simp add: tbl_get_def)
qed

lemma min_key_in: "min_key rs = Some kr \<Longrightarrow> kr \<in> set rs"
  by (induction rs arbitrary: kr rule: min_key.induct) (auto split: option.splits if_splits)

lemma min_key_None: "min_key rs = None \<longleftrightarrow> rs = []"
  by (induction rs rule: min_key.induct) (auto split: option.splits)

lemma tbl_firstD: "tbl_first p t = Some (k, r) \<Longrightarrow> (k, r) \<in> set (tbl_rows t) \<and> p k r"
  by (auto simp: tbl_first_def tbl_filter_def dest: min_key_in)

lemma tbl_first_None: "tbl_first p t = None \<longleftrightarrow> \<not> tbl_exists p t"
  by (auto simp: tbl_first_def tbl_filter_def min_key_None tbl_exists_iff filter_empty_conv)

lemma map_fst_update_where [simp]:
  "map fst (tbl_rows (tbl_update_where p f t)) = map fst (tbl_rows t)"
  by (auto simp: comp_def case_prod_unfold)

lemma fst_set_dict_set: "fst ` set (dict_set k r d) = insert k (fst ` set d)"
  by (metis image_set keys_dict_set set_append list.simps(15) empty_set insert_absorb insert_is_Un sup_commute)

lemma wf_tbl_empty: "tbl_wf tbl_empty"
  by (simp add: tbl_wf_def tbl_empty_def)

lemma wf_tbl_insert: "tbl_wf t \<Longrightarrow> tbl_wf (tbl_insert r t)"
  by (auto simp: tbl_wf_def less_Suc_eq)

lemma wf_tbl_put: "tbl_wf t \<Longrightarrow> tbl_wf (tbl_put k r t)"
  by (auto simp: tbl_wf_def tbl_put_def distinct_dict_set fst_set_dict_set less_max_iff_disj)

lemma wf_tbl_update_where: "tbl_wf t \<Longrightarrow> tbl_wf (tbl_update_where p f t)"
  by (force simp: tbl_wf_def simp del: rows_update_where simp flip: set_map)

lemma wf_tbl_delete: "tbl_wf t \<Longrightarrow> tbl_wf (tbl_delete k t)"
  by (force simp: tbl_wf_def tbl_delete_def intro: distinct_map_filter)

section \<open>The interface\<close>

locale keyed_store =
  fixes empty :: 't
    and get :: "'t \<Rightarrow> nat \<Rightarrow> 'r option"
    and fresh :: "'t \<Rightarrow> nat"
    and add :: "'r \<Rightarrow> 't \<Rightarrow> 't"
    and put :: "nat \<Rightarrow> 'r \<Rightarrow> 't \<Rightarrow> 't"
    and del :: "nat \<Rightarrow> 't \<Rightarrow> 't"
    and wf :: "'t \<Rightarrow> bool"
  assumes get_empty: "get empty k = None"
    and wf_empty: "wf empty"
    and wf_add: "wf t \<Longrightarrow> wf (add r t)"
    and wf_put: "wf t \<Longrightarrow> wf (put k r t)"
    and wf_del: "wf t \<Longrightarrow> wf (del k t)"
    and get_add: "wf t \<Longrightarrow> get (add r t) = (get t)(fresh t \<mapsto> r)"
    and get_put: "wf t \<Longrightarrow> get (put k r t) = (get t)(k \<mapsto> r)"
    and get_del: "wf t \<Longrightarrow> get (del k t) = (get t)(k := None)"
    and fresh_new: "wf t \<Longrightarrow> get t (fresh t) = None"
    and fresh_add: "wf t \<Longrightarrow> fresh t < fresh (add r t)"
    and fresh_put: "wf t \<Longrightarrow> fresh t \<le> fresh (put k r t)"
    and fresh_del: "wf t \<Longrightarrow> fresh t \<le> fresh (del k t)"
    and below_fresh: "wf t \<Longrightarrow> get t k = Some r \<Longrightarrow> k < fresh t"
begin

lemma get_add_new: "wf t \<Longrightarrow> get (add r t) (fresh t) = Some r"
  by (simp add: get_add)

lemma get_add_old: "wf t \<Longrightarrow> get t k = Some r' \<Longrightarrow> get (add r t) k = Some r'"
  using below_fresh [of t k r'] by (auto simp: get_add)

lemma get_put_same: "wf t \<Longrightarrow> get (put k r t) k = Some r"
  by (simp add: get_put)

lemma get_put_other: "wf t \<Longrightarrow> k' \<noteq> k \<Longrightarrow> get (put k r t) k' = get t k'"
  by (simp add: get_put)

text \<open>A key is never given out twice, not even after its row is deleted.\<close>

lemma key_not_reused: "wf t \<Longrightarrow> fresh (del (fresh t) (add r t)) \<noteq> fresh t"
  using fresh_add [of t r] fresh_del [of "add r t" "fresh t"] wf_add [of t r] by simp

lemma add_keys_differ: "wf t \<Longrightarrow> fresh (add r t) \<noteq> fresh t"
  using fresh_add [of t r] by simp

end

lemma map_of_filter_neq: "map_of (filter (\<lambda>(k', _). k' \<noteq> k) d) = (map_of d)(k := None)"
  by (induction d) (auto simp: fun_eq_iff)

lemma tbl_get_fun: "tbl_get t = map_of (tbl_rows t)"
  by (simp add: fun_eq_iff tbl_get_def)

lemma map_of_snoc: "k \<notin> fst ` set d \<Longrightarrow> map_of (d @ [(k, r)]) = (map_of d)(k \<mapsto> r)"
  by (induction d) (auto simp: fun_eq_iff)

interpretation tbl: keyed_store tbl_empty tbl_get tbl_next tbl_insert tbl_put tbl_delete tbl_wf
proof unfold_locales
  fix t :: "'a table" and r :: 'a and k
  show "tbl_get tbl_empty k = (None :: 'a option)" by (simp add: tbl_get_def tbl_empty_def)
  show "tbl_wf (tbl_empty :: 'a table)" by (rule wf_tbl_empty)
  show "tbl_wf t \<Longrightarrow> tbl_wf (tbl_insert r t)" by (rule wf_tbl_insert)
  show "tbl_wf t \<Longrightarrow> tbl_wf (tbl_put k r t)" by (rule wf_tbl_put)
  show "tbl_wf t \<Longrightarrow> tbl_wf (tbl_delete k t)" by (rule wf_tbl_delete)
  show "tbl_wf t \<Longrightarrow> tbl_get t (tbl_next t) = None"
    by (auto simp: tbl_wf_def tbl_get_None)
  show "tbl_wf t \<Longrightarrow> tbl_get (tbl_insert r t) = (tbl_get t)(tbl_next t \<mapsto> r)"
    unfolding tbl_get_fun rows_insert by (rule map_of_snoc) (auto simp: tbl_wf_def)
  show "tbl_wf t \<Longrightarrow> tbl_get (tbl_put k r t) = (tbl_get t)(k \<mapsto> r)"
    by (simp add: tbl_get_def map_of_dict_set fun_eq_iff)
  show "tbl_wf t \<Longrightarrow> tbl_get (tbl_delete k t) = (tbl_get t)(k := None)"
    by (simp add: tbl_get_def tbl_delete_def map_of_filter_neq fun_eq_iff)
  show "tbl_wf t \<Longrightarrow> tbl_next t < tbl_next (tbl_insert r t)" by simp
  show "tbl_wf t \<Longrightarrow> tbl_next t \<le> tbl_next (tbl_put k r t)" by (simp add: tbl_put_def)
  show "tbl_wf t \<Longrightarrow> tbl_next t \<le> tbl_next (tbl_delete k t)" by (simp add: tbl_delete_def)
  show "tbl_wf t \<Longrightarrow> tbl_get t k = Some r \<Longrightarrow> k < tbl_next t"
    by (force simp: tbl_wf_def dest: tbl_getD)
qed

section \<open>Sums over rows\<close>

text \<open>
  \<open>row_sum p f t\<close> is the aggregate \<open>Sum\<close> of \<open>f\<close> over the rows that \<open>p\<close> selects (0, not
  null, when there are none: the code writes \<open>or 0\<close>).
\<close>

definition row_sum :: "(pk \<Rightarrow> 'a \<Rightarrow> bool) \<Rightarrow> ('a \<Rightarrow> int) \<Rightarrow> 'a table \<Rightarrow> int" where
  "row_sum p f t = sum_list (map (\<lambda>(k, r). f r) (tbl_filter p t))"

lemma row_sum_alt: "row_sum p f t = (\<Sum>(k, r) \<leftarrow> tbl_rows t. if p k r then f r else 0)"
  by (auto simp: row_sum_def tbl_filter_def sum_list_map_filter' case_prod_unfold)

lemma row_sum_insert:
  "row_sum p f (tbl_insert r t) = row_sum p f t + (if p (tbl_next t) r then f r else 0)"
  by (simp add: row_sum_alt)

lemma dict_set_sum:
  "distinct (map fst d) \<Longrightarrow>
   (\<Sum>(k', r') \<leftarrow> dict_set k r d. g k' r') =
   (\<Sum>(k', r') \<leftarrow> d. if k' = k then 0 else g k' r') + (g k r :: int)"
proof (induction d)
  case Nil
  then show ?case by simp
next
  case (Cons kr d)
  obtain k0 r0 where kr: "kr = (k0, r0)" by (cases kr)
  have "k0 = k \<Longrightarrow> (\<Sum>(k', r') \<leftarrow> d. if k' = k then 0 else g k' r') = (\<Sum>(k', r') \<leftarrow> d. g k' r')"
    using Cons.prems kr by (intro arg_cong [where f = sum_list] map_cong) force+
  then show ?case using Cons kr by simp
qed

lemma row_sum_put:
  "tbl_wf t \<Longrightarrow>
   row_sum p f (tbl_put k r t) = row_sum (\<lambda>k' r'. k' \<noteq> k \<and> p k' r') f t + (if p k r then f r else 0)"
  unfolding row_sum_alt rows_put
  by (subst dict_set_sum) (auto simp: tbl_wf_def intro!: arg_cong [where f = sum_list])

lemma row_sum_mono:
  assumes "\<And>k r. (k, r) \<in> set (tbl_rows t) \<Longrightarrow> p k r \<Longrightarrow> q k r"
    and "\<And>k r. (k, r) \<in> set (tbl_rows t) \<Longrightarrow> q k r \<Longrightarrow> 0 \<le> f r"
  shows "row_sum p f t \<le> row_sum q f t"
  unfolding row_sum_alt using assms by (intro sum_list_mono) fastforce

lemma row_sum_nonneg:
  "(\<And>k r. (k, r) \<in> set (tbl_rows t) \<Longrightarrow> p k r \<Longrightarrow> 0 \<le> f r) \<Longrightarrow> 0 \<le> row_sum p f t"
  unfolding row_sum_alt by (intro sum_list_nonneg) auto

lemma row_sum_cong:
  assumes "\<And>k r. (k, r) \<in> set (tbl_rows t) \<Longrightarrow> p k r = q k r"
  shows "row_sum p f t = row_sum q f t"
  unfolding row_sum_alt using assms by (intro arg_cong [where f = sum_list] map_cong) auto

lemma row_sum_update_where:
  assumes "\<And>k r. (k, r) \<in> set (tbl_rows t) \<Longrightarrow> c k r \<Longrightarrow> \<not> p k (g r) \<or> (p k r \<and> f (g r) = f r)"
    and "\<And>k r. (k, r) \<in> set (tbl_rows t) \<Longrightarrow> p k r \<Longrightarrow> 0 \<le> f r"
  shows "row_sum p f (tbl_update_where c g t) \<le> row_sum p f t"
  unfolding row_sum_alt rows_update_where map_map comp_def case_prod_unfold
  using assms by (intro sum_list_mono) (fastforce split: prod.splits)

section \<open>Unique constraints\<close>

text \<open>
  A (partial) unique constraint is a key of the row, \<open>None\<close> where the constraint's condition
  does not hold. \<open>key_taken\<close> is the test the database makes for a new row, \<open>unique_on\<close> what the
  constraint promises of the table.
\<close>

definition key_taken :: "('a \<Rightarrow> 'k option) \<Rightarrow> 'a \<Rightarrow> 'a table \<Rightarrow> bool" where
  "key_taken f r t \<longleftrightarrow> f r \<noteq> None \<and> tbl_exists (\<lambda>_ r'. f r' = f r) t"

definition key_taken_by_other :: "('a \<Rightarrow> 'k option) \<Rightarrow> pk \<Rightarrow> 'a \<Rightarrow> 'a table \<Rightarrow> bool" where
  "key_taken_by_other f k r t \<longleftrightarrow> f r \<noteq> None \<and> tbl_exists (\<lambda>k' r'. k' \<noteq> k \<and> f r' = f r) t"

definition unique_on :: "('a \<Rightarrow> 'k option) \<Rightarrow> 'a table \<Rightarrow> bool" where
  "unique_on f t \<longleftrightarrow>
     (\<forall>k r k' r' key. (k, r) \<in> set (tbl_rows t) \<longrightarrow> (k', r') \<in> set (tbl_rows t)
        \<longrightarrow> f r = Some key \<longrightarrow> f r' = Some key \<longrightarrow> k = k')"

lemma unique_onD:
  "unique_on f t \<Longrightarrow> (k, r) \<in> set (tbl_rows t) \<Longrightarrow> (k', r') \<in> set (tbl_rows t)
   \<Longrightarrow> f r = Some key \<Longrightarrow> f r' = Some key \<Longrightarrow> k = k'"
  unfolding unique_on_def by blast

lemma unique_on_empty: "unique_on f tbl_empty"
  by (simp add: unique_on_def tbl_empty_def)

lemma unique_on_insert:
  assumes u: "unique_on f t" and n: "\<not> key_taken f r t"
  shows "unique_on f (tbl_insert r t)"
proof -
  have "f r' \<noteq> Some key" if "(k', r') \<in> set (tbl_rows t)" "f r = Some key" for k' r' key
    using n that by (force simp: key_taken_def tbl_exists_iff)
  then show ?thesis
    using u unfolding unique_on_def rows_insert set_append
    by (metis Un_iff Pair_inject list.set_intros(1) set_ConsD empty_iff empty_set)
qed

lemma set_dict_set_iff:
  "distinct (map fst d) \<Longrightarrow> set (dict_set k v d) = {(k', v') \<in> set d. k' \<noteq> k} \<union> {(k, v)}"
  by (induction k v d rule: dict_set.induct) force+

lemma set_rows_put:
  "tbl_wf t \<Longrightarrow> set (tbl_rows (tbl_put k r t)) = {(k', r') \<in> set (tbl_rows t). k' \<noteq> k} \<union> {(k, r)}"
  by (simp add: set_dict_set_iff tbl_wf_def)

lemma unique_on_put:
  assumes u: "unique_on f t" and wf: "tbl_wf t" and n: "\<not> key_taken_by_other f k r t"
  shows "unique_on f (tbl_put k r t)"
proof -
  have new: "f r' \<noteq> Some key" if "(k', r') \<in> set (tbl_rows t)" "k' \<noteq> k" "f r = Some key" for k' r' key
    using n that by (force simp: key_taken_by_other_def tbl_exists_iff)
  show ?thesis
    unfolding unique_on_def set_rows_put [OF wf]
    using u new unfolding unique_on_def by blast
qed

text \<open>Saving a row whose key did not change, or that left the constraint's condition.\<close>

lemma key_kept_not_taken:
  assumes "unique_on f t" "tbl_get t k = Some r0" "f r = None \<or> f r = f r0"
  shows "\<not> key_taken_by_other f k r t"
  using assms tbl_getD [of t k r0] unfolding key_taken_by_other_def tbl_exists_iff
  by (auto dest: unique_onD)

lemma unique_on_update_where:
  assumes u: "unique_on f t"
    and keep: "\<And>k r. (k, r) \<in> set (tbl_rows t) \<Longrightarrow> c k r \<Longrightarrow> f (g r) = None \<or> f (g r) = f r"
  shows "unique_on f (tbl_update_where c g t)"
proof -
  have old: "\<exists>r0. (k, r0) \<in> set (tbl_rows t) \<and> f r0 = Some key"
    if "(k, r) \<in> set (tbl_rows (tbl_update_where c g t))" "f r = Some key" for k r key
    using that keep by (force split: if_splits)
  show ?thesis
    unfolding unique_on_def using old u unfolding unique_on_def by metis
qed

section \<open>The first row of a query\<close>

lemma min_key_least: "min_key rs = Some (k, r) \<Longrightarrow> (k', r') \<in> set rs \<Longrightarrow> k \<le> k'"
proof (induction rs arbitrary: k r)
  case (Cons x rs)
  show ?case
  proof (cases "min_key rs")
    case None
    then show ?thesis using Cons.prems by (cases x) (auto simp: min_key_None)
  next
    case (Some y)
    then show ?thesis using Cons.prems Cons.IH [of "fst y" "snd y"]
      by (cases x; cases y) (auto split: if_splits)
  qed
qed simp

lemma tbl_first_iff:
  assumes wf: "tbl_wf t"
  shows "tbl_first p t = Some (k, r) \<longleftrightarrow>
    (k, r) \<in> set (tbl_rows t) \<and> p k r \<and> (\<forall>(k', r') \<in> set (tbl_rows t). p k' r' \<longrightarrow> k \<le> k')"
    (is "?l = ?r")
proof
  assume ?l
  then show ?r using tbl_firstD [of p t k r] min_key_least [of "tbl_filter p t" k r]
    by (auto simp: tbl_first_def set_tbl_filter)
next
  assume r: ?r
  have "min_key (tbl_filter p t) \<noteq> None"
    using r unfolding min_key_None by (auto simp: tbl_filter_def filter_empty_conv)
  then obtain k' r' where f: "min_key (tbl_filter p t) = Some (k', r')" by auto
  then have f': "(k', r') \<in> set (tbl_rows t)" "p k' r'"
    using min_key_in [OF f] by (simp_all add: set_tbl_filter)
  have "k' \<le> k" using min_key_least [OF f, of k r] r by (simp add: set_tbl_filter)
  moreover have "k \<le> k'" using r f' by blast
  ultimately have "k = k'" by simp
  moreover have "r = r'"
    using f'(1) r \<open>k = k'\<close> tbl_get_iff [OF wf, of k r] tbl_get_iff [OF wf, of k' r'] by simp
  ultimately show ?l using f by (simp add: tbl_first_def)
qed

lemma tbl_first_put:
  assumes "tbl_wf t" "tbl_first p t = Some (k, r)" "p k r'"
  shows "tbl_first p (tbl_put k r' t) = Some (k, r')"
  using assms set_rows_put [OF assms(1), of k r']
  by (auto simp: tbl_first_iff tbl.wf_put)

lemma tbl_first_insert:
  assumes "tbl_first p t = None" "p (tbl_next t) r"
  shows "tbl_first p (tbl_insert r t) = Some (tbl_next t, r)"
proof -
  have "tbl_filter p t = []" using assms(1) by (simp add: tbl_first_def min_key_None)
  then show ?thesis using assms(2) by (simp add: tbl_first_def tbl_filter_def)
qed

lemma tbl_first_insert_other:
  assumes wf: "tbl_wf t" and f: "tbl_first p t = Some kr"
  shows "tbl_first p (tbl_insert r t) = Some kr"
proof -
  obtain k r0 where kr: "kr = (k, r0)" by (cases kr)
  have old: "(k, r0) \<in> set (tbl_rows t)" "p k r0" "\<forall>(k', r') \<in> set (tbl_rows t). p k' r' \<longrightarrow> k \<le> k'"
    using f unfolding kr tbl_first_iff [OF wf] by blast+
  moreover have "k \<le> tbl_next t" using old(1) wf by (force simp: tbl_wf_def)
  ultimately show ?thesis unfolding kr tbl_first_iff [OF tbl.wf_add [OF wf]] by simp
qed

lemma tbl_first_single:
  assumes wf: "tbl_wf t" and r: "(k, r) \<in> set (tbl_rows t)" "p k r"
    and single: "\<And>k' r'. (k', r') \<in> set (tbl_rows t) \<Longrightarrow> p k' r' \<Longrightarrow> k' = k"
  shows "tbl_first p t = Some (k, r)"
  unfolding tbl_first_iff [OF wf] using r by (auto dest: single)

end
