(* ===== verification/Interfaces.thy ===== *)
theory Interfaces
  imports Tables
begin

text \<open>
  The contracts several operations of the services share. A service call is an \<open>op\<close>; the
  locales say what its caller may rely on, and their lemmas are proved once for every operation
  that keeps the contract.

  \<^item> \<open>transactional\<close>: a call that raises leaves the database as it was
    (\<open>@transaction.atomic\<close> around the whole body).
  \<^item> \<open>invariant_call\<close>: a transactional call whose successful runs keep an invariant.
  \<^item> \<open>optimistic_update\<close>: a call that carries the version the client read, is refused when
    the record has moved on, and moves it on when it succeeds. No update is lost.
  \<^item> \<open>retry_safe\<close>: repeating a call that succeeded returns the same result and writes nothing.
  \<^item> \<open>command_system\<close>: a family of commands that keep an invariant, lifted to runs.
\<close>

locale transactional =
  fixes run :: "('s, 'a) op"
  assumes rollback: "run s = (Inl e, s') \<Longrightarrow> s' = s"
begin

lemma error_keeps_state: "fst (run s) = Inl e \<Longrightarrow> snd (run s) = s"
  using rollback by (metis prod.collapse)

lemma changed_means_success: "snd (run s) \<noteq> s \<Longrightarrow> \<exists>x. run s = (Inr x, snd (run s))"
  by (metis error_keeps_state prod.collapse old.sum.exhaust)

end

locale invariant_call = transactional run for run :: "('s, 'a) op" +
  fixes inv :: "'s \<Rightarrow> bool"
  assumes keeps: "inv s \<Longrightarrow> run s = (Inr x, s') \<Longrightarrow> inv s'"
begin

lemma inv_after: "inv s \<Longrightarrow> inv (snd (run s))"
  by (metis error_keeps_state keeps prod.collapse old.sum.exhaust)

end

locale optimistic_update =
  fixes ver :: "'s \<Rightarrow> nat option"
    and run :: "nat \<Rightarrow> ('s, 'a) op"
    and inv :: "'s \<Rightarrow> bool"
  assumes stale_refused: "ver s \<noteq> Some v \<Longrightarrow> \<exists>e. run v s = (Inl e, s)"
    and moves_on: "inv s \<Longrightarrow> run v s = (Inr x, s') \<Longrightarrow> \<exists>v'. ver s' = Some v' \<and> v < v'"
begin

lemma success_had_version: "run v s = (Inr x, s') \<Longrightarrow> ver s = Some v"
  using stale_refused by (metis Pair_inject sum.distinct(1))

text \<open>Of two clients that read the same version, the second is refused.\<close>

lemma second_client_refused: "inv s \<Longrightarrow> run v s = (Inr x, s') \<Longrightarrow> \<exists>e. run v s' = (Inl e, s')"
  using moves_on stale_refused by (metis option.inject less_irrefl)

lemma version_grows: "inv s \<Longrightarrow> run v s = (Inr x, s') \<Longrightarrow> \<exists>v'. ver s = Some v \<and> ver s' = Some v' \<and> v < v'"
  using moves_on success_had_version by blast

end

locale retry_safe =
  fixes run :: "('s, 'a) op"
  assumes retry: "run s = (Inr x, s') \<Longrightarrow> run s' = (Inr x, s')"
begin

lemma retry_many: "run s = (Inr x, s') \<Longrightarrow> ((\<lambda>t. snd (run t)) ^^ n) s' = s'"
proof (induction n)
  case (Suc n)
  then show ?case using retry by simp
qed simp

end

fun run_all :: "('c \<Rightarrow> ('s, 'a) op) \<Rightarrow> 'c list \<Rightarrow> 's \<Rightarrow> 's" where
  "run_all step [] s = s"
| "run_all step (c # cs) s = run_all step cs (snd (step c s))"

locale command_system =
  fixes step :: "'c \<Rightarrow> ('s, 'a) op"
    and inv :: "'s \<Rightarrow> bool"
  assumes step_inv: "inv s \<Longrightarrow> inv (snd (step c s))"
begin

lemma run_inv: "inv s \<Longrightarrow> inv (run_all step cs s)"
  by (induction cs arbitrary: s) (simp_all add: step_inv)

lemma run_append: "run_all step (cs @ ds) s = run_all step ds (run_all step cs s)"
  by (induction cs arbitrary: s) simp_all

end

text \<open>An atomic block is transactional, whatever its body.\<close>

lemma atomic_transactional: "transactional (atomic m)"
  by unfold_locales simp

end
