(* ===== verification/Calendar.thy ===== *)
theory Calendar
  imports Prelude
begin

text \<open>
  Instants and days of Python's standard library. The settings fix \<open>TIME_ZONE = "UTC"\<close> and
  \<open>USE_TZ\<close>, so an aware datetime is an \<open>instant\<close> (microseconds since the epoch) and a date is a
  \<open>day\<close> (days since the epoch). \<open>civil_of_day\<close> is the proleptic Gregorian calendar of
  \<open>datetime.date\<close>; \<open>isoformat\<close> and \<open>str_of_day\<close> print the two as Python does.
\<close>

definition usec_per_second :: int where "usec_per_second = 1000000"
definition usec_per_minute :: int where "usec_per_minute = 60000000"
definition usec_per_hour :: int where "usec_per_hour = 3600000000"
definition usec_per_day :: int where "usec_per_day = 86400000000"

lemmas usec_defs = usec_per_second_def usec_per_minute_def usec_per_hour_def usec_per_day_def

definition date_of :: "instant \<Rightarrow> day" where
  "date_of t = t div usec_per_day"

definition time_of :: "instant \<Rightarrow> int" where
  "time_of t = t mod usec_per_day"

definition combine :: "day \<Rightarrow> int \<Rightarrow> instant" where
  "combine d tod = d * usec_per_day + tod"

definition time_max :: int where
  "time_max = usec_per_day - 1"

lemma combine_date_time: "combine (date_of t) (time_of t) = t"
  by (simp add: combine_def date_of_def time_of_def)

lemma date_of_combine: "0 \<le> tod \<Longrightarrow> tod < usec_per_day \<Longrightarrow> date_of (combine d tod) = d"
  by (simp add: combine_def date_of_def usec_per_day_def)

lemma time_of_combine: "0 \<le> tod \<Longrightarrow> tod < usec_per_day \<Longrightarrow> time_of (combine d tod) = tod"
  by (simp add: combine_def time_of_def usec_per_day_def)

lemma time_of_bounds: "0 \<le> time_of t" "time_of t < usec_per_day"
  by (simp_all add: time_of_def usec_per_day_def)

text \<open>
  The calendar counts from 1 March, in eras of 400 years: the year of the era from the day of the
  era, then the day of that year, then the month.
\<close>

definition year_of_era :: "int \<Rightarrow> int" where
  "year_of_era doe = (doe - doe div 1460 + doe div 36524 - doe div 146096) div 365"

definition month_of_year :: "int \<Rightarrow> int" where
  "month_of_year doy = (5 * doy + 2) div 153"

definition civil_of_march :: "int \<Rightarrow> int \<Rightarrow> int \<Rightarrow> int \<times> int \<times> int" where
  "civil_of_march y doy mp =
     (if mp < 10 then (y, mp + 3, doy - (153 * mp + 2) div 5 + 1)
      else (y + 1, mp - 9, doy - (153 * mp + 2) div 5 + 1))"

definition civil_of_year :: "int \<Rightarrow> int \<Rightarrow> int \<times> int \<times> int" where
  "civil_of_year y doy = civil_of_march y doy (month_of_year doy)"

definition civil_of_era :: "int \<Rightarrow> int \<Rightarrow> int \<Rightarrow> int \<times> int \<times> int" where
  "civil_of_era era doe yoe =
     civil_of_year (yoe + era * 400) (doe - (365 * yoe + yoe div 4 - yoe div 100))"

definition civil_of_shifted :: "int \<Rightarrow> int \<Rightarrow> int \<times> int \<times> int" where
  "civil_of_shifted era doe = civil_of_era era doe (year_of_era doe)"

definition civil_of_day :: "day \<Rightarrow> int \<times> int \<times> int" where
  "civil_of_day d = civil_of_shifted ((d + 719468) div 146097) ((d + 719468) mod 146097)"

lemmas civil_defs = civil_of_day_def civil_of_shifted_def civil_of_era_def civil_of_year_def
  civil_of_march_def month_of_year_def year_of_era_def

definition zero_fill :: "nat \<Rightarrow> string \<Rightarrow> string" where
  "zero_fill w t = replicate (w - length t) (CHR ''0'') @ t"

definition pad :: "nat \<Rightarrow> int \<Rightarrow> string" where
  "pad w i = zero_fill w (str_of_int i)"

definition str_of_civil :: "int \<times> int \<times> int \<Rightarrow> string" where
  "str_of_civil c = (case c of (y, m, dd) \<Rightarrow> pad 4 y @ ''-'' @ pad 2 m @ ''-'' @ pad 2 dd)"

definition str_of_day :: "day \<Rightarrow> string" where
  "str_of_day d = str_of_civil (civil_of_day d)"

definition str_of_usec :: "int \<Rightarrow> string" where
  "str_of_usec us = (if us = 0 then [] else ''.'' @ pad 6 us)"

definition str_of_clock :: "int \<Rightarrow> string" where
  "str_of_clock sec = pad 2 (sec div 3600) @ '':'' @ pad 2 (sec div 60 mod 60) @ '':'' @ pad 2 (sec mod 60)"

definition isoformat :: "instant \<Rightarrow> string" where
  "isoformat t =
     str_of_day (date_of t) @ ''T'' @ str_of_clock (time_of t div usec_per_second)
     @ str_of_usec (time_of t mod usec_per_second) @ ''+00:00''"

definition iso_or_none :: "instant option \<Rightarrow> pyval" where
  "iso_or_none t = (case t of None \<Rightarrow> PNone | Some u \<Rightarrow> PStr (isoformat u))"

lemma civil_of_day_epoch: "civil_of_day 0 = (1970, 1, 1)"
  by (simp add: civil_defs)

lemma civil_of_day_leap: "civil_of_day 19782 = (2024, 2, 29)" "civil_of_day 19783 = (2024, 3, 1)"
  by (simp_all add: civil_defs)

lemma isoformat_example: "isoformat 1709210096000001 = ''2024-02-29T12:34:56.000001+00:00''"
  by code_simp

end
