(* ===== verification/Accounts.thy ===== *)
theory Accounts
  imports Interfaces Calendar
begin

text \<open>
  The account model (\<open>apps/accounts/models.py\<close>) as far as the other components read it, and
  the part of the database every component shares: the accounts, the instant
  \<open>timezone.now()\<close> returns and the id of the request being served.

  An \<open>actor\<close> is the \<open>request.user\<close> object: the fields of an account, its id, and whether it is
  authenticated. An anonymous user is an actor that is not authenticated; the code reads no other
  attribute of it before it has checked that.
\<close>

datatype global_role = User_ADVISOR | User_STUDENT | User_ADMIN

datatype user_status =
    User_INVITED
  | User_PENDING_EMAIL_VERIFICATION
  | User_PENDING_ROLE_ACTIVATION
  | User_ACTIVE
  | User_SUSPENDED
  | User_ARCHIVED

datatype requested_role = Requested_STUDENT | Requested_TEACHER | Requested_ADMINISTRATOR | Requested_PENDING

record user =
  u_email :: string
  u_name :: string
  u_global_role :: global_role
  u_status :: user_status
  u_locale :: string
  u_requested_role :: requested_role
  u_active_role :: requested_role
  u_nickname :: string
  u_email_verified_at :: "instant option"
  u_is_superuser :: bool

record actor = user +
  u_id :: pk
  u_is_authenticated :: bool

fun global_role_value :: "global_role \<Rightarrow> string" where
  "global_role_value User_ADVISOR = ''advisor''"
| "global_role_value User_STUDENT = ''student''"
| "global_role_value User_ADMIN = ''admin''"

definition is_advisor :: "'a user_scheme \<Rightarrow> bool" where
  "is_advisor u \<longleftrightarrow> u_global_role u \<in> {User_ADVISOR, User_ADMIN}"

definition is_administrator :: "'a user_scheme \<Rightarrow> bool" where
  "is_administrator u \<longleftrightarrow> u_global_role u = User_ADMIN"

record core_db =
  db_now :: instant
  db_request_id :: string
  db_users :: "user table"

definition user_email :: "'a core_db_scheme \<Rightarrow> pk \<Rightarrow> string" where
  "user_email s k = (case tbl_get (db_users s) k of None \<Rightarrow> [] | Some u \<Rightarrow> u_email u)"

text \<open>The account verification, recovery and email-change records expire by the same rule.\<close>

definition IsActiveAccount :: "actor \<Rightarrow> bool" where
  "IsActiveAccount u \<longleftrightarrow> u_is_authenticated u \<and> u_status u = User_ACTIVE"

definition IsAdministrator :: "actor \<Rightarrow> bool" where
  "IsAdministrator u \<longleftrightarrow> u_is_authenticated u \<and> is_administrator u \<and> u_status u = User_ACTIVE"

end
