(* ===== verification/AuditTrail.thy ===== *)
theory AuditTrail
  imports Accounts
begin

text \<open>
  The audit trail (\<open>apps/audit/models.py\<close>, \<open>apps/audit/services.py\<close>): the event row, the
  redaction of snapshots, and the functions every service records its actions with.

  The lemmas show that a stored snapshot holds no denied key at any depth, that redaction is
  idempotent and bounds keys, strings and lists, and that recording appends one event and
  changes nothing else.
\<close>

datatype audit_category =
    AuditEvent_ACCOUNT_SECURITY
  | AuditEvent_ACCOUNT_GOVERNANCE
  | AuditEvent_PROJECT_GOVERNANCE
  | AuditEvent_SUBMISSION_REVIEW
  | AuditEvent_MATERIAL
  | AuditEvent_RESOURCE
  | AuditEvent_SCHEDULE
  | AuditEvent_NOTIFICATION
  | AuditEvent_AUDIT_ACCESS
  | AuditEvent_RELEASE_GOVERNANCE
  | AuditEvent_OTHER

datatype audit_outcome =
    AuditEvent_SUCCEEDED
  | AuditEvent_DENIED
  | AuditEvent_FAILED
  | AuditEvent_QUEUED

record audit_event =
  ae_project :: "pk option"
  ae_actor :: "pk option"
  ae_event_type :: string
  ae_target_type :: string
  ae_target_id :: string
  ae_target_snapshot :: pydict
  ae_category :: audit_category
  ae_outcome :: audit_outcome
  ae_reason :: string
  ae_correlation_id :: string
  ae_actor_snapshot :: pydict
  ae_redaction_version :: nat
  ae_summary :: string
  ae_created_at :: instant

record audit_db = core_db +
  db_audit :: "audit_event table"

section \<open>Redaction\<close>

definition REDACTION_VERSION :: nat where
  "REDACTION_VERSION = 1"

definition DENIED_KEYS :: "string list" where
  "DENIED_KEYS =
     [''authorization'', ''body'', ''bytes'', ''code'', ''content'', ''cookie'', ''csrf'', ''file'',
      ''password'', ''raw'', ''secret'', ''session'', ''token'']"

definition normalize_key :: "string \<Rightarrow> string" where
  "normalize_key k = map (\<lambda>c. if c = CHR ''-'' then CHR ''_'' else c) (py_lower k)"

definition is_denied_key :: "string \<Rightarrow> bool" where
  "is_denied_key k = list_ex (\<lambda>part. py_contains (normalize_key k) part) DENIED_KEYS"

lemma size_pydict_mem: "(k, v) \<in> set d \<Longrightarrow> size v < size (PDict d)"
proof (induction d)
  case (Cons a d)
  then show ?case by (cases a) auto
qed simp

lemma size_pylist_mem: "v \<in> set xs \<Longrightarrow> size v < size (PList xs)"
  by (induction xs) auto

function redact_value :: "pyval \<Rightarrow> pyval" where
  "redact_value (PDict d) =
     PDict (dict_build (map (\<lambda>(k, v). (take 100 k, redact_value v)) (filter (\<lambda>(k, v). \<not> is_denied_key k) d)))"
| "redact_value (PList xs) = PList (map redact_value (take 100 xs))"
| "redact_value (PStr t) = PStr (take 1000 t)"
| "redact_value PNone = PNone"
| "redact_value (PBool b) = PBool b"
| "redact_value (PInt i) = PInt i"
| "redact_value (PFloat t) = PFloat t"
| "redact_value (POther t) = PStr (take 1000 t)"
  by pat_completeness auto
termination
proof (relation "measure size", goal_cases)
  case (2 d kv k v)
  then show ?case using size_pydict_mem [of k v d] by (auto simp del: pyval.size)
next
  case (3 xs x)
  then show ?case using size_pylist_mem [of x xs] by (auto dest: in_set_takeD simp del: pyval.size)
qed simp

text \<open>\<open>redact_snapshot(snapshot, allowed_keys=...)\<close>; \<open>None\<close> for the set means every key.\<close>

definition redact_snapshot :: "pydict option \<Rightarrow> string set option \<Rightarrow> pydict" where
  "redact_snapshot snapshot allowed =
     (let source = (case snapshot of None \<Rightarrow> [] | Some d \<Rightarrow> d)
      in dict_build (map (\<lambda>(k, v). (take 100 k, redact_value v))
           (filter (\<lambda>(k, v). \<not> is_denied_key k \<and> (case allowed of None \<Rightarrow> True | Some ks \<Rightarrow> k \<in> ks)) source)))"

lemma normalize_take: "normalize_key (take n k) = take n (normalize_key k)"
  by (simp add: normalize_key_def py_lower_def take_map)

lemma denied_take: "is_denied_key (take n k) \<Longrightarrow> is_denied_key k"
  by (auto simp: is_denied_key_def list_ex_iff normalize_take dest: py_contains_prefix)

text \<open>What a redacted value promises, at every depth.\<close>

fun redacted :: "pyval \<Rightarrow> bool" where
  "redacted (PDict d) \<longleftrightarrow>
     distinct (map fst d) \<and> list_all (\<lambda>(k, v). \<not> is_denied_key k \<and> length k \<le> 100 \<and> redacted v) d"
| "redacted (PList xs) \<longleftrightarrow> length xs \<le> 100 \<and> list_all redacted xs"
| "redacted (PStr t) \<longleftrightarrow> length t \<le> 1000"
| "redacted (POther t) \<longleftrightarrow> False"
| "redacted v \<longleftrightarrow> True"

lemma redacted_dict_build:
  assumes "\<And>k v. (k, v) \<in> set d \<Longrightarrow> \<not> is_denied_key k \<and> redacted (redact_value v)"
  shows "redacted (PDict (dict_build (map (\<lambda>(k, v). (take 100 k, redact_value v)) d)))"
proof -
  have "\<not> is_denied_key k \<and> length k \<le> 100 \<and> redacted v"
    if kv: "(k, v) \<in> set (dict_build (map (\<lambda>(k, v). (take 100 k, redact_value v)) d))" for k v
  proof -
    from kv have "(k, v) \<in> set (map (\<lambda>(k, v). (take 100 k, redact_value v)) d)"
      using set_dict_build by blast
    then obtain k0 v0 where "(k0, v0) \<in> set d" "k = take 100 k0" "v = redact_value v0" by auto
    then show ?thesis using assms [of k0 v0] denied_take [of 100 k0] by auto
  qed
  then have "list_all (\<lambda>(k, v). \<not> is_denied_key k \<and> length k \<le> 100 \<and> redacted v)
      (dict_build (map (\<lambda>(k, v). (take 100 k, redact_value v)) d))"
    unfolding list_all_iff by blast
  then show ?thesis by (simp add: distinct_dict_build)
qed

lemma redact_value_redacted: "redacted (redact_value v)"
proof (induction v rule: redact_value.induct)
  case (1 d)
  have "redacted (PDict (dict_build (map (\<lambda>(k, v). (take 100 k, redact_value v))
      (filter (\<lambda>(k, v). \<not> is_denied_key k) d))))"
    by (rule redacted_dict_build) (use 1 in auto)
  then show ?case by simp
next
  case (2 xs)
  then show ?case by (auto simp: list_all_iff)
qed auto

lemma redact_fixpoint: "redacted v \<Longrightarrow> redact_value v = v"
proof (induction v rule: redact_value.induct)
  case (1 d)
  have f: "filter (\<lambda>(k, v). \<not> is_denied_key k) d = d"
    using "1.prems" by (auto simp: list_all_iff intro!: filter_True)
  have m: "map (\<lambda>(k, v). (take 100 k, redact_value v)) d = d"
    using "1.prems" "1.IH" by (intro map_idI) (force simp: list_all_iff f)
  show ?case using "1.prems" by (simp add: f m dict_build_id)
next
  case (2 xs)
  then have "map redact_value xs = xs" by (intro map_idI) (auto simp: list_all_iff)
  then show ?case using "2.prems" by simp
qed auto

lemma redact_snapshot_redacted: "redacted (PDict (redact_snapshot d allowed))"
  unfolding redact_snapshot_def Let_def
  by (rule redacted_dict_build) (auto simp: redact_value_redacted)

lemma redact_snapshot_again: "redact_snapshot (Some (redact_snapshot d allowed)) None = redact_snapshot d allowed"
proof -
  let ?r = "redact_snapshot d allowed"
  have r: "redacted (PDict ?r)" by (rule redact_snapshot_redacted)
  have "redact_value (PDict ?r) = PDict (redact_snapshot (Some ?r) None)"
    by (simp add: redact_snapshot_def)
  then show ?thesis using redact_fixpoint [OF r] by simp
qed

section \<open>Recording\<close>

text \<open>The target of an event: the model's class name and the primary key.\<close>

type_synonym target = "(string \<times> pk) option"

text \<open>The keyword arguments of \<open>record_event\<close> and their defaults.\<close>

record event_options =
  opt_target_snapshot :: "pydict option"
  opt_allowed_snapshot_keys :: "string set option"
  opt_category :: audit_category
  opt_outcome :: audit_outcome
  opt_reason :: string
  opt_correlation_id :: "string option"

definition event_defaults :: event_options where
  "event_defaults =
     \<lparr>opt_target_snapshot = None, opt_allowed_snapshot_keys = None, opt_category = AuditEvent_OTHER,
      opt_outcome = AuditEvent_SUCCEEDED, opt_reason = [], opt_correlation_id = None\<rparr>"

definition actor_snapshot :: "actor option \<Rightarrow> pydict" where
  "actor_snapshot actor =
     (case actor of None \<Rightarrow> []
      | Some a \<Rightarrow>
          if \<not> u_is_authenticated a then []
          else [(''id'', PInt (int (u_id a))), (''email'', PStr (take 254 (u_email a))),
                (''name'', PStr (take 255 (u_name a))),
                (''role'', PStr (take 30 (global_role_value (u_global_role a))))])"

definition event_actor :: "actor option \<Rightarrow> pk option" where
  "event_actor actor =
     (case actor of None \<Rightarrow> None | Some a \<Rightarrow> if u_is_authenticated a then Some (u_id a) else None)"

definition event_of ::
  "'a audit_db_scheme \<Rightarrow> pk option \<Rightarrow> actor option \<Rightarrow> string \<Rightarrow> string \<Rightarrow> target \<Rightarrow> event_options \<Rightarrow> audit_event"
where
  "event_of s project actor event_type summary target opts =
     \<lparr>ae_project = project,
      ae_actor = event_actor actor,
      ae_event_type = event_type,
      ae_target_type = (case target of None \<Rightarrow> [] | Some (cls, _) \<Rightarrow> cls),
      ae_target_id = (case target of None \<Rightarrow> [] | Some (_, k) \<Rightarrow> str_of_nat k),
      ae_target_snapshot = redact_snapshot (opt_target_snapshot opts) (opt_allowed_snapshot_keys opts),
      ae_category = opt_category opts,
      ae_outcome = opt_outcome opts,
      ae_reason = take 1000 (opt_reason opts),
      ae_correlation_id = take 64 (case opt_correlation_id opts of
          None \<Rightarrow> db_request_id s
        | Some c \<Rightarrow> if c = [] then db_request_id s else c),
      ae_actor_snapshot = actor_snapshot actor,
      ae_redaction_version = REDACTION_VERSION,
      ae_summary = summary,
      ae_created_at = db_now s\<rparr>"

definition record_event ::
  "pk option \<Rightarrow> actor option \<Rightarrow> string \<Rightarrow> string \<Rightarrow> target \<Rightarrow> event_options
   \<Rightarrow> 'a audit_db_scheme \<Rightarrow> 'a audit_db_scheme"
where
  "record_event project actor event_type summary target opts s =
     s\<lparr>db_audit := tbl_insert (event_of s project actor event_type summary target opts) (db_audit s)\<rparr>"

text \<open>The key the next recorded event gets.\<close>

definition next_event :: "'a audit_db_scheme \<Rightarrow> pk" where
  "next_event s = tbl_next (db_audit s)"

definition audited_mutation ::
  "('a audit_db_scheme, 'b) op \<Rightarrow> pk option \<Rightarrow> actor option \<Rightarrow> string \<Rightarrow> string
   \<Rightarrow> ('b \<Rightarrow> target) \<Rightarrow> ('b \<Rightarrow> event_options) \<Rightarrow> ('a audit_db_scheme, 'b) op"
where
  "audited_mutation mutation project actor event_type summary target opts =
     atomic (\<lambda>s. case mutation s of
        (Inl e, s') \<Rightarrow> (Inl e, s')
      | (Inr x, s') \<Rightarrow> (Inr x, record_event project actor event_type summary (target x) (opts x) s'))"

definition record_upload where
  "record_upload project actor target asset_type =
     record_event project actor (asset_type @ ''.uploaded'') (''Uploaded '' @ asset_type) target event_defaults"

definition record_download where
  "record_download project actor target asset_type =
     record_event project actor (asset_type @ ''.downloaded'') (''Downloaded '' @ asset_type) target event_defaults"

definition record_membership_change where
  "record_membership_change project actor target action =
     record_event project actor (''membership.'' @ action) (''Membership '' @ action) target event_defaults"

definition record_feedback_event where
  "record_feedback_event project actor target action =
     record_event project actor (''feedback.'' @ action) (''Feedback '' @ action) target event_defaults"

definition record_resource_decision where
  "record_resource_decision project actor target action =
     record_event project actor (''resource.'' @ action) (''Resource '' @ action) target event_defaults"

definition record_notification_status where
  "record_notification_status project actor target status =
     record_event project actor (''notification.'' @ status) (''Notification '' @ status) target event_defaults"

definition execution_state_keys :: "string set" where
  "execution_state_keys =
     {''status'', ''version'', ''requirementType'', ''outcomeState'', ''category'', ''severity'', ''dueAt''}"

definition record_execution_event ::
  "pk option \<Rightarrow> actor option \<Rightarrow> string \<Rightarrow> target \<Rightarrow> pydict option \<Rightarrow> bool
   \<Rightarrow> 'a audit_db_scheme \<Rightarrow> 'a audit_db_scheme"
where
  "record_execution_event project actor action target state privileged =
     record_event project actor (''execution.'' @ action) (''Research execution action: '' @ action) target
       (event_defaults\<lparr>opt_target_snapshot := Some (redact_snapshot state (Some execution_state_keys)),
          opt_category := (if privileged then AuditEvent_PROJECT_GOVERNANCE else AuditEvent_OTHER)\<rparr>)"

section \<open>Lemmas\<close>

lemma record_event_frame [simp]:
  "db_now (record_event p a t sm tg opts s) = db_now s"
  "db_request_id (record_event p a t sm tg opts s) = db_request_id s"
  "db_users (record_event p a t sm tg opts s) = db_users s"
  by (simp_all add: record_event_def)

lemma record_event_more [simp]:
  "audit_db.more (record_event p a t sm tg opts s) = audit_db.more s"
  by (simp add: record_event_def)

lemma record_execution_event_frame [simp]:
  "db_now (record_execution_event p a act tg st pr s) = db_now s"
  "db_users (record_execution_event p a act tg st pr s) = db_users s"
  "audit_db.more (record_execution_event p a act tg st pr s) = audit_db.more s"
  by (simp_all add: record_execution_event_def)

lemma rows_record_event:
  "tbl_rows (db_audit (record_event p a t sm tg opts s)) =
   tbl_rows (db_audit s) @ [(next_event s, event_of s p a t sm tg opts)]"
  by (simp add: record_event_def next_event_def)

text \<open>The snapshots stored in a trail that only \<open>record_event\<close> writes.\<close>

definition trail_redacted :: "'a audit_db_scheme \<Rightarrow> bool" where
  "trail_redacted s \<longleftrightarrow> (\<forall>(k, e) \<in> set (tbl_rows (db_audit s)). redacted (PDict (ae_target_snapshot e)))"

lemma trail_redacted_record_event:
  "trail_redacted s \<Longrightarrow> trail_redacted (record_event p a t sm tg opts s)"
  by (auto simp: trail_redacted_def rows_record_event event_of_def redact_snapshot_redacted
      simp del: redacted.simps)

lemma wf_record_event: "tbl_wf (db_audit s) \<Longrightarrow> tbl_wf (db_audit (record_event p a t sm tg opts s))"
  by (simp add: record_event_def tbl.wf_add)

end
