(* ===== verification/Common.thy ===== *)
theory Common
  imports AuditTrail
begin

text \<open>
  What the services share beyond the audit trail (\<open>apps/common/concurrency.py\<close>,
  \<open>apps/common/pagination.py\<close>): the optimistic version check, idempotent creation, and the
  bounds on page sizes and cursors.

  The lemmas show that an idempotent creation is safe to retry and that what a query parameter
  becomes is within the bounds the code names.
\<close>

section \<open>Concurrency\<close>

text \<open>
  \<open>require_expected_version\<close>: the conflict carries the state the caller chose to disclose, or the
  id and version of the record.
\<close>

definition require_expected_version :: "pk \<Rightarrow> nat \<Rightarrow> int \<Rightarrow> pydict option \<Rightarrow> error + unit" where
  "require_expected_version key version expected safe_state =
     (if int version \<noteq> expected
      then Inl (VersionConflict (case safe_state of
             Some d \<Rightarrow> d
           | None \<Rightarrow> [(''id'', PInt (int key)), (''version'', PInt (int version))]))
      else Inr ())"

text \<open>
  \<open>idempotent_mutation\<close>: \<open>lookup\<close> is the filter of the keyword arguments, as the row the query
  finds first. The mutation runs in its own savepoint, so an \<open>IntegrityError\<close> in it leaves
  the database as it was and the row is looked up again.
\<close>

definition idempotent_mutation :: "('s \<Rightarrow> 'b option) \<Rightarrow> ('s, 'b) op \<Rightarrow> ('s, 'b \<times> bool) op" where
  "idempotent_mutation lookup mutation = atomic (\<lambda>s.
     case lookup s of
       Some x \<Rightarrow> (Inr (x, False), s)
     | None \<Rightarrow>
        (case atomic mutation s of
           (Inl (IntegrityError c), s') \<Rightarrow>
             (case lookup s' of None \<Rightarrow> (Inl (DoesNotExist []), s') | Some x \<Rightarrow> (Inr (x, False), s'))
         | (Inl e, s') \<Rightarrow> (Inl e, s')
         | (Inr x, s') \<Rightarrow> (Inr (x, True), s')))"

lemma require_expected_version_Inr:
  "require_expected_version key version expected d = Inr u \<longleftrightarrow> int version = expected"
  by (simp add: require_expected_version_def)

lemma idempotent_mutation_existing: "lookup s = Some x \<Longrightarrow> idempotent_mutation lookup m s = (Inr (x, False), s)"
  by (simp add: idempotent_mutation_def atomic_def)

lemma idempotent_mutation_created:
  assumes "idempotent_mutation lookup m s = (Inr (x, c), s')"
    and "\<And>t y t'. m t = (Inr y, t') \<Longrightarrow> lookup t' = Some y"
  shows "lookup s' = Some x"
  using assms by (auto simp: idempotent_mutation_def split: option.splits sum.splits prod.splits error.splits)

text \<open>A retry finds the row the first call made, and writes nothing.\<close>

lemma idempotent_mutation_retry:
  assumes "idempotent_mutation lookup m s = (Inr (x, c), s')"
    and "\<And>t y t'. m t = (Inr y, t') \<Longrightarrow> lookup t' = Some y"
  shows "idempotent_mutation lookup m s' = (Inr (x, False), s')"
  using idempotent_mutation_created [OF assms] by (rule idempotent_mutation_existing)

section \<open>Query parameters\<close>

text \<open>
  \<open>int(text)\<close>: white space around, one sign, digits with single underscores between them.
\<close>

definition is_digit :: "char \<Rightarrow> bool" where
  "is_digit c \<longleftrightarrow> 48 \<le> (of_char c :: nat) \<and> (of_char c :: nat) \<le> 57"

fun py_digits :: "string \<Rightarrow> nat \<Rightarrow> nat option" where
  "py_digits [] n = Some n"
| "py_digits (c # t) n =
     (if is_digit c then py_digits t (10 * n + (of_char c - 48))
      else if c = CHR ''_'' \<and> t \<noteq> [] \<and> is_digit (hd t) then py_digits t n
      else None)"

definition py_unsigned :: "string \<Rightarrow> nat option" where
  "py_unsigned t = (if t = [] \<or> \<not> is_digit (hd t) then None else py_digits t 0)"

definition py_int :: "string \<Rightarrow> int option" where
  "py_int text =
     (case py_strip text of
        [] \<Rightarrow> None
      | c # t \<Rightarrow>
          if c = CHR ''-'' then map_option (\<lambda>n. - int n) (py_unsigned t)
          else if c = CHR ''+'' then map_option int (py_unsigned t)
          else map_option int (py_unsigned (c # t)))"

text \<open>A query parameter is the text of the request, \<open>None\<close> when it is absent.\<close>

definition bounded_page_size :: "string option \<Rightarrow> int \<Rightarrow> int \<Rightarrow> error + int" where
  "bounded_page_size value dflt maximum =
     (case value of
        None \<Rightarrow> Inr dflt
      | Some t \<Rightarrow>
          if t = [] then Inr dflt
          else case py_int t of
            None \<Rightarrow> Inl (ValidationError ''Page size must be an integer.'')
          | Some n \<Rightarrow>
              if \<not> (1 \<le> n \<and> n \<le> maximum)
              then Inl (ValidationError (''Page size must be between 1 and '' @ str_of_int maximum @ ''.''))
              else Inr n)"

definition parse_id_cursor :: "string option \<Rightarrow> error + int option" where
  "parse_id_cursor value =
     (case value of
        None \<Rightarrow> Inr None
      | Some t \<Rightarrow>
          if t = [] then Inr None
          else case py_int t of
            None \<Rightarrow> Inl (FieldError ''cursor'' ''Enter a valid audit cursor.'')
          | Some n \<Rightarrow> if n < 1 then Inl (FieldError ''cursor'' ''Enter a valid audit cursor.'') else Inr (Some n))"

record cursor_page =
  after_id :: "int option"
  page_size :: int

definition parse_bounded_cursor :: "string option \<Rightarrow> string option \<Rightarrow> int \<Rightarrow> int \<Rightarrow> error + cursor_page" where
  "parse_bounded_cursor value requested dflt maximum =
     (let after = (case value of
            None \<Rightarrow> Inr None
          | Some t \<Rightarrow>
              if t = [] then Inr None
              else case py_int t of
                None \<Rightarrow> Inl (FieldError ''cursor'' ''Cursor is invalid.'')
              | Some n \<Rightarrow> if n < 1 then Inl (FieldError ''cursor'' ''Cursor is invalid.'') else Inr (Some n))
      in case after of
           Inl e \<Rightarrow> Inl e
         | Inr a \<Rightarrow>
             (case bounded_page_size requested dflt maximum of
                Inl e \<Rightarrow> Inl e
              | Inr n \<Rightarrow> Inr \<lparr>after_id = a, page_size = n\<rparr>))"

definition bounded_period_count :: "string \<Rightarrow> int \<Rightarrow> error + int" where
  "bounded_period_count value maximum =
     (case py_int value of
        None \<Rightarrow> Inl (ValidationError ''Period count must be an integer.'')
      | Some n \<Rightarrow>
          if \<not> (1 \<le> n \<and> n \<le> maximum)
          then Inl (ValidationError (''Period count must be between 1 and '' @ str_of_int maximum @ ''.''))
          else Inr n)"

lemma py_int_examples:
  "py_int '' -1_000'' = Some (- 1000)" "py_int ''1__0'' = None" "py_int ''+'' = None" "py_int ''_1'' = None"
  by code_simp+

lemma bounded_page_size_bounds:
  "1 \<le> dflt \<Longrightarrow> dflt \<le> maximum \<Longrightarrow> bounded_page_size v dflt maximum = Inr n \<Longrightarrow> 1 \<le> n \<and> n \<le> maximum"
  by (auto simp: bounded_page_size_def split: option.splits if_splits)

lemma parse_bounded_cursor_bounds:
  assumes "1 \<le> dflt" "dflt \<le> maximum" "parse_bounded_cursor v requested dflt maximum = Inr p"
  shows "1 \<le> page_size p \<and> page_size p \<le> maximum \<and> (\<forall>a. after_id p = Some a \<longrightarrow> 1 \<le> a)"
  using assms bounded_page_size_bounds [OF assms(1,2)]
  by (auto simp: parse_bounded_cursor_def Let_def split: option.splits if_splits sum.splits)

text \<open>Printing a count and reading it back.\<close>

lemma of_char_digit: "d < 10 \<Longrightarrow> of_char (digit_char d) = (48 + d :: nat)"
  unfolding digit_char_def of_char_of by simp

lemma is_digit_digit_char: "d < 10 \<Longrightarrow> is_digit (digit_char d)"
  by (simp add: is_digit_def of_char_digit)

lemma py_digits_append:
  "list_all is_digit t \<Longrightarrow> py_digits (t @ [digit_char d]) n =
     (if d < 10 then map_option (\<lambda>m. 10 * m + d) (py_digits t n) else py_digits (t @ [digit_char d]) n)"
  by (induction t n rule: py_digits.induct) (auto simp: of_char_digit is_digit_digit_char)

lemma str_of_nat_digits: "list_all is_digit (str_of_nat n) \<and> str_of_nat n \<noteq> []"
proof (induction n rule: less_induct)
  case (less n)
  show ?case
  proof (cases "n < 10")
    case True
    then show ?thesis by (simp add: str_of_nat.simps [of n] is_digit_digit_char)
  next
    case False
    then show ?thesis
      using less.IH [of "n div 10"] by (simp add: str_of_nat.simps [of n] is_digit_digit_char)
  qed
qed

lemma py_digits_str_of_nat: "py_digits (str_of_nat n) 0 = Some n"
proof (induction n rule: less_induct)
  case (less n)
  show ?case
  proof (cases "n < 10")
    case True
    then show ?thesis by (simp add: str_of_nat.simps [of n] is_digit_digit_char of_char_digit)
  next
    case False
    have "str_of_nat n = str_of_nat (n div 10) @ [digit_char (n mod 10)]"
      using False by (simp add: str_of_nat.simps [of n])
    then show ?thesis
      using less.IH [of "n div 10"] False str_of_nat_digits [of "n div 10"]
      by (simp add: py_digits_append)
  qed
qed

lemma digit_not_space: "is_digit c \<Longrightarrow> \<not> is_space c"
  by (auto simp: is_digit_def is_space_def Let_def)

lemma py_strip_digits: "list_all is_digit t \<Longrightarrow> py_strip t = t"
proof -
  assume t: "list_all is_digit t"
  have d: "dropWhile is_space u = u" if "list_all is_digit u" for u
    using that by (cases u) (auto dest: digit_not_space)
  show ?thesis using t d [of t] d [of "rev t"] by (simp add: py_strip_def)
qed

lemma py_int_str_of_nat: "py_int (str_of_nat n) = Some (int n)"
proof -
  obtain c t where ct: "str_of_nat n = c # t" using str_of_nat_digits [of n] by (cases "str_of_nat n") auto
  have dig: "is_digit c" using str_of_nat_digits [of n] ct by simp
  have "c \<noteq> CHR ''-''" "c \<noteq> CHR ''+''" using dig by (auto simp: is_digit_def)
  then show ?thesis
    using str_of_nat_digits [of n] py_digits_str_of_nat [of n] dig
    by (simp add: py_int_def py_strip_digits ct py_unsigned_def)
qed

end
