(* ===== verification/Projects.thy ===== *)
theory Projects
  imports Common
begin

text \<open>
  Projects, memberships and what a member may do (\<open>apps/projects/models.py\<close>,
  \<open>apps/projects/access_services.py\<close>, the project guards of \<open>apps/common\<close>).

  \<open>project_capabilities\<close> is the table of rights every other service asks. The lemmas bound it:
  an account that is not active holds nothing, a hold or an archived project freezes every
  write, and each write right belongs to the role the code names.
\<close>

datatype project_status = ResearchProject_ACTIVE | ResearchProject_ARCHIVED

datatype governance_state = ResearchProject_NORMAL | ResearchProject_HOLD

datatype governance_hold_reason =
    ResearchProject_NO_REASON
  | ResearchProject_OWNER_INELIGIBLE
  | ResearchProject_LEGACY_ADMIN_OWNER
  | ResearchProject_MIGRATION_CONFLICT
  | ResearchProject_MANUAL_CORRECTION

record research_project =
  rp_title :: string
  rp_description :: string
  rp_advisor :: pk
  rp_status :: project_status
  rp_starts_on :: "day option"
  rp_ends_on :: "day option"
  rp_archived_at :: "instant option"
  rp_governance_state :: governance_state
  rp_governance_hold_reason :: governance_hold_reason
  rp_governance_hold_started_at :: "instant option"
  rp_governance_hold_resolved_at :: "instant option"
  rp_governance_hold_resolved_by :: "pk option"
  rp_governance_hold_resolution_reason :: string
  rp_governance_version :: nat
  rp_created_at :: instant
  rp_updated_at :: instant

datatype membership_role =
    ProjectMembership_ADVISOR
  | ProjectMembership_CO_ADVISOR
  | ProjectMembership_STUDENT
  | ProjectMembership_REVIEWER
  | ProjectMembership_OBSERVER

datatype membership_status = ProjectMembership_ACTIVE | ProjectMembership_REMOVED

record project_membership =
  pm_project :: pk
  pm_user :: pk
  pm_role :: membership_role
  pm_status :: membership_status
  pm_joined_at :: instant
  pm_removed_at :: "instant option"
  pm_assigned_by :: "pk option"
  pm_assignment_reason :: string
  pm_role_changed_at :: "instant option"
  pm_version :: nat

record project_db = audit_db +
  db_projects :: "research_project table"
  db_memberships :: "project_membership table"

text \<open>The two partial unique constraints of the membership table.\<close>

definition unique_active_project_membership :: "project_membership table \<Rightarrow> bool" where
  "unique_active_project_membership t \<longleftrightarrow>
     distinct (map (\<lambda>(k, m). (pm_project m, pm_user m)) (tbl_filter (\<lambda>k m. pm_status m = ProjectMembership_ACTIVE) t))"

definition unique_active_primary_advisor :: "project_membership table \<Rightarrow> bool" where
  "unique_active_primary_advisor t \<longleftrightarrow>
     distinct (map (\<lambda>(k, m). pm_project m) (tbl_filter (\<lambda>k m. pm_status m = ProjectMembership_ACTIVE
        \<and> pm_role m = ProjectMembership_ADVISOR) t))"

section \<open>Access\<close>

definition is_active_account :: "actor \<Rightarrow> bool" where
  "is_active_account u \<longleftrightarrow>
     u_is_authenticated u \<and> u_status u = User_ACTIVE \<and> u_email_verified_at u \<noteq> None"

definition active_membership :: "'a project_db_scheme \<Rightarrow> actor \<Rightarrow> pk \<Rightarrow> (pk \<times> project_membership) option" where
  "active_membership s u project =
     (if \<not> is_active_account u then None
      else tbl_first (\<lambda>k m. pm_project m = project \<and> pm_user m = u_id u
             \<and> pm_status m = ProjectMembership_ACTIVE) (db_memberships s))"

definition is_project_administrator :: "actor \<Rightarrow> bool" where
  "is_project_administrator u \<longleftrightarrow> is_active_account u \<and> is_administrator u"

fun membership_role_value :: "membership_role \<Rightarrow> string" where
  "membership_role_value ProjectMembership_ADVISOR = ''advisor''"
| "membership_role_value ProjectMembership_CO_ADVISOR = ''co_advisor''"
| "membership_role_value ProjectMembership_STUDENT = ''student''"
| "membership_role_value ProjectMembership_REVIEWER = ''reviewer''"
| "membership_role_value ProjectMembership_OBSERVER = ''observer''"

record capabilities =
  cap_role :: string
  canViewProject :: bool
  canSuperviseGovernance :: bool
  canResolveGovernanceHold :: bool
  canManageProject :: bool
  canEditProject :: bool
  canArchiveProject :: bool
  canReopenProject :: bool
  canDeleteProject :: bool
  canManageMembers :: bool
  canManageCollaborators :: bool
  canTransferOwnership :: bool
  canAssignReviews :: bool
  canReviewAssignedTargets :: bool
  canCreateTasks :: bool
  canUpdateTasks :: bool
  canMutateProjectWork :: bool
  canViewExecutionSummary :: bool
  canManageMilestones :: bool
  canManageDeliverables :: bool
  canSubmitAssignedDeliverables :: bool
  canRecommendDeliverables :: bool
  canDecideDeliverables :: bool
  canManageReportTemplates :: bool
  canViewReportAnalytics :: bool
  canPublishDecisions :: bool
  canRaiseRisks :: bool
  canTriageRisks :: bool
  canManageProjectNotificationPolicy :: bool
  canViewExecutionOperations :: bool
  canParticipateInExecution :: bool
  isReadOnly :: bool
  cap_governanceState :: governance_state
  cap_governanceHoldReason :: governance_hold_reason
  cap_deleteDisabledReason :: string

text \<open>The rights as a function of what the code derives them from.\<close>

definition capabilities_of ::
  "membership_role option \<Rightarrow> bool \<Rightarrow> research_project \<Rightarrow> capabilities" where
  "capabilities_of role administrator project =
     (let held = (rp_governance_state project = ResearchProject_HOLD);
          active = (rp_status project = ResearchProject_ACTIVE);
          membership = (role \<noteq> None);
          primary = (role = Some ProjectMembership_ADVISOR);
          co_advisor = (role = Some ProjectMembership_CO_ADVISOR);
          reviewer = (role = Some ProjectMembership_REVIEWER);
          student = (role = Some ProjectMembership_STUDENT);
          manager = (primary \<or> co_advisor);
          can_view = (membership \<or> administrator);
          can_write_execution = (manager \<and> active \<and> \<not> held);
          can_participate = ((membership \<and> active \<and> \<not> held) \<or> administrator)
      in \<lparr>cap_role = (if administrator then ''administrator''
                     else case role of None \<Rightarrow> [] | Some r \<Rightarrow> membership_role_value r),
          canViewProject = can_view,
          canSuperviseGovernance = administrator,
          canResolveGovernanceHold = (administrator \<and> held),
          canManageProject = (manager \<and> \<not> held),
          canEditProject = (manager \<and> active \<and> \<not> held),
          canArchiveProject = (primary \<and> active \<and> \<not> held),
          canReopenProject = (primary \<and> \<not> active \<and> \<not> held),
          canDeleteProject = (primary \<and> \<not> held),
          canManageMembers = ((manager \<or> administrator) \<and> active \<and> \<not> held),
          canManageCollaborators = ((primary \<or> administrator) \<and> active \<and> \<not> held),
          canTransferOwnership = ((primary \<or> administrator) \<and> \<not> held),
          canAssignReviews = ((manager \<or> administrator) \<and> active \<and> \<not> held),
          canReviewAssignedTargets = (primary \<or> co_advisor \<or> reviewer \<or> administrator),
          canCreateTasks = (manager \<and> active \<and> \<not> held),
          canUpdateTasks = ((manager \<or> student) \<and> active \<and> \<not> held),
          canMutateProjectWork = (manager \<and> active \<and> \<not> held),
          canViewExecutionSummary = can_view,
          canManageMilestones = can_write_execution,
          canManageDeliverables = can_write_execution,
          canSubmitAssignedDeliverables = (student \<and> active \<and> \<not> held),
          canRecommendDeliverables = ((primary \<or> co_advisor \<or> reviewer) \<and> active \<and> \<not> held),
          canDecideDeliverables = (manager \<and> active \<and> \<not> held),
          canManageReportTemplates = (primary \<and> active \<and> \<not> held),
          canViewReportAnalytics = can_view,
          canPublishDecisions = (manager \<and> active \<and> \<not> held),
          canRaiseRisks = (membership \<and> role \<noteq> Some ProjectMembership_OBSERVER \<and> active \<and> \<not> held),
          canTriageRisks = (manager \<and> active \<and> \<not> held),
          canManageProjectNotificationPolicy = (primary \<and> active \<and> \<not> held),
          canViewExecutionOperations = administrator,
          canParticipateInExecution = (can_participate \<and> \<not> administrator),
          isReadOnly = (can_view \<and> \<not> manager \<and> \<not> student),
          cap_governanceState = rp_governance_state project,
          cap_governanceHoldReason = rp_governance_hold_reason project,
          cap_deleteDisabledReason = (if held then ''governance_hold'' else [])\<rparr>)"

definition project_capabilities :: "'a project_db_scheme \<Rightarrow> actor \<Rightarrow> pk \<Rightarrow> research_project \<Rightarrow> capabilities" where
  "project_capabilities s u pid project =
     capabilities_of (map_option (\<lambda>(k, m). pm_role m) (active_membership s u pid))
       (is_project_administrator u) project"

definition can_access_project :: "'a project_db_scheme \<Rightarrow> actor \<Rightarrow> pk \<Rightarrow> research_project \<Rightarrow> bool" where
  "can_access_project s u pid project = canViewProject (project_capabilities s u pid project)"

section \<open>The project guards of the common package\<close>

definition user_is_project_member :: "'a project_db_scheme \<Rightarrow> actor \<Rightarrow> pk \<Rightarrow> bool" where
  "user_is_project_member s u pid \<longleftrightarrow>
     u_is_authenticated u \<and>
     tbl_exists (\<lambda>k m. pm_user m = u_id u \<and> pm_project m = pid \<and> pm_status m = ProjectMembership_ACTIVE)
       (db_memberships s)"

definition user_has_project_role :: "'a project_db_scheme \<Rightarrow> actor \<Rightarrow> pk \<Rightarrow> membership_role set \<Rightarrow> bool" where
  "user_has_project_role s u pid roles \<longleftrightarrow>
     u_is_authenticated u \<and>
     tbl_exists (\<lambda>k m. pm_user m = u_id u \<and> pm_project m = pid \<and> pm_status m = ProjectMembership_ACTIVE
        \<and> pm_role m \<in> roles) (db_memberships s)"

datatype visibility = PROJECT_MEMBERS | GROUP_WIDE

definition user_is_active_project_member :: "'a project_db_scheme \<Rightarrow> actor \<Rightarrow> pk \<Rightarrow> bool" where
  "user_is_active_project_member s u pid = user_is_project_member s u pid"

definition can_access_asset :: "'a project_db_scheme \<Rightarrow> actor \<Rightarrow> pk \<Rightarrow> visibility \<Rightarrow> bool" where
  "can_access_asset s u pid vis \<longleftrightarrow>
     (if \<not> u_is_authenticated u then False
      else if u_is_superuser u \<or> is_administrator u then True
      else if vis = GROUP_WIDE then True
      else user_is_active_project_member s u pid)"

text \<open>\<open>filter_visible_assets\<close>: an asset is its project and its visibility.\<close>

definition filter_visible_assets ::
  "'a project_db_scheme \<Rightarrow> ('b \<Rightarrow> pk) \<Rightarrow> ('b \<Rightarrow> visibility) \<Rightarrow> 'b list \<Rightarrow> actor \<Rightarrow> 'b list" where
  "filter_visible_assets s project vis assets u =
     filter (\<lambda>a. can_access_asset s u (project a) (vis a)) assets"

definition require_project_member :: "actor \<Rightarrow> pk \<Rightarrow> ('a project_db_scheme, unit) op" where
  "require_project_member u pid s =
     guard (user_is_active_project_member s u pid) (PermissionDenied ''You are not a member of this project'') s"

definition require_project_reviewer :: "actor \<Rightarrow> pk \<Rightarrow> ('a project_db_scheme, unit) op" where
  "require_project_reviewer u pid s =
     guard (is_administrator u \<or>
            tbl_exists (\<lambda>k m. pm_user m = u_id u \<and> pm_project m = pid \<and> pm_status m = ProjectMembership_ACTIVE
              \<and> pm_role m \<in> {ProjectMembership_ADVISOR, ProjectMembership_CO_ADVISOR, ProjectMembership_REVIEWER})
              (db_memberships s))
       (PermissionDenied ''You cannot review records in this project'') s"

section \<open>Lemmas\<close>

text \<open>The rights that let their holder change something.\<close>

definition write_rights :: "capabilities \<Rightarrow> bool list" where
  "write_rights c =
     [canManageProject c, canEditProject c, canArchiveProject c, canReopenProject c, canDeleteProject c,
      canManageMembers c, canManageCollaborators c, canTransferOwnership c, canAssignReviews c,
      canCreateTasks c, canUpdateTasks c, canMutateProjectWork c, canManageMilestones c,
      canManageDeliverables c, canSubmitAssignedDeliverables c, canRecommendDeliverables c,
      canDecideDeliverables c, canManageReportTemplates c, canPublishDecisions c, canRaiseRisks c,
      canTriageRisks c, canManageProjectNotificationPolicy c]"

definition all_rights :: "capabilities \<Rightarrow> bool list" where
  "all_rights c =
     write_rights c @
     [canViewProject c, canSuperviseGovernance c, canResolveGovernanceHold c, canReviewAssignedTargets c,
      canViewExecutionSummary c, canViewReportAnalytics c, canViewExecutionOperations c,
      canParticipateInExecution c, isReadOnly c]"

lemma hold_freezes_writes:
  "rp_governance_state p = ResearchProject_HOLD \<Longrightarrow> True \<notin> set (write_rights (capabilities_of r a p))"
  by (simp add: capabilities_of_def write_rights_def Let_def)

lemma outsider_has_no_right: "True \<notin> set (all_rights (capabilities_of None False p))"
  by (simp add: capabilities_of_def all_rights_def write_rights_def Let_def)

lemma inactive_account_no_membership: "\<not> is_active_account u \<Longrightarrow> active_membership s u pid = None"
  by (simp add: active_membership_def)

lemma active_membershipD:
  "active_membership s u pid = Some (k, m) \<Longrightarrow>
   (k, m) \<in> set (tbl_rows (db_memberships s)) \<and> pm_project m = pid \<and> pm_user m = u_id u
   \<and> pm_status m = ProjectMembership_ACTIVE \<and> is_active_account u"
  by (auto simp: active_membership_def dest: tbl_firstD split: if_splits)

lemma project_capabilities_frame [simp]:
  "project_capabilities (record_event p a t sm tg opts s) u pid proj = project_capabilities s u pid proj"
  by (simp add: project_capabilities_def active_membership_def record_event_def)

text \<open>The writes on execution records are for the managing roles of an active, free project.\<close>

lemma execution_write_rights:
  "canManageMilestones (capabilities_of r a p) \<longleftrightarrow>
   r \<in> {Some ProjectMembership_ADVISOR, Some ProjectMembership_CO_ADVISOR}
   \<and> rp_status p = ResearchProject_ACTIVE \<and> rp_governance_state p \<noteq> ResearchProject_HOLD"
  "canManageDeliverables (capabilities_of r a p) = canManageMilestones (capabilities_of r a p)"
  "canDecideDeliverables (capabilities_of r a p) = canManageMilestones (capabilities_of r a p)"
  "canTriageRisks (capabilities_of r a p) = canManageMilestones (capabilities_of r a p)"
  "canPublishDecisions (capabilities_of r a p) = canManageMilestones (capabilities_of r a p)"
  by (auto simp: capabilities_of_def Let_def)

end
