(* ===== verification/NotificationModel.thy ===== *)
theory NotificationModel
  imports Projects
begin

text \<open>
  The notification tables (\<open>apps/notifications/models.py\<close>) and what they are created under:
  the notification settings, the time-zone data the standard library reads (\<open>zone_db\<close>, a
  parameter: the data is not part of the repository), and the registry of action resolvers.
\<close>

datatype notification_category =
    Notification_SECURITY
  | Notification_PROJECT
  | Notification_DELIVERABLE
  | Notification_REPORT
  | Notification_DECISION
  | Notification_RISK
  | Notification_SCHEDULE
  | Notification_ADMINISTRATION

definition category_choices :: "notification_category list" where
  "category_choices =
     [Notification_SECURITY, Notification_PROJECT, Notification_DELIVERABLE, Notification_REPORT,
      Notification_DECISION, Notification_RISK, Notification_SCHEDULE, Notification_ADMINISTRATION]"

fun category_value :: "notification_category \<Rightarrow> string" where
  "category_value Notification_SECURITY = ''security''"
| "category_value Notification_PROJECT = ''project''"
| "category_value Notification_DELIVERABLE = ''deliverable''"
| "category_value Notification_REPORT = ''report''"
| "category_value Notification_DECISION = ''decision''"
| "category_value Notification_RISK = ''risk''"
| "category_value Notification_SCHEDULE = ''schedule''"
| "category_value Notification_ADMINISTRATION = ''administration''"

definition category_of_value :: "string \<Rightarrow> notification_category option" where
  "category_of_value v = find (\<lambda>c. category_value c = v) category_choices"

datatype requirement_type =
    Notification_INFORMATIONAL
  | Notification_ACKNOWLEDGEMENT
  | Notification_ACTION

datatype outcome_state =
    Notification_NOT_REQUIRED
  | Notification_OUTCOME_PENDING
  | Notification_ACKNOWLEDGED
  | Notification_COMPLETED
  | Notification_EXPIRED
  | Notification_UNAVAILABLE

fun outcome_value :: "outcome_state \<Rightarrow> string" where
  "outcome_value Notification_NOT_REQUIRED = ''not_required''"
| "outcome_value Notification_OUTCOME_PENDING = ''pending''"
| "outcome_value Notification_ACKNOWLEDGED = ''acknowledged''"
| "outcome_value Notification_COMPLETED = ''completed''"
| "outcome_value Notification_EXPIRED = ''expired''"
| "outcome_value Notification_UNAVAILABLE = ''unavailable''"

datatype notification_event =
    VERIFICATION_CODE
  | PASSWORD_RECOVERY
  | EMAIL_CHANGE_SECURITY
  | ROLE_ACTIVATION
  | NEW_SUBMISSION
  | PENDING_REVIEW
  | APPROACHING_DEADLINE
  | BOOKING_CHANGED
  | TEACHER_FEEDBACK
  | TEACHER_FEEDBACK_AVAILABLE
  | MEMBERSHIP_CHANGED
  | RESOURCE_USE_DECISION
  | RESOURCE_LOW_STOCK
  | RESOURCE_MAINTENANCE_DUE
  | SCHEDULE_PUBLISHED
  | SCHEDULE_CHANGED
  | SCHEDULE_CANCELLED
  | SCHEDULE_RECIPIENT_REMOVED
  | SCHEDULE_REMINDER

fun event_value :: "notification_event \<Rightarrow> string" where
  "event_value VERIFICATION_CODE = ''verification_code''"
| "event_value PASSWORD_RECOVERY = ''password_recovery''"
| "event_value EMAIL_CHANGE_SECURITY = ''email_change_security''"
| "event_value ROLE_ACTIVATION = ''role_activation''"
| "event_value NEW_SUBMISSION = ''new_submission''"
| "event_value PENDING_REVIEW = ''pending_review''"
| "event_value APPROACHING_DEADLINE = ''approaching_deadline''"
| "event_value BOOKING_CHANGED = ''booking_changed''"
| "event_value TEACHER_FEEDBACK = ''teacher_feedback''"
| "event_value TEACHER_FEEDBACK_AVAILABLE = ''teacher_feedback_available''"
| "event_value MEMBERSHIP_CHANGED = ''membership_changed''"
| "event_value RESOURCE_USE_DECISION = ''resource_use_decision''"
| "event_value RESOURCE_LOW_STOCK = ''resource_low_stock''"
| "event_value RESOURCE_MAINTENANCE_DUE = ''resource_maintenance_due''"
| "event_value SCHEDULE_PUBLISHED = ''schedule_published''"
| "event_value SCHEDULE_CHANGED = ''schedule_changed''"
| "event_value SCHEDULE_CANCELLED = ''schedule_cancelled''"
| "event_value SCHEDULE_RECIPIENT_REMOVED = ''schedule_recipient_removed''"
| "event_value SCHEDULE_REMINDER = ''schedule_reminder''"

datatype delivery_policy = Notification_IN_APP | Notification_IN_APP_EMAIL | Notification_EMAIL_ONLY

datatype notification_status =
    Notification_PENDING
  | Notification_QUEUED
  | Notification_SENT
  | Notification_FAILED
  | Notification_RETRY_NEEDED
  | Notification_SKIPPED
  | Notification_IN_APP_ONLY

record notification =
  nt_project :: "pk option"
  nt_recipient :: pk
  nt_recipient_email :: string
  nt_sender :: "pk option"
  nt_event_type :: notification_event
  nt_target_type :: string
  nt_target_id :: string
  nt_subject :: string
  nt_action_path :: string
  nt_status :: notification_status
  nt_delivery_policy :: delivery_policy
  nt_eligible_at :: instant
  nt_queued_at :: "instant option"
  nt_sent_at :: "instant option"
  nt_last_attempt_at :: "instant option"
  nt_retry_count :: nat
  nt_failure_reason :: string
  nt_category :: notification_category
  nt_requirement_type :: requirement_type
  nt_outcome_state :: outcome_state
  nt_due_at :: "instant option"
  nt_expires_at :: "instant option"
  nt_acknowledged_at :: "instant option"
  nt_action_completed_at :: "instant option"
  nt_expired_at :: "instant option"
  nt_unavailable_at :: "instant option"
  nt_completion_event_type :: string
  nt_completion_event_id :: string
  nt_dedupe_key :: string
  nt_active_follow_up :: bool
  nt_reminder_count :: nat
  nt_escalation_level :: nat
  nt_last_reminded_at :: "instant option"
  nt_last_escalated_at :: "instant option"
  nt_created_at :: instant

text \<open>The check constraint of the table, and \<open>clean\<close>, which states the same rule to forms.\<close>

definition notification_requirement_outcome_valid :: "notification \<Rightarrow> bool" where
  "notification_requirement_outcome_valid n \<longleftrightarrow>
     (nt_requirement_type n = Notification_INFORMATIONAL \<and> nt_outcome_state n = Notification_NOT_REQUIRED
        \<and> \<not> nt_active_follow_up n)
     \<or> (nt_requirement_type n \<noteq> Notification_INFORMATIONAL \<and> nt_outcome_state n \<noteq> Notification_NOT_REQUIRED)"

definition notification_clean :: "notification \<Rightarrow> error + unit" where
  "notification_clean n =
     (if nt_requirement_type n = Notification_INFORMATIONAL \<and> nt_outcome_state n \<noteq> Notification_NOT_REQUIRED
      then Inl (ValidationError ''Informational notifications cannot require an outcome.'')
      else if nt_requirement_type n \<noteq> Notification_INFORMATIONAL \<and> nt_outcome_state n = Notification_NOT_REQUIRED
      then Inl (ValidationError ''Actionable notifications require an outcome state.'')
      else Inr ())"

text \<open>The key of the partial unique constraint: open follow-ups of one recipient.\<close>

definition follow_up_key :: "notification \<Rightarrow> (pk \<times> string) option" where
  "follow_up_key n =
     (if nt_active_follow_up n \<and> nt_dedupe_key n \<noteq> [] then Some (nt_recipient n, nt_dedupe_key n) else None)"

record read_receipt =
  rr_notification :: pk
  rr_viewer :: pk
  rr_viewed_at :: instant

datatype attempt_channel = Attempt_IN_APP | Attempt_EMAIL

datatype attempt_state =
    Attempt_PENDING
  | Attempt_QUEUED
  | Attempt_SENT
  | Attempt_FAILED
  | Attempt_SKIPPED

record delivery_attempt =
  da_notification :: pk
  da_channel :: attempt_channel
  da_attempt_number :: nat
  da_state :: attempt_state
  da_eligible_at :: instant
  da_attempted_at :: "instant option"
  da_completed_at :: "instant option"
  da_failure_code :: string
  da_failure_reason_masked :: string
  da_idempotency_key :: string
  da_created_at :: instant

text \<open>Times of day are microseconds since midnight.\<close>

record preference_profile =
  pp_user :: pk
  pp_quiet_hours_enabled :: bool
  pp_quiet_hours_start :: "int option"
  pp_quiet_hours_end :: "int option"
  pp_timezone_name :: string
  pp_version :: nat
  pp_updated_at :: instant

definition profile_clean :: "preference_profile \<Rightarrow> error + unit" where
  "profile_clean p =
     (if pp_quiet_hours_enabled p \<and> (pp_quiet_hours_start p = None \<or> pp_quiet_hours_end p = None)
      then Inl (ValidationError ''Quiet-hour start and end are required.'')
      else Inr ())"

record category_preference =
  cp_profile :: pk
  cp_category :: notification_category
  cp_email_enabled :: bool

record notification_policy =
  np_project :: pk
  np_reminder_lead_minutes :: int
  np_escalation_delay_minutes :: int
  np_repeat_interval_minutes :: int
  np_max_reminders :: int
  np_version :: nat
  np_updated_by :: pk
  np_created_at :: instant
  np_updated_at :: instant

text \<open>
  The settings the notification services read, and what \<open>zoneinfo\<close> answers: whether a zone
  exists (\<open>ZoneInfoNotFoundError\<close> when not), whether the key is malformed (\<open>ValueError\<close>), the wall clock of an instant in it, and the instant of a wall clock.
\<close>

record notification_settings =
  REMINDER_LEAD_MINUTES :: int
  ESCALATION_DELAY_MINUTES :: int
  REPEAT_INTERVAL_MINUTES :: int
  MAX_REMINDERS :: int
  THRESHOLD_MIN_MINUTES :: int
  THRESHOLD_MAX_MINUTES :: int

definition base_notification_settings :: notification_settings where
  "base_notification_settings =
     \<lparr>REMINDER_LEAD_MINUTES = 1440, ESCALATION_DELAY_MINUTES = 1440, REPEAT_INTERVAL_MINUTES = 1440,
      MAX_REMINDERS = 3, THRESHOLD_MIN_MINUTES = 60, THRESHOLD_MAX_MINUTES = 10080\<rparr>"

record zone_db =
  zone_known :: "string \<Rightarrow> bool"
  zone_malformed :: "string \<Rightarrow> bool"
  to_local :: "string \<Rightarrow> instant \<Rightarrow> instant"
  from_local :: "string \<Rightarrow> instant \<Rightarrow> instant"

type_synonym action_resolver = "notification \<Rightarrow> string \<Rightarrow> string \<Rightarrow> bool"

record notification_db = project_db +
  db_notifications :: "notification table"
  db_read_receipts :: "read_receipt table"
  db_delivery_attempts :: "delivery_attempt table"
  db_preference_profiles :: "preference_profile table"
  db_category_preferences :: "category_preference table"
  db_notification_policies :: "notification_policy table"
  db_settings :: notification_settings
  db_zones :: zone_db
  db_resolvers :: "string \<rightharpoonup> action_resolver"

text \<open>
  \<open>Notification.objects.create\<close>: the check constraint, then the unique constraint on open
  follow-ups.
\<close>

definition insert_notification :: "notification \<Rightarrow> ('a notification_db_scheme, pk) op" where
  "insert_notification n s =
     (if \<not> notification_requirement_outcome_valid n
      then (Inl (IntegrityError ''notification_requirement_outcome_valid''), s)
      else if key_taken follow_up_key n (db_notifications s)
      then (Inl (IntegrityError ''unique_active_notification_followup''), s)
      else (Inr (tbl_next (db_notifications s)), s\<lparr>db_notifications := tbl_insert n (db_notifications s)\<rparr>))"

definition put_notification :: "pk \<Rightarrow> notification \<Rightarrow> 'a notification_db_scheme \<Rightarrow> 'a notification_db_scheme" where
  "put_notification k n s = s\<lparr>db_notifications := tbl_put k n (db_notifications s)\<rparr>"

text \<open>What recording an event leaves alone.\<close>

lemma record_event_projects [simp]:
  "db_projects (record_event p a t sm tg opts s) = db_projects s"
  "db_memberships (record_event p a t sm tg opts s) = db_memberships s"
  by (simp_all add: record_event_def)

lemma record_event_notifications [simp]:
  "db_notifications (record_event p a t sm tg opts s) = db_notifications s"
  "db_read_receipts (record_event p a t sm tg opts s) = db_read_receipts s"
  "db_delivery_attempts (record_event p a t sm tg opts s) = db_delivery_attempts s"
  "db_preference_profiles (record_event p a t sm tg opts s) = db_preference_profiles s"
  "db_category_preferences (record_event p a t sm tg opts s) = db_category_preferences s"
  "db_notification_policies (record_event p a t sm tg opts s) = db_notification_policies s"
  "db_settings (record_event p a t sm tg opts s) = db_settings s"
  "db_zones (record_event p a t sm tg opts s) = db_zones s"
  "db_resolvers (record_event p a t sm tg opts s) = db_resolvers s"
  "notification_db.more (record_event p a t sm tg opts s) = notification_db.more s"
  by (simp_all add: record_event_def)

text \<open>What the constraints say of the whole table.\<close>

definition notifications_ok :: "notification table \<Rightarrow> bool" where
  "notifications_ok t \<longleftrightarrow>
     tbl_wf t \<and> unique_on follow_up_key t
     \<and> (\<forall>k n. (k, n) \<in> set (tbl_rows t) \<longrightarrow> notification_requirement_outcome_valid n)"

lemma notifications_ok_wf: "notifications_ok t \<Longrightarrow> tbl_wf t"
  by (simp add: notifications_ok_def)

lemma notifications_ok_insert:
  "notifications_ok t \<Longrightarrow> notification_requirement_outcome_valid n
   \<Longrightarrow> \<not> key_taken follow_up_key n t \<Longrightarrow> notifications_ok (tbl_insert n t)"
  by (auto simp: notifications_ok_def tbl.wf_add unique_on_insert)

lemma insert_notification_ok:
  "notifications_ok (db_notifications s) \<Longrightarrow> insert_notification n s = (Inr k, s')
   \<Longrightarrow> notifications_ok (db_notifications s')"
  by (auto simp: insert_notification_def notifications_ok_insert split: if_splits)

text \<open>A write that keeps the row valid and does not open a follow-up keeps the constraints.\<close>

lemma notifications_ok_put:
  assumes "notifications_ok t" "tbl_get t k = Some n0" "notification_requirement_outcome_valid n"
    and "follow_up_key n = None \<or> follow_up_key n = follow_up_key n0"
  shows "notifications_ok (tbl_put k n t)"
proof -
  have wf: "tbl_wf t" and u: "unique_on follow_up_key t"
    using assms(1) by (simp_all add: notifications_ok_def)
  have "unique_on follow_up_key (tbl_put k n t)"
    by (rule unique_on_put [OF u wf key_kept_not_taken [OF u assms(2,4)]])
  then show ?thesis
    using assms(1,3) tbl.wf_put [OF wf, of k n] set_rows_put [OF wf, of k n]
    unfolding notifications_ok_def by auto
qed

end
