(* ===== verification/NotificationDelivery.thy ===== *)
theory NotificationDelivery
  imports NotificationModel
begin

text \<open>
  Preferences and delivery (\<open>apps/notifications/services.py\<close> and the preference half of
  \<open>apps/notifications/policy_services.py\<close>): masking of failure reasons, the preference profile of
  an account, quiet hours, queueing a notification, and the outcome of a delivery attempt.

  The lemmas bound masked text, show that security mail is neither switched off nor delayed,
  that quiet hours never move a notification back and move it out of the quiet period, and
  that queueing keeps the constraints of the tables.
\<close>

section \<open>Masking\<close>

definition prefix_nocase :: "string \<Rightarrow> string \<Rightarrow> bool" where
  "prefix_nocase kw t \<longleftrightarrow> py_lower (take (length kw) t) = kw"

fun first_some :: "('a \<Rightarrow> 'b option) \<Rightarrow> 'a list \<Rightarrow> 'b option" where
  "first_some f [] = None"
| "first_some f (x # xs) = (case f x of None \<Rightarrow> first_some f xs | Some y \<Rightarrow> Some y)"

text \<open>The value of the first pattern: no white space, comma or semicolon.\<close>

definition secret_char :: "char \<Rightarrow> bool" where
  "secret_char c \<longleftrightarrow> \<not> is_space c \<and> c \<noteq> CHR '','' \<and> c \<noteq> CHR '';''"

definition secret_keywords :: "string list" where
  "secret_keywords =
     [''password'', ''passwd'', ''pwd'', ''secret'', ''token'', ''api_key'', ''api-key'', ''apikey'']"

text \<open>A pattern matched at the head of a text: the text of group 1 and what follows the match.\<close>

definition match_assignment :: "string \<Rightarrow> string \<Rightarrow> (string \<times> string) option" where
  "match_assignment t kw =
     (let r = drop (length kw) t
      in if prefix_nocase kw t \<and> r \<noteq> [] \<and> hd r = CHR ''='' \<and> tl r \<noteq> [] \<and> secret_char (hd (tl r))
         then Some (take (length kw) t, dropWhile secret_char (tl r)) else None)"

definition match_secret :: "string \<Rightarrow> (string \<times> string) option" where
  "match_secret t = first_some (match_assignment t) secret_keywords"

definition code_char :: "char \<Rightarrow> bool" where
  "code_char c = (let n = of_char c :: nat
     in (48 \<le> n \<and> n \<le> 57) \<or> (65 \<le> n \<and> n \<le> 90) \<or> (97 \<le> n \<and> n \<le> 122) \<or> c = CHR ''_'' \<or> c = CHR ''-'')"

definition match_label :: "string \<Rightarrow> (string \<times> string) option" where
  "match_label t =
     (let v = length ''verification''; r = dropWhile is_space (drop v t);
          spaces = takeWhile is_space (drop v t)
      in if prefix_nocase ''verification'' t \<and> prefix_nocase ''code'' r
         then Some (take v t @ spaces @ take 4 r, drop 4 r)
         else if prefix_nocase ''code'' t then Some (take 4 t, drop 4 t)
         else None)"

definition match_code :: "string \<Rightarrow> (string \<times> string) option" where
  "match_code t =
     (case match_label t of
        None \<Rightarrow> None
      | Some (grp, rest) \<Rightarrow>
          (case dropWhile is_space rest of
             [] \<Rightarrow> None
           | c # rest2 \<Rightarrow>
               if c \<noteq> CHR '':'' \<and> c \<noteq> CHR ''='' then None
               else let v = dropWhile is_space rest2
                    in if 4 \<le> length (takeWhile code_char v)
                       then Some (grp, dropWhile code_char v) else None))"

text \<open>
  \<open>pattern.sub\<close> with the replacement \<open>group 1 = [masked]\<close>. A match takes at least one
  character, which the guard states for the termination proof.
\<close>

function substitute :: "(string \<Rightarrow> (string \<times> string) option) \<Rightarrow> string \<Rightarrow> string" where
  "substitute m [] = []"
| "substitute m (c # t) =
     (case m (c # t) of
        Some (grp, rest) \<Rightarrow>
          if length rest \<le> length t then grp @ ''=[masked]'' @ substitute m rest else c # substitute m t
      | None \<Rightarrow> c # substitute m t)"
  by pat_completeness auto
termination by (relation "measure (length \<circ> snd)") auto

definition mask_notification_failure_reason :: "string \<Rightarrow> string" where
  "mask_notification_failure_reason reason = take 500 (substitute match_code (substitute match_secret reason))"

lemma first_some_mem: "first_some f xs = Some y \<Longrightarrow> \<exists>x \<in> set xs. f x = Some y"
  by (induction xs) (auto split: option.splits)

lemma match_assignment_shrinks: "match_assignment t kw = Some (g, r) \<Longrightarrow> length r < length t"
proof -
  assume a: "match_assignment t kw = Some (g, r)"
  let ?r = "drop (length kw) t"
  have r: "r = dropWhile secret_char (tl ?r)" and ne: "?r \<noteq> []"
    using a by (auto simp: match_assignment_def Let_def split: if_splits)
  have "length r \<le> length (tl ?r)" unfolding r by (rule length_dropWhile_le)
  also have "\<dots> < length ?r" using ne by (cases ?r) simp_all
  finally show ?thesis by simp
qed

lemma match_secret_shrinks: "match_secret t = Some (g, r) \<Longrightarrow> length r < length t"
  unfolding match_secret_def by (auto dest!: first_some_mem match_assignment_shrinks)

lemma mask_length: "length (mask_notification_failure_reason t) \<le> 500"
  by (simp add: mask_notification_failure_reason_def)

lemma mask_example: "match_secret ''Token=abc, x'' = Some (''Token'', '', x'')"
  by code_simp

section \<open>Preferences\<close>

definition MANDATORY_EMAIL_CATEGORIES :: "notification_category set" where
  "MANDATORY_EMAIL_CATEGORIES = {Notification_SECURITY}"

definition new_profile :: "pk \<Rightarrow> instant \<Rightarrow> preference_profile" where
  "new_profile u now =
     \<lparr>pp_user = u, pp_quiet_hours_enabled = False, pp_quiet_hours_start = None, pp_quiet_hours_end = None,
      pp_timezone_name = ''UTC'', pp_version = 1, pp_updated_at = now\<rparr>"

definition get_or_create_profile :: "pk \<Rightarrow> 'a notification_db_scheme \<Rightarrow> pk \<times> 'a notification_db_scheme" where
  "get_or_create_profile u s =
     (case tbl_first (\<lambda>k p. pp_user p = u) (db_preference_profiles s) of
        Some (k, _) \<Rightarrow> (k, s)
      | None \<Rightarrow> (tbl_next (db_preference_profiles s),
                 s\<lparr>db_preference_profiles := tbl_insert (new_profile u (db_now s)) (db_preference_profiles s)\<rparr>))"

definition add_missing_categories :: "pk \<Rightarrow> category_preference table \<Rightarrow> category_preference table" where
  "add_missing_categories k t =
     foldl (\<lambda>t' c. tbl_insert \<lparr>cp_profile = k, cp_category = c, cp_email_enabled = True\<rparr> t') t
       (filter (\<lambda>c. \<not> tbl_exists (\<lambda>_ p. cp_profile p = k \<and> cp_category p = c) t) category_choices)"

text \<open>The key of the account's profile; its category rows are completed on the way.\<close>

definition preference_profile_for :: "pk \<Rightarrow> 'a notification_db_scheme \<Rightarrow> pk \<times> 'a notification_db_scheme" where
  "preference_profile_for u s =
     (case get_or_create_profile u s of
        (k, s') \<Rightarrow> (k, s'\<lparr>db_category_preferences := add_missing_categories k (db_category_preferences s')\<rparr>))"

definition profile_of :: "'a notification_db_scheme \<Rightarrow> pk \<Rightarrow> preference_profile" where
  "profile_of s k = (case tbl_get (db_preference_profiles s) k of Some p \<Rightarrow> p | None \<Rightarrow> new_profile 0 (db_now s))"

definition email_enabled_for :: "pk \<Rightarrow> notification_category \<Rightarrow> 'a notification_db_scheme \<Rightarrow> bool \<times> 'a notification_db_scheme" where
  "email_enabled_for u c s =
     (if c \<in> MANDATORY_EMAIL_CATEGORIES then (True, s)
      else case preference_profile_for u s of
        (k, s') \<Rightarrow>
          (case tbl_first (\<lambda>_ p. cp_profile p = k \<and> cp_category p = c) (db_category_preferences s') of
             Some (_, p) \<Rightarrow> (cp_email_enabled p, s')
           | None \<Rightarrow> (True, s')))"

text \<open>Whether a time of day lies in the quiet hours, which may cross midnight.\<close>

definition inside_quiet_hours :: "int \<Rightarrow> int \<Rightarrow> int \<Rightarrow> bool" where
  "inside_quiet_hours start until t =
     (if start < until then start \<le> t \<and> t < until else t \<ge> start \<or> t < until)"

definition quiet_hours_eligible_at_for_profile ::
  "zone_db \<Rightarrow> preference_profile \<Rightarrow> instant \<Rightarrow> error + instant" where
  "quiet_hours_eligible_at_for_profile zd p candidate =
     (if \<not> pp_quiet_hours_enabled p then Inr candidate
      else if zone_malformed zd (pp_timezone_name p) then Inl (ValueError ''timezone'')
      else if \<not> zone_known zd (pp_timezone_name p) then Inl (ZoneInfoNotFoundError (pp_timezone_name p))
      else let loc = to_local zd (pp_timezone_name p) candidate
           in case (pp_quiet_hours_start p, pp_quiet_hours_end p) of
                (Some start, Some until) \<Rightarrow>
                  if start = until then Inr candidate
                  else if \<not> inside_quiet_hours start until (time_of loc) then Inr candidate
                  else let end_date = (if start > until \<and> time_of loc \<ge> start then date_of loc + 1 else date_of loc)
                       in Inr (from_local zd (pp_timezone_name p) (combine end_date until))
              | _ \<Rightarrow> Inr candidate)"

definition quiet_hours_eligible_at :: "pk \<Rightarrow> instant \<Rightarrow> ('a notification_db_scheme, instant) op" where
  "quiet_hours_eligible_at u candidate s =
     (case preference_profile_for u s of
        (k, s') \<Rightarrow> (quiet_hours_eligible_at_for_profile (db_zones s') (profile_of s' k) candidate, s'))"

definition set_category_email :: "pk \<Rightarrow> notification_category \<Rightarrow> bool \<Rightarrow> category_preference table \<Rightarrow> category_preference table" where
  "set_category_email k c enabled t =
     (case tbl_first (\<lambda>_ p. cp_profile p = k \<and> cp_category p = c) t of
        Some (pk, p) \<Rightarrow> tbl_put pk (p\<lparr>cp_email_enabled := enabled\<rparr>) t
      | None \<Rightarrow> tbl_insert \<lparr>cp_profile = k, cp_category = c, cp_email_enabled = enabled\<rparr> t)"

fun set_category_emails ::
  "pk \<Rightarrow> (string \<times> bool) list \<Rightarrow> category_preference table \<Rightarrow> error + category_preference table" where
  "set_category_emails k [] t = Inr t"
| "set_category_emails k ((name, enabled) # rest) t =
     (case category_of_value name of
        None \<Rightarrow> Inl (ValidationError ''Notification category is invalid.'')
      | Some c \<Rightarrow>
          if c \<in> MANDATORY_EMAIL_CATEGORIES \<and> \<not> enabled
          then Inl (ValidationError ''Security email delivery cannot be disabled.'')
          else set_category_emails k rest (set_category_email k c enabled t))"

text \<open>\<open>full_clean\<close> of the profile: the length of the zone name, then \<open>clean\<close>.\<close>

definition profile_full_clean :: "preference_profile \<Rightarrow> error + unit" where
  "profile_full_clean p =
     (if 64 < length (pp_timezone_name p)
      then Inl (FieldError ''timezone_name''
             (''Ensure this value has at most 64 characters (it has '' @ str_of_nat (length (pp_timezone_name p)) @ '').''))
      else if pp_timezone_name p = [] then Inl (FieldError ''timezone_name'' ''This field cannot be blank.'')
      else profile_clean p)"

definition update_preference_profile ::
  "pk \<Rightarrow> int \<Rightarrow> bool \<Rightarrow> int option \<Rightarrow> int option \<Rightarrow> string \<Rightarrow> (string \<times> bool) list
   \<Rightarrow> ('a notification_db_scheme, pk) op"
where
  "update_preference_profile u expected enabled start until zone emails = atomic (\<lambda>s.
     let (k, s1) = (case tbl_first (\<lambda>_ p. pp_user p = u) (db_preference_profiles s) of
                      Some (k, _) \<Rightarrow> (k, s) | None \<Rightarrow> preference_profile_for u s);
         p = profile_of s1 k
     in case require_expected_version k (pp_version p) expected None of
          Inl e \<Rightarrow> (Inl e, s1)
        | Inr _ \<Rightarrow>
        if zone_malformed (db_zones s1) zone then (Inl (ValueError ''timezone''), s1)
        else if \<not> zone_known (db_zones s1) zone then (Inl (ValidationError ''Timezone is invalid.''), s1)
        else
          let p' = p\<lparr>pp_quiet_hours_enabled := enabled, pp_quiet_hours_start := start,
                     pp_quiet_hours_end := until, pp_timezone_name := zone,
                     pp_version := Suc (pp_version p), pp_updated_at := db_now s1\<rparr>
          in case profile_full_clean p' of
               Inl e \<Rightarrow> (Inl e, s1)
             | Inr _ \<Rightarrow>
                (case set_category_emails k emails (db_category_preferences s1) of
                   Inl e \<Rightarrow> (Inl e, s1)
                 | Inr t \<Rightarrow>
                     let s2 = s1\<lparr>db_preference_profiles := tbl_put k p' (db_preference_profiles s1),
                                 db_category_preferences := t\<rparr>
                     in case preference_profile_for u s2 of (k', s3) \<Rightarrow> (Inr k', s3)))"

text \<open>
  A zone at a fixed distance from UTC (no change of offset). The laws below are about such zones;
  a zone that changes its clock in the night can return a wall clock that does not exist.
\<close>

definition steady_zone :: "zone_db \<Rightarrow> string \<Rightarrow> int \<Rightarrow> bool" where
  "steady_zone zd z off \<longleftrightarrow>
     zone_known zd z \<and> \<not> zone_malformed zd z \<and> (\<forall>t. to_local zd z t = t + off) \<and> (\<forall>t. from_local zd z t = t - off)"

lemma time_of_shift: "0 \<le> x \<Longrightarrow> x < usec_per_day \<Longrightarrow> time_of (d * usec_per_day + x) = x"
  using time_of_combine [of x d] by (simp add: combine_def)

lemma time_of_shift_next:
  "usec_per_day \<le> x \<Longrightarrow> x < 2 * usec_per_day \<Longrightarrow> time_of (d * usec_per_day + x) = x - usec_per_day"
  using time_of_shift [of "x - usec_per_day" "d + 1"] by (simp add: algebra_simps)

definition quiet_end :: "int \<Rightarrow> int \<Rightarrow> instant \<Rightarrow> instant" where
  "quiet_end start until loc =
     combine (if start > until \<and> time_of loc \<ge> start then date_of loc + 1 else date_of loc) until"

lemma quiet_end_props:
  assumes b: "0 \<le> start" "start < usec_per_day" "0 \<le> until" "until < usec_per_day"
    and ne: "start \<noteq> until" and ins: "inside_quiet_hours start until (time_of loc)"
  shows "loc < quiet_end start until loc"
    and "\<not> inside_quiet_hours start until (time_of (quiet_end start until loc))"
    and "loc \<le> t \<Longrightarrow> t < quiet_end start until loc \<Longrightarrow> inside_quiet_hours start until (time_of t)"
proof -
  define d x where "d = date_of loc" and "x = time_of loc"
  have loc: "loc = d * usec_per_day + x"
    using combine_date_time [of loc] by (simp add: combine_def d_def x_def)
  have x: "0 \<le> x" "x < usec_per_day" unfolding x_def by (rule time_of_bounds)+
  have ins': "inside_quiet_hours start until x" using ins by (simp add: x_def)
  have q: "quiet_end start until loc =
      d * usec_per_day + (if start > until \<and> x \<ge> start then usec_per_day + until else until)"
    by (simp add: quiet_end_def combine_def d_def x_def algebra_simps)
  show "loc < quiet_end start until loc"
    unfolding q using ins' b x ne by (auto simp: loc inside_quiet_hours_def split: if_splits)
  have tu: "time_of (quiet_end start until loc) = until"
    unfolding quiet_end_def by (rule time_of_combine [OF b(3,4)])
  show "\<not> inside_quiet_hours start until (time_of (quiet_end start until loc))"
    unfolding tu using ne by (simp add: inside_quiet_hours_def)
  assume t: "loc \<le> t" "t < quiet_end start until loc"
  define y where "y = t - d * usec_per_day"
  have y: "t = d * usec_per_day + y" "x \<le> y" using t loc by (simp_all add: y_def)
  have yu: "y < (if start > until \<and> x \<ge> start then usec_per_day + until else until)"
    using t(2) unfolding q y(1) by simp
  show "inside_quiet_hours start until (time_of t)"
  proof (cases "y < usec_per_day")
    case True
    then have "time_of t = y" unfolding y(1) using y(2) x by (intro time_of_shift) auto
    then show ?thesis
      using ins' yu y(2) b by (auto simp: inside_quiet_hours_def split: if_splits)
  next
    case False
    then have "time_of t = y - usec_per_day"
      unfolding y(1) using yu b by (intro time_of_shift_next) (auto split: if_splits)
    then show ?thesis
      using False yu b unfolding inside_quiet_hours_def by (auto split: if_splits)
  qed
qed

lemma eligible_at_steady:
  assumes z: "steady_zone zd (pp_timezone_name p) off" and en: "pp_quiet_hours_enabled p"
    and se: "pp_quiet_hours_start p = Some start" "pp_quiet_hours_end p = Some until" and ne: "start \<noteq> until"
  shows "quiet_hours_eligible_at_for_profile zd p t =
    Inr (if inside_quiet_hours start until (time_of (t + off)) then quiet_end start until (t + off) - off else t)"
  using assms by (simp add: quiet_hours_eligible_at_for_profile_def steady_zone_def quiet_end_def Let_def)

section \<open>Queueing\<close>

text \<open>The keyword arguments of \<open>enqueue_notification\<close>; \<open>None\<close> where one is omitted or null.\<close>

record enqueue_args =
  en_recipient :: pk
  en_event_type :: notification_event
  en_target_type :: string
  en_target_id :: string
  en_subject :: string
  en_project :: "pk option"
  en_sender :: "pk option"
  en_action_path :: string
  en_eligible_at :: "instant option"
  en_status :: notification_status
  en_failure_reason :: string
  en_delivery_policy :: delivery_policy
  en_category :: "notification_category option"
  en_requirement_type :: "requirement_type option"
  en_outcome_state :: "outcome_state option"
  en_due_at :: "instant option"
  en_expires_at :: "instant option"
  en_dedupe_key :: string
  en_active_follow_up :: bool

definition enqueue_defaults ::
  "pk \<Rightarrow> notification_event \<Rightarrow> string \<Rightarrow> string \<Rightarrow> string \<Rightarrow> enqueue_args" where
  "enqueue_defaults recipient event_type target_type target_id subject =
     \<lparr>en_recipient = recipient, en_event_type = event_type, en_target_type = target_type,
      en_target_id = target_id, en_subject = subject, en_project = None, en_sender = None,
      en_action_path = [], en_eligible_at = None, en_status = Notification_PENDING,
      en_failure_reason = [], en_delivery_policy = Notification_IN_APP_EMAIL, en_category = None,
      en_requirement_type = None, en_outcome_state = None, en_due_at = None, en_expires_at = None,
      en_dedupe_key = [], en_active_follow_up = False\<rparr>"

definition default_category :: "notification_event \<Rightarrow> notification_category" where
  "default_category ev =
     (if ev \<in> {VERIFICATION_CODE, PASSWORD_RECOVERY, EMAIL_CHANGE_SECURITY} then Notification_SECURITY
      else if py_startswith (event_value ev) ''schedule_'' \<or> ev = BOOKING_CHANGED then Notification_SCHEDULE
      else if ev \<in> {NEW_SUBMISSION, PENDING_REVIEW, TEACHER_FEEDBACK, TEACHER_FEEDBACK_AVAILABLE}
      then Notification_REPORT
      else Notification_PROJECT)"

definition notification_of :: "'a notification_db_scheme \<Rightarrow> enqueue_args \<Rightarrow> notification" where
  "notification_of s a =
     (let req = (case en_requirement_type a of None \<Rightarrow> Notification_INFORMATIONAL | Some r \<Rightarrow> r)
      in \<lparr>nt_project = en_project a, nt_recipient = en_recipient a,
          nt_recipient_email = user_email s (en_recipient a), nt_sender = en_sender a,
          nt_event_type = en_event_type a, nt_target_type = en_target_type a,
          nt_target_id = en_target_id a, nt_subject = en_subject a, nt_action_path = en_action_path a,
          nt_status = (if en_delivery_policy a = Notification_IN_APP then Notification_IN_APP_ONLY else en_status a),
          nt_delivery_policy = en_delivery_policy a,
          nt_eligible_at = (case en_eligible_at a of None \<Rightarrow> db_now s | Some t \<Rightarrow> t),
          nt_queued_at = None, nt_sent_at = None, nt_last_attempt_at = None, nt_retry_count = 0,
          nt_failure_reason = mask_notification_failure_reason (en_failure_reason a),
          nt_category = (case en_category a of None \<Rightarrow> default_category (en_event_type a) | Some c \<Rightarrow> c),
          nt_requirement_type = req,
          nt_outcome_state = (case en_outcome_state a of
              Some oc \<Rightarrow> oc
            | None \<Rightarrow> if req = Notification_INFORMATIONAL then Notification_NOT_REQUIRED
                      else Notification_OUTCOME_PENDING),
          nt_due_at = en_due_at a, nt_expires_at = en_expires_at a, nt_acknowledged_at = None,
          nt_action_completed_at = None, nt_expired_at = None, nt_unavailable_at = None,
          nt_completion_event_type = [], nt_completion_event_id = [],
          nt_dedupe_key = en_dedupe_key a, nt_active_follow_up = en_active_follow_up a,
          nt_reminder_count = 0, nt_escalation_level = 0, nt_last_reminded_at = None,
          nt_last_escalated_at = None, nt_created_at = db_now s\<rparr>)"

definition attempt_idempotency_key :: "pk \<Rightarrow> string \<Rightarrow> nat \<Rightarrow> string" where
  "attempt_idempotency_key k channel n = ''notification:'' @ str_of_nat k @ '':'' @ channel @ '':'' @ str_of_nat n"

text \<open>
  The two unique constraints of the attempt table hold the key the notification has just been
  given, so the inserts of \<open>enqueue_notification\<close> cannot meet an older row.
\<close>

definition insert_attempt :: "delivery_attempt \<Rightarrow> 'a notification_db_scheme \<Rightarrow> 'a notification_db_scheme" where
  "insert_attempt d s = s\<lparr>db_delivery_attempts := tbl_insert d (db_delivery_attempts s)\<rparr>"

definition in_app_attempt :: "pk \<Rightarrow> notification \<Rightarrow> delivery_attempt" where
  "in_app_attempt k n =
     \<lparr>da_notification = k, da_channel = Attempt_IN_APP, da_attempt_number = 1, da_state = Attempt_SENT,
      da_eligible_at = nt_eligible_at n, da_attempted_at = Some (nt_created_at n),
      da_completed_at = Some (nt_created_at n), da_failure_code = [], da_failure_reason_masked = [],
      da_idempotency_key = attempt_idempotency_key k ''in_app'' 1, da_created_at = nt_created_at n\<rparr>"

definition email_attempt :: "pk \<Rightarrow> bool \<Rightarrow> instant \<Rightarrow> instant \<Rightarrow> delivery_attempt" where
  "email_attempt k enabled eligible now =
     \<lparr>da_notification = k, da_channel = Attempt_EMAIL, da_attempt_number = 1,
      da_state = (if enabled then Attempt_PENDING else Attempt_SKIPPED),
      da_eligible_at = eligible, da_attempted_at = None,
      da_completed_at = (if enabled then None else Some now),
      da_failure_code = (if enabled then [] else ''preference_disabled''),
      da_failure_reason_masked = [],
      da_idempotency_key = attempt_idempotency_key k ''email'' 1, da_created_at = now\<rparr>"

definition email_eligible_at :: "notification \<Rightarrow> ('a notification_db_scheme, instant) op" where
  "email_eligible_at n s =
     (if nt_category n = Notification_SECURITY then (Inr (nt_eligible_at n), s)
      else quiet_hours_eligible_at (nt_recipient n) (nt_eligible_at n) s)"

text \<open>The email half: eligibility, the preference, the attempt, and the row's eligibility or status.\<close>

definition enqueue_email :: "pk \<Rightarrow> notification \<Rightarrow> ('a notification_db_scheme, notification) op" where
  "enqueue_email k n s =
     (case email_eligible_at n s of
        (Inl e, s1) \<Rightarrow> (Inl e, s1)
      | (Inr eligible, s1) \<Rightarrow>
          (case email_enabled_for (nt_recipient n) (nt_category n) s1 of
             (enabled, s2) \<Rightarrow>
               let s3 = insert_attempt (email_attempt k enabled eligible (db_now s2)) s2;
                   n' = (if enabled \<and> eligible > nt_eligible_at n then n\<lparr>nt_eligible_at := eligible\<rparr>
                         else if \<not> enabled then n\<lparr>nt_status := Notification_IN_APP_ONLY\<rparr> else n)
               in (Inr n', if n' = n then s3 else put_notification k n' s3)))"

definition enqueue_notification :: "enqueue_args \<Rightarrow> ('a notification_db_scheme, pk) op" where
  "enqueue_notification a s =
     (let n = notification_of s a
      in case insert_notification n s of
           (Inl e, s1) \<Rightarrow> (Inl e, s1)
         | (Inr k, s1) \<Rightarrow>
             let s2 = (if nt_delivery_policy n \<noteq> Notification_EMAIL_ONLY
                       then insert_attempt (in_app_attempt k n) s1 else s1)
             in if nt_delivery_policy n \<noteq> Notification_IN_APP
                then (case enqueue_email k n s2 of
                        (Inl e, s3) \<Rightarrow> (Inl e, s3) | (Inr _, s3) \<Rightarrow> (Inr k, s3))
                else (Inr k, s2))"

section \<open>What queueing writes\<close>

text \<open>
  Queueing writes the notifications, the attempts and the preference rows of the recipient, and
  nothing of any other component.
\<close>

definition only_mail :: "'a notification_db_scheme \<Rightarrow> 'a notification_db_scheme \<Rightarrow> bool" where
  "only_mail s s' \<longleftrightarrow>
     db_now s' = db_now s \<and> db_request_id s' = db_request_id s \<and> db_users s' = db_users s
     \<and> db_audit s' = db_audit s \<and> db_projects s' = db_projects s \<and> db_memberships s' = db_memberships s
     \<and> db_settings s' = db_settings s \<and> db_zones s' = db_zones s \<and> db_resolvers s' = db_resolvers s
     \<and> db_read_receipts s' = db_read_receipts s
     \<and> db_notification_policies s' = db_notification_policies s
     \<and> notification_db.more s' = notification_db.more s"

lemma only_mail_refl [simp, intro]: "only_mail s s"
  by (simp add: only_mail_def)

lemma only_mail_trans: "only_mail s t \<Longrightarrow> only_mail t u \<Longrightarrow> only_mail s u"
  by (simp add: only_mail_def)

lemma only_mail_updates [simp]:
  "only_mail s (s\<lparr>db_notifications := a\<rparr>)" "only_mail s (s\<lparr>db_delivery_attempts := b\<rparr>)"
  "only_mail s (s\<lparr>db_preference_profiles := c\<rparr>)" "only_mail s (s\<lparr>db_category_preferences := d\<rparr>)"
  by (simp_all add: only_mail_def)

lemma only_mail_insert_attempt [simp]: "only_mail s (insert_attempt d s)"
  and only_mail_put_notification [simp]: "only_mail s (put_notification k n s)"
  by (simp_all add: insert_attempt_def put_notification_def)

lemma only_mail_preference_profile_for: "preference_profile_for u s = (k, s') \<Longrightarrow> only_mail s s'"
  by (auto simp: preference_profile_for_def get_or_create_profile_def only_mail_def split: option.splits)

lemma only_mail_email_enabled_for: "email_enabled_for u c s = (b, s') \<Longrightarrow> only_mail s s'"
  by (auto simp: email_enabled_for_def only_mail_preference_profile_for split: if_splits prod.splits option.splits)

lemma only_mail_email_eligible_at: "email_eligible_at n s = (r, s') \<Longrightarrow> only_mail s s'"
  by (auto simp: email_eligible_at_def quiet_hours_eligible_at_def only_mail_preference_profile_for
      split: if_splits prod.splits)

lemma only_mail_insert_notification: "insert_notification n s = (r, s') \<Longrightarrow> only_mail s s'"
  by (auto simp: insert_notification_def split: if_splits)

lemma only_mail_enqueue_email:
  assumes "enqueue_email k n s = (r, s')" shows "only_mail s s'"
proof -
  obtain e1 s1 where 1: "email_eligible_at n s = (e1, s1)" by fastforce
  obtain b s2 where 2: "email_enabled_for (nt_recipient n) (nt_category n) s1 = (b, s2)" by fastforce
  have m: "only_mail s s2"
    using only_mail_email_eligible_at [OF 1] only_mail_email_enabled_for [OF 2] by (rule only_mail_trans)
  show ?thesis
    using assms 1 2 only_mail_email_eligible_at [OF 1]
      only_mail_trans [OF m only_mail_insert_attempt]
      only_mail_trans [OF only_mail_trans [OF m only_mail_insert_attempt] only_mail_put_notification]
    by (cases e1) (auto simp: enqueue_email_def Let_def)
qed

lemma only_mail_enqueue: "enqueue_notification a s = (r, s') \<Longrightarrow> only_mail s s'"
proof -
  assume e: "enqueue_notification a s = (r, s')"
  let ?n = "notification_of s a"
  obtain r1 s1 where 1: "insert_notification ?n s = (r1, s1)" by fastforce
  show ?thesis
  proof (cases r1)
    case (Inl err)
    then show ?thesis using e 1 only_mail_insert_notification [OF 1] by (simp add: enqueue_notification_def)
  next
    case (Inr k)
    let ?s2 = "if nt_delivery_policy ?n \<noteq> Notification_EMAIL_ONLY
               then insert_attempt (in_app_attempt k ?n) s1 else s1"
    obtain r3 s3 where 3: "enqueue_email k ?n ?s2 = (r3, s3)" by fastforce
    have m: "only_mail s ?s2"
      using only_mail_insert_notification [OF 1] only_mail_trans by (simp add: only_mail_def insert_attempt_def)
    show ?thesis
      using e 1 Inr 3 m only_mail_trans [OF m only_mail_enqueue_email [OF 3]]
      by (cases r3) (auto simp: enqueue_notification_def Let_def split: if_splits)
  qed
qed

lemma only_mailD:
  assumes "only_mail s s'"
  shows "db_now s' = db_now s" "db_users s' = db_users s" "db_audit s' = db_audit s"
    "db_projects s' = db_projects s" "db_memberships s' = db_memberships s"
    "db_request_id s' = db_request_id s" "db_settings s' = db_settings s" "db_zones s' = db_zones s"
    "db_resolvers s' = db_resolvers s" "db_read_receipts s' = db_read_receipts s"
    "db_notification_policies s' = db_notification_policies s"
    "notification_db.more s' = notification_db.more s"
  using assms by (simp_all add: only_mail_def)

end
