(* ===== verification/NotificationOutcomes.thy ===== *)
theory NotificationOutcomes
  imports NotificationDelivery
begin

text \<open>
  Delivery status, required outcomes and project policies (\<open>apps/notifications/services.py\<close>,
  \<open>apps/notifications/outcome_services.py\<close>, the policy half of
  \<open>apps/notifications/policy_services.py\<close>).

  Every operation is a command of one family; the lemmas show that each command keeps the
  constraints of the notification table and moves the outcome of a notification only along the
  arrows of \<open>outcome_arrow\<close>.
\<close>

section \<open>Delivery status\<close>

definition RETRY_NEEDED_STATUSES :: "notification_status set" where
  "RETRY_NEEDED_STATUSES = {Notification_FAILED, Notification_RETRY_NEEDED}"

definition notification_needs_retry :: "notification \<Rightarrow> bool" where
  "notification_needs_retry n \<longleftrightarrow> nt_status n \<in> RETRY_NEEDED_STATUSES"

text \<open>\<open>save(update_fields=...)\<close>: the named columns of the row with that key.\<close>

definition update_notification :: "pk \<Rightarrow> (notification \<Rightarrow> notification) \<Rightarrow> 'a notification_db_scheme \<Rightarrow> 'a notification_db_scheme" where
  "update_notification k f s = s\<lparr>db_notifications := tbl_update_where (\<lambda>k' _. k' = k) f (db_notifications s)\<rparr>"

definition update_attempt :: "pk \<Rightarrow> delivery_attempt \<Rightarrow> 'a notification_db_scheme \<Rightarrow> 'a notification_db_scheme" where
  "update_attempt k d s = s\<lparr>db_delivery_attempts := tbl_put k d (db_delivery_attempts s)\<rparr>"

definition with_status :: "notification \<Rightarrow> notification_status \<Rightarrow> string \<Rightarrow> instant \<Rightarrow> notification" where
  "with_status n st failure now =
     (let n1 = n\<lparr>nt_status := st\<rparr>;
          n2 = (if st = Notification_QUEUED then n1\<lparr>nt_queued_at := Some now\<rparr>
                else if st = Notification_SENT then n1\<lparr>nt_sent_at := Some now, nt_failure_reason := []\<rparr>
                else n1)
      in if failure \<noteq> [] then n2\<lparr>nt_failure_reason := mask_notification_failure_reason failure\<rparr> else n2)"

definition attempt_after_status ::
  "delivery_attempt \<Rightarrow> notification_status \<Rightarrow> string \<Rightarrow> instant \<Rightarrow> delivery_attempt" where
  "attempt_after_status d st failure now =
     d\<lparr>da_state := (case st of
           Notification_QUEUED \<Rightarrow> Attempt_QUEUED
         | Notification_SENT \<Rightarrow> Attempt_SENT
         | Notification_SKIPPED \<Rightarrow> Attempt_SKIPPED
         | _ \<Rightarrow> da_state d),
       da_completed_at := (if st \<in> {Notification_SENT, Notification_SKIPPED} then Some now else da_completed_at d),
       da_attempted_at := (case da_attempted_at d of None \<Rightarrow> Some now | Some t \<Rightarrow> Some t),
       da_failure_reason_masked := mask_notification_failure_reason failure\<rparr>"

text \<open>The instance \<open>(k, n)\<close> is the caller's; only the four columns it names are written back.\<close>

definition mark_notification_status ::
  "pk \<times> notification \<Rightarrow> notification_status \<Rightarrow> string
   \<Rightarrow> 'a notification_db_scheme \<Rightarrow> notification \<times> 'a notification_db_scheme"
where
  "mark_notification_status kn st failure s =
     (let k = fst kn; n' = with_status (snd kn) st failure (db_now s);
          s1 = update_notification k (\<lambda>r. r\<lparr>nt_status := nt_status n', nt_queued_at := nt_queued_at n',
                 nt_sent_at := nt_sent_at n', nt_failure_reason := nt_failure_reason n'\<rparr>) s
      in case tbl_first (\<lambda>_ d. da_notification d = k \<and> da_channel d = Attempt_EMAIL
                \<and> da_attempt_number d = max (nt_retry_count n' + 1) 1) (db_delivery_attempts s1) of
           None \<Rightarrow> (n', s1)
         | Some (ka, d) \<Rightarrow> (n', update_attempt ka (attempt_after_status d st failure (db_now s)) s1))"

text \<open>The failure handed in: an exception (class name and text) or a plain text.\<close>

datatype failure = Raised string string | Described string

fun failure_text :: "failure \<Rightarrow> string" where
  "failure_text (Raised _ t) = t"
| "failure_text (Described t) = t"

fun failure_class :: "failure \<Rightarrow> string" where
  "failure_class (Raised c _) = c"
| "failure_class (Described _) = ''delivery''"

definition with_failed_attempt :: "notification \<Rightarrow> failure \<Rightarrow> bool \<Rightarrow> instant \<Rightarrow> notification" where
  "with_failed_attempt n exc retry_needed now =
     n\<lparr>nt_status := (if retry_needed then Notification_RETRY_NEEDED else Notification_FAILED),
       nt_failure_reason := mask_notification_failure_reason (failure_text exc),
       nt_last_attempt_at := Some now,
       nt_retry_count := nt_retry_count n + 1,
       nt_eligible_at := now + 5 * usec_per_minute\<rparr>"

definition mark_notification_attempt_failed ::
  "pk \<times> notification \<Rightarrow> failure \<Rightarrow> bool
   \<Rightarrow> 'a notification_db_scheme \<Rightarrow> notification \<times> 'a notification_db_scheme"
where
  "mark_notification_attempt_failed kn exc retry_needed s =
     (let k = fst kn; now = db_now s; n' = with_failed_attempt (snd kn) exc retry_needed now;
          s1 = update_notification k (\<lambda>r. r\<lparr>nt_status := nt_status n', nt_failure_reason := nt_failure_reason n',
                 nt_last_attempt_at := nt_last_attempt_at n', nt_retry_count := nt_retry_count n',
                 nt_eligible_at := nt_eligible_at n'\<rparr>) s;
          new = \<lparr>da_notification = k, da_channel = Attempt_EMAIL, da_attempt_number = nt_retry_count n',
                 da_state = Attempt_PENDING, da_eligible_at = now, da_attempted_at = None,
                 da_completed_at = None, da_failure_code = [], da_failure_reason_masked = [],
                 da_idempotency_key = attempt_idempotency_key k ''email'' (nt_retry_count n'),
                 da_created_at = now\<rparr>;
          (ka, d, s2) = (case tbl_first (\<lambda>_ d. da_notification d = k \<and> da_channel d = Attempt_EMAIL
                \<and> da_attempt_number d = nt_retry_count n') (db_delivery_attempts s1) of
             Some (ka, d) \<Rightarrow> (ka, d, s1)
           | None \<Rightarrow> (tbl_next (db_delivery_attempts s1), new, insert_attempt new s1));
          d' = d\<lparr>da_state := Attempt_FAILED, da_attempted_at := Some now, da_completed_at := Some now,
                 da_failure_code := failure_class exc, da_failure_reason_masked := nt_failure_reason n'\<rparr>
      in (n', update_attempt ka d' s2))"

section \<open>Project policies\<close>

record policy_values =
  reminder_lead_minutes :: int
  escalation_delay_minutes :: int
  repeat_interval_minutes :: int
  max_reminders :: int

definition default_policy_values :: "notification_settings \<Rightarrow> policy_values" where
  "default_policy_values st =
     \<lparr>reminder_lead_minutes = REMINDER_LEAD_MINUTES st,
      escalation_delay_minutes = ESCALATION_DELAY_MINUTES st,
      repeat_interval_minutes = REPEAT_INTERVAL_MINUTES st,
      max_reminders = MAX_REMINDERS st\<rparr>"

definition policy_numbers :: "notification_policy \<Rightarrow> policy_values" where
  "policy_numbers p =
     \<lparr>reminder_lead_minutes = np_reminder_lead_minutes p,
      escalation_delay_minutes = np_escalation_delay_minutes p,
      repeat_interval_minutes = np_repeat_interval_minutes p,
      max_reminders = np_max_reminders p\<rparr>"

definition project_policy_for :: "'a notification_db_scheme \<Rightarrow> pk \<Rightarrow> (pk \<times> notification_policy) option" where
  "project_policy_for s project = tbl_first (\<lambda>_ p. np_project p = project) (db_notification_policies s)"

record effective_policy = policy_values +
  policy_version :: nat
  uses_system_defaults :: bool

definition effective_project_policy :: "'a notification_db_scheme \<Rightarrow> pk \<Rightarrow> effective_policy" where
  "effective_project_policy s project =
     (case project_policy_for s project of
        None \<Rightarrow> policy_values.extend (default_policy_values (db_settings s))
                 \<lparr>policy_version = 0, uses_system_defaults = True\<rparr>
      | Some (_, p) \<Rightarrow> policy_values.extend (policy_numbers p)
                 \<lparr>policy_version = np_version p, uses_system_defaults = False\<rparr>)"

definition within_thresholds :: "notification_settings \<Rightarrow> int \<Rightarrow> bool" where
  "within_thresholds st v \<longleftrightarrow> THRESHOLD_MIN_MINUTES st \<le> v \<and> v \<le> THRESHOLD_MAX_MINUTES st"

definition threshold_error :: "notification_settings \<Rightarrow> string \<Rightarrow> error" where
  "threshold_error st field = FieldError field
     (''Must be between '' @ str_of_int (THRESHOLD_MIN_MINUTES st) @ '' and ''
      @ str_of_int (THRESHOLD_MAX_MINUTES st) @ '' minutes.'')"

definition validate_project_policy_values :: "notification_settings \<Rightarrow> policy_values \<Rightarrow> error + unit" where
  "validate_project_policy_values st v =
     (if \<not> within_thresholds st (reminder_lead_minutes v)
      then Inl (threshold_error st ''reminder_lead_minutes'')
      else if \<not> within_thresholds st (escalation_delay_minutes v)
      then Inl (threshold_error st ''escalation_delay_minutes'')
      else if \<not> within_thresholds st (repeat_interval_minutes v)
      then Inl (threshold_error st ''repeat_interval_minutes'')
      else if \<not> (0 \<le> max_reminders v \<and> max_reminders v \<le> 20)
      then Inl (FieldError ''max_reminders'' ''Must be between 0 and 20.'')
      else Inr ())"

text \<open>The keyword arguments present in the request override the values in force.\<close>

record policy_changes =
  new_reminder_lead_minutes :: "int option"
  new_escalation_delay_minutes :: "int option"
  new_repeat_interval_minutes :: "int option"
  new_max_reminders :: "int option"

definition override :: "'b option \<Rightarrow> 'b \<Rightarrow> 'b" where
  "override new old = (case new of None \<Rightarrow> old | Some x \<Rightarrow> x)"

definition apply_policy_changes :: "policy_values \<Rightarrow> policy_changes \<Rightarrow> policy_values" where
  "apply_policy_changes v c =
     \<lparr>reminder_lead_minutes = override (new_reminder_lead_minutes c) (reminder_lead_minutes v),
      escalation_delay_minutes = override (new_escalation_delay_minutes c) (escalation_delay_minutes v),
      repeat_interval_minutes = override (new_repeat_interval_minutes c) (repeat_interval_minutes v),
      max_reminders = override (new_max_reminders c) (max_reminders v)\<rparr>"

definition with_policy_values :: "notification_policy \<Rightarrow> policy_values \<Rightarrow> notification_policy" where
  "with_policy_values p v =
     p\<lparr>np_reminder_lead_minutes := reminder_lead_minutes v,
       np_escalation_delay_minutes := escalation_delay_minutes v,
       np_repeat_interval_minutes := repeat_interval_minutes v,
       np_max_reminders := max_reminders v\<rparr>"

definition update_project_policy ::
  "actor \<Rightarrow> pk \<times> research_project \<Rightarrow> int \<Rightarrow> policy_changes \<Rightarrow> ('a notification_db_scheme, pk) op"
where
  "update_project_policy u project expected changes = atomic (\<lambda>s.
     let pid = fst project; now = db_now s
     in if \<not> canManageProjectNotificationPolicy (project_capabilities s u pid (snd project))
        then (Inl (PermissionDenied ''Only the active primary advisor can update this policy.''), s)
        else case project_policy_for s pid of
          None \<Rightarrow>
            if expected \<noteq> 0
            then (Inl (VersionConflict [(''projectId'', PInt (int pid)), (''version'', PInt 0)]), s)
            else let effective = apply_policy_changes (default_policy_values (db_settings s)) changes
                 in (case validate_project_policy_values (db_settings s) effective of
                       Inl e \<Rightarrow> (Inl e, s)
                     | Inr _ \<Rightarrow>
                         let k = tbl_next (db_notification_policies s);
                             p = with_policy_values \<lparr>np_project = pid, np_reminder_lead_minutes = 0,
                                   np_escalation_delay_minutes = 0, np_repeat_interval_minutes = 0,
                                   np_max_reminders = 0, np_version = 1, np_updated_by = u_id u,
                                   np_created_at = now, np_updated_at = now\<rparr> effective;
                             s1 = s\<lparr>db_notification_policies := tbl_insert p (db_notification_policies s)\<rparr>
                         in (Inr k, record_execution_event (Some pid) (Some u) ''notification_policy.created''
                               (Some (''ProjectNotificationPolicy'', k))
                               (Some [(''version'', PInt (int (np_version p)))]) True s1))
        | Some (k, p) \<Rightarrow>
            (case require_expected_version k (np_version p) expected
                    (Some [(''projectId'', PInt (int pid)), (''version'', PInt (int (np_version p)))]) of
               Inl e \<Rightarrow> (Inl e, s)
             | Inr _ \<Rightarrow>
                let effective = apply_policy_changes (policy_numbers p) changes
                in (case validate_project_policy_values (db_settings s) effective of
                      Inl e \<Rightarrow> (Inl e, s)
                    | Inr _ \<Rightarrow>
                        let p' = (with_policy_values p effective)\<lparr>np_updated_by := u_id u,
                                   np_version := Suc (np_version p), np_updated_at := now\<rparr>;
                            s1 = s\<lparr>db_notification_policies := tbl_put k p' (db_notification_policies s)\<rparr>
                        in (Inr k, record_execution_event (Some pid) (Some u) ''notification_policy.updated''
                              (Some (''ProjectNotificationPolicy'', k))
                              (Some [(''version'', PInt (int (np_version p')))]) True s1))))"

text \<open>The version a client of the policy read: 0 while the project has no row of its own.\<close>

definition policy_version_of :: "pk \<Rightarrow> 'a notification_db_scheme \<Rightarrow> nat option" where
  "policy_version_of pid s =
     Some (case project_policy_for s pid of None \<Rightarrow> 0 | Some (_, p) \<Rightarrow> np_version p)"

lemma update_project_policy_stale:
  "policy_version_of pid s \<noteq> Some v \<Longrightarrow> \<exists>e. update_project_policy u (pid, proj) (int v) c s = (Inl e, s)"
  by (auto simp: update_project_policy_def atomic_def policy_version_of_def require_expected_version_def Let_def
      split: option.splits prod.splits sum.splits)

lemma policy_first_frame [simp]:
  "project_policy_for (record_execution_event p a act tg st pr s) pid = project_policy_for s pid"
  by (simp add: project_policy_for_def record_execution_event_def record_event_def)

lemma update_project_policy_moves:
  assumes "tbl_wf (db_notification_policies s)" "update_project_policy u (pid, proj) (int v) c s = (Inr k, s')"
  shows "\<exists>v'. policy_version_of pid s' = Some v' \<and> v < v'"
proof (cases "project_policy_for s pid")
  case None
  then have "project_policy_for (s\<lparr>db_notification_policies := tbl_insert p (db_notification_policies s)\<rparr>) pid =
      Some (tbl_next (db_notification_policies s), p)" if "np_project p = pid" for p
    using that unfolding project_policy_for_def by (simp add: tbl_first_insert)
  then show ?thesis
    using assms None
    by (auto simp: update_project_policy_def Let_def policy_version_of_def with_policy_values_def
        split: if_splits sum.splits)
next
  case (Some kp)
  obtain k0 p where kp: "kp = (k0, p)" by (cases kp)
  have f: "tbl_first (\<lambda>_ p. np_project p = pid) (db_notification_policies s) = Some (k0, p)"
    using Some kp by (simp add: project_policy_for_def)
  then have "np_project p = pid" by (auto dest: tbl_firstD)
  then have "project_policy_for (s\<lparr>db_notification_policies := tbl_put k0 p' (db_notification_policies s)\<rparr>) pid =
      Some (k0, p')" if "np_project p' = np_project p" for p'
    using that tbl_first_put [OF assms(1) f, of p'] unfolding project_policy_for_def by simp
  then show ?thesis
    using assms Some kp
    by (auto simp: update_project_policy_def Let_def policy_version_of_def with_policy_values_def
        require_expected_version_def split: if_splits sum.splits)
qed

interpretation policy_update: optimistic_update "policy_version_of pid"
    "\<lambda>v. update_project_policy u (pid, proj) (int v) c" "\<lambda>s. tbl_wf (db_notification_policies s)"
  by unfold_locales (simp_all add: update_project_policy_stale update_project_policy_moves)

section \<open>Required outcomes\<close>

definition TERMINAL_OUTCOMES :: "outcome_state set" where
  "TERMINAL_OUTCOMES =
     {Notification_ACKNOWLEDGED, Notification_COMPLETED, Notification_EXPIRED, Notification_UNAVAILABLE}"

definition register_action_resolver :: "string \<Rightarrow> action_resolver \<Rightarrow> 'a notification_db_scheme \<Rightarrow> 'a notification_db_scheme" where
  "register_action_resolver target_type resolver s = s\<lparr>db_resolvers := (db_resolvers s)(target_type \<mapsto> resolver)\<rparr>"

definition register_execution_outcome_resolvers :: "'a notification_db_scheme \<Rightarrow> 'a notification_db_scheme" where
  "register_execution_outcome_resolvers s =
     register_action_resolver ''WeeklyProgressReport''
       (\<lambda>_ ev _. ev \<in> {''execution.weekly_report.reviewed'', ''weekly_report.reviewed''})
     (register_action_resolver ''RiskRecord''
       (\<lambda>_ ev _. ev \<in> {''execution.risk.accept'', ''execution.risk.resolve''})
     (register_action_resolver ''DeliverableRevision''
       (\<lambda>_ ev _. ev \<in> {''execution.deliverable.recommended'', ''execution.deliverable.decided''}) s))"

text \<open>\<open>objects.get\<close> of a query.\<close>

definition get_one :: "string \<Rightarrow> (pk \<times> 'r) list \<Rightarrow> error + pk" where
  "get_one model rows =
     (case rows of
        [] \<Rightarrow> Inl (DoesNotExist model)
      | [(k, _)] \<Rightarrow> Inr k
      | _ \<Rightarrow> Inl (MultipleObjectsReturned model))"

definition open_follow_ups :: "'a notification_db_scheme \<Rightarrow> pk \<Rightarrow> string \<Rightarrow> (pk \<times> notification) list" where
  "open_follow_ups s recipient key =
     tbl_filter (\<lambda>_ n. nt_recipient n = recipient \<and> nt_dedupe_key n = key \<and> nt_active_follow_up n) (db_notifications s)"

definition create_follow_up_notification :: "string \<Rightarrow> enqueue_args \<Rightarrow> ('a notification_db_scheme, pk \<times> bool) op" where
  "create_follow_up_notification key args s =
     (let args' = args\<lparr>en_active_follow_up := True,
                       en_outcome_state := Some Notification_OUTCOME_PENDING,
                       en_requirement_type := (case en_requirement_type args of
                           None \<Rightarrow> Some Notification_ACTION | Some r \<Rightarrow> Some r),
                       en_dedupe_key := key\<rparr>
      in case atomic (enqueue_notification args') s of
           (Inr k, s') \<Rightarrow> (Inr (k, True), s')
         | (Inl (IntegrityError c), s') \<Rightarrow>
             (case get_one ''Notification'' (open_follow_ups s' (en_recipient args) key) of
                Inl e \<Rightarrow> (Inl e, s') | Inr k \<Rightarrow> (Inr (k, False), s'))
         | (Inl e, s') \<Rightarrow> (Inl e, s'))"

definition acknowledge_notification :: "pk \<Rightarrow> actor \<Rightarrow> ('a notification_db_scheme, pk) op" where
  "acknowledge_notification k u = atomic (\<lambda>s.
     case tbl_get (db_notifications s) k of
       None \<Rightarrow> (Inl (DoesNotExist ''Notification''), s)
     | Some n \<Rightarrow>
        if nt_recipient n \<noteq> u_id u
        then (Inl (PermissionDenied ''Notification acknowledgement is forbidden.''), s)
        else if nt_requirement_type n \<noteq> Notification_ACKNOWLEDGEMENT
        then (Inl (ValidationError ''This notification does not require acknowledgement.''), s)
        else if nt_outcome_state n = Notification_ACKNOWLEDGED then (Inr k, s)
        else if nt_outcome_state n \<noteq> Notification_OUTCOME_PENDING
        then (Inl (ValidationError ''This notification can no longer be acknowledged.''), s)
        else
          let s1 = put_notification k (n\<lparr>nt_outcome_state := Notification_ACKNOWLEDGED,
                     nt_acknowledged_at := Some (db_now s), nt_active_follow_up := False\<rparr>) s
          in (Inr k, record_execution_event (nt_project n) (Some u) ''notification.acknowledged''
                (Some (''Notification'', k))
                (Some [(''outcomeState'', PStr (outcome_value Notification_ACKNOWLEDGED))]) False s1))"

text \<open>\<open>_transition\<close>; \<open>stamp\<close> sets the timestamp field the caller names.\<close>

definition transition_outcome ::
  "pk \<Rightarrow> notification \<Rightarrow> outcome_state \<Rightarrow> (instant \<Rightarrow> notification \<Rightarrow> notification)
   \<Rightarrow> 'a notification_db_scheme \<Rightarrow> 'a notification_db_scheme" where
  "transition_outcome k n oc stamp s =
     (if nt_outcome_state n = oc then s
      else if nt_outcome_state n \<noteq> Notification_OUTCOME_PENDING then s
      else put_notification k (stamp (db_now s) (n\<lparr>nt_outcome_state := oc, nt_active_follow_up := False\<rparr>)) s)"

definition expire_notification :: "pk \<Rightarrow> ('a notification_db_scheme, pk) op" where
  "expire_notification k = atomic (\<lambda>s.
     case tbl_get (db_notifications s) k of
       None \<Rightarrow> (Inl (DoesNotExist ''Notification''), s)
     | Some n \<Rightarrow> (Inr k, transition_outcome k n Notification_EXPIRED (\<lambda>t r. r\<lparr>nt_expired_at := Some t\<rparr>) s))"

definition mark_notification_unavailable :: "pk \<Rightarrow> ('a notification_db_scheme, pk) op" where
  "mark_notification_unavailable k = atomic (\<lambda>s.
     case tbl_get (db_notifications s) k of
       None \<Rightarrow> (Inl (DoesNotExist ''Notification''), s)
     | Some n \<Rightarrow> (Inr k, transition_outcome k n Notification_UNAVAILABLE (\<lambda>t r. r\<lparr>nt_unavailable_at := Some t\<rparr>) s))"

definition resolver_accepts :: "'a notification_db_scheme \<Rightarrow> notification \<Rightarrow> string \<Rightarrow> string \<Rightarrow> bool" where
  "resolver_accepts s n event_type event_id =
     (case db_resolvers s (nt_target_type n) of None \<Rightarrow> False | Some f \<Rightarrow> f n event_type event_id)"

definition reconcile_authoritative_action :: "pk \<Rightarrow> string \<Rightarrow> string \<Rightarrow> ('a notification_db_scheme, pk) op" where
  "reconcile_authoritative_action k event_type event_id = atomic (\<lambda>s.
     case tbl_get (db_notifications s) k of
       None \<Rightarrow> (Inl (DoesNotExist ''Notification''), s)
     | Some n \<Rightarrow>
        if nt_requirement_type n \<noteq> Notification_ACTION then (Inr k, s)
        else if nt_outcome_state n = Notification_COMPLETED then (Inr k, s)
        else if \<not> resolver_accepts s n event_type event_id then (Inr k, s)
        else (Inr k, put_notification k (n\<lparr>nt_outcome_state := Notification_COMPLETED,
                nt_action_completed_at := Some (db_now s), nt_completion_event_type := event_type,
                nt_completion_event_id := event_id, nt_active_follow_up := False\<rparr>) s))"

text \<open>The rows in the model's order, the newest first.\<close>

definition pending_follow_ups ::
  "'a notification_db_scheme \<Rightarrow> pk option \<Rightarrow> string \<Rightarrow> string \<Rightarrow> (pk \<times> notification) list" where
  "pending_follow_ups s project target_type target_id =
     sort_key (\<lambda>(_, n). - nt_created_at n)
       (tbl_filter (\<lambda>_ n. nt_project n = project \<and> nt_target_type n = target_type \<and> nt_target_id n = target_id
          \<and> nt_outcome_state n = Notification_OUTCOME_PENDING \<and> nt_active_follow_up n) (db_notifications s))"

definition reconcile_notifications_for_event ::
  "pk option \<Rightarrow> string \<Rightarrow> string \<Rightarrow> string \<Rightarrow> string \<Rightarrow> ('a notification_db_scheme, unit) op" where
  "reconcile_notifications_for_event project target_type target_id event_type event_id s =
     for_each (\<lambda>kn. void (reconcile_authoritative_action (fst kn) event_type event_id))
       (pending_follow_ups s project target_type target_id) s"

text \<open>Repeating an acknowledgement or an expiry changes nothing.\<close>

lemma put_notification_get: "tbl_get (tbl_put k r t) k = Some r"
  by (simp add: tbl_get_def map_of_dict_set)

lemma record_execution_event_notifications [simp]:
  "db_notifications (record_execution_event p a act tg st pr s) = db_notifications s"
  by (simp add: record_execution_event_def)

interpretation acknowledgement: retry_safe "acknowledge_notification k u"
  by unfold_locales
    (auto simp: acknowledge_notification_def atomic_def Let_def put_notification_def put_notification_get
      split: option.splits if_splits sum.splits prod.splits)

interpretation expiry: retry_safe "expire_notification k"
  by unfold_locales
    (auto simp: expire_notification_def atomic_def transition_outcome_def put_notification_def put_notification_get
      split: option.splits if_splits)

section \<open>The outcome machine\<close>

inductive outcome_step :: "requirement_type \<Rightarrow> outcome_state \<Rightarrow> outcome_state \<Rightarrow> bool" where
  acknowledged: "outcome_step Notification_ACKNOWLEDGEMENT Notification_OUTCOME_PENDING Notification_ACKNOWLEDGED"
| completed: "r = Notification_ACTION \<Longrightarrow> oc \<noteq> Notification_NOT_REQUIRED \<Longrightarrow> oc \<noteq> Notification_COMPLETED
    \<Longrightarrow> outcome_step r oc Notification_COMPLETED"
| expired: "outcome_step r Notification_OUTCOME_PENDING Notification_EXPIRED"
| unavailable: "outcome_step r Notification_OUTCOME_PENDING Notification_UNAVAILABLE"

inductive_cases outcome_stepE: "outcome_step r oc oc'"
inductive_simps outcome_step_simps: "outcome_step r oc oc'"

abbreviation outcome_reaches :: "requirement_type \<Rightarrow> outcome_state \<Rightarrow> outcome_state \<Rightarrow> bool" where
  "outcome_reaches r \<equiv> (outcome_step r)\<^sup>*\<^sup>*"

lemma reaches_acknowledged:
  "outcome_reaches Notification_ACKNOWLEDGEMENT Notification_OUTCOME_PENDING Notification_ACKNOWLEDGED"
  by (rule r_into_rtranclp) (rule acknowledged)

lemma reaches_completed:
  "oc \<noteq> Notification_NOT_REQUIRED \<Longrightarrow> outcome_reaches Notification_ACTION oc Notification_COMPLETED"
  by (cases "oc = Notification_COMPLETED") (auto intro: r_into_rtranclp outcome_step.completed)

text \<open>What no command undoes: an acknowledgement and a completed action.\<close>

lemma acknowledged_final:
  "outcome_reaches Notification_ACKNOWLEDGEMENT Notification_ACKNOWLEDGED oc \<Longrightarrow> oc = Notification_ACKNOWLEDGED"
  by (induction rule: rtranclp_induct) (auto elim: outcome_stepE)

lemma completed_final: "outcome_reaches r Notification_COMPLETED oc \<Longrightarrow> oc = Notification_COMPLETED"
  by (induction rule: rtranclp_induct) (auto elim: outcome_stepE)

lemma never_pending_again:
  "outcome_reaches r oc oc' \<Longrightarrow> oc \<noteq> Notification_OUTCOME_PENDING \<Longrightarrow> oc' \<noteq> Notification_OUTCOME_PENDING"
  by (induction rule: rtranclp_induct) (auto elim: outcome_stepE)

text \<open>A notification keeps its addressee and requirement, and its outcome moves along the arrows.\<close>

definition evolves :: "notification table \<Rightarrow> notification table \<Rightarrow> bool" where
  "evolves t t' \<longleftrightarrow>
     (\<forall>k n. tbl_get t k = Some n \<longrightarrow>
        (\<exists>n'. tbl_get t' k = Some n' \<and> nt_recipient n' = nt_recipient n
            \<and> nt_requirement_type n' = nt_requirement_type n
            \<and> outcome_reaches (nt_requirement_type n) (nt_outcome_state n) (nt_outcome_state n')))"

lemma evolves_refl [simp]: "evolves t t"
  by (simp add: evolves_def)

lemma evolves_trans: "evolves t u \<Longrightarrow> evolves u v \<Longrightarrow> evolves t v"
  unfolding evolves_def by (metis (no_types, lifting) rtranclp_trans)

lemma evolves_insert: "tbl_wf t \<Longrightarrow> evolves t (tbl_insert n t)"
  unfolding evolves_def by (auto dest: tbl.get_add_old [of t _ _ n])

lemma evolves_put:
  assumes "tbl_wf t" "tbl_get t k = Some n" "nt_recipient n' = nt_recipient n"
    "nt_requirement_type n' = nt_requirement_type n"
    "outcome_reaches (nt_requirement_type n) (nt_outcome_state n) (nt_outcome_state n')"
  shows "evolves t (tbl_put k n' t)"
  using assms unfolding evolves_def by (auto simp: tbl.get_put)

lemma evolves_update_where:
  "(\<And>n. nt_recipient (f n) = nt_recipient n \<and> nt_requirement_type (f n) = nt_requirement_type n
      \<and> nt_outcome_state (f n) = nt_outcome_state n) \<Longrightarrow> evolves t (tbl_update_where c f t)"
  unfolding evolves_def by (auto simp: tbl_get_update_where)

text \<open>A step of the notification table: the constraints hold after it, and every row evolves.\<close>

definition good_step :: "'a notification_db_scheme \<Rightarrow> 'a notification_db_scheme \<Rightarrow> bool" where
  "good_step s s' \<longleftrightarrow>
     (notifications_ok (db_notifications s) \<longrightarrow>
        notifications_ok (db_notifications s') \<and> evolves (db_notifications s) (db_notifications s'))"

lemma good_stepI_same: "db_notifications s' = db_notifications s \<Longrightarrow> good_step s s'"
  by (simp add: good_step_def)

lemma good_step_refl [simp]: "good_step s s"
  by (simp add: good_step_def)

lemma good_step_trans: "good_step s t \<Longrightarrow> good_step t u \<Longrightarrow> good_step s u"
  unfolding good_step_def by (blast intro: evolves_trans)

lemma good_step_put:
  assumes "tbl_get (db_notifications s) k = Some n" "nt_recipient n' = nt_recipient n"
    "nt_requirement_type n' = nt_requirement_type n"
    "notification_requirement_outcome_valid n \<Longrightarrow> notification_requirement_outcome_valid n'"
    "follow_up_key n' = None \<or> follow_up_key n' = follow_up_key n"
    "notification_requirement_outcome_valid n \<Longrightarrow>
     outcome_reaches (nt_requirement_type n) (nt_outcome_state n) (nt_outcome_state n')"
  shows "good_step s (put_notification k n' s)"
proof -
  have "notifications_ok (tbl_put k n' (db_notifications s)) \<and>
      evolves (db_notifications s) (tbl_put k n' (db_notifications s))"
    if ok: "notifications_ok (db_notifications s)"
  proof
    have v: "notification_requirement_outcome_valid n"
      using ok tbl_getD [OF assms(1)] by (auto simp: notifications_ok_def)
    show "notifications_ok (tbl_put k n' (db_notifications s))"
      by (rule notifications_ok_put [OF ok assms(1) assms(4) [OF v] assms(5)])
    show "evolves (db_notifications s) (tbl_put k n' (db_notifications s))"
      by (rule evolves_put [OF notifications_ok_wf [OF ok] assms(1-3) assms(6) [OF v]])
  qed
  then show ?thesis by (simp add: good_step_def put_notification_def)
qed

lemma notifications_ok_update_where:
  assumes "notifications_ok t"
    and "\<And>n. follow_up_key (f n) = follow_up_key n"
    and "\<And>n. notification_requirement_outcome_valid n \<Longrightarrow> notification_requirement_outcome_valid (f n)"
  shows "notifications_ok (tbl_update_where c f t)"
proof -
  have "unique_on follow_up_key (tbl_update_where c f t)"
    using assms(1,2) by (intro unique_on_update_where) (simp_all add: notifications_ok_def)
  then show ?thesis
    using assms(1,3) by (auto simp: notifications_ok_def wf_tbl_update_where)
qed

lemma good_step_update:
  assumes "\<And>n. nt_recipient (f n) = nt_recipient n \<and> nt_requirement_type (f n) = nt_requirement_type n
      \<and> nt_outcome_state (f n) = nt_outcome_state n \<and> nt_active_follow_up (f n) = nt_active_follow_up n
      \<and> nt_dedupe_key (f n) = nt_dedupe_key n"
  shows "good_step s (update_notification k f s)"
  using assms unfolding good_step_def update_notification_def
  by (auto intro!: evolves_update_where notifications_ok_update_where
      simp: follow_up_key_def notification_requirement_outcome_valid_def)

lemma good_step_insert: "insert_notification n s = (r, s') \<Longrightarrow> good_step s s'"
  by (auto simp: good_step_def insert_notification_def notifications_ok_insert notifications_ok_wf
      intro!: evolves_insert split: if_splits)

lemma same_notifications_profile: "preference_profile_for u s = (k, s') \<Longrightarrow> db_notifications s' = db_notifications s"
  by (auto simp: preference_profile_for_def get_or_create_profile_def split: option.splits)

lemma same_notifications_enabled: "email_enabled_for u c s = (b, s') \<Longrightarrow> db_notifications s' = db_notifications s"
  by (auto simp: email_enabled_for_def same_notifications_profile split: if_splits prod.splits option.splits)

lemma same_notifications_eligible: "email_eligible_at n s = (r, s') \<Longrightarrow> db_notifications s' = db_notifications s"
  by (auto simp: email_eligible_at_def quiet_hours_eligible_at_def same_notifications_profile
      split: if_splits prod.splits)

lemma good_step_enqueue_email:
  assumes g: "tbl_get (db_notifications s) k = Some n" and e: "enqueue_email k n s = (r, s')"
  shows "good_step s s'"
proof -
  obtain e1 s1 where 1: "email_eligible_at n s = (e1, s1)" by fastforce
  obtain b s2 where 2: "email_enabled_for (nt_recipient n) (nt_category n) s1 = (b, s2)" by fastforce
  have same: "db_notifications s1 = db_notifications s" "db_notifications s2 = db_notifications s"
    using same_notifications_eligible [OF 1] same_notifications_enabled [OF 2] by simp_all
  have g2: "tbl_get (db_notifications (insert_attempt d s2)) k = Some n" for d
    using g same by (simp add: insert_attempt_def)
  have s0: "good_step s (insert_attempt d s2)" for d
    by (rule good_stepI_same) (simp add: insert_attempt_def same)
  have p: "good_step (insert_attempt d s2) (put_notification k (n\<lparr>nt_eligible_at := t\<rparr>) (insert_attempt d s2))"
    "good_step (insert_attempt d s2) (put_notification k (n\<lparr>nt_status := st\<rparr>) (insert_attempt d s2))" for d t st
    by (rule good_step_put [OF g2];
        simp add: notification_requirement_outcome_valid_def follow_up_key_def)+
  show ?thesis
  proof (cases e1)
    case (Inl err)
    then show ?thesis using e 1 same by (auto simp: enqueue_email_def intro: good_stepI_same)
  next
    case (Inr t)
    then show ?thesis
      using e 1 2 s0 good_step_trans [OF s0 p(1)] good_step_trans [OF s0 p(2)]
      by (auto simp: enqueue_email_def Let_def split: if_splits)
  qed
qed

lemma good_step_enqueue: "enqueue_notification a s = (r, s') \<Longrightarrow> good_step s s'"
proof -
  assume e: "enqueue_notification a s = (r, s')"
  let ?n = "notification_of s a"
  obtain r1 s1 where 1: "insert_notification ?n s = (r1, s1)" by fastforce
  have g1: "good_step s s1" by (rule good_step_insert [OF 1])
  show ?thesis
  proof (cases r1)
    case (Inl err)
    then show ?thesis using e 1 g1 by (simp add: enqueue_notification_def)
  next
    case (Inr k)
    let ?s2 = "if nt_delivery_policy ?n \<noteq> Notification_EMAIL_ONLY
               then insert_attempt (in_app_attempt k ?n) s1 else s1"
    obtain r3 s3 where 3: "enqueue_email k ?n ?s2 = (r3, s3)" by fastforce
    have s2: "db_notifications ?s2 = db_notifications s1" by (simp add: insert_attempt_def)
    then have g2: "good_step s ?s2" using g1 by (simp add: good_step_def)
    have row: "tbl_get (db_notifications ?s2) k = Some ?n" if "tbl_wf (db_notifications s)"
      unfolding s2 using 1 Inr that
      by (auto simp: insert_notification_def tbl.get_add_new split: if_splits)
    have "good_step s s3"
    proof (cases "notifications_ok (db_notifications s)")
      case True
      then show ?thesis
        using good_step_trans [OF g2 good_step_enqueue_email [OF row 3]] notifications_ok_wf by blast
    qed (simp add: good_step_def)
    then show ?thesis
      using e 1 Inr 3 g2 by (cases r3) (auto simp: enqueue_notification_def Let_def split: if_splits)
  qed
qed

lemma good_step_atomic: "(\<And>r s'. m s = (r, s') \<Longrightarrow> good_step s s') \<Longrightarrow> atomic m s = (r, s') \<Longrightarrow> good_step s s'"
  by (cases r) auto

lemma good_step_record_event [simp]: "good_step s (record_event p a t sm tg opts s') = good_step s s'"
  by (simp add: good_step_def record_event_def)

lemma good_step_record_execution_event [simp]:
  "good_step s (record_execution_event p a act tg st pr s') = good_step s s'"
  by (simp add: record_execution_event_def)

definition follow_up_args :: "string \<Rightarrow> enqueue_args \<Rightarrow> enqueue_args" where
  "follow_up_args key a =
     a\<lparr>en_active_follow_up := True, en_outcome_state := Some Notification_OUTCOME_PENDING,
       en_requirement_type := (case en_requirement_type a of None \<Rightarrow> Some Notification_ACTION | Some r \<Rightarrow> Some r),
       en_dedupe_key := key\<rparr>"

lemma follow_up_state:
  "snd (create_follow_up_notification key a s) = snd (atomic (enqueue_notification (follow_up_args key a)) s)"
  by (simp add: create_follow_up_notification_def follow_up_args_def Let_def split: prod.splits sum.splits error.splits)

lemma good_step_follow_up: "create_follow_up_notification key a s = (r, s') \<Longrightarrow> good_step s s'"
  using follow_up_state [of key a s] good_step_atomic [of "enqueue_notification (follow_up_args key a)" s] good_step_enqueue
  by (metis prod.collapse snd_conv)

lemma transition_good:
  assumes g: "tbl_get (db_notifications s) k = Some n"
    and oc: "oc \<in> {Notification_EXPIRED, Notification_UNAVAILABLE}"
    and stamp: "\<And>t n. nt_recipient (stamp t n) = nt_recipient n
      \<and> nt_requirement_type (stamp t n) = nt_requirement_type n
      \<and> nt_outcome_state (stamp t n) = nt_outcome_state n \<and> nt_active_follow_up (stamp t n) = nt_active_follow_up n
      \<and> nt_dedupe_key (stamp t n) = nt_dedupe_key n"
  shows "good_step s (transition_outcome k n oc stamp s)"
proof -
  have "good_step s (put_notification k (stamp t (n\<lparr>nt_outcome_state := oc, nt_active_follow_up := False\<rparr>)) s)"
    if p: "nt_outcome_state n = Notification_OUTCOME_PENDING" for t
  proof (rule good_step_put [OF g])
    have "outcome_step (nt_requirement_type n) Notification_OUTCOME_PENDING oc"
      using oc by (auto intro: outcome_step.intros)
    then show "outcome_reaches (nt_requirement_type n) (nt_outcome_state n)
        (nt_outcome_state (stamp t (n\<lparr>nt_outcome_state := oc, nt_active_follow_up := False\<rparr>)))"
      using p by (simp add: stamp)
  qed (use oc p in \<open>auto simp: stamp follow_up_key_def notification_requirement_outcome_valid_def\<close>)
  then show ?thesis by (simp add: transition_outcome_def)
qed

lemma good_step_acknowledge: "acknowledge_notification k u s = (r, s') \<Longrightarrow> good_step s s'"
  unfolding acknowledge_notification_def
  by (erule good_step_atomic [rotated])
    (auto simp: Let_def follow_up_key_def notification_requirement_outcome_valid_def
      split: option.splits if_splits intro!: good_step_put reaches_acknowledged)

lemma good_step_expire: "expire_notification k s = (r, s') \<Longrightarrow> good_step s s'"
  unfolding expire_notification_def
  by (erule good_step_atomic [rotated]) (auto split: option.splits intro!: transition_good)

lemma good_step_unavailable: "mark_notification_unavailable k s = (r, s') \<Longrightarrow> good_step s s'"
  unfolding mark_notification_unavailable_def
  by (erule good_step_atomic [rotated]) (auto split: option.splits intro!: transition_good)

lemma good_step_reconcile: "reconcile_authoritative_action k ev eid s = (r, s') \<Longrightarrow> good_step s s'"
  unfolding reconcile_authoritative_action_def
  by (erule good_step_atomic [rotated])
    (auto simp: follow_up_key_def notification_requirement_outcome_valid_def
      split: option.splits if_splits intro!: good_step_put reaches_completed)

lemma for_each_rel:
  assumes refl: "\<And>s. R s s" and trans: "\<And>s t u. R s t \<Longrightarrow> R t u \<Longrightarrow> R s u"
    and step: "\<And>x s. x \<in> set xs \<Longrightarrow> R s (snd (f x s))"
  shows "R s (snd (for_each f xs s))"
  using step
proof (induction xs arbitrary: s)
  case (Cons x xs)
  have a: "R s (snd (f x s))" using Cons.prems by simp
  have b: "R t (snd (for_each f xs t))" for t using Cons by simp
  show ?case
  proof (cases "f x s")
    case (Pair r s')
    have "R s s'" using a Pair by simp
    then have "R s (snd (for_each f xs s'))" using b by (rule trans)
    then show ?thesis using \<open>R s s'\<close> Pair by (cases r) auto
  qed
qed (simp add: refl)

lemma good_step_reconcile_event: "good_step s (snd (reconcile_notifications_for_event p tt ti ev eid s))"
  unfolding reconcile_notifications_for_event_def
  by (rule for_each_rel [where R = good_step]) (auto intro: good_step_trans good_step_reconcile [OF surjective_pairing])

lemma good_step_mark_status: "good_step s (snd (mark_notification_status kn st f s))"
proof -
  let ?n' = "with_status (snd kn) st f (db_now s)"
  let ?s1 = "update_notification (fst kn) (\<lambda>r. r\<lparr>nt_status := nt_status ?n', nt_queued_at := nt_queued_at ?n',
                 nt_sent_at := nt_sent_at ?n', nt_failure_reason := nt_failure_reason ?n'\<rparr>) s"
  have "good_step s ?s1" by (rule good_step_update) simp
  moreover have "good_step ?s1 (update_attempt a d ?s1)" for a d
    by (rule good_stepI_same) (simp add: update_attempt_def)
  ultimately show ?thesis
    unfolding mark_notification_status_def Let_def
    by (auto split: option.splits intro: good_step_trans)
qed

lemma good_step_mark_failed: "good_step s (snd (mark_notification_attempt_failed kn exc b s))"
proof -
  let ?n' = "with_failed_attempt (snd kn) exc b (db_now s)"
  let ?s1 = "update_notification (fst kn) (\<lambda>r. r\<lparr>nt_status := nt_status ?n', nt_failure_reason := nt_failure_reason ?n',
                 nt_last_attempt_at := nt_last_attempt_at ?n', nt_retry_count := nt_retry_count ?n',
                 nt_eligible_at := nt_eligible_at ?n'\<rparr>) s"
  have "good_step s ?s1" by (rule good_step_update) simp
  moreover have "good_step ?s1 (update_attempt a d ?s1)" for a d
    by (rule good_stepI_same) (simp add: update_attempt_def)
  moreover have "good_step ?s1 (update_attempt a d (insert_attempt e ?s1))" for a d e
    by (rule good_stepI_same) (simp add: update_attempt_def insert_attempt_def)
  ultimately show ?thesis
    unfolding mark_notification_attempt_failed_def Let_def
    by (auto split: option.splits prod.splits intro: good_step_trans)
qed

lemma good_step_preferences: "update_preference_profile u v e a b z em s = (r, s') \<Longrightarrow> good_step s s'"
  unfolding update_preference_profile_def
  by (erule good_step_atomic [rotated])
    (auto simp: Let_def dest!: same_notifications_profile intro!: good_stepI_same
      split: option.splits prod.splits sum.splits if_splits)

lemma good_step_policy: "update_project_policy u pr v c s = (r, s') \<Longrightarrow> good_step s s'"
  unfolding update_project_policy_def
  by (erule good_step_atomic [rotated])
    (auto simp: Let_def intro: good_stepI_same split: option.splits prod.splits sum.splits if_splits)

section \<open>The commands of the component\<close>

datatype notification_command =
    Enqueue enqueue_args
  | FollowUp string enqueue_args
  | Acknowledge pk actor
  | Expire pk
  | MarkUnavailable pk
  | Reconcile pk string string
  | ReconcileEvent "pk option" string string string string
  | MarkStatus "pk \<times> notification" notification_status string
  | MarkFailed "pk \<times> notification" failure bool
  | UpdatePreferences pk int bool "int option" "int option" string "(string \<times> bool) list"
  | UpdatePolicy actor "pk \<times> research_project" int policy_changes

fun notification_command_step :: "notification_command \<Rightarrow> ('a notification_db_scheme, unit) op" where
  "notification_command_step (Enqueue a) s = void (enqueue_notification a) s"
| "notification_command_step (FollowUp key a) s = void (create_follow_up_notification key a) s"
| "notification_command_step (Acknowledge k u) s = void (acknowledge_notification k u) s"
| "notification_command_step (Expire k) s = void (expire_notification k) s"
| "notification_command_step (MarkUnavailable k) s = void (mark_notification_unavailable k) s"
| "notification_command_step (Reconcile k ev eid) s = void (reconcile_authoritative_action k ev eid) s"
| "notification_command_step (ReconcileEvent p tt ti ev eid) s = reconcile_notifications_for_event p tt ti ev eid s"
| "notification_command_step (MarkStatus kn st f) s = (Inr (), snd (mark_notification_status kn st f s))"
| "notification_command_step (MarkFailed kn exc b) s = (Inr (), snd (mark_notification_attempt_failed kn exc b s))"
| "notification_command_step (UpdatePreferences u v e a b z em) s = void (update_preference_profile u v e a b z em) s"
| "notification_command_step (UpdatePolicy u p v c) s = void (update_project_policy u p v c) s"

lemma good_step_command: "good_step s (snd (notification_command_step c s))"
  by (cases c)
    (auto intro: good_step_enqueue [OF surjective_pairing] good_step_follow_up [OF surjective_pairing]
      good_step_acknowledge [OF surjective_pairing] good_step_expire [OF surjective_pairing]
      good_step_unavailable [OF surjective_pairing] good_step_reconcile [OF surjective_pairing]
      good_step_reconcile_event good_step_mark_status good_step_mark_failed
      good_step_preferences [OF surjective_pairing] good_step_policy [OF surjective_pairing])

definition mail_ok :: "'a notification_db_scheme \<Rightarrow> bool" where
  "mail_ok s \<longleftrightarrow> notifications_ok (db_notifications s)"

interpretation mail: command_system notification_command_step mail_ok
  using good_step_command by unfold_locales (auto simp: good_step_def mail_ok_def)

lemma run_evolves:
  "mail_ok s \<Longrightarrow> evolves (db_notifications s) (db_notifications (run_all notification_command_step cs s))"
proof (induction cs arbitrary: s)
  case (Cons c cs)
  have "mail_ok (snd (notification_command_step c s))" by (rule mail.step_inv [OF Cons.prems])
  moreover have "evolves (db_notifications s) (db_notifications (snd (notification_command_step c s)))"
    using good_step_command [of s c] Cons.prems by (simp add: good_step_def mail_ok_def)
  ultimately show ?case using Cons.IH by (auto intro: evolves_trans)
qed simp

end
