(* ===== verification/ResourceModel.thy ===== *)
theory ResourceModel
  imports NotificationOutcomes
begin

text \<open>
  The resource tables (\<open>apps/resources/models.py\<close>) and the helpers every resource service uses
  (\<open>apps/resources/services.py\<close>, the functions above the service classes).

  A JSON schema field is the three entries the code reads of it. Money is in hundredths.
  \<open>bookings_ok\<close> and \<open>items_ok\<close> state the check constraints of the tables.
\<close>

datatype confirmation_policy = ResourceType_IMMEDIATE | ResourceType_APPROVAL_REQUIRED

datatype resource_scope = ResourceType_GLOBAL | ResourceType_PROJECT

datatype resource_type_status = ResourceType_ACTIVE | ResourceType_ARCHIVED

fun confirmation_policy_value :: "confirmation_policy \<Rightarrow> string" where
  "confirmation_policy_value ResourceType_IMMEDIATE = ''immediate''"
| "confirmation_policy_value ResourceType_APPROVAL_REQUIRED = ''approval_required''"

definition confirmation_policy_of_value :: "string \<Rightarrow> confirmation_policy option" where
  "confirmation_policy_of_value v =
     find (\<lambda>p. confirmation_policy_value p = v) [ResourceType_IMMEDIATE, ResourceType_APPROVAL_REQUIRED]"

record schema_field =
  sf_key :: string
  sf_field_type :: string
  sf_required :: bool

record resource_type =
  rt_name :: string
  rt_description :: string
  rt_scope :: resource_scope
  rt_field_schema :: "schema_field list"
  rt_eligibility_policy :: pydict
  rt_booking_policy :: pydict
  rt_confirmation_policy :: confirmation_policy
  rt_status :: resource_type_status
  rt_created_at :: instant
  rt_updated_at :: instant

definition SUPPORTED_FIELD_TYPES :: "string set" where
  "SUPPORTED_FIELD_TYPES = {''text'', ''number'', ''boolean'', ''select'', ''multi_select'', ''date''}"

fun clean_schema :: "string list \<Rightarrow> schema_field list \<Rightarrow> error + unit" where
  "clean_schema seen [] = Inr ()"
| "clean_schema seen (f # fs) =
     (if sf_key f = [] then Inl (ValidationError ''Resource field keys are required'')
      else if sf_key f \<in> set seen
      then Inl (ValidationError (''Duplicate resource field key: '' @ sf_key f))
      else if sf_field_type f \<notin> SUPPORTED_FIELD_TYPES
      then Inl (ValidationError (''Unsupported resource field type: '' @ sf_field_type f))
      else clean_schema (sf_key f # seen) fs)"

definition resource_type_clean :: "resource_type \<Rightarrow> error + unit" where
  "resource_type_clean rt = clean_schema [] (rt_field_schema rt)"

datatype resource_kind = ResourceItem_EQUIPMENT | ResourceItem_CONSUMABLE

datatype resource_status = ResourceItem_AVAILABLE | ResourceItem_UNAVAILABLE | ResourceItem_RETIRED

fun resource_status_value :: "resource_status \<Rightarrow> string" where
  "resource_status_value ResourceItem_AVAILABLE = ''available''"
| "resource_status_value ResourceItem_UNAVAILABLE = ''unavailable''"
| "resource_status_value ResourceItem_RETIRED = ''retired''"

record resource_item =
  ri_resource_type :: pk
  ri_kind :: resource_kind
  ri_name :: string
  ri_description :: string
  ri_location :: string
  ri_total_quantity :: int
  ri_field_values :: pydict
  ri_availability_policy :: pydict
  ri_confirmation_policy_override :: "confirmation_policy option"
  ri_manager :: "pk option"
  ri_use_instructions :: string
  ri_stock_on_hand :: int
  ri_reorder_level :: int
  ri_stock_unit :: string
  ri_unit_cost :: int
  ri_calibration_interval_days :: "int option"
  ri_next_calibration_at :: "day option"
  ri_status :: resource_status
  ri_version :: nat
  ri_created_at :: instant
  ri_updated_at :: instant

definition schema_by_key :: "schema_field list \<Rightarrow> (string \<times> schema_field) list" where
  "schema_by_key schema = dict_build (map (\<lambda>f. (sf_key f, f)) (filter (\<lambda>f. sf_key f \<noteq> []) schema))"

definition required_missing :: "schema_field list \<Rightarrow> pydict \<Rightarrow> string option" where
  "required_missing schema vals =
     map_option fst (find (\<lambda>(key, f). sf_required f \<and> key \<notin> fst ` set vals) (schema_by_key schema))"

definition unsupported_values :: "schema_field list \<Rightarrow> pydict \<Rightarrow> string list" where
  "unsupported_values schema vals =
     sort (remdups (filter (\<lambda>k. k \<notin> fst ` set (schema_by_key schema)) (map fst vals)))"

text \<open>\<open>ResourceItem.clean\<close>, given the schema of the item's type.\<close>

definition resource_item_clean :: "schema_field list \<Rightarrow> resource_item \<Rightarrow> error + unit" where
  "resource_item_clean schema r =
     (if ri_total_quantity r < 1
      then Inl (FieldError ''total_quantity'' ''Resource quantity must be at least 1'')
      else case required_missing schema (ri_field_values r) of
        Some key \<Rightarrow> Inl (ValidationError (''Resource field '' @ [CHR 0x27] @ key @ [CHR 0x27] @ '' is required''))
      | None \<Rightarrow>
          if unsupported_values schema (ri_field_values r) \<noteq> []
          then Inl (ValidationError (''Unsupported resource field values: ''
                 @ py_join '', '' (unsupported_values schema (ri_field_values r))))
          else if ri_kind r = ResourceItem_CONSUMABLE \<and> py_strip (ri_stock_unit r) = []
          then Inl (FieldError ''stock_unit'' ''Consumables require a stock unit'')
          else if ri_kind r = ResourceItem_CONSUMABLE
                  \<and> (case ri_calibration_interval_days r of None \<Rightarrow> False | Some d \<Rightarrow> d \<noteq> 0)
          then Inl (ValidationError ''Consumables do not support calibration intervals'')
          else Inr ())"

text \<open>
  The field validators \<open>full_clean\<close> runs first: required and bounded texts, numbers that are not
  negative. Of the errors it collects the model keeps the first.
\<close>

definition too_long :: "nat \<Rightarrow> string \<Rightarrow> bool" where
  "too_long n t \<longleftrightarrow> n < length t"

definition resource_item_full_clean :: "schema_field list \<Rightarrow> resource_item \<Rightarrow> error + unit" where
  "resource_item_full_clean schema r =
     (if ri_name r = [] then Inl (FieldError ''name'' ''This field cannot be blank.'')
      else if too_long 255 (ri_name r) then Inl (FieldError ''name'' ''max_length'')
      else if too_long 255 (ri_location r) then Inl (FieldError ''location'' ''max_length'')
      else if ri_total_quantity r < 0 then Inl (FieldError ''total_quantity'' ''min_value'')
      else if ri_stock_on_hand r < 0 then Inl (FieldError ''stock_on_hand'' ''min_value'')
      else if ri_reorder_level r < 0 then Inl (FieldError ''reorder_level'' ''min_value'')
      else if too_long 40 (ri_stock_unit r) then Inl (FieldError ''stock_unit'' ''max_length'')
      else if (case ri_calibration_interval_days r of None \<Rightarrow> False | Some d \<Rightarrow> d < 0)
      then Inl (FieldError ''calibration_interval_days'' ''min_value'')
      else resource_item_clean schema r)"

datatype use_submission_type = ResourceUseSubmission_REQUEST | ResourceUseSubmission_USE_RECORD

datatype use_status =
    ResourceUseSubmission_PENDING
  | ResourceUseSubmission_CONFIRMED
  | ResourceUseSubmission_REJECTED

record use_submission =
  us_resource_item :: pk
  us_student :: pk
  us_submission_type :: use_submission_type
  us_details :: string
  us_status :: use_status
  us_reviewer :: "pk option"
  us_decision_note :: string
  us_submitted_at :: instant
  us_decided_at :: "instant option"

datatype booking_origin = Booking_STUDENT_REQUEST | Booking_STAFF_DIRECT | Booking_LEGACY_BOOKING

fun booking_origin_value :: "booking_origin \<Rightarrow> string" where
  "booking_origin_value Booking_STUDENT_REQUEST = ''student_request''"
| "booking_origin_value Booking_STAFF_DIRECT = ''staff_direct''"
| "booking_origin_value Booking_LEGACY_BOOKING = ''legacy_booking''"

datatype booking_status =
    Booking_PENDING
  | Booking_CONFIRMED
  | Booking_RESERVED
  | Booking_REJECTED
  | Booking_CANCELLED
  | Booking_COMPLETED

fun booking_status_value :: "booking_status \<Rightarrow> string" where
  "booking_status_value Booking_PENDING = ''pending''"
| "booking_status_value Booking_CONFIRMED = ''confirmed''"
| "booking_status_value Booking_RESERVED = ''reserved''"
| "booking_status_value Booking_REJECTED = ''rejected''"
| "booking_status_value Booking_CANCELLED = ''cancelled''"
| "booking_status_value Booking_COMPLETED = ''completed''"

record booking =
  bk_project :: "pk option"
  bk_resource_item :: pk
  bk_requested_by :: pk
  bk_starts_at :: instant
  bk_ends_at :: instant
  bk_quantity :: int
  bk_origin :: booking_origin
  bk_confirmation_policy :: confirmation_policy
  bk_status :: booking_status
  bk_purpose :: string
  bk_reviewer :: "pk option"
  bk_decision_note :: string
  bk_decided_at :: "instant option"
  bk_version :: nat
  bk_created_at :: instant
  bk_updated_at :: instant
  bk_cancelled_at :: "instant option"
  bk_completed_at :: "instant option"

text \<open>The two check constraints of the booking table.\<close>

definition booking_checks :: "booking \<Rightarrow> bool" where
  "booking_checks b \<longleftrightarrow> 1 \<le> bk_quantity b \<and> bk_starts_at b < bk_ends_at b"

datatype maintenance_kind =
    Maintenance_PREVENTIVE
  | Maintenance_CALIBRATION
  | Maintenance_REPAIR
  | Maintenance_FAULT

datatype maintenance_status =
    Maintenance_SCHEDULED
  | Maintenance_IN_PROGRESS
  | Maintenance_COMPLETED
  | Maintenance_CANCELLED

fun maintenance_status_value :: "maintenance_status \<Rightarrow> string" where
  "maintenance_status_value Maintenance_SCHEDULED = ''scheduled''"
| "maintenance_status_value Maintenance_IN_PROGRESS = ''in_progress''"
| "maintenance_status_value Maintenance_COMPLETED = ''completed''"
| "maintenance_status_value Maintenance_CANCELLED = ''cancelled''"

record maintenance_record =
  mr_resource_item :: pk
  mr_kind :: maintenance_kind
  mr_status :: maintenance_status
  mr_title :: string
  mr_details :: string
  mr_provider :: string
  mr_scheduled_at :: instant
  mr_due_at :: "instant option"
  mr_completed_at :: "instant option"
  mr_takes_offline :: bool
  mr_cost :: int
  mr_created_by :: pk
  mr_completed_by :: "pk option"
  mr_created_at :: instant
  mr_updated_at :: instant

datatype stock_kind = Stock_RECEIPT | Stock_ISSUE | Stock_ADJUSTMENT

record stock_transaction =
  st_resource_item :: pk
  st_project :: "pk option"
  st_kind :: stock_kind
  st_quantity_delta :: int
  st_balance_after :: int
  st_unit_cost :: int
  st_note :: string
  st_recorded_by :: pk
  st_recorded_at :: instant

record resource_db = notification_db +
  db_resource_types :: "resource_type table"
  db_resource_items :: "resource_item table"
  db_use_submissions :: "use_submission table"
  db_bookings :: "booking table"
  db_maintenance :: "maintenance_record table"
  db_stock :: "stock_transaction table"

text \<open>What queueing a notification and recording an event leave alone.\<close>

lemma only_mail_resource:
  assumes "only_mail s s'"
  shows "db_resource_types s' = db_resource_types s \<and> db_resource_items s' = db_resource_items s
    \<and> db_use_submissions s' = db_use_submissions s \<and> db_bookings s' = db_bookings s
    \<and> db_maintenance s' = db_maintenance s \<and> db_stock s' = db_stock s"
  using only_mailD(12) [OF assms] by (cases s; cases s'; simp)

lemma record_event_resource [simp]:
  "db_resource_types (record_event p a t sm tg opts s) = db_resource_types s"
  "db_resource_items (record_event p a t sm tg opts s) = db_resource_items s"
  "db_use_submissions (record_event p a t sm tg opts s) = db_use_submissions s"
  "db_bookings (record_event p a t sm tg opts s) = db_bookings s"
  "db_maintenance (record_event p a t sm tg opts s) = db_maintenance s"
  "db_stock (record_event p a t sm tg opts s) = db_stock s"
  by (simp_all add: record_event_def)

section \<open>The helpers of the services\<close>

definition is_resource_manager :: "actor \<Rightarrow> bool" where
  "is_resource_manager u \<longleftrightarrow>
     u_is_authenticated u \<and> u_status u = User_ACTIVE \<and> u_global_role u \<in> {User_ADVISOR, User_ADMIN}"

definition is_active_student :: "actor \<Rightarrow> bool" where
  "is_active_student u \<longleftrightarrow>
     u_is_authenticated u \<and> u_status u = User_ACTIVE \<and> u_global_role u = User_STUDENT"

definition effective_confirmation_policy :: "'a resource_db_scheme \<Rightarrow> resource_item \<Rightarrow> confirmation_policy" where
  "effective_confirmation_policy s r =
     (case ri_confirmation_policy_override r of
        Some p \<Rightarrow> p
      | None \<Rightarrow> (case tbl_get (db_resource_types s) (ri_resource_type r) of
                   Some rt \<Rightarrow> rt_confirmation_policy rt | None \<Rightarrow> ResourceType_IMMEDIATE))"

definition booking_snapshot :: "pk \<Rightarrow> booking \<Rightarrow> string \<Rightarrow> booking_status option \<Rightarrow> pydict" where
  "booking_snapshot k b outcome prior =
     [(''bookingId'', PInt (int k)),
      (''requesterId'', PInt (int (bk_requested_by b))),
      (''resourceId'', PInt (int (bk_resource_item b))),
      (''quantity'', PInt (bk_quantity b)),
      (''startsAt'', PStr (isoformat (bk_starts_at b))),
      (''endsAt'', PStr (isoformat (bk_ends_at b))),
      (''origin'', PStr (booking_origin_value (bk_origin b))),
      (''priorStatus'', case prior of None \<Rightarrow> PNone | Some st \<Rightarrow> PStr (booking_status_value st)),
      (''currentStatus'', PStr (booking_status_value (bk_status b))),
      (''outcome'', PStr outcome)]"

text \<open>\<open>record_booking_conflict\<close>: the views call it with the payload of a \<open>ResourceConflict\<close>.\<close>

definition record_booking_conflict ::
  "actor \<Rightarrow> pk \<Rightarrow> pydict \<Rightarrow> pk option \<Rightarrow> 'a resource_db_scheme \<Rightarrow> 'a resource_db_scheme" where
  "record_booking_conflict u resource payload project =
     record_event project (Some u) ''booking.resource_conflict''
       (''Booking conflict for resource '' @ str_of_nat resource) (Some (''ResourceItem'', resource))
       (event_defaults\<lparr>opt_target_snapshot := Some (dict_build
          ([(''resourceId'', PInt (int resource)), (''outcome'', PStr ''resource_conflict'')] @ payload))\<rparr>)"

definition resource_status_to_contract :: "resource_status \<Rightarrow> string" where
  "resource_status_to_contract st = (if st = ResourceItem_AVAILABLE then ''active'' else resource_status_value st)"

definition resource_status_from_contract :: "string \<Rightarrow> error + resource_status" where
  "resource_status_from_contract v =
     (if v = ''active'' then Inr ResourceItem_AVAILABLE
      else if v = ''unavailable'' then Inr ResourceItem_UNAVAILABLE
      else if v = ''retired'' then Inr ResourceItem_RETIRED
      else Inl (ValidationError ''Unsupported resource status''))"

text \<open>The bookings that hold capacity, and what they hold at an instant.\<close>

definition holds_capacity :: "booking \<Rightarrow> bool" where
  "holds_capacity b \<longleftrightarrow> bk_status b = Booking_CONFIRMED \<or> bk_status b = Booking_RESERVED"

definition resource_notification_recipients :: "'a resource_db_scheme \<Rightarrow> resource_item \<Rightarrow> pk list" where
  "resource_notification_recipients s r =
     (case ri_manager r of
        Some m \<Rightarrow> [m]
      | None \<Rightarrow> map fst (tbl_filter (\<lambda>_ u. u_global_role u = User_ADMIN \<and> u_status u = User_ACTIVE) (db_users s)))"

definition low_stock_args :: "actor \<Rightarrow> pk \<Rightarrow> resource_item \<Rightarrow> int \<Rightarrow> pk \<Rightarrow> enqueue_args" where
  "low_stock_args u k r balance recipient =
     (enqueue_defaults recipient RESOURCE_LOW_STOCK ''ResourceItem'' (str_of_nat k)
        (''Low stock: '' @ ri_name r @ '' ('' @ str_of_int balance @ '' '' @ ri_stock_unit r @ '')''))
      \<lparr>en_sender := Some (u_id u), en_action_path := ''/resources'',
       en_category := Some Notification_ADMINISTRATION\<rparr>"

definition notify_low_stock :: "actor \<Rightarrow> pk \<Rightarrow> resource_item \<Rightarrow> int \<Rightarrow> ('a resource_db_scheme, unit) op" where
  "notify_low_stock u k r balance s =
     for_each (\<lambda>recipient. void (enqueue_notification (low_stock_args u k r balance recipient)))
       (resource_notification_recipients s r) s"

lemma only_mail_for_each:
  assumes "\<And>x s. only_mail s (snd (f x s))"
  shows "only_mail s (snd (for_each f xs s))"
  by (rule for_each_rel [where R = only_mail]) (auto intro: only_mail_trans assms)

lemma only_mail_low_stock: "notify_low_stock u k r b s = (x, s') \<Longrightarrow> only_mail s s'"
proof -
  assume "notify_low_stock u k r b s = (x, s')"
  moreover have "only_mail s (snd (notify_low_stock u k r b s))"
    unfolding notify_low_stock_def
    by (rule only_mail_for_each) (simp add: only_mail_enqueue [OF surjective_pairing])
  ultimately show ?thesis by simp
qed

lemma resource_status_round_trip: "resource_status_from_contract (resource_status_to_contract st) = Inr st"
  by (cases st) (simp_all add: resource_status_from_contract_def resource_status_to_contract_def)

end
