(* ===== verification/Inventory.thy ===== *)
theory Inventory
  imports ResourceModel "HOL-Library.Multiset"
begin

text \<open>
  \<open>ResourceInventoryService\<close> (\<open>apps/resources/services.py\<close>): creating, changing, retiring and
  deleting resources, and the use submissions of students.

  \<open>safe_minimum_quantity\<close> is the sweep that bounds how far the total quantity of a resource may be
  lowered; the lemmas show that it computes the largest number of bookings open at one
  instant.
\<close>

section \<open>The sweep\<close>

text \<open>The events of the bookings, the sort key, and the running maximum.\<close>

definition booking_events :: "(instant \<times> instant) list \<Rightarrow> (instant \<times> int) list" where
  "booking_events bs = concat (map (\<lambda>(a, b). [(a, 1), (b, -1)]) bs)"

fun sweep :: "int \<Rightarrow> int \<Rightarrow> (instant \<times> int) list \<Rightarrow> int" where
  "sweep active best [] = best"
| "sweep active best ((_, delta) # es) = sweep (active + delta) (max best (active + delta)) es"

text \<open>
  The order of the key \<open>(time, delta)\<close>: \<open>sort_key\<close> needs one linearly ordered key, and with
  deltas of 1 and -1 the number \<open>2 * time + (0 or 1)\<close> orders events as the pair does.
\<close>

definition event_key :: "instant \<times> int \<Rightarrow> int" where
  "event_key e = 2 * fst e + (if snd e = 1 then 1 else 0)"

definition safe_minimum :: "(instant \<times> instant) list \<Rightarrow> int" where
  "safe_minimum bs = max 1 (sweep 0 0 (sort_key event_key (booking_events bs)))"

definition held_windows :: "'a resource_db_scheme \<Rightarrow> pk \<Rightarrow> (instant \<times> instant) list" where
  "held_windows s rid =
     map (\<lambda>(k, b). (bk_starts_at b, bk_ends_at b))
       (tbl_filter (\<lambda>k b. bk_resource_item b = rid \<and> holds_capacity b) (db_bookings s))"

definition safe_minimum_quantity :: "'a resource_db_scheme \<Rightarrow> pk \<Rightarrow> int" where
  "safe_minimum_quantity s rid = safe_minimum (held_windows s rid)"

text \<open>The specification: how many windows contain an instant.\<close>

definition open_at :: "(instant \<times> instant) list \<Rightarrow> instant \<Rightarrow> int" where
  "open_at bs t = int (length (filter (\<lambda>(a, b). a \<le> t \<and> t < b) bs))"

text \<open>The sum of the deltas of a list, and of those not after an instant.\<close>

abbreviation deltas :: "(instant \<times> int) list \<Rightarrow> int" where
  "deltas es \<equiv> sum_list (map snd es)"

lemma sweep_best: "best \<le> sweep active best es"
  by (induction active best es rule: sweep.induct) (auto intro: order_trans)

lemma sweep_prefix: "best \<le> sweep a best (p @ q) \<and> (p \<noteq> [] \<longrightarrow> a + deltas p \<le> sweep a best (p @ q))"
proof (induction p arbitrary: a best)
  case Nil
  then show ?case by (simp add: sweep_best)
next
  case (Cons e p)
  obtain t d where e: "e = (t, d)" by (cases e)
  have "max best (a + d) \<le> sweep (a + d) (max best (a + d)) (p @ q)"
    and "p \<noteq> [] \<longrightarrow> a + d + deltas p \<le> sweep (a + d) (max best (a + d)) (p @ q)"
    using Cons.IH by blast+
  then show ?case by (cases "p = []") (auto simp: e add.assoc)
qed

text \<open>The sweep is one of its running sums.\<close>

lemma sweep_attained: "sweep a best es = best \<or> (\<exists>p q. es = p @ q \<and> p \<noteq> [] \<and> sweep a best es = a + deltas p)"
proof (induction a best es rule: sweep.induct)
  case (1 a best)
  then show ?case by simp
next
  case (2 a best t d es)
  from 2 show ?case
  proof
    assume s: "sweep (a + d) (max best (a + d)) es = max best (a + d)"
    show ?thesis
    proof (cases "best < a + d")
      case True
      then have "(t, d) # es = [(t, d)] @ es \<and> [(t, d)] \<noteq> [] \<and> sweep a best ((t, d) # es) = a + deltas [(t, d)]"
        using s by simp
      then show ?thesis by blast
    qed (use s in simp)
  next
    assume "\<exists>p q. es = p @ q \<and> p \<noteq> [] \<and> sweep (a + d) (max best (a + d)) es = a + d + deltas p"
    then obtain p q where "es = p @ q" "sweep (a + d) (max best (a + d)) es = a + d + deltas p" by blast
    then have "(t, d) # es = ((t, d) # p) @ q \<and> (t, d) # p \<noteq> []
        \<and> sweep a best ((t, d) # es) = a + deltas ((t, d) # p)"
      by simp
    then show ?thesis by blast
  qed
qed

lemma deltas_up_to:
  "\<forall>(a, b) \<in> set bs. a < b \<Longrightarrow> deltas (filter (\<lambda>e. event_key e \<le> 2 * t + 1) (booking_events bs)) = open_at bs t"
proof (induction bs)
  case Nil
  then show ?case by (simp add: booking_events_def open_at_def)
next
  case (Cons w bs)
  obtain a b where w: "w = (a, b)" by (cases w)
  have ab: "a < b" using Cons.prems w by simp
  have "2 * b \<le> 2 * t + 1 \<longleftrightarrow> b \<le> t" by presburger
  then show ?case
    using Cons ab by (auto simp: w booking_events_def open_at_def event_key_def)
qed

lemma deltas_filter_sort: "deltas (filter P (sort_key f es)) = deltas (filter P es)"
proof -
  have "mset (map snd (filter P (sort_key f es))) = mset (map snd (filter P es))" by simp
  then show ?thesis by (metis sum_mset_sum_list)
qed

lemma event_deltas: "e \<in> set (booking_events bs) \<Longrightarrow> snd e = 1 \<or> snd e = -1"
  by (auto simp: booking_events_def)

lemma sum_ge_0_of_ones: "(\<forall>e \<in> set r. snd e = (1 :: int)) \<Longrightarrow> 0 \<le> deltas r"
  by (intro sum_list_nonneg) auto

text \<open>No running sum exceeds the number of windows open at some instant.\<close>

lemma running_sum_bounded:
  assumes bs: "\<forall>(a, b) \<in> set bs. a < b" and pq: "sort_key event_key (booking_events bs) = p @ q"
  shows "deltas p \<le> 0 \<or> (\<exists>t. deltas p \<le> open_at bs t)"
  using pq
proof (induction p arbitrary: q rule: rev_induct)
  case (snoc e p)
  obtain t d where e: "e = (t, d)" by (cases e)
  have sorted: "sorted (map event_key ((p @ [e]) @ q))"
    unfolding snoc.prems [symmetric] by simp
  have mem: "e' \<in> set (booking_events bs)" if "e' \<in> set ((p @ [e]) @ q)" for e'
    using that unfolding snoc.prems [symmetric] by simp
  have "d = 1 \<or> d = -1" using event_deltas [OF mem [of e]] e by simp
  then show ?case
  proof
    assume "d = -1"
    then have le: "deltas (p @ [e]) \<le> deltas p" by (simp add: e)
    have "deltas p \<le> 0 \<or> (\<exists>t. deltas p \<le> open_at bs t)"
      using snoc.IH [of "e # q"] snoc.prems by simp
    with le show ?thesis by (meson order_trans)
  next
    assume d: "d = 1"
    let ?c = "2 * t + 1"
    have ek: "event_key e = ?c" by (simp add: e d event_key_def)
    have pre: "\<forall>e' \<in> set (p @ [e]). event_key e' \<le> ?c"
      using sorted ek by (auto simp: sorted_append)
    have post: "event_key e' = ?c" if "e' \<in> set q" "event_key e' \<le> ?c" for e'
      using sorted ek that by (force simp: sorted_append)
    have ones: "snd e' = 1" if "e' \<in> set (filter (\<lambda>e. event_key e \<le> ?c) q)" for e'
    proof -
      have "event_key e' = ?c" using that post by simp
      then have "\<not> event_key e' = 2 * fst e'" by presburger
      then show ?thesis by (auto simp: event_key_def split: if_splits)
    qed
    have "filter (\<lambda>e. event_key e \<le> ?c) ((p @ [e]) @ q) = (p @ [e]) @ filter (\<lambda>e. event_key e \<le> ?c) q"
      using pre by (simp add: filter_id_conv)
    moreover have "deltas (filter (\<lambda>e. event_key e \<le> ?c) ((p @ [e]) @ q)) = open_at bs t"
      unfolding snoc.prems [symmetric] deltas_filter_sort by (rule deltas_up_to [OF bs])
    ultimately have "deltas (p @ [e]) + deltas (filter (\<lambda>e. event_key e \<le> ?c) q) = open_at bs t"
      by (simp flip: map_append sum_list_append)
    moreover have "0 \<le> deltas (filter (\<lambda>e. event_key e \<le> ?c) q)"
      using ones by (intro sum_ge_0_of_ones) blast
    ultimately show ?thesis by (intro disjI2 exI [of _ t]) simp
  qed
qed simp

lemma open_at_nonneg: "0 \<le> open_at bs t"
  by (simp add: open_at_def)

lemma filter_le_sorted:
  "sorted (map f es) \<Longrightarrow> filter (\<lambda>e. f e \<le> c) es @ filter (\<lambda>e. \<not> f e \<le> c) es = es"
proof (induction es)
  case (Cons e es)
  show ?case
  proof (cases "f e \<le> c")
    case False
    then have "filter (\<lambda>e. f e \<le> c) es = []" using Cons.prems by (auto simp: filter_empty_conv)
    moreover have "filter (\<lambda>e. \<not> f e \<le> c) es = es"
      using False Cons.prems by (auto simp: filter_id_conv)
    ultimately show ?thesis using False by simp
  qed (use Cons in simp)
qed simp

lemma open_at_le_sweep:
  assumes bs: "\<forall>(a, b) \<in> set bs. a < b"
  shows "open_at bs t \<le> sweep 0 0 (sort_key event_key (booking_events bs))"
proof -
  let ?es = "sort_key event_key (booking_events bs)" and ?P = "\<lambda>e. event_key e \<le> 2 * t + 1"
  have split: "filter ?P ?es @ filter (\<lambda>e. \<not> ?P e) ?es = ?es" by (rule filter_le_sorted) simp
  have sum: "deltas (filter ?P ?es) = open_at bs t"
    unfolding deltas_filter_sort by (rule deltas_up_to [OF bs])
  show ?thesis
    using sweep_prefix [of 0 0 "filter ?P ?es" "filter (\<lambda>e. \<not> ?P e) ?es"] sum open_at_nonneg [of bs t]
    unfolding split by (cases "filter ?P ?es = []") auto
qed

text \<open>The minimum is the largest number of windows open at once, or 1.\<close>

lemma safe_minimum_upper: "\<forall>(a, b) \<in> set bs. a < b \<Longrightarrow> open_at bs t \<le> safe_minimum bs"
  using open_at_le_sweep [of bs t] by (simp add: safe_minimum_def)

lemma safe_minimum_attained:
  assumes bs: "\<forall>(a, b) \<in> set bs. a < b"
  shows "safe_minimum bs = 1 \<or> (\<exists>t. safe_minimum bs = open_at bs t)"
proof -
  let ?es = "sort_key event_key (booking_events bs)"
  let ?m = "sweep 0 0 ?es"
  consider "?m = 0" | p q where "?es = p @ q" "?m = deltas p"
    using sweep_attained [of 0 0 ?es] by auto
  then show ?thesis
  proof cases
    case 1
    then show ?thesis by (simp add: safe_minimum_def)
  next
    case 2
    from running_sum_bounded [OF bs 2(1)] show ?thesis
    proof
      assume "deltas p \<le> 0"
      then show ?thesis using 2(2) by (simp add: safe_minimum_def)
    next
      assume "\<exists>t. deltas p \<le> open_at bs t"
      then obtain t where "?m \<le> open_at bs t" using 2(2) by auto
      then have "?m = open_at bs t" using open_at_le_sweep [OF bs, of t] by simp
      then show ?thesis by (auto simp: safe_minimum_def max_def)
    qed
  qed
qed

text \<open>As a definition without a sweep: the most windows open at one of the starts, or 1.\<close>

definition peak_concurrency :: "(instant \<times> instant) list \<Rightarrow> int" where
  "peak_concurrency bs = Max (insert 1 (open_at bs ` fst ` set bs))"

lemma length_filter_mono: "\<forall>x \<in> set xs. P x \<longrightarrow> Q x \<Longrightarrow> length (filter P xs) \<le> length (filter Q xs)"
  by (induction xs) auto

lemma open_at_some_start:
  assumes "0 < open_at bs t"
  shows "\<exists>a \<in> fst ` set bs. open_at bs t \<le> open_at bs a"
proof -
  let ?open = "filter (\<lambda>(a, b). a \<le> t \<and> t < b) bs"
  let ?a = "Max (fst ` set ?open)"
  have ne: "fst ` set ?open \<noteq> {}" using assms by (auto simp: open_at_def filter_empty_conv)
  have a: "?a \<in> fst ` set ?open" by (rule Max_in) (use ne in auto)
  have "\<forall>p \<in> set bs. (case p of (x, y) \<Rightarrow> x \<le> t \<and> t < y) \<longrightarrow> (case p of (x, y) \<Rightarrow> x \<le> ?a \<and> ?a < y)"
  proof clarify
    fix x y assume p: "(x, y) \<in> set bs" "x \<le> t" "t < y"
    have "x \<le> ?a" by (rule Max_ge) (use p in force)+
    moreover have "?a \<le> t" using a by auto
    ultimately show "x \<le> ?a \<and> ?a < y" using p by simp
  qed
  then have "length ?open \<le> length (filter (\<lambda>(x, y). x \<le> ?a \<and> ?a < y) bs)"
    by (rule length_filter_mono)
  then show ?thesis using a by (intro bexI [of _ ?a]) (auto simp: open_at_def)
qed

lemma safe_minimum_peak:
  assumes "\<forall>(a, b) \<in> set bs. a < b"
  shows "safe_minimum bs = peak_concurrency bs"
proof (rule antisym)
  have one: "1 \<le> peak_concurrency bs" by (simp add: peak_concurrency_def)
  have "open_at bs t \<le> peak_concurrency bs" for t
  proof (cases "0 < open_at bs t")
    case True
    then obtain a where "a \<in> fst ` set bs" "open_at bs t \<le> open_at bs a" using open_at_some_start by blast
    moreover have "open_at bs a \<le> peak_concurrency bs"
      unfolding peak_concurrency_def by (rule Max_ge) (use \<open>a \<in> fst ` set bs\<close> in auto)
    ultimately show ?thesis by simp
  qed (use one in simp)
  then show "safe_minimum bs \<le> peak_concurrency bs" using safe_minimum_attained [OF assms] one by auto
  have "1 \<le> safe_minimum bs" by (simp add: safe_minimum_def)
  then show "peak_concurrency bs \<le> safe_minimum bs"
    unfolding peak_concurrency_def using safe_minimum_upper [OF assms] by (subst Max_le_iff) auto
qed

section \<open>Creating a resource\<close>

record create_resource_args =
  ca_name :: string
  ca_resource_type :: string
  ca_total_quantity :: int
  ca_location :: string
  ca_description :: string
  ca_use_instructions :: string
  ca_status :: string
  ca_confirmation_policy_override :: "confirmation_policy option"
  ca_kind :: resource_kind
  ca_stock_on_hand :: int
  ca_reorder_level :: int
  ca_stock_unit :: string
  ca_unit_cost :: int
  ca_calibration_interval_days :: "int option"
  ca_next_calibration_at :: "day option"

definition require_manager :: "actor \<Rightarrow> error + unit" where
  "require_manager u =
     (if \<not> is_resource_manager u
      then Inl (PermissionError ''Only teachers and administrators can manage resources'') else Inr ())"

definition require_student :: "actor \<Rightarrow> error + unit" where
  "require_student u =
     (if \<not> is_active_student u
      then Inl (PermissionError ''Only active students can submit resource use'') else Inr ())"

definition new_resource_type :: "string \<Rightarrow> instant \<Rightarrow> resource_type" where
  "new_resource_type name now =
     \<lparr>rt_name = name, rt_description = [], rt_scope = ResourceType_GLOBAL, rt_field_schema = [],
      rt_eligibility_policy = [], rt_booking_policy = [],
      rt_confirmation_policy = ResourceType_IMMEDIATE, rt_status = ResourceType_ACTIVE,
      rt_created_at = now, rt_updated_at = now\<rparr>"

text \<open>\<open>get_or_create(name=...)\<close>: the name is not unique, so the lookup may find several rows.\<close>

definition get_or_create_type :: "string \<Rightarrow> ('a resource_db_scheme, pk) op" where
  "get_or_create_type name s =
     (case tbl_filter (\<lambda>_ rt. rt_name rt = name) (db_resource_types s) of
        [] \<Rightarrow> (Inr (tbl_next (db_resource_types s)),
               s\<lparr>db_resource_types := tbl_insert (new_resource_type name (db_now s)) (db_resource_types s)\<rparr>)
      | [(k, _)] \<Rightarrow> (Inr k, s)
      | _ \<Rightarrow> (Inl (MultipleObjectsReturned ''ResourceType''), s))"

definition schema_of_type :: "'a resource_db_scheme \<Rightarrow> pk \<Rightarrow> schema_field list" where
  "schema_of_type s k = (case tbl_get (db_resource_types s) k of None \<Rightarrow> [] | Some rt \<Rightarrow> rt_field_schema rt)"

text \<open>The check constraints of the item table (the positive integer columns included).\<close>

definition item_checks :: "resource_item \<Rightarrow> bool" where
  "item_checks r \<longleftrightarrow>
     1 \<le> ri_total_quantity r \<and> 0 \<le> ri_stock_on_hand r \<and> 0 \<le> ri_reorder_level r
     \<and> (case ri_calibration_interval_days r of None \<Rightarrow> True | Some d \<Rightarrow> 0 \<le> d)"

definition put_item :: "pk \<Rightarrow> resource_item \<Rightarrow> 'a resource_db_scheme \<Rightarrow> 'a resource_db_scheme" where
  "put_item k r s = s\<lparr>db_resource_items := tbl_put k r (db_resource_items s)\<rparr>"

definition new_item :: "actor \<Rightarrow> create_resource_args \<Rightarrow> pk \<Rightarrow> resource_status \<Rightarrow> instant \<Rightarrow> resource_item" where
  "new_item u a type_id st now =
     \<lparr>ri_resource_type = type_id, ri_kind = ca_kind a, ri_name = py_strip (ca_name a),
      ri_description = py_strip (ca_description a), ri_location = py_strip (ca_location a),
      ri_total_quantity = ca_total_quantity a, ri_field_values = [], ri_availability_policy = [],
      ri_confirmation_policy_override = ca_confirmation_policy_override a,
      ri_manager = Some (u_id u), ri_use_instructions = py_strip (ca_use_instructions a),
      ri_stock_on_hand = ca_stock_on_hand a, ri_reorder_level = ca_reorder_level a,
      ri_stock_unit = py_strip (ca_stock_unit a), ri_unit_cost = ca_unit_cost a,
      ri_calibration_interval_days = ca_calibration_interval_days a,
      ri_next_calibration_at = ca_next_calibration_at a, ri_status = st, ri_version = 1,
      ri_created_at = now, ri_updated_at = now\<rparr>"

text \<open>The opening transaction of a consumable that starts with stock.\<close>

definition open_ledger :: "actor \<Rightarrow> pk \<Rightarrow> resource_item \<Rightarrow> 'a resource_db_scheme \<Rightarrow> 'a resource_db_scheme" where
  "open_ledger u rid r s =
     (if ri_kind r = ResourceItem_CONSUMABLE \<and> ri_stock_on_hand r \<noteq> 0
      then s\<lparr>db_stock := tbl_insert
             \<lparr>st_resource_item = rid, st_project = None, st_kind = Stock_ADJUSTMENT,
              st_quantity_delta = ri_stock_on_hand r, st_balance_after = ri_stock_on_hand r,
              st_unit_cost = ri_unit_cost r, st_note = ''Opening balance'', st_recorded_by = u_id u,
              st_recorded_at = db_now s\<rparr> (db_stock s)\<rparr>
      else s)"

text \<open>\<open>ResourceItem.objects.create\<close> and what follows it in \<open>create_resource\<close>.\<close>

definition create_item :: "actor \<Rightarrow> resource_item \<Rightarrow> ('a resource_db_scheme, pk) op" where
  "create_item u r s =
     (let rid = tbl_next (db_resource_items s);
          s1 = s\<lparr>db_resource_items := tbl_insert r (db_resource_items s)\<rparr>
      in if \<not> item_checks r then (Inl (IntegrityError ''resource_item''), s)
      else case resource_item_full_clean (schema_of_type s1 (ri_resource_type r)) r of
        Inl e \<Rightarrow> (Inl e, s1)
      | Inr _ \<Rightarrow>
        let s2 = open_ledger u rid r s1;
            (low, s3) = (if ri_kind r = ResourceItem_CONSUMABLE \<and> ri_stock_on_hand r \<le> ri_reorder_level r
                         then notify_low_stock u rid r (ri_stock_on_hand r) s2 else (Inr (), s2))
        in case low of
             Inl e \<Rightarrow> (Inl e, s3)
           | Inr _ \<Rightarrow> (Inr rid, record_event None (Some u) ''resource.created''
               (''Created resource '' @ str_of_nat rid) (Some (''ResourceItem'', rid)) event_defaults s3))"

definition create_resource :: "actor \<Rightarrow> create_resource_args \<Rightarrow> ('a resource_db_scheme, pk) op" where
  "create_resource u a = atomic (\<lambda>s.
     case require_manager u of
       Inl e \<Rightarrow> (Inl e, s)
     | Inr _ \<Rightarrow>
     if py_strip (ca_name a) = [] \<or> py_strip (ca_resource_type a) = []
     then (Inl (ValidationError ''Resource name and type are required''), s)
     else if ca_total_quantity a < 1
     then (Inl (FieldError ''totalQuantity'' ''Resource quantity must be at least 1''), s)
     else case get_or_create_type (py_strip (ca_resource_type a)) s of
       (Inl e, s1) \<Rightarrow> (Inl e, s1)
     | (Inr type_id, s1) \<Rightarrow>
     (case resource_status_from_contract (ca_status a) of
       Inl e \<Rightarrow> (Inl e, s1)
     | Inr st \<Rightarrow> create_item u (new_item u a type_id st (db_now s1)) s1))"

section \<open>Changing a resource\<close>

text \<open>
  The keyword arguments. \<open>None\<close> is an argument that is absent or null where the code treats the
  two alike; the two layers of \<open>option\<close> keep them apart where it does not.
\<close>

record resource_attrs =
  ra_version :: "int option"
  ra_name :: "string option"
  ra_resource_type :: "string option"
  ra_description :: "string option"
  ra_location :: "string option"
  ra_total_quantity :: "int option"
  ra_use_instructions :: "string option"
  ra_status :: "string option"
  ra_confirmation_policy_override :: "string option option"
  ra_kind :: "resource_kind option"
  ra_reorder_level :: "int option"
  ra_unit_cost :: "int option"
  ra_calibration_interval_days :: "int option option"
  ra_next_calibration_at :: "day option option"
  ra_stock_unit :: "string option"

definition no_attrs :: resource_attrs where
  "no_attrs =
     \<lparr>ra_version = None, ra_name = None, ra_resource_type = None, ra_description = None, ra_location = None,
      ra_total_quantity = None, ra_use_instructions = None, ra_status = None,
      ra_confirmation_policy_override = None, ra_kind = None, ra_reorder_level = None,
      ra_unit_cost = None, ra_calibration_interval_days = None, ra_next_calibration_at = None,
      ra_stock_unit = None\<rparr>"

definition change_name :: "resource_attrs \<Rightarrow> resource_item \<Rightarrow> error + resource_item" where
  "change_name a r =
     (case ra_name a of
        None \<Rightarrow> Inr r
      | Some n \<Rightarrow> if py_strip n = [] then Inl (ValidationError ''Resource name is required'')
                  else Inr (r\<lparr>ri_name := py_strip n\<rparr>))"

definition change_type :: "resource_attrs \<Rightarrow> resource_item \<Rightarrow> ('a resource_db_scheme, resource_item) op" where
  "change_type a r s =
     (case ra_resource_type a of
        None \<Rightarrow> (Inr r, s)
      | Some n \<Rightarrow>
          if py_strip n = [] then (Inl (ValidationError ''Resource type is required''), s)
          else case get_or_create_type (py_strip n) s of
            (Inl e, s') \<Rightarrow> (Inl e, s')
          | (Inr k, s') \<Rightarrow> (Inr (r\<lparr>ri_resource_type := k\<rparr>), s'))"

definition change_texts :: "resource_attrs \<Rightarrow> resource_item \<Rightarrow> resource_item" where
  "change_texts a r =
     r\<lparr>ri_description := override (map_option py_strip (ra_description a)) (ri_description r),
       ri_location := override (map_option py_strip (ra_location a)) (ri_location r)\<rparr>"

definition change_quantity :: "'a resource_db_scheme \<Rightarrow> pk \<Rightarrow> resource_attrs \<Rightarrow> resource_item \<Rightarrow> error + resource_item" where
  "change_quantity s rid a r =
     (case ra_total_quantity a of
        None \<Rightarrow> Inr r
      | Some q \<Rightarrow>
          if q < 1 then Inl (FieldError ''totalQuantity'' ''Resource quantity must be at least 1'')
          else let safe_min = safe_minimum_quantity s rid
               in if q < safe_min
                  then Inl (ResourceConflict [(''code'', PStr ''quantity_commitment_conflict''),
                                              (''safeMinimum'', PInt safe_min)])
                  else Inr (r\<lparr>ri_total_quantity := q\<rparr>))"

definition change_instructions_status :: "resource_attrs \<Rightarrow> resource_item \<Rightarrow> error + resource_item" where
  "change_instructions_status a r =
     (let r1 = r\<lparr>ri_use_instructions := override (map_option py_strip (ra_use_instructions a)) (ri_use_instructions r)\<rparr>
      in case ra_status a of
           None \<Rightarrow> Inr r1
         | Some v \<Rightarrow> (case resource_status_from_contract v of
                        Inl e \<Rightarrow> Inl e | Inr st \<Rightarrow> Inr (r1\<lparr>ri_status := st\<rparr>)))"

definition change_policy :: "resource_attrs \<Rightarrow> resource_item \<Rightarrow> error + resource_item" where
  "change_policy a r =
     (case ra_confirmation_policy_override a of
        None \<Rightarrow> Inr r
      | Some None \<Rightarrow> Inr (r\<lparr>ri_confirmation_policy_override := None\<rparr>)
      | Some (Some v) \<Rightarrow>
          (case confirmation_policy_of_value v of
             None \<Rightarrow> Inl (FieldError ''confirmationPolicyOverride'' ''Unsupported policy'')
           | Some p \<Rightarrow> Inr (r\<lparr>ri_confirmation_policy_override := Some p\<rparr>)))"

definition has_history :: "'a resource_db_scheme \<Rightarrow> pk \<Rightarrow> bool" where
  "has_history s rid \<longleftrightarrow>
     tbl_exists (\<lambda>_ b. bk_resource_item b = rid) (db_bookings s)
     \<or> tbl_exists (\<lambda>_ u. us_resource_item u = rid) (db_use_submissions s)
     \<or> tbl_exists (\<lambda>_ m. mr_resource_item m = rid) (db_maintenance s)
     \<or> tbl_exists (\<lambda>_ t. st_resource_item t = rid) (db_stock s)"

definition change_kind :: "'a resource_db_scheme \<Rightarrow> pk \<Rightarrow> resource_attrs \<Rightarrow> resource_item \<Rightarrow> error + resource_item" where
  "change_kind s rid a r =
     (case ra_kind a of
        None \<Rightarrow> Inr r
      | Some kd \<Rightarrow>
          if kd \<noteq> ri_kind r \<and> has_history s rid
          then Inl (ResourceConflict [(''code'', PStr ''resource_kind_has_history''),
                 (''detail'', PStr ''Resource class cannot change after operational history exists'')])
          else Inr (r\<lparr>ri_kind := kd\<rparr>))"

definition change_plain :: "actor \<Rightarrow> resource_attrs \<Rightarrow> resource_item \<Rightarrow> instant \<Rightarrow> resource_item" where
  "change_plain u a r now =
     r\<lparr>ri_reorder_level := override (ra_reorder_level a) (ri_reorder_level r),
       ri_unit_cost := override (ra_unit_cost a) (ri_unit_cost r),
       ri_calibration_interval_days := override (ra_calibration_interval_days a) (ri_calibration_interval_days r),
       ri_next_calibration_at := override (ra_next_calibration_at a) (ri_next_calibration_at r),
       ri_stock_unit := override (map_option py_strip (ra_stock_unit a)) (ri_stock_unit r),
       ri_manager := (case ri_manager r of None \<Rightarrow> Some (u_id u) | Some m \<Rightarrow> Some m),
       ri_version := Suc (ri_version r),
       ri_updated_at := now\<rparr>"

text \<open>The changes in the order the code makes them; the type may be created on the way.\<close>

definition change_item :: "pk \<Rightarrow> resource_attrs \<Rightarrow> resource_item \<Rightarrow> ('a resource_db_scheme, resource_item) op" where
  "change_item rid a r s =
     (case change_name a r of
        Inl e \<Rightarrow> (Inl e, s)
      | Inr r1 \<Rightarrow>
      (case change_type a r1 s of
        (Inl e, s1) \<Rightarrow> (Inl e, s1)
      | (Inr r2, s1) \<Rightarrow>
      (case change_quantity s1 rid a (change_texts a r2) of
        Inl e \<Rightarrow> (Inl e, s1)
      | Inr r3 \<Rightarrow>
      (case change_instructions_status a r3 of
        Inl e \<Rightarrow> (Inl e, s1)
      | Inr r4 \<Rightarrow>
      (case change_policy a r4 of
        Inl e \<Rightarrow> (Inl e, s1)
      | Inr r5 \<Rightarrow>
      (case change_kind s1 rid a r5 of
        Inl e \<Rightarrow> (Inl e, s1)
      | Inr r6 \<Rightarrow> (Inr r6, s1)))))))"

definition update_resource :: "actor \<Rightarrow> pk \<Rightarrow> resource_attrs \<Rightarrow> ('a resource_db_scheme, pk) op" where
  "update_resource u rid a = atomic (\<lambda>s.
     case require_manager u of
       Inl e \<Rightarrow> (Inl e, s)
     | Inr _ \<Rightarrow>
     case tbl_get (db_resource_items s) rid of
       None \<Rightarrow> (Inl (DoesNotExist ''ResourceItem''), s)
     | Some r \<Rightarrow>
     if ra_version a \<noteq> Some (int (ri_version r))
     then (Inl (ResourceConflict [(''code'', PStr ''stale_resource_version''),
                                  (''currentVersion'', PInt (int (ri_version r)))]), s)
     else case change_item rid a r s of
       (Inl e, s1) \<Rightarrow> (Inl e, s1)
     | (Inr r1, s1) \<Rightarrow>
       let r2 = change_plain u a r1 (db_now s1)
       in (case resource_item_full_clean (schema_of_type s1 (ri_resource_type r2)) r2 of
             Inl e \<Rightarrow> (Inl e, s1)
           | Inr _ \<Rightarrow> (Inr rid, record_event None (Some u) ''resource.updated''
                (''Updated resource '' @ str_of_nat rid) (Some (''ResourceItem'', rid)) event_defaults
                (put_item rid r2 s1))))"

definition retire_resource :: "actor \<Rightarrow> pk \<Rightarrow> ('a resource_db_scheme, pk) op" where
  "retire_resource u rid = atomic (\<lambda>s.
     case require_manager u of
       Inl e \<Rightarrow> (Inl e, s)
     | Inr _ \<Rightarrow>
     case tbl_get (db_resource_items s) rid of
       None \<Rightarrow> (Inl (DoesNotExist ''ResourceItem''), s)
     | Some r \<Rightarrow>
       (Inr rid, record_event None (Some u) ''resource.retired'' (''Retired resource '' @ str_of_nat rid)
          (Some (''ResourceItem'', rid)) event_defaults
          (put_item rid (r\<lparr>ri_status := ResourceItem_RETIRED, ri_version := Suc (ri_version r),
             ri_updated_at := db_now s\<rparr>) s)))"

definition dependency_counts :: "'a resource_db_scheme \<Rightarrow> pk \<Rightarrow> (string \<times> nat) list" where
  "dependency_counts s rid =
     [(''bookings'', tbl_count (\<lambda>_ b. bk_resource_item b = rid) (db_bookings s)),
      (''useSubmissions'', tbl_count (\<lambda>_ x. us_resource_item x = rid) (db_use_submissions s)),
      (''maintenanceRecords'', tbl_count (\<lambda>_ m. mr_resource_item m = rid) (db_maintenance s)),
      (''stockTransactions'', tbl_count (\<lambda>_ t. st_resource_item t = rid) (db_stock s))]"

definition delete_snapshot :: "'a resource_db_scheme \<Rightarrow> pk \<Rightarrow> resource_item \<Rightarrow> pydict" where
  "delete_snapshot s rid r =
     [(''resourceId'', PInt (int rid)), (''name'', PStr (ri_name r)),
      (''resourceType'', PStr (case tbl_get (db_resource_types s) (ri_resource_type r) of
          None \<Rightarrow> [] | Some rt \<Rightarrow> rt_name rt)),
      (''totalQuantity'', PInt (ri_total_quantity r))]"

definition delete_resource :: "actor \<Rightarrow> pk \<Rightarrow> ('a resource_db_scheme, unit) op" where
  "delete_resource u rid = atomic (\<lambda>s.
     case require_manager u of
       Inl e \<Rightarrow> (Inl e, s)
     | Inr _ \<Rightarrow>
     case tbl_get (db_resource_items s) rid of
       None \<Rightarrow> (Inl (DoesNotExist ''ResourceItem''), s)
     | Some r \<Rightarrow>
       let counts = map (\<lambda>(n, c). (n, PInt (int c))) (dependency_counts s rid);
           snapshot = delete_snapshot s rid r
       in if list_ex (\<lambda>(_, c). c \<noteq> 0) (dependency_counts s rid)
          then (Inl (ResourceConflict [(''code'', PStr ''resource_has_history''), (''canRetire'', PBool True),
                                       (''dependencyCounts'', PDict counts)]),
                record_event None (Some u) ''resource.delete_rejected''
                  (''Rejected deletion of resource '' @ str_of_nat rid) (Some (''ResourceItem'', rid))
                  (event_defaults\<lparr>opt_target_snapshot :=
                     Some (dict_build (snapshot @ [(''outcome'', PStr ''rejected'')] @ counts))\<rparr>) s)
          else let s1 = record_event None (Some u) ''resource.deleted''
                      (''Deleted resource '' @ str_of_nat rid) (Some (''ResourceItem'', rid))
                      (event_defaults\<lparr>opt_target_snapshot :=
                         Some (dict_build (snapshot @ [(''outcome'', PStr ''deleted'')]))\<rparr>) s
               in (Inr (), s1\<lparr>db_resource_items := tbl_delete rid (db_resource_items s1)\<rparr>))"

section \<open>Use submissions\<close>

fun submission_type_of_value :: "string \<Rightarrow> use_submission_type option" where
  "submission_type_of_value v =
     (if v = ''request'' then Some ResourceUseSubmission_REQUEST
      else if v = ''use_record'' then Some ResourceUseSubmission_USE_RECORD else None)"

definition create_use_submission ::
  "actor \<Rightarrow> pk \<times> resource_item \<Rightarrow> string \<Rightarrow> string \<Rightarrow> ('a resource_db_scheme, pk) op" where
  "create_use_submission u resource submission_type details = atomic (\<lambda>s.
     case require_student u of
       Inl e \<Rightarrow> (Inl e, s)
     | Inr _ \<Rightarrow>
     if ri_kind (snd resource) = ResourceItem_CONSUMABLE
     then (Inl (ValidationError ''Consumables must be issued from stock''), s)
     else if ri_status (snd resource) = ResourceItem_RETIRED
     then (Inl (ValidationError ''Retired resources cannot receive new use submissions''), s)
     else case submission_type_of_value submission_type of
       None \<Rightarrow> (Inl (ValidationError ''Unsupported resource use submission type''), s)
     | Some ty \<Rightarrow>
     if py_strip details = [] then (Inl (ValidationError ''Use submission details are required''), s)
     else
       let k = tbl_next (db_use_submissions s);
           x = \<lparr>us_resource_item = fst resource, us_student = u_id u, us_submission_type = ty,
                us_details = py_strip details, us_status = ResourceUseSubmission_PENDING, us_reviewer = None,
                us_decision_note = [], us_submitted_at = db_now s, us_decided_at = None\<rparr>
       in (Inr k, record_event None (Some u) ''resource.use_submitted''
             (''Submitted resource use '' @ str_of_nat k) (Some (''ResourceUseSubmission'', k)) event_defaults
             (s\<lparr>db_use_submissions := tbl_insert x (db_use_submissions s)\<rparr>)))"

definition decide_use_submission ::
  "actor \<Rightarrow> pk \<times> use_submission \<Rightarrow> string \<Rightarrow> string \<Rightarrow> ('a resource_db_scheme, pk) op" where
  "decide_use_submission u submission status note = atomic (\<lambda>s.
     case require_manager u of
       Inl e \<Rightarrow> (Inl e, s)
     | Inr _ \<Rightarrow>
     if us_status (snd submission) \<noteq> ResourceUseSubmission_PENDING
     then (Inl (ValidationError ''Only pending resource use submissions can be decided''), s)
     else if status \<noteq> ''confirmed'' \<and> status \<noteq> ''rejected''
     then (Inl (ValidationError ''Resource use decision must be confirmed or rejected''), s)
     else
       let k = fst submission;
           st = (if status = ''confirmed'' then ResourceUseSubmission_CONFIRMED
                 else ResourceUseSubmission_REJECTED);
           s1 = s\<lparr>db_use_submissions := tbl_update_where (\<lambda>k' _. k' = k)
                  (\<lambda>x. x\<lparr>us_status := st, us_reviewer := Some (u_id u), us_decision_note := py_strip note,
                         us_decided_at := Some (db_now s)\<rparr>) (db_use_submissions s)\<rparr>;
           action = (if status = ''confirmed'' then ''use_confirmed'' else ''use_rejected'');
           s2 = record_event None (Some u) (''resource.'' @ action) (''Resource '' @ action)
                  (Some (''ResourceUseSubmission'', k)) event_defaults s1
       in case enqueue_notification
               ((enqueue_defaults (us_student (snd submission)) RESOURCE_USE_DECISION
                   ''ResourceUseSubmission'' (str_of_nat k) (''Resource use '' @ status))
                  \<lparr>en_sender := Some (u_id u), en_action_path := ''/resources''\<rparr>) s2 of
            (Inl e, s3) \<Rightarrow> (Inl e, s3)
          | (Inr _, s3) \<Rightarrow> (Inr k, s3))"

end
