(* ===== verification/Operations.thy ===== *)
theory Operations
  imports Inventory
begin

text \<open>
  \<open>ResourceOperationsService\<close> and the periodic alerts (\<open>apps/resources/services.py\<close>): maintenance
  records and their effect on the status of the resource, and the stock ledger of consumables.

  The lemmas show that closed maintenance records never change and that maintenance never
  brings a retired resource back, and that the stock of a consumable is the sum of its
  transactions and never negative.
\<close>

definition require_operations_manager :: "actor \<Rightarrow> error + unit" where
  "require_operations_manager u =
     (if \<not> is_resource_manager u
      then Inl (PermissionError ''Only teachers and administrators can manage resource operations'') else Inr ())"

section \<open>Maintenance\<close>

definition open_outage :: "maintenance_record \<Rightarrow> bool" where
  "open_outage m \<longleftrightarrow> mr_takes_offline m \<and> mr_status m \<in> {Maintenance_SCHEDULED, Maintenance_IN_PROGRESS}"

text \<open>The outages in force: in progress, a fault, or scheduled for no later than now.\<close>

definition outage_in_force :: "instant \<Rightarrow> maintenance_record \<Rightarrow> bool" where
  "outage_in_force now m \<longleftrightarrow>
     open_outage m \<and> (mr_status m = Maintenance_IN_PROGRESS \<or> mr_kind m = Maintenance_FAULT \<or> mr_scheduled_at m \<le> now)"

text \<open>\<open>exclude(status=RETIRED).update(status=UNAVAILABLE, version=F("version") + 1)\<close>.\<close>

definition take_offline :: "pk \<Rightarrow> 'a resource_db_scheme \<Rightarrow> 'a resource_db_scheme" where
  "take_offline rid s =
     s\<lparr>db_resource_items := tbl_update_where (\<lambda>k r. k = rid \<and> ri_status r \<noteq> ResourceItem_RETIRED)
         (\<lambda>r. r\<lparr>ri_status := ResourceItem_UNAVAILABLE, ri_version := Suc (ri_version r)\<rparr>) (db_resource_items s)\<rparr>"

record maintenance_args =
  ma_kind :: maintenance_kind
  ma_title :: string
  ma_scheduled_at :: instant
  ma_due_at :: "instant option"
  ma_details :: string
  ma_provider :: string
  ma_takes_offline :: bool
  ma_cost :: int

definition create_maintenance :: "actor \<Rightarrow> pk \<Rightarrow> maintenance_args \<Rightarrow> ('a resource_db_scheme, pk) op" where
  "create_maintenance u rid a = atomic (\<lambda>s.
     case require_operations_manager u of
       Inl e \<Rightarrow> (Inl e, s)
     | Inr _ \<Rightarrow>
     case tbl_get (db_resource_items s) rid of
       None \<Rightarrow> (Inl (DoesNotExist ''ResourceItem''), s)
     | Some r \<Rightarrow>
     if ri_kind r \<noteq> ResourceItem_EQUIPMENT
     then (Inl (ValidationError ''Maintenance records apply only to equipment''), s)
     else if py_strip (ma_title a) = []
     then (Inl (FieldError ''title'' ''Maintenance title is required''), s)
     else if (case ma_due_at a of None \<Rightarrow> False | Some d \<Rightarrow> d < ma_scheduled_at a)
     then (Inl (FieldError ''dueAt'' ''Maintenance due time cannot precede its start''), s)
     else
       let k = tbl_next (db_maintenance s);
           m = \<lparr>mr_resource_item = rid, mr_kind = ma_kind a, mr_status = Maintenance_SCHEDULED,
                mr_title = py_strip (ma_title a), mr_details = py_strip (ma_details a),
                mr_provider = py_strip (ma_provider a), mr_scheduled_at = ma_scheduled_at a,
                mr_due_at = ma_due_at a, mr_completed_at = None, mr_takes_offline = ma_takes_offline a,
                mr_cost = ma_cost a, mr_created_by = u_id u, mr_completed_by = None,
                mr_created_at = db_now s, mr_updated_at = db_now s\<rparr>;
           s1 = s\<lparr>db_maintenance := tbl_insert m (db_maintenance s)\<rparr>;
           s2 = (if ma_takes_offline a \<and> (ma_kind a = Maintenance_FAULT \<or> ma_scheduled_at a \<le> db_now s)
                 then take_offline rid s1 else s1)
       in (Inr k, record_event None (Some u) ''resource.maintenance_created''
             (''Created maintenance record '' @ str_of_nat k) (Some (''ResourceMaintenanceRecord'', k))
             event_defaults s2))"

fun transition_target :: "string \<Rightarrow> maintenance_status option" where
  "transition_target v =
     (if v = ''in_progress'' then Some Maintenance_IN_PROGRESS
      else if v = ''completed'' then Some Maintenance_COMPLETED
      else if v = ''cancelled'' then Some Maintenance_CANCELLED else None)"

definition other_outages :: "'a resource_db_scheme \<Rightarrow> pk \<Rightarrow> pk \<Rightarrow> bool" where
  "other_outages s rid k \<longleftrightarrow>
     tbl_exists (\<lambda>k' m. mr_resource_item m = rid \<and> k' \<noteq> k \<and> outage_in_force (db_now s) m) (db_maintenance s)"

text \<open>What completing a record does to the resource: its next calibration, its status.\<close>

definition complete_on_resource ::
  "'a resource_db_scheme \<Rightarrow> pk \<Rightarrow> maintenance_record \<Rightarrow> resource_item \<Rightarrow> resource_item" where
  "complete_on_resource s k m r =
     (let r1 = (case ri_calibration_interval_days r of
            Some d \<Rightarrow> if mr_kind m = Maintenance_CALIBRATION \<and> d \<noteq> 0
                      then r\<lparr>ri_next_calibration_at := Some (date_of (db_now s) + d)\<rparr> else r
          | None \<Rightarrow> r);
          r2 = (if \<not> other_outages s (mr_resource_item m) k \<and> ri_status r1 \<noteq> ResourceItem_RETIRED
                then r1\<lparr>ri_status := ResourceItem_AVAILABLE\<rparr> else r1)
      in r2\<lparr>ri_version := Suc (ri_version r2), ri_updated_at := db_now s\<rparr>)"

definition cancel_on_resource :: "pk \<Rightarrow> maintenance_record \<Rightarrow> 'a resource_db_scheme \<Rightarrow> 'a resource_db_scheme" where
  "cancel_on_resource k m s =
     (case tbl_get (db_resource_items s) (mr_resource_item m) of
        None \<Rightarrow> s
      | Some r \<Rightarrow>
          if \<not> other_outages s (mr_resource_item m) k \<and> ri_status r \<noteq> ResourceItem_RETIRED
          then put_item (mr_resource_item m) (r\<lparr>ri_status := ResourceItem_AVAILABLE,
                 ri_version := Suc (ri_version r), ri_updated_at := db_now s\<rparr>) s
          else s)"

text \<open>The effect of a transition on the resource of the record.\<close>

definition transition_resource ::
  "pk \<Rightarrow> maintenance_record \<Rightarrow> maintenance_status \<Rightarrow> 'a resource_db_scheme \<Rightarrow> 'a resource_db_scheme" where
  "transition_resource k m st s =
     (if st = Maintenance_COMPLETED
      then (case tbl_get (db_resource_items s) (mr_resource_item m) of
              None \<Rightarrow> s
            | Some r \<Rightarrow> put_item (mr_resource_item m) (complete_on_resource s k m r) s)
      else if st = Maintenance_IN_PROGRESS \<and> mr_takes_offline m then take_offline (mr_resource_item m) s
      else if st = Maintenance_CANCELLED \<and> mr_takes_offline m then cancel_on_resource k m s
      else s)"

definition transition_maintenance ::
  "actor \<Rightarrow> pk \<Rightarrow> string \<Rightarrow> string option \<Rightarrow> ('a resource_db_scheme, pk) op" where
  "transition_maintenance u k status details = atomic (\<lambda>s.
     case require_operations_manager u of
       Inl e \<Rightarrow> (Inl e, s)
     | Inr _ \<Rightarrow>
     case tbl_get (db_maintenance s) k of
       None \<Rightarrow> (Inl (DoesNotExist ''ResourceMaintenanceRecord''), s)
     | Some m \<Rightarrow>
     if mr_status m \<in> {Maintenance_COMPLETED, Maintenance_CANCELLED}
     then (Inl (ValidationError ''Closed maintenance records are immutable''), s)
     else case transition_target status of
       None \<Rightarrow> (Inl (ValidationError ''Unsupported maintenance transition''), s)
     | Some st \<Rightarrow>
       let m1 = m\<lparr>mr_status := st, mr_details := override (map_option py_strip details) (mr_details m)\<rparr>;
           m2 = (if st = Maintenance_COMPLETED
                 then m1\<lparr>mr_completed_at := Some (db_now s), mr_completed_by := Some (u_id u)\<rparr> else m1);
           s1 = transition_resource k m2 st s;
           s2 = s1\<lparr>db_maintenance := tbl_put k (m2\<lparr>mr_updated_at := db_now s\<rparr>) (db_maintenance s1)\<rparr>
       in (Inr k, record_event None (Some u) (''resource.maintenance_'' @ status)
             (''Maintenance record '' @ str_of_nat k @ '' changed to '' @ status)
             (Some (''ResourceMaintenanceRecord'', k)) event_defaults s2))"

section \<open>Stock\<close>

definition has_active_membership :: "'a project_db_scheme \<Rightarrow> pk \<Rightarrow> pk \<Rightarrow> bool" where
  "has_active_membership s project user_id \<longleftrightarrow>
     tbl_exists (\<lambda>_ m. pm_project m = project \<and> pm_user m = user_id \<and> pm_status m = ProjectMembership_ACTIVE)
       (db_memberships s)"

definition with_balance :: "resource_item \<Rightarrow> int \<Rightarrow> instant \<Rightarrow> resource_item" where
  "with_balance r balance now =
     r\<lparr>ri_stock_on_hand := balance, ri_version := Suc (ri_version r), ri_updated_at := now\<rparr>"

definition new_stock_row ::
  "actor \<Rightarrow> pk \<Rightarrow> resource_item \<Rightarrow> stock_kind \<Rightarrow> int \<Rightarrow> pk option \<Rightarrow> int option \<Rightarrow> string \<Rightarrow> instant \<Rightarrow> stock_transaction" where
  "new_stock_row u rid r kind delta project unit_cost note now =
     \<lparr>st_resource_item = rid, st_project = project, st_kind = kind, st_quantity_delta = delta,
      st_balance_after = ri_stock_on_hand r + delta,
      st_unit_cost = (case unit_cost of None \<Rightarrow> ri_unit_cost r | Some c \<Rightarrow> c),
      st_note = py_strip note, st_recorded_by = u_id u, st_recorded_at = now\<rparr>"

text \<open>The writes of an accepted transaction: the balance, the row, the event.\<close>

definition write_stock_transaction ::
  "actor \<Rightarrow> pk \<Rightarrow> resource_item \<Rightarrow> stock_transaction \<Rightarrow> 'a resource_db_scheme \<Rightarrow> 'a resource_db_scheme" where
  "write_stock_transaction u rid r tx s =
     (let s1 = put_item rid (with_balance r (st_balance_after tx) (db_now s)) s;
          k = tbl_next (db_stock s1);
          s2 = s1\<lparr>db_stock := tbl_insert tx (db_stock s1)\<rparr>
      in record_event (st_project tx) (Some u) ''resource.stock_recorded''
           (''Recorded stock transaction '' @ str_of_nat k) (Some (''ConsumableStockTransaction'', k))
           (event_defaults\<lparr>opt_target_snapshot := Some [(''resourceId'', PInt (int rid)),
              (''quantityDelta'', PInt (st_quantity_delta tx)), (''balanceAfter'', PInt (st_balance_after tx))]\<rparr>) s2)"

definition record_stock_transaction ::
  "actor \<Rightarrow> pk \<Rightarrow> stock_kind \<Rightarrow> int \<Rightarrow> pk option \<Rightarrow> int option \<Rightarrow> string \<Rightarrow> ('a resource_db_scheme, pk) op" where
  "record_stock_transaction u rid kind delta project unit_cost note = atomic (\<lambda>s.
     case require_operations_manager u of
       Inl e \<Rightarrow> (Inl e, s)
     | Inr _ \<Rightarrow>
     if (case project of None \<Rightarrow> False
         | Some p \<Rightarrow> u_global_role u \<noteq> User_ADMIN \<and> \<not> has_active_membership s p (u_id u))
     then (Inl (PermissionError ''Stock costs can only be assigned to a managed project''), s)
     else case tbl_get (db_resource_items s) rid of
       None \<Rightarrow> (Inl (DoesNotExist ''ResourceItem''), s)
     | Some r \<Rightarrow>
     if ri_kind r \<noteq> ResourceItem_CONSUMABLE
     then (Inl (ValidationError ''Stock transactions apply only to consumables''), s)
     else if delta = 0 then (Inl (FieldError ''quantityDelta'' ''Quantity change cannot be zero''), s)
     else if kind = Stock_RECEIPT \<and> delta < 0 then (Inl (ValidationError ''Receipts must increase stock''), s)
     else if kind = Stock_ISSUE \<and> delta > 0 then (Inl (ValidationError ''Issues must decrease stock''), s)
     else if ri_stock_on_hand r + delta < 0
     then (Inl (ResourceConflict [(''code'', PStr ''insufficient_consumable_stock''),
              (''availableQuantity'', PInt (ri_stock_on_hand r)), (''requestedQuantity'', PInt \<bar>delta\<bar>)]), s)
     else
       let balance = ri_stock_on_hand r + delta;
           k = tbl_next (db_stock s);
           s1 = write_stock_transaction u rid r
                  (new_stock_row u rid r kind delta project unit_cost note (db_now s)) s
       in if ri_stock_on_hand r > ri_reorder_level r \<and> balance \<le> ri_reorder_level r
          then (case notify_low_stock u rid (with_balance r balance (db_now s)) balance s1 of
                  (Inl e, s2) \<Rightarrow> (Inl e, s2) | (Inr _, s2) \<Rightarrow> (Inr k, s2))
          else (Inr k, s1))"

section \<open>Periodic alerts\<close>

definition calibration_subject :: "resource_item \<Rightarrow> string" where
  "calibration_subject r =
     ''Calibration overdue: '' @ ri_name r @ '' ('' @
     (case ri_next_calibration_at r of None \<Rightarrow> ''None'' | Some d \<Rightarrow> str_of_day d) @ '')''"

definition already_alerted :: "'a resource_db_scheme \<Rightarrow> pk \<Rightarrow> pk \<Rightarrow> string \<Rightarrow> bool" where
  "already_alerted s rid recipient subject \<longleftrightarrow>
     tbl_exists (\<lambda>_ n. nt_recipient n = recipient \<and> nt_event_type n = RESOURCE_MAINTENANCE_DUE
        \<and> nt_target_type n = ''ResourceItem'' \<and> nt_target_id n = str_of_nat rid \<and> nt_subject n = subject)
       (db_notifications s)"

definition calibration_args :: "pk \<Rightarrow> resource_item \<Rightarrow> pk \<Rightarrow> enqueue_args" where
  "calibration_args rid r recipient =
     (enqueue_defaults recipient RESOURCE_MAINTENANCE_DUE ''ResourceItem'' (str_of_nat rid) (calibration_subject r))
       \<lparr>en_action_path := ''/resources'', en_category := Some Notification_ADMINISTRATION\<rparr>"

fun alert_recipients :: "pk \<Rightarrow> resource_item \<Rightarrow> pk list \<Rightarrow> nat \<Rightarrow> ('a resource_db_scheme, nat) op" where
  "alert_recipients rid r [] n s = (Inr n, s)"
| "alert_recipients rid r (p # ps) n s =
     (if already_alerted s rid p (calibration_subject r) then alert_recipients rid r ps n s
      else case enqueue_notification (calibration_args rid r p) s of
        (Inl e, s') \<Rightarrow> (Inl e, s')
      | (Inr _, s') \<Rightarrow> alert_recipients rid r ps (Suc n) s')"

text \<open>One overdue resource: taken offline when it was available, then its recipients.\<close>

definition overdue_offline :: "pk \<Rightarrow> resource_item \<Rightarrow> 'a resource_db_scheme \<Rightarrow> resource_item \<times> 'a resource_db_scheme" where
  "overdue_offline rid r s =
     (if ri_status r = ResourceItem_AVAILABLE
      then let r' = r\<lparr>ri_status := ResourceItem_UNAVAILABLE, ri_version := Suc (ri_version r),
                      ri_updated_at := db_now s\<rparr>
           in (r', s\<lparr>db_resource_items := tbl_update_where (\<lambda>k _. k = rid)
                   (\<lambda>x. x\<lparr>ri_status := ri_status r', ri_version := ri_version r',
                          ri_updated_at := ri_updated_at r'\<rparr>) (db_resource_items s)\<rparr>)
      else (r, s))"

fun alert_resources :: "(pk \<times> resource_item) list \<Rightarrow> nat \<Rightarrow> ('a resource_db_scheme, nat) op" where
  "alert_resources [] n s = (Inr n, s)"
| "alert_resources ((rid, r) # rs) n s =
     (case overdue_offline rid r s of (r', s1) \<Rightarrow>
       (case alert_recipients rid r' (resource_notification_recipients s1 r') n s1 of
          (Inl e, s2) \<Rightarrow> (Inl e, s2)
        | (Inr n', s2) \<Rightarrow> alert_resources rs n' s2))"

definition outages_offline :: "'a resource_db_scheme \<Rightarrow> 'a resource_db_scheme" where
  "outages_offline s =
     s\<lparr>db_resource_items := tbl_update_where
         (\<lambda>rid r. ri_kind r = ResourceItem_EQUIPMENT \<and> ri_status r = ResourceItem_AVAILABLE
            \<and> tbl_exists (\<lambda>_ m. mr_resource_item m = rid \<and> outage_in_force (db_now s) m) (db_maintenance s))
         (\<lambda>r. r\<lparr>ri_status := ResourceItem_UNAVAILABLE, ri_version := Suc (ri_version r)\<rparr>) (db_resource_items s)\<rparr>"

definition overdue_resources :: "day \<Rightarrow> 'a resource_db_scheme \<Rightarrow> (pk \<times> resource_item) list" where
  "overdue_resources today s =
     sort_key (\<lambda>(_, r). ri_name r)
       (tbl_filter (\<lambda>_ r. ri_kind r = ResourceItem_EQUIPMENT
          \<and> (case ri_next_calibration_at r of None \<Rightarrow> False | Some d \<Rightarrow> d \<le> today)
          \<and> ri_status r \<noteq> ResourceItem_RETIRED) (db_resource_items s))"

definition reconcile_resource_operation_alerts :: "day option \<Rightarrow> ('a resource_db_scheme, nat) op" where
  "reconcile_resource_operation_alerts today s =
     (let day = (case today of None \<Rightarrow> date_of (db_now s) | Some d \<Rightarrow> d);
          s1 = outages_offline s
      in alert_resources (overdue_resources day s1) 0 s1)"

end
