(* ===== verification/Bookings.thy ===== *)
theory Bookings
  imports Operations
begin

text \<open>
  \<open>BookingService\<close> and the booking reconciliation (\<open>apps/resources/services.py\<close>).

  A booking handed to \<open>update_booking\<close> is the caller's instance \<open>(pk, row)\<close>, which may be older than
  the row in the database; the other operations read the row again. The main invariant is
  \<open>capacity_ok\<close>: at no instant do the confirmed bookings of a resource exceed its quantity.
\<close>

section \<open>Windows\<close>

text \<open>\<open>None\<close> is a time that is absent or could not be parsed.\<close>

definition ensure_future_booking :: "booking \<Rightarrow> instant \<Rightarrow> error + unit" where
  "ensure_future_booking b now =
     (if bk_starts_at b \<le> now
      then Inl (ValidationError ''Bookings can only be changed before the reservation starts'') else Inr ())"

definition booking_window :: "instant option \<Rightarrow> instant option \<Rightarrow> instant \<Rightarrow> error + instant \<times> instant" where
  "booking_window a b now =
     (case (a, b) of
        (Some starts, Some ends) \<Rightarrow>
          if ends \<le> starts then Inl (ValidationError ''Booking end time must be after start time'')
          else if starts \<le> now then Inl (ValidationError ''Bookings must start in the future'')
          else Inr (starts, ends)
      | _ \<Rightarrow> Inl (ValidationError ''Booking end time must be after start time''))"

definition direct_use_window :: "instant option \<Rightarrow> instant option \<Rightarrow> instant \<Rightarrow> error + instant \<times> instant" where
  "direct_use_window a b now =
     (case (a, b) of
        (Some starts, Some ends) \<Rightarrow>
          if ends \<le> starts then Inl (ValidationError ''Booking end time must be after start time'')
          else if ends \<le> now
          then Inl (ValidationError ''Direct resource use cannot be recorded after it has ended'')
          else Inr (starts, ends)
      | _ \<Rightarrow> Inl (ValidationError ''Booking end time must be after start time''))"

definition require_active_user :: "actor \<Rightarrow> error + unit" where
  "require_active_user u =
     (if \<not> u_is_authenticated u \<or> u_status u \<noteq> User_ACTIVE
      then Inl (PermissionError ''An active account is required'') else Inr ())"

definition require_booking_manager :: "actor \<Rightarrow> error + unit" where
  "require_booking_manager u =
     (if \<not> is_resource_manager u
      then Inl (PermissionError ''Only teachers and administrators can decide bookings'') else Inr ())"

section \<open>Capacity\<close>

definition overlaps :: "pk \<Rightarrow> instant \<Rightarrow> instant \<Rightarrow> pk option \<Rightarrow> pk \<Rightarrow> booking \<Rightarrow> bool" where
  "overlaps rid starts ends except k b \<longleftrightarrow>
     bk_resource_item b = rid \<and> holds_capacity b \<and> bk_starts_at b < ends \<and> bk_ends_at b > starts \<and> except \<noteq> Some k"

definition used_quantity :: "'a resource_db_scheme \<Rightarrow> pk \<Rightarrow> instant \<Rightarrow> instant \<Rightarrow> pk option \<Rightarrow> int" where
  "used_quantity s rid starts ends except =
     row_sum (\<lambda>k b. overlaps rid starts ends except k b) bk_quantity (db_bookings s)"

definition maintenance_conflict :: "'a resource_db_scheme \<Rightarrow> pk \<Rightarrow> instant \<Rightarrow> instant \<Rightarrow> bool" where
  "maintenance_conflict s rid starts ends \<longleftrightarrow>
     tbl_exists (\<lambda>_ m. mr_resource_item m = rid \<and> open_outage m \<and> mr_scheduled_at m < ends
        \<and> (case mr_due_at m of None \<Rightarrow> True | Some d \<Rightarrow> d > starts)) (db_maintenance s)"

definition insufficient_capacity :: "int \<Rightarrow> int \<Rightarrow> error" where
  "insufficient_capacity available requested =
     ResourceConflict [(''code'', PStr ''insufficient_capacity''),
       (''availableQuantity'', PInt available), (''requestedQuantity'', PInt requested)]"

definition assert_capacity ::
  "'a resource_db_scheme \<Rightarrow> pk \<Rightarrow> instant \<Rightarrow> instant \<Rightarrow> int \<Rightarrow> pk option \<Rightarrow> error + unit" where
  "assert_capacity s rid starts ends quantity except =
     (case tbl_get (db_resource_items s) rid of
        None \<Rightarrow> Inl (DoesNotExist ''ResourceItem'')
      | Some r \<Rightarrow>
      if ri_kind r = ResourceItem_CONSUMABLE
      then Inl (ResourceConflict [(''code'', PStr ''consumable_not_bookable''),
                 (''detail'', PStr ''Consumables are issued from stock and cannot be booked'')])
      else if ri_status r \<noteq> ResourceItem_AVAILABLE
      then Inl (ResourceConflict [(''code'', PStr ''resource_unusable''),
                 (''detail'', PStr ''Resource is not available for new use'')])
      else if (case ri_next_calibration_at r of None \<Rightarrow> False | Some d \<Rightarrow> d \<le> date_of starts)
      then Inl (ResourceConflict [(''code'', PStr ''calibration_due''),
                 (''detail'', PStr ''Resource calibration is due before this booking'')])
      else if maintenance_conflict s rid starts ends
      then Inl (ResourceConflict [(''code'', PStr ''resource_maintenance_conflict''),
                 (''detail'', PStr ''Resource is unavailable during scheduled maintenance'')])
      else if quantity > ri_total_quantity r then Inl (insufficient_capacity (ri_total_quantity r) quantity)
      else let available = max (ri_total_quantity r - used_quantity s rid starts ends except) 0
           in if quantity > available then Inl (insufficient_capacity available quantity) else Inr ())"

section \<open>Operations\<close>

text \<open>\<open>objects.create\<close> and \<open>save\<close>, with the check constraints.\<close>

definition insert_booking :: "booking \<Rightarrow> ('a resource_db_scheme, pk) op" where
  "insert_booking b s =
     (if \<not> booking_checks b then (Inl (IntegrityError ''booking''), s)
      else (Inr (tbl_next (db_bookings s)), s\<lparr>db_bookings := tbl_insert b (db_bookings s)\<rparr>))"

definition save_booking :: "pk \<Rightarrow> booking \<Rightarrow> ('a resource_db_scheme, unit) op" where
  "save_booking k b s =
     (if \<not> booking_checks b then (Inl (IntegrityError ''booking''), s)
      else (Inr (), s\<lparr>db_bookings := tbl_put k b (db_bookings s)\<rparr>))"

text \<open>\<open>_notify_booking_change\<close>: a row of its own, and any failure is swallowed.\<close>

definition booking_notification :: "actor \<Rightarrow> pk \<Rightarrow> booking \<Rightarrow> string \<Rightarrow> instant \<Rightarrow> notification" where
  "booking_notification u k b subject now =
     \<lparr>nt_project = None, nt_recipient = bk_requested_by b, nt_recipient_email = [], nt_sender = Some (u_id u),
      nt_event_type = BOOKING_CHANGED, nt_target_type = ''Booking'', nt_target_id = str_of_nat k,
      nt_subject = subject, nt_action_path = ''/resources?booking='' @ str_of_nat k,
      nt_status = Notification_PENDING, nt_delivery_policy = Notification_IN_APP_EMAIL,
      nt_eligible_at = now, nt_queued_at = None, nt_sent_at = None, nt_last_attempt_at = None,
      nt_retry_count = 0, nt_failure_reason = [], nt_category = Notification_ADMINISTRATION,
      nt_requirement_type = Notification_INFORMATIONAL, nt_outcome_state = Notification_NOT_REQUIRED,
      nt_due_at = None, nt_expires_at = None, nt_acknowledged_at = None, nt_action_completed_at = None,
      nt_expired_at = None, nt_unavailable_at = None, nt_completion_event_type = [],
      nt_completion_event_id = [], nt_dedupe_key = [], nt_active_follow_up = False,
      nt_reminder_count = 0, nt_escalation_level = 0, nt_last_reminded_at = None,
      nt_last_escalated_at = None, nt_created_at = now\<rparr>"

definition notify_booking_change ::
  "actor \<Rightarrow> pk \<Rightarrow> booking \<Rightarrow> string \<Rightarrow> 'a resource_db_scheme \<Rightarrow> 'a resource_db_scheme" where
  "notify_booking_change u k b subject s = snd (insert_notification (booking_notification u k b subject (db_now s)) s)"

definition booking_event ::
  "pk option \<Rightarrow> actor \<Rightarrow> string \<Rightarrow> string \<Rightarrow> pk \<Rightarrow> pydict option \<Rightarrow> 'a resource_db_scheme \<Rightarrow> 'a resource_db_scheme" where
  "booking_event project u event_type summary k snapshot =
     record_event project (Some u) event_type summary (Some (''Booking'', k))
       (event_defaults\<lparr>opt_target_snapshot := snapshot\<rparr>)"

record booking_args =
  ba_starts_at :: "instant option"
  ba_ends_at :: "instant option"
  ba_quantity :: int
  ba_purpose :: string
  ba_project :: "pk option"

definition create_booking :: "actor \<Rightarrow> pk \<times> resource_item \<Rightarrow> booking_args \<Rightarrow> ('a resource_db_scheme, pk) op" where
  "create_booking u item a = atomic (\<lambda>s.
     case require_active_user u of
       Inl e \<Rightarrow> (Inl e, s)
     | Inr _ \<Rightarrow>
     let student = is_active_student u; manager = is_resource_manager u; rid = fst item
     in case (if student \<or> \<not> manager then booking_window (ba_starts_at a) (ba_ends_at a) (db_now s)
              else direct_use_window (ba_starts_at a) (ba_ends_at a) (db_now s)) of
       Inl e \<Rightarrow> (Inl e, s)
     | Inr (starts, ends) \<Rightarrow>
     if ba_quantity a < 1 then (Inl (FieldError ''quantity'' ''Quantity must be at least 1''), s)
     else if ri_status (snd item) \<noteq> ResourceItem_AVAILABLE
     then (Inl (ValidationError ''Resource is not available for new use''), s)
     else
     let policy = effective_confirmation_policy s (snd item);
         st = (if student \<and> policy = ResourceType_APPROVAL_REQUIRED then Booking_PENDING else Booking_CONFIRMED);
         origin = (if student then Booking_STUDENT_REQUEST
                   else if manager then Booking_STAFF_DIRECT else Booking_LEGACY_BOOKING)
     in case assert_capacity s rid starts ends (ba_quantity a) None of
       Inl e \<Rightarrow> (Inl e, s)
     | Inr _ \<Rightarrow>
     let b = \<lparr>bk_project = ba_project a, bk_resource_item = rid, bk_requested_by = u_id u,
              bk_starts_at = starts, bk_ends_at = ends, bk_quantity = ba_quantity a, bk_origin = origin,
              bk_confirmation_policy = policy, bk_status = st, bk_purpose = ba_purpose a,
              bk_reviewer = None, bk_decision_note = [], bk_decided_at = None, bk_version = 1,
              bk_created_at = db_now s, bk_updated_at = db_now s, bk_cancelled_at = None,
              bk_completed_at = None\<rparr>
     in case insert_booking b s of
       (Inl e, s1) \<Rightarrow> (Inl e, s1)
     | (Inr k, s1) \<Rightarrow>
       let s2 = booking_event None u ''booking.created'' (''Created booking '' @ str_of_nat k) k
                  (Some (booking_snapshot k b ''created'' None)) s1
       in (Inr k, notify_booking_change u k b (''Booking '' @ booking_status_value st) s2))"

record booking_changes =
  bc_starts_at :: "instant option"
  bc_ends_at :: "instant option"
  bc_quantity :: "int option"
  bc_purpose :: "string option"
  bc_version :: "int option"

definition may_change_booking :: "actor \<Rightarrow> booking \<Rightarrow> bool" where
  "may_change_booking u b \<longleftrightarrow> bk_requested_by b = u_id u \<or> is_resource_manager u"

definition update_booking :: "actor \<Rightarrow> pk \<times> booking \<Rightarrow> booking_changes \<Rightarrow> ('a resource_db_scheme, pk) op" where
  "update_booking u kb c = atomic (\<lambda>s.
     let k = fst kb; b = snd kb
     in case require_active_user u of
       Inl e \<Rightarrow> (Inl e, s)
     | Inr _ \<Rightarrow>
     case ensure_future_booking b (db_now s) of
       Inl e \<Rightarrow> (Inl e, s)
     | Inr _ \<Rightarrow>
     if \<not> may_change_booking u b
     then (Inl (ValidationError ''Only the requester or an advisor can change this booking''), s)
     else if (case bc_version c of None \<Rightarrow> False | Some v \<Rightarrow> v \<noteq> int (bk_version b))
     then (Inl (ResourceConflict [(''code'', PStr ''stale_booking_version''),
                                  (''currentVersion'', PInt (int (bk_version b)))]), s)
     else case booking_window (Some (override (bc_starts_at c) (bk_starts_at b)))
                  (Some (override (bc_ends_at c) (bk_ends_at b))) (db_now s) of
       Inl e \<Rightarrow> (Inl e, s)
     | Inr (starts, ends) \<Rightarrow>
     let quantity = (case bc_quantity c of None \<Rightarrow> bk_quantity b | Some q \<Rightarrow> if q = 0 then bk_quantity b else q)
     in case (if holds_capacity b then assert_capacity s (bk_resource_item b) starts ends quantity (Some k)
              else Inr ()) of
       Inl e \<Rightarrow> (Inl e, s)
     | Inr _ \<Rightarrow>
     let b' = b\<lparr>bk_starts_at := starts, bk_ends_at := ends, bk_quantity := quantity,
                bk_purpose := override (bc_purpose c) (bk_purpose b), bk_version := Suc (bk_version b),
                bk_updated_at := db_now s\<rparr>
     in case save_booking k b' s of
       (Inl e, s1) \<Rightarrow> (Inl e, s1)
     | (Inr _, s1) \<Rightarrow>
       (Inr k, booking_event None u ''booking.changed'' (''Changed booking '' @ str_of_nat k) k None
          (notify_booking_change u k b' ''Booking changed'' s1)))"

definition cancel_booking :: "actor \<Rightarrow> pk \<Rightarrow> ('a resource_db_scheme, pk) op" where
  "cancel_booking u k = atomic (\<lambda>s.
     case require_active_user u of
       Inl e \<Rightarrow> (Inl e, s)
     | Inr _ \<Rightarrow>
     case tbl_get (db_bookings s) k of
       None \<Rightarrow> (Inl (DoesNotExist ''Booking''), s)
     | Some b \<Rightarrow>
     (case ensure_future_booking b (db_now s) of
       Inl e \<Rightarrow> (Inl e, s)
     | Inr _ \<Rightarrow>
     if \<not> may_change_booking u b
     then (Inl (ValidationError ''Only the requester or an advisor can cancel this booking''), s)
     else if bk_status b \<notin> {Booking_PENDING, Booking_CONFIRMED, Booking_RESERVED}
     then (Inl (ResourceConflict [(''code'', PStr ''stale_decision''),
              (''currentStatus'', PStr (booking_status_value (bk_status b))),
              (''detail'', PStr ''Only pending or confirmed bookings can be cancelled'')]), s)
     else
       let b' = b\<lparr>bk_status := Booking_CANCELLED, bk_cancelled_at := Some (db_now s),
                  bk_version := Suc (bk_version b), bk_updated_at := db_now s\<rparr>
       in case save_booking k b' s of
         (Inl e, s1) \<Rightarrow> (Inl e, s1)
       | (Inr _, s1) \<Rightarrow>
         (Inr k, booking_event None u ''booking.cancelled'' (''Cancelled booking '' @ str_of_nat k) k
            (Some (booking_snapshot k b' ''cancelled'' (Some (bk_status b))))
            (notify_booking_change u k b' ''Booking cancelled'' s1))))"

definition return_booking :: "actor \<Rightarrow> pk \<Rightarrow> ('a resource_db_scheme, pk) op" where
  "return_booking u k = atomic (\<lambda>s.
     case require_active_user u of
       Inl e \<Rightarrow> (Inl e, s)
     | Inr _ \<Rightarrow>
     case tbl_get (db_bookings s) k of
       None \<Rightarrow> (Inl (DoesNotExist ''Booking''), s)
     | Some b \<Rightarrow>
     if \<not> may_change_booking u b
     then (Inl (ValidationError ''Only the requester or an advisor can return this resource''), s)
     else if \<not> holds_capacity b
     then (Inl (ResourceConflict [(''code'', PStr ''return_not_allowed''),
              (''currentStatus'', PStr (booking_status_value (bk_status b))),
              (''detail'', PStr ''Only active confirmed or reserved bookings can be returned'')]), s)
     else if \<not> (bk_starts_at b \<le> db_now s \<and> db_now s < bk_ends_at b)
     then (Inl (ResourceConflict [(''code'', PStr ''return_window_invalid''),
              (''currentStatus'', PStr (booking_status_value (bk_status b))),
              (''detail'', PStr ''Resources can only be returned during the active use window'')]), s)
     else
       let b' = b\<lparr>bk_ends_at := db_now s, bk_status := Booking_COMPLETED, bk_completed_at := Some (db_now s),
                  bk_version := Suc (bk_version b), bk_updated_at := db_now s\<rparr>
       in case save_booking k b' s of
         (Inl e, s1) \<Rightarrow> (Inl e, s1)
       | (Inr _, s1) \<Rightarrow>
         (Inr k, booking_event None u ''booking.returned'' (''Returned booking '' @ str_of_nat k) k
            (Some (booking_snapshot k b' ''returned'' (Some (bk_status b))))
            (notify_booking_change u k b' ''Resource returned'' s1)))"

text \<open>The atomic block of \<open>decide_booking\<close>.\<close>

definition decide_in_transaction ::
  "actor \<Rightarrow> pk \<Rightarrow> bool \<Rightarrow> string \<Rightarrow> ('a resource_db_scheme, booking) op" where
  "decide_in_transaction u k approve note = atomic (\<lambda>s.
     case tbl_get (db_bookings s) k of
       None \<Rightarrow> (Inl (DoesNotExist ''Booking''), s)
     | Some b \<Rightarrow>
     if bk_status b \<noteq> Booking_PENDING
     then (Inl (ResourceConflict [(''code'', PStr ''duplicate_decision''),
              (''currentStatus'', PStr (booking_status_value (bk_status b))),
              (''detail'', PStr ''Only pending bookings can be decided'')]), s)
     else case (if approve then assert_capacity s (bk_resource_item b) (bk_starts_at b) (bk_ends_at b) (bk_quantity b) None
                else Inr ()) of
       Inl e \<Rightarrow> (Inl e, s)
     | Inr _ \<Rightarrow>
       let st = (if approve then Booking_CONFIRMED else Booking_REJECTED);
           b' = b\<lparr>bk_status := st, bk_reviewer := Some (u_id u), bk_decision_note := py_strip note,
                  bk_decided_at := Some (db_now s), bk_version := Suc (bk_version b),
                  bk_updated_at := db_now s\<rparr>
       in case save_booking k b' s of
         (Inl e, s1) \<Rightarrow> (Inl e, s1)
       | (Inr _, s1) \<Rightarrow>
         (Inr b', booking_event None u (''booking.'' @ booking_status_value st)
            (''Booking '' @ booking_status_value st) k
            (Some (booking_snapshot k b' (booking_status_value st) (Some (bk_status b)))) s1))"

text \<open>A conflict is recorded outside the block, so the event survives, and is raised again.\<close>

definition decide_booking :: "actor \<Rightarrow> pk \<Rightarrow> bool \<Rightarrow> string \<Rightarrow> ('a resource_db_scheme, pk) op" where
  "decide_booking u k approve note s =
     (case require_booking_manager u of
        Inl e \<Rightarrow> (Inl e, s)
      | Inr _ \<Rightarrow>
      case decide_in_transaction u k approve note s of
        (Inr b, s1) \<Rightarrow>
          (Inr k, notify_booking_change u k b (''Booking '' @ booking_status_value (bk_status b)) s1)
      | (Inl (ResourceConflict payload), s1) \<Rightarrow>
          (case tbl_get (db_bookings s1) k of
             None \<Rightarrow> (Inl (DoesNotExist ''Booking''), s1)
           | Some b \<Rightarrow>
               let capacity = (dict_get ''code'' payload = PStr ''insufficient_capacity'');
                   event_type = (if capacity then ''booking.capacity_conflict'' else ''booking.duplicate_decision'');
                   outcome = (if capacity then ''capacity_conflict'' else ''duplicate_decision'')
               in (Inl (ResourceConflict payload),
                   booking_event (bk_project b) u event_type (''Decision conflict for booking '' @ str_of_nat k) k
                     (Some (dict_build (booking_snapshot k b outcome None @ payload))) s1))
      | (Inl e, s1) \<Rightarrow> (Inl e, s1))"

definition reconcile_completed_bookings :: "instant option \<Rightarrow> 'a resource_db_scheme \<Rightarrow> nat \<times> 'a resource_db_scheme" where
  "reconcile_completed_bookings at s =
     (let now = (case at of None \<Rightarrow> db_now s | Some t \<Rightarrow> t);
          ended = (\<lambda>_ b. holds_capacity b \<and> bk_ends_at b \<le> now \<and> bk_completed_at b = None);
          updated = tbl_count ended (db_bookings s);
          s1 = s\<lparr>db_bookings := tbl_update_where ended
                 (\<lambda>b. b\<lparr>bk_status := Booking_COMPLETED, bk_completed_at := Some now\<rparr>) (db_bookings s)\<rparr>
      in if updated \<noteq> 0
         then (updated, record_event None None ''booking.completion_reconciled''
                 (''Completed '' @ str_of_nat updated @ '' ended booking(s)'') None
                 (event_defaults\<lparr>opt_target_snapshot := Some [(''completedCount'', PInt (int updated)),
                    (''observedAt'', PStr (isoformat now))]\<rparr>) s1)
         else (updated, s1))"

section \<open>Periods in use\<close>

record use_period =
  up_bookingId :: pk
  up_startsAt :: string
  up_endsAt :: string
  up_quantity :: int

definition period_of :: "pk \<times> booking \<Rightarrow> use_period" where
  "period_of kb =
     \<lparr>up_bookingId = fst kb, up_startsAt = isoformat (bk_starts_at (snd kb)),
      up_endsAt = isoformat (bk_ends_at (snd kb)), up_quantity = bk_quantity (snd kb)\<rparr>"

definition in_use :: "pk \<Rightarrow> instant \<Rightarrow> booking \<Rightarrow> bool" where
  "in_use rid now b \<longleftrightarrow> bk_resource_item b = rid \<and> holds_capacity b \<and> bk_starts_at b \<le> now \<and> bk_ends_at b > now"

text \<open>The rows of one resource by end and start, and the limit per resource.\<close>

definition periods_of_resource :: "'a resource_db_scheme \<Rightarrow> instant \<Rightarrow> nat \<Rightarrow> pk \<Rightarrow> use_period list" where
  "periods_of_resource s now limit rid =
     take limit (map period_of (sort_key (\<lambda>kb. bk_ends_at (snd kb))
       (sort_key (\<lambda>kb. bk_starts_at (snd kb)) (tbl_filter (\<lambda>_ b. in_use rid now b) (db_bookings s)))))"

definition current_use_periods_by_resource ::
  "'a resource_db_scheme \<Rightarrow> pk list \<Rightarrow> instant option \<Rightarrow> nat \<Rightarrow> (pk \<times> use_period list) list" where
  "current_use_periods_by_resource s rids at limit =
     (let now = (case at of None \<Rightarrow> db_now s | Some t \<Rightarrow> t)
      in map (\<lambda>rid. (rid, periods_of_resource s now limit rid)) (rev (remdups (rev rids))))"

end
