(* ===== verification/Capacity.thy ===== *)
theory Capacity
  imports Bookings
begin

text \<open>
  The capacity of resources over every operation of the three resource services.

  \<open>capacity_ok\<close> says that at no instant the bookings that hold a resource exceed its total
  quantity. Operations are commands of one family; the interpretation \<open>resources\<close> shows that every
  command keeps the invariant, where a change of a resource must not lower the quantity below
  what is committed (the guard of the code compares with the number of bookings, not with their
  quantities).
\<close>

definition held_at :: "pk \<Rightarrow> instant \<Rightarrow> booking \<Rightarrow> bool" where
  "held_at rid t b \<longleftrightarrow> bk_resource_item b = rid \<and> holds_capacity b \<and> bk_starts_at b \<le> t \<and> t < bk_ends_at b"

definition committed :: "booking table \<Rightarrow> pk \<Rightarrow> instant \<Rightarrow> int" where
  "committed bs rid t = row_sum (\<lambda>_ b. held_at rid t b) bk_quantity bs"

definition bookings_ok :: "booking table \<Rightarrow> bool" where
  "bookings_ok bs \<longleftrightarrow> tbl_wf bs \<and> (\<forall>k b. (k, b) \<in> set (tbl_rows bs) \<longrightarrow> booking_checks b)"

definition cap_ok :: "resource_item table \<Rightarrow> booking table \<Rightarrow> bool" where
  "cap_ok items bs \<longleftrightarrow>
     tbl_wf items \<and> bookings_ok bs
     \<and> (\<forall>k b. (k, b) \<in> set (tbl_rows bs) \<longrightarrow> bk_resource_item b < tbl_next items)
     \<and> (\<forall>rid r t. tbl_get items rid = Some r \<longrightarrow> committed bs rid t \<le> ri_total_quantity r)"

definition capacity_ok :: "'a resource_db_scheme \<Rightarrow> bool" where
  "capacity_ok s \<longleftrightarrow> cap_ok (db_resource_items s) (db_bookings s)"

lemma cap_okD:
  assumes "cap_ok items bs"
  shows "tbl_wf items" "bookings_ok bs" "tbl_wf bs"
    "\<And>k b. (k, b) \<in> set (tbl_rows bs) \<Longrightarrow> booking_checks b"
    "\<And>k b. (k, b) \<in> set (tbl_rows bs) \<Longrightarrow> bk_resource_item b < tbl_next items"
    "\<And>rid r t. tbl_get items rid = Some r \<Longrightarrow> committed bs rid t \<le> ri_total_quantity r"
  using assms by (auto simp: cap_ok_def bookings_ok_def)

lemma capacity_broken:
  assumes "map_option ri_total_quantity (tbl_get (db_resource_items s) rid) = Some q"
    and "q < committed (db_bookings s) rid t"
  shows "\<not> capacity_ok s"
  using assms cap_okD(6) [of "db_resource_items s" "db_bookings s" rid _ t] by (fastforce simp: capacity_ok_def)

section \<open>Changes of the items\<close>

text \<open>Totals stay, and a new item starts with a quantity and no booking.\<close>

definition totals_kept :: "resource_item table \<Rightarrow> resource_item table \<Rightarrow> bool" where
  "totals_kept t t' \<longleftrightarrow>
     (tbl_wf t \<longrightarrow> tbl_wf t') \<and> tbl_next t \<le> tbl_next t'
     \<and> (tbl_wf t \<longrightarrow> (\<forall>rid r'. tbl_get t' rid = Some r' \<longrightarrow>
          (\<exists>r. tbl_get t rid = Some r \<and> ri_total_quantity r' = ri_total_quantity r)
          \<or> (tbl_next t \<le> rid \<and> 0 \<le> ri_total_quantity r')))"

lemma totals_kept_refl [simp]: "totals_kept t t"
  by (simp add: totals_kept_def)

lemma totals_kept_trans:
  assumes a: "totals_kept t u" and b: "totals_kept u v"
  shows "totals_kept t v"
  unfolding totals_kept_def
proof (intro conjI impI allI)
  show "tbl_wf t \<Longrightarrow> tbl_wf v" and "tbl_next t \<le> tbl_next v" using a b by (auto simp: totals_kept_def)
next
  fix rid r' assume wf: "tbl_wf t" and r': "tbl_get v rid = Some r'"
  have wfu: "tbl_wf u" using wf a by (simp add: totals_kept_def)
  consider r where "tbl_get u rid = Some r" "ri_total_quantity r' = ri_total_quantity r"
    | "tbl_next u \<le> rid" "0 \<le> ri_total_quantity r'"
    using b r' wfu unfolding totals_kept_def by blast
  then show "(\<exists>r. tbl_get t rid = Some r \<and> ri_total_quantity r' = ri_total_quantity r)
      \<or> (tbl_next t \<le> rid \<and> 0 \<le> ri_total_quantity r')"
  proof cases
    case 1
    then show ?thesis using a wf unfolding totals_kept_def by metis
  next
    case 2
    then show ?thesis using a unfolding totals_kept_def by simp
  qed
qed

lemma totals_kept_insert: "0 \<le> ri_total_quantity r \<Longrightarrow> totals_kept t (tbl_insert r t)"
  by (auto simp: totals_kept_def tbl.wf_add tbl.get_add split: if_splits)

lemma totals_kept_put:
  "tbl_get t k = Some r \<Longrightarrow> ri_total_quantity r' = ri_total_quantity r \<Longrightarrow> totals_kept t (tbl_put k r' t)"
  by (auto simp: totals_kept_def tbl.wf_put tbl.get_put tbl_put_def [of k r' t, THEN arg_cong [where f = tbl_next]]
      split: if_splits)

lemma totals_kept_update_where:
  "(\<And>r. ri_total_quantity (f r) = ri_total_quantity r) \<Longrightarrow> totals_kept t (tbl_update_where c f t)"
  by (auto simp: totals_kept_def wf_tbl_update_where tbl_get_update_where)

lemma totals_kept_delete: "totals_kept t (tbl_delete k t)"
  by (auto simp: totals_kept_def tbl.wf_del tbl.get_del tbl_delete_def [of k t, THEN arg_cong [where f = tbl_next]]
      split: if_splits)

lemma committed_nothing:
  assumes "\<And>k b. (k, b) \<in> set (tbl_rows bs) \<Longrightarrow> bk_resource_item b \<noteq> rid"
  shows "committed bs rid t = 0"
proof -
  have "committed bs rid t = row_sum (\<lambda>_ _. False) bk_quantity bs"
    unfolding committed_def using assms by (intro row_sum_cong) (auto simp: held_at_def)
  then show ?thesis by (simp add: row_sum_def tbl_filter_def)
qed

lemma cap_ok_items:
  assumes ok: "cap_ok items bs" and k: "totals_kept items items'"
  shows "cap_ok items' bs"
proof -
  have wf: "tbl_wf items" by (rule cap_okD [OF ok])
  have "committed bs rid t \<le> ri_total_quantity r'" if r': "tbl_get items' rid = Some r'" for rid r' t
  proof -
    consider r where "tbl_get items rid = Some r" "ri_total_quantity r' = ri_total_quantity r"
      | "tbl_next items \<le> rid" "0 \<le> ri_total_quantity r'"
      using k r' wf unfolding totals_kept_def by blast
    then show ?thesis
    proof cases
      case 1
      then show ?thesis using cap_okD(6) [OF ok] by simp
    next
      case 2
      then have "committed bs rid t = 0" using cap_okD(5) [OF ok] by (intro committed_nothing) force
      then show ?thesis using 2 by simp
    qed
  qed
  moreover have "bk_resource_item b < tbl_next items'" if "(k', b) \<in> set (tbl_rows bs)" for k' b
    using cap_okD(5) [OF ok that] k by (simp add: totals_kept_def)
  ultimately show ?thesis
    using k wf cap_okD(2) [OF ok] unfolding cap_ok_def totals_kept_def by blast
qed

section \<open>Changes of the bookings\<close>

text \<open>What an accepted capacity check promises about the instants of the window.\<close>

lemma assert_capacity_admits:
  assumes ok: "cap_ok (db_resource_items s) (db_bookings s)"
    and a: "assert_capacity s rid starts ends q except = Inr x" and q: "1 \<le> q"
    and r: "tbl_get (db_resource_items s) rid = Some r" and t: "starts \<le> t" "t < ends"
  shows "row_sum (\<lambda>k b. except \<noteq> Some k \<and> held_at rid t b) bk_quantity (db_bookings s) + q \<le> ri_total_quantity r"
proof -
  have "used_quantity s rid starts ends except + q \<le> ri_total_quantity r"
    using a q r by (auto simp: assert_capacity_def Let_def split: if_splits)
  moreover have "row_sum (\<lambda>k b. except \<noteq> Some k \<and> held_at rid t b) bk_quantity (db_bookings s)
      \<le> used_quantity s rid starts ends except"
    unfolding used_quantity_def using t cap_okD(4) [OF ok]
    by (intro row_sum_mono) (fastforce simp: held_at_def overlaps_def booking_checks_def)+
  ultimately show ?thesis by simp
qed

lemma assert_capacity_item:
  "assert_capacity s rid starts ends q except = Inr x \<Longrightarrow> \<exists>r. tbl_get (db_resource_items s) rid = Some r"
  by (auto simp: assert_capacity_def split: option.splits)

lemma committed_put:
  "tbl_wf bs \<Longrightarrow> committed (tbl_put k b bs) rid t =
   row_sum (\<lambda>k' b'. k' \<noteq> k \<and> held_at rid t b') bk_quantity bs + (if held_at rid t b then bk_quantity b else 0)"
  by (simp add: committed_def row_sum_put)

lemma committed_without:
  assumes "bookings_ok bs"
  shows "row_sum (\<lambda>k' b'. k' \<noteq> k \<and> held_at rid t b') bk_quantity bs \<le> committed bs rid t"
  unfolding committed_def using assms
  by (intro row_sum_mono) (auto simp: bookings_ok_def booking_checks_def, force)

text \<open>A booking is added: it holds nothing, or the check has accepted it.\<close>

lemma cap_ok_insert:
  assumes ok: "cap_ok (db_resource_items s) (db_bookings s)" and b: "booking_checks b"
    and a: "assert_capacity s (bk_resource_item b) (bk_starts_at b) (bk_ends_at b) (bk_quantity b) None = Inr x"
  shows "cap_ok (db_resource_items s) (tbl_insert b (db_bookings s))"
proof -
  have "committed (tbl_insert b (db_bookings s)) rid t \<le> ri_total_quantity r"
    if r: "tbl_get (db_resource_items s) rid = Some r" for rid r t
  proof (cases "held_at rid t b")
    case True
    then show ?thesis
      using assert_capacity_admits [OF ok a _ _, of r t] b r
      by (simp add: committed_def row_sum_insert held_at_def booking_checks_def)
  next
    case False
    then show ?thesis using cap_okD(6) [OF ok r] by (simp add: committed_def row_sum_insert)
  qed
  moreover obtain r0 where "tbl_get (db_resource_items s) (bk_resource_item b) = Some r0"
    using assert_capacity_item [OF a] by blast
  then have "bk_resource_item b < tbl_next (db_resource_items s)"
    by (rule tbl.below_fresh [OF cap_okD(1) [OF ok]])
  ultimately show ?thesis
    using ok b by (auto simp: cap_ok_def bookings_ok_def tbl.wf_add)
qed

text \<open>
  A booking is saved: it no longer holds capacity, or it holds what it held and for no longer,
  or the check, which leaves its own row out, has accepted it.
\<close>

lemma cap_ok_put:
  assumes ok: "cap_ok items bs" and b: "booking_checks b" "bk_resource_item b < tbl_next items"
    and fits: "\<And>rid r t. tbl_get items rid = Some r \<Longrightarrow> held_at rid t b \<Longrightarrow>
       row_sum (\<lambda>k' b'. k' \<noteq> k \<and> held_at rid t b') bk_quantity bs + bk_quantity b \<le> ri_total_quantity r"
  shows "cap_ok items (tbl_put k b bs)"
proof -
  have wf: "tbl_wf bs" by (rule cap_okD [OF ok])
  have "committed (tbl_put k b bs) rid t \<le> ri_total_quantity r" if r: "tbl_get items rid = Some r" for rid r t
    using fits [OF r, of t] committed_without [OF cap_okD(2) [OF ok], of k rid t] cap_okD(6) [OF ok r, of t]
    by (cases "held_at rid t b") (simp_all add: committed_put [OF wf])
  then show ?thesis
    using ok b tbl.wf_put [OF wf, of k b] set_rows_put [OF wf, of k b]
    unfolding cap_ok_def bookings_ok_def by auto
qed

lemma cap_ok_put_checked:
  assumes ok: "cap_ok (db_resource_items s) (db_bookings s)" and b: "booking_checks b"
    and a: "assert_capacity s (bk_resource_item b) (bk_starts_at b) (bk_ends_at b) (bk_quantity b) (Some k) = Inr x"
  shows "cap_ok (db_resource_items s) (tbl_put k b (db_bookings s))"
proof (rule cap_ok_put [OF ok b])
  show "bk_resource_item b < tbl_next (db_resource_items s)"
    using assert_capacity_item [OF a] tbl.below_fresh [OF cap_okD(1) [OF ok]] by blast
  show "row_sum (\<lambda>k' b'. k' \<noteq> k \<and> held_at rid t b') bk_quantity (db_bookings s) + bk_quantity b \<le> ri_total_quantity r"
    if "tbl_get (db_resource_items s) rid = Some r" "held_at rid t b" for rid r t
  proof -
    have "(\<lambda>k' b'. k' \<noteq> k \<and> held_at rid t b') = (\<lambda>k' b'. Some k \<noteq> Some k' \<and> held_at rid t b')"
      by (auto simp: fun_eq_iff)
    then show ?thesis
      using assert_capacity_admits [OF ok a _ _, of r t] b that by (simp add: held_at_def booking_checks_def)
  qed
qed

text \<open>A booking that is accepted from a state in which it held nothing.\<close>

lemma cap_ok_put_accepted:
  assumes ok: "cap_ok (db_resource_items s) (db_bookings s)" and b: "booking_checks b"
    and g: "tbl_get (db_bookings s) k = Some b0" "\<not> holds_capacity b0"
    and a: "assert_capacity s (bk_resource_item b) (bk_starts_at b) (bk_ends_at b) (bk_quantity b) None = Inr x"
  shows "cap_ok (db_resource_items s) (tbl_put k b (db_bookings s))"
proof (rule cap_ok_put [OF ok b])
  show "bk_resource_item b < tbl_next (db_resource_items s)"
    using assert_capacity_item [OF a] tbl.below_fresh [OF cap_okD(1) [OF ok]] by blast
  show "row_sum (\<lambda>k' b'. k' \<noteq> k \<and> held_at rid t b') bk_quantity (db_bookings s) + bk_quantity b \<le> ri_total_quantity r"
    if "tbl_get (db_resource_items s) rid = Some r" "held_at rid t b" for rid r t
  proof -
    have "row_sum (\<lambda>k' b'. k' \<noteq> k \<and> held_at rid t b') bk_quantity (db_bookings s) \<le>
        row_sum (\<lambda>k' b'. None \<noteq> Some k' \<and> held_at rid t b') bk_quantity (db_bookings s)"
      using cap_okD(4) [OF ok] by (intro row_sum_mono) (force simp: booking_checks_def)+
    then show ?thesis
      using assert_capacity_admits [OF ok a _ _, of r t] b that by (simp add: held_at_def booking_checks_def)
  qed
qed

lemma cap_ok_put_released:
  assumes "cap_ok items bs" "booking_checks b" "bk_resource_item b < tbl_next items" "\<not> holds_capacity b"
  shows "cap_ok items (tbl_put k b bs)"
  using assms by (intro cap_ok_put) (auto simp: held_at_def)

section \<open>The operations on bookings\<close>

lemma notify_booking_change_frame [simp]:
  "db_bookings (notify_booking_change u k b subj s) = db_bookings s"
  "db_resource_items (notify_booking_change u k b subj s) = db_resource_items s"
  "db_maintenance (notify_booking_change u k b subj s) = db_maintenance s"
  "db_stock (notify_booking_change u k b subj s) = db_stock s"
  "db_use_submissions (notify_booking_change u k b subj s) = db_use_submissions s"
  "db_audit (notify_booking_change u k b subj s) = db_audit s"
  "db_now (notify_booking_change u k b subj s) = db_now s"
  by (simp_all add: notify_booking_change_def insert_notification_def)

lemma booking_event_frame [simp]:
  "db_bookings (booking_event p u e sm k sn s) = db_bookings s"
  "db_resource_items (booking_event p u e sm k sn s) = db_resource_items s"
  "db_maintenance (booking_event p u e sm k sn s) = db_maintenance s"
  "db_stock (booking_event p u e sm k sn s) = db_stock s"
  "db_use_submissions (booking_event p u e sm k sn s) = db_use_submissions s"
  "db_notifications (booking_event p u e sm k sn s) = db_notifications s"
  "db_now (booking_event p u e sm k sn s) = db_now s"
  by (simp_all add: booking_event_def)

text \<open>What a successful call did, one lemma per operation.\<close>

lemma create_booking_success:
  assumes "create_booking u item a s = (Inr k, s')"
  shows "\<exists>b x. k = tbl_next (db_bookings s) \<and> db_bookings s' = tbl_insert b (db_bookings s)
    \<and> db_resource_items s' = db_resource_items s \<and> db_stock s' = db_stock s
    \<and> db_maintenance s' = db_maintenance s \<and> booking_checks b
    \<and> assert_capacity s (bk_resource_item b) (bk_starts_at b) (bk_ends_at b) (bk_quantity b) None = Inr x
    \<and> bk_requested_by b = u_id u \<and> bk_resource_item b = fst item \<and> bk_version b = 1
    \<and> bk_status b = (if is_active_student u
        \<and> effective_confirmation_policy s (snd item) = ResourceType_APPROVAL_REQUIRED
        then Booking_PENDING else Booking_CONFIRMED)"
  using assms
  by (auto simp: create_booking_def insert_booking_def Let_def split: sum.splits if_splits prod.splits)

lemma update_booking_success:
  assumes "update_booking u (k, b) c s = (Inr k', s')"
  shows "\<exists>b' x. k' = k \<and> db_bookings s' = tbl_put k b' (db_bookings s)
    \<and> db_resource_items s' = db_resource_items s \<and> db_stock s' = db_stock s
    \<and> db_maintenance s' = db_maintenance s \<and> booking_checks b'
    \<and> bk_resource_item b' = bk_resource_item b \<and> bk_status b' = bk_status b
    \<and> bk_version b' = Suc (bk_version b) \<and> db_now s < bk_starts_at b'
    \<and> (holds_capacity b' \<longrightarrow> assert_capacity s (bk_resource_item b') (bk_starts_at b') (bk_ends_at b')
          (bk_quantity b') (Some k) = Inr x)"
  using assms
  by (auto simp: update_booking_def save_booking_def holds_capacity_def booking_window_def Let_def
      split: sum.splits if_splits prod.splits option.splits)

lemma cancel_booking_success:
  assumes "cancel_booking u k s = (Inr k', s')"
  shows "\<exists>b b'. k' = k \<and> tbl_get (db_bookings s) k = Some b \<and> db_bookings s' = tbl_put k b' (db_bookings s)
    \<and> db_resource_items s' = db_resource_items s \<and> db_stock s' = db_stock s
    \<and> db_maintenance s' = db_maintenance s \<and> booking_checks b'
    \<and> bk_resource_item b' = bk_resource_item b \<and> bk_status b' = Booking_CANCELLED
    \<and> bk_status b \<in> {Booking_PENDING, Booking_CONFIRMED, Booking_RESERVED}
    \<and> bk_version b' = Suc (bk_version b) \<and> may_change_booking u b \<and> db_now s < bk_starts_at b"
  using assms
  by (auto simp: cancel_booking_def save_booking_def ensure_future_booking_def Let_def
      split: sum.splits if_splits prod.splits option.splits)

lemma return_booking_success:
  assumes "return_booking u k s = (Inr k', s')"
  shows "\<exists>b b'. k' = k \<and> tbl_get (db_bookings s) k = Some b \<and> db_bookings s' = tbl_put k b' (db_bookings s)
    \<and> db_resource_items s' = db_resource_items s \<and> db_stock s' = db_stock s
    \<and> db_maintenance s' = db_maintenance s \<and> booking_checks b'
    \<and> bk_resource_item b' = bk_resource_item b \<and> bk_status b' = Booking_COMPLETED
    \<and> bk_ends_at b' = db_now s \<and> holds_capacity b \<and> bk_version b' = Suc (bk_version b)
    \<and> may_change_booking u b"
  using assms
  by (auto simp: return_booking_def save_booking_def Let_def split: sum.splits if_splits prod.splits option.splits)

lemma decide_in_transaction_success:
  assumes "decide_in_transaction u k approve remark s = (Inr b', s')"
  shows "\<exists>b x. tbl_get (db_bookings s) k = Some b \<and> db_bookings s' = tbl_put k b' (db_bookings s)
    \<and> db_resource_items s' = db_resource_items s \<and> db_stock s' = db_stock s
    \<and> db_maintenance s' = db_maintenance s \<and> booking_checks b'
    \<and> bk_resource_item b' = bk_resource_item b \<and> bk_status b = Booking_PENDING
    \<and> bk_status b' = (if approve then Booking_CONFIRMED else Booking_REJECTED)
    \<and> bk_version b' = Suc (bk_version b)
    \<and> (approve \<longrightarrow> assert_capacity s (bk_resource_item b') (bk_starts_at b') (bk_ends_at b') (bk_quantity b') None = Inr x)"
  using assms
  by (auto simp: decide_in_transaction_def save_booking_def Let_def
      split: sum.splits if_splits prod.splits option.splits)

lemma decide_in_transaction_error: "decide_in_transaction u k approve remark s = (Inl e, s') \<Longrightarrow> s' = s"
  by (simp add: decide_in_transaction_def)

lemma decide_booking_bookings:
  "db_bookings (snd (decide_booking u k approve remark s)) = db_bookings (snd (decide_in_transaction u k approve remark s))
     \<or> db_bookings (snd (decide_booking u k approve remark s)) = db_bookings s"
  "db_resource_items (snd (decide_booking u k approve remark s)) = db_resource_items s"
  "db_stock (snd (decide_booking u k approve remark s)) = db_stock s"
  "db_maintenance (snd (decide_booking u k approve remark s)) = db_maintenance s"
  unfolding decide_booking_def
  by (auto simp: Let_def dest!: decide_in_transaction_error dest: decide_in_transaction_success
      split: sum.splits prod.splits error.splits option.splits)

lemma row_below_fresh:
  "cap_ok items bs \<Longrightarrow> tbl_get bs k = Some b \<Longrightarrow> bk_resource_item b < tbl_next items"
  by (rule cap_okD(5) [OF _ tbl_getD])

lemma capacity_create: "capacity_ok s \<Longrightarrow> create_booking u item a s = (Inr k, s') \<Longrightarrow> capacity_ok s'"
  unfolding capacity_ok_def using create_booking_success [of u item a s k s'] cap_ok_insert by metis

lemma capacity_update:
  assumes "capacity_ok s" "bk_resource_item b < tbl_next (db_resource_items s)"
    and "update_booking u (k, b) c s = (Inr k', s')"
  shows "capacity_ok s'"
proof -
  from update_booking_success [OF assms(3)] obtain b' x where
    s': "db_bookings s' = tbl_put k b' (db_bookings s)" "db_resource_items s' = db_resource_items s"
    and b': "booking_checks b'" "bk_resource_item b' = bk_resource_item b"
    and a: "holds_capacity b' \<Longrightarrow> assert_capacity s (bk_resource_item b') (bk_starts_at b') (bk_ends_at b')
          (bk_quantity b') (Some k) = Inr x"
    by blast
  show ?thesis
  proof (cases "holds_capacity b'")
    case True
    then show ?thesis
      using cap_ok_put_checked [of s b' k x] assms(1) a b' s' by (simp add: capacity_ok_def)
  next
    case False
    then show ?thesis
      using cap_ok_put_released [of "db_resource_items s" "db_bookings s" b' k] assms b' s'
      by (simp add: capacity_ok_def)
  qed
qed

lemma capacity_cancel:
  assumes ok: "capacity_ok s" and c: "cancel_booking u k s = (Inr k', s')"
  shows "capacity_ok s'"
proof -
  from cancel_booking_success [OF c] obtain b b' where
    g: "tbl_get (db_bookings s) k = Some b" and s': "db_bookings s' = tbl_put k b' (db_bookings s)"
      "db_resource_items s' = db_resource_items s"
    and b': "booking_checks b'" "bk_resource_item b' = bk_resource_item b" "\<not> holds_capacity b'"
    by (auto simp: holds_capacity_def)
  have ok': "cap_ok (db_resource_items s) (db_bookings s)" using ok by (simp add: capacity_ok_def)
  show ?thesis
    using cap_ok_put_released [OF ok' b'(1) _ b'(3)] row_below_fresh [OF ok' g] b'(2) s'
    by (simp add: capacity_ok_def)
qed

lemma capacity_return:
  assumes ok: "capacity_ok s" and c: "return_booking u k s = (Inr k', s')"
  shows "capacity_ok s'"
proof -
  from return_booking_success [OF c] obtain b b' where
    g: "tbl_get (db_bookings s) k = Some b" and s': "db_bookings s' = tbl_put k b' (db_bookings s)"
      "db_resource_items s' = db_resource_items s"
    and b': "booking_checks b'" "bk_resource_item b' = bk_resource_item b" "\<not> holds_capacity b'"
    by (auto simp: holds_capacity_def)
  have ok': "cap_ok (db_resource_items s) (db_bookings s)" using ok by (simp add: capacity_ok_def)
  show ?thesis
    using cap_ok_put_released [OF ok' b'(1) _ b'(3)] row_below_fresh [OF ok' g] b'(2) s'
    by (simp add: capacity_ok_def)
qed

lemma capacity_decide_in_transaction:
  assumes ok: "capacity_ok s" and d: "decide_in_transaction u k approve remark s = (Inr b', s')"
  shows "capacity_ok s'"
proof -
  from decide_in_transaction_success [OF d] obtain b x where
    s': "db_bookings s' = tbl_put k b' (db_bookings s)" "db_resource_items s' = db_resource_items s"
    and g: "tbl_get (db_bookings s) k = Some b" "\<not> holds_capacity b"
    and b': "booking_checks b'" "bk_resource_item b' = bk_resource_item b"
      "bk_status b' = (if approve then Booking_CONFIRMED else Booking_REJECTED)"
    and a: "approve \<longrightarrow> assert_capacity s (bk_resource_item b') (bk_starts_at b') (bk_ends_at b') (bk_quantity b') None = Inr x"
    by (auto simp: holds_capacity_def)
  have ok': "cap_ok (db_resource_items s) (db_bookings s)" using ok by (simp add: capacity_ok_def)
  show ?thesis
  proof (cases approve)
    case True
    then show ?thesis using cap_ok_put_accepted [OF ok' b'(1) g] a s' by (simp add: capacity_ok_def)
  next
    case False
    then have "\<not> holds_capacity b'" using b' by (simp add: holds_capacity_def)
    moreover have "bk_resource_item b' < tbl_next (db_resource_items s)"
      using row_below_fresh [OF ok' g(1)] b' by simp
    ultimately show ?thesis using cap_ok_put_released [OF ok' b'(1)] s' by (simp add: capacity_ok_def)
  qed
qed

lemma capacity_decide: "capacity_ok s \<Longrightarrow> capacity_ok (snd (decide_booking u k approve remark s))"
proof -
  assume ok: "capacity_ok s"
  have t: "capacity_ok (snd (decide_in_transaction u k approve remark s))"
  proof (cases "decide_in_transaction u k approve remark s")
    case (Pair r s')
    then show ?thesis
      using ok capacity_decide_in_transaction [OF ok] by (cases r) (auto dest: decide_in_transaction_error)
  qed
  have i: "db_resource_items (snd (decide_in_transaction u k approve remark s)) = db_resource_items s"
  proof (cases "decide_in_transaction u k approve remark s")
    case (Pair r s')
    then show ?thesis
      using decide_in_transaction_success [of u k approve remark s _ s']
      by (cases r) (auto dest: decide_in_transaction_error)
  qed
  show ?thesis
    using decide_booking_bookings [of u k approve remark s] t ok i unfolding capacity_ok_def by auto
qed

lemma bookings_ok_update_where:
  "bookings_ok bs \<Longrightarrow> (\<And>b. booking_checks (f b) = booking_checks b) \<Longrightarrow> bookings_ok (tbl_update_where c f bs)"
  by (auto simp: bookings_ok_def wf_tbl_update_where)

lemma cap_ok_complete:
  assumes ok: "cap_ok items bs"
  shows "cap_ok items (tbl_update_where c (\<lambda>b. b\<lparr>bk_status := Booking_COMPLETED, bk_completed_at := t0\<rparr>) bs)"
    (is "cap_ok items (tbl_update_where c ?f bs)")
proof -
  have "committed (tbl_update_where c ?f bs) rid t \<le> ri_total_quantity r" if r: "tbl_get items rid = Some r" for rid r t
  proof -
    have "committed (tbl_update_where c ?f bs) rid t \<le> committed bs rid t"
      unfolding committed_def using cap_okD(4) [OF ok]
      by (intro row_sum_update_where) (force simp: held_at_def holds_capacity_def booking_checks_def)+
    then show ?thesis using cap_okD(6) [OF ok r, of t] by simp
  qed
  moreover have "bookings_ok (tbl_update_where c ?f bs)"
    by (rule bookings_ok_update_where [OF cap_okD(2) [OF ok]]) (simp add: booking_checks_def)
  moreover have "bk_resource_item b < tbl_next items" if "(k, b) \<in> set (tbl_rows (tbl_update_where c ?f bs))" for k b
  proof -
    from that obtain b0 where "(k, b0) \<in> set (tbl_rows bs)" "bk_resource_item b = bk_resource_item b0"
      by (auto split: if_splits)
    then show ?thesis using cap_okD(5) [OF ok] by simp
  qed
  ultimately show ?thesis using cap_okD(1) [OF ok] unfolding cap_ok_def by blast
qed

lemma capacity_reconcile: "capacity_ok s \<Longrightarrow> capacity_ok (snd (reconcile_completed_bookings at s))"
  by (simp add: capacity_ok_def reconcile_completed_bookings_def Let_def cap_ok_complete)

section \<open>The operations on resources\<close>

text \<open>A step of the other services: no booking changes, and the totals stay.\<close>

definition items_step :: "'a resource_db_scheme \<Rightarrow> 'a resource_db_scheme \<Rightarrow> bool" where
  "items_step s s' \<longleftrightarrow> db_bookings s' = db_bookings s \<and> totals_kept (db_resource_items s) (db_resource_items s')"

lemma items_step_refl [simp]: "items_step s s"
  by (simp add: items_step_def)

lemma items_step_trans: "items_step s t \<Longrightarrow> items_step t u \<Longrightarrow> items_step s u"
  by (auto simp: items_step_def intro: totals_kept_trans)

lemma items_step_same: "db_bookings s' = db_bookings s \<Longrightarrow> db_resource_items s' = db_resource_items s \<Longrightarrow> items_step s s'"
  by (simp add: items_step_def)

lemma items_step_mail: "only_mail s s' \<Longrightarrow> items_step s s'"
  by (drule only_mail_resource) (simp add: items_step_def)

lemma items_step_record_event [simp]: "items_step s (record_event p a t sm tg opts s') = items_step s s'"
  by (simp add: items_step_def)

lemma capacity_items_step: "capacity_ok s \<Longrightarrow> items_step s s' \<Longrightarrow> capacity_ok s'"
  by (simp add: capacity_ok_def items_step_def cap_ok_items)

lemma items_step_atomic:
  "(\<And>x s'. m s = (Inr x, s') \<Longrightarrow> items_step s s') \<Longrightarrow> atomic m s = (r, s') \<Longrightarrow> items_step s s'"
  by (cases r) auto

lemma get_or_create_type_frame:
  assumes "get_or_create_type n s = (r, s')"
  shows "db_bookings s' = db_bookings s" "db_resource_items s' = db_resource_items s" "db_now s' = db_now s"
    "db_stock s' = db_stock s" "db_use_submissions s' = db_use_submissions s" "db_maintenance s' = db_maintenance s"
  using assms by (auto simp: get_or_create_type_def split: list.splits)

lemma open_ledger_frame [simp]:
  "db_bookings (open_ledger u rid r s) = db_bookings s"
  "db_resource_items (open_ledger u rid r s) = db_resource_items s"
  by (simp_all add: open_ledger_def)

definition opens_with :: "pk \<Rightarrow> resource_item \<Rightarrow> stock_transaction table \<Rightarrow> stock_transaction table \<Rightarrow> bool" where
  "opens_with rid r t t' \<longleftrightarrow>
     (if ri_kind r = ResourceItem_CONSUMABLE \<and> ri_stock_on_hand r \<noteq> 0
      then \<exists>tx. t' = tbl_insert tx t \<and> st_resource_item tx = rid \<and> st_quantity_delta tx = ri_stock_on_hand r
         \<and> st_balance_after tx = ri_stock_on_hand r
      else t' = t)"

lemma open_ledger_opens: "opens_with rid r (db_stock s) (db_stock (open_ledger u rid r s))"
  by (simp add: opens_with_def open_ledger_def) (intro impI exI conjI, rule refl, simp_all)

lemma create_item_success:
  assumes "create_item u r s = (Inr rid, s')"
  shows "rid = tbl_next (db_resource_items s)" "db_resource_items s' = tbl_insert r (db_resource_items s)"
    "item_checks r" "db_bookings s' = db_bookings s" "db_maintenance s' = db_maintenance s"
    "opens_with rid r (db_stock s) (db_stock s')"
  using assms open_ledger_opens [of rid r "s\<lparr>db_resource_items := tbl_insert r (db_resource_items s)\<rparr>" u]
  by (auto simp: create_item_def Let_def open_ledger_def dest!: only_mail_low_stock only_mail_resource
      split: sum.splits if_splits prod.splits)

lemma create_resource_success:
  assumes "create_resource u a s = (Inr rid, s')"
  shows "\<exists>r. rid = tbl_next (db_resource_items s)
    \<and> db_resource_items s' = tbl_insert r (db_resource_items s) \<and> item_checks r
    \<and> db_bookings s' = db_bookings s \<and> db_maintenance s' = db_maintenance s
    \<and> opens_with rid r (db_stock s) (db_stock s')
    \<and> ri_stock_on_hand r = ca_stock_on_hand a \<and> ri_kind r = ca_kind a"
proof -
  obtain t1 s1 where 1: "get_or_create_type (py_strip (ca_resource_type a)) s = (Inr t1, s1)"
    using assms by (auto simp: create_resource_def split: sum.splits prod.splits if_splits)
  obtain st where 2: "create_item u (new_item u a t1 st (db_now s1)) s1 = (Inr rid, s')"
    using assms 1 by (auto simp: create_resource_def split: sum.splits if_splits)
  have "ri_stock_on_hand (new_item u a t1 st (db_now s1)) = ca_stock_on_hand a"
    and "ri_kind (new_item u a t1 st (db_now s1)) = ca_kind a"
    by (simp_all add: new_item_def)
  then show ?thesis
    using create_item_success [OF 2] get_or_create_type_frame [OF 1] by metis
qed

lemma items_step_create: "create_resource u a s = (r, s') \<Longrightarrow> items_step s s'"
proof (cases r)
  case (Inr rid)
  assume "create_resource u a s = (r, s')"
  then show ?thesis
    using create_resource_success [of u a s rid s'] Inr
    by (auto simp: items_step_def item_checks_def intro!: totals_kept_insert)
qed (simp add: create_resource_def)

lemma write_stock_transaction_frame [simp]:
  "db_resource_items (write_stock_transaction u rid r tx s) =
     tbl_put rid (with_balance r (st_balance_after tx) (db_now s)) (db_resource_items s)"
  "db_stock (write_stock_transaction u rid r tx s) = tbl_insert tx (db_stock s)"
  "db_bookings (write_stock_transaction u rid r tx s) = db_bookings s"
  "db_maintenance (write_stock_transaction u rid r tx s) = db_maintenance s"
  by (simp_all add: write_stock_transaction_def Let_def put_item_def)

lemma record_stock_transaction_success:
  assumes "record_stock_transaction u rid kd d p c n s = (Inr k, s')"
  shows "\<exists>r. tbl_get (db_resource_items s) rid = Some r \<and> ri_kind r = ResourceItem_CONSUMABLE
    \<and> db_resource_items s' = tbl_put rid (with_balance r (ri_stock_on_hand r + d) (db_now s)) (db_resource_items s)
    \<and> db_stock s' = tbl_insert (new_stock_row u rid r kd d p c n (db_now s)) (db_stock s)
    \<and> k = tbl_next (db_stock s) \<and> d \<noteq> 0 \<and> 0 \<le> ri_stock_on_hand r + d
    \<and> db_bookings s' = db_bookings s \<and> db_maintenance s' = db_maintenance s"
proof -
  obtain r where r: "tbl_get (db_resource_items s) rid = Some r"
    using assms by (auto simp: record_stock_transaction_def split: sum.splits option.splits if_splits)
  have b: "st_balance_after (new_stock_row u rid r kd d p c n (db_now s)) = ri_stock_on_hand r + d"
    by (simp add: new_stock_row_def)
  show ?thesis
    using assms r b
    by (auto simp: record_stock_transaction_def Let_def dest!: only_mail_low_stock only_mail_resource
        split: sum.splits if_splits prod.splits)
qed

lemma items_step_stock: "record_stock_transaction u rid kd d p c n s = (r, s') \<Longrightarrow> items_step s s'"
proof (cases r)
  case (Inr k)
  assume "record_stock_transaction u rid kd d p c n s = (r, s')"
  then show ?thesis
    using record_stock_transaction_success [of u rid kd d p c n s k s'] Inr
    by (auto simp: items_step_def with_balance_def intro!: totals_kept_put)
qed (simp add: record_stock_transaction_def)

section \<open>Operations that leave quantities and stock alone\<close>

text \<open>
  What retiring, deleting, maintenance, use submissions and alerts do to an item at most: they
  move its version on and change its status, but never bring a retired item back.
\<close>

definition item_frame :: "resource_item \<Rightarrow> resource_item \<Rightarrow> bool" where
  "item_frame r r' \<longleftrightarrow>
     ri_total_quantity r' = ri_total_quantity r \<and> ri_stock_on_hand r' = ri_stock_on_hand r
     \<and> ri_kind r' = ri_kind r \<and> ri_version r \<le> ri_version r'
     \<and> (ri_status r = ResourceItem_RETIRED \<longrightarrow> ri_status r' = ResourceItem_RETIRED)"

definition rows_kept :: "resource_item table \<Rightarrow> resource_item table \<Rightarrow> bool" where
  "rows_kept t t' \<longleftrightarrow>
     (tbl_wf t \<longrightarrow> tbl_wf t') \<and> tbl_next t \<le> tbl_next t'
     \<and> (tbl_wf t \<longrightarrow> (\<forall>rid r'. tbl_get t' rid = Some r' \<longrightarrow> (\<exists>r. tbl_get t rid = Some r \<and> item_frame r r')))"

lemma item_frame_refl [simp]: "item_frame r r"
  by (simp add: item_frame_def)

lemma item_frame_status [simp]:
  "ri_status r \<noteq> ResourceItem_RETIRED
   \<Longrightarrow> item_frame r (r\<lparr>ri_status := st, ri_version := Suc (ri_version r)\<rparr>)"
  "ri_status r \<noteq> ResourceItem_RETIRED
   \<Longrightarrow> item_frame r (r\<lparr>ri_status := st, ri_version := Suc (ri_version r), ri_updated_at := now\<rparr>)"
  by (simp_all add: item_frame_def)

lemma item_frame_trans: "item_frame a b \<Longrightarrow> item_frame b c \<Longrightarrow> item_frame a c"
  by (auto simp: item_frame_def)

lemma rows_kept_refl [simp]: "rows_kept t t"
  by (simp add: rows_kept_def)

lemma rows_kept_trans: "rows_kept t u \<Longrightarrow> rows_kept u v \<Longrightarrow> rows_kept t v"
  unfolding rows_kept_def by (metis item_frame_trans order_trans)

lemma rows_kept_put: "tbl_get t k = Some r \<Longrightarrow> item_frame r r' \<Longrightarrow> rows_kept t (tbl_put k r' t)"
  by (auto simp: rows_kept_def tbl.wf_put tbl.get_put tbl_put_def [of k r' t, THEN arg_cong [where f = tbl_next]]
      split: if_splits)

lemma rows_kept_update_where:
  "(\<And>k r. c k r \<Longrightarrow> item_frame r (f r)) \<Longrightarrow> rows_kept t (tbl_update_where c f t)"
  by (auto simp: rows_kept_def wf_tbl_update_where tbl_get_update_where)

lemma rows_kept_delete: "rows_kept t (tbl_delete k t)"
  by (auto simp: rows_kept_def tbl.wf_del tbl.get_del tbl_delete_def [of k t, THEN arg_cong [where f = tbl_next]]
      split: if_splits)

definition quiet_step :: "'a resource_db_scheme \<Rightarrow> 'a resource_db_scheme \<Rightarrow> bool" where
  "quiet_step s s' \<longleftrightarrow> db_bookings s' = db_bookings s \<and> db_stock s' = db_stock s
     \<and> rows_kept (db_resource_items s) (db_resource_items s')"

lemma quiet_step_refl [simp]: "quiet_step s s"
  by (simp add: quiet_step_def)

lemma quiet_step_trans: "quiet_step s t \<Longrightarrow> quiet_step t u \<Longrightarrow> quiet_step s u"
  by (auto simp: quiet_step_def intro: rows_kept_trans)

lemma quiet_step_mail: "only_mail s s' \<Longrightarrow> quiet_step s s'"
  by (drule only_mail_resource) (simp add: quiet_step_def)

lemma quiet_step_record_event [simp]: "quiet_step s (record_event p a t sm tg opts s') = quiet_step s s'"
  by (simp add: quiet_step_def)

lemma quiet_step_atomic:
  "(\<And>x s'. m s = (Inr x, s') \<Longrightarrow> quiet_step s s') \<Longrightarrow> atomic m s = (r, s') \<Longrightarrow> quiet_step s s'"
  by (cases r) auto

lemma quiet_step_items: "quiet_step s s' \<Longrightarrow> items_step s s'"
  unfolding quiet_step_def items_step_def rows_kept_def totals_kept_def item_frame_def by blast

lemma quiet_step_put_item:
  "tbl_get (db_resource_items s) rid = Some r \<Longrightarrow> item_frame r r'
   \<Longrightarrow> quiet_step s (put_item rid r' s)"
  by (simp add: quiet_step_def put_item_def rows_kept_put)

lemma quiet_step_retire: "retire_resource u rid s = (r, s') \<Longrightarrow> quiet_step s s'"
  unfolding retire_resource_def
  by (erule quiet_step_atomic [rotated])
    (auto simp: item_frame_def split: sum.splits option.splits intro!: quiet_step_put_item)

lemma quiet_step_delete: "delete_resource u rid s = (r, s') \<Longrightarrow> quiet_step s s'"
  unfolding delete_resource_def
  by (erule quiet_step_atomic [rotated])
    (auto simp: Let_def quiet_step_def rows_kept_delete split: sum.splits option.splits if_splits)

lemma quiet_step_use: "create_use_submission u x ty d s = (r, s') \<Longrightarrow> quiet_step s s'"
  unfolding create_use_submission_def
  by (erule quiet_step_atomic [rotated])
    (auto simp: Let_def quiet_step_def split: sum.splits option.splits if_splits)

lemma quiet_step_decide_use: "decide_use_submission u x st d s = (r, s') \<Longrightarrow> quiet_step s s'"
  unfolding decide_use_submission_def
  by (erule quiet_step_atomic [rotated])
    (auto simp: Let_def quiet_step_def dest!: only_mail_enqueue only_mail_resource split: sum.splits prod.splits if_splits)

lemma quiet_step_take_offline [simp]: "quiet_step s (take_offline rid s)"
  by (auto simp: quiet_step_def take_offline_def intro!: rows_kept_update_where)

lemma quiet_step_create_maintenance: "create_maintenance u rid a s = (r, s') \<Longrightarrow> quiet_step s s'"
  unfolding create_maintenance_def
  by (erule quiet_step_atomic [rotated])
    (auto simp: Let_def quiet_step_def take_offline_def item_frame_def intro!: rows_kept_update_where
      split: sum.splits option.splits if_splits)

lemma complete_on_resource_frame [simp]: "item_frame r (complete_on_resource s k m r)"
  by (simp add: complete_on_resource_def item_frame_def Let_def split: option.splits)

lemma quiet_step_transition_resource: "quiet_step s (transition_resource k m st s)"
  by (auto simp: transition_resource_def cancel_on_resource_def
      split: option.splits intro!: quiet_step_put_item)

lemma quiet_step_transition: "transition_maintenance u k st d s = (r, s') \<Longrightarrow> quiet_step s s'"
  unfolding transition_maintenance_def
  by (erule quiet_step_atomic [rotated])
    (use quiet_step_transition_resource in \<open>auto simp: Let_def quiet_step_def split: sum.splits option.splits if_splits\<close>)

lemma only_mail_alert_recipients: "alert_recipients rid r ps n s = (x, s') \<Longrightarrow> only_mail s s'"
proof (induction rid r ps n s rule: alert_recipients.induct)
  case (2 rid r p ps n s)
  then show ?case
    by (auto split: if_splits prod.splits sum.splits dest: only_mail_enqueue intro: only_mail_trans)
qed simp

lemma overdue_offline_quiet:
  assumes g: "tbl_get (db_resource_items s) rid = Some r" and wf: "tbl_wf (db_resource_items s)"
  shows "quiet_step s (snd (overdue_offline rid r s))"
proof -
  have "rows_kept (db_resource_items s) (tbl_update_where (\<lambda>k _. k = rid)
      (\<lambda>x. x\<lparr>ri_status := ResourceItem_UNAVAILABLE, ri_version := Suc (ri_version r), ri_updated_at := db_now s\<rparr>)
      (db_resource_items s))" if "ri_status r = ResourceItem_AVAILABLE"
    using g that by (auto simp: rows_kept_def wf_tbl_update_where tbl_get_update_where item_frame_def)
  then show ?thesis by (simp add: overdue_offline_def Let_def quiet_step_def)
qed

lemma overdue_offline_other:
  "rid' \<noteq> rid \<Longrightarrow> tbl_get (db_resource_items (snd (overdue_offline rid r s))) rid' = tbl_get (db_resource_items s) rid'"
  by (simp add: overdue_offline_def Let_def tbl_get_update_where option.map_ident)

lemma quiet_step_alert_resources:
  "tbl_wf (db_resource_items s) \<Longrightarrow> distinct (map fst rs)
   \<Longrightarrow> \<forall>(rid, r) \<in> set rs. tbl_get (db_resource_items s) rid = Some r
   \<Longrightarrow> quiet_step s (snd (alert_resources rs n s))"
proof (induction rs n s rule: alert_resources.induct)
  case (2 rid r rs n s)
  obtain r' s1 where 1: "overdue_offline rid r s = (r', s1)" by fastforce
  obtain x s2 where 2: "alert_recipients rid r' (resource_notification_recipients s1 r') n s1 = (x, s2)" by fastforce
  have q1: "quiet_step s s1" using overdue_offline_quiet [of s rid r] "2.prems" 1 by simp
  have m: "db_resource_items s2 = db_resource_items s1"
    using only_mail_alert_recipients [OF 2] only_mail_resource by blast
  have q2: "quiet_step s s2"
    using quiet_step_trans [OF q1 quiet_step_mail [OF only_mail_alert_recipients [OF 2]]] .
  have wf: "tbl_wf (db_resource_items s2)"
    using q2 "2.prems"(1) by (simp add: quiet_step_def rows_kept_def)
  have rows: "\<forall>(rid', r0) \<in> set rs. tbl_get (db_resource_items s2) rid' = Some r0"
  proof (intro ballI, clarify)
    fix rid' r0 assume e: "(rid', r0) \<in> set rs"
    then have "rid' \<noteq> rid" using "2.prems"(2) by force
    then show "tbl_get (db_resource_items s2) rid' = Some r0"
      using e "2.prems"(3) overdue_offline_other [of rid' rid r s] 1 m by auto
  qed
  show ?case
    using "2.IH" [OF 1 [symmetric]] 1 2 q2 wf rows "2.prems"(2)
    by (cases x) (auto intro: quiet_step_trans)
qed simp

lemma distinct_keys_sort:
  assumes wf: "tbl_wf t" shows "distinct (map fst (sort_key f (tbl_filter p t)))"
proof -
  have "distinct (map fst (tbl_filter p t))" using wf by (simp add: tbl_filter_def tbl_wf_def distinct_map_filter)
  moreover have "mset (map fst (sort_key f (tbl_filter p t))) = mset (map fst (tbl_filter p t))" by simp
  ultimately show ?thesis using mset_eq_imp_distinct_iff by blast
qed

lemma quiet_step_alerts:
  assumes wf: "tbl_wf (db_resource_items s)"
  shows "quiet_step s (snd (reconcile_resource_operation_alerts today s))"
proof -
  have q: "quiet_step s (outages_offline s)"
    by (auto simp: outages_offline_def quiet_step_def intro!: rows_kept_update_where)
  have wf1: "tbl_wf (db_resource_items (outages_offline s))"
    using q wf by (simp add: quiet_step_def rows_kept_def)
  have rows: "tbl_get (db_resource_items (outages_offline s)) rid = Some r"
    if "(rid, r) \<in> set (overdue_resources d (outages_offline s))" for rid r d
    using that tbl_get_iff [OF wf1, of rid r] by (simp add: overdue_resources_def set_tbl_filter)
  have "distinct (map fst (overdue_resources d (outages_offline s)))" for d
    unfolding overdue_resources_def by (rule distinct_keys_sort [OF wf1])
  then have "quiet_step (outages_offline s) (snd (alert_resources (overdue_resources d (outages_offline s)) 0 (outages_offline s)))" for d
    using rows by (intro quiet_step_alert_resources [OF wf1]) auto
  then show ?thesis
    unfolding reconcile_resource_operation_alerts_def Let_def by (rule quiet_step_trans [OF q])
qed

section \<open>Changing a resource\<close>

lemma change_type_frame:
  assumes "change_type a r s = (Inr r', s')"
  shows "db_bookings s' = db_bookings s" "db_resource_items s' = db_resource_items s" "db_now s' = db_now s"
    "db_stock s' = db_stock s" "db_use_submissions s' = db_use_submissions s" "db_maintenance s' = db_maintenance s"
    "ri_total_quantity r' = ri_total_quantity r" "ri_stock_on_hand r' = ri_stock_on_hand r"
    "ri_kind r' = ri_kind r" "ri_version r' = ri_version r"
  using assms
  by (auto simp: change_type_def dest: get_or_create_type_frame split: option.splits if_splits prod.splits sum.splits)

lemma safe_minimum_quantity_cong:
  "db_bookings s' = db_bookings s \<Longrightarrow> safe_minimum_quantity s' rid = safe_minimum_quantity s rid"
  by (simp add: safe_minimum_quantity_def held_windows_def)

definition quantity_changed :: "'a resource_db_scheme \<Rightarrow> pk \<Rightarrow> resource_item \<Rightarrow> resource_item \<Rightarrow> bool" where
  "quantity_changed s rid r r' \<longleftrightarrow>
     ri_total_quantity r' = ri_total_quantity r
     \<or> (1 \<le> ri_total_quantity r' \<and> safe_minimum_quantity s rid \<le> ri_total_quantity r')"

lemma change_item_success:
  assumes "change_item rid a r s = (Inr r', s')"
  shows "db_bookings s' = db_bookings s" "db_resource_items s' = db_resource_items s"
    "db_stock s' = db_stock s" "db_maintenance s' = db_maintenance s"
    "ri_stock_on_hand r' = ri_stock_on_hand r" "ri_version r' = ri_version r"
    "quantity_changed s rid r r'" "ri_kind r' \<noteq> ri_kind r \<Longrightarrow> \<not> has_history s rid"
    "ri_kind r' = override (ra_kind a) (ri_kind r)"
proof -
  obtain r1 where 1: "change_name a r = Inr r1"
    using assms by (auto simp: change_item_def split: sum.splits)
  obtain r2 where 2: "change_type a r1 s = (Inr r2, s')"
    using assms 1 by (auto simp: change_item_def split: sum.splits prod.splits)
  note f = change_type_frame [OF 2]
  obtain r3 where 3: "change_quantity s' rid a (change_texts a r2) = Inr r3"
    using assms 1 2 by (auto simp: change_item_def split: sum.splits)
  obtain r4 where 4: "change_instructions_status a r3 = Inr r4"
    using assms 1 2 3 by (auto simp: change_item_def split: sum.splits)
  obtain r5 where 5: "change_policy a r4 = Inr r5"
    using assms 1 2 3 4 by (auto simp: change_item_def split: sum.splits)
  have 6: "change_kind s' rid a r5 = Inr r'"
    using assms 1 2 3 4 5 by (auto simp: change_item_def split: sum.splits)
  have e1: "ri_total_quantity r1 = ri_total_quantity r" "ri_stock_on_hand r1 = ri_stock_on_hand r"
    "ri_kind r1 = ri_kind r" "ri_version r1 = ri_version r"
    using 1 by (auto simp: change_name_def split: option.splits if_splits)
  have e3: "ri_total_quantity r3 = ri_total_quantity r2 \<or>
      (1 \<le> ri_total_quantity r3 \<and> safe_minimum_quantity s rid \<le> ri_total_quantity r3)"
    "ri_stock_on_hand r3 = ri_stock_on_hand r2" "ri_kind r3 = ri_kind r2" "ri_version r3 = ri_version r2"
    using 3 safe_minimum_quantity_cong [OF f(1), of rid]
    by (auto simp: change_quantity_def change_texts_def Let_def split: option.splits if_splits)
  have e4: "ri_total_quantity r4 = ri_total_quantity r3" "ri_stock_on_hand r4 = ri_stock_on_hand r3"
    "ri_kind r4 = ri_kind r3" "ri_version r4 = ri_version r3"
    using 4 by (auto simp: change_instructions_status_def Let_def split: option.splits sum.splits)
  have e5: "ri_total_quantity r5 = ri_total_quantity r4" "ri_stock_on_hand r5 = ri_stock_on_hand r4"
    "ri_kind r5 = ri_kind r4" "ri_version r5 = ri_version r4"
    using 5 by (auto simp: change_policy_def split: option.splits)
  have h: "has_history s' rid = has_history s rid" using f by (simp add: has_history_def)
  have e6: "ri_total_quantity r' = ri_total_quantity r5" "ri_stock_on_hand r' = ri_stock_on_hand r5"
    "ri_version r' = ri_version r5" "ri_kind r' \<noteq> ri_kind r5 \<longrightarrow> \<not> has_history s rid"
    "ri_kind r' = override (ra_kind a) (ri_kind r5)"
    using 6 h by (auto simp: change_kind_def override_def split: option.splits if_splits)
  show "db_bookings s' = db_bookings s" "db_resource_items s' = db_resource_items s"
    "db_stock s' = db_stock s" "db_maintenance s' = db_maintenance s" using f by simp_all
  show "ri_stock_on_hand r' = ri_stock_on_hand r" "ri_version r' = ri_version r"
    "ri_kind r' = override (ra_kind a) (ri_kind r)"
    using e1 f e3 e4 e5 e6 by simp_all
  show "ri_kind r' \<noteq> ri_kind r \<Longrightarrow> \<not> has_history s rid" using e1 f e3 e4 e5 e6 by simp
  show "quantity_changed s rid r r'" using e1 f e3 e4 e5 e6 by (auto simp: quantity_changed_def)
qed

lemma update_resource_success:
  assumes "update_resource u rid a s = (Inr k, s')"
  shows "\<exists>r r'. k = rid \<and> tbl_get (db_resource_items s) rid = Some r \<and> ra_version a = Some (int (ri_version r))
    \<and> db_resource_items s' = tbl_put rid r' (db_resource_items s)
    \<and> db_bookings s' = db_bookings s \<and> db_stock s' = db_stock s \<and> db_maintenance s' = db_maintenance s
    \<and> ri_version r' = Suc (ri_version r) \<and> ri_stock_on_hand r' = ri_stock_on_hand r
    \<and> quantity_changed s rid r r' \<and> (ri_kind r' \<noteq> ri_kind r \<longrightarrow> \<not> has_history s rid)
    \<and> ri_kind r' = override (ra_kind a) (ri_kind r)"
proof -
  obtain r where r: "tbl_get (db_resource_items s) rid = Some r" "ra_version a = Some (int (ri_version r))"
    using assms by (auto simp: update_resource_def split: sum.splits option.splits if_splits)
  obtain r1 s1 where c: "change_item rid a r s = (Inr r1, s1)"
    using assms r by (auto simp: update_resource_def split: sum.splits if_splits prod.splits)
  let ?r2 = "change_plain u a r1 (db_now s1)"
  have s': "k = rid" "db_resource_items s' = tbl_put rid ?r2 (db_resource_items s1)" "db_bookings s' = db_bookings s1"
    "db_stock s' = db_stock s1" "db_maintenance s' = db_maintenance s1"
    using assms r c by (auto simp: update_resource_def Let_def put_item_def split: sum.splits if_splits)
  have p: "ri_version ?r2 = Suc (ri_version r1)" "ri_stock_on_hand ?r2 = ri_stock_on_hand r1"
    "ri_total_quantity ?r2 = ri_total_quantity r1" "ri_kind ?r2 = ri_kind r1"
    by (simp_all add: change_plain_def)
  note f = change_item_success [OF c]
  have "quantity_changed s rid r ?r2" using f(7) p by (simp add: quantity_changed_def)
  moreover have "ri_kind ?r2 \<noteq> ri_kind r \<longrightarrow> \<not> has_history s rid" using f(8) p by simp
  ultimately show ?thesis
    using s' p f(1-6,9) r by (intro exI [of _ r] exI [of _ ?r2]) simp
qed

text \<open>With one unit per booking the sweep bounds what is committed.\<close>

lemma sum_list_ones: "\<forall>x \<in> set xs. f x = 1 \<Longrightarrow> sum_list (map f xs) = int (length xs)"
  by (induction xs) simp_all

lemma committed_unit:
  assumes "\<And>k b. (k, b) \<in> set (tbl_rows (db_bookings s)) \<Longrightarrow> bk_resource_item b = rid \<Longrightarrow> holds_capacity b
      \<Longrightarrow> bk_quantity b = 1"
  shows "committed (db_bookings s) rid t = open_at (held_windows s rid) t"
proof -
  have "committed (db_bookings s) rid t = int (length (tbl_filter (\<lambda>_ b. held_at rid t b) (db_bookings s)))"
    unfolding committed_def row_sum_def using assms
    by (intro sum_list_ones) (auto simp: set_tbl_filter held_at_def)
  also have "length (tbl_filter (\<lambda>_ b. held_at rid t b) (db_bookings s)) =
      length (filter (\<lambda>(a, b). a \<le> t \<and> t < b) (held_windows s rid))"
    unfolding held_windows_def tbl_filter_def filter_map length_map filter_filter
    by (intro arg_cong [where f = length] filter_cong) (auto simp: held_at_def)
  finally show ?thesis by (simp add: open_at_def)
qed

lemma held_windows_ok: "bookings_ok (db_bookings s) \<Longrightarrow> \<forall>(a, b) \<in> set (held_windows s rid). a < b"
  by (auto simp: held_windows_def bookings_ok_def booking_checks_def set_tbl_filter)

lemma capacity_update_resource:
  assumes ok: "capacity_ok s" and u: "update_resource u rid a s = (Inr k, s')"
    and unit: "\<And>k b. (k, b) \<in> set (tbl_rows (db_bookings s)) \<Longrightarrow> bk_resource_item b = rid \<Longrightarrow> holds_capacity b
      \<Longrightarrow> bk_quantity b = 1"
  shows "capacity_ok s'"
proof -
  from update_resource_success [OF u] obtain r r' where
    r: "tbl_get (db_resource_items s) rid = Some r"
    and i: "db_resource_items s' = tbl_put rid r' (db_resource_items s)" and b: "db_bookings s' = db_bookings s"
    and q: "quantity_changed s rid r r'" by blast
  have ok': "cap_ok (db_resource_items s) (db_bookings s)" using ok by (simp add: capacity_ok_def)
  have le: "committed (db_bookings s) rid t \<le> ri_total_quantity r'" for t
    using q cap_okD(6) [OF ok' r, of t] committed_unit [of s rid t] unit
      safe_minimum_upper [OF held_windows_ok [OF cap_okD(2) [OF ok']], of rid t]
    by (auto simp: quantity_changed_def safe_minimum_quantity_def)
  have nx: "tbl_next (db_resource_items s) \<le> tbl_next (tbl_put rid r' (db_resource_items s))"
    by (simp add: tbl_put_def)
  have "committed (db_bookings s) rid' t \<le> ri_total_quantity r0"
    if "tbl_get (tbl_put rid r' (db_resource_items s)) rid' = Some r0" for rid' r0 t
    using that le cap_okD(6) [OF ok', of rid' r0 t] cap_okD(1) [OF ok']
    by (auto simp: tbl.get_put split: if_splits)
  then show ?thesis
    using ok' nx tbl.wf_put [OF cap_okD(1) [OF ok'], of rid r']
    unfolding capacity_ok_def cap_ok_def i b by (meson less_le_trans)
qed

end
