(* ===== verification/ResourceCommands.thy ===== *)
theory ResourceCommands
  imports Capacity
begin

text \<open>
  The operations of the resource component as one family of commands, and what holds over every
  run of it: capacity, the stock ledger, the statuses of bookings, and the version check of
  \<open>update_resource\<close> as an instance of \<open>optimistic_update\<close>.

  Two commands carry a side condition the callers meet. The booking instance of \<open>UpdateBooking\<close> was
  read from the table, so its resource exists. \<open>UpdateItem\<close> leaves the total quantity and the kind
  alone; those two changes are treated on their own.
\<close>

datatype resource_command =
    CreateItem actor create_resource_args
  | UpdateItem actor pk resource_attrs
  | RetireItem actor pk
  | DeleteItem actor pk
  | CreateUse actor "pk \<times> resource_item" string string
  | DecideUse actor "pk \<times> use_submission" string string
  | CreateMaintenance actor pk maintenance_args
  | TransitionMaintenance actor pk string "string option"
  | RecordStock actor pk stock_kind int "pk option" "int option" string
  | OperationAlerts "day option"
  | CreateBooking actor "pk \<times> resource_item" booking_args
  | UpdateBooking actor "pk \<times> booking" booking_changes
  | CancelBooking actor pk
  | ReturnBooking actor pk
  | DecideBooking actor pk bool string
  | ReconcileBookings "instant option"

definition plain_attrs :: "resource_attrs \<Rightarrow> resource_attrs" where
  "plain_attrs a = a\<lparr>ra_total_quantity := None, ra_kind := None\<rparr>"

fun resource_step :: "resource_command \<Rightarrow> ('a resource_db_scheme, unit) op" where
  "resource_step (CreateItem u a) s = void (create_resource u a) s"
| "resource_step (UpdateItem u rid a) s = void (update_resource u rid (plain_attrs a)) s"
| "resource_step (RetireItem u rid) s = void (retire_resource u rid) s"
| "resource_step (DeleteItem u rid) s = void (delete_resource u rid) s"
| "resource_step (CreateUse u x ty d) s = void (create_use_submission u x ty d) s"
| "resource_step (DecideUse u x st d) s = void (decide_use_submission u x st d) s"
| "resource_step (CreateMaintenance u rid a) s = void (create_maintenance u rid a) s"
| "resource_step (TransitionMaintenance u k st d) s = void (transition_maintenance u k st d) s"
| "resource_step (RecordStock u rid kd d p c n) s = void (record_stock_transaction u rid kd d p c n) s"
| "resource_step (OperationAlerts today) s = void (reconcile_resource_operation_alerts today) s"
| "resource_step (CreateBooking u x a) s = void (create_booking u x a) s"
| "resource_step (UpdateBooking u kb c) s =
     (if bk_resource_item (snd kb) < tbl_next (db_resource_items s)
      then void (update_booking u kb c) s else (Inl (DoesNotExist ''ResourceItem''), s))"
| "resource_step (CancelBooking u k) s = void (cancel_booking u k) s"
| "resource_step (ReturnBooking u k) s = void (return_booking u k) s"
| "resource_step (DecideBooking u k ap n) s = void (decide_booking u k ap n) s"
| "resource_step (ReconcileBookings at) s = (Inr (), snd (reconcile_completed_bookings at s))"

text \<open>An atomic command changes the state only when it succeeds.\<close>

lemma op_inv:
  assumes "m = atomic m'" "P s" "\<And>x s'. m s = (Inr x, s') \<Longrightarrow> P s'"
  shows "P (snd (m s))"
proof (cases "m s")
  case (Pair r s')
  show ?thesis
  proof (cases r)
    case (Inl e)
    then have "s' = s" using Pair assms(1) by simp
    then show ?thesis using Pair assms(2) by simp
  next
    case (Inr x)
    then show ?thesis using Pair assms(3) by simp
  qed
qed

section \<open>Capacity\<close>

lemma quantity_kept_plain:
  "update_resource u rid (plain_attrs a) s = (r, s') \<Longrightarrow> items_step s s'"
proof (cases r)
  case (Inr k)
  assume u: "update_resource u rid (plain_attrs a) s = (r, s')"
  then obtain r0 r1 s1 where g: "tbl_get (db_resource_items s) rid = Some r0"
    and c: "change_item rid (plain_attrs a) r0 s = (Inr r1, s1)"
    and i: "db_resource_items s' = tbl_put rid (change_plain u (plain_attrs a) r1 (db_now s1)) (db_resource_items s1)"
      "db_bookings s' = db_bookings s1"
    unfolding Inr
    by (auto simp: update_resource_def Let_def put_item_def split: sum.splits option.splits if_splits prod.splits)
  have "ri_total_quantity r1 = ri_total_quantity r0"
  proof -
    have n: "ra_total_quantity (plain_attrs a) = None" by (simp add: plain_attrs_def)
    obtain q1 where 1: "change_name (plain_attrs a) r0 = Inr q1"
      using c by (auto simp: change_item_def split: sum.splits)
    obtain q2 where 2: "change_type (plain_attrs a) q1 s = (Inr q2, s1)"
      using c 1 by (auto simp: change_item_def split: sum.splits prod.splits)
    have "ri_total_quantity q1 = ri_total_quantity r0"
      using 1 by (auto simp: change_name_def split: option.splits if_splits)
    then show ?thesis
      using c 1 2 change_type_frame(7) [OF 2] n
      by (auto simp: change_item_def change_quantity_def change_texts_def change_instructions_status_def
          change_policy_def change_kind_def Let_def split: sum.splits option.splits if_splits)
  qed
  then show ?thesis
    using i g change_item_success(1,2) [OF c]
    by (auto simp: items_step_def change_plain_def intro!: totals_kept_put)
qed (simp add: update_resource_def)

lemma capacity_step_quiet:
  "capacity_ok s \<Longrightarrow> (\<And>r s'. m s = (r, s') \<Longrightarrow> items_step s s') \<Longrightarrow> capacity_ok (snd (m s))"
  using capacity_items_step by (metis surjective_pairing)

lemma capacity_command: "capacity_ok s \<Longrightarrow> capacity_ok (snd (resource_step c s))"
proof (cases c)
  case (CreateItem u a)
  assume "capacity_ok s" then show ?thesis using CreateItem capacity_step_quiet items_step_create by (metis resource_step.simps snd_void)
next
  case (UpdateItem u rid a)
  assume "capacity_ok s" then show ?thesis using UpdateItem capacity_step_quiet quantity_kept_plain by (metis resource_step.simps snd_void)
next
  case (RetireItem u rid)
  assume "capacity_ok s"
  then show ?thesis using RetireItem capacity_step_quiet quiet_step_items quiet_step_retire by (metis resource_step.simps snd_void)
next
  case (DeleteItem u rid)
  assume "capacity_ok s"
  then show ?thesis using DeleteItem capacity_step_quiet quiet_step_items quiet_step_delete by (metis resource_step.simps snd_void)
next
  case (CreateUse u x ty d)
  assume "capacity_ok s"
  then show ?thesis using CreateUse capacity_step_quiet quiet_step_items quiet_step_use by (metis resource_step.simps snd_void)
next
  case (DecideUse u x st d)
  assume "capacity_ok s"
  then show ?thesis using DecideUse capacity_step_quiet quiet_step_items quiet_step_decide_use by (metis resource_step.simps snd_void)
next
  case (CreateMaintenance u rid a)
  assume "capacity_ok s"
  then show ?thesis
    using CreateMaintenance capacity_step_quiet quiet_step_items quiet_step_create_maintenance by (metis resource_step.simps snd_void)
next
  case (TransitionMaintenance u k st d)
  assume "capacity_ok s"
  then show ?thesis
    using TransitionMaintenance capacity_step_quiet quiet_step_items quiet_step_transition by (metis resource_step.simps snd_void)
next
  case (RecordStock u rid kd d p c n)
  assume "capacity_ok s"
  then show ?thesis using RecordStock capacity_step_quiet items_step_stock by (metis resource_step.simps snd_void)
next
  case (OperationAlerts today)
  assume ok: "capacity_ok s"
  then have "tbl_wf (db_resource_items s)" by (simp add: capacity_ok_def cap_ok_def)
  then show ?thesis
    using OperationAlerts capacity_items_step [OF ok quiet_step_items [OF quiet_step_alerts]] by simp
next
  case (CreateBooking u x a)
  assume ok: "capacity_ok s"
  have "capacity_ok (snd (create_booking u x a s))"
    by (rule op_inv [where P = capacity_ok, OF create_booking_def ok]) (rule capacity_create [OF ok])
  then show ?thesis using CreateBooking by simp
next
  case (UpdateBooking u kb ch)
  assume ok: "capacity_ok s"
  obtain k b where kb: "kb = (k, b)" by (cases kb)
  show ?thesis
  proof (cases "bk_resource_item b < tbl_next (db_resource_items s)")
    case True
    have "capacity_ok (snd (update_booking u kb ch s))"
      by (rule op_inv [where P = capacity_ok, OF update_booking_def ok]) (use capacity_update [OF ok True] kb in auto)
    then show ?thesis using UpdateBooking kb ok by simp
  qed (use UpdateBooking kb ok in simp)
next
  case (CancelBooking u k)
  assume ok: "capacity_ok s"
  have "capacity_ok (snd (cancel_booking u k s))"
    by (rule op_inv [where P = capacity_ok, OF cancel_booking_def ok]) (rule capacity_cancel [OF ok])
  then show ?thesis using CancelBooking by simp
next
  case (ReturnBooking u k)
  assume ok: "capacity_ok s"
  have "capacity_ok (snd (return_booking u k s))"
    by (rule op_inv [where P = capacity_ok, OF return_booking_def ok]) (rule capacity_return [OF ok])
  then show ?thesis using ReturnBooking by simp
qed (simp_all add: capacity_decide capacity_reconcile)

interpretation resources: command_system resource_step capacity_ok
  by unfold_locales (rule capacity_command)

section \<open>The stock ledger\<close>

text \<open>The transactions of a resource in order, as deltas with the balance recorded after each.\<close>

definition stock_history :: "stock_transaction table \<Rightarrow> pk \<Rightarrow> (int \<times> int) list" where
  "stock_history t rid =
     map (\<lambda>(k, tx). (st_quantity_delta tx, st_balance_after tx)) (tbl_filter (\<lambda>_ tx. st_resource_item tx = rid) t)"

fun balanced :: "int \<Rightarrow> (int \<times> int) list \<Rightarrow> bool" where
  "balanced acc [] \<longleftrightarrow> True"
| "balanced acc ((delta, balance) # h) \<longleftrightarrow> balance = acc + delta \<and> 0 \<le> balance \<and> balanced balance h"

definition stock_sum :: "stock_transaction table \<Rightarrow> pk \<Rightarrow> int" where
  "stock_sum t rid = row_sum (\<lambda>_ tx. st_resource_item tx = rid) st_quantity_delta t"

definition ledger_ok :: "'a resource_db_scheme \<Rightarrow> bool" where
  "ledger_ok s \<longleftrightarrow>
     tbl_wf (db_resource_items s)
     \<and> (\<forall>k tx. (k, tx) \<in> set (tbl_rows (db_stock s)) \<longrightarrow> st_resource_item tx < tbl_next (db_resource_items s))
     \<and> (\<forall>rid r. tbl_get (db_resource_items s) rid = Some r \<longrightarrow>
          0 \<le> ri_stock_on_hand r
          \<and> (ri_kind r = ResourceItem_CONSUMABLE \<longrightarrow>
               ri_stock_on_hand r = stock_sum (db_stock s) rid \<and> balanced 0 (stock_history (db_stock s) rid)))"

lemma balanced_snoc:
  "balanced acc (h @ [(d, b)]) \<longleftrightarrow> balanced acc h \<and> b = acc + sum_list (map fst h) + d \<and> 0 \<le> b"
proof (induction h arbitrary: acc)
  case (Cons e h)
  show ?case by (cases e) (simp add: Cons.IH add.assoc cong: conj_cong)
qed auto

lemma stock_sum_history: "stock_sum t rid = sum_list (map fst (stock_history t rid))"
  by (simp add: stock_sum_def row_sum_def stock_history_def comp_def case_prod_unfold)

lemma stock_history_insert:
  "stock_history (tbl_insert tx t) rid =
   stock_history t rid @ (if st_resource_item tx = rid then [(st_quantity_delta tx, st_balance_after tx)] else [])"
  by (simp add: stock_history_def tbl_filter_def)

lemma stock_history_none:
  "(\<And>k tx. (k, tx) \<in> set (tbl_rows t) \<Longrightarrow> st_resource_item tx \<noteq> rid) \<Longrightarrow> stock_history t rid = []"
  by (auto simp: stock_history_def tbl_filter_def filter_empty_conv)

lemma ledger_okD:
  assumes "ledger_ok s"
  shows "tbl_wf (db_resource_items s)"
    "\<And>k tx. (k, tx) \<in> set (tbl_rows (db_stock s)) \<Longrightarrow> st_resource_item tx < tbl_next (db_resource_items s)"
    "\<And>rid r. tbl_get (db_resource_items s) rid = Some r \<Longrightarrow> 0 \<le> ri_stock_on_hand r"
    "\<And>rid r. tbl_get (db_resource_items s) rid = Some r \<Longrightarrow> ri_kind r = ResourceItem_CONSUMABLE
       \<Longrightarrow> ri_stock_on_hand r = stock_sum (db_stock s) rid \<and> balanced 0 (stock_history (db_stock s) rid)"
  using assms by (auto simp: ledger_ok_def)

text \<open>Items keep their stock and kind, and no transaction is added.\<close>

lemma ledger_rows_kept:
  assumes ok: "ledger_ok s" and st: "db_stock s' = db_stock s"
    and k: "rows_kept (db_resource_items s) (db_resource_items s')"
  shows "ledger_ok s'"
proof -
  have "0 \<le> ri_stock_on_hand r' \<and> (ri_kind r' = ResourceItem_CONSUMABLE \<longrightarrow>
      ri_stock_on_hand r' = stock_sum (db_stock s') rid \<and> balanced 0 (stock_history (db_stock s') rid))"
    if r': "tbl_get (db_resource_items s') rid = Some r'" for rid r'
  proof -
    obtain r where "tbl_get (db_resource_items s) rid = Some r" "item_frame r r'"
      using k r' ledger_okD(1) [OF ok] unfolding rows_kept_def by blast
    then show ?thesis using ledger_okD(3,4) [OF ok] st by (simp add: item_frame_def)
  qed
  moreover have "st_resource_item tx < tbl_next (db_resource_items s')"
    if "(j, tx) \<in> set (tbl_rows (db_stock s'))" for j tx
    using ledger_okD(2) [OF ok, of j tx] that st k by (simp add: rows_kept_def)
  ultimately show ?thesis
    using k ledger_okD(1) [OF ok] unfolding ledger_ok_def rows_kept_def by blast
qed

lemma ledger_quiet: "ledger_ok s \<Longrightarrow> quiet_step s s' \<Longrightarrow> ledger_ok s'"
  unfolding quiet_step_def by (blast intro: ledger_rows_kept)

lemma ledger_create:
  assumes ok: "ledger_ok s" and c: "create_resource u a s = (Inr rid, s')"
  shows "ledger_ok s'"
proof -
  from create_resource_success [OF c] obtain r where rid: "rid = tbl_next (db_resource_items s)"
    and i: "db_resource_items s' = tbl_insert r (db_resource_items s)" and chk: "item_checks r"
    and op: "opens_with rid r (db_stock s) (db_stock s')" by blast
  have none: "stock_history (db_stock s) rid = []"
    using ledger_okD(2) [OF ok] rid by (intro stock_history_none) force
  have old: "stock_history (db_stock s') k = stock_history (db_stock s) k" if "k \<noteq> rid" for k
    using op that by (auto simp: opens_with_def stock_history_insert split: if_splits)
  have new: "ri_kind r = ResourceItem_CONSUMABLE \<longrightarrow> ri_stock_on_hand r = sum_list (map fst (stock_history (db_stock s') rid))
      \<and> balanced 0 (stock_history (db_stock s') rid)"
    using op none chk by (auto simp: opens_with_def stock_history_insert item_checks_def split: if_splits)
  have refs: "st_resource_item tx < tbl_next (db_resource_items s')" if "(k, tx) \<in> set (tbl_rows (db_stock s'))" for k tx
    using op that ledger_okD(2) [OF ok, of k tx] rid i
    by (auto simp: opens_with_def split: if_splits)
  have "0 \<le> ri_stock_on_hand r0 \<and> (ri_kind r0 = ResourceItem_CONSUMABLE \<longrightarrow>
      ri_stock_on_hand r0 = stock_sum (db_stock s') k \<and> balanced 0 (stock_history (db_stock s') k))"
    if g: "tbl_get (db_resource_items s') k = Some r0" for k r0
  proof (cases "k = rid")
    case True
    then have "r0 = r" using g i rid ledger_okD(1) [OF ok] by (simp add: tbl.get_add)
    then show ?thesis using new chk True by (simp add: stock_sum_history item_checks_def)
  next
    case False
    then have "tbl_get (db_resource_items s) k = Some r0"
      using g i rid ledger_okD(1) [OF ok] by (simp add: tbl.get_add)
    then show ?thesis using ledger_okD(3,4) [OF ok] old [OF False] by (simp add: stock_sum_history)
  qed
  then show ?thesis using refs i tbl.wf_add [OF ledger_okD(1) [OF ok]] unfolding ledger_ok_def by auto
qed

lemma ledger_record_stock:
  assumes ok: "ledger_ok s" and c: "record_stock_transaction u rid kd d p co n s = (Inr k, s')"
  shows "ledger_ok s'"
proof -
  from record_stock_transaction_success [OF c] obtain r where
    g: "tbl_get (db_resource_items s) rid = Some r" "ri_kind r = ResourceItem_CONSUMABLE"
    and i: "db_resource_items s' = tbl_put rid (with_balance r (ri_stock_on_hand r + d) (db_now s)) (db_resource_items s)"
    and st: "db_stock s' = tbl_insert (new_stock_row u rid r kd d p co n (db_now s)) (db_stock s)"
    and d: "0 \<le> ri_stock_on_hand r + d" by blast
  have wf: "tbl_wf (db_resource_items s)" by (rule ledger_okD [OF ok])
  have h: "stock_history (db_stock s') k' = stock_history (db_stock s) k'
      @ (if k' = rid then [(d, ri_stock_on_hand r + d)] else [])" for k'
    by (simp add: st stock_history_insert new_stock_row_def)
  have sum: "ri_stock_on_hand r = sum_list (map fst (stock_history (db_stock s) rid))"
    "balanced 0 (stock_history (db_stock s) rid)"
    using ledger_okD(4) [OF ok g] by (simp_all add: stock_sum_history)
  have "0 \<le> ri_stock_on_hand r0 \<and> (ri_kind r0 = ResourceItem_CONSUMABLE \<longrightarrow>
      ri_stock_on_hand r0 = stock_sum (db_stock s') k' \<and> balanced 0 (stock_history (db_stock s') k'))"
    if r0: "tbl_get (db_resource_items s') k' = Some r0" for k' r0
  proof (cases "k' = rid")
    case True
    then have "r0 = with_balance r (ri_stock_on_hand r + d) (db_now s)" using r0 i wf by (simp add: tbl.get_put)
    then have "ri_stock_on_hand r0 = ri_stock_on_hand r + d" by (simp add: with_balance_def)
    then show ?thesis using True h sum d by (simp add: stock_sum_history balanced_snoc)
  next
    case False
    then have "tbl_get (db_resource_items s) k' = Some r0" using r0 i wf by (simp add: tbl.get_put)
    then show ?thesis using ledger_okD(3,4) [OF ok] h [of k'] False by (simp add: stock_sum_history)
  qed
  moreover have "st_resource_item tx < tbl_next (db_resource_items s')" if "(j, tx) \<in> set (tbl_rows (db_stock s'))" for j tx
  proof -
    have "tbl_next (db_resource_items s) \<le> tbl_next (db_resource_items s')" by (simp add: i tbl_put_def)
    moreover have "st_resource_item tx < tbl_next (db_resource_items s)"
      using that ledger_okD(2) [OF ok, of j tx] tbl.below_fresh [OF wf g(1)]
      by (auto simp: st new_stock_row_def)
    ultimately show ?thesis by simp
  qed
  ultimately show ?thesis using tbl.wf_put [OF wf] unfolding ledger_ok_def i by auto
qed

text \<open>A change of the resource keeps the ledger when the kind stays or no stock is on hand.\<close>

lemma ledger_update_resource:
  assumes ok: "ledger_ok s" and c: "update_resource u rid a s = (Inr k, s')"
    and safe: "\<And>r. tbl_get (db_resource_items s) rid = Some r \<Longrightarrow>
      override (ra_kind a) (ri_kind r) = ri_kind r \<or> ri_stock_on_hand r = 0"
  shows "ledger_ok s'"
proof -
  from update_resource_success [OF c] obtain r r' where
    g: "tbl_get (db_resource_items s) rid = Some r"
    and i: "db_resource_items s' = tbl_put rid r' (db_resource_items s)" and st: "db_stock s' = db_stock s"
    and e: "ri_stock_on_hand r' = ri_stock_on_hand r" "ri_kind r' = override (ra_kind a) (ri_kind r)"
      "ri_kind r' \<noteq> ri_kind r \<longrightarrow> \<not> has_history s rid" by blast
  have wf: "tbl_wf (db_resource_items s)" by (rule ledger_okD [OF ok])
  have new: "ri_kind r' = ResourceItem_CONSUMABLE \<longrightarrow>
      ri_stock_on_hand r' = stock_sum (db_stock s) rid \<and> balanced 0 (stock_history (db_stock s) rid)"
  proof (cases "ri_kind r' = ri_kind r")
    case True
    then show ?thesis using ledger_okD(4) [OF ok g] e by simp
  next
    case False
    then have "ri_stock_on_hand r' = 0" and "\<not> has_history s rid" using safe [OF g] e by auto
    moreover have "stock_history (db_stock s) rid = []"
      using \<open>\<not> has_history s rid\<close> by (intro stock_history_none) (auto simp: has_history_def tbl_exists_iff)
    ultimately show ?thesis by (simp add: stock_sum_history)
  qed
  have "0 \<le> ri_stock_on_hand r0 \<and> (ri_kind r0 = ResourceItem_CONSUMABLE \<longrightarrow>
      ri_stock_on_hand r0 = stock_sum (db_stock s') k' \<and> balanced 0 (stock_history (db_stock s') k'))"
    if r0: "tbl_get (db_resource_items s') k' = Some r0" for k' r0
  proof (cases "k' = rid")
    case True
    then have "r0 = r'" using r0 i wf by (simp add: tbl.get_put)
    then show ?thesis using new e ledger_okD(3) [OF ok g] st True by simp
  next
    case False
    then have "tbl_get (db_resource_items s) k' = Some r0" using r0 i wf by (simp add: tbl.get_put)
    then show ?thesis using ledger_okD(3,4) [OF ok] st by simp
  qed
  moreover have "st_resource_item tx < tbl_next (db_resource_items s')" if "(j, tx) \<in> set (tbl_rows (db_stock s'))" for j tx
    using ledger_okD(2) [OF ok, of j tx] that st by (simp add: i tbl_put_def)
  ultimately show ?thesis
    using tbl.wf_put [OF wf] unfolding ledger_ok_def i by auto
qed

text \<open>What the booking operations leave alone.\<close>

definition booking_only :: "'a resource_db_scheme \<Rightarrow> 'a resource_db_scheme \<Rightarrow> bool" where
  "booking_only s s' \<longleftrightarrow> db_resource_items s' = db_resource_items s \<and> db_stock s' = db_stock s
     \<and> db_maintenance s' = db_maintenance s"

lemma booking_only_atomic:
  "m = atomic m' \<Longrightarrow> (\<And>x s'. m s = (Inr x, s') \<Longrightarrow> booking_only s s') \<Longrightarrow> booking_only s (snd (m s))"
  by (rule op_inv [where P = "booking_only s"]) (auto simp: booking_only_def)

lemma booking_only_ops:
  "booking_only s (snd (create_booking u x a s))"
  "booking_only s (snd (update_booking u kb ch s))"
  "booking_only s (snd (cancel_booking u k s))"
  "booking_only s (snd (return_booking u k s))"
  "booking_only s (snd (decide_booking u k ap n s))"
  "booking_only s (snd (reconcile_completed_bookings at s))"
proof -
  show "booking_only s (snd (create_booking u x a s))"
    by (rule booking_only_atomic [OF create_booking_def]) (auto dest!: create_booking_success simp: booking_only_def)
  show "booking_only s (snd (update_booking u kb ch s))"
    by (rule booking_only_atomic [OF update_booking_def], cases kb)
      (auto dest!: update_booking_success simp: booking_only_def)
  show "booking_only s (snd (cancel_booking u k s))"
    by (rule booking_only_atomic [OF cancel_booking_def]) (auto dest!: cancel_booking_success simp: booking_only_def)
  show "booking_only s (snd (return_booking u k s))"
    by (rule booking_only_atomic [OF return_booking_def]) (auto dest!: return_booking_success simp: booking_only_def)
qed (simp_all add: booking_only_def decide_booking_bookings reconcile_completed_bookings_def Let_def)

lemma ledger_booking_only: "ledger_ok s \<Longrightarrow> booking_only s s' \<Longrightarrow> ledger_ok s'"
  by (rule ledger_rows_kept) (auto simp: booking_only_def)

lemma ledger_update_plain: "ledger_ok s \<Longrightarrow> ledger_ok (snd (update_resource u rid (plain_attrs a) s))"
  by (rule op_inv [where P = ledger_ok, OF update_resource_def])
    (auto intro: ledger_update_resource simp: plain_attrs_def override_def)

lemma ledger_step_quiet:
  "ledger_ok s \<Longrightarrow> (\<And>r s'. m s = (r, s') \<Longrightarrow> quiet_step s s') \<Longrightarrow> ledger_ok (snd (m s))"
  using ledger_quiet by (metis surjective_pairing)

lemma ledger_command: "ledger_ok s \<Longrightarrow> ledger_ok (snd (resource_step c s))"
proof (cases c)
  case (CreateItem u a)
  assume ok: "ledger_ok s"
  have "ledger_ok (snd (create_resource u a s))"
    by (rule op_inv [where P = ledger_ok, OF create_resource_def ok]) (rule ledger_create [OF ok])
  then show ?thesis using CreateItem by simp
next
  case (UpdateItem u rid a)
  assume "ledger_ok s" then show ?thesis using UpdateItem ledger_update_plain by simp
next
  case (RetireItem u rid)
  assume "ledger_ok s"
  then show ?thesis using RetireItem ledger_step_quiet quiet_step_retire by (metis resource_step.simps snd_void)
next
  case (DeleteItem u rid)
  assume "ledger_ok s"
  then show ?thesis using DeleteItem ledger_step_quiet quiet_step_delete by (metis resource_step.simps snd_void)
next
  case (CreateUse u x ty d)
  assume "ledger_ok s"
  then show ?thesis using CreateUse ledger_step_quiet quiet_step_use by (metis resource_step.simps snd_void)
next
  case (DecideUse u x st d)
  assume "ledger_ok s"
  then show ?thesis using DecideUse ledger_step_quiet quiet_step_decide_use by (metis resource_step.simps snd_void)
next
  case (CreateMaintenance u rid a)
  assume "ledger_ok s"
  then show ?thesis using CreateMaintenance ledger_step_quiet quiet_step_create_maintenance by (metis resource_step.simps snd_void)
next
  case (TransitionMaintenance u k st d)
  assume "ledger_ok s"
  then show ?thesis using TransitionMaintenance ledger_step_quiet quiet_step_transition by (metis resource_step.simps snd_void)
next
  case (RecordStock u rid kd d p co n)
  assume ok: "ledger_ok s"
  have "ledger_ok (snd (record_stock_transaction u rid kd d p co n s))"
    by (rule op_inv [where P = ledger_ok, OF record_stock_transaction_def ok]) (rule ledger_record_stock [OF ok])
  then show ?thesis using RecordStock by simp
next
  case (OperationAlerts today)
  assume ok: "ledger_ok s"
  then show ?thesis
    using OperationAlerts ledger_quiet [OF ok quiet_step_alerts [OF ledger_okD(1) [OF ok]]] by simp
qed (auto intro: ledger_booking_only booking_only_ops)

interpretation stock_ledger: command_system resource_step ledger_ok
  by unfold_locales (rule ledger_command)

section \<open>The life of a booking\<close>

inductive booking_step :: "booking_status \<Rightarrow> booking_status \<Rightarrow> bool" where
  confirm: "booking_step Booking_PENDING Booking_CONFIRMED"
| reject: "booking_step Booking_PENDING Booking_REJECTED"
| cancel: "st \<in> {Booking_PENDING, Booking_CONFIRMED, Booking_RESERVED} \<Longrightarrow> booking_step st Booking_CANCELLED"
| finish: "st \<in> {Booking_CONFIRMED, Booking_RESERVED} \<Longrightarrow> booking_step st Booking_COMPLETED"

inductive_cases booking_stepE: "booking_step st st'"

definition TERMINAL_BOOKING :: "booking_status set" where
  "TERMINAL_BOOKING = {Booking_REJECTED, Booking_CANCELLED, Booking_COMPLETED}"

lemma terminal_booking_final: "booking_step\<^sup>*\<^sup>* st st' \<Longrightarrow> st \<in> TERMINAL_BOOKING \<Longrightarrow> st' = st"
  by (induction rule: rtranclp_induct) (auto simp: TERMINAL_BOOKING_def elim: booking_stepE)

text \<open>Every booking stays, with its resource and requester, and takes at most one step.\<close>

definition bookings_evolve :: "booking table \<Rightarrow> booking table \<Rightarrow> bool" where
  "bookings_evolve t t' \<longleftrightarrow>
     (\<forall>k b. tbl_get t k = Some b \<longrightarrow>
        (\<exists>b'. tbl_get t' k = Some b' \<and> bk_resource_item b' = bk_resource_item b
            \<and> booking_step\<^sup>*\<^sup>* (bk_status b) (bk_status b')))"

lemma bookings_evolve_refl [simp]: "bookings_evolve t t"
  by (simp add: bookings_evolve_def)

lemma bookings_evolve_trans: "bookings_evolve t u \<Longrightarrow> bookings_evolve u v \<Longrightarrow> bookings_evolve t v"
  unfolding bookings_evolve_def by (metis (no_types, lifting) rtranclp_trans)

lemma bookings_evolve_put:
  "tbl_wf t \<Longrightarrow> tbl_get t k = Some b \<Longrightarrow> bk_resource_item b' = bk_resource_item b
   \<Longrightarrow> booking_step\<^sup>*\<^sup>* (bk_status b) (bk_status b') \<Longrightarrow> bookings_evolve t (tbl_put k b' t)"
  by (auto simp: bookings_evolve_def tbl.get_put)

lemma bookings_evolve_insert: "tbl_wf t \<Longrightarrow> bookings_evolve t (tbl_insert b t)"
  unfolding bookings_evolve_def by (auto dest: tbl.get_add_old [of t _ _ b])

text \<open>A booking instance that is current: the row of the table.\<close>

fun current_instance :: "'a resource_db_scheme \<Rightarrow> resource_command \<Rightarrow> bool" where
  "current_instance s (UpdateBooking u kb ch) \<longleftrightarrow> tbl_get (db_bookings s) (fst kb) = Some (snd kb)"
| "current_instance s c \<longleftrightarrow> True"

lemma evolve_atomic:
  "m = atomic m' \<Longrightarrow> (\<And>x s'. m s = (Inr x, s') \<Longrightarrow> bookings_evolve (db_bookings s) (db_bookings s'))
   \<Longrightarrow> bookings_evolve (db_bookings s) (db_bookings (snd (m s)))"
  by (rule op_inv [where P = "\<lambda>t. bookings_evolve (db_bookings s) (db_bookings t)"]) auto

lemma evolve_create:
  "tbl_wf (db_bookings s) \<Longrightarrow> bookings_evolve (db_bookings s) (db_bookings (snd (create_booking u x a s)))"
  by (rule evolve_atomic [OF create_booking_def]) (auto dest!: create_booking_success intro: bookings_evolve_insert)

lemma evolve_update:
  assumes "tbl_wf (db_bookings s)" "tbl_get (db_bookings s) (fst kb) = Some (snd kb)"
  shows "bookings_evolve (db_bookings s) (db_bookings (snd (update_booking u kb ch s)))"
proof (rule evolve_atomic [OF update_booking_def])
  fix x s' assume u: "update_booking u kb ch s = (Inr x, s')"
  show "bookings_evolve (db_bookings s) (db_bookings s')"
    using update_booking_success [of u "fst kb" "snd kb" ch s x s'] u assms
    by (auto intro!: bookings_evolve_put)
qed

lemma evolve_cancel:
  "tbl_wf (db_bookings s) \<Longrightarrow> bookings_evolve (db_bookings s) (db_bookings (snd (cancel_booking u k s)))"
  by (rule evolve_atomic [OF cancel_booking_def])
    (auto dest!: cancel_booking_success simp: bookings_evolve_def tbl.get_put
      intro!: r_into_rtranclp booking_step.cancel)

lemma evolve_return:
  "tbl_wf (db_bookings s) \<Longrightarrow> bookings_evolve (db_bookings s) (db_bookings (snd (return_booking u k s)))"
  by (rule evolve_atomic [OF return_booking_def])
    (auto dest!: return_booking_success simp: holds_capacity_def bookings_evolve_def tbl.get_put
      intro!: r_into_rtranclp booking_step.finish)

lemma evolve_decide_in_transaction:
  "tbl_wf (db_bookings s) \<Longrightarrow> bookings_evolve (db_bookings s) (db_bookings (snd (decide_in_transaction u k ap n s)))"
  by (rule evolve_atomic [OF decide_in_transaction_def])
    (auto dest!: decide_in_transaction_success simp: bookings_evolve_def tbl.get_put
        booking_step.confirm booking_step.reject intro!: r_into_rtranclp split: if_splits)

lemma evolve_decide:
  "tbl_wf (db_bookings s) \<Longrightarrow> bookings_evolve (db_bookings s) (db_bookings (snd (decide_booking u k ap n s)))"
  using decide_booking_bookings(1) [of u k ap n s] evolve_decide_in_transaction [of s u k ap n] by auto

lemma evolve_reconcile: "bookings_evolve (db_bookings s) (db_bookings (snd (reconcile_completed_bookings at s)))"
  by (auto simp: bookings_evolve_def reconcile_completed_bookings_def Let_def tbl_get_update_where holds_capacity_def
      intro!: r_into_rtranclp booking_step.finish)

lemma items_step_evolve: "items_step s s' \<Longrightarrow> bookings_evolve (db_bookings s) (db_bookings s')"
  by (simp add: items_step_def)

lemma evolve_step_quiet:
  "(\<And>r s'. m s = (r, s') \<Longrightarrow> items_step s s') \<Longrightarrow> bookings_evolve (db_bookings s) (db_bookings (snd (m s)))"
  by (metis surjective_pairing items_step_evolve)

lemma evolve_command:
  assumes ok: "capacity_ok s" and cur: "current_instance s c"
  shows "bookings_evolve (db_bookings s) (db_bookings (snd (resource_step c s)))"
proof -
  have wf: "tbl_wf (db_bookings s)" using ok cap_okD(3) by (simp add: capacity_ok_def)
  have wfi: "tbl_wf (db_resource_items s)" using ok cap_okD(1) by (simp add: capacity_ok_def)
  note q = evolve_step_quiet [OF quiet_step_items]
  show ?thesis
  proof (cases c)
    case (CreateItem u a)
    then show ?thesis using evolve_step_quiet [OF items_step_create] by simp
  next
    case (UpdateItem u rid a)
    then show ?thesis using evolve_step_quiet [OF quantity_kept_plain] by simp
  next
    case (RecordStock u rid kd d p co n)
    then show ?thesis using evolve_step_quiet [OF items_step_stock] by simp
  next
    case (OperationAlerts today)
    then show ?thesis using items_step_evolve [OF quiet_step_items [OF quiet_step_alerts [OF wfi]]] by simp
  next
    case (UpdateBooking u kb ch)
    then show ?thesis using evolve_update [OF wf, of kb u ch] cur by simp
  qed (simp_all add: q [OF quiet_step_retire] q [OF quiet_step_delete] q [OF quiet_step_use]
      q [OF quiet_step_decide_use] q [OF quiet_step_create_maintenance] q [OF quiet_step_transition]
      evolve_create [OF wf] evolve_cancel [OF wf] evolve_return [OF wf] evolve_decide [OF wf] evolve_reconcile)
qed

text \<open>A run in which every booking instance is current when it is used.\<close>

fun current_run :: "'a resource_db_scheme \<Rightarrow> resource_command list \<Rightarrow> bool" where
  "current_run s [] \<longleftrightarrow> True"
| "current_run s (c # cs) \<longleftrightarrow> current_instance s c \<and> current_run (snd (resource_step c s)) cs"

lemma evolve_run:
  "capacity_ok s \<Longrightarrow> current_run s cs
   \<Longrightarrow> bookings_evolve (db_bookings s) (db_bookings (run_all resource_step cs s))"
proof (induction cs arbitrary: s)
  case (Cons c cs)
  have "bookings_evolve (db_bookings s) (db_bookings (snd (resource_step c s)))"
    by (rule evolve_command [OF Cons.prems(1)]) (use Cons.prems(2) in simp)
  moreover have "capacity_ok (snd (resource_step c s))" by (rule resources.step_inv [OF Cons.prems(1)])
  ultimately show ?case using Cons.IH Cons.prems(2) by (auto intro: bookings_evolve_trans)
qed simp

section \<open>Retired resources\<close>

text \<open>A row below the old counter was there before, and is retired if it was.\<close>

definition retired_kept :: "resource_item table \<Rightarrow> resource_item table \<Rightarrow> bool" where
  "retired_kept t t' \<longleftrightarrow>
     (tbl_wf t \<longrightarrow> tbl_wf t') \<and> tbl_next t \<le> tbl_next t'
     \<and> (tbl_wf t \<longrightarrow> (\<forall>rid r'. tbl_get t' rid = Some r' \<longrightarrow> rid < tbl_next t \<longrightarrow>
          (\<exists>r. tbl_get t rid = Some r
             \<and> (ri_status r = ResourceItem_RETIRED \<longrightarrow> ri_status r' = ResourceItem_RETIRED))))"

lemma retired_kept_refl [simp]: "retired_kept t t"
  by (simp add: retired_kept_def)

lemma retired_kept_trans: "retired_kept t u \<Longrightarrow> retired_kept u v \<Longrightarrow> retired_kept t v"
  unfolding retired_kept_def by (metis order_trans order.strict_trans2)

lemma retired_kept_rows: "rows_kept t t' \<Longrightarrow> retired_kept t t'"
  unfolding rows_kept_def retired_kept_def item_frame_def by fastforce

lemma retired_kept_put:
  "tbl_get t k = Some r \<Longrightarrow> ri_status r' = ri_status r \<Longrightarrow> retired_kept t (tbl_put k r' t)"
  by (auto simp: retired_kept_def tbl.wf_put tbl.get_put tbl_put_def [of k r' t, THEN arg_cong [where f = tbl_next]]
      split: if_splits)

lemma retired_kept_insert: "retired_kept t (tbl_insert r t)"
  by (auto simp: retired_kept_def tbl.wf_add tbl.get_add dest: tbl.below_fresh split: if_splits)

lemma quiet_step_retired: "quiet_step s s' \<Longrightarrow> retired_kept (db_resource_items s) (db_resource_items s')"
  by (simp add: quiet_step_def retired_kept_rows)

lemma booking_only_retired: "booking_only s s' \<Longrightarrow> retired_kept (db_resource_items s) (db_resource_items s')"
  by (simp add: booking_only_def retired_kept_def)

fun is_update_item :: "resource_command \<Rightarrow> bool" where
  "is_update_item (UpdateItem u rid a) \<longleftrightarrow> True"
| "is_update_item c \<longleftrightarrow> False"

lemma retired_atomic:
  "m = atomic m' \<Longrightarrow> (\<And>x s'. m s = (Inr x, s') \<Longrightarrow> retired_kept (db_resource_items s) (db_resource_items s'))
   \<Longrightarrow> retired_kept (db_resource_items s) (db_resource_items (snd (m s)))"
  by (rule op_inv [where P = "\<lambda>t. retired_kept (db_resource_items s) (db_resource_items t)"])
    (auto simp: retired_kept_def)

lemma retired_create: "retired_kept (db_resource_items s) (db_resource_items (snd (create_resource u a s)))"
  by (rule retired_atomic [OF create_resource_def]) (auto dest!: create_resource_success intro: retired_kept_insert)

lemma retired_stock:
  "retired_kept (db_resource_items s) (db_resource_items (snd (record_stock_transaction u rid kd d p co n s)))"
  by (rule retired_atomic [OF record_stock_transaction_def])
    (auto dest!: record_stock_transaction_success simp: with_balance_def intro!: retired_kept_put)

lemma retired_step_quiet:
  "(\<And>r s'. m s = (r, s') \<Longrightarrow> quiet_step s s') \<Longrightarrow> retired_kept (db_resource_items s) (db_resource_items (snd (m s)))"
  by (metis surjective_pairing quiet_step_retired)

lemma retired_command:
  assumes wf: "tbl_wf (db_resource_items s)" and c: "\<not> is_update_item c"
  shows "retired_kept (db_resource_items s) (db_resource_items (snd (resource_step c s)))"
proof (cases c)
  case (OperationAlerts today)
  then show ?thesis using quiet_step_retired [OF quiet_step_alerts [OF wf]] by simp
next
  case (UpdateBooking u kb ch)
  then show ?thesis using booking_only_retired [OF booking_only_ops(2) [of s u kb ch]]
    by (cases "bk_resource_item (snd kb) < tbl_next (db_resource_items s)") simp_all
qed (use c in \<open>simp_all add: retired_create retired_stock
    retired_step_quiet [OF quiet_step_retire] retired_step_quiet [OF quiet_step_delete]
    retired_step_quiet [OF quiet_step_use] retired_step_quiet [OF quiet_step_decide_use]
    retired_step_quiet [OF quiet_step_create_maintenance] retired_step_quiet [OF quiet_step_transition]
    booking_only_retired [OF booking_only_ops(1)] booking_only_retired [OF booking_only_ops(3)]
    booking_only_retired [OF booking_only_ops(4)] booking_only_retired [OF booking_only_ops(5)]
    booking_only_retired [OF booking_only_ops(6)]\<close>)

lemma retired_run:
  "tbl_wf (db_resource_items s) \<Longrightarrow> list_all (\<lambda>c. \<not> is_update_item c) cs
   \<Longrightarrow> retired_kept (db_resource_items s) (db_resource_items (run_all resource_step cs s))"
proof (induction cs arbitrary: s)
  case (Cons c cs)
  have 1: "retired_kept (db_resource_items s) (db_resource_items (snd (resource_step c s)))"
    by (rule retired_command [OF Cons.prems(1)]) (use Cons.prems(2) in simp)
  then have "tbl_wf (db_resource_items (snd (resource_step c s)))" using Cons.prems(1) by (simp add: retired_kept_def)
  then show ?case using Cons.IH [of "snd (resource_step c s)"] Cons.prems(2) 1 by (auto intro: retired_kept_trans)
qed simp

section \<open>Versions and transactions\<close>

definition item_version :: "pk \<Rightarrow> 'a resource_db_scheme \<Rightarrow> nat option" where
  "item_version rid s = map_option ri_version (tbl_get (db_resource_items s) rid)"

lemma update_resource_stale:
  "item_version rid s \<noteq> Some v \<Longrightarrow> \<exists>e. update_resource u rid (a\<lparr>ra_version := Some (int v)\<rparr>) s = (Inl e, s)"
  by (auto simp: update_resource_def atomic_def item_version_def require_manager_def split: option.splits)

lemma update_resource_moves:
  assumes "tbl_wf (db_resource_items s)" "update_resource u rid (a\<lparr>ra_version := Some (int v)\<rparr>) s = (Inr k, s')"
  shows "\<exists>v'. item_version rid s' = Some v' \<and> v < v'"
  using update_resource_success [OF assms(2)] assms(1) by (auto simp: item_version_def tbl.get_put)

interpretation item_update: optimistic_update "item_version rid"
    "\<lambda>v. update_resource u rid (a\<lparr>ra_version := Some (int v)\<rparr>)" "\<lambda>s. tbl_wf (db_resource_items s)"
  by unfold_locales (simp_all add: update_resource_stale update_resource_moves)

interpretation stock_call: invariant_call "record_stock_transaction u rid kd d p co n" ledger_ok
  by unfold_locales (auto simp: record_stock_transaction_def intro: ledger_record_stock
      [unfolded record_stock_transaction_def])

interpretation booking_call: invariant_call "create_booking u x a" capacity_ok
  by unfold_locales (auto simp: create_booking_def intro: capacity_create [unfolded create_booking_def])

end
