(* ===== verification/ExecutionModel.thy ===== *)
theory ExecutionModel
  imports NotificationOutcomes
begin

text \<open>
  The execution tables (\<open>apps/projects/models.py\<close>: milestones, deliverables, revisions, evidence,
  recommendations, decisions; \<open>SubmissionReviewAssignment\<close> of \<open>apps/submissions/models.py\<close>), the
  constraints the services run into, and the callbacks \<open>transaction.on_commit\<close> registers.

  Of the tasks, materials, weekly reports and document versions only their project is read here
  (\<open>db_task_project\<close> and its siblings). \<open>db_bracketed_netloc_ok\<close> is the standard library's verdict
  on a URL authority with brackets (\<open>urllib.parse._check_bracketed_netloc\<close>, which parses IPv6 literals).
\<close>

datatype milestone_status =
    Milestone_PLANNED
  | Milestone_IN_PROGRESS
  | Milestone_AT_RISK
  | Milestone_BLOCKED
  | Milestone_OVERDUE
  | Milestone_COMPLETED
  | Milestone_ARCHIVED

fun milestone_status_value :: "milestone_status \<Rightarrow> string" where
  "milestone_status_value Milestone_PLANNED = ''planned''"
| "milestone_status_value Milestone_IN_PROGRESS = ''in_progress''"
| "milestone_status_value Milestone_AT_RISK = ''at_risk''"
| "milestone_status_value Milestone_BLOCKED = ''blocked''"
| "milestone_status_value Milestone_OVERDUE = ''overdue''"
| "milestone_status_value Milestone_COMPLETED = ''completed''"
| "milestone_status_value Milestone_ARCHIVED = ''archived''"

record milestone =
  ms_project :: pk
  ms_title :: string
  ms_description :: string
  ms_target_date :: day
  ms_order :: int
  ms_current_status :: milestone_status
  ms_completed_at :: "instant option"
  ms_archived_at :: "instant option"
  ms_version :: nat
  ms_created_by :: pk
  ms_created_at :: instant
  ms_updated_at :: instant

text \<open>The two check constraints: a completion or archive time exactly with that status.\<close>

definition milestone_checks :: "milestone \<Rightarrow> bool" where
  "milestone_checks m \<longleftrightarrow>
     ((ms_current_status m = Milestone_COMPLETED) = (ms_completed_at m \<noteq> None))
     \<and> ((ms_current_status m = Milestone_ARCHIVED) = (ms_archived_at m \<noteq> None))"

definition milestone_order_key :: "milestone \<Rightarrow> (pk \<times> int) option" where
  "milestone_order_key m = Some (ms_project m, ms_order m)"

record milestone_owner =
  mo_milestone :: pk
  mo_user :: pk
  mo_assigned_by :: pk
  mo_assigned_at :: instant

datatype deliverable_status =
    Deliverable_PLANNED
  | Deliverable_IN_PROGRESS
  | Deliverable_BLOCKED
  | Deliverable_SUBMITTED
  | Deliverable_UNDER_REVIEW
  | Deliverable_CHANGES_REQUESTED
  | Deliverable_ACCEPTED
  | Deliverable_ARCHIVED

fun deliverable_status_value :: "deliverable_status \<Rightarrow> string" where
  "deliverable_status_value Deliverable_PLANNED = ''planned''"
| "deliverable_status_value Deliverable_IN_PROGRESS = ''in_progress''"
| "deliverable_status_value Deliverable_BLOCKED = ''blocked''"
| "deliverable_status_value Deliverable_SUBMITTED = ''submitted''"
| "deliverable_status_value Deliverable_UNDER_REVIEW = ''under_review''"
| "deliverable_status_value Deliverable_CHANGES_REQUESTED = ''changes_requested''"
| "deliverable_status_value Deliverable_ACCEPTED = ''accepted''"
| "deliverable_status_value Deliverable_ARCHIVED = ''archived''"

record deliverable =
  dl_project :: pk
  dl_milestone :: pk
  dl_title :: string
  dl_description :: string
  dl_acceptance_criteria :: string
  dl_due_date :: day
  dl_required :: bool
  dl_reviewer_required :: bool
  dl_order :: int
  dl_current_status :: deliverable_status
  dl_progress_percent :: int
  dl_blocker_summary :: string
  dl_current_revision :: "pk option"
  dl_accepted_revision :: "pk option"
  dl_accepted_at :: "instant option"
  dl_archived_at :: "instant option"
  dl_version :: nat
  dl_created_by :: pk
  dl_created_at :: instant
  dl_updated_at :: instant

definition deliverable_order_key :: "deliverable \<Rightarrow> (pk \<times> int) option" where
  "deliverable_order_key d = Some (dl_milestone d, dl_order d)"

record deliverable_assignee =
  as_deliverable :: pk
  as_user :: pk
  as_assigned_by :: pk
  as_assigned_at :: instant
  as_removed_at :: "instant option"

record reviewer_designation =
  rd_deliverable :: pk
  rd_reviewer :: pk
  rd_designated_by :: pk
  rd_designated_at :: instant
  rd_removed_at :: "instant option"

record deliverable_task_link =
  tl_deliverable :: pk
  tl_task :: pk
  tl_linked_by :: pk
  tl_linked_at :: instant

datatype revision_state =
    Revision_SUBMITTED
  | Revision_RECOMMENDED_ACCEPT
  | Revision_RECOMMENDED_RETURN
  | Revision_ACCEPTED
  | Revision_RETURNED

fun revision_state_value :: "revision_state \<Rightarrow> string" where
  "revision_state_value Revision_SUBMITTED = ''submitted''"
| "revision_state_value Revision_RECOMMENDED_ACCEPT = ''recommended_accept''"
| "revision_state_value Revision_RECOMMENDED_RETURN = ''recommended_return''"
| "revision_state_value Revision_ACCEPTED = ''accepted''"
| "revision_state_value Revision_RETURNED = ''returned''"

record deliverable_revision =
  rv_project :: pk
  rv_deliverable :: pk
  rv_revision_number :: nat
  rv_criteria_snapshot :: string
  rv_description_snapshot :: string
  rv_submitted_by :: pk
  rv_submitted_at :: instant
  rv_idempotency_key :: string
  rv_state :: revision_state

definition revision_number_key :: "deliverable_revision \<Rightarrow> (pk \<times> nat) option" where
  "revision_number_key r = Some (rv_deliverable r, rv_revision_number r)"

definition revision_retry_key :: "deliverable_revision \<Rightarrow> (pk \<times> string) option" where
  "revision_retry_key r = (if rv_idempotency_key r = [] then None else Some (rv_deliverable r, rv_idempotency_key r))"

datatype evidence_source = Evidence_MATERIAL | Evidence_TASK | Evidence_REPORT | Evidence_URL

record deliverable_evidence =
  ev_project :: pk
  ev_revision :: pk
  ev_project_material :: "pk option"
  ev_task :: "pk option"
  ev_weekly_progress_report :: "pk option"
  ev_external_url :: string
  ev_label_snapshot :: string
  ev_source_type_snapshot :: evidence_source
  ev_source_id_snapshot :: string
  ev_added_by :: pk
  ev_created_at :: instant

datatype recommendation_value = Recommendation_ACCEPT | Recommendation_RETURN

record review_recommendation =
  rc_project :: pk
  rc_revision :: pk
  rc_reviewer :: pk
  rc_recommendation :: recommendation_value
  rc_rationale :: string
  rc_review_assignment :: "pk option"
  rc_created_at :: instant
  rc_superseded_at :: "instant option"

definition open_recommendation_key :: "review_recommendation \<Rightarrow> (pk \<times> pk) option" where
  "open_recommendation_key r =
     (if rc_superseded_at r = None then Some (rc_revision r, rc_reviewer r) else None)"

datatype decision_value = Decision_ACCEPTED | Decision_RETURNED

fun decision_value_text :: "decision_value \<Rightarrow> string" where
  "decision_value_text Decision_ACCEPTED = ''accepted''"
| "decision_value_text Decision_RETURNED = ''returned''"

record final_decision =
  fd_project :: pk
  fd_revision :: pk
  fd_decision :: decision_value
  fd_rationale :: string
  fd_decided_by :: pk
  fd_decided_at :: instant
  fd_idempotency_key :: string

definition decision_revision_key :: "final_decision \<Rightarrow> pk option" where
  "decision_revision_key d = Some (fd_revision d)"

definition decision_retry_key :: "final_decision \<Rightarrow> (pk \<times> string) option" where
  "decision_retry_key d = (if fd_idempotency_key d = [] then None else Some (fd_project d, fd_idempotency_key d))"

text \<open>The four kinds of targets an assignment may point to, with their keys.\<close>

datatype review_target = WeeklyReport pk | WritingVersion pk | DraftVersion pk | RevisionTarget pk

datatype assignment_status = Assignment_ACTIVE | Assignment_REMOVED

record review_assignment =
  ra_project :: pk
  ra_reviewer_membership :: pk
  ra_target :: review_target
  ra_assigned_by :: pk
  ra_assigned_at :: instant
  ra_assignment_status :: assignment_status
  ra_assignment_version :: nat
  ra_removed_by :: "pk option"
  ra_removed_at :: "instant option"

text \<open>What \<open>on_commit\<close> registers: the arguments of \<open>_create_revision_action\<close>, or a completion.\<close>

datatype commit_callback =
    CreateRevisionAction pk pk string string
  | CompleteRevisionActions pk string pk

record execution_db = notification_db +
  db_milestones :: "milestone table"
  db_milestone_owners :: "milestone_owner table"
  db_deliverables :: "deliverable table"
  db_assignees :: "deliverable_assignee table"
  db_designations :: "reviewer_designation table"
  db_task_links :: "deliverable_task_link table"
  db_revisions :: "deliverable_revision table"
  db_evidence :: "deliverable_evidence table"
  db_recommendations :: "review_recommendation table"
  db_decisions :: "final_decision table"
  db_assignments :: "review_assignment table"
  db_task_project :: "pk \<rightharpoonup> pk"
  db_material_project :: "pk \<rightharpoonup> pk"
  db_report_project :: "pk \<rightharpoonup> pk"
  db_writing_version_project :: "pk \<rightharpoonup> pk"
  db_draft_version_project :: "pk \<rightharpoonup> pk"
  db_bracketed_netloc_ok :: "string \<Rightarrow> bool"
  db_on_commit :: "commit_callback list"

lemma record_event_execution [simp]:
  "db_milestones (record_event p a t sm tg opts s) = db_milestones s"
  "db_milestone_owners (record_event p a t sm tg opts s) = db_milestone_owners s"
  "db_deliverables (record_event p a t sm tg opts s) = db_deliverables s"
  "db_assignees (record_event p a t sm tg opts s) = db_assignees s"
  "db_designations (record_event p a t sm tg opts s) = db_designations s"
  "db_task_links (record_event p a t sm tg opts s) = db_task_links s"
  "db_revisions (record_event p a t sm tg opts s) = db_revisions s"
  "db_evidence (record_event p a t sm tg opts s) = db_evidence s"
  "db_recommendations (record_event p a t sm tg opts s) = db_recommendations s"
  "db_decisions (record_event p a t sm tg opts s) = db_decisions s"
  "db_assignments (record_event p a t sm tg opts s) = db_assignments s"
  "db_on_commit (record_event p a t sm tg opts s) = db_on_commit s"
  by (simp_all add: record_event_def)

lemma record_execution_event_projects [simp]:
  "db_projects (record_execution_event p a act tg st pr s) = db_projects s"
  "db_memberships (record_execution_event p a act tg st pr s) = db_memberships s"
  by (simp_all add: record_execution_event_def)

lemma record_execution_event_execution [simp]:
  "db_milestones (record_execution_event p a act tg st pr s) = db_milestones s"
  "db_milestone_owners (record_execution_event p a act tg st pr s) = db_milestone_owners s"
  "db_deliverables (record_execution_event p a act tg st pr s) = db_deliverables s"
  "db_assignees (record_execution_event p a act tg st pr s) = db_assignees s"
  "db_designations (record_execution_event p a act tg st pr s) = db_designations s"
  "db_revisions (record_execution_event p a act tg st pr s) = db_revisions s"
  "db_evidence (record_execution_event p a act tg st pr s) = db_evidence s"
  "db_recommendations (record_execution_event p a act tg st pr s) = db_recommendations s"
  "db_decisions (record_execution_event p a act tg st pr s) = db_decisions s"
  "db_assignments (record_execution_event p a act tg st pr s) = db_assignments s"
  "db_on_commit (record_execution_event p a act tg st pr s) = db_on_commit s"
  by (simp_all add: record_execution_event_def)

section \<open>Guards and lookups\<close>

definition MANAGER_ROLES :: "membership_role set" where
  "MANAGER_ROLES = {ProjectMembership_ADVISOR, ProjectMembership_CO_ADVISOR}"

definition REVIEWER_ROLES :: "membership_role set" where
  "REVIEWER_ROLES = MANAGER_ROLES \<union> {ProjectMembership_REVIEWER}"

text \<open>
  \<open>_active_members\<close>: the active memberships of the project among the requested accounts, as
  the dict from account to membership.
\<close>

definition active_members :: "'a project_db_scheme \<Rightarrow> pk \<Rightarrow> pk list \<Rightarrow> error + (pk \<times> project_membership) list" where
  "active_members s project ids =
     (let members = dict_build (map (\<lambda>(k, m). (pm_user m, m))
            (tbl_filter (\<lambda>_ m. pm_project m = project \<and> pm_user m \<in> set ids
               \<and> pm_status m = ProjectMembership_ACTIVE) (db_memberships s)))
      in if ids = [] \<or> fst ` set members \<noteq> set ids
         then Inl (ValueError ''Select at least one active project member.'')
         else Inr members)"

definition project_writable :: "research_project \<Rightarrow> bool" where
  "project_writable p \<longleftrightarrow> rp_status p = ResearchProject_ACTIVE \<and> rp_governance_state p = ResearchProject_NORMAL"

definition require_writable :: "research_project \<Rightarrow> error + unit" where
  "require_writable p =
     (if \<not> project_writable p then Inl (PermissionDenied ''Project execution is read-only.'') else Inr ())"

definition require_capability ::
  "'a project_db_scheme \<Rightarrow> actor \<Rightarrow> pk \<Rightarrow> research_project \<Rightarrow> (capabilities \<Rightarrow> bool) \<Rightarrow> error + unit" where
  "require_capability s u pid p capability =
     (case require_writable p of
        Inl e \<Rightarrow> Inl e
      | Inr _ \<Rightarrow>
          if \<not> capability (project_capabilities s u pid p)
          then Inl (PermissionDenied ''Project execution action is forbidden.'') else Inr ())"

text \<open>Following a foreign key to the project.\<close>

definition project_row :: "'a project_db_scheme \<Rightarrow> pk \<Rightarrow> error + research_project" where
  "project_row s pid =
     (case tbl_get (db_projects s) pid of None \<Rightarrow> Inl (DoesNotExist ''ResearchProject'') | Some p \<Rightarrow> Inr p)"

lemma require_capability_Inr:
  "require_capability s u pid p cap = Inr x \<longleftrightarrow> project_writable p \<and> cap (project_capabilities s u pid p)"
  by (auto simp: require_capability_def require_writable_def)

section \<open>Writes under constraints\<close>

text \<open>\<open>save\<close> of a milestone: the check constraints, then the order within its project.\<close>

definition save_milestone :: "pk \<Rightarrow> milestone \<Rightarrow> ('a execution_db_scheme, unit) op" where
  "save_milestone k m s =
     (if \<not> milestone_checks m then (Inl (IntegrityError ''milestone_timestamps''), s)
      else if key_taken_by_other milestone_order_key k m (db_milestones s)
      then (Inl (IntegrityError ''unique_project_milestone_order''), s)
      else (Inr (), s\<lparr>db_milestones := tbl_put k m (db_milestones s)\<rparr>))"

definition insert_milestone :: "milestone \<Rightarrow> ('a execution_db_scheme, pk) op" where
  "insert_milestone m s =
     (if \<not> milestone_checks m then (Inl (IntegrityError ''milestone_timestamps''), s)
      else if key_taken milestone_order_key m (db_milestones s)
      then (Inl (IntegrityError ''unique_project_milestone_order''), s)
      else (Inr (tbl_next (db_milestones s)), s\<lparr>db_milestones := tbl_insert m (db_milestones s)\<rparr>))"

definition progress_in_range :: "deliverable \<Rightarrow> bool" where
  "progress_in_range d \<longleftrightarrow> 0 \<le> dl_progress_percent d \<and> dl_progress_percent d \<le> 100"

definition insert_deliverable :: "deliverable \<Rightarrow> ('a execution_db_scheme, pk) op" where
  "insert_deliverable d s =
     (if \<not> progress_in_range d then (Inl (IntegrityError ''deliverable_progress_range''), s)
      else if key_taken deliverable_order_key d (db_deliverables s)
      then (Inl (IntegrityError ''unique_milestone_deliverable_order''), s)
      else (Inr (tbl_next (db_deliverables s)), s\<lparr>db_deliverables := tbl_insert d (db_deliverables s)\<rparr>))"

definition save_deliverable :: "pk \<Rightarrow> deliverable \<Rightarrow> ('a execution_db_scheme, unit) op" where
  "save_deliverable k d s =
     (if \<not> progress_in_range d then (Inl (IntegrityError ''deliverable_progress_range''), s)
      else if key_taken_by_other deliverable_order_key k d (db_deliverables s)
      then (Inl (IntegrityError ''unique_milestone_deliverable_order''), s)
      else (Inr (), s\<lparr>db_deliverables := tbl_put k d (db_deliverables s)\<rparr>))"

text \<open>\<open>(Max("order") or -1) + 1\<close>: Python's \<open>or\<close> replaces a maximum of 0 as well.\<close>

definition next_order :: "int list \<Rightarrow> int" where
  "next_order orders = (let m = (if orders = [] then 0 else Max (set orders)) in (if m = 0 then -1 else m) + 1)"

lemma next_order_empty: "next_order [] = 0"
  by (simp add: next_order_def)

lemma next_order_after_first: "next_order [0] = 0"
  by (simp add: next_order_def)

end
