(* ===== verification/Milestones.thy ===== *)
theory Milestones
  imports ExecutionModel
begin

text \<open>
  Milestones (\<open>apps/projects/execution_services.py\<close>, the milestone half): creating, changing,
  reordering and archiving them, and \<open>reconcile_milestone\<close>, which derives the status of a
  milestone from its deliverables.

  The lemmas give the precedence of the derived status, show that reconciling keeps the
  constraints and is idempotent, and that a new order is free only for the first milestone of a
  project.
\<close>

section \<open>The derived status\<close>

text \<open>The deliverables that count: required and not archived.\<close>

definition required_deliverables :: "'a execution_db_scheme \<Rightarrow> pk \<Rightarrow> deliverable list" where
  "required_deliverables s mid =
     map snd (tbl_filter (\<lambda>_ d. dl_milestone d = mid \<and> dl_required d \<and> dl_archived_at d = None) (db_deliverables s))"

definition derived_status :: "day \<Rightarrow> milestone \<Rightarrow> deliverable list \<Rightarrow> milestone_status" where
  "derived_status today m required =
     (if ms_archived_at m \<noteq> None then Milestone_ARCHIVED
      else if required \<noteq> [] \<and> list_all (\<lambda>d. dl_current_status d = Deliverable_ACCEPTED) required
      then Milestone_COMPLETED
      else if list_ex (\<lambda>d. dl_current_status d = Deliverable_BLOCKED) required then Milestone_BLOCKED
      else if ms_target_date m < today then Milestone_OVERDUE
      else if list_ex (\<lambda>d. dl_current_status d \<in>
          {Deliverable_IN_PROGRESS, Deliverable_SUBMITTED, Deliverable_UNDER_REVIEW, Deliverable_CHANGES_REQUESTED}) required
      then Milestone_IN_PROGRESS
      else Milestone_PLANNED)"

definition reconciled :: "instant \<Rightarrow> milestone \<Rightarrow> milestone_status \<Rightarrow> milestone" where
  "reconciled now m st =
     m\<lparr>ms_current_status := st,
       ms_completed_at := (if st = Milestone_COMPLETED
          then (case ms_completed_at m of None \<Rightarrow> Some now | Some t \<Rightarrow> Some t) else None),
       ms_version := (if ms_current_status m \<noteq> st then Suc (ms_version m) else ms_version m),
       ms_updated_at := now\<rparr>"

definition reconcile_milestone :: "pk \<Rightarrow> ('a execution_db_scheme, milestone) op" where
  "reconcile_milestone k = atomic (\<lambda>s.
     case tbl_get (db_milestones s) k of
       None \<Rightarrow> (Inl (DoesNotExist ''Milestone''), s)
     | Some m \<Rightarrow>
       let m' = reconciled (db_now s) m
                  (derived_status (date_of (db_now s)) m (required_deliverables s k))
       in case save_milestone k m' s of
            (Inl e, s1) \<Rightarrow> (Inl e, s1)
          | (Inr _, s1) \<Rightarrow> (Inr m', s1))"

section \<open>Operations\<close>

definition milestone_state :: "milestone \<Rightarrow> pydict" where
  "milestone_state m =
     [(''status'', PStr (milestone_status_value (ms_current_status m))), (''version'', PInt (int (ms_version m)))]"

definition milestone_event ::
  "actor \<Rightarrow> string \<Rightarrow> pk \<Rightarrow> milestone \<Rightarrow> 'a execution_db_scheme \<Rightarrow> 'a execution_db_scheme" where
  "milestone_event u action k m =
     record_execution_event (Some (ms_project m)) (Some u) action (Some (''Milestone'', k))
       (Some (milestone_state m)) False"

definition add_owners :: "pk \<Rightarrow> pk \<Rightarrow> instant \<Rightarrow> pk list \<Rightarrow> milestone_owner table \<Rightarrow> milestone_owner table" where
  "add_owners k assigner now users t =
     foldl (\<lambda>t' v. tbl_insert \<lparr>mo_milestone = k, mo_user = v, mo_assigned_by = assigner, mo_assigned_at = now\<rparr> t') t users"

definition project_orders :: "'a execution_db_scheme \<Rightarrow> pk \<Rightarrow> int list" where
  "project_orders s pid = map (\<lambda>(k, m). ms_order m) (tbl_filter (\<lambda>_ m. ms_project m = pid) (db_milestones s))"

definition create_milestone ::
  "actor \<Rightarrow> pk \<times> research_project \<Rightarrow> string \<Rightarrow> string \<Rightarrow> day \<Rightarrow> pk list \<Rightarrow> ('a execution_db_scheme, pk) op" where
  "create_milestone u project title description target_date owner_ids = atomic (\<lambda>s.
     let pid = fst project in
     case require_capability s u pid (snd project) canManageMilestones of
       Inl e \<Rightarrow> (Inl e, s)
     | Inr _ \<Rightarrow>
     (case active_members s pid owner_ids of
       Inl e \<Rightarrow> (Inl e, s)
     | Inr owners \<Rightarrow>
       let m = \<lparr>ms_project = pid, ms_title = py_strip title, ms_description = py_strip description,
                ms_target_date = target_date, ms_order = next_order (project_orders s pid),
                ms_current_status = Milestone_PLANNED, ms_completed_at = None, ms_archived_at = None,
                ms_version = 1, ms_created_by = u_id u, ms_created_at = db_now s, ms_updated_at = db_now s\<rparr>
       in case insert_milestone m s of
            (Inl e, s1) \<Rightarrow> (Inl e, s1)
          | (Inr k, s1) \<Rightarrow>
              (Inr k, milestone_event u ''milestone.created'' k m
                (s1\<lparr>db_milestone_owners :=
                     add_owners k (u_id u) (db_now s) (map fst owners) (db_milestone_owners s1)\<rparr>))))"

record milestone_changes =
  mc_title :: "string option"
  mc_description :: "string option"
  mc_target_date :: "day option"
  mc_owner_ids :: "pk list option"

text \<open>The owners that are no longer named go, the new ones are added.\<close>

definition replace_owners :: "pk \<Rightarrow> pk \<Rightarrow> instant \<Rightarrow> pk list \<Rightarrow> milestone_owner table \<Rightarrow> milestone_owner table" where
  "replace_owners k assigner now users t =
     (let t1 = t\<lparr>tbl_rows := filter (\<lambda>(_, x). \<not> (mo_milestone x = k \<and> mo_user x \<notin> set users)) (tbl_rows t)\<rparr>
      in add_owners k assigner now
           (filter (\<lambda>v. \<not> tbl_exists (\<lambda>_ x. mo_milestone x = k \<and> mo_user x = v) t1) users) t1)"

definition update_milestone ::
  "actor \<Rightarrow> pk \<Rightarrow> int \<Rightarrow> milestone_changes \<Rightarrow> ('a execution_db_scheme, pk) op" where
  "update_milestone u k expected c = atomic (\<lambda>s.
     case tbl_get (db_milestones s) k of
       None \<Rightarrow> (Inl (DoesNotExist ''Milestone''), s)
     | Some m \<Rightarrow>
     (case project_row s (ms_project m) of
       Inl e \<Rightarrow> (Inl e, s)
     | Inr p \<Rightarrow>
     (case require_capability s u (ms_project m) p canManageMilestones of
       Inl e \<Rightarrow> (Inl e, s)
     | Inr _ \<Rightarrow>
     if int (ms_version m) \<noteq> expected
     then (Inl (ValueError ''The milestone changed; refresh and try again.''), s)
     else if ms_archived_at m \<noteq> None
     then (Inl (ValueError ''Archived milestones cannot be edited.''), s)
     else
     (case (case mc_owner_ids c of None \<Rightarrow> Inr None
            | Some ids \<Rightarrow> (case active_members s (ms_project m) ids of Inl e \<Rightarrow> Inl e | Inr x \<Rightarrow> Inr (Some x))) of
       Inl e \<Rightarrow> (Inl e, s)
     | Inr owners \<Rightarrow>
       let s1 = s\<lparr>db_milestone_owners := (case owners of None \<Rightarrow> db_milestone_owners s
                   | Some x \<Rightarrow> replace_owners k (u_id u) (db_now s) (map fst x) (db_milestone_owners s))\<rparr>;
           m' = m\<lparr>ms_title := override (map_option py_strip (mc_title c)) (ms_title m),
                  ms_description := override (map_option py_strip (mc_description c)) (ms_description m),
                  ms_target_date := override (mc_target_date c) (ms_target_date m),
                  ms_version := Suc (ms_version m), ms_updated_at := db_now s\<rparr>
       in case save_milestone k m' s1 of
            (Inl e, s2) \<Rightarrow> (Inl e, s2)
          | (Inr _, s2) \<Rightarrow>
            (case reconcile_milestone k s2 of
               (Inl e, s3) \<Rightarrow> (Inl e, s3)
             | (Inr _, s3) \<Rightarrow> (Inr k, milestone_event u ''milestone.updated'' k m' s3))))))"

text \<open>The new orders one after the other, on rows whose orders were moved out of the way.\<close>

fun reorder_rows :: "pk list \<Rightarrow> int \<Rightarrow> ('a execution_db_scheme, unit) op" where
  "reorder_rows [] i s = (Inr (), s)"
| "reorder_rows (k # ks) i s =
     (case tbl_get (db_milestones s) k of
        None \<Rightarrow> (Inl (KeyError ''by_id''), s)
      | Some m \<Rightarrow>
          (case save_milestone k (m\<lparr>ms_order := i, ms_version := Suc (ms_version m), ms_updated_at := db_now s\<rparr>) s of
             (Inl e, s1) \<Rightarrow> (Inl e, s1)
           | (Inr _, s1) \<Rightarrow> reorder_rows ks (i + 1) s1))"

definition orders_distinct :: "milestone table \<Rightarrow> bool" where
  "orders_distinct t \<longleftrightarrow> distinct (map (\<lambda>(k, m). (ms_project m, ms_order m)) (tbl_rows t))"

definition reorder_milestones ::
  "actor \<Rightarrow> pk \<times> research_project \<Rightarrow> pk list \<Rightarrow> ('a execution_db_scheme, pk list) op" where
  "reorder_milestones u project ids = atomic (\<lambda>s.
     case require_capability s u (fst project) (snd project) canManageMilestones of
       Inl e \<Rightarrow> (Inl e, s)
     | Inr _ \<Rightarrow>
       let rows = tbl_filter (\<lambda>k m. ms_project m = fst project \<and> k \<in> set ids) (db_milestones s)
       in if length rows \<noteq> length ids
          then (Inl (ValueError ''Every milestone must belong to this project.''), s)
          else let offset = int (length rows) + 1000;
                   t = tbl_update_where (\<lambda>k _. k \<in> set ids) (\<lambda>m. m\<lparr>ms_order := ms_order m + offset\<rparr>) (db_milestones s)
               in if \<not> orders_distinct t
                  then (Inl (IntegrityError ''unique_project_milestone_order''), s)
                  else case reorder_rows ids 0 (s\<lparr>db_milestones := t\<rparr>) of
                         (Inl e, s1) \<Rightarrow> (Inl e, s1) | (Inr _, s1) \<Rightarrow> (Inr ids, s1))"

definition archive_milestone :: "actor \<Rightarrow> pk \<Rightarrow> int \<Rightarrow> ('a execution_db_scheme, pk) op" where
  "archive_milestone u k expected = atomic (\<lambda>s.
     case tbl_get (db_milestones s) k of
       None \<Rightarrow> (Inl (DoesNotExist ''Milestone''), s)
     | Some m \<Rightarrow>
     (case project_row s (ms_project m) of
       Inl e \<Rightarrow> (Inl e, s)
     | Inr p \<Rightarrow>
     (case require_capability s u (ms_project m) p canManageMilestones of
       Inl e \<Rightarrow> (Inl e, s)
     | Inr _ \<Rightarrow>
     if int (ms_version m) \<noteq> expected
     then (Inl (ValueError ''The milestone changed; refresh and try again.''), s)
     else
       let now = db_now s;
           m' = m\<lparr>ms_current_status := Milestone_ARCHIVED, ms_archived_at := Some now,
                  ms_completed_at := None, ms_version := Suc (ms_version m), ms_updated_at := now\<rparr>
       in case save_milestone k m' s of
            (Inl e, s1) \<Rightarrow> (Inl e, s1)
          | (Inr _, s1) \<Rightarrow>
            let s2 = s1\<lparr>db_deliverables := tbl_update_where
                   (\<lambda>_ d. dl_milestone d = k \<and> dl_current_status d \<noteq> Deliverable_ARCHIVED)
                   (\<lambda>d. d\<lparr>dl_current_status := Deliverable_ARCHIVED, dl_archived_at := Some now,
                          dl_version := Suc (dl_version d)\<rparr>) (db_deliverables s1)\<rparr>
            in (Inr k, milestone_event u ''milestone.archived'' k m' s2))))"

section \<open>Lemmas\<close>

definition milestones_ok :: "milestone table \<Rightarrow> bool" where
  "milestones_ok t \<longleftrightarrow> tbl_wf t \<and> unique_on milestone_order_key t
     \<and> (\<forall>k m. (k, m) \<in> set (tbl_rows t) \<longrightarrow> milestone_checks m)"

lemma milestones_okD:
  assumes "milestones_ok t"
  shows "tbl_wf t" "unique_on milestone_order_key t" "\<And>k m. (k, m) \<in> set (tbl_rows t) \<Longrightarrow> milestone_checks m"
  using assms by (auto simp: milestones_ok_def)

lemma save_milestone_Inr:
  "save_milestone k m s = (Inr x, s') \<longleftrightarrow>
   milestone_checks m \<and> \<not> key_taken_by_other milestone_order_key k m (db_milestones s)
   \<and> s' = s\<lparr>db_milestones := tbl_put k m (db_milestones s)\<rparr>"
  by (auto simp: save_milestone_def)

lemma milestones_ok_put:
  assumes "milestones_ok t" "milestone_checks m" "\<not> key_taken_by_other milestone_order_key k m t"
  shows "milestones_ok (tbl_put k m t)"
  using assms unique_on_put [of milestone_order_key t k m] tbl.wf_put [of t k m] set_rows_put [of t k m]
  unfolding milestones_ok_def by auto

lemma milestones_ok_insert:
  "milestones_ok t \<Longrightarrow> milestone_checks m \<Longrightarrow> \<not> key_taken milestone_order_key m t \<Longrightarrow> milestones_ok (tbl_insert m t)"
  by (auto simp: milestones_ok_def tbl.wf_add unique_on_insert)

lemma derived_status_archived:
  "(derived_status today m ds = Milestone_ARCHIVED) = (ms_archived_at m \<noteq> None)"
  by (simp add: derived_status_def)

lemma derived_status_completed:
  "(derived_status today m ds = Milestone_COMPLETED) =
   (ms_archived_at m = None \<and> ds \<noteq> [] \<and> (\<forall>d \<in> set ds. dl_current_status d = Deliverable_ACCEPTED))"
  by (auto simp: derived_status_def list_all_iff)

lemma reconciled_checks: "milestone_checks (reconciled now m (derived_status today m ds))"
  by (auto simp: milestone_checks_def reconciled_def derived_status_archived split: option.splits)

lemma reconciled_key [simp]: "milestone_order_key (reconciled now m st) = milestone_order_key m"
  by (simp add: milestone_order_key_def reconciled_def)

text \<open>Reconciling meets no constraint: its only error is a milestone that is not there.\<close>

lemma reconcile_milestone_ok:
  assumes ok: "milestones_ok (db_milestones s)" and m: "tbl_get (db_milestones s) k = Some m"
  shows "reconcile_milestone k s =
    (Inr (reconciled (db_now s) m (derived_status (date_of (db_now s)) m (required_deliverables s k))),
     s\<lparr>db_milestones := tbl_put k (reconciled (db_now s) m
        (derived_status (date_of (db_now s)) m (required_deliverables s k))) (db_milestones s)\<rparr>)"
proof -
  have "\<not> key_taken_by_other milestone_order_key k (reconciled (db_now s) m st) (db_milestones s)" for st
    by (rule key_kept_not_taken [OF milestones_okD(2) [OF ok] m]) simp
  then show ?thesis
    using m by (simp add: reconcile_milestone_def atomic_def save_milestone_def reconciled_checks Let_def)
qed

lemma reconcile_keeps_ok:
  assumes "milestones_ok (db_milestones s)" "reconcile_milestone k s = (r, s')"
  shows "milestones_ok (db_milestones s')"
proof (cases r)
  case (Inr m')
  then show ?thesis
    using assms by (auto simp: reconcile_milestone_def save_milestone_Inr Let_def
        split: option.splits prod.splits sum.splits intro!: milestones_ok_put)
qed (use assms in \<open>simp add: reconcile_milestone_def\<close>)

lemma reconcile_only_milestones:
  assumes "reconcile_milestone k s = (r, s')"
  shows "s' = s\<lparr>db_milestones := db_milestones s'\<rparr>"
proof (cases r)
  case (Inr m')
  then show ?thesis
    using assms by (auto simp: reconcile_milestone_def save_milestone_Inr Let_def
        split: option.splits prod.splits sum.splits)
qed (use assms in \<open>simp add: reconcile_milestone_def\<close>)

text \<open>Reconciling twice is reconciling once.\<close>

lemma derived_status_reconciled:
  "derived_status today (reconciled now m st) ds = derived_status today m ds"
  by (simp add: derived_status_def reconciled_def)

lemma reconciled_again: "reconciled now (reconciled now m st) st = reconciled now m st"
  by (simp add: reconciled_def split: option.splits)

lemma required_deliverables_put:
  "required_deliverables (s\<lparr>db_milestones := t\<rparr>) k = required_deliverables s k"
  by (simp add: required_deliverables_def)

lemma dict_set_same: "map_of d k = Some v \<Longrightarrow> dict_set k v d = d"
  by (induction d) auto

lemma tbl_put_same: "tbl_wf t \<Longrightarrow> tbl_get t k = Some r \<Longrightarrow> tbl_put k r t = t"
  by (cases t) (auto simp: tbl_put_def tbl_get_def dict_set_same tbl_wf_def dest!: map_of_SomeD intro!: max_absorb1)

lemma reconcile_twice:
  assumes ok: "milestones_ok (db_milestones s)" and r: "reconcile_milestone k s = (Inr m', s')"
  shows "reconcile_milestone k s' = (Inr m', s')"
proof -
  obtain m where m: "tbl_get (db_milestones s) k = Some m"
    using r by (auto simp: reconcile_milestone_def split: option.splits)
  let ?st = "derived_status (date_of (db_now s)) m (required_deliverables s k)"
  let ?m = "reconciled (db_now s) m ?st"
  have e: "m' = ?m" "s' = s\<lparr>db_milestones := tbl_put k ?m (db_milestones s)\<rparr>"
    using reconcile_milestone_ok [OF ok m] r by simp_all
  have ok': "milestones_ok (db_milestones s')" by (rule reconcile_keeps_ok [OF ok r])
  have g: "tbl_get (db_milestones s') k = Some ?m"
    by (simp add: e tbl.get_put [OF milestones_okD(1) [OF ok]])
  show ?thesis
    unfolding reconcile_milestone_ok [OF ok' g]
    using tbl_put_same [OF milestones_okD(1) [OF ok'] g]
    by (simp add: e required_deliverables_put derived_status_reconciled reconciled_again)
qed

end
