(* ===== verification/Deliverables.thy ===== *)
theory Deliverables
  imports Milestones
begin

text \<open>
  Deliverables, their revisions, recommendations and decisions
  (\<open>apps/projects/execution_services.py\<close>, the deliverable half) with the reviewer assignments they
  create (\<open>apps/submissions/review_assignment_services.py\<close>).

  A service call is a transaction; what it registers with \<open>on_commit\<close> is kept in
  \<open>db_on_commit\<close>, so that a rollback drops it, and \<open>committed_request\<close> runs it once the
  transaction has committed.
\<close>

section \<open>Callbacks\<close>

definition actor_of :: "'a core_db_scheme \<Rightarrow> pk \<Rightarrow> actor option" where
  "actor_of s k = map_option (\<lambda>u. user.extend (user.truncate u) \<lparr>u_id = k, u_is_authenticated = True\<rparr>) (tbl_get (db_users s) k)"

definition on_commit :: "commit_callback \<Rightarrow> 'a execution_db_scheme \<Rightarrow> 'a execution_db_scheme" where
  "on_commit c s = s\<lparr>db_on_commit := db_on_commit s @ [c]\<rparr>"

definition revision_action_args :: "pk \<Rightarrow> pk \<Rightarrow> deliverable_revision \<Rightarrow> day \<Rightarrow> string \<Rightarrow> enqueue_args" where
  "revision_action_args recipient rk r due subject =
     (enqueue_defaults recipient PENDING_REVIEW ''DeliverableRevision'' (str_of_nat rk) subject)
       \<lparr>en_sender := Some (rv_submitted_by r), en_project := Some (rv_project r),
        en_action_path := ''/projects/'' @ str_of_nat (rv_project r) @ ''/execution?deliverable=''
          @ str_of_nat (rv_deliverable r),
        en_category := Some Notification_DELIVERABLE, en_requirement_type := Some Notification_ACTION,
        en_delivery_policy := Notification_IN_APP, en_due_at := Some (combine due time_max)\<rparr>"

definition revision_dedupe_key :: "pk \<Rightarrow> string \<Rightarrow> string" where
  "revision_dedupe_key rk suffix = ''deliverable:'' @ str_of_nat rk @ '':'' @ suffix"

definition create_revision_action :: "pk \<Rightarrow> pk \<Rightarrow> string \<Rightarrow> string \<Rightarrow> ('a execution_db_scheme, unit) op" where
  "create_revision_action recipient rk subject suffix s =
     (case tbl_get (db_revisions s) rk of
        None \<Rightarrow> (Inl (DoesNotExist ''DeliverableRevision''), s)
      | Some r \<Rightarrow>
         (case tbl_get (db_deliverables s) (rv_deliverable r) of
            None \<Rightarrow> (Inl (DoesNotExist ''Deliverable''), s)
          | Some d \<Rightarrow>
              void (create_follow_up_notification (revision_dedupe_key rk suffix)
                (revision_action_args recipient rk r (dl_due_date d) subject)) s))"

definition complete_revision_actions :: "pk \<Rightarrow> string \<Rightarrow> pk \<Rightarrow> ('a execution_db_scheme, unit) op" where
  "complete_revision_actions rk event_type event_id s =
     (case tbl_get (db_revisions s) rk of
        None \<Rightarrow> (Inl (DoesNotExist ''DeliverableRevision''), s)
      | Some r \<Rightarrow>
          reconcile_notifications_for_event (Some (rv_project r)) ''DeliverableRevision'' (str_of_nat rk)
            event_type (str_of_nat event_id) s)"

fun run_callback :: "commit_callback \<Rightarrow> ('a execution_db_scheme, unit) op" where
  "run_callback (CreateRevisionAction recipient rk subject suffix) s = create_revision_action recipient rk subject suffix s"
| "run_callback (CompleteRevisionActions rk event_type event_id) s = complete_revision_actions rk event_type event_id s"

text \<open>The outermost transaction: its callbacks run after the commit, in order, and may raise.\<close>

definition committed_request :: "('a execution_db_scheme, 'b) op \<Rightarrow> ('a execution_db_scheme, 'b) op" where
  "committed_request m s =
     (case atomic m (s\<lparr>db_on_commit := []\<rparr>) of
        (Inl e, s1) \<Rightarrow> (Inl e, s1)
      | (Inr x, s1) \<Rightarrow>
          (case for_each run_callback (db_on_commit s1) (s1\<lparr>db_on_commit := []\<rparr>) of
             (Inl e, s2) \<Rightarrow> (Inl e, s2)
           | (Inr _, s2) \<Rightarrow> (Inr x, s2)))"

section \<open>Review assignments\<close>

definition target_project :: "'a execution_db_scheme \<Rightarrow> review_target \<Rightarrow> pk option" where
  "target_project s t =
     (case t of
        RevisionTarget k \<Rightarrow> map_option rv_project (tbl_get (db_revisions s) k)
      | WeeklyReport k \<Rightarrow> db_report_project s k
      | WritingVersion k \<Rightarrow> db_writing_version_project s k
      | DraftVersion k \<Rightarrow> db_draft_version_project s k)"

definition assignment_event ::
  "actor \<Rightarrow> string \<Rightarrow> string \<Rightarrow> pk \<Rightarrow> review_assignment \<Rightarrow> 'a execution_db_scheme \<Rightarrow> 'a execution_db_scheme" where
  "assignment_event u event_type summary k a =
     record_event (Some (ra_project a)) (Some u) event_type summary (Some (''SubmissionReviewAssignment'', k))
       (event_defaults\<lparr>opt_category := AuditEvent_SUBMISSION_REVIEW,
          opt_target_snapshot := Some [(''status'', PStr (case ra_assignment_status a of
             Assignment_ACTIVE \<Rightarrow> ''active'' | Assignment_REMOVED \<Rightarrow> ''removed''))],
          opt_allowed_snapshot_keys := Some {''status''}\<rparr>)"

definition assign_reviewer ::
  "actor \<Rightarrow> pk \<times> research_project \<Rightarrow> pk \<Rightarrow> review_target \<Rightarrow> ('a execution_db_scheme, pk) op" where
  "assign_reviewer u project membership target = atomic (\<lambda>s.
     let pid = fst project in
     if \<not> canAssignReviews (project_capabilities s u pid (snd project))
     then (Inl (PermissionDenied ''Review assignment is forbidden.''), s)
     else case tbl_get (db_memberships s) membership of
       None \<Rightarrow> (Inl (DoesNotExist ''ProjectMembership''), s)
     | Some pm \<Rightarrow>
     if pm_project pm \<noteq> pid \<or> pm_role pm \<noteq> ProjectMembership_REVIEWER \<or> pm_status pm \<noteq> ProjectMembership_ACTIVE
     then (Inl (ValidationError ''Select an active reviewer for this project.''), s)
     else if target_project s target \<noteq> Some pid
     then (Inl (ValidationError ''The review target does not belong to this project.''), s)
     else
       let new = \<lparr>ra_project = pid, ra_reviewer_membership = membership, ra_target = target,
                  ra_assigned_by = u_id u, ra_assigned_at = db_now s,
                  ra_assignment_status = Assignment_ACTIVE, ra_assignment_version = 1,
                  ra_removed_by = None, ra_removed_at = None\<rparr>;
           (k, a, s1) = (case tbl_first (\<lambda>_ a. ra_reviewer_membership a = membership
                \<and> ra_assignment_status a = Assignment_ACTIVE \<and> ra_target a = target) (db_assignments s) of
              Some (k, a) \<Rightarrow> (k, a, s)
            | None \<Rightarrow> (tbl_next (db_assignments s), new, s\<lparr>db_assignments := tbl_insert new (db_assignments s)\<rparr>))
       in (Inr k, assignment_event u ''submission_review.reviewer_assigned'' ''Reviewer assigned to submission'' k a s1))"

definition remove_review_assignment :: "actor \<Rightarrow> pk \<Rightarrow> int \<Rightarrow> ('a execution_db_scheme, pk) op" where
  "remove_review_assignment u k expected = atomic (\<lambda>s.
     case tbl_get (db_assignments s) k of
       None \<Rightarrow> (Inl (DoesNotExist ''SubmissionReviewAssignment''), s)
     | Some a \<Rightarrow>
     (case project_row s (ra_project a) of
       Inl e \<Rightarrow> (Inl e, s)
     | Inr p \<Rightarrow>
     if \<not> canAssignReviews (project_capabilities s u (ra_project a) p)
     then (Inl (PermissionDenied ''Review assignment removal is forbidden.''), s)
     else if int (ra_assignment_version a) \<noteq> expected
     then (Inl (ValidationError ''The review assignment changed; refresh and try again.''), s)
     else if ra_assignment_status a = Assignment_REMOVED then (Inr k, s)
     else
       let a' = a\<lparr>ra_assignment_status := Assignment_REMOVED, ra_removed_by := Some (u_id u),
                  ra_removed_at := Some (db_now s), ra_assignment_version := Suc (ra_assignment_version a)\<rparr>
       in (Inr k, assignment_event u ''submission_review.reviewer_removed'' ''Reviewer assignment removed'' k a'
             (s\<lparr>db_assignments := tbl_put k a' (db_assignments s)\<rparr>))))"

definition reviewer_can_access_target ::
  "'a execution_db_scheme \<Rightarrow> actor \<Rightarrow> review_target \<Rightarrow> bool" where
  "reviewer_can_access_target s u target =
     (case target_project s target of
        None \<Rightarrow> False
      | Some pid \<Rightarrow>
      (case tbl_get (db_projects s) pid of
        None \<Rightarrow> False
      | Some p \<Rightarrow>
        let c = project_capabilities s u pid p
        in if canManageProject c \<or> canSuperviseGovernance c then True
           else case tbl_first (\<lambda>_ m. pm_project m = pid \<and> pm_user m = u_id u
                   \<and> pm_role m = ProjectMembership_REVIEWER \<and> pm_status m = ProjectMembership_ACTIVE) (db_memberships s) of
             None \<Rightarrow> False
           | Some (mk, _) \<Rightarrow>
               tbl_exists (\<lambda>_ a. ra_reviewer_membership a = mk \<and> ra_assignment_status a = Assignment_ACTIVE
                  \<and> ra_target a = target) (db_assignments s)))"

section \<open>Planning\<close>

record deliverable_args =
  de_title :: string
  de_description :: string
  de_acceptance_criteria :: string
  de_due_date :: day
  de_assignee_ids :: "pk list"
  de_reviewer_ids :: "pk list"
  de_required :: bool
  de_reviewer_required :: bool
  de_task_ids :: "pk list"

definition deliverable_state :: "deliverable \<Rightarrow> pydict" where
  "deliverable_state d =
     [(''status'', PStr (deliverable_status_value (dl_current_status d))), (''version'', PInt (int (dl_version d)))]"

definition deliverable_event ::
  "actor \<Rightarrow> string \<Rightarrow> pk \<Rightarrow> deliverable \<Rightarrow> 'a execution_db_scheme \<Rightarrow> 'a execution_db_scheme" where
  "deliverable_event u action k d =
     record_execution_event (Some (dl_project d)) (Some u) action (Some (''Deliverable'', k))
       (Some (deliverable_state d)) False"

definition milestone_deliverable_orders :: "'a execution_db_scheme \<Rightarrow> pk \<Rightarrow> int list" where
  "milestone_deliverable_orders s mid = map (\<lambda>(k, d). dl_order d) (tbl_filter (\<lambda>_ d. dl_milestone d = mid) (db_deliverables s))"

definition add_assignees :: "pk \<Rightarrow> pk \<Rightarrow> instant \<Rightarrow> pk list \<Rightarrow> deliverable_assignee table \<Rightarrow> deliverable_assignee table" where
  "add_assignees k assigner now users t =
     foldl (\<lambda>t' v. tbl_insert \<lparr>as_deliverable = k, as_user = v, as_assigned_by = assigner, as_assigned_at = now,
       as_removed_at = None\<rparr> t') t users"

definition add_designations :: "pk \<Rightarrow> pk \<Rightarrow> instant \<Rightarrow> pk list \<Rightarrow> reviewer_designation table \<Rightarrow> reviewer_designation table" where
  "add_designations k assigner now users t =
     foldl (\<lambda>t' v. tbl_insert \<lparr>rd_deliverable = k, rd_reviewer = v, rd_designated_by = assigner,
       rd_designated_at = now, rd_removed_at = None\<rparr> t') t users"

definition add_task_links :: "pk \<Rightarrow> pk \<Rightarrow> instant \<Rightarrow> pk list \<Rightarrow> deliverable_task_link table \<Rightarrow> deliverable_task_link table" where
  "add_task_links k linker now tasks t =
     foldl (\<lambda>t' v. tbl_insert \<lparr>tl_deliverable = k, tl_task = v, tl_linked_by = linker, tl_linked_at = now\<rparr> t') t tasks"

text \<open>The people of a new deliverable, or the first guard they fail.\<close>

definition deliverable_people ::
  "'a execution_db_scheme \<Rightarrow> pk \<Rightarrow> deliverable_args \<Rightarrow> error + pk list \<times> pk list" where
  "deliverable_people s pid a =
     (case active_members s pid (de_assignee_ids a) of
        Inl e \<Rightarrow> Inl e
      | Inr assignees \<Rightarrow>
      (case (if de_reviewer_ids a \<noteq> [] then active_members s pid (de_reviewer_ids a) else Inr []) of
        Inl e \<Rightarrow> Inl e
      | Inr reviewers \<Rightarrow>
        if list_ex (\<lambda>(_, m). pm_role m \<notin> REVIEWER_ROLES) reviewers
        then Inl (ValueError ''Reviewers must have an eligible teacher project role.'')
        else if de_reviewer_required a \<and> reviewers = []
        then Inl (ValueError ''At least one reviewer is required.'')
        else Inr (map fst assignees, map fst reviewers)))"

definition new_deliverable :: "actor \<Rightarrow> pk \<Rightarrow> pk \<Rightarrow> deliverable_args \<Rightarrow> int \<Rightarrow> instant \<Rightarrow> deliverable" where
  "new_deliverable u pid mid a order now =
     \<lparr>dl_project = pid, dl_milestone = mid, dl_title = py_strip (de_title a),
      dl_description = py_strip (de_description a), dl_acceptance_criteria = py_strip (de_acceptance_criteria a),
      dl_due_date = de_due_date a, dl_required = de_required a, dl_reviewer_required = de_reviewer_required a,
      dl_order = order, dl_current_status = Deliverable_PLANNED, dl_progress_percent = 0,
      dl_blocker_summary = [], dl_current_revision = None, dl_accepted_revision = None, dl_accepted_at = None,
      dl_archived_at = None, dl_version = 1, dl_created_by = u_id u, dl_created_at = now, dl_updated_at = now\<rparr>"

definition create_deliverable :: "actor \<Rightarrow> pk \<Rightarrow> deliverable_args \<Rightarrow> ('a execution_db_scheme, pk) op" where
  "create_deliverable u mid a = atomic (\<lambda>s.
     case tbl_get (db_milestones s) mid of
       None \<Rightarrow> (Inl (DoesNotExist ''Milestone''), s)
     | Some m \<Rightarrow>
     (case project_row s (ms_project m) of
       Inl e \<Rightarrow> (Inl e, s)
     | Inr p \<Rightarrow>
     (case require_capability s u (ms_project m) p canManageDeliverables of
       Inl e \<Rightarrow> (Inl e, s)
     | Inr _ \<Rightarrow>
     if ms_archived_at m \<noteq> None
     then (Inl (ValueError ''Archived milestones cannot receive deliverables.''), s)
     else
     (case deliverable_people s (ms_project m) a of
       Inl e \<Rightarrow> (Inl e, s)
     | Inr (assignees, reviewers) \<Rightarrow>
     if py_strip (de_acceptance_criteria a) = []
     then (Inl (ValueError ''Acceptance criteria are required.''), s)
     else
     let d = new_deliverable u (ms_project m) mid a (next_order (milestone_deliverable_orders s mid)) (db_now s);
         wanted = remdups (de_task_ids a);
         tasks = filter (\<lambda>t. db_task_project s t = Some (ms_project m)) wanted
     in case insert_deliverable d s of
       (Inl e, s1) \<Rightarrow> (Inl e, s1)
     | (Inr k, s1) \<Rightarrow>
       let s2 = s1\<lparr>db_assignees := add_assignees k (u_id u) (db_now s) assignees (db_assignees s1),
                   db_designations := add_designations k (u_id u) (db_now s) reviewers (db_designations s1)\<rparr>
       in if length tasks \<noteq> length wanted
          then (Inl (ValueError ''Every linked task must belong to this project.''), s2)
          else (Inr k, deliverable_event u ''deliverable.created'' k d
                 (s2\<lparr>db_task_links := add_task_links k (u_id u) (db_now s) tasks (db_task_links s2)\<rparr>))))))"

text \<open>The planning fields of an update, where present.\<close>

record planning =
  pl_title :: "string option"
  pl_description :: "string option"
  pl_acceptance_criteria :: "string option"
  pl_due_date :: "day option"
  pl_required :: "bool option"
  pl_reviewer_required :: "bool option"
  pl_assignee_ids :: "pk list option"

record deliverable_changes =
  dc_planning :: "planning option"
  dc_progress_percent :: "int option"
  dc_work_status :: "string option"
  dc_blocker_summary :: "string option"

definition is_assignee :: "'a execution_db_scheme \<Rightarrow> actor \<Rightarrow> pk \<Rightarrow> bool" where
  "is_assignee s u k \<longleftrightarrow>
     tbl_exists (\<lambda>_ a. as_deliverable a = k \<and> as_user a = u_id u \<and> as_removed_at a = None) (db_assignees s)"

definition with_planning :: "planning \<Rightarrow> deliverable \<Rightarrow> deliverable" where
  "with_planning pl d =
     d\<lparr>dl_title := override (pl_title pl) (dl_title d),
       dl_description := override (pl_description pl) (dl_description d),
       dl_acceptance_criteria := override (pl_acceptance_criteria pl) (dl_acceptance_criteria d),
       dl_due_date := override (pl_due_date pl) (dl_due_date d),
       dl_required := override (pl_required pl) (dl_required d),
       dl_reviewer_required := override (pl_reviewer_required pl) (dl_reviewer_required d)\<rparr>"

definition replace_assignees :: "pk \<Rightarrow> pk \<Rightarrow> instant \<Rightarrow> pk list \<Rightarrow> deliverable_assignee table \<Rightarrow> deliverable_assignee table" where
  "replace_assignees k assigner now users t =
     (let t1 = tbl_update_where (\<lambda>_ a. as_deliverable a = k \<and> as_removed_at a = None \<and> as_user a \<notin> set users)
                 (\<lambda>a. a\<lparr>as_removed_at := Some now\<rparr>) t
      in add_assignees k assigner now
           (filter (\<lambda>v. \<not> tbl_exists (\<lambda>_ a. as_deliverable a = k \<and> as_user a = v \<and> as_removed_at a = None) t1) users) t1)"

text \<open>An empty dict of planning fields counts as none.\<close>

definition planning_given :: "planning option \<Rightarrow> bool" where
  "planning_given pl =
     (case pl of None \<Rightarrow> False
      | Some p \<Rightarrow> pl_title p \<noteq> None \<or> pl_description p \<noteq> None \<or> pl_acceptance_criteria p \<noteq> None
          \<or> pl_due_date p \<noteq> None \<or> pl_required p \<noteq> None \<or> pl_reviewer_required p \<noteq> None
          \<or> pl_assignee_ids p \<noteq> None)"

definition apply_planning ::
  "actor \<Rightarrow> pk \<Rightarrow> bool \<Rightarrow> planning option \<Rightarrow> deliverable \<Rightarrow> ('a execution_db_scheme, deliverable) op" where
  "apply_planning u k can_manage pl d s =
     (case pl of
        None \<Rightarrow> (Inr d, s)
      | Some p \<Rightarrow>
          if \<not> planning_given pl then (Inr d, s)
          else if \<not> can_manage
          then (Inl (PermissionDenied ''Deliverable planning is restricted to advisors.''), s)
          else case pl_assignee_ids p of
            None \<Rightarrow> (Inr (with_planning p d), s)
          | Some ids \<Rightarrow>
              (case active_members s (dl_project d) ids of
                 Inl e \<Rightarrow> (Inl e, s)
               | Inr members \<Rightarrow>
                   (Inr (with_planning p d), s\<lparr>db_assignees :=
                      replace_assignees k (u_id u) (db_now s) (map fst members) (db_assignees s)\<rparr>)))"

definition work_status_of_value :: "string \<Rightarrow> deliverable_status option" where
  "work_status_of_value v =
     (if v = ''planned'' then Some Deliverable_PLANNED
      else if v = ''in_progress'' then Some Deliverable_IN_PROGRESS
      else if v = ''blocked'' then Some Deliverable_BLOCKED else None)"

definition apply_progress :: "bool \<Rightarrow> deliverable_changes \<Rightarrow> deliverable \<Rightarrow> error + deliverable" where
  "apply_progress allowed c d =
     (if dc_progress_percent c = None \<and> dc_work_status c = None \<and> dc_blocker_summary c = None then Inr d
      else if \<not> allowed then Inl (PermissionDenied ''Deliverable progress update is forbidden.'')
      else if (case dc_progress_percent c of None \<Rightarrow> False | Some n \<Rightarrow> \<not> (0 \<le> n \<and> n \<le> 100))
      then Inl (ValueError ''Progress must be between 0 and 100.'')
      else if (case dc_work_status c of None \<Rightarrow> False | Some v \<Rightarrow> work_status_of_value v = None)
      then Inl (ValueError ''Select a valid work status.'')
      else
        let d' = d\<lparr>dl_progress_percent := override (dc_progress_percent c) (dl_progress_percent d),
                   dl_current_status := (case dc_work_status c of None \<Rightarrow> dl_current_status d
                      | Some v \<Rightarrow> override (work_status_of_value v) (dl_current_status d)),
                   dl_blocker_summary := override (map_option py_strip (dc_blocker_summary c)) (dl_blocker_summary d)\<rparr>
        in if dl_current_status d' = Deliverable_BLOCKED \<and> dl_blocker_summary d' = []
           then Inl (ValueError ''A blocker summary is required.'') else Inr d')"

text \<open>Saving a deliverable and reconciling its milestone, as every operation ends.\<close>

definition save_and_reconcile :: "pk \<Rightarrow> deliverable \<Rightarrow> ('a execution_db_scheme, unit) op" where
  "save_and_reconcile k d s =
     (case save_deliverable k d s of
        (Inl e, s1) \<Rightarrow> (Inl e, s1)
      | (Inr _, s1) \<Rightarrow> void (reconcile_milestone (dl_milestone d)) s1)"

definition update_deliverable ::
  "actor \<Rightarrow> pk \<Rightarrow> int \<Rightarrow> deliverable_changes \<Rightarrow> ('a execution_db_scheme, pk) op" where
  "update_deliverable u k expected c = atomic (\<lambda>s.
     case tbl_get (db_deliverables s) k of
       None \<Rightarrow> (Inl (DoesNotExist ''Deliverable''), s)
     | Some d \<Rightarrow>
     (case project_row s (dl_project d) of
       Inl e \<Rightarrow> (Inl e, s)
     | Inr p \<Rightarrow>
     (case require_writable p of
       Inl e \<Rightarrow> (Inl e, s)
     | Inr _ \<Rightarrow>
     if int (dl_version d) \<noteq> expected
     then (Inl (ValueError ''The deliverable changed; refresh and try again.''), s)
     else
     let can_manage = canManageDeliverables (project_capabilities s u (dl_project d) p);
         assignee = is_assignee s u k
     in case apply_planning u k can_manage (dc_planning c) d s of
       (Inl e, s1) \<Rightarrow> (Inl e, s1)
     | (Inr d1, s1) \<Rightarrow>
     (case apply_progress (can_manage \<or> assignee) c d1 of
       Inl e \<Rightarrow> (Inl e, s1)
     | Inr d2 \<Rightarrow>
       let d3 = d2\<lparr>dl_version := Suc (dl_version d2), dl_updated_at := db_now s1\<rparr>
       in case save_and_reconcile k d3 s1 of
            (Inl e, s2) \<Rightarrow> (Inl e, s2)
          | (Inr _, s2) \<Rightarrow> (Inr k, deliverable_event u ''deliverable.updated'' k d3 s2)))))"

definition archive_deliverable :: "actor \<Rightarrow> pk \<Rightarrow> int \<Rightarrow> ('a execution_db_scheme, pk) op" where
  "archive_deliverable u k expected = atomic (\<lambda>s.
     case tbl_get (db_deliverables s) k of
       None \<Rightarrow> (Inl (DoesNotExist ''Deliverable''), s)
     | Some d \<Rightarrow>
     (case project_row s (dl_project d) of
       Inl e \<Rightarrow> (Inl e, s)
     | Inr p \<Rightarrow>
     (case require_capability s u (dl_project d) p canManageDeliverables of
       Inl e \<Rightarrow> (Inl e, s)
     | Inr _ \<Rightarrow>
     if int (dl_version d) \<noteq> expected
     then (Inl (ValueError ''The deliverable changed; refresh and try again.''), s)
     else if dl_required d \<and> (case tbl_get (db_milestones s) (dl_milestone d) of
            None \<Rightarrow> False | Some m \<Rightarrow> ms_current_status m = Milestone_COMPLETED)
     then (Inl (ValueError ''Reopen the completed milestone before archiving required work.''), s)
     else
       let d' = d\<lparr>dl_current_status := Deliverable_ARCHIVED, dl_archived_at := Some (db_now s),
                  dl_version := Suc (dl_version d), dl_updated_at := db_now s\<rparr>
       in case save_and_reconcile k d' s of
            (Inl e, s1) \<Rightarrow> (Inl e, s1)
          | (Inr _, s1) \<Rightarrow> (Inr k, deliverable_event u ''deliverable.archived'' k d' s1))))"

section \<open>Evidence\<close>

text \<open>One item as the serializer hands it over; a key that is absent, 0 or empty is not supplied.\<close>

record evidence_item =
  ei_project_material_id :: "pk option"
  ei_task_id :: "pk option"
  ei_weekly_progress_report_id :: "pk option"
  ei_external_url :: "string option"
  ei_label :: "string option"

datatype evidence_choice = ByMaterial pk | ByTask pk | ByReport pk | ByUrl string

definition supplied_sources :: "evidence_item \<Rightarrow> evidence_choice list" where
  "supplied_sources i =
     (case ei_project_material_id i of None \<Rightarrow> [] | Some k \<Rightarrow> if k = 0 then [] else [ByMaterial k])
     @ (case ei_task_id i of None \<Rightarrow> [] | Some k \<Rightarrow> if k = 0 then [] else [ByTask k])
     @ (case ei_weekly_progress_report_id i of None \<Rightarrow> [] | Some k \<Rightarrow> if k = 0 then [] else [ByReport k])
     @ (case ei_external_url i of None \<Rightarrow> [] | Some t \<Rightarrow> if t = [] then [] else [ByUrl t])"

text \<open>
  \<open>urlparse\<close> as far as the scheme and the authority: leading control characters and spaces go,
  tabs and line ends go everywhere, the scheme is lower-cased, and an authority with unbalanced
  brackets is a \<open>ValueError\<close>.
\<close>

definition is_alpha :: "char \<Rightarrow> bool" where
  "is_alpha c = (let n = of_char c :: nat in (65 \<le> n \<and> n \<le> 90) \<or> (97 \<le> n \<and> n \<le> 122))"

definition scheme_char :: "char \<Rightarrow> bool" where
  "scheme_char c \<longleftrightarrow> is_alpha c \<or> is_digit c \<or> c \<in> set ''+-.''"

definition clean_url :: "string \<Rightarrow> string" where
  "clean_url url = filter (\<lambda>c. (of_char c :: nat) \<notin> {9, 10, 13}) (dropWhile (\<lambda>c. (of_char c :: nat) \<le> 32) url)"

definition split_scheme :: "string \<Rightarrow> string \<times> string" where
  "split_scheme url =
     (let before = takeWhile (\<lambda>c. c \<noteq> CHR '':'') url; rest = dropWhile (\<lambda>c. c \<noteq> CHR '':'') url
      in if rest \<noteq> [] \<and> before \<noteq> [] \<and> is_alpha (hd before) \<and> list_all scheme_char before
         then (py_lower before, tl rest) else ([], url))"

definition url_parts :: "(string \<Rightarrow> bool) \<Rightarrow> string \<Rightarrow> error + string \<times> string" where
  "url_parts bracketed_ok url =
     (let (scheme, rest) = split_scheme (clean_url url);
          netloc = (if py_startswith rest ''//'' then takeWhile (\<lambda>c. c \<notin> set ''/?#'') (drop 2 rest) else [])
      in if (CHR ''['' \<in> set netloc) \<noteq> (CHR '']'' \<in> set netloc) then Inl (ValueError ''Invalid IPv6 URL'')
         else if CHR ''['' \<in> set netloc \<and> \<not> bracketed_ok netloc then Inl (ValueError ''Invalid IPv6 URL'')
         else Inr (scheme, netloc))"

definition evidence_label :: "evidence_item \<Rightarrow> string" where
  "evidence_label i =
     take 255 (case ei_label i of None \<Rightarrow> ''Evidence'' | Some l \<Rightarrow> if l = [] then ''Evidence'' else l)"

text \<open>The row without its revision, which is set when the rows are created.\<close>

definition evidence_row :: "actor \<Rightarrow> deliverable \<Rightarrow> evidence_item \<Rightarrow> instant \<Rightarrow> evidence_choice \<Rightarrow> pk \<Rightarrow> deliverable_evidence" where
  "evidence_row u d i now c revision =
     \<lparr>ev_project = dl_project d, ev_revision = revision,
      ev_project_material = (case c of ByMaterial k \<Rightarrow> Some k | _ \<Rightarrow> None),
      ev_task = (case c of ByTask k \<Rightarrow> Some k | _ \<Rightarrow> None),
      ev_weekly_progress_report = (case c of ByReport k \<Rightarrow> Some k | _ \<Rightarrow> None),
      ev_external_url = (case c of ByUrl url \<Rightarrow> url | _ \<Rightarrow> []),
      ev_label_snapshot = evidence_label i,
      ev_source_type_snapshot = (case c of ByMaterial k \<Rightarrow> Evidence_MATERIAL | ByTask k \<Rightarrow> Evidence_TASK
        | ByReport k \<Rightarrow> Evidence_REPORT | ByUrl url \<Rightarrow> Evidence_URL),
      ev_source_id_snapshot = (case c of ByMaterial k \<Rightarrow> str_of_nat k | ByTask k \<Rightarrow> str_of_nat k
        | ByReport k \<Rightarrow> str_of_nat k | ByUrl url \<Rightarrow> url),
      ev_added_by = u_id u, ev_created_at = now\<rparr>"

definition source_project :: "'a execution_db_scheme \<Rightarrow> evidence_choice \<Rightarrow> pk option" where
  "source_project s c =
     (case c of ByMaterial k \<Rightarrow> db_material_project s k | ByTask k \<Rightarrow> db_task_project s k
      | ByReport k \<Rightarrow> db_report_project s k | ByUrl url \<Rightarrow> None)"

definition validate_evidence ::
  "'a execution_db_scheme \<Rightarrow> actor \<Rightarrow> deliverable \<Rightarrow> evidence_item \<Rightarrow> error + (pk \<Rightarrow> deliverable_evidence)" where
  "validate_evidence s u d i =
     (case supplied_sources i of
        [ByUrl url] \<Rightarrow>
          (case url_parts (db_bracketed_netloc_ok s) url of
             Inl e \<Rightarrow> Inl e
           | Inr (scheme, netloc) \<Rightarrow>
               if scheme \<noteq> ''https'' \<or> netloc = [] \<or> 2048 < length url
               then Inl (ValueError ''External evidence must use a valid HTTPS URL.'')
               else Inr (evidence_row u d i (db_now s) (ByUrl url)))
      | [c] \<Rightarrow>
          if source_project s c \<noteq> Some (dl_project d)
          then Inl (ValueError ''Evidence must belong to this project.'')
          else Inr (evidence_row u d i (db_now s) c)
      | _ \<Rightarrow> Inl (ValueError ''Each evidence item must select exactly one source.''))"

fun validate_all ::
  "'a execution_db_scheme \<Rightarrow> actor \<Rightarrow> deliverable \<Rightarrow> evidence_item list
   \<Rightarrow> error + (pk \<Rightarrow> deliverable_evidence) list" where
  "validate_all s u d [] = Inr []"
| "validate_all s u d (i # is) =
     (case validate_evidence s u d i of
        Inl e \<Rightarrow> Inl e
      | Inr r \<Rightarrow> (case validate_all s u d is of Inl e \<Rightarrow> Inl e | Inr rs \<Rightarrow> Inr (r # rs)))"

text \<open>\<open>bulk_create\<close>: PostgreSQL refuses a \<open>source_id_snapshot\<close> longer than its column.\<close>

definition insert_evidence :: "pk \<Rightarrow> (pk \<Rightarrow> deliverable_evidence) list \<Rightarrow> ('a execution_db_scheme, unit) op" where
  "insert_evidence k rows s =
     (if list_ex (\<lambda>r. 255 < length (ev_source_id_snapshot (r k))) rows
      then (Inl (DataError ''source_id_snapshot''), s)
      else (Inr (), s\<lparr>db_evidence := foldl (\<lambda>t r. tbl_insert (r k) t) (db_evidence s) rows\<rparr>))"

section \<open>Revisions\<close>

definition insert_revision :: "deliverable_revision \<Rightarrow> ('a execution_db_scheme, pk) op" where
  "insert_revision r s =
     (if key_taken revision_number_key r (db_revisions s)
      then (Inl (IntegrityError ''unique_deliverable_revision_number''), s)
      else if key_taken revision_retry_key r (db_revisions s)
      then (Inl (IntegrityError ''unique_deliverable_revision_retry''), s)
      else (Inr (tbl_next (db_revisions s)), s\<lparr>db_revisions := tbl_insert r (db_revisions s)\<rparr>))"

definition next_revision_number :: "'a execution_db_scheme \<Rightarrow> pk \<Rightarrow> nat" where
  "next_revision_number s k =
     Suc (foldr max (map (\<lambda>(_, r). rv_revision_number r) (tbl_filter (\<lambda>_ r. rv_deliverable r = k) (db_revisions s))) 0)"

definition open_designations :: "'a execution_db_scheme \<Rightarrow> pk \<Rightarrow> (pk \<times> reviewer_designation) list" where
  "open_designations s k = tbl_filter (\<lambda>_ x. rd_deliverable x = k \<and> rd_removed_at x = None) (db_designations s)"

text \<open>The assignment a designation leads to, made in the name of the project's advisor.\<close>

definition assign_designated :: "pk \<times> research_project \<Rightarrow> pk \<Rightarrow> pk \<times> reviewer_designation \<Rightarrow> ('a execution_db_scheme, unit) op" where
  "assign_designated project rk x s =
     (case tbl_first (\<lambda>_ m. pm_project m = fst project \<and> pm_user m = rd_reviewer (snd x)
          \<and> pm_role m = ProjectMembership_REVIEWER \<and> pm_status m = ProjectMembership_ACTIVE) (db_memberships s) of
        None \<Rightarrow> (Inr (), s)
      | Some (mk, _) \<Rightarrow>
         (case actor_of s (rp_advisor (snd project)) of
            None \<Rightarrow> (Inl (DoesNotExist ''User''), s)
          | Some advisor \<Rightarrow> void (assign_reviewer advisor project mk (RevisionTarget rk)) s))"

definition review_callbacks :: "pk \<Rightarrow> pk \<Rightarrow> (pk \<times> reviewer_designation) list \<Rightarrow> commit_callback list" where
  "review_callbacks advisor rk xs =
     (if xs = [] then [CreateRevisionAction advisor rk ''Deliverable decision required'' ''advisor-decision'']
      else map (\<lambda>(_, x). CreateRevisionAction (rd_reviewer x) rk ''Deliverable review required''
                  (''reviewer:'' @ str_of_nat (rd_reviewer x))) xs)"

definition may_submit ::
  "'a execution_db_scheme \<Rightarrow> actor \<Rightarrow> pk \<Rightarrow> research_project \<Rightarrow> deliverable \<Rightarrow> evidence_item list \<Rightarrow> error + unit" where
  "may_submit s u k p d evidence =
     (if \<not> is_assignee s u k \<and> \<not> canManageDeliverables (project_capabilities s u (dl_project d) p)
      then Inl (PermissionDenied ''Only an assignee or advisor may submit this deliverable.'')
      else if dl_current_status d \<in> {Deliverable_ACCEPTED, Deliverable_ARCHIVED}
      then Inl (ValueError ''This deliverable cannot receive a new revision.'')
      else if evidence = [] then Inl (ValueError ''At least one evidence item is required.'')
      else if dl_reviewer_required d \<and> open_designations s k = []
      then Inl (ValueError ''An active reviewer designation is required.'')
      else Inr ())"

definition new_revision :: "actor \<Rightarrow> pk \<Rightarrow> deliverable \<Rightarrow> nat \<Rightarrow> string \<Rightarrow> string \<Rightarrow> instant \<Rightarrow> deliverable_revision" where
  "new_revision u k d n description key now =
     \<lparr>rv_project = dl_project d, rv_deliverable = k, rv_revision_number = n,
      rv_criteria_snapshot = dl_acceptance_criteria d, rv_description_snapshot = py_strip description,
      rv_submitted_by = u_id u, rv_submitted_at = now, rv_idempotency_key = key,
      rv_state = Revision_SUBMITTED\<rparr>"

definition revision_event ::
  "actor \<Rightarrow> string \<Rightarrow> pk \<Rightarrow> deliverable_revision \<Rightarrow> 'a execution_db_scheme \<Rightarrow> 'a execution_db_scheme" where
  "revision_event u action rk r =
     record_execution_event (Some (rv_project r)) (Some u) action (Some (''DeliverableRevision'', rk))
       (Some [(''status'', PStr (revision_state_value (rv_state r)))]) False"

text \<open>What follows the creation of the revision: its evidence, the assignments, the status, the callbacks.\<close>

definition submitted :: "deliverable \<Rightarrow> pk \<Rightarrow> instant \<Rightarrow> deliverable" where
  "submitted d rk now =
     d\<lparr>dl_current_revision := Some rk,
       dl_current_status := (if dl_reviewer_required d then Deliverable_UNDER_REVIEW else Deliverable_SUBMITTED),
       dl_version := Suc (dl_version d), dl_updated_at := now\<rparr>"

definition after_revision ::
  "actor \<Rightarrow> pk \<Rightarrow> research_project \<Rightarrow> deliverable \<Rightarrow> (pk \<Rightarrow> deliverable_evidence) list \<Rightarrow> pk \<Rightarrow> deliverable_revision
   \<Rightarrow> ('a execution_db_scheme, pk) op" where
  "after_revision u k p d rows rk r s =
     (case insert_evidence rk rows s of
        (Inl e, s1) \<Rightarrow> (Inl e, s1)
      | (Inr _, s1) \<Rightarrow>
     (case for_each (assign_designated (dl_project d, p) rk) (open_designations s1 k) s1 of
        (Inl e, s2) \<Rightarrow> (Inl e, s2)
      | (Inr _, s2) \<Rightarrow>
     (case save_and_reconcile k (submitted d rk (db_now s2)) s2 of
        (Inl e, s3) \<Rightarrow> (Inl e, s3)
      | (Inr _, s3) \<Rightarrow>
        let s4 = revision_event u ''deliverable.submitted'' rk r s3
        in (Inr rk, s4\<lparr>db_on_commit := db_on_commit s4 @ review_callbacks (rp_advisor p) rk (open_designations s4 k)\<rparr>))))"

definition revision_by_key :: "'a execution_db_scheme \<Rightarrow> pk \<Rightarrow> string \<Rightarrow> pk option" where
  "revision_by_key s k key =
     (if key = [] then None
      else map_option fst (tbl_first (\<lambda>_ r. rv_deliverable r = k \<and> rv_idempotency_key r = key) (db_revisions s)))"

definition submit_deliverable ::
  "actor \<Rightarrow> pk \<Rightarrow> string \<Rightarrow> evidence_item list \<Rightarrow> string \<Rightarrow> ('a execution_db_scheme, pk) op" where
  "submit_deliverable u k description evidence key = atomic (\<lambda>s.
     case tbl_get (db_deliverables s) k of
       None \<Rightarrow> (Inl (DoesNotExist ''Deliverable''), s)
     | Some d \<Rightarrow>
     (case project_row s (dl_project d) of
       Inl e \<Rightarrow> (Inl e, s)
     | Inr p \<Rightarrow>
     (case require_writable p of
       Inl e \<Rightarrow> (Inl e, s)
     | Inr _ \<Rightarrow>
     (case revision_by_key s k key of
       Some rk \<Rightarrow> (Inr rk, s)
     | None \<Rightarrow>
     (case may_submit s u k p d evidence of
       Inl e \<Rightarrow> (Inl e, s)
     | Inr _ \<Rightarrow>
     (case validate_all s u d evidence of
       Inl e \<Rightarrow> (Inl e, s)
     | Inr rows \<Rightarrow>
       let r = new_revision u k d (next_revision_number s k) description key (db_now s)
       in case insert_revision r s of
            (Inl e, s1) \<Rightarrow> (Inl e, s1)
          | (Inr rk, s1) \<Rightarrow> after_revision u k p d rows rk r s1))))))"

section \<open>Recommendations\<close>

definition recommendation_of_value :: "string \<Rightarrow> recommendation_value option" where
  "recommendation_of_value v =
     (if v = ''accept'' then Some Recommendation_ACCEPT
      else if v = ''return'' then Some Recommendation_RETURN else None)"

definition insert_recommendation :: "review_recommendation \<Rightarrow> ('a execution_db_scheme, pk) op" where
  "insert_recommendation x s =
     (if key_taken open_recommendation_key x (db_recommendations s)
      then (Inl (IntegrityError ''unique_open_deliverable_recommendation''), s)
      else (Inr (tbl_next (db_recommendations s)), s\<lparr>db_recommendations := tbl_insert x (db_recommendations s)\<rparr>))"

definition designated_reviewer :: "'a execution_db_scheme \<Rightarrow> actor \<Rightarrow> deliverable_revision \<Rightarrow> bool" where
  "designated_reviewer s u r \<longleftrightarrow>
     tbl_exists (\<lambda>_ x. rd_deliverable x = rv_deliverable r \<and> rd_reviewer x = u_id u \<and> rd_removed_at x = None)
       (db_designations s)
     \<and> tbl_exists (\<lambda>_ m. pm_project m = rv_project r \<and> pm_user m = u_id u
         \<and> pm_status m = ProjectMembership_ACTIVE \<and> pm_role m \<in> REVIEWER_ROLES) (db_memberships s)"

definition supersede_open :: "pk \<Rightarrow> pk \<Rightarrow> instant \<Rightarrow> review_recommendation table \<Rightarrow> review_recommendation table" where
  "supersede_open rk reviewer now t =
     tbl_update_where (\<lambda>_ x. rc_revision x = rk \<and> rc_reviewer x = reviewer \<and> rc_superseded_at x = None)
       (\<lambda>x. x\<lparr>rc_superseded_at := Some now\<rparr>) t"

definition assignment_for :: "'a execution_db_scheme \<Rightarrow> actor \<Rightarrow> pk \<Rightarrow> pk option" where
  "assignment_for s u rk =
     map_option fst (tbl_first (\<lambda>_ a. ra_target a = RevisionTarget rk
        \<and> map_option pm_user (tbl_get (db_memberships s) (ra_reviewer_membership a)) = Some (u_id u)
        \<and> ra_assignment_status a = Assignment_ACTIVE) (db_assignments s))"

definition recommended_state :: "recommendation_value \<Rightarrow> revision_state" where
  "recommended_state v =
     (if v = Recommendation_ACCEPT then Revision_RECOMMENDED_ACCEPT else Revision_RECOMMENDED_RETURN)"

definition recommend_deliverable ::
  "actor \<Rightarrow> pk \<Rightarrow> string \<Rightarrow> string \<Rightarrow> ('a execution_db_scheme, pk) op" where
  "recommend_deliverable u rk recommendation rationale = atomic (\<lambda>s.
     case tbl_get (db_revisions s) rk of
       None \<Rightarrow> (Inl (DoesNotExist ''DeliverableRevision''), s)
     | Some r \<Rightarrow>
     if \<not> designated_reviewer s u r
     then (Inl (PermissionDenied ''A current reviewer designation is required.''), s)
     else
     (case recommendation_of_value recommendation of
       None \<Rightarrow> (Inl (ValueError ''Select a valid recommendation.''), s)
     | Some v \<Rightarrow>
     if py_strip rationale = [] then (Inl (ValueError ''Recommendation rationale is required.''), s)
     else
     (case project_row s (rv_project r) of
       Inl e \<Rightarrow> (Inl e, s)
     | Inr p \<Rightarrow>
       let s1 = s\<lparr>db_recommendations := supersede_open rk (u_id u) (db_now s) (db_recommendations s)\<rparr>;
           x = \<lparr>rc_project = rv_project r, rc_revision = rk, rc_reviewer = u_id u, rc_recommendation = v,
                rc_rationale = py_strip rationale, rc_review_assignment = assignment_for s1 u rk,
                rc_created_at = db_now s, rc_superseded_at = None\<rparr>
       in case insert_recommendation x s1 of
            (Inl e, s2) \<Rightarrow> (Inl e, s2)
          | (Inr xk, s2) \<Rightarrow>
            let r' = r\<lparr>rv_state := recommended_state v\<rparr>;
                s3 = s2\<lparr>db_revisions := tbl_put rk r' (db_revisions s2)\<rparr>;
                s4 = revision_event u ''deliverable.recommended'' rk r' s3
            in (Inr xk, s4\<lparr>db_on_commit := db_on_commit s4
                 @ [CompleteRevisionActions rk ''execution.deliverable.recommended'' (next_event s3),
                    CreateRevisionAction (rp_advisor p) rk ''Deliverable final decision required'' ''advisor-decision'']\<rparr>))))"

section \<open>Final decisions\<close>

definition decision_of_value :: "string \<Rightarrow> decision_value option" where
  "decision_of_value v =
     (if v = ''accepted'' then Some Decision_ACCEPTED
      else if v = ''returned'' then Some Decision_RETURNED else None)"

definition insert_decision :: "final_decision \<Rightarrow> ('a execution_db_scheme, pk) op" where
  "insert_decision x s =
     (if key_taken decision_revision_key x (db_decisions s) \<or> key_taken decision_retry_key x (db_decisions s)
      then (Inl (IntegrityError ''unique_deliverable_decision''), s)
      else (Inr (tbl_next (db_decisions s)), s\<lparr>db_decisions := tbl_insert x (db_decisions s)\<rparr>))"

definition decision_of :: "'a execution_db_scheme \<Rightarrow> pk \<Rightarrow> pk option" where
  "decision_of s rk = map_option fst (tbl_first (\<lambda>_ x. fd_revision x = rk) (db_decisions s))"

text \<open>The guards between the capability and the creation.\<close>

definition may_decide ::
  "'a execution_db_scheme \<Rightarrow> pk \<Rightarrow> deliverable \<Rightarrow> string \<Rightarrow> string \<Rightarrow> error + decision_value" where
  "may_decide s rk d decision rationale =
     (case decision_of_value decision of
        None \<Rightarrow> Inl (ValueError ''Select a valid final decision.'')
      | Some v \<Rightarrow>
          if v = Decision_RETURNED \<and> py_strip rationale = []
          then Inl (ValueError ''A return rationale is required.'')
          else if dl_reviewer_required d
            \<and> \<not> tbl_exists (\<lambda>_ x. rc_revision x = rk \<and> rc_superseded_at x = None) (db_recommendations s)
          then Inl (ValueError ''A reviewer recommendation is required first.'')
          else Inr v)"

definition decided_deliverable :: "decision_value \<Rightarrow> pk \<Rightarrow> instant \<Rightarrow> deliverable \<Rightarrow> deliverable" where
  "decided_deliverable v rk now d =
     (case v of
        Decision_ACCEPTED \<Rightarrow>
          d\<lparr>dl_current_status := Deliverable_ACCEPTED, dl_accepted_revision := Some rk,
            dl_accepted_at := Some now, dl_progress_percent := 100,
            dl_version := Suc (dl_version d), dl_updated_at := now\<rparr>
      | Decision_RETURNED \<Rightarrow>
          d\<lparr>dl_current_status := Deliverable_CHANGES_REQUESTED, dl_accepted_revision := None,
            dl_accepted_at := None, dl_version := Suc (dl_version d), dl_updated_at := now\<rparr>)"

definition decided_state :: "decision_value \<Rightarrow> revision_state" where
  "decided_state v = (case v of Decision_ACCEPTED \<Rightarrow> Revision_ACCEPTED | Decision_RETURNED \<Rightarrow> Revision_RETURNED)"

definition new_decision ::
  "actor \<Rightarrow> pk \<Rightarrow> deliverable_revision \<Rightarrow> decision_value \<Rightarrow> string \<Rightarrow> string \<Rightarrow> instant \<Rightarrow> final_decision" where
  "new_decision u rk r v rationale key now =
     \<lparr>fd_project = rv_project r, fd_revision = rk, fd_decision = v, fd_rationale = py_strip rationale,
      fd_decided_by = u_id u, fd_decided_at = now, fd_idempotency_key = key\<rparr>"

definition after_decision ::
  "actor \<Rightarrow> pk \<Rightarrow> deliverable_revision \<Rightarrow> deliverable \<Rightarrow> decision_value \<Rightarrow> pk \<Rightarrow> ('a execution_db_scheme, pk) op" where
  "after_decision u rk r d v xk s =
     (let s1 = s\<lparr>db_revisions := tbl_put rk (r\<lparr>rv_state := decided_state v\<rparr>) (db_revisions s)\<rparr>
      in case save_and_reconcile (rv_deliverable r) (decided_deliverable v rk (db_now s) d) s1 of
           (Inl e, s2) \<Rightarrow> (Inl e, s2)
         | (Inr _, s2) \<Rightarrow>
             let s3 = record_execution_event (Some (rv_project r)) (Some u) ''deliverable.decided''
                        (Some (''DeliverableFinalDecision'', xk))
                        (Some [(''status'', PStr (decision_value_text v))]) True s2
             in (Inr xk, on_commit (CompleteRevisionActions rk ''execution.deliverable.decided'' (next_event s2)) s3))"

text \<open>
  The fallback of the \<open>except IntegrityError\<close> branch queries inside the block whose transaction the
  error has already marked for rollback, where Django refuses every query.
\<close>

definition decide_deliverable ::
  "actor \<Rightarrow> pk \<Rightarrow> string \<Rightarrow> string \<Rightarrow> string \<Rightarrow> ('a execution_db_scheme, pk) op" where
  "decide_deliverable u rk decision rationale key = atomic (\<lambda>s.
     case tbl_get (db_revisions s) rk of
       None \<Rightarrow> (Inl (DoesNotExist ''DeliverableRevision''), s)
     | Some r \<Rightarrow>
     (case project_row s (rv_project r) of
       Inl e \<Rightarrow> (Inl e, s)
     | Inr p \<Rightarrow>
     (case require_capability s u (rv_project r) p canDecideDeliverables of
       Inl e \<Rightarrow> (Inl e, s)
     | Inr _ \<Rightarrow>
     (case decision_of s rk of
       Some xk \<Rightarrow> (Inr xk, s)
     | None \<Rightarrow>
     (case tbl_get (db_deliverables s) (rv_deliverable r) of
       None \<Rightarrow> (Inl (DoesNotExist ''Deliverable''), s)
     | Some d \<Rightarrow>
     (case may_decide s rk d decision rationale of
       Inl e \<Rightarrow> (Inl e, s)
     | Inr v \<Rightarrow>
       (case insert_decision (new_decision u rk r v rationale key (db_now s)) s of
          (Inl e, s1) \<Rightarrow> (if key \<noteq> [] then (Inl TransactionManagementError, s1) else (Inl e, s1))
        | (Inr xk, s1) \<Rightarrow> after_decision u rk r d v xk s1)))))))"

end
