(* ===== verification/Samples.thy ===== *)
theory Samples
  imports ResourceCommands Deliverables
begin

text \<open>
  Concrete rows and databases, on which the properties are applied at an input: four accounts,
  one project with an advisor, a student and a reviewer, one resource of each kind, bookings,
  notifications, a milestone with a deliverable.
\<close>

section \<open>Accounts and a project\<close>

definition sample_now :: instant where
  "sample_now = 1728000000000000"

definition hours :: "int \<Rightarrow> instant" where
  "hours h = sample_now + h * usec_per_hour"

definition sample_user :: "string \<Rightarrow> global_role \<Rightarrow> user" where
  "sample_user name role =
     \<lparr>u_email = name @ ''@example.org'', u_name = name, u_global_role = role, u_status = User_ACTIVE,
      u_locale = ''en'', u_requested_role = Requested_STUDENT, u_active_role = Requested_STUDENT,
      u_nickname = [], u_email_verified_at = Some 0, u_is_superuser = False\<rparr>"

definition sample_users :: "user table" where
  "sample_users = \<lparr>tbl_rows = [(1, sample_user ''ada'' User_ADVISOR), (2, sample_user ''sam'' User_STUDENT),
     (3, sample_user ''rob'' User_ADVISOR), (4, sample_user ''ann'' User_ADMIN)], tbl_next = 5\<rparr>"

definition sample_actor :: "pk \<Rightarrow> string \<Rightarrow> global_role \<Rightarrow> actor" where
  "sample_actor k name role =
     \<lparr>u_email = name @ ''@example.org'', u_name = name, u_global_role = role, u_status = User_ACTIVE,
      u_locale = ''en'', u_requested_role = Requested_STUDENT, u_active_role = Requested_STUDENT,
      u_nickname = [], u_email_verified_at = Some 0, u_is_superuser = False,
      u_id = k, u_is_authenticated = True\<rparr>"

definition ada :: actor where "ada = sample_actor 1 ''ada'' User_ADVISOR"
definition sam :: actor where "sam = sample_actor 2 ''sam'' User_STUDENT"
definition rob :: actor where "rob = sample_actor 3 ''rob'' User_ADVISOR"
definition ann :: actor where "ann = sample_actor 4 ''ann'' User_ADMIN"

lemmas sample_actors = ada_def sam_def rob_def ann_def sample_actor_def

definition sample_project :: research_project where
  "sample_project =
     \<lparr>rp_title = ''Optics'', rp_description = [], rp_advisor = 1, rp_status = ResearchProject_ACTIVE,
      rp_starts_on = None, rp_ends_on = None, rp_archived_at = None,
      rp_governance_state = ResearchProject_NORMAL, rp_governance_hold_reason = ResearchProject_NO_REASON,
      rp_governance_hold_started_at = None, rp_governance_hold_resolved_at = None,
      rp_governance_hold_resolved_by = None, rp_governance_hold_resolution_reason = [],
      rp_governance_version = 1, rp_created_at = 0, rp_updated_at = 0\<rparr>"

definition sample_member :: "pk \<Rightarrow> membership_role \<Rightarrow> project_membership" where
  "sample_member u role =
     \<lparr>pm_project = 1, pm_user = u, pm_role = role, pm_status = ProjectMembership_ACTIVE, pm_joined_at = 0,
      pm_removed_at = None, pm_assigned_by = None, pm_assignment_reason = [], pm_role_changed_at = None,
      pm_version = 1\<rparr>"

definition sample_projects :: "research_project table" where
  "sample_projects = \<lparr>tbl_rows = [(1, sample_project)], tbl_next = 2\<rparr>"

definition sample_members :: "project_membership table" where
  "sample_members = \<lparr>tbl_rows = [(1, sample_member 1 ProjectMembership_ADVISOR),
     (2, sample_member 2 ProjectMembership_STUDENT), (3, sample_member 3 ProjectMembership_REVIEWER)],
     tbl_next = 4\<rparr>"

text \<open>A time zone database that knows UTC only.\<close>

definition utc_zones :: zone_db where
  "utc_zones = \<lparr>zone_known = (\<lambda>z. z = ''UTC''), zone_malformed = (\<lambda>_. False),
     to_local = (\<lambda>_ t. t), from_local = (\<lambda>_ t. t)\<rparr>"

section \<open>Resources\<close>

definition sample_type :: resource_type where
  "sample_type =
     \<lparr>rt_name = ''Optical'', rt_description = [], rt_scope = ResourceType_GLOBAL, rt_field_schema = [],
      rt_eligibility_policy = [], rt_booking_policy = [], rt_confirmation_policy = ResourceType_IMMEDIATE,
      rt_status = ResourceType_ACTIVE, rt_created_at = 0, rt_updated_at = 0\<rparr>"

definition sample_item :: "resource_kind \<Rightarrow> int \<Rightarrow> int \<Rightarrow> resource_item" where
  "sample_item kind quantity stock =
     \<lparr>ri_resource_type = 1, ri_kind = kind, ri_name = ''Item'', ri_description = [], ri_location = [],
      ri_total_quantity = quantity, ri_field_values = [], ri_availability_policy = [],
      ri_confirmation_policy_override = None, ri_manager = Some 1, ri_use_instructions = [],
      ri_stock_on_hand = stock, ri_reorder_level = 1, ri_stock_unit = ''box'', ri_unit_cost = 0,
      ri_calibration_interval_days = None, ri_next_calibration_at = None,
      ri_status = ResourceItem_AVAILABLE, ri_version = 1, ri_created_at = 0, ri_updated_at = 0\<rparr>"

definition sample_booking :: "int \<Rightarrow> int \<Rightarrow> int \<Rightarrow> booking_status \<Rightarrow> booking" where
  "sample_booking from till quantity st =
     \<lparr>bk_project = None, bk_resource_item = 1, bk_requested_by = 2, bk_starts_at = hours from,
      bk_ends_at = hours till, bk_quantity = quantity, bk_origin = Booking_STUDENT_REQUEST,
      bk_confirmation_policy = ResourceType_IMMEDIATE, bk_status = st, bk_purpose = [], bk_reviewer = None,
      bk_decision_note = [], bk_decided_at = None, bk_version = 1, bk_created_at = 0, bk_updated_at = 0,
      bk_cancelled_at = None, bk_completed_at = None\<rparr>"

definition sample_bookings :: "booking table" where
  "sample_bookings = \<lparr>tbl_rows = [(1, sample_booking 1 3 2 Booking_CONFIRMED),
     (2, sample_booking 5 6 1 Booking_PENDING)], tbl_next = 3\<rparr>"

definition sample_stock :: "stock_transaction table" where
  "sample_stock = \<lparr>tbl_rows = [(1, \<lparr>st_resource_item = 2, st_project = None, st_kind = Stock_ADJUSTMENT,
     st_quantity_delta = 5, st_balance_after = 5, st_unit_cost = 0, st_note = ''Opening balance'',
     st_recorded_by = 1, st_recorded_at = 0\<rparr>)], tbl_next = 2\<rparr>"

definition sample_resources :: resource_db where
  "sample_resources =
     \<lparr>db_now = sample_now, db_request_id = ''-'', db_users = sample_users, db_audit = tbl_empty,
      db_projects = sample_projects, db_memberships = sample_members, db_notifications = tbl_empty,
      db_read_receipts = tbl_empty, db_delivery_attempts = tbl_empty, db_preference_profiles = tbl_empty,
      db_category_preferences = tbl_empty, db_notification_policies = tbl_empty,
      db_settings = base_notification_settings, db_zones = utc_zones, db_resolvers = Map.empty,
      db_resource_types = \<lparr>tbl_rows = [(1, sample_type)], tbl_next = 2\<rparr>,
      db_resource_items = \<lparr>tbl_rows = [(1, sample_item ResourceItem_EQUIPMENT 3 0),
         (2, sample_item ResourceItem_CONSUMABLE 1 5)], tbl_next = 3\<rparr>,
      db_use_submissions = tbl_empty, db_bookings = sample_bookings, db_maintenance = tbl_empty,
      db_stock = sample_stock\<rparr>"

lemmas sample_resource_defs = sample_resources_def sample_bookings_def sample_booking_def sample_item_def
  sample_stock_def sample_type_def hours_def sample_now_def usec_defs tbl_wf_def

lemma sample_committed: "committed sample_bookings rid t \<le> 2"
  by (simp add: committed_def row_sum_alt sample_bookings_def sample_booking_def held_at_def holds_capacity_def)

lemma sample_capacity: "capacity_ok sample_resources"
proof -
  have "committed sample_bookings rid t \<le> ri_total_quantity r"
    if "tbl_get (db_resource_items sample_resources) rid = Some r" for rid r t
  proof (cases "rid = 1")
    case True
    then show ?thesis
      using that sample_committed [of rid t] by (auto simp: sample_resources_def tbl_get_def sample_item_def)
  next
    case False
    then have "committed sample_bookings rid t = 0"
      by (simp add: committed_def row_sum_alt sample_bookings_def sample_booking_def held_at_def)
    then show ?thesis
      using that by (auto simp: sample_resources_def tbl_get_def sample_item_def split: if_splits)
  qed
  then show ?thesis
    by (auto simp: capacity_ok_def cap_ok_def bookings_ok_def booking_checks_def sample_resource_defs)
qed

text \<open>The same after booking 1 has been cancelled.\<close>

definition cancelled_booking :: booking where
  "cancelled_booking =
     (sample_booking 1 3 2 Booking_CANCELLED)\<lparr>bk_cancelled_at := Some sample_now, bk_version := 2\<rparr>"

definition cancelled_resources :: resource_db where
  "cancelled_resources =
     sample_resources\<lparr>db_bookings := \<lparr>tbl_rows = [(1, cancelled_booking), (2, sample_booking 5 6 1 Booking_PENDING)],
       tbl_next = 3\<rparr>\<rparr>"

lemma cancelled_capacity: "capacity_ok cancelled_resources"
proof -
  have "committed (db_bookings cancelled_resources) rid t = 0" for rid t
    by (simp add: committed_def row_sum_alt cancelled_resources_def cancelled_booking_def sample_booking_def held_at_def
        holds_capacity_def)
  then show ?thesis
    by (auto simp: capacity_ok_def cap_ok_def bookings_ok_def booking_checks_def cancelled_resources_def
        cancelled_booking_def sample_resource_defs tbl_get_def split: if_splits)
qed

lemma sample_ledger: "ledger_ok sample_resources"
  by (auto simp: ledger_ok_def sample_resource_defs tbl_get_def stock_sum_def row_sum_alt
      stock_history_def tbl_filter_def split: if_splits)

end
