(* ===== verification/ExecutionCommands.thy ===== *)
theory ExecutionCommands
  imports Deliverables
begin

text \<open>
  The execution services as one family of commands, each a request of its own (the transaction,
  then its callbacks), and what holds over every run: the constraints of the tables, one final
  decision for a revision, one open recommendation for a reviewer, and an accepted decision behind
  every accepted deliverable.
\<close>

section \<open>The invariant\<close>

definition deliverables_ok :: "deliverable table \<Rightarrow> bool" where
  "deliverables_ok t \<longleftrightarrow> tbl_wf t \<and> unique_on deliverable_order_key t
     \<and> (\<forall>k d. (k, d) \<in> set (tbl_rows t) \<longrightarrow> progress_in_range d)"

definition revisions_ok :: "deliverable_revision table \<Rightarrow> bool" where
  "revisions_ok t \<longleftrightarrow> tbl_wf t \<and> unique_on revision_number_key t \<and> unique_on revision_retry_key t"

definition recommendations_ok :: "review_recommendation table \<Rightarrow> bool" where
  "recommendations_ok t \<longleftrightarrow> tbl_wf t \<and> unique_on open_recommendation_key t"

definition decisions_ok :: "final_decision table \<Rightarrow> bool" where
  "decisions_ok t \<longleftrightarrow> tbl_wf t \<and> unique_on decision_revision_key t \<and> unique_on decision_retry_key t"

text \<open>An accepted revision of the deliverable: a final decision accepts it.\<close>

definition backed :: "deliverable_revision table \<Rightarrow> final_decision table \<Rightarrow> pk \<Rightarrow> pk option \<Rightarrow> bool" where
  "backed rs xs k a \<longleftrightarrow>
     (\<exists>rk r j x. a = Some rk \<and> tbl_get rs rk = Some r \<and> rv_deliverable r = k
        \<and> tbl_get xs j = Some x \<and> fd_revision x = rk \<and> fd_decision x = Decision_ACCEPTED)"

definition acceptances_ok :: "deliverable table \<Rightarrow> deliverable_revision table \<Rightarrow> final_decision table \<Rightarrow> bool" where
  "acceptances_ok ds rs xs \<longleftrightarrow>
     (\<forall>k d. tbl_get ds k = Some d \<longrightarrow> dl_current_status d = Deliverable_ACCEPTED
        \<longrightarrow> backed rs xs k (dl_accepted_revision d))"

definition execution_ok :: "'a execution_db_scheme \<Rightarrow> bool" where
  "execution_ok s \<longleftrightarrow>
     milestones_ok (db_milestones s) \<and> deliverables_ok (db_deliverables s) \<and> revisions_ok (db_revisions s)
     \<and> recommendations_ok (db_recommendations s) \<and> decisions_ok (db_decisions s)
     \<and> acceptances_ok (db_deliverables s) (db_revisions s) (db_decisions s)"

lemma execution_okD:
  assumes "execution_ok s"
  shows "milestones_ok (db_milestones s)" "deliverables_ok (db_deliverables s)" "revisions_ok (db_revisions s)"
    "recommendations_ok (db_recommendations s)" "decisions_ok (db_decisions s)"
    "acceptances_ok (db_deliverables s) (db_revisions s) (db_decisions s)"
  using assms by (simp_all add: execution_ok_def)

text \<open>States whose five tables agree.\<close>

definition same_work :: "'a execution_db_scheme \<Rightarrow> 'a execution_db_scheme \<Rightarrow> bool" where
  "same_work s s' \<longleftrightarrow>
     db_milestones s' = db_milestones s \<and> db_deliverables s' = db_deliverables s
     \<and> db_revisions s' = db_revisions s \<and> db_recommendations s' = db_recommendations s
     \<and> db_decisions s' = db_decisions s"

lemma same_work_refl [simp]: "same_work s s"
  by (simp add: same_work_def)

lemma same_work_trans: "same_work s t \<Longrightarrow> same_work t u \<Longrightarrow> same_work s u"
  by (simp add: same_work_def)

lemma execution_ok_same: "execution_ok s \<Longrightarrow> same_work s s' \<Longrightarrow> execution_ok s'"
  by (simp add: execution_ok_def same_work_def)

section \<open>Changes of one table\<close>

lemma backed_insert_decision: "tbl_wf xs \<Longrightarrow> backed rs xs k a \<Longrightarrow> backed rs (tbl_insert x xs) k a"
  unfolding backed_def by (blast dest: tbl.get_add_old)

lemma backed_insert_revision: "tbl_wf rs \<Longrightarrow> backed rs xs k a \<Longrightarrow> backed (tbl_insert r rs) xs k a"
  unfolding backed_def by (blast dest: tbl.get_add_old)

lemma backed_put_revision:
  assumes "tbl_wf rs" "tbl_get rs rk = Some r" "rv_deliverable r' = rv_deliverable r" "backed rs xs k a"
  shows "backed (tbl_put rk r' rs) xs k a"
proof -
  obtain rj q j x where q: "a = Some rj" "tbl_get rs rj = Some q" "rv_deliverable q = k"
    "tbl_get xs j = Some x" "fd_revision x = rj" "fd_decision x = Decision_ACCEPTED"
    using assms(4) unfolding backed_def by blast
  have "\<exists>q'. tbl_get (tbl_put rk r' rs) rj = Some q' \<and> rv_deliverable q' = k"
    using assms(1-3) q by (cases "rj = rk") (simp_all add: tbl.get_put)
  then show ?thesis using q unfolding backed_def by blast
qed

lemma acceptances_ok_put:
  assumes "tbl_wf ds" "acceptances_ok ds rs xs"
    "dl_current_status d = Deliverable_ACCEPTED \<Longrightarrow> backed rs xs k (dl_accepted_revision d)"
  shows "acceptances_ok (tbl_put k d ds) rs xs"
  using assms by (auto simp: acceptances_ok_def tbl.get_put)

lemma acceptances_ok_insert:
  assumes "tbl_wf ds" "acceptances_ok ds rs xs" "dl_current_status d \<noteq> Deliverable_ACCEPTED"
  shows "acceptances_ok (tbl_insert d ds) rs xs"
  using assms by (auto simp: acceptances_ok_def tbl.get_add split: if_splits)

lemma deliverables_ok_put:
  "deliverables_ok t \<Longrightarrow> progress_in_range d \<Longrightarrow> \<not> key_taken_by_other deliverable_order_key k d t
   \<Longrightarrow> deliverables_ok (tbl_put k d t)"
  using unique_on_put [of deliverable_order_key t k d] tbl.wf_put [of t k d] set_rows_put [of t k d]
  unfolding deliverables_ok_def by auto

lemma deliverables_ok_insert:
  "deliverables_ok t \<Longrightarrow> progress_in_range d \<Longrightarrow> \<not> key_taken deliverable_order_key d t
   \<Longrightarrow> deliverables_ok (tbl_insert d t)"
  by (auto simp: deliverables_ok_def tbl.wf_add unique_on_insert)

lemma revisions_ok_state:
  assumes ok: "revisions_ok t" and r: "tbl_get t rk = Some r"
  shows "revisions_ok (tbl_put rk (r\<lparr>rv_state := st\<rparr>) t)"
proof -
  have u: "unique_on revision_number_key t" "unique_on revision_retry_key t"
    using ok by (simp_all add: revisions_ok_def)
  have "\<not> key_taken_by_other revision_number_key rk (r\<lparr>rv_state := st\<rparr>) t"
    by (rule key_kept_not_taken [OF u(1) r]) (simp add: revision_number_key_def)
  moreover have "\<not> key_taken_by_other revision_retry_key rk (r\<lparr>rv_state := st\<rparr>) t"
    by (rule key_kept_not_taken [OF u(2) r]) (simp add: revision_retry_key_def)
  ultimately show ?thesis using ok by (auto simp: revisions_ok_def unique_on_put tbl.wf_put)
qed

lemma insert_revision_Inr:
  "insert_revision r s = (Inr rk, s') \<longleftrightarrow>
   rk = tbl_next (db_revisions s) \<and> \<not> key_taken revision_number_key r (db_revisions s)
   \<and> \<not> key_taken revision_retry_key r (db_revisions s)
   \<and> s' = s\<lparr>db_revisions := tbl_insert r (db_revisions s)\<rparr>"
  by (auto simp: insert_revision_def)

lemma recommendations_ok_supersede:
  "recommendations_ok t \<Longrightarrow> recommendations_ok (supersede_open rk u now t)"
  by (auto simp: recommendations_ok_def supersede_open_def wf_tbl_update_where open_recommendation_key_def
      intro!: unique_on_update_where)

section \<open>Saving a deliverable\<close>

lemma save_deliverable_Inr:
  "save_deliverable k d s = (Inr x, s') \<longleftrightarrow>
   progress_in_range d \<and> \<not> key_taken_by_other deliverable_order_key k d (db_deliverables s)
   \<and> s' = s\<lparr>db_deliverables := tbl_put k d (db_deliverables s)\<rparr>"
  by (auto simp: save_deliverable_def)

lemma save_and_reconcile_Inr:
  assumes "save_and_reconcile k d s = (Inr x, s')"
  shows "progress_in_range d \<and> \<not> key_taken_by_other deliverable_order_key k d (db_deliverables s)
    \<and> (\<exists>t. s' = s\<lparr>db_deliverables := tbl_put k d (db_deliverables s), db_milestones := t\<rparr>
        \<and> (milestones_ok (db_milestones s) \<longrightarrow> milestones_ok t))"
proof -
  let ?s1 = "s\<lparr>db_deliverables := tbl_put k d (db_deliverables s)\<rparr>"
  have sv: "progress_in_range d" "\<not> key_taken_by_other deliverable_order_key k d (db_deliverables s)"
    and v: "void (reconcile_milestone (dl_milestone d)) ?s1 = (Inr x, s')"
    using assms by (auto simp: save_and_reconcile_def save_deliverable_Inr split: prod.splits sum.splits)
  obtain m where r: "reconcile_milestone (dl_milestone d) ?s1 = (Inr m, s')"
    using v by (auto simp: void_def split: prod.splits sum.splits)
  have "s' = ?s1\<lparr>db_milestones := db_milestones s'\<rparr>" by (rule reconcile_only_milestones [OF r])
  moreover have "milestones_ok (db_milestones s) \<longrightarrow> milestones_ok (db_milestones s')"
    using reconcile_keeps_ok [OF _ r] by simp
  ultimately show ?thesis using sv by (intro conjI exI [of _ "db_milestones s'"]) simp_all
qed

lemma execution_ok_save:
  assumes ok: "execution_ok s" and sv: "save_and_reconcile k d s = (Inr x, s')"
    and a: "dl_current_status d = Deliverable_ACCEPTED
      \<Longrightarrow> backed (db_revisions s) (db_decisions s) k (dl_accepted_revision d)"
  shows "execution_ok s'"
proof -
  have "deliverables_ok (tbl_put k d (db_deliverables s))"
    using save_and_reconcile_Inr [OF sv] execution_okD(2) [OF ok] deliverables_ok_put by blast
  moreover have "acceptances_ok (tbl_put k d (db_deliverables s)) (db_revisions s) (db_decisions s)"
    using execution_okD(2,6) [OF ok] a by (intro acceptances_ok_put) (simp_all add: deliverables_ok_def)
  ultimately show ?thesis
    using save_and_reconcile_Inr [OF sv] ok by (auto simp: execution_ok_def)
qed

text \<open>An event, an assignment or a callback touches none of the five tables.\<close>

lemma same_work_event [simp]: "same_work s (record_execution_event p u act tg st pr s') = same_work s s'"
  by (simp add: same_work_def)

lemma execution_ok_event [simp]: "execution_ok (record_execution_event p u act tg st pr s) = execution_ok s"
  by (simp add: execution_ok_def)

lemma execution_ok_updates [simp]:
  "execution_ok (s\<lparr>db_on_commit := a\<rparr>) = execution_ok s"
  "execution_ok (s\<lparr>db_assignees := b\<rparr>) = execution_ok s"
  "execution_ok (s\<lparr>db_designations := c\<rparr>) = execution_ok s"
  "execution_ok (s\<lparr>db_task_links := d\<rparr>) = execution_ok s"
  "execution_ok (s\<lparr>db_evidence := e\<rparr>) = execution_ok s"
  "execution_ok (s\<lparr>db_milestone_owners := f\<rparr>) = execution_ok s"
  by (simp_all add: execution_ok_def)

section \<open>Milestones\<close>

lemma execution_ok_milestones:
  "execution_ok s \<Longrightarrow> milestones_ok t \<Longrightarrow> execution_ok (s\<lparr>db_milestones := t\<rparr>)"
  by (simp add: execution_ok_def)

lemma execution_ok_save_milestone:
  "execution_ok s \<Longrightarrow> save_milestone k m s = (Inr x, s') \<Longrightarrow> execution_ok s'"
  by (auto simp: save_milestone_Inr intro!: execution_ok_milestones milestones_ok_put dest: execution_okD(1))

lemma execution_ok_reconcile:
  "execution_ok s \<Longrightarrow> reconcile_milestone k s = (Inr x, s') \<Longrightarrow> execution_ok s'"
  using reconcile_only_milestones reconcile_keeps_ok execution_okD(1) execution_ok_milestones by metis

lemma execution_ok_create_milestone:
  "create_milestone u p a b c d s = (Inr k, s') \<Longrightarrow> execution_ok s \<Longrightarrow> execution_ok s'"
  by (auto simp: create_milestone_def insert_milestone_def milestone_event_def Let_def
      split: sum.splits prod.splits if_splits intro!: execution_ok_milestones milestones_ok_insert dest: execution_okD(1))

lemma execution_ok_update_milestone:
  "update_milestone u k v c s = (Inr x, s') \<Longrightarrow> execution_ok s \<Longrightarrow> execution_ok s'"
  by (auto simp: update_milestone_def milestone_event_def Let_def split: option.splits sum.splits prod.splits if_splits
      dest!: execution_ok_save_milestone [rotated] execution_ok_reconcile [rotated])

lemma execution_ok_reorder_rows:
  "execution_ok s \<Longrightarrow> reorder_rows ks i s = (Inr x, s') \<Longrightarrow> execution_ok s'"
proof (induction ks arbitrary: i s)
  case (Cons k ks)
  then obtain m s1 where "save_milestone k m s = (Inr (), s1)" "reorder_rows ks (i + 1) s1 = (Inr x, s')"
    by (auto split: option.splits sum.splits prod.splits)
  then show ?case using Cons execution_ok_save_milestone by blast
qed simp

lemma orders_distinct_unique: "orders_distinct t \<Longrightarrow> tbl_wf t \<Longrightarrow> unique_on milestone_order_key t"
proof -
  assume d: "orders_distinct t" and wf: "tbl_wf t"
  have i: "inj_on (\<lambda>(k, m). (ms_project m, ms_order m)) (set (tbl_rows t))"
    using d by (simp add: orders_distinct_def distinct_map)
  then have "(k, r) = (k', r')"
    if "(k, r) \<in> set (tbl_rows t)" "(k', r') \<in> set (tbl_rows t)" "milestone_order_key r = milestone_order_key r'"
    for k r k' r'
    using that by (intro inj_onD [OF i, of "(k, r)" "(k', r')"]) (auto simp: milestone_order_key_def)
  then show ?thesis unfolding unique_on_def by (metis Pair_inject)
qed

lemma execution_ok_reorder:
  assumes r: "reorder_milestones u p ids s = (Inr x, s')" and ok: "execution_ok s"
  shows "execution_ok s'"
proof -
  define t where "t = tbl_update_where (\<lambda>k _. k \<in> set ids)
    (\<lambda>m. m\<lparr>ms_order := ms_order m + (int (length (tbl_filter (\<lambda>k m. ms_project m = fst p \<and> k \<in> set ids) (db_milestones s))) + 1000)\<rparr>)
    (db_milestones s)"
  have 1: "orders_distinct t" "reorder_rows ids 0 (s\<lparr>db_milestones := t\<rparr>) = (Inr (), s')"
    using r by (auto simp: reorder_milestones_def Let_def t_def split: sum.splits prod.splits if_splits)
  have m: "milestones_ok (db_milestones s)" by (rule execution_okD [OF ok])
  have "tbl_wf t" using milestones_okD(1) [OF m] by (simp add: t_def wf_tbl_update_where)
  moreover have "milestone_checks y" if "(j, y) \<in> set (tbl_rows t)" for j y
    using that milestones_okD(3) [OF m] by (auto simp: t_def milestone_checks_def split: if_splits)
  ultimately have "milestones_ok t"
    using orders_distinct_unique [OF 1(1)] by (simp add: milestones_ok_def)
  then show ?thesis using execution_ok_reorder_rows [OF _ 1(2)] execution_ok_milestones [OF ok] by blast
qed

lemma deliverables_ok_archive:
  "deliverables_ok t \<Longrightarrow> deliverables_ok (tbl_update_where c
     (\<lambda>d. d\<lparr>dl_current_status := Deliverable_ARCHIVED, dl_archived_at := a, dl_version := Suc (dl_version d)\<rparr>) t)"
  by (auto simp: deliverables_ok_def wf_tbl_update_where deliverable_order_key_def progress_in_range_def
      intro!: unique_on_update_where split: if_splits)

lemma execution_ok_archive_milestone:
  assumes "archive_milestone u k v s = (Inr x, s')" "execution_ok s"
  shows "execution_ok s'"
proof -
  obtain m c a s1 where 1: "save_milestone k m s = (Inr (), s1)"
    and s': "s' = milestone_event u ''milestone.archived'' k m (s1\<lparr>db_deliverables := tbl_update_where c
      (\<lambda>d. d\<lparr>dl_current_status := Deliverable_ARCHIVED, dl_archived_at := a, dl_version := Suc (dl_version d)\<rparr>)
      (db_deliverables s1)\<rparr>)"
    using assms(1) by (fastforce simp: archive_milestone_def Let_def split: option.splits sum.splits prod.splits if_splits)
  have ok1: "execution_ok s1" using execution_ok_save_milestone [OF assms(2) 1] .
  have "acceptances_ok (tbl_update_where c
      (\<lambda>d. d\<lparr>dl_current_status := Deliverable_ARCHIVED, dl_archived_at := a, dl_version := Suc (dl_version d)\<rparr>)
      (db_deliverables s1)) (db_revisions s1) (db_decisions s1)"
    using execution_okD(6) [OF ok1] by (auto simp: acceptances_ok_def tbl_get_update_where split: if_splits)
  then show ?thesis
    using ok1 deliverables_ok_archive [OF execution_okD(2) [OF ok1]]
    by (simp add: s' milestone_event_def execution_ok_def)
qed

section \<open>Deliverables\<close>

lemma execution_ok_insert_deliverable:
  assumes ok: "execution_ok s" and d: "progress_in_range d" "\<not> key_taken deliverable_order_key d (db_deliverables s)"
    "dl_current_status d \<noteq> Deliverable_ACCEPTED"
  shows "execution_ok (s\<lparr>db_deliverables := tbl_insert d (db_deliverables s)\<rparr>)"
proof -
  have "acceptances_ok (tbl_insert d (db_deliverables s)) (db_revisions s) (db_decisions s)"
    using execution_okD(2,6) [OF ok] d(3) by (intro acceptances_ok_insert) (simp_all add: deliverables_ok_def)
  then show ?thesis
    using deliverables_ok_insert [OF execution_okD(2) [OF ok] d(1,2)] ok by (simp add: execution_ok_def)
qed

lemma execution_ok_create_deliverable:
  "create_deliverable u mid a s = (Inr k, s') \<Longrightarrow> execution_ok s \<Longrightarrow> execution_ok s'"
  by (auto simp: create_deliverable_def insert_deliverable_def deliverable_event_def new_deliverable_def Let_def
      split: option.splits sum.splits prod.splits if_splits intro!: execution_ok_insert_deliverable)

lemma apply_planning_Inr:
  "apply_planning u k cm pl d s = (Inr d1, s1) \<Longrightarrow>
   dl_current_status d1 = dl_current_status d \<and> dl_accepted_revision d1 = dl_accepted_revision d
   \<and> dl_version d1 = dl_version d \<and> dl_milestone d1 = dl_milestone d \<and> (\<exists>t. s1 = s\<lparr>db_assignees := t\<rparr>)"
  by (auto simp: apply_planning_def with_planning_def split: option.splits sum.splits if_splits
      intro: exI [of _ "db_assignees s"])

lemma apply_progress_Inr:
  "apply_progress al c d = Inr d1 \<Longrightarrow>
   (dl_current_status d1 = Deliverable_ACCEPTED \<longrightarrow> dl_current_status d = Deliverable_ACCEPTED)
   \<and> dl_accepted_revision d1 = dl_accepted_revision d \<and> dl_version d1 = dl_version d
   \<and> dl_milestone d1 = dl_milestone d"
  by (auto simp: apply_progress_def work_status_of_value_def override_def Let_def split: if_splits option.splits)

lemma execution_ok_update_deliverable:
  assumes u: "update_deliverable u k v c s = (Inr x, s')" and ok: "execution_ok s"
  shows "execution_ok s'"
proof -
  obtain d d1 d2 s1 s2 cm al where g: "tbl_get (db_deliverables s) k = Some d"
    and 1: "apply_planning u k cm (dc_planning c) d s = (Inr d1, s1)"
    and 2: "apply_progress al c d1 = Inr d2"
    and 3: "save_and_reconcile k (d2\<lparr>dl_version := Suc (dl_version d2), dl_updated_at := db_now s1\<rparr>) s1 = (Inr (), s2)"
    and s': "s' = deliverable_event u ''deliverable.updated'' k
       (d2\<lparr>dl_version := Suc (dl_version d2), dl_updated_at := db_now s1\<rparr>) s2"
    using u by (fastforce simp: update_deliverable_def Let_def split: option.splits sum.splits prod.splits if_splits)
  obtain t where s1: "s1 = s\<lparr>db_assignees := t\<rparr>" using apply_planning_Inr [OF 1] by blast
  have "execution_ok s2"
  proof (rule execution_ok_save [OF _ 3])
    show "execution_ok s1" using ok by (simp add: s1)
  next
    assume "dl_current_status (d2\<lparr>dl_version := Suc (dl_version d2), dl_updated_at := db_now s1\<rparr>) = Deliverable_ACCEPTED"
    then have "dl_current_status d = Deliverable_ACCEPTED" "dl_accepted_revision d2 = dl_accepted_revision d"
      using apply_planning_Inr [OF 1] apply_progress_Inr [OF 2] by auto
    then show "backed (db_revisions s1) (db_decisions s1) k
        (dl_accepted_revision (d2\<lparr>dl_version := Suc (dl_version d2), dl_updated_at := db_now s1\<rparr>))"
      using execution_okD(6) [OF ok] g by (simp add: s1 acceptances_ok_def)
  qed
  then show ?thesis by (simp add: s' deliverable_event_def)
qed

lemma execution_ok_archive_deliverable:
  assumes "archive_deliverable u k v s = (Inr x, s')" "execution_ok s"
  shows "execution_ok s'"
proof -
  obtain d s1 where "save_and_reconcile k d s = (Inr (), s1)" "dl_current_status d = Deliverable_ARCHIVED"
    "s' = deliverable_event u ''deliverable.archived'' k d s1"
    using assms(1) by (fastforce simp: archive_deliverable_def Let_def split: option.splits sum.splits prod.splits if_splits)
  then show ?thesis
    using execution_ok_save [OF assms(2), of k d "()" s1] by (simp add: deliverable_event_def)
qed

section \<open>Revisions\<close>

lemma same_work_assign: "same_work s (snd (assign_designated p rk x s))"
  by (auto simp: assign_designated_def assign_reviewer_def atomic_def void_def assignment_event_def same_work_def Let_def
      split: option.splits sum.splits prod.splits)

lemma same_work_assign_all: "same_work s (snd (for_each (assign_designated p rk) xs s))"
  by (rule for_each_rel [where R = same_work]) (auto intro: same_work_trans same_work_assign)

lemma same_work_evidence: "insert_evidence rk rows s = (r, s') \<Longrightarrow> same_work s s'"
  by (auto simp: insert_evidence_def same_work_def split: if_splits)

lemma execution_ok_after_revision:
  assumes a: "after_revision u k p d rows rk r s = (Inr x, s')" and ok: "execution_ok s"
  shows "execution_ok s'"
proof -
  obtain s1 where 1: "insert_evidence rk rows s = (Inr (), s1)"
    using a by (auto simp: after_revision_def split: sum.splits prod.splits)
  obtain s2 where 2: "for_each (assign_designated (dl_project d, p) rk) (open_designations s1 k) s1 = (Inr (), s2)"
    using a 1 by (auto simp: after_revision_def split: sum.splits prod.splits)
  obtain s3 where 3: "save_and_reconcile k (submitted d rk (db_now s2)) s2 = (Inr (), s3)"
    using a 1 2 by (auto simp: after_revision_def split: sum.splits prod.splits)
  have "same_work s s2"
    using same_work_evidence [OF 1] same_work_assign_all [of s1 "(dl_project d, p)" rk "open_designations s1 k"] 2
    by (auto intro: same_work_trans)
  then have ok2: "execution_ok s2" by (rule execution_ok_same [OF ok])
  have "execution_ok s3" by (rule execution_ok_save [OF ok2 3]) (simp add: submitted_def split: if_splits)
  then show ?thesis using a 1 2 3 by (auto simp: after_revision_def Let_def revision_event_def)
qed

lemma execution_ok_insert_revision:
  assumes ok: "execution_ok s" and i: "insert_revision r s = (Inr rk, s')"
  shows "execution_ok s'"
proof -
  have r: "revisions_ok (db_revisions s)" by (rule execution_okD [OF ok])
  have "revisions_ok (tbl_insert r (db_revisions s))"
    using i r by (simp add: insert_revision_Inr revisions_ok_def unique_on_insert tbl.wf_add)
  moreover have "acceptances_ok (db_deliverables s) (tbl_insert r (db_revisions s)) (db_decisions s)"
    using execution_okD(6) [OF ok] r backed_insert_revision by (auto simp: acceptances_ok_def revisions_ok_def)
  ultimately show ?thesis using ok i by (simp add: insert_revision_Inr execution_ok_def)
qed

lemma execution_ok_submit:
  assumes s: "submit_deliverable u k ds ev key s = (Inr x, s')" and ok: "execution_ok s"
  shows "execution_ok s'"
proof (cases "revision_by_key s k key")
  case None
  obtain d p r rows rk s1 where "insert_revision r s = (Inr rk, s1)"
    "after_revision u k p d rows rk r s1 = (Inr x, s')"
    using s None by (fastforce simp: submit_deliverable_def Let_def split: option.splits sum.splits prod.splits)
  then show ?thesis using execution_ok_insert_revision [OF ok] execution_ok_after_revision by blast
next
  case (Some rk)
  then have "s' = s" using s by (auto simp: submit_deliverable_def Let_def split: option.splits sum.splits prod.splits)
  then show ?thesis using ok by simp
qed

section \<open>Recommendations and decisions\<close>

lemma execution_ok_put_revision:
  assumes ok: "execution_ok s" and r: "tbl_get (db_revisions s) rk = Some r"
  shows "execution_ok (s\<lparr>db_revisions := tbl_put rk (r\<lparr>rv_state := st\<rparr>) (db_revisions s)\<rparr>)"
proof -
  have "tbl_wf (db_revisions s)" using execution_okD(3) [OF ok] by (simp add: revisions_ok_def)
  then have "backed (tbl_put rk (r\<lparr>rv_state := st\<rparr>) (db_revisions s)) (db_decisions s) k a"
    if "backed (db_revisions s) (db_decisions s) k a" for k a
    using backed_put_revision [OF _ r] that by simp
  then have "acceptances_ok (db_deliverables s) (tbl_put rk (r\<lparr>rv_state := st\<rparr>) (db_revisions s)) (db_decisions s)"
    using execution_okD(6) [OF ok] by (auto simp: acceptances_ok_def)
  then show ?thesis using ok revisions_ok_state [OF execution_okD(3) [OF ok] r] by (simp add: execution_ok_def)
qed

lemma execution_ok_recommendations:
  "execution_ok s \<Longrightarrow> recommendations_ok t \<Longrightarrow> execution_ok (s\<lparr>db_recommendations := t\<rparr>)"
  by (simp add: execution_ok_def)

lemma execution_ok_insert_recommendation:
  "execution_ok s \<Longrightarrow> insert_recommendation x s = (Inr k, s') \<Longrightarrow> execution_ok s' \<and> db_revisions s' = db_revisions s"
  by (auto simp: insert_recommendation_def recommendations_ok_def tbl.wf_add unique_on_insert
      split: if_splits intro!: execution_ok_recommendations dest: execution_okD(4))

lemma execution_ok_recommend:
  assumes s: "recommend_deliverable u rk v ra s = (Inr x, s')" and ok: "execution_ok s"
  shows "execution_ok s'"
proof -
  obtain r st y s2 cs where r: "tbl_get (db_revisions s) rk = Some r"
    and i: "insert_recommendation y (s\<lparr>db_recommendations := supersede_open rk (u_id u) (db_now s) (db_recommendations s)\<rparr>)
      = (Inr x, s2)"
    and s': "s' = revision_event u ''deliverable.recommended'' rk (r\<lparr>rv_state := st\<rparr>)
      (s2\<lparr>db_revisions := tbl_put rk (r\<lparr>rv_state := st\<rparr>) (db_revisions s2)\<rparr>)\<lparr>db_on_commit := cs\<rparr>"
    using s by (fastforce simp: recommend_deliverable_def Let_def split: option.splits sum.splits prod.splits if_splits)
  have "execution_ok (s\<lparr>db_recommendations := supersede_open rk (u_id u) (db_now s) (db_recommendations s)\<rparr>)"
    by (rule execution_ok_recommendations [OF ok recommendations_ok_supersede [OF execution_okD(4) [OF ok]]])
  from execution_ok_insert_recommendation [OF this i] show ?thesis
    using execution_ok_put_revision [of s2 rk r st] r by (simp add: s' revision_event_def)
qed

lemma insert_decision_Inr:
  "insert_decision x s = (Inr k, s') \<longleftrightarrow>
   k = tbl_next (db_decisions s) \<and> \<not> key_taken decision_revision_key x (db_decisions s)
   \<and> \<not> key_taken decision_retry_key x (db_decisions s)
   \<and> s' = s\<lparr>db_decisions := tbl_insert x (db_decisions s)\<rparr>"
  by (auto simp: insert_decision_def)

lemma execution_ok_insert_decision:
  assumes ok: "execution_ok s" and i: "insert_decision x s = (Inr k, s')"
  shows "execution_ok s'"
proof -
  have d: "decisions_ok (db_decisions s)" by (rule execution_okD [OF ok])
  have "decisions_ok (tbl_insert x (db_decisions s))"
    using i d by (simp add: insert_decision_Inr decisions_ok_def unique_on_insert tbl.wf_add)
  moreover have "acceptances_ok (db_deliverables s) (db_revisions s) (tbl_insert x (db_decisions s))"
    using execution_okD(6) [OF ok] d backed_insert_decision by (auto simp: acceptances_ok_def decisions_ok_def)
  ultimately show ?thesis using ok i by (simp add: insert_decision_Inr execution_ok_def)
qed

lemma execution_ok_after_decision:
  assumes a: "after_decision u rk r d v xk s = (Inr y, s')" and ok: "execution_ok s"
    and r: "tbl_get (db_revisions s) rk = Some r"
    and x: "tbl_get (db_decisions s) xk = Some x" "fd_revision x = rk" "fd_decision x = v"
  shows "execution_ok s'"
proof -
  let ?s1 = "s\<lparr>db_revisions := tbl_put rk (r\<lparr>rv_state := decided_state v\<rparr>) (db_revisions s)\<rparr>"
  obtain s2 where 2: "save_and_reconcile (rv_deliverable r) (decided_deliverable v rk (db_now s) d) ?s1 = (Inr (), s2)"
    using a by (auto simp: after_decision_def Let_def split: sum.splits prod.splits)
  have "execution_ok s2"
  proof (rule execution_ok_save [OF execution_ok_put_revision [OF ok r] 2])
    assume "dl_current_status (decided_deliverable v rk (db_now s) d) = Deliverable_ACCEPTED"
    then have v: "v = Decision_ACCEPTED" by (cases v) (simp_all add: decided_deliverable_def)
    have "tbl_get (db_revisions ?s1) rk = Some (r\<lparr>rv_state := decided_state v\<rparr>)"
      using execution_okD(3) [OF ok] by (simp add: revisions_ok_def tbl.get_put_same)
    then show "backed (db_revisions ?s1) (db_decisions ?s1) (rv_deliverable r)
        (dl_accepted_revision (decided_deliverable v rk (db_now s) d))"
      using x unfolding v backed_def by (auto simp: decided_deliverable_def)
  qed
  then show ?thesis using a 2 by (auto simp: after_decision_def Let_def on_commit_def)
qed

lemma execution_ok_decide:
  assumes s: "decide_deliverable u rk dec ra key s = (Inr y, s')" and ok: "execution_ok s"
  shows "execution_ok s'"
proof (cases "decision_of s rk")
  case (Some xk)
  then have "s' = s" using s by (auto simp: decide_deliverable_def Let_def split: option.splits sum.splits prod.splits)
  then show ?thesis using ok by simp
next
  case None
  obtain r d v xk s1 where r: "tbl_get (db_revisions s) rk = Some r"
    and i: "insert_decision (new_decision u rk r v ra key (db_now s)) s = (Inr xk, s1)"
    and a: "after_decision u rk r d v xk s1 = (Inr y, s')"
    using s None by (auto simp: decide_deliverable_def split: option.splits sum.splits prod.splits if_splits)
  have "tbl_get (db_decisions s1) xk = Some (new_decision u rk r v ra key (db_now s))" "db_revisions s1 = db_revisions s"
    using i execution_okD(5) [OF ok] by (auto simp: insert_decision_Inr decisions_ok_def tbl.get_add_new)
  then show ?thesis
    using execution_ok_after_decision [OF a execution_ok_insert_decision [OF ok i]] r by (simp add: new_decision_def)
qed

section \<open>The commands\<close>

datatype execution_command =
    CreateMilestone actor "pk \<times> research_project" string string day "pk list"
  | UpdateMilestone actor pk int milestone_changes
  | ReorderMilestones actor "pk \<times> research_project" "pk list"
  | ArchiveMilestone actor pk int
  | CreateDeliverable actor pk deliverable_args
  | UpdateDeliverable actor pk int deliverable_changes
  | ArchiveDeliverable actor pk int
  | SubmitDeliverable actor pk string "evidence_item list" string
  | RecommendDeliverable actor pk string string
  | DecideDeliverable actor pk string string string
  | AssignReviewer actor "pk \<times> research_project" pk review_target
  | RemoveAssignment actor pk int

fun execution_op :: "execution_command \<Rightarrow> ('a execution_db_scheme, unit) op" where
  "execution_op (CreateMilestone u p t d td os) = void (create_milestone u p t d td os)"
| "execution_op (UpdateMilestone u k v c) = void (update_milestone u k v c)"
| "execution_op (ReorderMilestones u p ids) = void (reorder_milestones u p ids)"
| "execution_op (ArchiveMilestone u k v) = void (archive_milestone u k v)"
| "execution_op (CreateDeliverable u k a) = void (create_deliverable u k a)"
| "execution_op (UpdateDeliverable u k v c) = void (update_deliverable u k v c)"
| "execution_op (ArchiveDeliverable u k v) = void (archive_deliverable u k v)"
| "execution_op (SubmitDeliverable u k d ev key) = void (submit_deliverable u k d ev key)"
| "execution_op (RecommendDeliverable u rk v ra) = void (recommend_deliverable u rk v ra)"
| "execution_op (DecideDeliverable u rk v ra key) = void (decide_deliverable u rk v ra key)"
| "execution_op (AssignReviewer u p m t) = void (assign_reviewer u p m t)"
| "execution_op (RemoveAssignment u k v) = void (remove_review_assignment u k v)"

definition execution_step :: "execution_command \<Rightarrow> ('a execution_db_scheme, unit) op" where
  "execution_step c = committed_request (execution_op c)"

lemma void_Inr: "void m s = (Inr y, s') \<longleftrightarrow> (\<exists>x. m s = (Inr x, s'))"
  by (auto simp: void_def split: prod.splits sum.splits)

lemma execution_ok_assign: "assign_reviewer u p m t s = (Inr x, s') \<Longrightarrow> execution_ok s \<Longrightarrow> execution_ok s'"
  by (auto simp: assign_reviewer_def assignment_event_def Let_def execution_ok_def
      split: option.splits sum.splits prod.splits if_splits)

lemma execution_ok_remove: "remove_review_assignment u k v s = (Inr x, s') \<Longrightarrow> execution_ok s \<Longrightarrow> execution_ok s'"
  by (auto simp: remove_review_assignment_def assignment_event_def Let_def execution_ok_def
      split: option.splits sum.splits prod.splits if_splits)

lemma execution_ok_op: "execution_op c s = (Inr x, s') \<Longrightarrow> execution_ok s \<Longrightarrow> execution_ok s'"
  by (cases c) (auto simp: void_Inr dest: execution_ok_create_milestone execution_ok_update_milestone
      execution_ok_reorder execution_ok_archive_milestone execution_ok_create_deliverable
      execution_ok_update_deliverable execution_ok_archive_deliverable execution_ok_submit
      execution_ok_recommend execution_ok_decide execution_ok_assign execution_ok_remove)

text \<open>The callbacks only queue and close notifications.\<close>

lemma only_mail_work: "only_mail s s' \<Longrightarrow> same_work s s'"
  using only_mailD(12) [of s s'] by (cases s; cases s'; simp add: same_work_def)

lemma only_mail_follow_up: "only_mail s (snd (create_follow_up_notification key a s))"
  unfolding follow_up_state using only_mail_enqueue [of "follow_up_args key a" s]
  by (auto simp: atomic_def split: prod.splits sum.splits)

lemma only_mail_reconcile: "only_mail s (snd (reconcile_authoritative_action k ev eid s))"
  by (auto simp: reconcile_authoritative_action_def atomic_def split: option.splits prod.splits sum.splits)

lemma only_mail_reconcile_event: "only_mail s (snd (reconcile_notifications_for_event p tt ti ev eid s))"
  unfolding reconcile_notifications_for_event_def
  by (rule for_each_rel [where R = only_mail]) (auto intro: only_mail_trans only_mail_reconcile)

lemma same_work_callback: "same_work s (snd (run_callback c s))"
  by (cases c)
    (auto simp: create_revision_action_def complete_revision_actions_def split: option.splits
      intro: only_mail_work only_mail_follow_up only_mail_reconcile_event)

lemma same_work_callbacks: "same_work t (snd (for_each run_callback cs t))"
  by (rule for_each_rel [where R = same_work]) (auto intro: same_work_trans same_work_callback)

lemma committed_request_work:
  "same_work s (snd (committed_request m s))
   \<or> (\<exists>x s1. m (s\<lparr>db_on_commit := []\<rparr>) = (Inr x, s1) \<and> same_work s1 (snd (committed_request m s)))"
proof (cases "m (s\<lparr>db_on_commit := []\<rparr>)")
  case (Pair r s1)
  show ?thesis
  proof (cases r)
    case (Inl e)
    then show ?thesis using Pair by (simp add: committed_request_def atomic_def same_work_def)
  next
    case (Inr x)
    have "snd (committed_request m s) = snd (for_each run_callback (db_on_commit s1) (s1\<lparr>db_on_commit := []\<rparr>))"
      using Pair Inr by (simp add: committed_request_def atomic_def split: prod.splits sum.splits)
    moreover have "same_work s1 (snd (for_each run_callback cs (s1\<lparr>db_on_commit := []\<rparr>)))" for cs
      using same_work_callbacks [of "s1\<lparr>db_on_commit := []\<rparr>" cs] by (simp add: same_work_def)
    ultimately show ?thesis using Pair Inr by simp
  qed
qed

lemma execution_ok_step: "execution_ok s \<Longrightarrow> execution_ok (snd (execution_step c s))"
  using committed_request_work [of s "execution_op c"] execution_ok_op [of c "s\<lparr>db_on_commit := []\<rparr>"]
    execution_ok_same
  unfolding execution_step_def by (metis execution_ok_updates(1))

interpretation execution: command_system execution_step execution_ok
  by unfold_locales (rule execution_ok_step)

end
