(* ===== verification/ExecutionHistory.thy ===== *)
theory ExecutionHistory
  imports ExecutionCommands
begin

text \<open>
  What the execution services never take back, what a second client or a repeated request meets.

  \<^item> \<open>history_kept\<close>: revisions keep everything but their state, recommendations everything but the
    time they were superseded, final decisions everything; over every run.
  \<^item> \<open>milestone_update\<close>, \<open>deliverable_update\<close>: instances of \<open>optimistic_update\<close>.
  \<^item> \<open>submission\<close>, \<open>decision\<close>: instances of \<open>retry_safe\<close>.
\<close>

section \<open>Immutable records\<close>

definition same_history :: "'a execution_db_scheme \<Rightarrow> 'a execution_db_scheme \<Rightarrow> bool" where
  "same_history s s' \<longleftrightarrow>
     db_revisions s' = db_revisions s \<and> db_recommendations s' = db_recommendations s \<and> db_decisions s' = db_decisions s"

definition history_kept :: "'a execution_db_scheme \<Rightarrow> 'a execution_db_scheme \<Rightarrow> bool" where
  "history_kept s s' \<longleftrightarrow>
     (\<forall>k x. tbl_get (db_decisions s) k = Some x \<longrightarrow> tbl_get (db_decisions s') k = Some x)
     \<and> (\<forall>k r. tbl_get (db_revisions s) k = Some r \<longrightarrow>
          (\<exists>st. tbl_get (db_revisions s') k = Some (r\<lparr>rv_state := st\<rparr>)))
     \<and> (\<forall>k c. tbl_get (db_recommendations s) k = Some c \<longrightarrow>
          (\<exists>t. tbl_get (db_recommendations s') k = Some (c\<lparr>rc_superseded_at := t\<rparr>)
             \<and> (rc_superseded_at c \<noteq> None \<longrightarrow> t = rc_superseded_at c)))"

lemma history_kept_same: "same_history s s' \<Longrightarrow> history_kept s s'"
proof -
  assume h: "same_history s s'"
  have "\<exists>st. Some r = Some (r\<lparr>rv_state := st\<rparr>)" for r :: deliverable_revision
    by (rule exI [of _ "rv_state r"]) simp
  moreover have "\<exists>t. Some c = Some (c\<lparr>rc_superseded_at := t\<rparr>) \<and> (rc_superseded_at c \<noteq> None \<longrightarrow> t = rc_superseded_at c)"
    for c :: review_recommendation
    by (rule exI [of _ "rc_superseded_at c"]) simp
  ultimately show ?thesis using h by (simp add: same_history_def history_kept_def)
qed

lemma same_work_history: "same_work s s' \<Longrightarrow> same_history s s'"
  by (simp add: same_work_def same_history_def)

lemma same_history_trans: "same_history s t \<Longrightarrow> same_history t u \<Longrightarrow> same_history s u"
  by (simp add: same_history_def)

lemma history_kept_refl [simp]: "history_kept s s"
  by (rule history_kept_same) (simp add: same_history_def)

lemma history_kept_trans:
  assumes a: "history_kept s t" and b: "history_kept t u"
  shows "history_kept s u"
  unfolding history_kept_def
proof (intro conjI allI impI)
  fix k x assume "tbl_get (db_decisions s) k = Some x"
  then show "tbl_get (db_decisions u) k = Some x" using a b by (simp add: history_kept_def)
next
  fix k r assume "tbl_get (db_revisions s) k = Some r"
  then obtain st where "tbl_get (db_revisions t) k = Some (r\<lparr>rv_state := st\<rparr>)" using a unfolding history_kept_def by blast
  then obtain st' where "tbl_get (db_revisions u) k = Some (r\<lparr>rv_state := st, rv_state := st'\<rparr>)"
    using b unfolding history_kept_def by blast
  then show "\<exists>st. tbl_get (db_revisions u) k = Some (r\<lparr>rv_state := st\<rparr>)" by auto
next
  fix k c assume "tbl_get (db_recommendations s) k = Some c"
  then obtain t1 where 1: "tbl_get (db_recommendations t) k = Some (c\<lparr>rc_superseded_at := t1\<rparr>)"
    "rc_superseded_at c \<noteq> None \<longrightarrow> t1 = rc_superseded_at c"
    using a unfolding history_kept_def by blast
  then obtain t2 where "tbl_get (db_recommendations u) k = Some (c\<lparr>rc_superseded_at := t1, rc_superseded_at := t2\<rparr>)"
    "t1 \<noteq> None \<longrightarrow> t2 = t1"
    using b unfolding history_kept_def by (metis review_recommendation.select_convs(8) review_recommendation.surjective
        review_recommendation.update_convs(8))
  with 1 show "\<exists>t. tbl_get (db_recommendations u) k = Some (c\<lparr>rc_superseded_at := t\<rparr>)
      \<and> (rc_superseded_at c \<noteq> None \<longrightarrow> t = rc_superseded_at c)"
    by (intro exI [of _ t2]) auto
qed

lemma same_history_event [simp]: "same_history s (record_execution_event p u act tg st pr s') = same_history s s'"
  by (simp add: same_history_def)

lemma same_history_save: "save_and_reconcile k d s = (Inr x, s') \<Longrightarrow> same_history s s'"
  by (drule save_and_reconcile_Inr) (auto simp: same_history_def)

lemma same_history_save_milestone: "save_milestone k m s = (Inr x, s') \<Longrightarrow> same_history s s'"
  by (simp add: save_milestone_Inr same_history_def)

lemma same_history_reconcile:
  assumes "reconcile_milestone k s = (r, s')" shows "same_history s s'"
proof -
  obtain t where "s' = s\<lparr>db_milestones := t\<rparr>" using reconcile_only_milestones [OF assms] by blast
  then show ?thesis by (simp add: same_history_def)
qed

lemma same_history_reorder_rows: "reorder_rows ks i s = (r, s') \<Longrightarrow> same_history s s'"
proof (induction ks arbitrary: i s)
  case Nil
  then show ?case by (simp add: same_history_def)
next
  case (Cons k ks)
  then show ?case
    by (auto simp: save_milestone_Inr split: option.splits sum.splits prod.splits)
      (auto simp: save_milestone_def same_history_def split: if_splits)
qed

text \<open>The operations on milestones, deliverables and assignments.\<close>

lemma same_history_planning:
  "create_milestone u p a b c d s = (Inr x, s') \<Longrightarrow> same_history s s'"
  "archive_milestone u k v s = (Inr x, s') \<Longrightarrow> same_history s s'"
  "reorder_milestones u p ids s = (Inr y, s') \<Longrightarrow> same_history s s'"
  "create_deliverable u k da s = (Inr x, s') \<Longrightarrow> same_history s s'"
  "archive_deliverable u k v s = (Inr x, s') \<Longrightarrow> same_history s s'"
  "assign_reviewer u p m t s = (Inr x, s') \<Longrightarrow> same_history s s'"
  "remove_review_assignment u k v s = (Inr x, s') \<Longrightarrow> same_history s s'"
proof -
  show "create_milestone u p a b c d s = (Inr x, s') \<Longrightarrow> same_history s s'"
    by (auto simp: create_milestone_def insert_milestone_def milestone_event_def Let_def same_history_def
        split: sum.splits prod.splits if_splits)
  show "archive_milestone u k v s = (Inr x, s') \<Longrightarrow> same_history s s'"
    by (auto simp: archive_milestone_def save_milestone_Inr milestone_event_def Let_def same_history_def
        split: option.splits sum.splits prod.splits if_splits)
  show "reorder_milestones u p ids s = (Inr y, s') \<Longrightarrow> same_history s s'"
    by (auto simp: reorder_milestones_def Let_def split: sum.splits prod.splits if_splits
        dest!: same_history_reorder_rows) (simp_all add: same_history_def)
  show "create_deliverable u k da s = (Inr x, s') \<Longrightarrow> same_history s s'"
    by (auto simp: create_deliverable_def insert_deliverable_def deliverable_event_def Let_def same_history_def
        split: option.splits sum.splits prod.splits if_splits)
  show "archive_deliverable u k v s = (Inr x, s') \<Longrightarrow> same_history s s'"
    by (auto simp: archive_deliverable_def deliverable_event_def Let_def
        split: option.splits sum.splits prod.splits if_splits dest!: same_history_save)
  show "assign_reviewer u p m t s = (Inr x, s') \<Longrightarrow> same_history s s'"
    by (auto simp: assign_reviewer_def assignment_event_def Let_def same_history_def
        split: option.splits sum.splits prod.splits if_splits)
  show "remove_review_assignment u k v s = (Inr x, s') \<Longrightarrow> same_history s s'"
    by (auto simp: remove_review_assignment_def assignment_event_def Let_def same_history_def
        split: option.splits sum.splits prod.splits if_splits)
qed

lemma same_history_update_milestone: "update_milestone u k v c s = (Inr x, s') \<Longrightarrow> same_history s s'"
  by (auto simp: update_milestone_def milestone_event_def Let_def split: option.splits sum.splits prod.splits if_splits
      dest!: same_history_save_milestone same_history_reconcile) (simp_all add: same_history_def)

lemma same_history_update_deliverable:
  assumes u: "update_deliverable u k v c s = (Inr x, s')"
  shows "same_history s s'"
proof -
  obtain d d1 d3 s1 s2 cm where 1: "apply_planning u k cm (dc_planning c) d s = (Inr d1, s1)"
    and 3: "save_and_reconcile k d3 s1 = (Inr (), s2)" and s': "s' = deliverable_event u ''deliverable.updated'' k d3 s2"
    using u by (fastforce simp: update_deliverable_def Let_def split: option.splits sum.splits prod.splits if_splits)
  have "same_history s s1" using apply_planning_Inr [OF 1] by (auto simp: same_history_def)
  then show ?thesis using same_history_save [OF 3] by (auto simp: s' deliverable_event_def intro: same_history_trans)
qed

text \<open>Submitting adds a revision; recommending and deciding add a row and set a state.\<close>

lemma same_history_after_revision: "after_revision u k p d rows rk r s = (Inr x, s') \<Longrightarrow> same_history s s'"
proof -
  assume a: "after_revision u k p d rows rk r s = (Inr x, s')"
  obtain s1 where 1: "insert_evidence rk rows s = (Inr (), s1)"
    using a by (auto simp: after_revision_def split: sum.splits prod.splits)
  obtain s2 where 2: "for_each (assign_designated (dl_project d, p) rk) (open_designations s1 k) s1 = (Inr (), s2)"
    using a 1 by (auto simp: after_revision_def split: sum.splits prod.splits)
  obtain s3 where 3: "save_and_reconcile k (submitted d rk (db_now s2)) s2 = (Inr (), s3)"
    using a 1 2 by (auto simp: after_revision_def split: sum.splits prod.splits)
  have "same_work s s2"
    using same_work_evidence [OF 1] same_work_assign_all [of s1 "(dl_project d, p)" rk "open_designations s1 k"] 2
    by (auto intro: same_work_trans)
  then have "same_history s s3" using same_work_history same_history_save [OF 3] same_history_trans by blast
  then show ?thesis using a 1 2 3 by (auto simp: after_revision_def Let_def revision_event_def same_history_def)
qed

lemma history_kept_decision:
  "tbl_wf (db_decisions s) \<Longrightarrow> history_kept s (s\<lparr>db_decisions := tbl_insert x (db_decisions s)\<rparr>)"
  using history_kept_refl [of s] unfolding history_kept_def by (auto dest: tbl.get_add_old)

lemma history_kept_revision:
  "tbl_wf (db_revisions s) \<Longrightarrow> history_kept s (s\<lparr>db_revisions := tbl_insert r (db_revisions s)\<rparr>)"
proof -
  assume wf: "tbl_wf (db_revisions s)"
  have "\<exists>st. tbl_get (tbl_insert r (db_revisions s)) k = Some (r0\<lparr>rv_state := st\<rparr>)"
    if "tbl_get (db_revisions s) k = Some r0" for k r0
    using tbl.get_add_old [OF wf that, of r] by (intro exI [of _ "rv_state r0"]) simp
  then show ?thesis using history_kept_refl [of s] unfolding history_kept_def by simp
qed

lemma history_kept_state:
  assumes "tbl_wf (db_revisions s)" "tbl_get (db_revisions s) rk = Some r"
  shows "history_kept s (s\<lparr>db_revisions := tbl_put rk (r\<lparr>rv_state := st\<rparr>) (db_revisions s)\<rparr>)"
  using history_kept_refl [of s] assms unfolding history_kept_def by (auto simp: tbl.get_put)

lemma history_kept_supersede:
  "history_kept s (s\<lparr>db_recommendations := supersede_open rk u now (db_recommendations s)\<rparr>)"
  using history_kept_refl [of s] unfolding history_kept_def
  by (auto simp: supersede_open_def tbl_get_update_where)

lemma history_kept_recommendation:
  "tbl_wf (db_recommendations s) \<Longrightarrow> history_kept s (s\<lparr>db_recommendations := tbl_insert x (db_recommendations s)\<rparr>)"
proof -
  assume wf: "tbl_wf (db_recommendations s)"
  have "\<exists>t. tbl_get (tbl_insert x (db_recommendations s)) k = Some (c\<lparr>rc_superseded_at := t\<rparr>)
      \<and> (rc_superseded_at c \<noteq> None \<longrightarrow> t = rc_superseded_at c)"
    if "tbl_get (db_recommendations s) k = Some c" for k c
    using tbl.get_add_old [OF wf that, of x] by (intro exI [of _ "rc_superseded_at c"]) simp
  then show ?thesis using history_kept_refl [of s] unfolding history_kept_def by simp
qed

lemma history_kept_submit:
  assumes ok: "execution_ok s" and s: "submit_deliverable u k ds ev key s = (Inr x, s')"
  shows "history_kept s s'"
proof (cases "revision_by_key s k key")
  case None
  obtain d p r rows rk s1 where 1: "insert_revision r s = (Inr rk, s1)"
    and 2: "after_revision u k p d rows rk r s1 = (Inr x, s')"
    using s None by (fastforce simp: submit_deliverable_def Let_def split: option.splits sum.splits prod.splits)
  have "history_kept s s1"
    using 1 execution_okD(3) [OF ok] by (simp add: insert_revision_Inr history_kept_revision revisions_ok_def)
  then show ?thesis
    using same_history_after_revision [OF 2] history_kept_same history_kept_trans by blast
next
  case (Some rk)
  then have "s' = s" using s by (auto simp: submit_deliverable_def Let_def split: option.splits sum.splits prod.splits)
  then show ?thesis by simp
qed

lemma history_kept_recommend:
  assumes ok: "execution_ok s" and s: "recommend_deliverable u rk v ra s = (Inr x, s')"
  shows "history_kept s s'"
proof -
  let ?s1 = "s\<lparr>db_recommendations := supersede_open rk (u_id u) (db_now s) (db_recommendations s)\<rparr>"
  obtain r st y s2 cs where r: "tbl_get (db_revisions s) rk = Some r"
    and i: "insert_recommendation y ?s1 = (Inr x, s2)"
    and s': "s' = revision_event u ''deliverable.recommended'' rk (r\<lparr>rv_state := st\<rparr>)
      (s2\<lparr>db_revisions := tbl_put rk (r\<lparr>rv_state := st\<rparr>) (db_revisions s2)\<rparr>)\<lparr>db_on_commit := cs\<rparr>"
    using s by (fastforce simp: recommend_deliverable_def Let_def split: option.splits sum.splits prod.splits if_splits)
  have s2: "s2 = ?s1\<lparr>db_recommendations := tbl_insert y (db_recommendations ?s1)\<rparr>"
    using i by (auto simp: insert_recommendation_def split: if_splits)
  have "tbl_wf (db_recommendations ?s1)"
    using recommendations_ok_supersede [OF execution_okD(4) [OF ok]] by (simp add: recommendations_ok_def)
  then have "history_kept s s2"
    unfolding s2 by (blast intro: history_kept_trans history_kept_supersede history_kept_recommendation)
  moreover have "history_kept s2 (s2\<lparr>db_revisions := tbl_put rk (r\<lparr>rv_state := st\<rparr>) (db_revisions s2)\<rparr>)"
    using execution_okD(3) [OF ok] r by (intro history_kept_state) (simp_all add: s2 revisions_ok_def)
  moreover have "same_history (s2\<lparr>db_revisions := tbl_put rk (r\<lparr>rv_state := st\<rparr>) (db_revisions s2)\<rparr>) s'"
    by (simp add: s' revision_event_def same_history_def)
  ultimately show ?thesis using history_kept_same history_kept_trans by blast
qed

lemma history_kept_decide:
  assumes ok: "execution_ok s" and s: "decide_deliverable u rk dec ra key s = (Inr y, s')"
  shows "history_kept s s'"
proof (cases "decision_of s rk")
  case (Some xk)
  then have "s' = s" using s by (auto simp: decide_deliverable_def Let_def split: option.splits sum.splits prod.splits)
  then show ?thesis by simp
next
  case None
  obtain r d v xk s1 where r: "tbl_get (db_revisions s) rk = Some r"
    and i: "insert_decision (new_decision u rk r v ra key (db_now s)) s = (Inr xk, s1)"
    and a: "after_decision u rk r d v xk s1 = (Inr y, s')"
    using s None by (auto simp: decide_deliverable_def split: option.splits sum.splits prod.splits if_splits)
  let ?s2 = "s1\<lparr>db_revisions := tbl_put rk (r\<lparr>rv_state := decided_state v\<rparr>) (db_revisions s1)\<rparr>"
  have 1: "history_kept s s1"
    using i execution_okD(5) [OF ok] by (simp add: insert_decision_Inr history_kept_decision decisions_ok_def)
  have 2: "history_kept s1 ?s2"
    using i execution_okD(3) [OF ok] r by (intro history_kept_state) (simp_all add: insert_decision_Inr revisions_ok_def)
  obtain s3 where 3: "save_and_reconcile (rv_deliverable r) (decided_deliverable v rk (db_now s1) d) ?s2 = (Inr (), s3)"
    using a by (auto simp: after_decision_def Let_def split: sum.splits prod.splits)
  have "same_history ?s2 s'"
    using same_history_save [OF 3] a 3
    by (auto simp: after_decision_def Let_def on_commit_def same_history_def)
  then show ?thesis using 1 2 history_kept_same history_kept_trans by blast
qed

lemma history_kept_op: "execution_ok s \<Longrightarrow> execution_op c s = (Inr x, s') \<Longrightarrow> history_kept s s'"
  by (cases c)
    (auto simp: void_Inr dest: same_history_planning same_history_update_milestone same_history_update_deliverable
      intro: history_kept_same history_kept_submit history_kept_recommend history_kept_decide)

lemma history_kept_step:
  assumes ok: "execution_ok s"
  shows "history_kept s (snd (execution_step c s))"
  using committed_request_work [of s "execution_op c"]
proof
  assume "same_work s (snd (committed_request (execution_op c) s))"
  then show ?thesis by (simp add: execution_step_def history_kept_same same_work_history)
next
  assume "\<exists>x s1. execution_op c (s\<lparr>db_on_commit := []\<rparr>) = (Inr x, s1)
    \<and> same_work s1 (snd (committed_request (execution_op c) s))"
  then obtain x s1 where 1: "execution_op c (s\<lparr>db_on_commit := []\<rparr>) = (Inr x, s1)"
    and 2: "same_work s1 (snd (execution_step c s))" by (auto simp: execution_step_def)
  have "history_kept s (s\<lparr>db_on_commit := []\<rparr>)" by (rule history_kept_same) (simp add: same_history_def)
  moreover have "history_kept (s\<lparr>db_on_commit := []\<rparr>) s1" using history_kept_op [OF _ 1] ok by simp
  ultimately show ?thesis using history_kept_same [OF same_work_history [OF 2]] history_kept_trans by blast
qed

lemma history_kept_run: "execution_ok s \<Longrightarrow> history_kept s (run_all execution_step cs s)"
proof (induction cs arbitrary: s)
  case (Cons c cs)
  show ?case using history_kept_step [OF Cons.prems, of c] Cons.IH [OF execution.step_inv [OF Cons.prems, of c]]
    by (auto intro: history_kept_trans)
qed simp

section \<open>Two clients with one version\<close>

definition milestone_version :: "pk \<Rightarrow> 'a execution_db_scheme \<Rightarrow> nat option" where
  "milestone_version k s = map_option ms_version (tbl_get (db_milestones s) k)"

definition deliverable_version :: "pk \<Rightarrow> 'a execution_db_scheme \<Rightarrow> nat option" where
  "deliverable_version k s = map_option dl_version (tbl_get (db_deliverables s) k)"

lemma reconcile_version:
  assumes ok: "milestones_ok (db_milestones s)" and r: "reconcile_milestone j s = (Inr m', s')"
    and v: "milestone_version k s = Some v"
  shows "\<exists>v'. milestone_version k s' = Some v' \<and> v \<le> v'"
proof -
  obtain m where m: "tbl_get (db_milestones s) j = Some m"
    using r by (auto simp: reconcile_milestone_def split: option.splits)
  have wf: "tbl_wf (db_milestones s)" by (rule milestones_okD [OF ok])
  have "s' = s\<lparr>db_milestones := tbl_put j (reconciled (db_now s) m
      (derived_status (date_of (db_now s)) m (required_deliverables s j))) (db_milestones s)\<rparr>"
    using reconcile_milestone_ok [OF ok m] r by simp
  then show ?thesis
    using v m by (auto simp: milestone_version_def tbl.get_put [OF wf] reconciled_def)
qed

lemma update_milestone_stale: "milestone_version k s \<noteq> Some v \<Longrightarrow> \<exists>e. update_milestone u k (int v) c s = (Inl e, s)"
  by (auto simp: update_milestone_def atomic_def milestone_version_def split: option.splits sum.splits)

lemma update_milestone_moves:
  assumes ok: "milestones_ok (db_milestones s)" and u: "update_milestone u k (int v) c s = (Inr x, s')"
  shows "\<exists>v'. milestone_version k s' = Some v' \<and> v < v'"
proof -
  obtain m m' m2 s1 s2 s3 where g: "tbl_get (db_milestones s) k = Some m" "ms_version m = v"
    and 1: "save_milestone k m' s1 = (Inr (), s2)" "db_milestones s1 = db_milestones s" "ms_version m' = Suc (ms_version m)"
    and 2: "reconcile_milestone k s2 = (Inr m2, s3)" and s': "s' = milestone_event u ''milestone.updated'' k m' s3"
    using u by (fastforce simp: update_milestone_def Let_def split: option.splits sum.splits prod.splits if_splits)
  have "milestones_ok (db_milestones s2)"
    using 1 ok by (auto simp: save_milestone_Inr intro: milestones_ok_put)
  moreover have "milestone_version k s2 = Some (Suc v)"
    using 1 g milestones_okD(1) [OF ok] by (simp add: save_milestone_Inr milestone_version_def tbl.get_put)
  ultimately obtain v' where "milestone_version k s3 = Some v'" "Suc v \<le> v'"
    using reconcile_version [OF _ 2] by blast
  then show ?thesis by (auto simp: s' milestone_event_def milestone_version_def)
qed

interpretation milestone_update: optimistic_update "milestone_version k"
    "\<lambda>v. update_milestone u k (int v) c" "\<lambda>s. milestones_ok (db_milestones s)"
  by unfold_locales (simp_all add: update_milestone_stale update_milestone_moves)

lemma update_deliverable_stale:
  "deliverable_version k s \<noteq> Some v \<Longrightarrow> \<exists>e. update_deliverable u k (int v) c s = (Inl e, s)"
  by (auto simp: update_deliverable_def atomic_def deliverable_version_def split: option.splits sum.splits)

lemma update_deliverable_moves:
  assumes ok: "deliverables_ok (db_deliverables s)" and u: "update_deliverable u k (int v) c s = (Inr x, s')"
  shows "\<exists>v'. deliverable_version k s' = Some v' \<and> v < v'"
proof -
  obtain d d1 d2 s1 s2 cm al where g: "tbl_get (db_deliverables s) k = Some d" "dl_version d = v"
    and 1: "apply_planning u k cm (dc_planning c) d s = (Inr d1, s1)" and 2: "apply_progress al c d1 = Inr d2"
    and 3: "save_and_reconcile k (d2\<lparr>dl_version := Suc (dl_version d2), dl_updated_at := db_now s1\<rparr>) s1 = (Inr (), s2)"
    and s': "s' = deliverable_event u ''deliverable.updated'' k
       (d2\<lparr>dl_version := Suc (dl_version d2), dl_updated_at := db_now s1\<rparr>) s2"
    using u by (fastforce simp: update_deliverable_def Let_def split: option.splits sum.splits prod.splits if_splits)
  have "dl_version d2 = v" "db_deliverables s1 = db_deliverables s"
    using apply_planning_Inr [OF 1] apply_progress_Inr [OF 2] g by auto
  then show ?thesis
    using save_and_reconcile_Inr [OF 3] ok
    by (auto simp: s' deliverable_event_def deliverable_version_def deliverables_ok_def tbl.get_put)
qed

interpretation deliverable_update: optimistic_update "deliverable_version k"
    "\<lambda>v. update_deliverable u k (int v) c" "\<lambda>s. deliverables_ok (db_deliverables s)"
  by unfold_locales (simp_all add: update_deliverable_stale update_deliverable_moves)

section \<open>Repeated requests\<close>

text \<open>What the guards of a repeated submission or decision read.\<close>

definition same_access :: "'a execution_db_scheme \<Rightarrow> 'a execution_db_scheme \<Rightarrow> bool" where
  "same_access s s' \<longleftrightarrow> db_projects s' = db_projects s \<and> db_memberships s' = db_memberships s"

lemma same_access_trans: "same_access s t \<Longrightarrow> same_access t u \<Longrightarrow> same_access s u"
  by (simp add: same_access_def)

lemma same_access_capabilities:
  "same_access s s' \<Longrightarrow> project_capabilities s' u pid p = project_capabilities s u pid p"
  "same_access s s' \<Longrightarrow> project_row s' pid = project_row s pid"
  "same_access s s' \<Longrightarrow> require_capability s' u pid p cap = require_capability s u pid p cap"
  by (simp_all add: same_access_def project_capabilities_def active_membership_def project_row_def require_capability_def)

lemma same_access_save: "save_and_reconcile k d s = (Inr x, s') \<Longrightarrow> same_access s s'"
  by (drule save_and_reconcile_Inr) (auto simp: same_access_def)

lemma same_access_assign: "same_access s (snd (assign_designated p rk x s))"
  by (auto simp: assign_designated_def assign_reviewer_def atomic_def void_def assignment_event_def same_access_def Let_def
      split: option.splits sum.splits prod.splits)

lemma same_access_after_revision:
  assumes a: "after_revision u k p d rows rk r s = (Inr x, s')"
  shows "same_access s s' \<and> x = rk \<and> (\<exists>d'. tbl_get (db_deliverables s') k = Some d' \<and> dl_project d' = dl_project d)"
proof -
  obtain s1 where 1: "insert_evidence rk rows s = (Inr (), s1)"
    using a by (auto simp: after_revision_def split: sum.splits prod.splits)
  obtain s2 where 2: "for_each (assign_designated (dl_project d, p) rk) (open_designations s1 k) s1 = (Inr (), s2)"
    using a 1 by (auto simp: after_revision_def split: sum.splits prod.splits)
  obtain s3 where 3: "save_and_reconcile k (submitted d rk (db_now s2)) s2 = (Inr (), s3)"
    using a 1 2 by (auto simp: after_revision_def split: sum.splits prod.splits)
  have "same_access t (snd (for_each (assign_designated (dl_project d, p) rk) xs t))" for xs t
  proof (rule for_each_rel [where R = same_access])
    show "same_access t' t'" for t' by (simp add: same_access_def)
  qed (rule same_access_trans, assumption+, rule same_access_assign)
  then have "same_access s1 s2" using 2 by (metis snd_conv)
  moreover have "same_access s s1" using 1 by (auto simp: insert_evidence_def same_access_def split: if_splits)
  ultimately have "same_access s s3" using same_access_save [OF 3] same_access_trans by blast
  moreover have "tbl_get (db_deliverables s3) k = Some (submitted d rk (db_now s2))"
    using save_and_reconcile_Inr [OF 3] by (auto simp: put_notification_get)
  ultimately show ?thesis
    using a 1 2 3 by (auto simp: after_revision_def Let_def revision_event_def same_access_def submitted_def)
qed

lemma submit_again:
  assumes key: "key \<noteq> []" and s: "submit_deliverable u k ds ev key s = (Inr x, s')"
  shows "submit_deliverable u k ds ev key s' = (Inr x, s')"
proof (cases "revision_by_key s k key")
  case (Some rk)
  then have "s' = s" using s by (auto simp: submit_deliverable_def Let_def split: option.splits sum.splits prod.splits)
  then show ?thesis using s by simp
next
  case None
  obtain d p rows rk s1 where d: "tbl_get (db_deliverables s) k = Some d"
    and p: "project_row s (dl_project d) = Inr p" "require_writable p = Inr ()"
    and i: "insert_revision (new_revision u k d (next_revision_number s k) ds key (db_now s)) s = (Inr rk, s1)"
    and a: "after_revision u k p d rows rk (new_revision u k d (next_revision_number s k) ds key (db_now s)) s1 = (Inr x, s')"
    using s None by (fastforce simp: submit_deliverable_def Let_def split: option.splits sum.splits prod.splits)
  have "same_access s s1" "db_revisions s1 = tbl_insert (new_revision u k d (next_revision_number s k) ds key (db_now s)) (db_revisions s)"
    "rk = tbl_next (db_revisions s)"
    using i by (auto simp: insert_revision_Inr same_access_def)
  moreover have "db_revisions s' = db_revisions s1"
    using same_history_after_revision [OF a] by (simp add: same_history_def)
  ultimately have "revision_by_key s' k key = Some rk"
    using None key by (auto simp: revision_by_key_def tbl_first_insert new_revision_def)
  moreover obtain d' where "tbl_get (db_deliverables s') k = Some d'" "dl_project d' = dl_project d" "x = rk"
    using same_access_after_revision [OF a] by blast
  moreover have "same_access s s'"
    using \<open>same_access s s1\<close> same_access_after_revision [OF a] same_access_trans by blast
  ultimately show ?thesis
    using p by (simp add: submit_deliverable_def atomic_def same_access_capabilities [OF \<open>same_access s s'\<close>])
qed

interpretation submission: retry_safe "submit_deliverable u k ds ev (ch # key)"
  by unfold_locales (rule submit_again, simp)

lemma decide_again:
  assumes s: "decide_deliverable u rk dec ra key s = (Inr y, s')"
  shows "decide_deliverable u rk dec ra key s' = (Inr y, s')"
proof (cases "decision_of s rk")
  case (Some xk)
  then have "s' = s" using s by (auto simp: decide_deliverable_def Let_def split: option.splits sum.splits prod.splits)
  then show ?thesis using s by simp
next
  case None
  obtain r p d v xk s1 where r: "tbl_get (db_revisions s) rk = Some r"
    and p: "project_row s (rv_project r) = Inr p" "require_capability s u (rv_project r) p canDecideDeliverables = Inr ()"
    and i: "insert_decision (new_decision u rk r v ra key (db_now s)) s = (Inr xk, s1)"
    and a: "after_decision u rk r d v xk s1 = (Inr y, s')"
    using s None by (auto simp: decide_deliverable_def split: option.splits sum.splits prod.splits if_splits)
  let ?s2 = "s1\<lparr>db_revisions := tbl_put rk (r\<lparr>rv_state := decided_state v\<rparr>) (db_revisions s1)\<rparr>"
  obtain s3 where 3: "save_and_reconcile (rv_deliverable r) (decided_deliverable v rk (db_now s1) d) ?s2 = (Inr (), s3)"
    using a by (auto simp: after_decision_def Let_def split: sum.splits prod.splits)
  have s1: "s1 = s\<lparr>db_decisions := tbl_insert (new_decision u rk r v ra key (db_now s)) (db_decisions s)\<rparr>"
    "xk = tbl_next (db_decisions s)"
    using i by (simp_all add: insert_decision_Inr)
  have y: "y = xk" and h: "same_history s3 s'" and acc: "same_access s3 s'"
    using a 3 by (auto simp: after_decision_def Let_def on_commit_def same_history_def same_access_def)
  have "decision_of s' rk = Some xk"
    using None h same_history_save [OF 3]
    by (simp add: decision_of_def same_history_def s1 tbl_first_insert new_decision_def)
  moreover have "tbl_get (db_revisions s') rk = Some (r\<lparr>rv_state := decided_state v\<rparr>)"
    using h same_history_save [OF 3] by (simp add: same_history_def put_notification_get)
  moreover have "same_access s s'"
    using acc same_access_save [OF 3] by (simp add: same_access_def s1)
  ultimately show ?thesis
    using p y by (simp add: decide_deliverable_def atomic_def same_access_capabilities [OF \<open>same_access s s'\<close>])
qed

interpretation decision: retry_safe "decide_deliverable u rk dec ra key"
  by unfold_locales (rule decide_again)

section \<open>A valid decision succeeds\<close>

lemma save_and_reconcile_succeeds:
  assumes "milestones_ok (db_milestones s)" "deliverables_ok (db_deliverables s)"
    and "tbl_get (db_deliverables s) k = Some d0" "deliverable_order_key d = deliverable_order_key d0"
    and "progress_in_range d" "tbl_get (db_milestones s) (dl_milestone d) = Some m"
  shows "\<exists>s'. save_and_reconcile k d s = (Inr (), s')"
proof -
  have "\<not> key_taken_by_other deliverable_order_key k d (db_deliverables s)"
    by (rule key_kept_not_taken [OF _ assms(3)]) (use assms(2,4) in \<open>simp_all add: deliverables_ok_def\<close>)
  then show ?thesis
    using assms(1,5,6) reconcile_milestone_ok [of "s\<lparr>db_deliverables := tbl_put k d (db_deliverables s)\<rparr>" "dl_milestone d" m]
    by (simp add: save_and_reconcile_def save_deliverable_def void_def)
qed

lemma decision_takes_effect:
  assumes ok: "execution_ok s" and r: "tbl_get (db_revisions s) rk = Some r"
    and p: "project_row s (rv_project r) = Inr p" "require_capability s u (rv_project r) p canDecideDeliverables = Inr ()"
    and new: "decision_of s rk = None" "key = [] \<or> \<not> tbl_exists (\<lambda>_ x. fd_idempotency_key x = key) (db_decisions s)"
    and d: "tbl_get (db_deliverables s) (rv_deliverable r) = Some d" "tbl_get (db_milestones s) (dl_milestone d) = Some m"
    and v: "may_decide s rk d dec ra = Inr v"
  shows "\<exists>xk s'. decide_deliverable u rk dec ra key s = (Inr xk, s')
    \<and> tbl_get (db_deliverables s') (rv_deliverable r) = Some (decided_deliverable v rk (db_now s) d)"
proof -
  let ?x = "new_decision u rk r v ra key (db_now s)"
  let ?s1 = "s\<lparr>db_decisions := tbl_insert ?x (db_decisions s)\<rparr>"
  let ?s2 = "?s1\<lparr>db_revisions := tbl_put rk (r\<lparr>rv_state := decided_state v\<rparr>) (db_revisions s)\<rparr>"
  let ?d = "decided_deliverable v rk (db_now s) d"
  have "\<not> key_taken decision_revision_key ?x (db_decisions s)"
    using new(1) by (auto simp: key_taken_def decision_revision_key_def new_decision_def decision_of_def tbl_first_None)
  moreover have "\<not> key_taken decision_retry_key ?x (db_decisions s)"
    using new(2) by (auto simp: key_taken_def decision_retry_key_def new_decision_def tbl_exists_iff split: if_splits)
  ultimately have i: "insert_decision ?x s = (Inr (tbl_next (db_decisions s)), ?s1)"
    by (simp add: insert_decision_def)
  have "progress_in_range d" using execution_okD(2) [OF ok] tbl_getD [OF d(1)] by (auto simp: deliverables_ok_def)
  then have "\<exists>s3. save_and_reconcile (rv_deliverable r) ?d ?s2 = (Inr (), s3)"
    using execution_okD(1,2) [OF ok] d
    by (intro save_and_reconcile_succeeds [where m = m and ?d0.0 = d])
      (auto simp: decided_deliverable_def deliverable_order_key_def progress_in_range_def split: decision_value.splits)
  then obtain s3 where 3: "save_and_reconcile (rv_deliverable r) ?d ?s2 = (Inr (), s3)" by blast
  then have "tbl_get (db_deliverables s3) (rv_deliverable r) = Some ?d"
    using save_and_reconcile_Inr by (fastforce simp: put_notification_get)
  then show ?thesis
    using r p new(1) d v i 3 by (simp add: decide_deliverable_def atomic_def after_decision_def Let_def on_commit_def)
qed

end
