(* ===== verification/ExecutionSamples.thy ===== *)
theory ExecutionSamples
  imports Samples ExecutionHistory
begin

text \<open>
  A database of the execution services: one milestone, one deliverable that requires a reviewer, its
  assignee, its designated reviewer and one submitted revision.
\<close>

definition sample_milestone :: milestone where
  "sample_milestone =
     \<lparr>ms_project = 1, ms_title = ''Setup'', ms_description = [], ms_target_date = 20010, ms_order = 0,
      ms_current_status = Milestone_IN_PROGRESS, ms_completed_at = None, ms_archived_at = None, ms_version = 1,
      ms_created_by = 1, ms_created_at = 0, ms_updated_at = 0\<rparr>"

definition sample_deliverable :: deliverable where
  "sample_deliverable =
     \<lparr>dl_project = 1, dl_milestone = 1, dl_title = ''Bench'', dl_description = [],
      dl_acceptance_criteria = ''aligned'', dl_due_date = 20005, dl_required = True, dl_reviewer_required = True,
      dl_order = 0, dl_current_status = Deliverable_UNDER_REVIEW, dl_progress_percent = 50, dl_blocker_summary = [],
      dl_current_revision = Some 1, dl_accepted_revision = None, dl_accepted_at = None, dl_archived_at = None,
      dl_version = 2, dl_created_by = 1, dl_created_at = 0, dl_updated_at = 0\<rparr>"

definition sample_revision :: deliverable_revision where
  "sample_revision =
     \<lparr>rv_project = 1, rv_deliverable = 1, rv_revision_number = 1, rv_criteria_snapshot = ''aligned'',
      rv_description_snapshot = ''first'', rv_submitted_by = 2, rv_submitted_at = 0, rv_idempotency_key = ''a'',
      rv_state = Revision_SUBMITTED\<rparr>"

definition sample_execution :: execution_db where
  "sample_execution =
     \<lparr>db_now = sample_now, db_request_id = ''-'', db_users = sample_users, db_audit = tbl_empty,
      db_projects = sample_projects, db_memberships = sample_members, db_notifications = tbl_empty,
      db_read_receipts = tbl_empty, db_delivery_attempts = tbl_empty, db_preference_profiles = tbl_empty,
      db_category_preferences = tbl_empty, db_notification_policies = tbl_empty,
      db_settings = base_notification_settings, db_zones = utc_zones, db_resolvers = Map.empty,
      db_milestones = \<lparr>tbl_rows = [(1, sample_milestone)], tbl_next = 2\<rparr>, db_milestone_owners = tbl_empty,
      db_deliverables = \<lparr>tbl_rows = [(1, sample_deliverable)], tbl_next = 2\<rparr>,
      db_assignees = \<lparr>tbl_rows = [(1, \<lparr>as_deliverable = 1, as_user = 2, as_assigned_by = 1, as_assigned_at = 0,
        as_removed_at = None\<rparr>)], tbl_next = 2\<rparr>,
      db_designations = \<lparr>tbl_rows = [(1, \<lparr>rd_deliverable = 1, rd_reviewer = 3, rd_designated_by = 1,
        rd_designated_at = 0, rd_removed_at = None\<rparr>)], tbl_next = 2\<rparr>,
      db_task_links = tbl_empty, db_revisions = \<lparr>tbl_rows = [(1, sample_revision)], tbl_next = 2\<rparr>,
      db_evidence = tbl_empty, db_recommendations = tbl_empty, db_decisions = tbl_empty,
      db_assignments = tbl_empty, db_task_project = [1 \<mapsto> 1], db_material_project = Map.empty,
      db_report_project = Map.empty, db_writing_version_project = Map.empty, db_draft_version_project = Map.empty,
      db_bracketed_netloc_ok = (\<lambda>_. False), db_on_commit = []\<rparr>"

lemma sample_execution_ok: "execution_ok sample_execution"
  by (auto simp: execution_ok_def milestones_ok_def deliverables_ok_def revisions_ok_def recommendations_ok_def
      decisions_ok_def acceptances_ok_def sample_execution_def tbl_wf_def unique_on_def milestone_checks_def
      sample_milestone_def progress_in_range_def sample_deliverable_def tbl_get_def tbl_empty_def split: if_splits)

text \<open>The reviewer recommends acceptance; the advisor accepts.\<close>

definition reviewed_run :: "execution_command list" where
  "reviewed_run = [RecommendDeliverable rob 1 ''accept'' ''fine'', DecideDeliverable ada 1 ''accepted'' [] ''d'']"

definition task_evidence :: evidence_item where
  "task_evidence = \<lparr>ei_project_material_id = None, ei_task_id = Some 1, ei_weekly_progress_report_id = None,
     ei_external_url = None, ei_label = None\<rparr>"

definition progress_note :: deliverable_changes where
  "progress_note =
     \<lparr>dc_planning = None, dc_progress_percent = Some 60, dc_work_status = None, dc_blocker_summary = None\<rparr>"

text \<open>The project under a governance hold.\<close>

definition held_project :: research_project where
  "held_project = sample_project\<lparr>rp_governance_state := ResearchProject_HOLD,
     rp_governance_hold_reason := ResearchProject_NO_REASON\<rparr>"

definition held_execution :: execution_db where
  "held_execution = sample_execution\<lparr>db_projects := \<lparr>tbl_rows = [(1, held_project)], tbl_next = 2\<rparr>\<rparr>"

section \<open>Notifications\<close>

text \<open>An open follow-up of ada's, an acknowledgement asked of sam, an expired action of rob's.\<close>

definition sample_notification :: "pk \<Rightarrow> string \<Rightarrow> requirement_type \<Rightarrow> outcome_state \<Rightarrow> string \<Rightarrow> bool \<Rightarrow> notification" where
  "sample_notification u target req oc key open_follow_up =
     \<lparr>nt_project = Some 1, nt_recipient = u, nt_recipient_email = [], nt_sender = None, nt_event_type = PENDING_REVIEW,
      nt_target_type = target, nt_target_id = ''1'', nt_subject = ''Review'', nt_action_path = [],
      nt_status = Notification_PENDING, nt_delivery_policy = Notification_IN_APP, nt_eligible_at = 0,
      nt_queued_at = None, nt_sent_at = None, nt_last_attempt_at = None, nt_retry_count = 0, nt_failure_reason = [],
      nt_category = Notification_DELIVERABLE, nt_requirement_type = req, nt_outcome_state = oc, nt_due_at = None,
      nt_expires_at = None, nt_acknowledged_at = None, nt_action_completed_at = None, nt_expired_at = None,
      nt_unavailable_at = None, nt_completion_event_type = [], nt_completion_event_id = [], nt_dedupe_key = key,
      nt_active_follow_up = open_follow_up, nt_reminder_count = 0, nt_escalation_level = 0, nt_last_reminded_at = None,
      nt_last_escalated_at = None, nt_created_at = 0\<rparr>"

definition sample_resolver :: action_resolver where
  "sample_resolver n event_type event_id = (event_type = ''execution.deliverable.decided'')"

definition sample_mail :: notification_db where
  "sample_mail =
     \<lparr>db_now = sample_now, db_request_id = ''-'', db_users = sample_users, db_audit = tbl_empty,
      db_projects = sample_projects, db_memberships = sample_members,
      db_notifications = \<lparr>tbl_rows =
        [(1, sample_notification 1 ''DeliverableRevision'' Notification_ACTION Notification_OUTCOME_PENDING ''k'' True),
         (2, sample_notification 2 ''Project'' Notification_ACKNOWLEDGEMENT Notification_OUTCOME_PENDING [] False),
         (3, sample_notification 3 ''DeliverableRevision'' Notification_ACTION Notification_EXPIRED ''k'' False)],
        tbl_next = 4\<rparr>,
      db_read_receipts = tbl_empty, db_delivery_attempts = tbl_empty, db_preference_profiles = tbl_empty,
      db_category_preferences = tbl_empty, db_notification_policies = tbl_empty,
      db_settings = base_notification_settings, db_zones = utc_zones,
      db_resolvers = [''DeliverableRevision'' \<mapsto> sample_resolver]\<rparr>"

lemma sample_mail_ok: "mail_ok sample_mail"
  by (auto simp: mail_ok_def notifications_ok_def sample_mail_def tbl_wf_def unique_on_def follow_up_key_def
      notification_requirement_outcome_valid_def sample_notification_def)

end
