(* ===== verification/GovernanceRecords.thy ===== *)
theory GovernanceRecords
  imports ExecutionHistory
begin

text \<open>
  Decision records and the risk register (\<open>apps/projects/decision_risk_services.py\<close>, the last four
  models of \<open>apps/projects/models.py\<close>).

  A decision is published once and superseded by at most one other. A risk is raised, triaged, and
  moved between open, mitigating, accepted and resolved; every step appends a revision. Both may link
  to other records of the project. Of tasks, materials and reports the titles are a parameter
  (\<open>db_linked_titles\<close>, \<open>None\<close> where a record has no title).
\<close>

section \<open>Records\<close>

datatype decision_status = DecisionRecord_CURRENT | DecisionRecord_SUPERSEDED

fun decision_status_value :: "decision_status \<Rightarrow> string" where
  "decision_status_value DecisionRecord_CURRENT = ''current''"
| "decision_status_value DecisionRecord_SUPERSEDED = ''superseded''"

record decision_record =
  dr_project :: pk
  dr_title :: string
  dr_context :: string
  dr_options_considered :: "string list"
  dr_outcome :: string
  dr_rationale :: string
  dr_owner :: pk
  dr_effective_date :: day
  dr_status :: decision_status
  dr_supersedes :: "pk option"
  dr_published_by :: pk
  dr_published_at :: instant
  dr_idempotency_key :: string

definition record_retry_key :: "decision_record \<Rightarrow> (pk \<times> string) option" where
  "record_retry_key d = (if dr_idempotency_key d = [] then None else Some (dr_project d, dr_idempotency_key d))"

datatype risk_level = Risk_LOW | Risk_MEDIUM | Risk_HIGH

fun risk_level_value :: "risk_level \<Rightarrow> string" where
  "risk_level_value Risk_LOW = ''low''"
| "risk_level_value Risk_MEDIUM = ''medium''"
| "risk_level_value Risk_HIGH = ''high''"

definition risk_level_of_value :: "string \<Rightarrow> risk_level option" where
  "risk_level_of_value v = find (\<lambda>l. risk_level_value l = v) [Risk_LOW, Risk_MEDIUM, Risk_HIGH]"

datatype risk_state = Risk_RAISED | Risk_OPEN | Risk_MITIGATING | Risk_ACCEPTED | Risk_RESOLVED

fun risk_state_value :: "risk_state \<Rightarrow> string" where
  "risk_state_value Risk_RAISED = ''raised''"
| "risk_state_value Risk_OPEN = ''open''"
| "risk_state_value Risk_MITIGATING = ''mitigating''"
| "risk_state_value Risk_ACCEPTED = ''accepted''"
| "risk_state_value Risk_RESOLVED = ''resolved''"

record risk_record =
  rk_project :: pk
  rk_title :: string
  rk_description :: string
  rk_source_type :: string
  rk_source_key :: string
  rk_likelihood :: risk_level
  rk_impact :: risk_level
  rk_severity :: risk_level
  rk_owner :: "pk option"
  rk_treatment :: string
  rk_review_date :: "day option"
  rk_state :: risk_state
  rk_closure_rationale :: string
  rk_closed_at :: "instant option"
  rk_version :: nat
  rk_raised_by :: pk
  rk_idempotency_key :: string
  rk_created_at :: instant
  rk_updated_at :: instant

definition risk_source_key :: "risk_record \<Rightarrow> (pk \<times> string \<times> string) option" where
  "risk_source_key r =
     (if rk_source_key r = [] then None else Some (rk_project r, rk_source_type r, rk_source_key r))"

definition risk_retry_key :: "risk_record \<Rightarrow> (pk \<times> string) option" where
  "risk_retry_key r = (if rk_idempotency_key r = [] then None else Some (rk_project r, rk_idempotency_key r))"

record risk_revision =
  rr_project :: pk
  rr_risk :: pk
  rr_revision_number :: nat
  rr_previous_state :: risk_state
  rr_new_state :: risk_state
  rr_likelihood :: risk_level
  rr_impact :: risk_level
  rr_severity :: risk_level
  rr_owner_id_snapshot :: "pk option"
  rr_treatment :: string
  rr_review_date :: "day option"
  rr_closure_rationale :: string
  rr_actor :: pk
  rr_reason :: string
  rr_idempotency_key :: string
  rr_created_at :: instant

definition risk_revision_key :: "risk_revision \<Rightarrow> (pk \<times> nat) option" where
  "risk_revision_key r = Some (rr_risk r, rr_revision_number r)"

definition risk_transition_retry_key :: "risk_revision \<Rightarrow> (pk \<times> string) option" where
  "risk_transition_retry_key r = (if rr_idempotency_key r = [] then None else Some (rr_risk r, rr_idempotency_key r))"

record record_link =
  rl_project :: pk
  rl_decision :: "pk option"
  rl_risk :: "pk option"
  rl_target_type_snapshot :: string
  rl_target_id_snapshot :: string
  rl_label_snapshot :: string
  rl_created_by :: pk
  rl_created_at :: instant

definition decision_link_key :: "record_link \<Rightarrow> (pk \<times> string \<times> string) option" where
  "decision_link_key l =
     map_option (\<lambda>d. (d, rl_target_type_snapshot l, rl_target_id_snapshot l)) (rl_decision l)"

definition risk_link_key :: "record_link \<Rightarrow> (pk \<times> string \<times> string) option" where
  "risk_link_key l = map_option (\<lambda>r. (r, rl_target_type_snapshot l, rl_target_id_snapshot l)) (rl_risk l)"

record governance_db = execution_db +
  db_decision_records :: "decision_record table"
  db_risks :: "risk_record table"
  db_risk_revisions :: "risk_revision table"
  db_record_links :: "record_link table"
  db_linked_titles :: "string \<Rightarrow> pk \<Rightarrow> string option"

lemma record_execution_event_governance [simp]:
  "db_decision_records (record_execution_event p a act tg st pr s) = db_decision_records s"
  "db_risks (record_execution_event p a act tg st pr s) = db_risks s"
  "db_risk_revisions (record_execution_event p a act tg st pr s) = db_risk_revisions s"
  "db_record_links (record_execution_event p a act tg st pr s) = db_record_links s"
  "db_linked_titles (record_execution_event p a act tg st pr s) = db_linked_titles s"
  by (simp_all add: record_execution_event_def record_event_def)

section \<open>Helpers of the services\<close>

text \<open>\<open>RISK_MATRIX\<close> and the severity read from it.\<close>

fun RISK_MATRIX :: "risk_level \<Rightarrow> risk_level \<Rightarrow> risk_level" where
  "RISK_MATRIX Risk_LOW Risk_LOW = Risk_LOW"
| "RISK_MATRIX Risk_LOW Risk_MEDIUM = Risk_LOW"
| "RISK_MATRIX Risk_LOW Risk_HIGH = Risk_MEDIUM"
| "RISK_MATRIX Risk_MEDIUM Risk_LOW = Risk_LOW"
| "RISK_MATRIX Risk_MEDIUM Risk_MEDIUM = Risk_MEDIUM"
| "RISK_MATRIX Risk_MEDIUM Risk_HIGH = Risk_HIGH"
| "RISK_MATRIX Risk_HIGH Risk_LOW = Risk_MEDIUM"
| "RISK_MATRIX Risk_HIGH Risk_MEDIUM = Risk_HIGH"
| "RISK_MATRIX Risk_HIGH Risk_HIGH = Risk_HIGH"

text \<open>The assessed levels with their severity, or the error of a key that is not in the matrix.\<close>

definition derive_risk_severity :: "string \<Rightarrow> string \<Rightarrow> error + risk_level \<times> risk_level \<times> risk_level" where
  "derive_risk_severity likelihood impact =
     (case (risk_level_of_value likelihood, risk_level_of_value impact) of
        (Some l, Some i) \<Rightarrow> Inr (l, i, RISK_MATRIX l i)
      | _ \<Rightarrow> Inl (ValueError ''Likelihood and impact must be low, medium, or high.''))"

definition require_governance_capability ::
  "'a project_db_scheme \<Rightarrow> actor \<Rightarrow> pk \<Rightarrow> research_project \<Rightarrow> (capabilities \<Rightarrow> bool) \<Rightarrow> error + unit" where
  "require_governance_capability s u pid p capability =
     (if \<not> capability (project_capabilities s u pid p)
      then Inl (PermissionDenied ''This project governance action is forbidden.'') else Inr ())"

definition active_member :: "'a project_db_scheme \<Rightarrow> pk \<Rightarrow> pk \<Rightarrow> membership_role set option \<Rightarrow> error + pk" where
  "active_member s pid user roles =
     (if tbl_exists (\<lambda>_ m. pm_project m = pid \<and> pm_user m = user \<and> pm_status m = ProjectMembership_ACTIVE
            \<and> (case roles of None \<Rightarrow> True | Some rs \<Rightarrow> pm_role m \<in> rs)) (db_memberships s)
      then Inr user else Inl (ValueError ''Select an eligible active project member.''))"

text \<open>The title of a record of the project: no record, no title, or the title.\<close>

definition linked_title :: "'a governance_db_scheme \<Rightarrow> pk \<Rightarrow> string \<Rightarrow> pk \<Rightarrow> string option option" where
  "linked_title s pid target_type k =
     (let own = (\<lambda>project title. if project = Some pid then Some title else None)
      in if target_type = ''milestone''
         then own (map_option ms_project (tbl_get (db_milestones s) k)) (map_option ms_title (tbl_get (db_milestones s) k))
         else if target_type = ''deliverable''
         then own (map_option dl_project (tbl_get (db_deliverables s) k)) (map_option dl_title (tbl_get (db_deliverables s) k))
         else if target_type = ''project_material'' then own (db_material_project s k) (db_linked_titles s target_type k)
         else if target_type = ''report'' then own (db_report_project s k) (db_linked_titles s target_type k)
         else if target_type = ''decision''
         then own (map_option dr_project (tbl_get (db_decision_records s) k))
                (map_option dr_title (tbl_get (db_decision_records s) k))
         else if target_type = ''risk''
         then own (map_option rk_project (tbl_get (db_risks s) k)) (map_option rk_title (tbl_get (db_risks s) k))
         else if target_type = ''task'' then own (db_task_project s k) (db_linked_titles s target_type k)
         else None)"

text \<open>\<open>target_type.replace("_", " ").title()\<close> of the seven types.\<close>

definition type_label :: "string \<Rightarrow> string" where
  "type_label target_type =
     (if target_type = ''milestone'' then ''Milestone''
      else if target_type = ''deliverable'' then ''Deliverable''
      else if target_type = ''project_material'' then ''Project Material''
      else if target_type = ''report'' then ''Report''
      else if target_type = ''decision'' then ''Decision''
      else if target_type = ''risk'' then ''Risk'' else ''Task'')"

definition target_snapshot :: "'a governance_db_scheme \<Rightarrow> pk \<Rightarrow> string \<Rightarrow> pk option \<Rightarrow> error + string \<times> string" where
  "target_snapshot s pid target_type target_id =
     (case Option.bind target_id (\<lambda>k. map_option (Pair k) (linked_title s pid target_type k)) of
        None \<Rightarrow> Inl (ValueError ''Linked record must belong to this project.'')
      | Some (k, title) \<Rightarrow>
          let fallback = type_label target_type @ '' '' @ str_of_nat k;
              label = (case title of None \<Rightarrow> fallback | Some t \<Rightarrow> if t = [] then fallback else t)
          in Inr (str_of_nat k, take 255 label))"

record link_arg =
  la_target_type :: string
  la_target_id :: "pk option"

datatype link_source = DecisionSource pk | RiskSource pk

definition link_row :: "actor \<Rightarrow> pk \<Rightarrow> link_source \<Rightarrow> string \<Rightarrow> string \<Rightarrow> string \<Rightarrow> instant \<Rightarrow> record_link" where
  "link_row u pid source target_type target_id label now =
     \<lparr>rl_project = pid,
      rl_decision = (case source of DecisionSource k \<Rightarrow> Some k | RiskSource _ \<Rightarrow> None),
      rl_risk = (case source of DecisionSource _ \<Rightarrow> None | RiskSource k \<Rightarrow> Some k),
      rl_target_type_snapshot = target_type, rl_target_id_snapshot = target_id, rl_label_snapshot = label,
      rl_created_by = u_id u, rl_created_at = now\<rparr>"

fun link_rows ::
  "'a governance_db_scheme \<Rightarrow> actor \<Rightarrow> pk \<Rightarrow> link_source \<Rightarrow> (string \<times> string) list \<Rightarrow> link_arg list \<Rightarrow> error + record_link list"
where
  "link_rows s u pid source seen [] = Inr []"
| "link_rows s u pid source seen (l # ls) =
     (case target_snapshot s pid (la_target_type l) (la_target_id l) of
        Inl e \<Rightarrow> Inl e
      | Inr (target_id, label) \<Rightarrow>
          if (la_target_type l, target_id) \<in> set seen
          then Inl (ValueError ''Duplicate governance record link.'')
          else case link_rows s u pid source ((la_target_type l, target_id) # seen) ls of
                 Inl e \<Rightarrow> Inl e
               | Inr rows \<Rightarrow> Inr (link_row u pid source (la_target_type l) target_id label (db_now s) # rows))"

text \<open>\<open>bulk_create\<close> under the two unique constraints.\<close>

fun insert_links :: "record_link list \<Rightarrow> record_link table \<Rightarrow> error + record_link table" where
  "insert_links [] t = Inr t"
| "insert_links (l # ls) t =
     (if key_taken decision_link_key l t \<or> key_taken risk_link_key l t
      then Inl (IntegrityError ''unique_record_link'') else insert_links ls (tbl_insert l t))"

definition create_links :: "actor \<Rightarrow> pk \<Rightarrow> link_source \<Rightarrow> link_arg list \<Rightarrow> ('a governance_db_scheme, unit) op" where
  "create_links u pid source links s =
     (if 100 < length links
      then (Inl (ValueError ''A governance record supports at most 100 links.''), s)
      else case link_rows s u pid source [] links of
        Inl e \<Rightarrow> (Inl e, s)
      | Inr rows \<Rightarrow>
          (case insert_links rows (db_record_links s) of
             Inl e \<Rightarrow> (Inl e, s)
           | Inr t \<Rightarrow> (Inr (), s\<lparr>db_record_links := t\<rparr>)))"

section \<open>Decisions\<close>

definition validate_decision_payload :: "string list \<Rightarrow> error + unit" where
  "validate_decision_payload options =
     (if \<not> (1 \<le> length options \<and> length options \<le> 20)
      then Inl (ValueError ''Record between 1 and 20 options considered.'')
      else if list_ex (\<lambda>x. py_strip x = [] \<or> 1000 < length x) options
      then Inl (ValueError ''Each considered option must be 1-1000 characters.'')
      else Inr ())"

record decision_args =
  da_title :: string
  da_context :: string
  da_options_considered :: "string list"
  da_outcome :: string
  da_rationale :: string
  da_owner_id :: pk
  da_effective_date :: day
  da_links :: "link_arg list"
  da_idempotency_key :: string

text \<open>The locked predecessor, or the reason why it cannot be superseded.\<close>

definition predecessor_of :: "'a governance_db_scheme \<Rightarrow> pk \<Rightarrow> pk option \<Rightarrow> error + pk option" where
  "predecessor_of s pid supersedes =
     (case supersedes of
        None \<Rightarrow> Inr None
      | Some k \<Rightarrow>
          (case tbl_get (db_decision_records s) k of
             None \<Rightarrow> Inl (ValueError ''Only a current decision can be superseded.'')
           | Some d \<Rightarrow>
               if dr_project d \<noteq> pid \<or> dr_status d \<noteq> DecisionRecord_CURRENT
               then Inl (ValueError ''Only a current decision can be superseded.'')
               else if tbl_exists (\<lambda>_ x. dr_supersedes x = Some k) (db_decision_records s)
               then Inl (ValueError ''This decision already has a successor.'')
               else Inr (Some k)))"

definition new_decision_record :: "actor \<Rightarrow> pk \<Rightarrow> decision_args \<Rightarrow> pk \<Rightarrow> pk option \<Rightarrow> instant \<Rightarrow> decision_record" where
  "new_decision_record u pid a owner predecessor now =
     \<lparr>dr_project = pid, dr_title = py_strip (da_title a), dr_context = py_strip (da_context a),
      dr_options_considered = map py_strip (da_options_considered a), dr_outcome = py_strip (da_outcome a),
      dr_rationale = py_strip (da_rationale a), dr_owner = owner, dr_effective_date = da_effective_date a,
      dr_status = DecisionRecord_CURRENT, dr_supersedes = predecessor, dr_published_by = u_id u,
      dr_published_at = now, dr_idempotency_key = da_idempotency_key a\<rparr>"

definition insert_decision_record :: "decision_record \<Rightarrow> ('a governance_db_scheme, pk) op" where
  "insert_decision_record d s =
     (if key_taken dr_supersedes d (db_decision_records s) \<or> key_taken record_retry_key d (db_decision_records s)
      then (Inl (IntegrityError ''unique_project_decision_retry''), s)
      else (Inr (tbl_next (db_decision_records s)),
            s\<lparr>db_decision_records := tbl_insert d (db_decision_records s)\<rparr>))"

definition mark_superseded :: "pk option \<Rightarrow> 'a governance_db_scheme \<Rightarrow> 'a governance_db_scheme" where
  "mark_superseded predecessor s =
     s\<lparr>db_decision_records := tbl_update_where (\<lambda>k _. predecessor = Some k)
         (\<lambda>d. d\<lparr>dr_status := DecisionRecord_SUPERSEDED\<rparr>) (db_decision_records s)\<rparr>"

definition decision_by_key :: "'a governance_db_scheme \<Rightarrow> pk \<Rightarrow> string \<Rightarrow> pk option" where
  "decision_by_key s pid key =
     (if key = [] then None
      else map_option fst (tbl_first (\<lambda>_ d. dr_project d = pid \<and> dr_idempotency_key d = key) (db_decision_records s)))"

definition decision_owner :: "'a governance_db_scheme \<Rightarrow> pk \<Rightarrow> decision_args \<Rightarrow> error + pk" where
  "decision_owner s pid a =
     active_member s pid (da_owner_id a) (Some {ProjectMembership_ADVISOR, ProjectMembership_CO_ADVISOR})"

definition publish_decision ::
  "actor \<Rightarrow> pk \<times> research_project \<Rightarrow> decision_args \<Rightarrow> pk option \<Rightarrow> ('a governance_db_scheme, pk) op" where
  "publish_decision u project a supersedes = atomic (\<lambda>s.
     let pid = fst project in
     case require_governance_capability s u pid (snd project) canPublishDecisions of
       Inl e \<Rightarrow> (Inl e, s)
     | Inr _ \<Rightarrow>
     (case decision_by_key s pid (da_idempotency_key a) of
       Some k \<Rightarrow> (Inr k, s)
     | None \<Rightarrow>
     (case validate_decision_payload (da_options_considered a) of
       Inl e \<Rightarrow> (Inl e, s)
     | Inr _ \<Rightarrow>
     (case decision_owner s pid a of
       Inl e \<Rightarrow> (Inl e, s)
     | Inr owner \<Rightarrow>
     (case predecessor_of s pid supersedes of
       Inl e \<Rightarrow> (Inl e, s)
     | Inr predecessor \<Rightarrow>
     (case insert_decision_record (new_decision_record u pid a owner predecessor (db_now s)) s of
       (Inl e, s1) \<Rightarrow> (Inl e, s1)
     | (Inr k, s1) \<Rightarrow>
     (case create_links u pid (DecisionSource k) (da_links a) (mark_superseded predecessor s1) of
       (Inl e, s2) \<Rightarrow> (Inl e, s2)
     | (Inr _, s2) \<Rightarrow>
       (Inr k, record_execution_event (Some pid) (Some u)
          (if predecessor = None then ''decision.published'' else ''decision.superseded'')
          (Some (''DecisionRecord'', k)) (Some [(''status'', PStr (decision_status_value DecisionRecord_CURRENT))]) True s2))))))))"

text \<open>\<open>supersede_decision\<close>: the project of the predecessor's row.\<close>

definition supersede_decision ::
  "actor \<Rightarrow> pk \<times> decision_record \<Rightarrow> decision_args \<Rightarrow> ('a governance_db_scheme, pk) op" where
  "supersede_decision u predecessor a s =
     (case project_row s (dr_project (snd predecessor)) of
        Inl e \<Rightarrow> (Inl e, s)
      | Inr p \<Rightarrow> publish_decision u (dr_project (snd predecessor), p) a (Some (fst predecessor)) s)"

end
