(* ===== verification/RiskRegister.thy ===== *)
theory RiskRegister
  imports GovernanceRecords
begin

text \<open>
  The risk half of \<open>apps/projects/decision_risk_services.py\<close>: raising, triage, transitions and the
  revision each of them appends.
\<close>

section \<open>Writes\<close>

definition insert_risk :: "risk_record \<Rightarrow> ('a governance_db_scheme, pk) op" where
  "insert_risk r s =
     (if key_taken risk_source_key r (db_risks s) \<or> key_taken risk_retry_key r (db_risks s)
      then (Inl (IntegrityError ''unique_project_risk''), s)
      else (Inr (tbl_next (db_risks s)), s\<lparr>db_risks := tbl_insert r (db_risks s)\<rparr>))"

definition save_risk :: "pk \<Rightarrow> risk_record \<Rightarrow> ('a governance_db_scheme, unit) op" where
  "save_risk k r s =
     (if key_taken_by_other risk_source_key k r (db_risks s) \<or> key_taken_by_other risk_retry_key k r (db_risks s)
      then (Inl (IntegrityError ''unique_project_risk''), s)
      else (Inr (), s\<lparr>db_risks := tbl_put k r (db_risks s)\<rparr>))"

text \<open>\<open>(Max("revision_number") or 0) + 1\<close>; the numbers are positive, so the maximum of none is 0.\<close>

definition risk_numbers :: "risk_revision table \<Rightarrow> pk \<Rightarrow> nat list" where
  "risk_numbers t k = map (\<lambda>(_, r). rr_revision_number r) (tbl_filter (\<lambda>_ r. rr_risk r = k) t)"

definition next_risk_number :: "risk_revision table \<Rightarrow> pk \<Rightarrow> nat" where
  "next_risk_number t k = Suc (fold max (risk_numbers t k) 0)"

definition new_risk_revision ::
  "pk \<Rightarrow> risk_record \<Rightarrow> nat \<Rightarrow> actor \<Rightarrow> risk_state \<Rightarrow> string \<Rightarrow> string \<Rightarrow> instant \<Rightarrow> risk_revision" where
  "new_risk_revision k r n u previous reason key now =
     \<lparr>rr_project = rk_project r, rr_risk = k, rr_revision_number = n, rr_previous_state = previous,
      rr_new_state = rk_state r, rr_likelihood = rk_likelihood r, rr_impact = rk_impact r,
      rr_severity = rk_severity r, rr_owner_id_snapshot = rk_owner r, rr_treatment = rk_treatment r,
      rr_review_date = rk_review_date r, rr_closure_rationale = rk_closure_rationale r, rr_actor = u_id u,
      rr_reason = py_strip reason, rr_idempotency_key = key, rr_created_at = now\<rparr>"

definition append_risk_revision ::
  "pk \<Rightarrow> risk_record \<Rightarrow> actor \<Rightarrow> risk_state \<Rightarrow> string \<Rightarrow> string \<Rightarrow> ('a governance_db_scheme, pk) op" where
  "append_risk_revision k r u previous reason key s =
     (let x = new_risk_revision k r (next_risk_number (db_risk_revisions s) k) u previous reason key (db_now s)
      in if key_taken risk_revision_key x (db_risk_revisions s) \<or> key_taken risk_transition_retry_key x (db_risk_revisions s)
         then (Inl (IntegrityError ''unique_project_risk_revision''), s)
         else (Inr (tbl_next (db_risk_revisions s)), s\<lparr>db_risk_revisions := tbl_insert x (db_risk_revisions s)\<rparr>))"

definition risk_snapshot :: "risk_record \<Rightarrow> pydict" where
  "risk_snapshot r =
     [(''status'', PStr (risk_state_value (rk_state r))), (''severity'', PStr (risk_level_value (rk_severity r))),
      (''version'', PInt (int (rk_version r)))]"

definition risk_event ::
  "actor \<Rightarrow> string \<Rightarrow> pk \<Rightarrow> risk_record \<Rightarrow> bool \<Rightarrow> 'a governance_db_scheme \<Rightarrow> 'a governance_db_scheme" where
  "risk_event u action k r privileged =
     record_execution_event (Some (rk_project r)) (Some u) action (Some (''RiskRecord'', k)) (Some (risk_snapshot r)) privileged"

section \<open>Raising\<close>

record risk_args =
  xa_title :: string
  xa_description :: string
  xa_source_type :: string
  xa_source_key :: string
  xa_links :: "link_arg list"
  xa_idempotency_key :: string

definition new_risk :: "actor \<Rightarrow> pk \<Rightarrow> risk_args \<Rightarrow> instant \<Rightarrow> risk_record" where
  "new_risk u pid a now =
     \<lparr>rk_project = pid, rk_title = py_strip (xa_title a), rk_description = py_strip (xa_description a),
      rk_source_type = xa_source_type a, rk_source_key = xa_source_key a, rk_likelihood = Risk_LOW,
      rk_impact = Risk_LOW, rk_severity = Risk_LOW, rk_owner = None, rk_treatment = [], rk_review_date = None,
      rk_state = Risk_RAISED, rk_closure_rationale = [], rk_closed_at = None, rk_version = 1,
      rk_raised_by = u_id u, rk_idempotency_key = xa_idempotency_key a, rk_created_at = now, rk_updated_at = now\<rparr>"

text \<open>The risk an earlier call with the key made, or the one promoted from the same source.\<close>

definition existing_risk :: "'a governance_db_scheme \<Rightarrow> pk \<Rightarrow> risk_args \<Rightarrow> pk option" where
  "existing_risk s pid a =
     (let by_key = (if xa_idempotency_key a = [] then None
            else tbl_first (\<lambda>_ r. rk_project r = pid \<and> rk_idempotency_key r = xa_idempotency_key a) (db_risks s));
          by_source = (if xa_source_key a = [] then None
            else tbl_first (\<lambda>_ r. rk_project r = pid \<and> rk_source_type r = xa_source_type a
                   \<and> rk_source_key r = xa_source_key a) (db_risks s))
      in map_option fst (case by_key of None \<Rightarrow> by_source | Some r \<Rightarrow> Some r))"

definition raise_risk :: "actor \<Rightarrow> pk \<times> research_project \<Rightarrow> risk_args \<Rightarrow> ('a governance_db_scheme, pk) op" where
  "raise_risk u project a = atomic (\<lambda>s.
     let pid = fst project in
     case require_governance_capability s u pid (snd project) canRaiseRisks of
       Inl e \<Rightarrow> (Inl e, s)
     | Inr _ \<Rightarrow>
     (case existing_risk s pid a of
       Some k \<Rightarrow> (Inr k, s)
     | None \<Rightarrow>
     let r = new_risk u pid a (db_now s) in
     (case insert_risk r s of
       (Inl e, s1) \<Rightarrow> (Inl e, s1)
     | (Inr k, s1) \<Rightarrow>
     (case create_links u pid (RiskSource k) (xa_links a) s1 of
       (Inl e, s2) \<Rightarrow> (Inl e, s2)
     | (Inr _, s2) \<Rightarrow>
     (case append_risk_revision k r u Risk_RAISED ''Risk raised'' [] s2 of
       (Inl e, s3) \<Rightarrow> (Inl e, s3)
     | (Inr _, s3) \<Rightarrow> (Inr k, risk_event u ''risk.raised'' k r False s3))))))"

section \<open>Triage\<close>

record triage_args =
  ta_likelihood :: string
  ta_impact :: string
  ta_owner_id :: pk
  ta_treatment :: string
  ta_review_date :: "day option"
  ta_reason :: string

definition triaged :: "pk \<Rightarrow> triage_args \<Rightarrow> risk_level \<times> risk_level \<times> risk_level \<Rightarrow> instant \<Rightarrow> risk_record \<Rightarrow> risk_record" where
  "triaged owner a levels now r =
     r\<lparr>rk_likelihood := fst levels, rk_impact := fst (snd levels), rk_severity := snd (snd levels),
       rk_owner := Some owner, rk_treatment := py_strip (ta_treatment a), rk_review_date := ta_review_date a,
       rk_state := Risk_OPEN, rk_version := Suc (rk_version r), rk_updated_at := now\<rparr>"

definition save_and_append ::
  "pk \<Rightarrow> risk_record \<Rightarrow> link_arg list \<Rightarrow> actor \<Rightarrow> risk_state \<Rightarrow> string \<Rightarrow> string \<Rightarrow> string \<Rightarrow> bool
   \<Rightarrow> ('a governance_db_scheme, pk) op" where
  "save_and_append k r links u previous reason key action privileged s =
     (case save_risk k r s of
        (Inl e, s1) \<Rightarrow> (Inl e, s1)
      | (Inr _, s1) \<Rightarrow>
     (case (if links = [] then (Inr (), s1) else create_links u (rk_project r) (RiskSource k) links s1) of
        (Inl e, s2) \<Rightarrow> (Inl e, s2)
      | (Inr _, s2) \<Rightarrow>
     (case append_risk_revision k r u previous reason key s2 of
        (Inl e, s3) \<Rightarrow> (Inl e, s3)
      | (Inr _, s3) \<Rightarrow> (Inr k, risk_event u action k r privileged s3))))"

definition triage_risk :: "actor \<Rightarrow> pk \<Rightarrow> int \<Rightarrow> triage_args \<Rightarrow> ('a governance_db_scheme, pk) op" where
  "triage_risk u k expected a = atomic (\<lambda>s.
     case tbl_get (db_risks s) k of
       None \<Rightarrow> (Inl (DoesNotExist ''RiskRecord''), s)
     | Some r \<Rightarrow>
     (case project_row s (rk_project r) of
       Inl e \<Rightarrow> (Inl e, s)
     | Inr p \<Rightarrow>
     (case require_governance_capability s u (rk_project r) p canTriageRisks of
       Inl e \<Rightarrow> (Inl e, s)
     | Inr _ \<Rightarrow>
     if int (rk_version r) \<noteq> expected then (Inl (ValueError ''The risk changed; refresh and try again.''), s)
     else
     (case active_member s (rk_project r) (ta_owner_id a) None of
       Inl e \<Rightarrow> (Inl e, s)
     | Inr owner \<Rightarrow>
     if py_strip (ta_treatment a) = [] \<or> ta_review_date a = None
     then (Inl (ValueError ''Treatment, owner, and review date are required.''), s)
     else
     (case derive_risk_severity (ta_likelihood a) (ta_impact a) of
       Inl e \<Rightarrow> (Inl e, s)
     | Inr levels \<Rightarrow>
       save_and_append k (triaged owner a levels (db_now s) r) [] u (rk_state r) (ta_reason a) [] ''risk.triaged'' True s)))))"

section \<open>Transitions\<close>

definition risk_transition_target :: "string \<Rightarrow> risk_state option" where
  "risk_transition_target action =
     (if action = ''start_mitigation'' then Some Risk_MITIGATING
      else if action = ''accept'' then Some Risk_ACCEPTED
      else if action = ''resolve'' then Some Risk_RESOLVED
      else if action = ''reopen'' then Some Risk_OPEN else None)"

record transition_args =
  tr_action :: string
  tr_reason :: string
  tr_idempotency_key :: string
  tr_owner_id :: "pk option"
  tr_review_date :: "day option"
  tr_evidence_links :: "link_arg list"

text \<open>What the action changes besides the state; \<open>owner_id\<close> 0 is no owner to Python.\<close>

definition reopened :: "'a project_db_scheme \<Rightarrow> transition_args \<Rightarrow> risk_record \<Rightarrow> error + risk_record" where
  "reopened s a r =
     (if rk_state r \<notin> {Risk_ACCEPTED, Risk_RESOLVED}
      then Inl (ValueError ''Only a closed risk can be reopened.'')
      else case (case tr_owner_id a of
             None \<Rightarrow> Inr (rk_owner r)
           | Some o' \<Rightarrow> if o' = 0 then Inr (rk_owner r)
                       else (case active_member s (rk_project r) o' None of Inl e \<Rightarrow> Inl e | Inr v \<Rightarrow> Inr (Some v))) of
        Inl e \<Rightarrow> Inl e
      | Inr owner \<Rightarrow>
          if owner = None \<or> tr_review_date a = None
          then Inl (ValueError ''Reopening requires an owner and review date.'')
          else Inr (r\<lparr>rk_owner := owner, rk_review_date := tr_review_date a, rk_closure_rationale := [],
                      rk_closed_at := None\<rparr>))"

definition apply_transition ::
  "'a project_db_scheme \<Rightarrow> transition_args \<Rightarrow> instant \<Rightarrow> risk_record \<Rightarrow> error + risk_record" where
  "apply_transition s a now r =
     (case risk_transition_target (tr_action a) of
        None \<Rightarrow> Inl (ValueError ''Select a valid risk transition.'')
      | Some target \<Rightarrow>
          (case (if target = Risk_OPEN then reopened s a r
                 else if target \<in> {Risk_ACCEPTED, Risk_RESOLVED}
                 then if py_strip (tr_reason a) = [] then Inl (ValueError ''Closing a risk requires rationale.'')
                      else Inr (r\<lparr>rk_closure_rationale := py_strip (tr_reason a), rk_closed_at := Some now\<rparr>)
                 else Inr r) of
             Inl e \<Rightarrow> Inl e
           | Inr r' \<Rightarrow> Inr (r'\<lparr>rk_state := target, rk_version := Suc (rk_version r'), rk_updated_at := now\<rparr>)))"

definition transition_recorded :: "'a governance_db_scheme \<Rightarrow> pk \<Rightarrow> string \<Rightarrow> bool" where
  "transition_recorded s k key =
     tbl_exists (\<lambda>_ x. rr_risk x = k \<and> rr_idempotency_key x = key) (db_risk_revisions s)"

definition transition_risk :: "actor \<Rightarrow> pk \<Rightarrow> int \<Rightarrow> transition_args \<Rightarrow> ('a governance_db_scheme, pk) op" where
  "transition_risk u k expected a = atomic (\<lambda>s.
     case tbl_get (db_risks s) k of
       None \<Rightarrow> (Inl (DoesNotExist ''RiskRecord''), s)
     | Some r \<Rightarrow>
     (case project_row s (rk_project r) of
       Inl e \<Rightarrow> (Inl e, s)
     | Inr p \<Rightarrow>
     (case require_governance_capability s u (rk_project r) p canTriageRisks of
       Inl e \<Rightarrow> (Inl e, s)
     | Inr _ \<Rightarrow>
     if transition_recorded s k (tr_idempotency_key a) then (Inr k, s)
     else if int (rk_version r) \<noteq> expected then (Inl (ValueError ''The risk changed; refresh and try again.''), s)
     else
     (case apply_transition s a (db_now s) r of
       Inl e \<Rightarrow> (Inl e, s)
     | Inr r' \<Rightarrow>
       save_and_append k r' (tr_evidence_links a) u (rk_state r) (tr_reason a) (tr_idempotency_key a)
         (''risk.'' @ tr_action a) (tr_action a \<in> {''accept'', ''resolve'', ''reopen''}) s))))"

end
