(* ===== verification/GovernanceCommands.thy ===== *)
theory GovernanceCommands
  imports RiskRegister
begin

text \<open>
  What holds over every run of the decision and risk services.

  \<^item> Decisions form chains inside one project: a decision is superseded exactly when one other names it,
    and that one is younger, so that no cycle arises.
  \<^item> The revisions of a risk are numbered 1, 2, ... up to its version, each starts from the state the one
    before ended in, and the last ends in the state of the risk; severity is the matrix entry of the
    assessed levels; an accepted or resolved risk has a rationale and a closing time.
\<close>

section \<open>The invariant\<close>

definition superseded_in :: "decision_record table \<Rightarrow> pk \<Rightarrow> bool" where
  "superseded_in t k \<longleftrightarrow> tbl_exists (\<lambda>_ x. dr_supersedes x = Some k) t"

definition names_predecessor :: "decision_record table \<Rightarrow> pk \<Rightarrow> decision_record \<Rightarrow> bool" where
  "names_predecessor t k d \<longleftrightarrow>
     (\<forall>p. dr_supersedes d = Some p \<longrightarrow> p < k \<and> map_option dr_project (tbl_get t p) = Some (dr_project d))"

definition decision_chains_ok :: "decision_record table \<Rightarrow> bool" where
  "decision_chains_ok t \<longleftrightarrow>
     tbl_wf t \<and> unique_on dr_supersedes t \<and> unique_on record_retry_key t
     \<and> (\<forall>k d. tbl_get t k = Some d \<longrightarrow> names_predecessor t k d
          \<and> (dr_status d = DecisionRecord_SUPERSEDED \<longleftrightarrow> superseded_in t k))"

definition risk_checks :: "risk_record \<Rightarrow> bool" where
  "risk_checks r \<longleftrightarrow>
     rk_severity r = RISK_MATRIX (rk_likelihood r) (rk_impact r)
     \<and> (rk_state r \<in> {Risk_ACCEPTED, Risk_RESOLVED} \<longrightarrow> rk_closed_at r \<noteq> None \<and> rk_closure_rationale r \<noteq> [])"

text \<open>Where a list of steps leads from a state, if each starts where the one before ended.\<close>

fun walk :: "'x \<Rightarrow> ('x \<times> 'x) list \<Rightarrow> 'x option" where
  "walk st [] = Some st"
| "walk st ((a, b) # steps) = (if a = st then walk b steps else None)"

definition revisions_of :: "risk_revision table \<Rightarrow> pk \<Rightarrow> risk_revision list" where
  "revisions_of t k = map snd (tbl_filter (\<lambda>_ x. rr_risk x = k) t)"

definition trail_matches :: "risk_revision list \<Rightarrow> risk_record \<Rightarrow> bool" where
  "trail_matches xs r \<longleftrightarrow>
     map rr_revision_number xs = [1..<Suc (rk_version r)]
     \<and> walk Risk_RAISED (map (\<lambda>x. (rr_previous_state x, rr_new_state x)) xs) = Some (rk_state r)"

definition risks_ok :: "risk_record table \<Rightarrow> risk_revision table \<Rightarrow> bool" where
  "risks_ok t u \<longleftrightarrow>
     tbl_wf t \<and> unique_on risk_source_key t \<and> unique_on risk_retry_key t \<and> tbl_wf u
     \<and> (\<forall>k x. (k, x) \<in> set (tbl_rows u) \<longrightarrow> rr_risk x < tbl_next t)
     \<and> (\<forall>k r. tbl_get t k = Some r \<longrightarrow> risk_checks r \<and> trail_matches (revisions_of u k) r)"

definition governance_ok :: "'a governance_db_scheme \<Rightarrow> bool" where
  "governance_ok s \<longleftrightarrow> decision_chains_ok (db_decision_records s) \<and> risks_ok (db_risks s) (db_risk_revisions s)"

section \<open>Links and events\<close>

lemma create_links_frame: "create_links u pid src ls s = (r, s') \<Longrightarrow> \<exists>t. s' = s\<lparr>db_record_links := t\<rparr>"
  by (auto simp: create_links_def split: if_splits sum.splits intro: exI [of _ "db_record_links s"])

lemma risk_event_frame [simp]:
  "db_decision_records (risk_event u act k r pr s) = db_decision_records s"
  "db_risks (risk_event u act k r pr s) = db_risks s"
  "db_risk_revisions (risk_event u act k r pr s) = db_risk_revisions s"
  "db_projects (risk_event u act k r pr s) = db_projects s"
  "db_memberships (risk_event u act k r pr s) = db_memberships s"
  by (simp_all add: risk_event_def)

section \<open>Decisions\<close>

lemma publish_decision_success:
  assumes "publish_decision u p a prior s = (Inr k, s')"
  shows "s' = s \<and> decision_by_key s (fst p) (da_idempotency_key a) = Some k
    \<or> (\<exists>owner pred d. d = new_decision_record u (fst p) a owner pred (db_now s)
        \<and> predecessor_of s (fst p) prior = Inr pred \<and> k = tbl_next (db_decision_records s)
        \<and> \<not> key_taken dr_supersedes d (db_decision_records s) \<and> \<not> key_taken record_retry_key d (db_decision_records s)
        \<and> db_decision_records s' = tbl_update_where (\<lambda>j _. pred = Some j)
            (\<lambda>d. d\<lparr>dr_status := DecisionRecord_SUPERSEDED\<rparr>) (tbl_insert d (db_decision_records s))
        \<and> db_risks s' = db_risks s \<and> db_risk_revisions s' = db_risk_revisions s
        \<and> db_projects s' = db_projects s \<and> db_memberships s' = db_memberships s)"
proof (cases "decision_by_key s (fst p) (da_idempotency_key a)")
  case (Some j)
  then show ?thesis using assms by (auto simp: publish_decision_def Let_def split: sum.splits)
next
  case None
  obtain owner pred s1 s2 x where 1: "predecessor_of s (fst p) prior = Inr pred"
    and 2: "insert_decision_record (new_decision_record u (fst p) a owner pred (db_now s)) s = (Inr k, s1)"
    and 3: "create_links u (fst p) (DecisionSource k) (da_links a) (mark_superseded pred s1) = (Inr x, s2)"
    and s': "s' = record_execution_event (Some (fst p)) (Some u)
          (if pred = None then ''decision.published'' else ''decision.superseded'')
          (Some (''DecisionRecord'', k)) (Some [(''status'', PStr (decision_status_value DecisionRecord_CURRENT))]) True s2"
    using assms None by (fastforce simp: publish_decision_def Let_def split: sum.splits prod.splits)
  obtain t where "s2 = mark_superseded pred s1\<lparr>db_record_links := t\<rparr>" using create_links_frame [OF 3] by blast
  then show ?thesis
    using 1 2 unfolding s' insert_decision_record_def mark_superseded_def by (fastforce split: if_splits)
qed

lemma predecessor_of_Some:
  "predecessor_of s pid prior = Inr (Some j) \<Longrightarrow>
   \<exists>d. tbl_get (db_decision_records s) j = Some d \<and> dr_project d = pid \<and> dr_status d = DecisionRecord_CURRENT"
  by (auto simp: predecessor_of_def split: option.splits if_splits)

abbreviation mark_in :: "pk option \<Rightarrow> decision_record table \<Rightarrow> decision_record table" where
  "mark_in pred \<equiv> tbl_update_where (\<lambda>j _. pred = Some j) (\<lambda>d. d\<lparr>dr_status := DecisionRecord_SUPERSEDED\<rparr>)"

lemma superseded_in_mark: "superseded_in (mark_in pred t) k = superseded_in t k"
proof -
  have "list_ex (\<lambda>(j, x). dr_supersedes x = Some k)
      (map (\<lambda>(j, d). (j, if pred = Some j then d\<lparr>dr_status := DecisionRecord_SUPERSEDED\<rparr> else d)) rows)
    = list_ex (\<lambda>(j, x). dr_supersedes x = Some k) rows" for rows
    by (induction rows) (auto split: if_splits)
  then show ?thesis by (simp add: superseded_in_def tbl_exists_def)
qed

lemma record_retry_key_status [simp]: "record_retry_key (d\<lparr>dr_status := st\<rparr>) = record_retry_key d"
  by (simp add: record_retry_key_def)

lemma superseded_in_insert: "superseded_in (tbl_insert d t) k \<longleftrightarrow> superseded_in t k \<or> dr_supersedes d = Some k"
  by (auto simp: superseded_in_def tbl_exists_iff)

lemma not_superseded_fresh:
  assumes "decision_chains_ok t" shows "\<not> superseded_in t (tbl_next t)"
proof
  assume "superseded_in t (tbl_next t)"
  then obtain k x where x: "(k, x) \<in> set (tbl_rows t)" "dr_supersedes x = Some (tbl_next t)"
    by (auto simp: superseded_in_def tbl_exists_iff)
  have wf: "tbl_wf t" using assms by (simp add: decision_chains_ok_def)
  have g: "tbl_get t k = Some x" using wf x(1) by (simp add: tbl_get_def tbl_wf_def)
  then have "tbl_next t < k" using assms x(2) by (auto simp: decision_chains_ok_def names_predecessor_def)
  then show False using tbl.below_fresh [OF wf g] by simp
qed

lemma decision_chains_publish:
  assumes ok: "decision_chains_ok t" and d: "dr_status d = DecisionRecord_CURRENT" "dr_supersedes d = pred"
    and pred: "\<And>j. pred = Some j \<Longrightarrow> map_option dr_project (tbl_get t j) = Some (dr_project d)"
    and new: "\<not> key_taken dr_supersedes d t" "\<not> key_taken record_retry_key d t"
  shows "decision_chains_ok (mark_in pred (tbl_insert d t))"
proof -
  let ?t = "tbl_insert d t"
  have wf: "tbl_wf t" "tbl_wf ?t" using ok by (simp_all add: decision_chains_ok_def tbl.wf_add)
  have below: "j < tbl_next t" if "pred = Some j" for j
    using pred [OF that] tbl.below_fresh [OF wf(1)] by auto
  have u: "unique_on dr_supersedes (mark_in pred ?t)" "unique_on record_retry_key (mark_in pred ?t)"
    using ok new by (auto simp: decision_chains_ok_def intro!: unique_on_update_where unique_on_insert)
  have get: "tbl_get (mark_in pred ?t) k = map_option (\<lambda>x. if pred = Some k then x\<lparr>dr_status := DecisionRecord_SUPERSEDED\<rparr> else x)
      (if k = tbl_next t then Some d else tbl_get t k)" for k
    by (simp add: tbl_get_update_where tbl.get_add [OF wf(1)])
  have proj: "map_option dr_project (tbl_get (mark_in pred ?t) j) = map_option dr_project (tbl_get t j)" if "j < tbl_next t" for j
    using that by (cases "tbl_get t j") (simp_all add: get)
  have "names_predecessor (mark_in pred ?t) k x \<and> (dr_status x = DecisionRecord_SUPERSEDED \<longleftrightarrow> superseded_in (mark_in pred ?t) k)"
    if x: "tbl_get (mark_in pred ?t) k = Some x" for k x
  proof (cases "k = tbl_next t")
    case True
    then have "x = d" using x below by (auto simp: get)
    have "p < k \<and> map_option dr_project (tbl_get (mark_in pred ?t) p) = Some (dr_project x)" if "dr_supersedes x = Some p" for p
      using that pred [of p] below [of p] proj [of p] d(2) True \<open>x = d\<close> by simp
    then show ?thesis
      using True \<open>x = d\<close> d below not_superseded_fresh [OF ok]
      by (auto simp: names_predecessor_def superseded_in_mark superseded_in_insert)
  next
    case False
    then obtain y where y: "tbl_get t k = Some y" "x = (if pred = Some k then y\<lparr>dr_status := DecisionRecord_SUPERSEDED\<rparr> else y)"
      using x by (auto simp: get)
    have old: "names_predecessor t k y" "dr_status y = DecisionRecord_SUPERSEDED \<longleftrightarrow> superseded_in t k"
      using ok y(1) by (auto simp: decision_chains_ok_def)
    have "p < k \<and> map_option dr_project (tbl_get (mark_in pred ?t) p) = Some (dr_project x)" if "dr_supersedes x = Some p" for p
    proof -
      have "p < k" "map_option dr_project (tbl_get t p) = Some (dr_project x)"
        using old(1) that y(2) by (auto simp: names_predecessor_def split: if_splits)
      then show ?thesis using proj [of p] tbl.below_fresh [OF wf(1) y(1)] by simp
    qed
    then show ?thesis
      using old(2) y(2) d(2) by (auto simp: names_predecessor_def superseded_in_mark superseded_in_insert)
  qed
  then show ?thesis using u wf(2) unfolding decision_chains_ok_def by (simp add: wf_tbl_update_where)
qed

lemma governance_ok_publish:
  assumes "publish_decision u p a prior s = (Inr k, s')" "governance_ok s"
  shows "governance_ok s'"
  using publish_decision_success [OF assms(1)]
proof (elim disjE exE conjE)
  fix owner pred d
  assume d: "d = new_decision_record u (fst p) a owner pred (db_now s)" and pr: "predecessor_of s (fst p) prior = Inr pred"
    and new: "\<not> key_taken dr_supersedes d (db_decision_records s)" "\<not> key_taken record_retry_key d (db_decision_records s)"
    and s': "db_decision_records s' = mark_in pred (tbl_insert d (db_decision_records s))"
      "db_risks s' = db_risks s" "db_risk_revisions s' = db_risk_revisions s"
  have "decision_chains_ok (db_decision_records s')"
    unfolding s'(1) using assms(2) pr new predecessor_of_Some
    by (intro decision_chains_publish) (auto simp: governance_ok_def d new_decision_record_def dest: predecessor_of_Some)
  then show ?thesis using assms(2) s' by (simp add: governance_ok_def)
qed (use assms(2) in simp)

section \<open>The trail of a risk\<close>

lemma revisions_of_insert:
  "revisions_of (tbl_insert x t) k = revisions_of t k @ (if rr_risk x = k then [x] else [])"
  by (simp add: revisions_of_def tbl_filter_def)

lemma risk_numbers_revisions: "risk_numbers t k = map rr_revision_number (revisions_of t k)"
  by (simp add: risk_numbers_def revisions_of_def case_prod_unfold)

lemma next_number_of_trail:
  assumes "trail_matches (revisions_of t k) r"
  shows "next_risk_number t k = Suc (rk_version r)"
proof -
  have "fold max (risk_numbers t k) 0 = Max (set (0 # [1..<Suc (rk_version r)]))"
    using assms by (simp only: Max.set_eq_fold) (simp add: trail_matches_def risk_numbers_revisions)
  also have "\<dots> = rk_version r" by (rule Max_eqI) auto
  finally show ?thesis by (simp add: next_risk_number_def)
qed

lemma walk_snoc: "walk st (steps @ [(a, b)]) = (if walk st steps = Some a then Some b else None)"
  by (induction st steps rule: walk.induct) auto

lemma trail_append:
  assumes "trail_matches (revisions_of t k) r" "rk_version r' = Suc (rk_version r)"
  shows "trail_matches (revisions_of (tbl_insert
    (new_risk_revision k r' (next_risk_number t k) u (rk_state r) reason key now) t) k) r'"
  using assms by (simp add: trail_matches_def revisions_of_insert walk_snoc new_risk_revision_def
      next_number_of_trail [OF assms(1)])

lemma append_risk_revision_Inr:
  "append_risk_revision k r u prev reason key s = (Inr i, s') \<longleftrightarrow>
   (let x = new_risk_revision k r (next_risk_number (db_risk_revisions s) k) u prev reason key (db_now s)
    in \<not> key_taken risk_revision_key x (db_risk_revisions s) \<and> \<not> key_taken risk_transition_retry_key x (db_risk_revisions s)
       \<and> i = tbl_next (db_risk_revisions s) \<and> s' = s\<lparr>db_risk_revisions := tbl_insert x (db_risk_revisions s)\<rparr>)"
  by (auto simp: append_risk_revision_def Let_def)

section \<open>Raising, triage, transitions\<close>

lemma save_and_append_success:
  assumes "save_and_append k r links u prev reason key act pr s = (Inr j, s')"
  shows "j = k \<and> \<not> key_taken_by_other risk_source_key k r (db_risks s) \<and> \<not> key_taken_by_other risk_retry_key k r (db_risks s)
    \<and> db_risks s' = tbl_put k r (db_risks s)
    \<and> db_risk_revisions s' = tbl_insert (new_risk_revision k r (next_risk_number (db_risk_revisions s) k) u prev reason key (db_now s))
        (db_risk_revisions s)
    \<and> db_decision_records s' = db_decision_records s \<and> db_projects s' = db_projects s \<and> db_memberships s' = db_memberships s"
proof -
  obtain s1 where 1: "save_risk k r s = (Inr (), s1)"
    using assms by (auto simp: save_and_append_def split: sum.splits prod.splits)
  obtain s2 where 2: "(if links = [] then (Inr (), s1) else create_links u (rk_project r) (RiskSource k) links s1) = (Inr (), s2)"
    using assms 1 by (auto simp: save_and_append_def split: sum.splits prod.splits)
  obtain i s3 where 3: "append_risk_revision k r u prev reason key s2 = (Inr i, s3)"
    and e: "j = k" "s' = risk_event u act k r pr s3"
    using assms 1 2 by (auto simp: save_and_append_def split: sum.splits prod.splits)
  have "\<exists>t. s2 = s1\<lparr>db_record_links := t\<rparr>"
    using 2 create_links_frame [of u _ _ links s1 "Inr ()" s2]
    by (cases "links = []") (auto intro: exI [of _ "db_record_links s1"])
  then show ?thesis
    using 1 3 e by (auto simp: save_risk_def append_risk_revision_Inr Let_def split: if_splits)
qed

lemma risks_ok_append:
  assumes ok: "risks_ok t u" and r0: "tbl_get t k = Some r0"
    and new: "\<not> key_taken_by_other risk_source_key k r t" "\<not> key_taken_by_other risk_retry_key k r t"
    and r: "rk_version r = Suc (rk_version r0)" "risk_checks r"
  shows "risks_ok (tbl_put k r t) (tbl_insert (new_risk_revision k r (next_risk_number u k) a (rk_state r0) reason key now) u)"
proof -
  have wf: "tbl_wf t" "tbl_wf u" and un: "unique_on risk_source_key t" "unique_on risk_retry_key t"
    using ok by (simp_all add: risks_ok_def)
  have old: "trail_matches (revisions_of u j) x \<and> risk_checks x" if "tbl_get t j = Some x" for j x
    using ok that by (simp add: risks_ok_def)
  let ?x = "new_risk_revision k r (next_risk_number u k) a (rk_state r0) reason key now"
  have "risk_checks x \<and> trail_matches (revisions_of (tbl_insert ?x u) j) x" if "tbl_get (tbl_put k r t) j = Some x" for j x
  proof (cases "j = k")
    case True
    then have "x = r" using that by (simp add: tbl.get_put [OF wf(1)])
    then show ?thesis using True r trail_append [of u k r0 r a reason key now] old [OF r0] by simp
  next
    case False
    then have "tbl_get t j = Some x" using that by (simp add: tbl.get_put [OF wf(1)])
    then show ?thesis using old False by (simp add: revisions_of_insert new_risk_revision_def)
  qed
  moreover have "rr_risk y < tbl_next (tbl_put k r t)" if "(i, y) \<in> set (tbl_rows (tbl_insert ?x u))" for i y
    using that ok tbl.below_fresh [OF wf(1) r0]
    by (auto simp: risks_ok_def tbl_put_def new_risk_revision_def)
  ultimately show ?thesis
    using unique_on_put [OF un(1) wf(1) new(1)] unique_on_put [OF un(2) wf(1) new(2)] wf
    unfolding risks_ok_def by (auto simp: tbl.wf_put tbl.wf_add)
qed

lemma governance_ok_save_and_append:
  assumes "save_and_append k r links u (rk_state r0) reason key act pr s = (Inr j, s')" "governance_ok s"
    and "tbl_get (db_risks s) k = Some r0" "rk_version r = Suc (rk_version r0)" "risk_checks r"
  shows "governance_ok s'"
  using save_and_append_success [OF assms(1)] risks_ok_append assms(2-5) by (simp add: governance_ok_def)

lemma triaged_checks:
  "derive_risk_severity l i = Inr levels \<Longrightarrow> risk_checks (triaged owner a levels now r)"
  by (auto simp: derive_risk_severity_def risk_checks_def triaged_def split: option.splits)

lemma apply_transition_checks:
  "apply_transition s a now r = Inr r' \<Longrightarrow> risk_checks r \<Longrightarrow> risk_checks r' \<and> rk_version r' = Suc (rk_version r)
    \<and> rk_project r' = rk_project r"
  by (auto simp: apply_transition_def risk_transition_target_def reopened_def risk_checks_def
      split: option.splits if_splits sum.splits)

lemma triage_success:
  "triage_risk u k v a s = (Inr j, s') \<Longrightarrow> \<exists>r owner levels. tbl_get (db_risks s) k = Some r \<and> int (rk_version r) = v
   \<and> derive_risk_severity (ta_likelihood a) (ta_impact a) = Inr levels
   \<and> save_and_append k (triaged owner a levels (db_now s) r) [] u (rk_state r) (ta_reason a) [] ''risk.triaged'' True s = (Inr j, s')"
  by (fastforce simp: triage_risk_def split: option.splits sum.splits if_splits)

lemma transition_success:
  "transition_risk u k v a s = (Inr j, s') \<Longrightarrow>
   (s' = s \<and> j = k \<and> transition_recorded s k (tr_idempotency_key a))
   \<or> (\<exists>r r' act pr. tbl_get (db_risks s) k = Some r \<and> int (rk_version r) = v \<and> apply_transition s a (db_now s) r = Inr r'
       \<and> save_and_append k r' (tr_evidence_links a) u (rk_state r) (tr_reason a) (tr_idempotency_key a) act pr s = (Inr j, s'))"
  by (fastforce simp: transition_risk_def split: option.splits sum.splits if_splits)

lemma governance_ok_triage:
  assumes "triage_risk u k v a s = (Inr j, s')" "governance_ok s"
  shows "governance_ok s'"
proof -
  obtain r owner levels where r: "tbl_get (db_risks s) k = Some r"
    and d: "derive_risk_severity (ta_likelihood a) (ta_impact a) = Inr levels"
    and sa: "save_and_append k (triaged owner a levels (db_now s) r) [] u (rk_state r) (ta_reason a) [] ''risk.triaged'' True s
      = (Inr j, s')"
    using triage_success [OF assms(1)] by blast
  show ?thesis
    by (rule governance_ok_save_and_append [OF sa assms(2) r _ triaged_checks [OF d]]) (simp add: triaged_def)
qed

lemma governance_ok_transition:
  assumes "transition_risk u k v a s = (Inr j, s')" "governance_ok s"
  shows "governance_ok s'"
  using transition_success [OF assms(1)]
proof (elim disjE exE conjE)
  fix r r' act pr
  assume r: "tbl_get (db_risks s) k = Some r" and t: "apply_transition s a (db_now s) r = Inr r'"
    and sa: "save_and_append k r' (tr_evidence_links a) u (rk_state r) (tr_reason a) (tr_idempotency_key a) act pr s
      = (Inr j, s')"
  have "risk_checks r" using assms(2) r by (simp add: governance_ok_def risks_ok_def)
  then show ?thesis using governance_ok_save_and_append [OF sa assms(2) r] apply_transition_checks [OF t] by simp
qed (use assms(2) in simp)

lemma raise_risk_success:
  assumes "raise_risk u p a s = (Inr k, s')"
  shows "s' = s \<and> existing_risk s (fst p) a = Some k
    \<or> (let r = new_risk u (fst p) a (db_now s) in
        k = tbl_next (db_risks s) \<and> \<not> key_taken risk_source_key r (db_risks s) \<and> \<not> key_taken risk_retry_key r (db_risks s)
        \<and> db_risks s' = tbl_insert r (db_risks s)
        \<and> db_risk_revisions s' = tbl_insert (new_risk_revision k r (next_risk_number (db_risk_revisions s) k) u Risk_RAISED
             ''Risk raised'' [] (db_now s)) (db_risk_revisions s)
        \<and> db_decision_records s' = db_decision_records s \<and> db_projects s' = db_projects s \<and> db_memberships s' = db_memberships s)"
proof (cases "existing_risk s (fst p) a")
  case (Some j)
  then show ?thesis using assms by (auto simp: raise_risk_def Let_def split: sum.splits)
next
  case None
  let ?r = "new_risk u (fst p) a (db_now s)"
  obtain s1 where 1: "insert_risk ?r s = (Inr k, s1)"
    using assms None by (auto simp: raise_risk_def Let_def split: sum.splits prod.splits)
  obtain s2 where 2: "create_links u (fst p) (RiskSource k) (xa_links a) s1 = (Inr (), s2)"
    using assms None 1 by (auto simp: raise_risk_def Let_def split: sum.splits prod.splits)
  obtain i s3 where 3: "append_risk_revision k ?r u Risk_RAISED ''Risk raised'' [] s2 = (Inr i, s3)"
    and s': "s' = risk_event u ''risk.raised'' k ?r False s3"
    using assms None 1 2 by (auto simp: raise_risk_def Let_def split: sum.splits prod.splits)
  obtain t where "s2 = s1\<lparr>db_record_links := t\<rparr>" using create_links_frame [OF 2] by blast
  then show ?thesis using 1 3 s' by (auto simp: insert_risk_def append_risk_revision_Inr Let_def split: if_splits)
qed

lemma risks_ok_raise:
  assumes ok: "risks_ok t u" and r: "rk_version r = 1" "rk_state r = Risk_RAISED" "risk_checks r"
    and new: "\<not> key_taken risk_source_key r t" "\<not> key_taken risk_retry_key r t"
  shows "risks_ok (tbl_insert r t) (tbl_insert (new_risk_revision (tbl_next t) r (next_risk_number u (tbl_next t)) a
    Risk_RAISED reason key now) u)"
proof -
  have wf: "tbl_wf t" "tbl_wf u" and un: "unique_on risk_source_key t" "unique_on risk_retry_key t"
    and below: "\<And>k x. (k, x) \<in> set (tbl_rows u) \<Longrightarrow> rr_risk x < tbl_next t"
    using ok by (auto simp: risks_ok_def)
  let ?k = "tbl_next t"
  have none: "revisions_of u ?k = []"
    using below by (force simp: revisions_of_def tbl_filter_def filter_empty_conv)
  let ?x = "new_risk_revision ?k r (next_risk_number u ?k) a Risk_RAISED reason key now"
  have "risk_checks x \<and> trail_matches (revisions_of (tbl_insert ?x u) j) x" if x: "tbl_get (tbl_insert r t) j = Some x" for j x
  proof (cases "j = ?k")
    case True
    then have "x = r" using x by (simp add: tbl.get_add [OF wf(1)])
    then show ?thesis
      using True r none by (simp add: revisions_of_insert trail_matches_def new_risk_revision_def next_risk_number_def
          risk_numbers_revisions)
  next
    case False
    then have "tbl_get t j = Some x" using x by (simp add: tbl.get_add [OF wf(1)])
    then show ?thesis using ok False by (simp add: risks_ok_def revisions_of_insert new_risk_revision_def)
  qed
  moreover have "rr_risk y < tbl_next (tbl_insert r t)" if "(i, y) \<in> set (tbl_rows (tbl_insert ?x u))" for i y
    using that below by (fastforce simp: new_risk_revision_def)
  ultimately show ?thesis
    using unique_on_insert [OF un(1) new(1)] unique_on_insert [OF un(2) new(2)] wf
    unfolding risks_ok_def by (auto simp: tbl.wf_add)
qed

lemma governance_ok_raise:
  assumes "raise_risk u p a s = (Inr k, s')" "governance_ok s"
  shows "governance_ok s'"
  using raise_risk_success [OF assms(1)] assms(2)
  by (auto simp: Let_def governance_ok_def intro!: risks_ok_raise) (simp_all add: new_risk_def risk_checks_def)

lemma governance_ok_supersede: "supersede_decision u d a s = (Inr k, s') \<Longrightarrow> governance_ok s \<Longrightarrow> governance_ok s'"
  by (auto simp: supersede_decision_def split: sum.splits intro: governance_ok_publish)

section \<open>The commands\<close>

datatype governance_command =
    PublishDecision actor "pk \<times> research_project" decision_args
  | SupersedeDecision actor "pk \<times> decision_record" decision_args
  | RaiseRisk actor "pk \<times> research_project" risk_args
  | TriageRisk actor pk int triage_args
  | TransitionRisk actor pk int transition_args

fun governance_step :: "governance_command \<Rightarrow> ('a governance_db_scheme, unit) op" where
  "governance_step (PublishDecision u p a) = void (publish_decision u p a None)"
| "governance_step (SupersedeDecision u d a) = void (supersede_decision u d a)"
| "governance_step (RaiseRisk u p a) = void (raise_risk u p a)"
| "governance_step (TriageRisk u k v a) = void (triage_risk u k v a)"
| "governance_step (TransitionRisk u k v a) = void (transition_risk u k v a)"

lemma supersede_atomic: "supersede_decision u d a s = (Inl e, s') \<Longrightarrow> s' = s"
  by (auto simp: supersede_decision_def publish_decision_def split: sum.splits)

lemma governance_error: "governance_step c s = (Inl e, s') \<Longrightarrow> s' = s"
  by (cases c) (auto simp: void_def publish_decision_def raise_risk_def triage_risk_def transition_risk_def
      dest: supersede_atomic split: prod.splits sum.splits)

lemma governance_success: "governance_step c s = (Inr x, s') \<Longrightarrow> governance_ok s \<Longrightarrow> governance_ok s'"
  by (cases c) (auto simp: void_Inr dest: governance_ok_publish governance_ok_supersede governance_ok_raise
      governance_ok_triage governance_ok_transition)

interpretation governance_call: invariant_call "governance_step c" governance_ok
  by unfold_locales (blast intro: governance_error governance_success)+

interpretation governance: command_system governance_step governance_ok
  by unfold_locales (rule governance_call.inv_after)

section \<open>What is never taken back\<close>

text \<open>Decisions keep everything but their status, which only moves to superseded; revisions keep everything.\<close>

definition record_kept :: "'a governance_db_scheme \<Rightarrow> 'a governance_db_scheme \<Rightarrow> bool" where
  "record_kept s s' \<longleftrightarrow>
     (\<forall>k d. tbl_get (db_decision_records s) k = Some d \<longrightarrow>
        tbl_get (db_decision_records s') k \<in> {Some d, Some (d\<lparr>dr_status := DecisionRecord_SUPERSEDED\<rparr>)})
     \<and> (\<exists>new. tbl_rows (db_risk_revisions s') = tbl_rows (db_risk_revisions s) @ new)"

lemma record_kept_refl [simp]: "record_kept s s"
  by (simp add: record_kept_def)

lemma record_kept_trans:
  assumes a: "record_kept s t" and b: "record_kept t u"
  shows "record_kept s u"
proof -
  have "tbl_get (db_decision_records u) k \<in> {Some d, Some (d\<lparr>dr_status := DecisionRecord_SUPERSEDED\<rparr>)}"
    if "tbl_get (db_decision_records s) k = Some d" for k d
    using a that b unfolding record_kept_def by fastforce
  then show ?thesis using a b unfolding record_kept_def by auto
qed

lemma record_kept_publish:
  assumes ok: "governance_ok s" and p: "publish_decision u p a prior s = (Inr k, s')"
  shows "record_kept s s'"
  using publish_decision_success [OF p]
proof (elim disjE exE conjE)
  fix owner pred d
  assume s': "db_decision_records s' = mark_in pred (tbl_insert d (db_decision_records s))"
    "db_risk_revisions s' = db_risk_revisions s"
  have wf: "tbl_wf (db_decision_records s)" using ok by (simp add: governance_ok_def decision_chains_ok_def)
  show ?thesis
    using tbl.get_add_old [OF wf] by (auto simp: record_kept_def s' tbl_get_update_where)
qed simp

lemma record_kept_risks:
  "db_decision_records s' = db_decision_records s \<Longrightarrow> db_risk_revisions s' = tbl_insert x (db_risk_revisions s)
   \<Longrightarrow> record_kept s s'"
  by (simp add: record_kept_def)

lemma record_kept_save_and_append: "save_and_append k r l u p re key act pr s = (Inr j, s') \<Longrightarrow> record_kept s s'"
  by (drule save_and_append_success) (auto intro: record_kept_risks)

lemma record_kept_success: "governance_ok s \<Longrightarrow> governance_step c s = (Inr x, s') \<Longrightarrow> record_kept s s'"
proof (cases c)
  case (RaiseRisk u p a)
  assume "governance_step c s = (Inr x, s')"
  then obtain k where "raise_risk u p a s = (Inr k, s')" using RaiseRisk by (auto simp: void_Inr)
  then show ?thesis using raise_risk_success by (fastforce simp: Let_def intro: record_kept_risks)
qed (auto simp: void_Inr supersede_decision_def split: sum.splits intro: record_kept_publish
    dest!: triage_success transition_success record_kept_save_and_append)

lemma record_kept_run: "governance_ok s \<Longrightarrow> record_kept s (run_all governance_step cs s)"
proof (induction cs arbitrary: s)
  case (Cons c cs)
  have "record_kept s (snd (governance_step c s))"
    using governance_call.error_keeps_state record_kept_success [OF Cons.prems]
    by (metis prod.collapse record_kept_refl sum.exhaust)
  then show ?case using Cons.IH [OF governance.step_inv [OF Cons.prems]] record_kept_trans by simp blast
qed simp

section \<open>Versions and repeated requests\<close>

definition risk_version :: "pk \<Rightarrow> 'a governance_db_scheme \<Rightarrow> nat option" where
  "risk_version k s = map_option rk_version (tbl_get (db_risks s) k)"

lemma triage_stale: "risk_version k s \<noteq> Some v \<Longrightarrow> \<exists>e. triage_risk u k (int v) a s = (Inl e, s)"
  by (auto simp: triage_risk_def atomic_def risk_version_def split: option.splits sum.splits)

lemma triage_moves:
  assumes "governance_ok s" "triage_risk u k (int v) a s = (Inr j, s')"
  shows "\<exists>v'. risk_version k s' = Some v' \<and> v < v'"
proof -
  have "tbl_wf (db_risks s)" using assms(1) by (simp add: governance_ok_def risks_ok_def)
  then show ?thesis
    using triage_success [OF assms(2)] save_and_append_success
    by (fastforce simp: risk_version_def tbl.get_put triaged_def)
qed

interpretation risk_triage: optimistic_update "risk_version k" "\<lambda>v. triage_risk u k (int v) a" governance_ok
  by unfold_locales (simp_all add: triage_stale triage_moves)

lemma same_capability:
  "db_memberships s' = db_memberships s \<Longrightarrow> project_capabilities s' u pid p = project_capabilities s u pid p"
  by (simp add: project_capabilities_def active_membership_def)

lemma transition_again:
  assumes t: "transition_risk u k v a s = (Inr j, s')"
  shows "transition_risk u k v a s' = (Inr j, s')"
  using transition_success [OF t]
proof (elim disjE exE conjE)
  fix r r' act pr
  assume r: "tbl_get (db_risks s) k = Some r" and ap: "apply_transition s a (db_now s) r = Inr r'"
    and sa: "save_and_append k r' (tr_evidence_links a) u (rk_state r) (tr_reason a) (tr_idempotency_key a) act pr s
      = (Inr j, s')"
  note q = save_and_append_success [OF sa]
  obtain p where p: "project_row s (rk_project r) = Inr p"
    "require_governance_capability s u (rk_project r) p canTriageRisks = Inr ()"
    using t r by (auto simp: transition_risk_def split: sum.splits)
  have "rk_project r' = rk_project r"
    using ap by (auto simp: apply_transition_def risk_transition_target_def reopened_def
        split: option.splits if_splits sum.splits)
  moreover have "tbl_get (db_risks s') k = Some r'" using q by (simp add: put_notification_get)
  moreover have "transition_recorded s' k (tr_idempotency_key a)"
    using q by (simp add: transition_recorded_def tbl_exists_iff new_risk_revision_def)
  moreover have "project_row s' pid = project_row s pid" for pid using q by (simp add: project_row_def)
  moreover have "require_governance_capability s' u pid p c = require_governance_capability s u pid p c" for pid c
    using q same_capability [of s' s] by (simp add: require_governance_capability_def)
  ultimately show ?thesis using p q by (simp add: transition_risk_def atomic_def)
qed (use t in simp)

interpretation risk_transition: retry_safe "transition_risk u k v a"
  by unfold_locales (rule transition_again)

end
