(* ===== verification/GovernanceSamples.thy ===== *)
theory GovernanceSamples
  imports ExecutionSamples GovernanceCommands
begin

text \<open>
  A project with one current decision and two risks: the first was raised and triaged, the second was
  also accepted.
\<close>

definition sample_decision :: decision_record where
  "sample_decision =
     \<lparr>dr_project = 1, dr_title = ''Laser'', dr_context = ''two vendors'', dr_options_considered = [''A'', ''B''],
      dr_outcome = ''A'', dr_rationale = ''cheaper'', dr_owner = 1, dr_effective_date = 20000,
      dr_status = DecisionRecord_CURRENT, dr_supersedes = None, dr_published_by = 1, dr_published_at = 0,
      dr_idempotency_key = ''d1''\<rparr>"

definition sample_risk :: "string \<Rightarrow> risk_state \<Rightarrow> nat \<Rightarrow> risk_record" where
  "sample_risk title st v =
     \<lparr>rk_project = 1, rk_title = title, rk_description = [], rk_source_type = ''manual'', rk_source_key = [],
      rk_likelihood = Risk_HIGH, rk_impact = Risk_MEDIUM, rk_severity = Risk_HIGH, rk_owner = Some 1,
      rk_treatment = ''spare part'', rk_review_date = Some 20020, rk_state = st,
      rk_closure_rationale = (if st = Risk_ACCEPTED then ''tolerable'' else []),
      rk_closed_at = (if st = Risk_ACCEPTED then Some 0 else None), rk_version = v, rk_raised_by = 2,
      rk_idempotency_key = title, rk_created_at = 0, rk_updated_at = 0\<rparr>"

definition sample_trail :: "pk \<Rightarrow> nat \<Rightarrow> risk_state \<Rightarrow> risk_state \<Rightarrow> risk_revision" where
  "sample_trail k n earlier later =
     \<lparr>rr_project = 1, rr_risk = k, rr_revision_number = n, rr_previous_state = earlier, rr_new_state = later,
      rr_likelihood = Risk_HIGH, rr_impact = Risk_MEDIUM, rr_severity = Risk_HIGH,
      rr_owner_id_snapshot = Some 1, rr_treatment = ''spare part'', rr_review_date = Some 20020,
      rr_closure_rationale = [], rr_actor = 1, rr_reason = [], rr_idempotency_key = [], rr_created_at = 0\<rparr>"

definition sample_governance :: governance_db where
  "sample_governance = execution_db.extend sample_execution
     (governance_db.fields \<lparr>tbl_rows = [(1, sample_decision)], tbl_next = 2\<rparr>
       \<lparr>tbl_rows = [(1, sample_risk ''leak'' Risk_OPEN 2), (2, sample_risk ''noise'' Risk_ACCEPTED 3)], tbl_next = 3\<rparr>
       \<lparr>tbl_rows = [(1, sample_trail 1 1 Risk_RAISED Risk_RAISED), (2, sample_trail 1 2 Risk_RAISED Risk_OPEN),
          (3, sample_trail 2 1 Risk_RAISED Risk_RAISED), (4, sample_trail 2 2 Risk_RAISED Risk_OPEN),
          (5, sample_trail 2 3 Risk_OPEN Risk_ACCEPTED)], tbl_next = 6\<rparr>
       tbl_empty (\<lambda>_ _. None))"

lemmas sample_governance_defs = sample_governance_def execution_db.defs governance_db.defs sample_execution_def

lemma sample_governance_ok: "governance_ok sample_governance"
proof -
  have "decision_chains_ok (db_decision_records sample_governance)"
    by (auto simp: decision_chains_ok_def sample_governance_defs tbl_wf_def unique_on_def names_predecessor_def
        sample_decision_def tbl_get_def superseded_in_def tbl_exists_def split: if_splits)
  moreover have "risks_ok (db_risks sample_governance) (db_risk_revisions sample_governance)"
    by (auto simp: risks_ok_def sample_governance_defs tbl_wf_def unique_on_def risk_source_key_def risk_retry_key_def
        risk_checks_def trail_matches_def revisions_of_def tbl_filter_def sample_risk_def sample_trail_def tbl_get_def
        upt_rec split: if_splits)
  ultimately show ?thesis by (simp add: governance_ok_def)
qed

definition vendor_change :: decision_args where
  "vendor_change =
     \<lparr>da_title = ''Laser, again'', da_context = ''A is late'', da_options_considered = [''B''], da_outcome = ''B'',
      da_rationale = ''in stock'', da_owner_id = 1, da_effective_date = 20010,
      da_links = [\<lparr>la_target_type = ''risk'', la_target_id = Some 1\<rparr>], da_idempotency_key = ''d2''\<rparr>"

definition fresh_triage :: triage_args where
  "fresh_triage =
     \<lparr>ta_likelihood = ''medium'', ta_impact = ''high'', ta_owner_id = 2, ta_treatment = ''damping'',
      ta_review_date = Some 20030, ta_reason = ''worse''\<rparr>"

definition resolve_leak :: transition_args where
  "resolve_leak =
     \<lparr>tr_action = ''resolve'', tr_reason = ''fixed'', tr_idempotency_key = ''t1'', tr_owner_id = None,
      tr_review_date = None, tr_evidence_links = []\<rparr>"

definition governed_run :: "governance_command list" where
  "governed_run =
     [SupersedeDecision ada (1, sample_decision) vendor_change, TriageRisk ada 2 3 fresh_triage,
      TransitionRisk ada 1 2 resolve_leak]"

end
