(* ===== verification/Collaboration.thy ===== *)
theory Collaboration
  imports NotificationOutcomes "HOL-Library.Product_Lexorder"
begin

text \<open>
  Who belongs to a project (\<open>apps/projects/services.py\<close>, \<open>apps/projects/collaboration_services.py\<close>,
  \<open>apps/projects/archive_services.py\<close>): creating and editing projects, members and collaborators, the
  transfer of a project to another advisor, the governance hold.

  The services save a membership or a project as an instance; where they do not read it again first, the
  instance is an argument \<open>(key, row)\<close>. A role is one of the five choices. \<open>ProjectService.delete_project\<close> (the
  deletion cascades through every application) and the event feed are not modelled.
\<close>

section \<open>Records\<close>

text \<open>What becomes of the previous advisor.\<close>

datatype previous_advisor_result =
    PreviousAdvisor_CO_ADVISOR
  | PreviousAdvisor_REVIEWER
  | PreviousAdvisor_OBSERVER
  | PreviousAdvisor_REMOVED

record ownership_transfer =
  ot_project :: pk
  ot_previous_advisor :: pk
  ot_new_advisor :: pk
  ot_previous_advisor_result :: previous_advisor_result
  ot_initiated_by :: pk
  ot_reason :: string
  ot_expected_project_version :: int
  ot_idempotency_key :: string
  ot_completed_at :: instant

definition transfer_key :: "ownership_transfer \<Rightarrow> (pk \<times> string) option" where
  "transfer_key t = (if ot_idempotency_key t = [] then None else Some (ot_project t, ot_idempotency_key t))"

record collaboration_db = notification_db +
  db_transfers :: "ownership_transfer table"

lemma record_event_transfers [simp]: "db_transfers (record_event p a t sm tg opts s) = db_transfers s"
  by (simp add: record_event_def)

lemma only_mail_transfers: "only_mail s s' \<Longrightarrow> db_transfers s' = db_transfers s"
  by (cases s, cases s') (simp add: only_mail_def)

text \<open>The keys of the two partial unique constraints of the membership table.\<close>

definition active_member_key :: "project_membership \<Rightarrow> (pk \<times> pk) option" where
  "active_member_key m = (if pm_status m = ProjectMembership_ACTIVE then Some (pm_project m, pm_user m) else None)"

definition primary_advisor_key :: "project_membership \<Rightarrow> pk option" where
  "primary_advisor_key m =
     (if pm_status m = ProjectMembership_ACTIVE \<and> pm_role m = ProjectMembership_ADVISOR then Some (pm_project m) else None)"

definition insert_membership :: "project_membership \<Rightarrow> ('a project_db_scheme, pk) op" where
  "insert_membership m s =
     (if key_taken active_member_key m (db_memberships s) \<or> key_taken primary_advisor_key m (db_memberships s)
      then (Inl (IntegrityError ''unique_active_project_membership''), s)
      else (Inr (tbl_next (db_memberships s)), s\<lparr>db_memberships := tbl_insert m (db_memberships s)\<rparr>))"

definition save_membership :: "pk \<Rightarrow> project_membership \<Rightarrow> ('a project_db_scheme, unit) op" where
  "save_membership k m s =
     (if key_taken_by_other active_member_key k m (db_memberships s)
         \<or> key_taken_by_other primary_advisor_key k m (db_memberships s)
      then (Inl (IntegrityError ''unique_active_project_membership''), s)
      else (Inr (), s\<lparr>db_memberships := tbl_put k m (db_memberships s)\<rparr>))"

definition save_project :: "pk \<Rightarrow> research_project \<Rightarrow> 'a project_db_scheme \<Rightarrow> 'a project_db_scheme" where
  "save_project k p s = s\<lparr>db_projects := tbl_put k (p\<lparr>rp_updated_at := db_now s\<rparr>) (db_projects s)\<rparr>"

definition new_membership :: "pk \<Rightarrow> pk \<Rightarrow> membership_role \<Rightarrow> instant \<Rightarrow> project_membership" where
  "new_membership pid user role now =
     \<lparr>pm_project = pid, pm_user = user, pm_role = role, pm_status = ProjectMembership_ACTIVE, pm_joined_at = now,
      pm_removed_at = None, pm_assigned_by = None, pm_assignment_reason = [], pm_role_changed_at = None,
      pm_version = 1\<rparr>"

section \<open>Guards and helpers\<close>

definition ensure_project_writable :: "research_project \<Rightarrow> error + unit" where
  "ensure_project_writable p =
     (if rp_status p = ResearchProject_ARCHIVED
      then Inl (PermissionDenied ''Archived projects are read-only until reopened'') else Inr ())"

definition is_project_advisor :: "'a project_db_scheme \<Rightarrow> actor \<Rightarrow> pk \<Rightarrow> bool" where
  "is_project_advisor s u pid =
     tbl_exists (\<lambda>_ m. pm_project m = pid \<and> pm_user m = u_id u \<and> pm_status m = ProjectMembership_ACTIVE
        \<and> pm_role m \<in> {ProjectMembership_ADVISOR, ProjectMembership_CO_ADVISOR}) (db_memberships s)"

definition ensure_project_advisor :: "'a project_db_scheme \<Rightarrow> actor \<Rightarrow> pk \<Rightarrow> error + unit" where
  "ensure_project_advisor s u pid =
     (if \<not> is_project_advisor s u pid
      then Inl (PermissionDenied ''Only project advisors can perform this action'') else Inr ())"

definition teacher_eligible :: "'a user_scheme \<Rightarrow> bool" where
  "teacher_eligible u \<longleftrightarrow>
     u_global_role u = User_ADVISOR \<and> u_status u = User_ACTIVE \<and> u_active_role u = Requested_TEACHER
     \<and> u_email_verified_at u \<noteq> None"

definition ensure_teacher_eligible :: "'a user_scheme \<Rightarrow> error + unit" where
  "ensure_teacher_eligible u =
     (if \<not> teacher_eligible u then Inl (ValidationError ''Selected account is not an eligible teacher.'') else Inr ())"

definition can_create_projects :: "actor \<Rightarrow> bool" where
  "can_create_projects u \<longleftrightarrow> u_is_authenticated u \<and> teacher_eligible u"

text \<open>
  \<open>search_eligible_teachers\<close>. The two conditions of the one \<open>exclude\<close> are about the memberships of a
  teacher and need not be met by the same one.
\<close>

definition text_contains :: "string \<Rightarrow> string \<Rightarrow> bool" where
  "text_contains query t = py_contains (py_lower t) (py_lower query)"

definition excluded_from_search :: "'a project_db_scheme \<Rightarrow> pk \<Rightarrow> pk \<Rightarrow> bool" where
  "excluded_from_search s pid user \<longleftrightarrow>
     tbl_exists (\<lambda>_ m. pm_user m = user \<and> pm_project m = pid) (db_memberships s)
     \<and> tbl_exists (\<lambda>_ m. pm_user m = user \<and> pm_status m = ProjectMembership_ACTIVE) (db_memberships s)"

definition search_eligible_teachers ::
  "'a project_db_scheme \<Rightarrow> actor \<Rightarrow> string \<Rightarrow> pk option \<Rightarrow> int \<Rightarrow> error + (pk \<times> user) list" where
  "search_eligible_teachers s u query project limit =
     (if \<not> u_is_authenticated u then Inl (PermissionDenied [])
      else let q = take 100 (py_strip query)
      in if length q < 2 then Inr []
      else let found = tbl_filter (\<lambda>k t. teacher_eligible t
                 \<and> (text_contains q (u_email t) \<or> text_contains q (u_name t) \<or> text_contains q (u_nickname t))
                 \<and> (case project of None \<Rightarrow> True | Some pid \<Rightarrow> \<not> excluded_from_search s pid k)) (db_users s)
      in Inr (take (nat (max 1 (min limit 25))) (sort_key (\<lambda>(_, t). (u_name t, u_email t)) found)))"

text \<open>A notification created directly, with the defaults of its model.\<close>

definition membership_notification :: "pk \<Rightarrow> project_membership \<Rightarrow> actor \<Rightarrow> string \<Rightarrow> instant \<Rightarrow> notification" where
  "membership_notification k m u subject now =
     \<lparr>nt_project = Some (pm_project m), nt_recipient = pm_user m, nt_recipient_email = [], nt_sender = Some (u_id u),
      nt_event_type = MEMBERSHIP_CHANGED, nt_target_type = ''ProjectMembership'', nt_target_id = str_of_nat k,
      nt_subject = subject, nt_action_path = ''/projects/'' @ str_of_nat (pm_project m),
      nt_status = Notification_PENDING, nt_delivery_policy = Notification_IN_APP_EMAIL, nt_eligible_at = now,
      nt_queued_at = None, nt_sent_at = None, nt_last_attempt_at = None, nt_retry_count = 0, nt_failure_reason = [],
      nt_category = Notification_ADMINISTRATION, nt_requirement_type = Notification_INFORMATIONAL,
      nt_outcome_state = Notification_NOT_REQUIRED, nt_due_at = None, nt_expires_at = None, nt_acknowledged_at = None,
      nt_action_completed_at = None, nt_expired_at = None, nt_unavailable_at = None, nt_completion_event_type = [],
      nt_completion_event_id = [], nt_dedupe_key = [], nt_active_follow_up = False, nt_reminder_count = 0,
      nt_escalation_level = 0, nt_last_reminded_at = None, nt_last_escalated_at = None, nt_created_at = now\<rparr>"

definition notify_membership :: "pk \<Rightarrow> project_membership \<Rightarrow> actor \<Rightarrow> string \<Rightarrow> ('a notification_db_scheme, pk) op" where
  "notify_membership k m u subject s = insert_notification (membership_notification k m u subject (db_now s)) s"

definition governance_event ::
  "pk \<Rightarrow> actor \<Rightarrow> string \<Rightarrow> string \<Rightarrow> target \<Rightarrow> pydict \<Rightarrow> 'a audit_db_scheme \<Rightarrow> 'a audit_db_scheme" where
  "governance_event pid u event_type summary target snapshot =
     record_event (Some pid) (Some u) event_type summary target
       (event_defaults\<lparr>opt_category := AuditEvent_PROJECT_GOVERNANCE, opt_target_snapshot := Some snapshot,
          opt_allowed_snapshot_keys := Some (set (map fst snapshot))\<rparr>)"

section \<open>Projects\<close>

record project_args =
  pa_title :: string
  pa_description :: string
  pa_starts_on :: "day option"
  pa_ends_on :: "day option"

definition new_project :: "project_args \<Rightarrow> actor \<Rightarrow> instant \<Rightarrow> research_project" where
  "new_project a u now =
     \<lparr>rp_title = pa_title a, rp_description = pa_description a, rp_advisor = u_id u, rp_status = ResearchProject_ACTIVE,
      rp_starts_on = pa_starts_on a, rp_ends_on = pa_ends_on a, rp_archived_at = None,
      rp_governance_state = ResearchProject_NORMAL, rp_governance_hold_reason = ResearchProject_NO_REASON,
      rp_governance_hold_started_at = None, rp_governance_hold_resolved_at = None,
      rp_governance_hold_resolved_by = None, rp_governance_hold_resolution_reason = [],
      rp_governance_version = 1, rp_created_at = now, rp_updated_at = now\<rparr>"

definition active_student :: "'a user_scheme \<Rightarrow> bool" where
  "active_student u \<longleftrightarrow>
     u_global_role u = User_STUDENT \<and> u_status u = User_ACTIVE \<and> u_active_role u = Requested_STUDENT"

definition eligible_project_students :: "'a core_db_scheme \<Rightarrow> pk list \<Rightarrow> error + pk list" where
  "eligible_project_students s ids =
     (if ids = [] then Inr []
      else if \<not> distinct ids then Inl (ValidationError ''Student selections must not contain duplicates'')
      else let students = tbl_filter (\<lambda>k _. k \<in> set ids) (db_users s)
      in if set (map fst students) \<noteq> set ids then Inl (ValidationError ''Selected student does not exist'')
      else if list_ex (\<lambda>(_, t). \<not> active_student t) students
      then Inl (ValidationError ''Selected account is not an active student'')
      else Inr (map fst students))"

text \<open>Membership rows one after the other, each with its event.\<close>

definition add_student_row :: "actor \<Rightarrow> pk \<Rightarrow> pk \<Rightarrow> ('a project_db_scheme, unit) op" where
  "add_student_row u pid user s =
     (case insert_membership (new_membership pid user ProjectMembership_STUDENT (db_now s)) s of
        (Inl e, s1) \<Rightarrow> (Inl e, s1)
      | (Inr k, s1) \<Rightarrow> (Inr (), record_membership_change (Some pid) (Some u) (Some (''ProjectMembership'', k)) ''added'' s1))"

definition create_project :: "actor \<Rightarrow> project_args \<Rightarrow> pk list \<Rightarrow> ('a project_db_scheme, pk) op" where
  "create_project u a student_ids = atomic (\<lambda>s.
     if \<not> can_create_projects u then (Inl (PermissionDenied ''Only advisors can create projects''), s)
     else let pid = tbl_next (db_projects s);
              s1 = s\<lparr>db_projects := tbl_insert (new_project a u (db_now s)) (db_projects s)\<rparr>
     in case insert_membership (new_membership pid (u_id u) ProjectMembership_ADVISOR (db_now s)) s1 of
       (Inl e, s2) \<Rightarrow> (Inl e, s2)
     | (Inr _, s2) \<Rightarrow>
     (case eligible_project_students s2 student_ids of
       Inl e \<Rightarrow> (Inl e, s2)
     | Inr students \<Rightarrow>
     (case for_each (add_student_row u pid) students s2 of
       (Inl e, s3) \<Rightarrow> (Inl e, s3)
     | (Inr _, s3) \<Rightarrow>
       (Inr pid, record_event (Some pid) (Some u) ''project.created'' (''Created project '' @ pa_title a)
          (Some (''ResearchProject'', pid)) event_defaults s3))))"

text \<open>The keyword arguments of \<open>update_project\<close> that were given.\<close>

record project_changes =
  pc_title :: "string option"
  pc_description :: "string option"
  pc_starts_on :: "day option option"
  pc_ends_on :: "day option option"

definition changed_project :: "project_changes \<Rightarrow> research_project \<Rightarrow> research_project" where
  "changed_project c p =
     p\<lparr>rp_title := (case pc_title c of None \<Rightarrow> rp_title p | Some v \<Rightarrow> v),
       rp_description := (case pc_description c of None \<Rightarrow> rp_description p | Some v \<Rightarrow> v),
       rp_starts_on := (case pc_starts_on c of None \<Rightarrow> rp_starts_on p | Some v \<Rightarrow> v),
       rp_ends_on := (case pc_ends_on c of None \<Rightarrow> rp_ends_on p | Some v \<Rightarrow> v)\<rparr>"

definition project_event :: "pk \<Rightarrow> actor \<Rightarrow> string \<Rightarrow> string \<Rightarrow> 'a audit_db_scheme \<Rightarrow> 'a audit_db_scheme" where
  "project_event pid u event_type summary =
     record_event (Some pid) (Some u) event_type summary (Some (''ResearchProject'', pid)) event_defaults"

definition update_project :: "actor \<Rightarrow> pk \<times> research_project \<Rightarrow> project_changes \<Rightarrow> ('a project_db_scheme, unit) op" where
  "update_project u project c s =
     (let (pid, p) = project; p' = changed_project c p
      in if \<not> canEditProject (project_capabilities s u pid p)
         then (Inl (PermissionDenied ''Project editing is forbidden''), s)
         else (Inr (), project_event pid u ''project.updated'' (''Updated project '' @ rp_title p') (save_project pid p' s)))"

text \<open>\<open>save(update_fields=["status", "archived_at", "updated_at"])\<close>.\<close>

definition save_project_status ::
  "pk \<Rightarrow> project_status \<Rightarrow> instant option \<Rightarrow> 'a project_db_scheme \<Rightarrow> 'a project_db_scheme" where
  "save_project_status pid st archived_at s =
     s\<lparr>db_projects := tbl_update_where (\<lambda>k _. k = pid)
         (\<lambda>p. p\<lparr>rp_status := st, rp_archived_at := archived_at, rp_updated_at := db_now s\<rparr>) (db_projects s)\<rparr>"

definition archive_project :: "actor \<Rightarrow> pk \<times> research_project \<Rightarrow> ('a project_db_scheme, unit) op" where
  "archive_project u project s =
     (let (pid, p) = project
      in if \<not> canArchiveProject (project_capabilities s u pid p)
         then (Inl (PermissionDenied ''Project archiving is forbidden''), s)
         else (Inr (), project_event pid u ''project.archived'' (''Archived project '' @ rp_title p)
                 (save_project_status pid ResearchProject_ARCHIVED (Some (db_now s)) s)))"

definition reopen_project :: "actor \<Rightarrow> pk \<times> research_project \<Rightarrow> ('a project_db_scheme, unit) op" where
  "reopen_project u project s =
     (let (pid, p) = project
      in if \<not> canReopenProject (project_capabilities s u pid p)
         then (Inl (PermissionDenied ''Project reopening is forbidden''), s)
         else (Inr (), project_event pid u ''project.reopened'' (''Reopened project '' @ rp_title p)
                 (save_project_status pid ResearchProject_ACTIVE None s)))"

section \<open>Members\<close>

definition manage_members ::
  "'a project_db_scheme \<Rightarrow> actor \<Rightarrow> pk \<Rightarrow> research_project \<Rightarrow> error + unit" where
  "manage_members s u pid p =
     (if \<not> canManageMembers (project_capabilities s u pid p)
      then Inl (PermissionDenied ''Project membership management is forbidden'') else ensure_project_writable p)"

definition member_changed ::
  "actor \<Rightarrow> pk \<Rightarrow> project_membership \<Rightarrow> string \<Rightarrow> string \<Rightarrow> ('a notification_db_scheme, pk) op" where
  "member_changed u k m action subject s =
     (case notify_membership k m u subject
             (record_membership_change (Some (pm_project m)) (Some u) (Some (''ProjectMembership'', k)) action s) of
        (Inl e, s1) \<Rightarrow> (Inl e, s1)
      | (Inr _, s1) \<Rightarrow> (Inr k, s1))"

text \<open>The row with its key after a save or an insert.\<close>

definition write_membership :: "pk option \<Rightarrow> project_membership \<Rightarrow> ('a project_db_scheme, pk) op" where
  "write_membership k m s =
     (case k of
        None \<Rightarrow> insert_membership m s
      | Some k' \<Rightarrow> (case save_membership k' m s of (Inl e, s1) \<Rightarrow> (Inl e, s1) | (Inr _, s1) \<Rightarrow> (Inr k', s1)))"

definition membership_of :: "'a project_db_scheme \<Rightarrow> pk \<Rightarrow> pk \<Rightarrow> (pk \<times> project_membership) option" where
  "membership_of s pid user = tbl_first (\<lambda>_ m. pm_project m = pid \<and> pm_user m = user) (db_memberships s)"

text \<open>\<open>update_or_create\<close>: the one row of the pair is updated, two are an error, none is created.\<close>

definition add_member :: "actor \<Rightarrow> pk \<times> research_project \<Rightarrow> pk \<Rightarrow> membership_role \<Rightarrow> ('a notification_db_scheme, pk) op" where
  "add_member u project user role s =
     (let pid = fst project
      in case manage_members s u pid (snd project) of
           Inl e \<Rightarrow> (Inl e, s)
         | Inr _ \<Rightarrow>
             if 1 < tbl_count (\<lambda>_ m. pm_project m = pid \<and> pm_user m = user) (db_memberships s)
             then (Inl (MultipleObjectsReturned ''ProjectMembership''), s)
             else if membership_of s pid user = None \<and> tbl_get (db_users s) user = None
             then (Inl (IntegrityError ''ProjectMembership.user''), s)
             else let m = (case membership_of s pid user of
                        None \<Rightarrow> new_membership pid user role (db_now s)
                      | Some (_, m) \<Rightarrow> m\<lparr>pm_role := role, pm_status := ProjectMembership_ACTIVE, pm_removed_at := None\<rparr>)
             in case write_membership (map_option fst (membership_of s pid user)) m s of
                  (Inl e, s1) \<Rightarrow> (Inl e, s1)
                | (Inr k, s1) \<Rightarrow> member_changed u k m ''added'' ''Project membership added'' s1)"

definition add_student_member :: "actor \<Rightarrow> pk \<times> research_project \<Rightarrow> pk \<Rightarrow> ('a notification_db_scheme, pk) op" where
  "add_student_member u project student = atomic (\<lambda>s.
     let pid = fst project in
     case manage_members s u pid (snd project) of
       Inl e \<Rightarrow> (Inl e, s)
     | Inr _ \<Rightarrow>
     (case tbl_get (db_users s) student of
       None \<Rightarrow> (Inl (ValidationError ''Selected student does not exist''), s)
     | Some t \<Rightarrow>
     if \<not> active_student t then (Inl (ValidationError ''Selected account is not an active student''), s)
     else if map_option (\<lambda>(_, m). pm_status m) (membership_of s pid student) = Some ProjectMembership_ACTIVE
     then (Inl (ValidationError ''Student is already an active project member''), s)
     else let m = (case membership_of s pid student of
                None \<Rightarrow> new_membership pid student ProjectMembership_STUDENT (db_now s)
              | Some (_, m) \<Rightarrow> m\<lparr>pm_role := ProjectMembership_STUDENT, pm_status := ProjectMembership_ACTIVE,
                                  pm_removed_at := None\<rparr>)
     in case write_membership (map_option fst (membership_of s pid student)) m s of
       (Inl e, s1) \<Rightarrow> (Inl e, s1)
     | (Inr k, s1) \<Rightarrow> member_changed u k m ''added'' ''Project membership added'' s1))"

text \<open>The instance of the membership and of its project are the caller's; two columns are written.\<close>

definition remove_member ::
  "actor \<Rightarrow> pk \<times> project_membership \<Rightarrow> research_project \<Rightarrow> ('a notification_db_scheme, pk) op" where
  "remove_member u membership p s =
     (let (k, m) = membership
      in case manage_members s u (pm_project m) p of
           Inl e \<Rightarrow> (Inl e, s)
         | Inr _ \<Rightarrow>
             if pm_role m = ProjectMembership_ADVISOR \<and> pm_user m = u_id u
             then (Inl (ValidationError ''Project advisors cannot remove their own membership''), s)
             else if pm_status m = ProjectMembership_REMOVED then (Inr k, s)
             else member_changed u k m ''removed'' ''Project membership removed''
                    (s\<lparr>db_memberships := tbl_update_where (\<lambda>j _. j = k)
                         (\<lambda>r. r\<lparr>pm_status := ProjectMembership_REMOVED, pm_removed_at := Some (db_now s)\<rparr>)
                         (db_memberships s)\<rparr>))"

section \<open>Collaborators\<close>

definition require_collaborator_management ::
  "'a project_db_scheme \<Rightarrow> actor \<Rightarrow> pk \<Rightarrow> research_project \<Rightarrow> error + unit" where
  "require_collaborator_management s u pid p =
     (if \<not> canManageCollaborators (project_capabilities s u pid p)
      then Inl (PermissionDenied ''Project collaborator management is forbidden.'')
      else if rp_governance_state p = ResearchProject_HOLD
      then Inl (ValidationError ''Project governance is on hold.'') else Inr ())"

definition collaborator_role :: "membership_role \<Rightarrow> bool" where
  "collaborator_role r \<longleftrightarrow>
     r \<in> {ProjectMembership_CO_ADVISOR, ProjectMembership_REVIEWER, ProjectMembership_OBSERVER}"

text \<open>Reasons are mandatory for administrators.\<close>

definition intervention_reason :: "actor \<Rightarrow> string \<Rightarrow> error + unit" where
  "intervention_reason u reason =
     (if is_administrator u \<and> py_strip reason = []
      then Inl (ValidationError ''Administrator interventions require a reason.'') else Inr ())"

definition collaborator_guard :: "actor \<Rightarrow> membership_role \<Rightarrow> string \<Rightarrow> error + unit" where
  "collaborator_guard u role reason =
     (if \<not> collaborator_role role then Inl (ValidationError ''Select a supported collaborator role.'')
      else intervention_reason u reason)"

definition assigned_membership ::
  "actor \<Rightarrow> pk \<Rightarrow> pk \<Rightarrow> membership_role \<Rightarrow> string \<Rightarrow> instant \<Rightarrow> project_membership option \<Rightarrow> project_membership" where
  "assigned_membership u pid user role reason now old =
     (case old of
        None \<Rightarrow> (new_membership pid user role now)\<lparr>pm_assigned_by := Some (u_id u), pm_assignment_reason := reason,
                  pm_role_changed_at := Some now\<rparr>
      | Some m \<Rightarrow> m\<lparr>pm_role := role, pm_status := ProjectMembership_ACTIVE, pm_removed_at := None,
                    pm_assigned_by := Some (u_id u), pm_assignment_reason := reason, pm_role_changed_at := Some now,
                    pm_version := Suc (pm_version m)\<rparr>)"

text \<open>The event and the notification of a collaborator service.\<close>

definition collaborator_changed ::
  "actor \<Rightarrow> pk \<Rightarrow> project_membership \<Rightarrow> string \<Rightarrow> string \<Rightarrow> pydict \<Rightarrow> string \<Rightarrow> ('a notification_db_scheme, pk) op" where
  "collaborator_changed u k m event_type summary snapshot subject s =
     (case notify_membership k m u subject
             (governance_event (pm_project m) u event_type summary (Some (''ProjectMembership'', k)) snapshot s) of
        (Inl e, s1) \<Rightarrow> (Inl e, s1)
      | (Inr _, s1) \<Rightarrow> (Inr k, s1))"

fun membership_status_value :: "membership_status \<Rightarrow> string" where
  "membership_status_value ProjectMembership_ACTIVE = ''active''"
| "membership_status_value ProjectMembership_REMOVED = ''removed''"

definition assign_collaborator ::
  "actor \<Rightarrow> pk \<Rightarrow> pk \<times> user \<Rightarrow> membership_role \<Rightarrow> string \<Rightarrow> ('a notification_db_scheme, pk) op" where
  "assign_collaborator u pid user role reason = atomic (\<lambda>s.
     case tbl_get (db_projects s) pid of
       None \<Rightarrow> (Inl (DoesNotExist ''ResearchProject''), s)
     | Some p \<Rightarrow>
     (case require_collaborator_management s u pid p of
       Inl e \<Rightarrow> (Inl e, s)
     | Inr _ \<Rightarrow>
     (case ensure_teacher_eligible (snd user) of
       Inl e \<Rightarrow> (Inl e, s)
     | Inr _ \<Rightarrow>
     (case collaborator_guard u role reason of
       Inl e \<Rightarrow> (Inl e, s)
     | Inr _ \<Rightarrow>
     let old = membership_of s pid (fst user);
         m = assigned_membership u pid (fst user) role reason (db_now s) (map_option snd old)
     in if map_option (\<lambda>(_, m). pm_status m) old = Some ProjectMembership_ACTIVE
     then (Inl (ValidationError ''This teacher already has an active project role.''), s)
     else (case write_membership (map_option fst old) m s of
       (Inl e, s1) \<Rightarrow> (Inl e, s1)
     | (Inr k, s1) \<Rightarrow>
       collaborator_changed u k m ''project_governance.collaborator_assigned'' ''Project collaborator assigned''
         [(''role'', PStr (membership_role_value role)), (''status'', PStr (membership_status_value (pm_status m)))]
         ''Project collaborator role assigned'' s1)))))"

text \<open>The locked membership, its project, and the right to change it at the version the client read.\<close>

definition locked_membership ::
  "'a project_db_scheme \<Rightarrow> actor \<Rightarrow> pk \<Rightarrow> int \<Rightarrow> string \<Rightarrow> error + project_membership" where
  "locked_membership s u k expected primary_message =
     (case tbl_get (db_memberships s) k of
        None \<Rightarrow> Inl (DoesNotExist ''ProjectMembership'')
      | Some m \<Rightarrow>
     (case tbl_get (db_projects s) (pm_project m) of
        None \<Rightarrow> Inl (DoesNotExist ''ResearchProject'')
      | Some p \<Rightarrow>
     (case require_collaborator_management s u (pm_project m) p of
        Inl e \<Rightarrow> Inl e
      | Inr _ \<Rightarrow>
          if int (pm_version m) \<noteq> expected
          then Inl (ValidationError ''The membership changed; refresh and try again.'')
          else if pm_role m = ProjectMembership_ADVISOR then Inl (ValidationError primary_message)
          else Inr m)))"

definition change_collaborator_role ::
  "actor \<Rightarrow> pk \<Rightarrow> membership_role \<Rightarrow> int \<Rightarrow> string \<Rightarrow> ('a notification_db_scheme, pk) op" where
  "change_collaborator_role u k role expected reason = atomic (\<lambda>s.
     case locked_membership s u k expected ''Transfer ownership to change the primary advisor.'' of
       Inl e \<Rightarrow> (Inl e, s)
     | Inr m \<Rightarrow>
     (case tbl_get (db_users s) (pm_user m) of
       None \<Rightarrow> (Inl (DoesNotExist ''User''), s)
     | Some t \<Rightarrow>
     (case ensure_teacher_eligible t of
       Inl e \<Rightarrow> (Inl e, s)
     | Inr _ \<Rightarrow>
     (case collaborator_guard u role reason of
       Inl e \<Rightarrow> (Inl e, s)
     | Inr _ \<Rightarrow>
     let m' = m\<lparr>pm_role := role, pm_assignment_reason := reason, pm_role_changed_at := Some (db_now s),
                pm_version := Suc (pm_version m)\<rparr>
     in (case save_membership k m' s of
       (Inl e, s1) \<Rightarrow> (Inl e, s1)
     | (Inr _, s1) \<Rightarrow>
       collaborator_changed u k m' ''project_governance.collaborator_role_changed'' ''Project collaborator role changed''
         [(''role'', PStr (membership_role_value role)), (''version'', PInt (int (pm_version m')))]
         ''Project collaborator role changed'' s1)))))"

definition remove_collaborator :: "actor \<Rightarrow> pk \<Rightarrow> int \<Rightarrow> string \<Rightarrow> ('a notification_db_scheme, pk) op" where
  "remove_collaborator u k expected reason = atomic (\<lambda>s.
     case locked_membership s u k expected ''The primary advisor must be transferred, not removed.'' of
       Inl e \<Rightarrow> (Inl e, s)
     | Inr m \<Rightarrow>
     (case intervention_reason u reason of
       Inl e \<Rightarrow> (Inl e, s)
     | Inr _ \<Rightarrow>
     let m' = m\<lparr>pm_status := ProjectMembership_REMOVED, pm_removed_at := Some (db_now s),
                pm_assignment_reason := reason, pm_version := Suc (pm_version m)\<rparr>
     in (case save_membership k m' s of
       (Inl e, s1) \<Rightarrow> (Inl e, s1)
     | (Inr _, s1) \<Rightarrow>
       collaborator_changed u k m' ''project_governance.collaborator_removed'' ''Project collaborator removed''
         [(''status'', PStr (membership_status_value (pm_status m'))), (''version'', PInt (int (pm_version m')))]
         ''Project collaborator role removed'' s1)))"

section \<open>Transfer and hold\<close>

record transfer_args =
  tf_new_advisor :: "pk \<times> user"
  tf_expected_version :: int
  tf_previous_advisor_result :: previous_advisor_result
  tf_reason :: string
  tf_idempotency_key :: string

definition insert_transfer :: "ownership_transfer \<Rightarrow> ('a collaboration_db_scheme, pk) op" where
  "insert_transfer t s =
     (if ot_previous_advisor t = ot_new_advisor t
      then (Inl (IntegrityError ''project_transfer_advisors_differ''), s)
      else if key_taken transfer_key t (db_transfers s)
      then (Inl (IntegrityError ''unique_project_transfer_idempotency''), s)
      else (Inr (tbl_next (db_transfers s)), s\<lparr>db_transfers := tbl_insert t (db_transfers s)\<rparr>))"

fun role_after_transfer :: "previous_advisor_result \<Rightarrow> membership_role" where
  "role_after_transfer PreviousAdvisor_CO_ADVISOR = ProjectMembership_CO_ADVISOR"
| "role_after_transfer PreviousAdvisor_REVIEWER = ProjectMembership_REVIEWER"
| "role_after_transfer PreviousAdvisor_OBSERVER = ProjectMembership_OBSERVER"
| "role_after_transfer PreviousAdvisor_REMOVED = ProjectMembership_OBSERVER"

text \<open>The update of the active advisor rows of the project.\<close>

definition demote_advisors :: "pk \<Rightarrow> previous_advisor_result \<Rightarrow> 'a project_db_scheme \<Rightarrow> 'a project_db_scheme" where
  "demote_advisors pid result s =
     s\<lparr>db_memberships := tbl_update_where
         (\<lambda>_ m. pm_project m = pid \<and> pm_role m = ProjectMembership_ADVISOR \<and> pm_status m = ProjectMembership_ACTIVE)
         (\<lambda>m. m\<lparr>pm_role := role_after_transfer result,
                pm_status := (if result = PreviousAdvisor_REMOVED then ProjectMembership_REMOVED else ProjectMembership_ACTIVE),
                pm_role_changed_at := Some (db_now s)\<rparr>)
         (db_memberships s)\<rparr>"

text \<open>The new advisor's row: the one read before the update, promoted, or a new one.\<close>

definition promoted_membership ::
  "actor \<Rightarrow> pk \<Rightarrow> pk \<Rightarrow> instant \<Rightarrow> project_membership option \<Rightarrow> project_membership" where
  "promoted_membership u pid user now old =
     (case old of
        None \<Rightarrow> (new_membership pid user ProjectMembership_ADVISOR now)\<lparr>pm_assigned_by := Some (u_id u),
                  pm_role_changed_at := Some now\<rparr>
      | Some m \<Rightarrow> m\<lparr>pm_role := ProjectMembership_ADVISOR, pm_status := ProjectMembership_ACTIVE, pm_removed_at := None,
                    pm_assigned_by := Some (u_id u), pm_role_changed_at := Some now, pm_version := Suc (pm_version m)\<rparr>)"

definition transferred_project :: "actor \<Rightarrow> pk \<Rightarrow> string \<Rightarrow> instant \<Rightarrow> research_project \<Rightarrow> research_project" where
  "transferred_project u advisor reason now p =
     p\<lparr>rp_advisor := advisor, rp_governance_state := ResearchProject_NORMAL,
       rp_governance_hold_resolved_at :=
         (if rp_governance_hold_started_at p \<noteq> None then Some now else rp_governance_hold_resolved_at p),
       rp_governance_hold_resolved_by := (if is_administrator u then Some (u_id u) else None),
       rp_governance_hold_resolution_reason := reason, rp_governance_hold_reason := ResearchProject_NO_REASON,
       rp_governance_version := Suc (rp_governance_version p)\<rparr>"

definition transfer_guard ::
  "'a collaboration_db_scheme \<Rightarrow> actor \<Rightarrow> pk \<Rightarrow> research_project \<Rightarrow> transfer_args \<Rightarrow> error + unit" where
  "transfer_guard s u pid p a =
     (let c = project_capabilities s u pid p
      in if \<not> canTransferOwnership c \<and> \<not> canResolveGovernanceHold c
         then Inl (PermissionDenied ''Ownership transfer is forbidden.'')
         else if int (rp_governance_version p) \<noteq> tf_expected_version a
         then Inl (ValidationError ''The project governance state changed; refresh and try again.'')
         else case intervention_reason u (tf_reason a) of
           Inl e \<Rightarrow> Inl e
         | Inr _ \<Rightarrow>
         (case ensure_teacher_eligible (snd (tf_new_advisor a)) of
           Inl e \<Rightarrow> Inl e
         | Inr _ \<Rightarrow>
           if fst (tf_new_advisor a) = rp_advisor p then Inl (ValidationError ''Select a different primary advisor.'')
           else Inr ()))"

definition existing_transfer :: "'a collaboration_db_scheme \<Rightarrow> pk \<Rightarrow> string \<Rightarrow> pk option" where
  "existing_transfer s pid key =
     (if key = [] then None
      else map_option fst (tbl_first (\<lambda>_ t. ot_project t = pid \<and> ot_idempotency_key t = key) (db_transfers s)))"

definition new_transfer :: "actor \<Rightarrow> pk \<Rightarrow> research_project \<Rightarrow> transfer_args \<Rightarrow> instant \<Rightarrow> ownership_transfer" where
  "new_transfer u pid p a now =
     \<lparr>ot_project = pid, ot_previous_advisor = rp_advisor p, ot_new_advisor = fst (tf_new_advisor a),
      ot_previous_advisor_result = tf_previous_advisor_result a, ot_initiated_by = u_id u, ot_reason = tf_reason a,
      ot_expected_project_version = tf_expected_version a, ot_idempotency_key = tf_idempotency_key a,
      ot_completed_at = now\<rparr>"

definition transfer_ownership :: "actor \<Rightarrow> pk \<Rightarrow> transfer_args \<Rightarrow> ('a collaboration_db_scheme, pk) op" where
  "transfer_ownership u pid a = atomic (\<lambda>s.
     case tbl_get (db_projects s) pid of
       None \<Rightarrow> (Inl (DoesNotExist ''ResearchProject''), s)
     | Some p \<Rightarrow>
     (case transfer_guard s u pid p a of
       Inl e \<Rightarrow> (Inl e, s)
     | Inr _ \<Rightarrow>
     (case existing_transfer s pid (tf_idempotency_key a) of
       Some k \<Rightarrow> (Inr k, s)
     | None \<Rightarrow>
     let user = fst (tf_new_advisor a);
         old = membership_of s pid user;
         m = promoted_membership u pid user (db_now s) (map_option snd old)
     in (case write_membership (map_option fst old) m (demote_advisors pid (tf_previous_advisor_result a) s) of
       (Inl e, s1) \<Rightarrow> (Inl e, s1)
     | (Inr mk, s1) \<Rightarrow>
     let p' = transferred_project u user (tf_reason a) (db_now s) p
     in (case insert_transfer (new_transfer u pid p a (db_now s)) (save_project pid p' s1) of
       (Inl e, s2) \<Rightarrow> (Inl e, s2)
     | (Inr k, s2) \<Rightarrow>
     (case notify_membership mk m u ''You are now the primary project advisor''
             (governance_event pid u ''project_governance.ownership_transferred'' ''Project ownership transferred''
                (Some (''ProjectOwnershipTransfer'', k)) [(''governanceState'', PStr ''normal'')] s2) of
       (Inl e, s3) \<Rightarrow> (Inl e, s3)
     | (Inr _, s3) \<Rightarrow> (Inr k, s3)))))))"

definition place_governance_hold :: "pk \<Rightarrow> governance_hold_reason \<Rightarrow> ('a project_db_scheme, unit) op" where
  "place_governance_hold pid reason = atomic (\<lambda>s.
     case tbl_get (db_projects s) pid of
       None \<Rightarrow> (Inl (DoesNotExist ''ResearchProject''), s)
     | Some p \<Rightarrow>
       if rp_governance_state p = ResearchProject_HOLD then (Inr (), s)
       else (Inr (), save_project pid (p\<lparr>rp_governance_state := ResearchProject_HOLD, rp_governance_hold_reason := reason,
               rp_governance_hold_started_at := Some (db_now s),
               rp_governance_version := Suc (rp_governance_version p)\<rparr>) s))"

end
