(* ===== verification/CollaborationRules.thy ===== *)
theory CollaborationRules
  imports Collaboration
begin

text \<open>
  What the member and collaborator services keep, and what a transfer leaves behind.

  \<^item> \<open>collaboration_ok\<close>: one active membership for an account in a project, one active primary advisor
    for a project, one transfer for a retry key. Every command keeps it.
  \<^item> A transfer makes the chosen teacher the advisor of the project and its only active primary advisor.
  \<^item> An account that may manage members may remove the primary advisor, or change its role.
\<close>

section \<open>The invariant\<close>

definition members_ok :: "project_membership table \<Rightarrow> bool" where
  "members_ok t \<longleftrightarrow> tbl_wf t \<and> unique_on active_member_key t \<and> unique_on primary_advisor_key t"

definition collaboration_ok :: "'a collaboration_db_scheme \<Rightarrow> bool" where
  "collaboration_ok s \<longleftrightarrow>
     members_ok (db_memberships s) \<and> tbl_wf (db_projects s) \<and> tbl_wf (db_transfers s)
     \<and> unique_on transfer_key (db_transfers s)
     \<and> (\<forall>k t. (k, t) \<in> set (tbl_rows (db_transfers s)) \<longrightarrow> ot_previous_advisor t \<noteq> ot_new_advisor t)"

lemma collaboration_okD:
  "collaboration_ok s \<Longrightarrow> members_ok (db_memberships s)" "collaboration_ok s \<Longrightarrow> tbl_wf (db_projects s)"
  "collaboration_ok s \<Longrightarrow> tbl_wf (db_memberships s)"
  by (simp_all add: collaboration_ok_def members_ok_def)

lemma members_ok_insert:
  "members_ok t \<Longrightarrow> \<not> key_taken active_member_key m t \<Longrightarrow> \<not> key_taken primary_advisor_key m t
   \<Longrightarrow> members_ok (tbl_insert m t)"
  by (simp add: members_ok_def tbl.wf_add unique_on_insert)

lemma members_ok_put:
  "members_ok t \<Longrightarrow> \<not> key_taken_by_other active_member_key k m t \<Longrightarrow> \<not> key_taken_by_other primary_advisor_key k m t
   \<Longrightarrow> members_ok (tbl_put k m t)"
  by (simp add: members_ok_def tbl.wf_put unique_on_put)

lemma members_ok_update:
  assumes "members_ok t"
    and "\<And>k m. c k m \<Longrightarrow> active_member_key (g m) \<in> {None, active_member_key m}"
    and "\<And>k m. c k m \<Longrightarrow> primary_advisor_key (g m) \<in> {None, primary_advisor_key m}"
  shows "members_ok (tbl_update_where c g t)"
  using assms unfolding members_ok_def by (blast intro: unique_on_update_where wf_tbl_update_where)

text \<open>What no event and no notification touches.\<close>

definition same_members :: "'a collaboration_db_scheme \<Rightarrow> 'a collaboration_db_scheme \<Rightarrow> bool" where
  "same_members s s' \<longleftrightarrow>
     db_memberships s' = db_memberships s \<and> db_projects s' = db_projects s \<and> db_transfers s' = db_transfers s
     \<and> db_users s' = db_users s \<and> db_now s' = db_now s"

lemma same_members_ok: "same_members s s' \<Longrightarrow> collaboration_ok s \<Longrightarrow> collaboration_ok s'"
  by (simp add: same_members_def collaboration_ok_def)

lemma same_members_event [simp]: "same_members s (record_event p a t sm tg opts s)"
  by (simp add: same_members_def record_event_def)

lemma same_members_trans: "same_members s t \<Longrightarrow> same_members t u \<Longrightarrow> same_members s u"
  by (simp add: same_members_def)

lemma same_members_mail: "only_mail s s' \<Longrightarrow> same_members s s'"
  by (simp add: same_members_def only_mailD only_mail_transfers)

lemma same_members_notify:
  "notify_membership k m u subject s = (r, s') \<Longrightarrow> same_members s s'"
  unfolding notify_membership_def by (rule same_members_mail [OF only_mail_insert_notification])

lemma same_members_changed:
  "member_changed u k m act subject s = (r, s') \<Longrightarrow> same_members s s'"
  by (auto simp: member_changed_def record_membership_change_def split: prod.splits sum.splits
      intro: same_members_trans [OF same_members_event same_members_notify])

lemma collaborator_changed_success:
  "collaborator_changed u k m ev sm snap subject s = (Inr j, s') \<Longrightarrow> j = k \<and> same_members s s'"
  unfolding collaborator_changed_def governance_event_def
  by (auto split: prod.splits sum.splits intro: same_members_trans [OF same_members_event same_members_notify])

lemmas same_members_collaborator = collaborator_changed_success [THEN conjunct2]

section \<open>The operations\<close>

text \<open>A write of the membership table that keeps it in order and changes nothing else.\<close>

definition members_write :: "'a collaboration_db_scheme \<Rightarrow> 'a collaboration_db_scheme \<Rightarrow> bool" where
  "members_write s s' \<longleftrightarrow>
     (members_ok (db_memberships s) \<longrightarrow> members_ok (db_memberships s'))
     \<and> db_projects s' = db_projects s \<and> db_transfers s' = db_transfers s
     \<and> db_users s' = db_users s \<and> db_now s' = db_now s"

lemma members_write_ok: "members_write s s' \<Longrightarrow> collaboration_ok s \<Longrightarrow> collaboration_ok s'"
  by (simp add: members_write_def collaboration_ok_def)

lemma members_write_refl [simp]: "members_write s s"
  by (simp add: members_write_def)

lemma members_write_trans: "members_write s t \<Longrightarrow> members_write t u \<Longrightarrow> members_write s u"
  by (simp add: members_write_def)

lemma members_write_same: "same_members s s' \<Longrightarrow> members_write s s'"
  by (simp add: same_members_def members_write_def)

lemma members_write_insert: "insert_membership m s = (r, s') \<Longrightarrow> members_write s s'"
  by (auto simp: insert_membership_def members_write_def members_ok_insert split: if_splits)

lemma members_write_save: "save_membership k m s = (r, s') \<Longrightarrow> members_write s s'"
  by (auto simp: save_membership_def members_write_def members_ok_put split: if_splits)

lemma members_write_write: "write_membership k m s = (r, s') \<Longrightarrow> members_write s s'"
  by (auto simp: write_membership_def members_write_insert members_write_save
      split: option.splits prod.splits sum.splits)

lemma members_write_student: "add_student_row u pid user s = (Inr x, s') \<Longrightarrow> members_write s s'"
  unfolding add_student_row_def record_membership_change_def
  by (auto split: prod.splits sum.splits intro: members_write_trans [OF members_write_insert members_write_same])

lemma members_write_students: "for_each (add_student_row u pid) ids s = (Inr x, s') \<Longrightarrow> members_write s s'"
  by (induction ids arbitrary: s)
    (auto simp: bind_op_def ok_def split: prod.splits sum.splits intro: members_write_trans members_write_student)

lemma members_write_add: "add_member u p user role s = (r, s') \<Longrightarrow> members_write s s'"
  unfolding add_member_def Let_def
  by (auto split: sum.splits if_splits prod.splits
      intro: members_write_write members_write_trans [OF members_write_write members_write_same [OF same_members_changed]])

lemma members_write_add_student: "add_student_member u p user s = (Inr k, s') \<Longrightarrow> members_write s s'"
  unfolding add_student_member_def Let_def
  by (auto split: sum.splits if_splits prod.splits option.splits
      intro: members_write_trans [OF members_write_write members_write_same [OF same_members_changed]])

lemma members_write_remove: "remove_member u km p s = (r, s') \<Longrightarrow> members_write s s'"
proof -
  let ?s = "s\<lparr>db_memberships := tbl_update_where (\<lambda>j _. j = fst km)
      (\<lambda>r. r\<lparr>pm_status := ProjectMembership_REMOVED, pm_removed_at := Some (db_now s)\<rparr>) (db_memberships s)\<rparr>"
  have "members_write s ?s"
    by (auto simp: members_write_def active_member_key_def primary_advisor_key_def intro!: members_ok_update)
  then show "remove_member u km p s = (r, s') \<Longrightarrow> members_write s s'"
    unfolding remove_member_def Let_def
    by (auto split: sum.splits if_splits prod.splits
        intro: members_write_trans members_write_same [OF same_members_changed])
qed

lemma members_write_assign: "assign_collaborator u pid user role reason s = (Inr k, s') \<Longrightarrow> members_write s s'"
  unfolding assign_collaborator_def Let_def
  by (auto split: sum.splits if_splits prod.splits option.splits
      intro: members_write_trans [OF members_write_write members_write_same [OF same_members_collaborator]])

lemma change_role_success:
  assumes "change_collaborator_role u k role v reason s = (Inr j, s')"
  shows "\<exists>m s1. locked_membership s u k v ''Transfer ownership to change the primary advisor.'' = Inr m
     \<and> save_membership k (m\<lparr>pm_role := role, pm_assignment_reason := reason, pm_role_changed_at := Some (db_now s),
                pm_version := Suc (pm_version m)\<rparr>) s = (Inr (), s1)
     \<and> collaborator_role role \<and> same_members s1 s'"
  using assms unfolding change_collaborator_role_def collaborator_guard_def Let_def
  by (fastforce split: sum.splits if_splits prod.splits option.splits dest: collaborator_changed_success)

lemma remove_collaborator_success:
  assumes "remove_collaborator u k v reason s = (Inr j, s')"
  shows "\<exists>m s1. locked_membership s u k v ''The primary advisor must be transferred, not removed.'' = Inr m
     \<and> save_membership k (m\<lparr>pm_status := ProjectMembership_REMOVED, pm_removed_at := Some (db_now s),
                pm_assignment_reason := reason, pm_version := Suc (pm_version m)\<rparr>) s = (Inr (), s1)
     \<and> same_members s1 s'"
  using assms unfolding remove_collaborator_def Let_def
  by (fastforce split: sum.splits if_splits prod.splits option.splits dest: collaborator_changed_success)

lemma members_write_change: "change_collaborator_role u k role v reason s = (Inr j, s') \<Longrightarrow> members_write s s'"
  by (drule change_role_success) (blast intro: members_write_trans [OF members_write_save members_write_same])

lemma members_write_remove_collaborator: "remove_collaborator u k v reason s = (Inr j, s') \<Longrightarrow> members_write s s'"
  by (drule remove_collaborator_success) (blast intro: members_write_trans [OF members_write_save members_write_same])

section \<open>Transfer\<close>

lemma members_write_demote: "members_write s (demote_advisors pid result s)"
proof -
  have "role_after_transfer result \<noteq> ProjectMembership_ADVISOR" by (cases result) simp_all
  then show ?thesis
    by (auto simp: members_write_def demote_advisors_def active_member_key_def primary_advisor_key_def
        intro!: members_ok_update)
qed

lemma insert_transfer_Inr:
  "insert_transfer t s = (Inr k, s') \<longleftrightarrow>
   ot_previous_advisor t \<noteq> ot_new_advisor t \<and> \<not> key_taken transfer_key t (db_transfers s)
   \<and> k = tbl_next (db_transfers s) \<and> s' = s\<lparr>db_transfers := tbl_insert t (db_transfers s)\<rparr>"
  by (auto simp: insert_transfer_def)

lemma transfer_success:
  assumes "transfer_ownership u pid a s = (Inr k, s')"
  shows "existing_transfer s pid (tf_idempotency_key a) = Some k \<and> s' = s
   \<or> (\<exists>p mk s1 s2. tbl_get (db_projects s) pid = Some p \<and> transfer_guard s u pid p a = Inr ()
       \<and> write_membership (map_option fst (membership_of s pid (fst (tf_new_advisor a))))
           (promoted_membership u pid (fst (tf_new_advisor a)) (db_now s)
              (map_option snd (membership_of s pid (fst (tf_new_advisor a)))))
           (demote_advisors pid (tf_previous_advisor_result a) s) = (Inr mk, s1)
       \<and> insert_transfer (new_transfer u pid p a (db_now s))
           (save_project pid (transferred_project u (fst (tf_new_advisor a)) (tf_reason a) (db_now s) p) s1) = (Inr k, s2)
       \<and> same_members s2 s')"
proof (cases "existing_transfer s pid (tf_idempotency_key a)")
  case (Some j)
  then show ?thesis using assms by (auto simp: transfer_ownership_def split: option.splits sum.splits)
next
  case None
  have g: "same_members t t'" if "notify_membership mk m u subject (governance_event pid u ev sm tg snap t) = (r, t')"
    for mk m subject ev sm tg snap t t' r
    using that same_members_trans [OF same_members_event same_members_notify] unfolding governance_event_def by blast
  show ?thesis
    using assms None unfolding transfer_ownership_def Let_def
    by (fastforce split: option.splits sum.splits prod.splits dest: g)
qed

lemma collaboration_ok_transfer:
  assumes t: "transfer_ownership u pid a s = (Inr k, s')" and ok: "collaboration_ok s"
  shows "collaboration_ok s'"
  using transfer_success [OF t]
proof (elim disjE exE conjE)
  fix p mk s1 s2
  assume w: "write_membership (map_option fst (membership_of s pid (fst (tf_new_advisor a))))
           (promoted_membership u pid (fst (tf_new_advisor a)) (db_now s)
              (map_option snd (membership_of s pid (fst (tf_new_advisor a)))))
           (demote_advisors pid (tf_previous_advisor_result a) s) = (Inr mk, s1)"
    and i: "insert_transfer (new_transfer u pid p a (db_now s))
           (save_project pid (transferred_project u (fst (tf_new_advisor a)) (tf_reason a) (db_now s) p) s1) = (Inr k, s2)"
    and same: "same_members s2 s'"
  have "collaboration_ok s1"
    using members_write_trans [OF members_write_demote members_write_write [OF w]] ok by (rule members_write_ok)
  then have "collaboration_ok s2"
    using i by (auto simp: insert_transfer_Inr collaboration_ok_def save_project_def tbl.wf_put tbl.wf_add unique_on_insert)
  then show ?thesis by (rule same_members_ok [OF same])
qed (use ok in simp)

text \<open>Notices of membership changes ask for nothing and are never refused.\<close>

lemma notify_membership_succeeds: "\<exists>j s'. notify_membership k m u subject s = (Inr j, s')"
  by (simp add: notify_membership_def insert_notification_def membership_notification_def follow_up_key_def
      notification_requirement_outcome_valid_def key_taken_def)

lemma member_changed_succeeds: "\<exists>s'. member_changed u k m act subject s = (Inr k, s')"
proof -
  obtain j s' where "notify_membership k m u subject (record_membership_change (Some (pm_project m)) (Some u)
      (Some (''ProjectMembership'', k)) act s) = (Inr j, s')"
    using notify_membership_succeeds by blast
  then show ?thesis by (simp add: member_changed_def)
qed

section \<open>Projects\<close>

lemma collaboration_ok_projects:
  "collaboration_ok s \<Longrightarrow> tbl_wf t \<Longrightarrow> collaboration_ok (s\<lparr>db_projects := t\<rparr>)"
  by (simp add: collaboration_ok_def)

lemma collaboration_ok_event: "collaboration_ok s \<Longrightarrow> collaboration_ok (record_event p a ev sm tg opts s)"
  by (rule same_members_ok [OF same_members_event])

lemma collaboration_ok_save_project: "collaboration_ok s \<Longrightarrow> collaboration_ok (save_project k p s)"
  by (simp add: save_project_def collaboration_ok_projects collaboration_okD tbl.wf_put)

lemma collaboration_ok_save_status: "collaboration_ok s \<Longrightarrow> collaboration_ok (save_project_status k st t s)"
  by (simp add: save_project_status_def collaboration_ok_projects collaboration_okD wf_tbl_update_where)

lemma collaboration_ok_create:
  assumes c: "create_project u a ids s = (Inr k, s')" and ok: "collaboration_ok s"
  shows "collaboration_ok s'"
proof -
  let ?s1 = "s\<lparr>db_projects := tbl_insert (new_project a u (db_now s)) (db_projects s)\<rparr>"
  obtain j s2 students s3 where 1: "insert_membership (new_membership (tbl_next (db_projects s)) (u_id u) ProjectMembership_ADVISOR (db_now s)) ?s1 = (Inr j, s2)"
    and 2: "for_each (add_student_row u (tbl_next (db_projects s))) students s2 = (Inr (), s3)"
    and s': "s' = record_event (Some k) (Some u) ''project.created'' (''Created project '' @ pa_title a)
          (Some (''ResearchProject'', k)) event_defaults s3"
    using c unfolding create_project_def Let_def by (fastforce split: if_splits prod.splits sum.splits)
  have "collaboration_ok ?s1" by (simp add: ok collaboration_ok_projects collaboration_okD tbl.wf_add)
  then show ?thesis
    unfolding s' using members_write_ok [OF members_write_trans [OF members_write_insert [OF 1] members_write_students [OF 2]]]
    by (simp add: collaboration_ok_event)
qed

section \<open>The commands\<close>

datatype collaboration_command =
    CreateProject actor project_args "pk list"
  | UpdateProject actor "pk \<times> research_project" project_changes
  | ArchiveProject actor "pk \<times> research_project"
  | ReopenProject actor "pk \<times> research_project"
  | AddMember actor "pk \<times> research_project" pk membership_role
  | AddStudentMember actor "pk \<times> research_project" pk
  | RemoveMember actor "pk \<times> project_membership" research_project
  | AssignCollaborator actor pk "pk \<times> user" membership_role string
  | ChangeCollaboratorRole actor pk membership_role int string
  | RemoveCollaborator actor pk int string
  | TransferOwnership actor pk transfer_args
  | PlaceGovernanceHold pk governance_hold_reason

fun collaboration_step :: "collaboration_command \<Rightarrow> ('a collaboration_db_scheme, unit) op" where
  "collaboration_step (CreateProject u a ids) = void (create_project u a ids)"
| "collaboration_step (UpdateProject u p c) = update_project u p c"
| "collaboration_step (ArchiveProject u p) = archive_project u p"
| "collaboration_step (ReopenProject u p) = reopen_project u p"
| "collaboration_step (AddMember u p user role) = void (add_member u p user role)"
| "collaboration_step (AddStudentMember u p user) = void (add_student_member u p user)"
| "collaboration_step (RemoveMember u m p) = void (remove_member u m p)"
| "collaboration_step (AssignCollaborator u p user role reason) = void (assign_collaborator u p user role reason)"
| "collaboration_step (ChangeCollaboratorRole u k role v reason) = void (change_collaborator_role u k role v reason)"
| "collaboration_step (RemoveCollaborator u k v reason) = void (remove_collaborator u k v reason)"
| "collaboration_step (TransferOwnership u p a) = void (transfer_ownership u p a)"
| "collaboration_step (PlaceGovernanceHold p reason) = place_governance_hold p reason"

lemma collaboration_ok_simple:
  assumes "collaboration_ok s"
  shows "collaboration_ok (snd (update_project u p c s))" "collaboration_ok (snd (archive_project u p s))"
    "collaboration_ok (snd (reopen_project u p s))" "collaboration_ok (snd (place_governance_hold pid reason s))"
  using assms
  by (auto simp: update_project_def archive_project_def reopen_project_def place_governance_hold_def atomic_def
      project_event_def Let_def collaboration_ok_event collaboration_ok_save_project collaboration_ok_save_status
      split: prod.splits option.splits)

lemma collaboration_ok_atomic:
  assumes "collaboration_ok s"
  shows "collaboration_ok (snd (create_project u a ids s))" "collaboration_ok (snd (add_student_member u p user s))"
    "collaboration_ok (snd (assign_collaborator u pid t role reason s))"
    "collaboration_ok (snd (change_collaborator_role u k role v reason s))"
    "collaboration_ok (snd (remove_collaborator u k v reason s))" "collaboration_ok (snd (transfer_ownership u pid ta s))"
proof -
  have *: "collaboration_ok (snd (m s))"
    if "\<And>x s'. m s = (Inr x, s') \<Longrightarrow> collaboration_ok s'" "m = atomic m0" for m :: "('a collaboration_db_scheme, pk) op" and m0
    using that assms by (cases "m0 s") (auto simp: atomic_def split: sum.splits)
  note w = members_write_ok [OF _ assms]
  show "collaboration_ok (snd (create_project u a ids s))"
    by (rule * [OF collaboration_ok_create [OF _ assms] create_project_def])
  show "collaboration_ok (snd (add_student_member u p user s))"
    by (rule * [OF w [OF members_write_add_student] add_student_member_def])
  show "collaboration_ok (snd (assign_collaborator u pid t role reason s))"
    by (rule * [OF w [OF members_write_assign] assign_collaborator_def])
  show "collaboration_ok (snd (change_collaborator_role u k role v reason s))"
    by (rule * [OF w [OF members_write_change] change_collaborator_role_def])
  show "collaboration_ok (snd (remove_collaborator u k v reason s))"
    by (rule * [OF w [OF members_write_remove_collaborator] remove_collaborator_def])
  show "collaboration_ok (snd (transfer_ownership u pid ta s))"
    by (rule * [OF collaboration_ok_transfer [OF _ assms] transfer_ownership_def])
qed

lemma collaboration_ok_step:
  assumes "collaboration_ok s" shows "collaboration_ok (snd (collaboration_step c s))"
proof -
  have "collaboration_ok (snd (add_member u p user role s))" "collaboration_ok (snd (remove_member u m pr s))" for u p user role m pr
    using members_write_ok [OF members_write_add assms] members_write_ok [OF members_write_remove assms]
    by (metis prod.collapse)+
  then show ?thesis
    by (cases c) (simp_all add: snd_void collaboration_ok_simple [OF assms] collaboration_ok_atomic [OF assms])
qed

interpretation collaboration: command_system collaboration_step collaboration_ok
  by unfold_locales (rule collaboration_ok_step)

section \<open>After a transfer\<close>

lemma write_membership_get:
  assumes "tbl_wf (db_memberships s)" "write_membership k m s = (Inr j, s')"
  shows "tbl_get (db_memberships s') j = Some m"
  using assms by (auto simp: write_membership_def insert_membership_def save_membership_def tbl.get_put tbl.get_add
      split: option.splits if_splits)

lemma membership_of_Some:
  "membership_of s pid user = Some (k, m) \<Longrightarrow> pm_project m = pid \<and> pm_user m = user"
  by (auto simp: membership_of_def dest: tbl_firstD)

lemma promoted_is_primary:
  "primary_advisor_key (promoted_membership u pid user now (map_option snd (membership_of s pid user))) = Some pid
   \<and> pm_user (promoted_membership u pid user now (map_option snd (membership_of s pid user))) = user"
  by (cases "membership_of s pid user")
    (auto simp: promoted_membership_def primary_advisor_key_def new_membership_def dest: membership_of_Some)

lemma transfer_effect:
  assumes t: "transfer_ownership u pid a s = (Inr k, s')" and ok: "collaboration_ok s"
    and fresh: "existing_transfer s pid (tf_idempotency_key a) = None"
  shows "\<exists>p p'. tbl_get (db_projects s) pid = Some p \<and> int (rp_governance_version p) = tf_expected_version a
     \<and> tbl_get (db_projects s') pid = Some p' \<and> rp_advisor p' = fst (tf_new_advisor a)
     \<and> rp_governance_state p' = ResearchProject_NORMAL \<and> rp_governance_version p' = Suc (rp_governance_version p)"
    and "\<exists>j m. tbl_get (db_memberships s') j = Some m \<and> primary_advisor_key m = Some pid \<and> pm_user m = fst (tf_new_advisor a)"
proof -
  let ?user = "fst (tf_new_advisor a)"
  obtain p mk s1 s2 where p: "tbl_get (db_projects s) pid = Some p" and g: "transfer_guard s u pid p a = Inr ()"
    and w: "write_membership (map_option fst (membership_of s pid ?user))
           (promoted_membership u pid ?user (db_now s) (map_option snd (membership_of s pid ?user)))
           (demote_advisors pid (tf_previous_advisor_result a) s) = (Inr mk, s1)"
    and i: "insert_transfer (new_transfer u pid p a (db_now s))
           (save_project pid (transferred_project u ?user (tf_reason a) (db_now s) p) s1) = (Inr k, s2)"
    and same: "same_members s2 s'"
    using transfer_success [OF t] fresh by auto
  have s1: "db_projects s1 = db_projects s"
    using members_write_trans [OF members_write_demote members_write_write [OF w]] by (simp add: members_write_def)
  have "tbl_get (db_projects s') pid = Some ((transferred_project u ?user (tf_reason a) (db_now s) p)\<lparr>rp_updated_at := db_now s1\<rparr>)"
    using i same by (auto simp: insert_transfer_Inr same_members_def save_project_def s1 tbl.get_put collaboration_okD [OF ok])
  moreover have "int (rp_governance_version p) = tf_expected_version a"
    using g by (auto simp: transfer_guard_def Let_def split: if_splits)
  ultimately show "\<exists>p p'. tbl_get (db_projects s) pid = Some p \<and> int (rp_governance_version p) = tf_expected_version a
     \<and> tbl_get (db_projects s') pid = Some p' \<and> rp_advisor p' = ?user
     \<and> rp_governance_state p' = ResearchProject_NORMAL \<and> rp_governance_version p' = Suc (rp_governance_version p)"
    using p by (simp add: transferred_project_def)
  have "tbl_wf (db_memberships (demote_advisors pid (tf_previous_advisor_result a) s))"
    using collaboration_okD(3) [OF ok] by (simp add: demote_advisors_def wf_tbl_update_where)
  from write_membership_get [OF this w] promoted_is_primary
  have "\<exists>m. tbl_get (db_memberships s1) mk = Some m \<and> primary_advisor_key m = Some pid \<and> pm_user m = ?user" by blast
  moreover have "db_memberships s' = db_memberships s1"
    using i same by (auto simp: insert_transfer_Inr same_members_def save_project_def)
  ultimately show "\<exists>j m. tbl_get (db_memberships s') j = Some m \<and> primary_advisor_key m = Some pid \<and> pm_user m = ?user"
    by auto
qed

lemma only_primary_advisor:
  assumes ok: "collaboration_ok s" and g: "tbl_get (db_memberships s) j = Some m" "primary_advisor_key m = Some pid"
    and g': "tbl_get (db_memberships s) j' = Some m'" "primary_advisor_key m' = Some pid"
  shows "j' = j"
  using collaboration_okD(1) [OF ok] unique_onD [OF _ tbl_getD [OF g'(1)] tbl_getD [OF g(1)] g'(2) g(2)]
  by (simp add: members_ok_def)

text \<open>The version in the request is checked before the key: a transfer that took place cannot be repeated.\<close>

lemma transfer_again_refused:
  assumes t: "transfer_ownership u pid a s = (Inr k, s')" and ok: "collaboration_ok s"
    and fresh: "existing_transfer s pid (tf_idempotency_key a) = None"
  shows "\<exists>e. transfer_ownership u pid a s' = (Inl e, s')"
proof -
  obtain p' where p': "tbl_get (db_projects s') pid = Some p'" and v: "int (rp_governance_version p') \<noteq> tf_expected_version a"
    using transfer_effect(1) [OF t ok fresh] by fastforce
  have "isl (transfer_guard s' u pid p' a)" using v by (simp add: transfer_guard_def Let_def)
  then obtain e where "transfer_guard s' u pid p' a = Inl e" by (auto simp: isl_def)
  then show ?thesis using p' by (simp add: transfer_ownership_def atomic_def)
qed

section \<open>Removing the owner\<close>

definition has_primary_advisor :: "'a project_db_scheme \<Rightarrow> pk \<Rightarrow> bool" where
  "has_primary_advisor s pid = tbl_exists (\<lambda>_ m. primary_advisor_key m = Some pid) (db_memberships s)"

lemma manager_removes_owner:
  assumes ok: "collaboration_ok s" and m: "tbl_get (db_memberships s) k = Some m" "primary_advisor_key m = Some pid"
    and other: "pm_user m \<noteq> u_id u" and may: "canManageMembers (project_capabilities s u pid p)"
  shows "\<exists>s'. remove_member u (k, m) p s = (Inr k, s') \<and> \<not> has_primary_advisor s' pid \<and> db_projects s' = db_projects s"
proof -
  have pid: "pm_project m = pid" and act: "pm_status m = ProjectMembership_ACTIVE"
    using m(2) by (auto simp: primary_advisor_key_def split: if_splits)
  have mm: "manage_members s u pid p = Inr ()"
    using may by (auto simp: manage_members_def ensure_project_writable_def project_capabilities_def capabilities_of_def Let_def)
  let ?t = "tbl_update_where (\<lambda>j _. j = k) (\<lambda>r. r\<lparr>pm_status := ProjectMembership_REMOVED, pm_removed_at := Some (db_now s)\<rparr>)
      (db_memberships s)"
  obtain s' where s': "member_changed u k m ''removed'' ''Project membership removed'' (s\<lparr>db_memberships := ?t\<rparr>) = (Inr k, s')"
    using member_changed_succeeds by blast
  then have same: "same_members (s\<lparr>db_memberships := ?t\<rparr>) s'" by (rule same_members_changed)
  have "primary_advisor_key x \<noteq> Some pid" if x: "(j, x) \<in> set (tbl_rows ?t)" for j x
  proof
    assume px: "primary_advisor_key x = Some pid"
    obtain y where y: "(j, y) \<in> set (tbl_rows (db_memberships s))"
      "x = (if j = k then y\<lparr>pm_status := ProjectMembership_REMOVED, pm_removed_at := Some (db_now s)\<rparr> else y)"
      using x by auto
    then have "j \<noteq> k" using px by (auto simp: primary_advisor_key_def)
    then have "primary_advisor_key y = Some pid" using y(2) px by simp
    then have "j = k"
      using unique_onD [of primary_advisor_key, OF _ y(1) tbl_getD [OF m(1)]] m(2) collaboration_okD(1) [OF ok]
      by (simp add: members_ok_def)
    with \<open>j \<noteq> k\<close> show False ..
  qed
  then have "\<not> has_primary_advisor s' pid"
    using same by (fastforce simp: has_primary_advisor_def tbl_exists_iff same_members_def)
  then show ?thesis
    using s' same other act by (auto simp: remove_member_def Let_def pid mm same_members_def)
qed

section \<open>Versions\<close>

definition membership_version :: "pk \<Rightarrow> 'a project_db_scheme \<Rightarrow> nat option" where
  "membership_version k s = map_option pm_version (tbl_get (db_memberships s) k)"

lemma locked_membership_Inr:
  "locked_membership s u k v msg = Inr m \<Longrightarrow>
   tbl_get (db_memberships s) k = Some m \<and> int (pm_version m) = v \<and> pm_role m \<noteq> ProjectMembership_ADVISOR"
  by (auto simp: locked_membership_def split: option.splits sum.splits if_splits)

lemma change_role_stale:
  "membership_version k s \<noteq> Some v \<Longrightarrow> \<exists>e. change_collaborator_role u k role (int v) reason s = (Inl e, s)"
  by (cases "locked_membership s u k (int v) ''Transfer ownership to change the primary advisor.''")
    (auto simp: change_collaborator_role_def atomic_def membership_version_def dest: locked_membership_Inr)

lemma change_role_moves:
  assumes "collaboration_ok s" "change_collaborator_role u k role (int v) reason s = (Inr j, s')"
  shows "\<exists>v'. membership_version k s' = Some v' \<and> v < v'"
  using change_role_success [OF assms(2)] collaboration_okD(3) [OF assms(1)]
  by (auto simp: membership_version_def same_members_def save_membership_def tbl.get_put split: if_splits
      dest!: locked_membership_Inr)

interpretation collaborator_role: optimistic_update "membership_version k"
  "\<lambda>v. change_collaborator_role u k role (int v) reason" collaboration_ok
  by unfold_locales (simp_all add: change_role_stale change_role_moves)

end
