(* ===== verification/CollaborationSamples.thy ===== *)
theory CollaborationSamples
  imports ExecutionSamples CollaborationRules
begin

text \<open>The sample project with a co-advisor, two teachers, and no transfer so far.\<close>

definition teacher :: "string \<Rightarrow> user" where
  "teacher name = (sample_user name User_ADVISOR)\<lparr>u_active_role := Requested_TEACHER\<rparr>"

definition sample_collaboration :: collaboration_db where
  "sample_collaboration = notification_db.extend
     (sample_mail\<lparr>db_users := \<lparr>tbl_rows = [(1, teacher ''ada''), (2, sample_user ''sam'' User_STUDENT),
          (3, teacher ''rob''), (4, sample_user ''ann'' User_ADMIN)], tbl_next = 5\<rparr>,
        db_memberships := \<lparr>tbl_rows = [(1, sample_member 1 ProjectMembership_ADVISOR),
          (2, sample_member 2 ProjectMembership_STUDENT), (3, sample_member 3 ProjectMembership_CO_ADVISOR)], tbl_next = 4\<rparr>\<rparr>)
     (collaboration_db.fields tbl_empty)"

lemma sample_collaboration_ok: "collaboration_ok sample_collaboration"
  by (auto simp: collaboration_ok_def members_ok_def sample_collaboration_def notification_db.defs collaboration_db.defs
      sample_mail_def sample_projects_def tbl_wf_def tbl_empty_def unique_on_def sample_member_def active_member_key_def
      primary_advisor_key_def split: if_splits)

definition to_rob :: transfer_args where
  "to_rob = \<lparr>tf_new_advisor = (3, teacher ''rob''), tf_expected_version = 1,
     tf_previous_advisor_result = PreviousAdvisor_CO_ADVISOR, tf_reason = ''sabbatical'', tf_idempotency_key = ''move''\<rparr>"

definition collaboration_run :: "collaboration_command list" where
  "collaboration_run =
     [AssignCollaborator ada 1 (3, teacher ''rob'') ProjectMembership_OBSERVER [],
      ChangeCollaboratorRole ada 3 ProjectMembership_REVIEWER 1 [],
      TransferOwnership ada 1 to_rob, RemoveCollaborator rob 1 1 []]"

end
