(* ===== verification/AccountModel.thy ===== *)
theory AccountModel
  imports NotificationOutcomes
begin

text \<open>
  The records of account security (\<open>apps/accounts/models.py\<close>) and the helpers the account services share.

  Of the account row the other applications read, \<open>Accounts\<close> has the columns; the two columns only the services
  here touch, the encoded password and \<open>is_active\<close>, are \<open>credentials\<close> under the same key. Hashing, password
  encoding and the reading of refresh tokens are library code: \<open>account_crypto\<close> is a parameter, kept in the
  database record like the zones. Random tokens and codes and the answer of the mail server are arguments of the
  operations that draw them. Mail that leaves is kept in \<open>db_outbox\<close>.
\<close>

section \<open>Records\<close>

record credentials =
  cr_password :: string
  cr_is_active :: bool

datatype degree_type = StudentProfile_MASTERS | StudentProfile_DOCTORAL

record student_profile =
  sp_user :: pk
  sp_degree_type :: degree_type
  sp_created_at :: instant
  sp_updated_at :: instant

record teacher_profile =
  tp_user :: pk
  tp_approved_at :: instant
  tp_approved_by :: "pk option"

datatype code_purpose = Code_REGISTRATION | Code_EMAIL_CHANGE

datatype code_status = Code_PENDING | Code_CONSUMED | Code_EXPIRED | Code_REVOKED

record verification_code =
  vc_email :: string
  vc_purpose :: code_purpose
  vc_code_hash :: string
  vc_plain_code :: string
  vc_status :: code_status
  vc_expires_at :: instant
  vc_consumed_at :: "instant option"
  vc_created_at :: instant

definition code_is_usable :: "verification_code \<Rightarrow> instant \<Rightarrow> bool" where
  "code_is_usable c now \<longleftrightarrow> vc_status c = Code_PENDING \<and> vc_expires_at c \<ge> now"

datatype activation_source = Activation_ADMIN_APPROVAL | Activation_INVITATION

datatype activation_status =
    Activation_PENDING | Activation_APPROVED | Activation_REJECTED | Activation_EXPIRED | Activation_REVOKED

fun activation_status_value :: "activation_status \<Rightarrow> string" where
  "activation_status_value Activation_PENDING = ''pending''"
| "activation_status_value Activation_APPROVED = ''approved''"
| "activation_status_value Activation_REJECTED = ''rejected''"
| "activation_status_value Activation_EXPIRED = ''expired''"
| "activation_status_value Activation_REVOKED = ''revoked''"

record role_activation =
  ra_user :: pk
  ra_requested_role :: requested_role
  ra_activation_source :: activation_source
  ra_status :: activation_status
  ra_reviewer :: "pk option"
  ra_invitation_token_hash :: string
  ra_expires_at :: "instant option"
  ra_reviewed_at :: "instant option"
  ra_review_reason :: string
  ra_created_at :: instant

datatype recovery_status = Recovery_PENDING | Recovery_CONSUMED | Recovery_SUPERSEDED | Recovery_EXPIRED | Recovery_REVOKED

fun recovery_status_value :: "recovery_status \<Rightarrow> string" where
  "recovery_status_value Recovery_PENDING = ''pending''"
| "recovery_status_value Recovery_CONSUMED = ''consumed''"
| "recovery_status_value Recovery_SUPERSEDED = ''superseded''"
| "recovery_status_value Recovery_EXPIRED = ''expired''"
| "recovery_status_value Recovery_REVOKED = ''revoked''"

record recovery_request =
  rq_user :: pk
  rq_token_hash :: string
  rq_status :: recovery_status
  rq_requested_email_snapshot :: string
  rq_requested_ip_hash :: string
  rq_requested_user_agent :: string
  rq_expires_at :: instant
  rq_consumed_at :: "instant option"
  rq_superseded_at :: "instant option"
  rq_revoked_at :: "instant option"
  rq_delivery_notification :: "pk option"
  rq_created_at :: instant
  rq_updated_at :: instant

definition recovery_is_usable :: "recovery_request \<Rightarrow> instant \<Rightarrow> bool" where
  "recovery_is_usable r now \<longleftrightarrow> rq_status r = Recovery_PENDING \<and> rq_expires_at r \<ge> now"

definition recovery_token_key :: "recovery_request \<Rightarrow> string option" where
  "recovery_token_key r = Some (rq_token_hash r)"

definition pending_recovery_key :: "recovery_request \<Rightarrow> pk option" where
  "pending_recovery_key r = (if rq_status r = Recovery_PENDING then Some (rq_user r) else None)"

datatype email_change_status =
    EmailChange_PENDING | EmailChange_VERIFIED | EmailChange_CANCELLED | EmailChange_SUPERSEDED | EmailChange_EXPIRED

fun email_change_status_value :: "email_change_status \<Rightarrow> string" where
  "email_change_status_value EmailChange_PENDING = ''pending''"
| "email_change_status_value EmailChange_VERIFIED = ''verified''"
| "email_change_status_value EmailChange_CANCELLED = ''cancelled''"
| "email_change_status_value EmailChange_SUPERSEDED = ''superseded''"
| "email_change_status_value EmailChange_EXPIRED = ''expired''"

record email_change =
  ec_user :: pk
  ec_previous_email :: string
  ec_new_email :: string
  ec_verification_hash :: string
  ec_status :: email_change_status
  ec_expires_at :: instant
  ec_verified_at :: "instant option"
  ec_cancelled_at :: "instant option"
  ec_delivery_notification :: "pk option"
  ec_security_notification :: "pk option"
  ec_created_at :: instant
  ec_updated_at :: instant

definition email_change_is_usable :: "email_change \<Rightarrow> instant \<Rightarrow> bool" where
  "email_change_is_usable c now \<longleftrightarrow> ec_status c = EmailChange_PENDING \<and> ec_expires_at c \<ge> now"

definition verification_hash_key :: "email_change \<Rightarrow> string option" where
  "verification_hash_key c = Some (ec_verification_hash c)"

definition pending_change_user_key :: "email_change \<Rightarrow> pk option" where
  "pending_change_user_key c = (if ec_status c = EmailChange_PENDING then Some (ec_user c) else None)"

definition pending_change_address_key :: "email_change \<Rightarrow> string option" where
  "pending_change_address_key c = (if ec_status c = EmailChange_PENDING then Some (ec_new_email c) else None)"

datatype session_status = Session_ACTIVE | Session_REVOKED | Session_EXPIRED

record account_session =
  ss_user :: pk
  ss_django_session_key_hash :: "string option"
  ss_status :: session_status
  ss_device_label :: string
  ss_user_agent :: string
  ss_initial_ip_hash :: string
  ss_last_ip_hash :: string
  ss_created_at :: instant
  ss_last_seen_at :: instant
  ss_expires_at :: instant
  ss_revoked_at :: "instant option"
  ss_revoked_by :: "pk option"
  ss_revoke_reason :: string

definition is_active_session :: "account_session \<Rightarrow> instant \<Rightarrow> bool" where
  "is_active_session x now \<longleftrightarrow> ss_status x = Session_ACTIVE \<and> ss_expires_at x > now"

text \<open>A row of the token library's table of refresh tokens, and a server-side session of the framework.\<close>

record outstanding_token =
  tk_user :: pk
  tk_token :: string

record django_session =
  dj_session_key :: string
  dj_expire_date :: instant

record mail =
  ml_subject :: string
  ml_body :: string
  ml_recipient :: string

record account_settings =
  SECRET_KEY :: string
  EMAIL_VERIFICATION_CODE_TTL_MINUTES :: int
  ROLE_ACTIVATION_TTL_DAYS :: int
  ACCOUNT_RECOVERY_TOKEN_TTL_SECONDS :: int
  EMAIL_CHANGE_TOKEN_TTL_SECONDS :: int
  ACCOUNT_SESSION_ACTIVITY_UPDATE_SECONDS :: int
  REFRESH_TOKEN_LIFETIME :: int
  EMAIL_SUBJECT_PREFIX :: string
  PUBLIC_BASE_URL :: string
  APPROVED_FRONTEND_ORIGIN :: string

text \<open>
  \<open>hmac_hex key text\<close> and \<open>sha256_hex text\<close> are the digests in hexadecimal; \<open>encode_password\<close> and
  \<open>password_matches\<close> are \<open>set_password\<close> and \<open>check_password\<close>; \<open>token_sid now text\<close> is the \<open>sid\<close> claim of a refresh
  token (empty where it has none), or \<open>None\<close> where the library refuses the text at that time.
\<close>

record account_crypto =
  hmac_hex :: "string \<Rightarrow> string \<Rightarrow> string"
  sha256_hex :: "string \<Rightarrow> string"
  encode_password :: "string \<Rightarrow> string"
  password_matches :: "string \<Rightarrow> string \<Rightarrow> bool"
  token_sid :: "instant \<Rightarrow> string \<Rightarrow> string option"

record security_db = notification_db +
  db_credentials :: "pk \<rightharpoonup> credentials"
  db_student_profiles :: "student_profile table"
  db_teacher_profiles :: "teacher_profile table"
  db_verification_codes :: "verification_code table"
  db_role_activations :: "role_activation table"
  db_recovery_requests :: "recovery_request table"
  db_email_changes :: "email_change table"
  db_sessions :: "account_session table"
  db_outstanding_tokens :: "outstanding_token table"
  db_blacklisted_tokens :: "pk list"
  db_django_sessions :: "django_session table"
  db_outbox :: "mail list"
  db_account_settings :: account_settings
  db_crypto :: account_crypto

lemma record_event_security [simp]:
  "db_users (record_event p a t sm tg opts s) = db_users s"
  "db_now (record_event p a t sm tg opts s) = db_now s"
  "security_db.more (record_event p a t sm tg opts s) = security_db.more s"
  "db_credentials (record_event p a t sm tg opts s) = db_credentials s"
  "db_role_activations (record_event p a t sm tg opts s) = db_role_activations s"
  "db_recovery_requests (record_event p a t sm tg opts s) = db_recovery_requests s"
  "db_email_changes (record_event p a t sm tg opts s) = db_email_changes s"
  "db_sessions (record_event p a t sm tg opts s) = db_sessions s"
  "db_verification_codes (record_event p a t sm tg opts s) = db_verification_codes s"
  by (simp_all add: record_event_def)

lemma notification_more_security:
  assumes "notification_db.more s' = notification_db.more s"
  shows "db_credentials s' = db_credentials s" "db_role_activations s' = db_role_activations s"
    "db_recovery_requests s' = db_recovery_requests s" "db_email_changes s' = db_email_changes s"
    "db_sessions s' = db_sessions s" "db_verification_codes s' = db_verification_codes s"
    "db_crypto s' = db_crypto s" "db_account_settings s' = db_account_settings s"
  using assms by (cases s, cases s', simp)+

section \<open>Helpers of the services\<close>

text \<open>The account as it acts: the row with its key, authenticated.\<close>

definition actor_of_user :: "pk \<Rightarrow> user \<Rightarrow> actor" where
  "actor_of_user k u = user.extend u (actor.fields k True)"

definition row_user :: "'a user_scheme \<Rightarrow> user" where
  "row_user u = user.truncate u"

definition is_lower :: "char \<Rightarrow> bool" where
  "is_lower c \<longleftrightarrow> CHR ''a'' \<le> c \<and> c \<le> CHR ''z''"

definition is_upper :: "char \<Rightarrow> bool" where
  "is_upper c \<longleftrightarrow> CHR ''A'' \<le> c \<and> c \<le> CHR ''Z''"

definition is_decimal :: "char \<Rightarrow> bool" where
  "is_decimal c \<longleftrightarrow> CHR ''0'' \<le> c \<and> c \<le> CHR ''9''"

definition password_errors :: "string \<Rightarrow> string list" where
  "password_errors p =
     (if length p < 8 then [''at least 8 characters''] else [])
     @ (if \<not> list_ex is_lower p then [''one lowercase letter''] else [])
     @ (if \<not> list_ex is_upper p then [''one uppercase letter''] else [])
     @ (if \<not> list_ex is_decimal p then [''one digit''] else [])
     @ (if \<not> list_ex (\<lambda>c. \<not> (is_lower c \<or> is_upper c \<or> is_decimal c)) p then [''one non-alphanumeric character''] else [])"

definition validate_collaboration_password :: "string \<Rightarrow> error + unit" where
  "validate_collaboration_password p =
     (if password_errors p \<noteq> []
      then Inl (ValidationError (''Password must contain '' @ py_join '', '' (password_errors p) @ ''.'')) else Inr ())"

definition role_to_global_role :: "requested_role \<Rightarrow> global_role" where
  "role_to_global_role r =
     (if r = Requested_TEACHER then User_ADVISOR
      else if r = Requested_ADMINISTRATOR then User_ADMIN else User_STUDENT)"

definition hash_code :: "'a security_db_scheme \<Rightarrow> string \<Rightarrow> string" where
  "hash_code s code = sha256_hex (db_crypto s) code"

definition hash_secret :: "'a security_db_scheme \<Rightarrow> string \<Rightarrow> string \<Rightarrow> string" where
  "hash_secret s raw purpose = hmac_hex (db_crypto s) (SECRET_KEY (db_account_settings s)) (purpose @ '':'' @ raw)"

definition keyed_hash :: "'a security_db_scheme \<Rightarrow> string \<Rightarrow> string" where
  "keyed_hash s v = sha256_hex (db_crypto s) (SECRET_KEY (db_account_settings s) @ '':'' @ v)"

text \<open>\<open>User.objects.normalize_email(...).lower()\<close>: an address with an at-sign is stripped.\<close>

definition normalized_email :: "string \<Rightarrow> string" where
  "normalized_email e = py_lower (if CHR ''@'' \<in> set e then py_strip e else e)"

definition check_password :: "'a security_db_scheme \<Rightarrow> pk \<Rightarrow> string \<Rightarrow> bool" where
  "check_password s k p =
     (case db_credentials s k of None \<Rightarrow> False | Some c \<Rightarrow> password_matches (db_crypto s) p (cr_password c))"

text \<open>\<open>set_password\<close> and \<open>save(update_fields=["password"])\<close>.\<close>

definition save_password :: "pk \<Rightarrow> string \<Rightarrow> 'a security_db_scheme \<Rightarrow> 'a security_db_scheme" where
  "save_password k p s =
     s\<lparr>db_credentials := (db_credentials s)(k := map_option (\<lambda>c. c\<lparr>cr_password := encode_password (db_crypto s) p\<rparr>)
         (db_credentials s k))\<rparr>"

definition set_is_active :: "pk \<Rightarrow> bool \<Rightarrow> 'a security_db_scheme \<Rightarrow> 'a security_db_scheme" where
  "set_is_active k b s =
     s\<lparr>db_credentials := (db_credentials s)(k := map_option (\<lambda>c. c\<lparr>cr_is_active := b\<rparr>) (db_credentials s k))\<rparr>"

definition update_user :: "pk \<Rightarrow> (user \<Rightarrow> user) \<Rightarrow> 'a core_db_scheme \<Rightarrow> 'a core_db_scheme" where
  "update_user k f s = s\<lparr>db_users := tbl_update_where (\<lambda>j _. j = k) f (db_users s)\<rparr>"

text \<open>\<open>order_by("-created_at").first()\<close>: the youngest row, of equally young ones the last inserted.\<close>

fun youngest :: "('a \<Rightarrow> instant) \<Rightarrow> (pk \<times> 'a) list \<Rightarrow> (pk \<times> 'a) option" where
  "youngest f [] = None"
| "youngest f ((k, r) # rs) =
     (case youngest f rs of None \<Rightarrow> Some (k, r) | Some (k', r') \<Rightarrow> if f r' \<ge> f r then Some (k', r') else Some (k, r))"

lemma youngest_in: "youngest f rs = Some (k, r) \<Longrightarrow> (k, r) \<in> set rs"
  by (induction rs arbitrary: k r) (auto split: option.splits if_splits)

lemma youngest_None: "youngest f rs = None \<longleftrightarrow> rs = []"
  by (cases rs) (auto split: option.splits)

lemma youngest_is_max: "youngest f rs = Some (k, r) \<Longrightarrow> (k', r') \<in> set rs \<Longrightarrow> f r' \<le> f r"
proof (induction rs arbitrary: k r)
  case (Cons a rs)
  obtain j x where a: "a = (j, x)" by fastforce
  show ?case
  proof (cases "youngest f rs")
    case None
    then have "rs = []" by (simp add: youngest_None)
    then show ?thesis using Cons.prems a by simp
  next
    case (Some m)
    obtain i y where m: "m = (i, y)" by fastforce
    have "(k', r') \<in> set rs \<Longrightarrow> f r' \<le> f y" using Cons.IH Some m by blast
    then show ?thesis using Cons.prems a Some m by (auto split: if_splits)
  qed
qed simp

text \<open>What the mail server answers: how many messages it took, or the exception (class name and text).\<close>

datatype mail_answer = Delivered nat | SendError string string

definition send_mail :: "string \<Rightarrow> string \<Rightarrow> string \<Rightarrow> 'a security_db_scheme \<Rightarrow> 'a security_db_scheme" where
  "send_mail subject body recipient s =
     s\<lparr>db_outbox := db_outbox s @ [\<lparr>ml_subject = subject, ml_body = body, ml_recipient = recipient\<rparr>]\<rparr>"

text \<open>What follows the attempt to send: the notification is sent, or failed with the error.\<close>

definition after_send ::
  "pk \<times> notification \<Rightarrow> mail_answer \<Rightarrow> string \<Rightarrow> 'a security_db_scheme \<Rightarrow> 'a security_db_scheme" where
  "after_send kn answer refused s =
     (case answer of
        Delivered n \<Rightarrow>
          if n = 1 then snd (mark_notification_status kn Notification_SENT [] s)
          else snd (mark_notification_attempt_failed kn (Raised ''RuntimeError'' refused) True s)
      | SendError c t \<Rightarrow> snd (mark_notification_attempt_failed kn (Raised c t) True s))"

end
