(* ===== verification/AccountSessions.thy ===== *)
theory AccountSessions
  imports AccountModel
begin

text \<open>
  Browser sessions of an account (\<open>apps/accounts/session_services.py\<close>): creation, use, revocation. The parts of the
  HTTP request the code reads and writes are a record; the key the framework draws for a new browser session is
  an argument.
\<close>

record http_request =
  hr_session_key :: "string option"
  hr_account_session_id :: "string option"
  hr_token_sid :: "string option"
  hr_user_agent :: string
  hr_forwarded_for :: string
  hr_remote_addr :: string

definition before_comma :: "string \<Rightarrow> string" where
  "before_comma t = takeWhile (\<lambda>c. c \<noteq> CHR '','') t"

definition request_ip :: "http_request \<Rightarrow> string" where
  "request_ip r =
     (let forwarded = py_strip (before_comma (hr_forwarded_for r))
      in take 100 (if forwarded = [] then hr_remote_addr r else forwarded))"

definition device_label :: "string \<Rightarrow> string" where
  "device_label user_agent =
     (let agent = py_lower user_agent;
          has = (\<lambda>part. py_contains agent part);
          browser = (if has ''edg/'' then ''Edge'' else if has ''firefox/'' then ''Firefox''
                     else if has ''chrome/'' then ''Chrome'' else if has ''safari/'' then ''Safari'' else ''Browser'');
          platform = (if has ''windows'' then ''Windows'' else if has ''macintosh'' then ''macOS''
                      else if has ''android'' then ''Android'' else if has ''iphone'' \<or> has ''ipad'' then ''iOS''
                      else if has ''linux'' then ''Linux'' else ''device'')
      in browser @ '' on '' @ platform)"

definition default_expiry :: "'a security_db_scheme \<Rightarrow> instant" where
  "default_expiry s = db_now s + REFRESH_TOKEN_LIFETIME (db_account_settings s) * usec_per_second"

definition session_hash_key :: "account_session \<Rightarrow> string option" where
  "session_hash_key x = ss_django_session_key_hash x"

definition new_account_session :: "'a security_db_scheme \<Rightarrow> pk \<Rightarrow> http_request \<Rightarrow> string \<Rightarrow> account_session" where
  "new_account_session s user r key =
     (let agent = take 255 (hr_user_agent r); ip = request_ip r;
          ip_hash = (if ip = [] then [] else keyed_hash s ip)
      in \<lparr>ss_user = user, ss_django_session_key_hash = Some (keyed_hash s key), ss_status = Session_ACTIVE,
          ss_device_label = device_label agent, ss_user_agent = agent, ss_initial_ip_hash = ip_hash,
          ss_last_ip_hash = ip_hash, ss_created_at = db_now s, ss_last_seen_at = db_now s,
          ss_expires_at = default_expiry s, ss_revoked_at = None, ss_revoked_by = None, ss_revoke_reason = []\<rparr>)"

definition insert_session :: "account_session \<Rightarrow> ('a security_db_scheme, pk) op" where
  "insert_session x s =
     (if key_taken session_hash_key x (db_sessions s)
      then (Inl (IntegrityError ''django_session_key_hash''), s)
      else (Inr (tbl_next (db_sessions s)), s\<lparr>db_sessions := tbl_insert x (db_sessions s)\<rparr>))"

text \<open>The result is the session with the request that now carries its id.\<close>

definition create_account_session ::
  "pk \<Rightarrow> http_request \<Rightarrow> string \<Rightarrow> ('a security_db_scheme, pk \<times> http_request) op" where
  "create_account_session user r fresh_key = atomic (\<lambda>s.
     let key = (case hr_session_key r of None \<Rightarrow> fresh_key | Some k \<Rightarrow> k)
     in case insert_session (new_account_session s user r key) s of
          (Inl e, s1) \<Rightarrow> (Inl e, s1)
        | (Inr k, s1) \<Rightarrow>
            (Inr (k, r\<lparr>hr_session_key := Some key, hr_account_session_id := Some (str_of_nat k)\<rparr>), s1))"

definition current_session_id :: "http_request \<Rightarrow> string option" where
  "current_session_id r =
     (case hr_account_session_id r of
        Some i \<Rightarrow> if i \<noteq> [] then Some i
                  else (case hr_token_sid r of Some sid \<Rightarrow> if sid \<noteq> [] then Some sid else None | None \<Rightarrow> None)
      | None \<Rightarrow> (case hr_token_sid r of Some sid \<Rightarrow> if sid \<noteq> [] then Some sid else None | None \<Rightarrow> None))"

text \<open>The session of that key and account; one that has run out is marked, and then does not exist either.\<close>

definition update_session :: "pk \<Rightarrow> (account_session \<Rightarrow> account_session) \<Rightarrow> 'a security_db_scheme \<Rightarrow> 'a security_db_scheme" where
  "update_session k f s = s\<lparr>db_sessions := tbl_update_where (\<lambda>j _. j = k) f (db_sessions s)\<rparr>"

definition get_active_session :: "pk \<Rightarrow> pk \<Rightarrow> ('a security_db_scheme, account_session) op" where
  "get_active_session user k s =
     (case tbl_get (db_sessions s) k of
        None \<Rightarrow> (Inl (DoesNotExist ''AccountSession''), s)
      | Some x \<Rightarrow>
          if ss_user x \<noteq> user then (Inl (DoesNotExist ''AccountSession''), s)
          else if is_active_session x (db_now s) then (Inr x, s)
          else (Inl (DoesNotExist ''AccountSession''),
                if ss_status x = Session_ACTIVE then update_session k (\<lambda>r. r\<lparr>ss_status := Session_EXPIRED\<rparr>) s else s))"

definition touch_session :: "pk \<times> account_session \<Rightarrow> http_request option \<Rightarrow> 'a security_db_scheme \<Rightarrow> 'a security_db_scheme" where
  "touch_session x request s =
     (let interval = ACCOUNT_SESSION_ACTIVITY_UPDATE_SECONDS (db_account_settings s) * usec_per_second;
          ip = (case request of None \<Rightarrow> [] | Some r \<Rightarrow> request_ip r)
      in if ss_last_seen_at (snd x) > db_now s - interval then s
         else s\<lparr>db_sessions := tbl_update_where (\<lambda>j r. j = fst x \<and> ss_status r = Session_ACTIVE)
                (\<lambda>r. r\<lparr>ss_last_seen_at := db_now s,
                       ss_last_ip_hash := (if ip = [] then ss_last_ip_hash r else keyed_hash s ip)\<rparr>) (db_sessions s)\<rparr>)"

section \<open>Revocation\<close>

definition session_tokens :: "'a security_db_scheme \<Rightarrow> pk \<Rightarrow> pk \<Rightarrow> pk list" where
  "session_tokens s user k =
     map fst (tbl_filter (\<lambda>_ t. tk_user t = user
        \<and> token_sid (db_crypto s) (db_now s) (tk_token t) = Some (str_of_nat k)) (db_outstanding_tokens s))"

definition blacklist_session_tokens :: "pk \<Rightarrow> pk \<Rightarrow> 'a security_db_scheme \<Rightarrow> 'a security_db_scheme" where
  "blacklist_session_tokens user k s =
     s\<lparr>db_blacklisted_tokens := db_blacklisted_tokens s
         @ filter (\<lambda>j. j \<notin> set (db_blacklisted_tokens s)) (session_tokens s user k)\<rparr>"

definition revoked_session :: "actor option \<Rightarrow> string \<Rightarrow> instant \<Rightarrow> account_session \<Rightarrow> account_session" where
  "revoked_session u reason now x =
     x\<lparr>ss_status := Session_REVOKED, ss_revoked_at := Some now,
       ss_revoked_by := (case u of Some a \<Rightarrow> if u_is_authenticated a then Some (u_id a) else None | None \<Rightarrow> None),
       ss_revoke_reason := take 255 reason\<rparr>"

definition revoke_session :: "pk \<Rightarrow> actor option \<Rightarrow> string \<Rightarrow> ('a security_db_scheme, bool) op" where
  "revoke_session k u reason = atomic (\<lambda>s.
     case tbl_get (db_sessions s) k of
       None \<Rightarrow> (Inl (DoesNotExist ''AccountSession''), s)
     | Some x \<Rightarrow>
         if ss_status x \<noteq> Session_ACTIVE then (Inr False, s)
         else (Inr True, blacklist_session_tokens (ss_user x) k
                 (update_session k (\<lambda>r. revoked_session u reason (db_now s) r) s)))"

text \<open>The sessions are read first and revoked one by one.\<close>

fun revoke_each :: "actor option \<Rightarrow> string option \<Rightarrow> string \<Rightarrow> pk list \<Rightarrow> ('a security_db_scheme, nat) op" where
  "revoke_each u exclude reason [] s = (Inr 0, s)"
| "revoke_each u exclude reason (k # ks) s =
     (if exclude = Some (str_of_nat k) then revoke_each u exclude reason ks s
      else case revoke_session k u reason s of
        (Inl e, s1) \<Rightarrow> (Inl e, s1)
      | (Inr b, s1) \<Rightarrow>
          (case revoke_each u exclude reason ks s1 of
             (Inl e, s2) \<Rightarrow> (Inl e, s2)
           | (Inr n, s2) \<Rightarrow> (Inr ((if b then 1 else 0) + n), s2)))"

definition active_sessions :: "'a security_db_scheme \<Rightarrow> pk \<Rightarrow> pk list" where
  "active_sessions s user =
     map fst (tbl_filter (\<lambda>_ x. ss_user x = user \<and> ss_status x = Session_ACTIVE) (db_sessions s))"

definition revoke_user_sessions ::
  "pk \<Rightarrow> actor option \<Rightarrow> string option \<Rightarrow> string \<Rightarrow> ('a security_db_scheme, nat) op" where
  "revoke_user_sessions user u exclude reason =
     atomic (\<lambda>s. revoke_each u (if exclude = Some [] then None else exclude) reason (active_sessions s user) s)"

text \<open>The first live browser session with the key of the account session.\<close>

definition purge_django_session :: "account_session \<Rightarrow> 'a security_db_scheme \<Rightarrow> 'a security_db_scheme" where
  "purge_django_session x s =
     (case ss_django_session_key_hash x of
        None \<Rightarrow> s
      | Some h \<Rightarrow>
          if h = [] then s
          else case find (\<lambda>(_, d). dj_expire_date d > db_now s \<and> keyed_hash s (dj_session_key d) = h)
                  (tbl_rows (db_django_sessions s)) of
            None \<Rightarrow> s
          | Some (k, _) \<Rightarrow> s\<lparr>db_django_sessions := tbl_delete k (db_django_sessions s)\<rparr>)"

section \<open>What revocation leaves behind\<close>

lemma revoke_session_Inr:
  "revoke_session k u reason s = (Inr b, s') \<longleftrightarrow>
   (\<exists>x. tbl_get (db_sessions s) k = Some x \<and> b = (ss_status x = Session_ACTIVE)
     \<and> s' = (if b then blacklist_session_tokens (ss_user x) k
                 (update_session k (\<lambda>r. revoked_session u reason (db_now s) r) s) else s))"
  by (auto simp: revoke_session_def split: option.splits)

text \<open>What revoking sessions may write.\<close>

definition only_sessions :: "'a security_db_scheme \<Rightarrow> 'a security_db_scheme \<Rightarrow> bool" where
  "only_sessions s s' \<longleftrightarrow> (\<exists>t b. s' = s\<lparr>db_sessions := t, db_blacklisted_tokens := b\<rparr>)"

lemma only_sessionsI: "s' = s\<lparr>db_sessions := t, db_blacklisted_tokens := b\<rparr> \<Longrightarrow> only_sessions s s'"
  unfolding only_sessions_def by blast

lemma only_sessions_refl [simp]: "only_sessions s s"
  by (rule only_sessionsI [where t = "db_sessions s" and b = "db_blacklisted_tokens s"]) simp

lemma only_sessions_trans:
  assumes "only_sessions s t" "only_sessions t u" shows "only_sessions s u"
proof -
  obtain a b where t: "t = s\<lparr>db_sessions := a, db_blacklisted_tokens := b\<rparr>"
    using assms(1) unfolding only_sessions_def by blast
  obtain c d where u: "u = t\<lparr>db_sessions := c, db_blacklisted_tokens := d\<rparr>"
    using assms(2) unfolding only_sessions_def by blast
  show ?thesis by (rule only_sessionsI [where t = c and b = d]) (simp add: t u)
qed

lemma only_sessions_revoke:
  assumes "revoke_session k u reason s = (Inr b, s')" shows "only_sessions s s'"
proof (cases b)
  case True
  then show ?thesis
    using assms by (intro only_sessionsI [where t = "db_sessions s'" and b = "db_blacklisted_tokens s'"])
      (auto simp: revoke_session_Inr blacklist_session_tokens_def update_session_def)
qed (use assms in \<open>auto simp: revoke_session_Inr\<close>)

lemma only_sessionsD:
  assumes "only_sessions s s'"
  shows "db_users s' = db_users s" "db_now s' = db_now s" "db_recovery_requests s' = db_recovery_requests s"
    "db_email_changes s' = db_email_changes s" "db_credentials s' = db_credentials s"
    "db_verification_codes s' = db_verification_codes s" "db_role_activations s' = db_role_activations s"
    "db_crypto s' = db_crypto s" "db_account_settings s' = db_account_settings s"
  using assms by (auto simp: only_sessions_def)

text \<open>Sessions of other accounts stay, those of the account change only from active to revoked.\<close>

definition sessions_evolve :: "account_session table \<Rightarrow> account_session table \<Rightarrow> bool" where
  "sessions_evolve t t' \<longleftrightarrow>
     (\<forall>k x. tbl_get t k = Some x \<longrightarrow> (\<exists>x'. tbl_get t' k = Some x' \<and> ss_user x' = ss_user x
        \<and> (ss_status x = Session_REVOKED \<longrightarrow> ss_status x' = Session_REVOKED)
        \<and> (ss_status x' = Session_ACTIVE \<longrightarrow> ss_status x = Session_ACTIVE)))"

lemma sessions_evolve_refl [simp]: "sessions_evolve t t"
  by (simp add: sessions_evolve_def)

lemma sessions_evolve_trans: "sessions_evolve t u \<Longrightarrow> sessions_evolve u v \<Longrightarrow> sessions_evolve t v"
  unfolding sessions_evolve_def by metis

lemma revoke_session_get:
  assumes "revoke_session k u reason s = (Inr b, s')"
  shows "tbl_get (db_sessions s') j =
    (if j = k \<and> b then map_option (revoked_session u reason (db_now s)) (tbl_get (db_sessions s) j)
     else tbl_get (db_sessions s) j)"
  using assms
  by (cases "j = k") (auto simp: revoke_session_Inr blacklist_session_tokens_def update_session_def tbl_get_update_where
      option.map_ident)

lemma sessions_evolve_revoke:
  assumes "revoke_session k u reason s = (Inr b, s')"
  shows "sessions_evolve (db_sessions s) (db_sessions s')"
  unfolding sessions_evolve_def by (simp add: revoke_session_get [OF assms] revoked_session_def)

text \<open>Every listed session is inactive afterwards, but the excluded one.\<close>

lemma revoke_each_success:
  assumes "revoke_each u exclude reason ks s = (Inr n, s')"
  shows "only_sessions s s' \<and> sessions_evolve (db_sessions s) (db_sessions s')
    \<and> (\<forall>k. tbl_get (db_sessions s) k = None \<longrightarrow> tbl_get (db_sessions s') k = None)
    \<and> (\<forall>k x. k \<in> set ks \<longrightarrow> exclude \<noteq> Some (str_of_nat k) \<longrightarrow> tbl_get (db_sessions s') k = Some x \<longrightarrow> ss_status x \<noteq> Session_ACTIVE)"
  using assms
proof (induction ks arbitrary: s n)
  case (Cons j ks)
  show ?case
  proof (cases "exclude = Some (str_of_nat j)")
    case True
    then have "revoke_each u exclude reason ks s = (Inr n, s')" using Cons.prems by simp
    then show ?thesis using Cons.IH True by auto
  next
    case False
    obtain b s1 m where r: "revoke_session j u reason s = (Inr b, s1)" and e: "revoke_each u exclude reason ks s1 = (Inr m, s')"
      using Cons.prems False by (auto split: prod.splits sum.splits)
    note ih = Cons.IH [OF e]
    have "ss_status x \<noteq> Session_ACTIVE" if x: "tbl_get (db_sessions s') j = Some x" for x
    proof
      assume a: "ss_status x = Session_ACTIVE"
      obtain y where y: "tbl_get (db_sessions s) j = Some y" "b = (ss_status y = Session_ACTIVE)"
        using r by (auto simp: revoke_session_Inr)
      then obtain z where z: "tbl_get (db_sessions s1) j = Some z" "ss_status z \<noteq> Session_ACTIVE"
        using revoke_session_get [OF r, of j] by (auto simp: revoked_session_def)
      then show False using ih a x unfolding sessions_evolve_def by fastforce
    qed
    moreover have "tbl_get (db_sessions s') k = None" if "tbl_get (db_sessions s) k = None" for k
    proof -
      have "tbl_get (db_sessions s1) k = None" using that by (auto simp: revoke_session_get [OF r])
      then show ?thesis using ih by blast
    qed
    ultimately show ?thesis
      using ih only_sessions_trans [OF only_sessions_revoke [OF r]] sessions_evolve_trans [OF sessions_evolve_revoke [OF r]]
      by auto
  qed
qed simp

lemma revoke_each_total:
  "(\<And>k. k \<in> set ks \<Longrightarrow> tbl_get (db_sessions s) k \<noteq> None) \<Longrightarrow> \<exists>n s'. revoke_each u exclude reason ks s = (Inr n, s')"
proof (induction ks arbitrary: s)
  case (Cons j ks)
  show ?case
  proof (cases "exclude = Some (str_of_nat j)")
    case True
    then show ?thesis using Cons by auto
  next
    case False
    obtain x where "tbl_get (db_sessions s) j = Some x" using Cons.prems by fastforce
    then obtain b s1 where r: "revoke_session j u reason s = (Inr b, s1)" by (auto simp: revoke_session_Inr)
    have "tbl_get (db_sessions s1) k \<noteq> None" if "k \<in> set ks" for k
      using Cons.prems that revoke_session_get [OF r, of k] by auto
    then obtain n s' where "revoke_each u exclude reason ks s1 = (Inr n, s')" using Cons.IH by blast
    then show ?thesis using False r by simp
  qed
qed simp

lemma in_active_sessions:
  "k \<in> set (active_sessions s user) \<longleftrightarrow>
   (\<exists>x. (k, x) \<in> set (tbl_rows (db_sessions s)) \<and> ss_user x = user \<and> ss_status x = Session_ACTIVE)"
proof -
  have "k \<in> set (map fst (filter (\<lambda>(_, x). p x) rows)) \<longleftrightarrow> (\<exists>x. (k, x) \<in> set rows \<and> p x)"
    for rows :: "(pk \<times> account_session) list" and p
    by (induction rows) auto
  then show ?thesis unfolding active_sessions_def tbl_filter_def .
qed

lemma revoke_user_sessions_success:
  assumes r: "revoke_user_sessions user u None reason s = (Inr n, s')"
  shows "only_sessions s s' \<and> sessions_evolve (db_sessions s) (db_sessions s')
    \<and> (\<forall>k x. tbl_get (db_sessions s') k = Some x \<longrightarrow> ss_user x = user \<longrightarrow> ss_status x \<noteq> Session_ACTIVE)"
proof -
  have e: "revoke_each u None reason (active_sessions s user) s = (Inr n, s')"
    using r by (auto simp: revoke_user_sessions_def)
  note * = revoke_each_success [OF e]
  have "ss_status x \<noteq> Session_ACTIVE" if x: "tbl_get (db_sessions s') k = Some x" "ss_user x = user" for k x
  proof
    assume a: "ss_status x = Session_ACTIVE"
    obtain y where y: "tbl_get (db_sessions s) k = Some y" using * x(1) by fastforce
    then have "ss_user y = user \<and> ss_status y = Session_ACTIVE"
      using * x a unfolding sessions_evolve_def by fastforce
    then have "k \<in> set (active_sessions s user)"
      using tbl_getD [OF y] by (auto simp: in_active_sessions)
    then show False using * x(1) a by blast
  qed
  then show ?thesis using * by blast
qed

lemma revoke_user_sessions_total:
  assumes "tbl_wf (db_sessions s)"
  shows "\<exists>n s'. revoke_user_sessions user u exclude reason s = (Inr n, s')"
proof -
  have "tbl_get (db_sessions s) k \<noteq> None" if "k \<in> set (active_sessions s user)" for k
    using that assms tbl_get_iff by (fastforce simp: in_active_sessions)
  then obtain n s' where "revoke_each u (if exclude = Some [] then None else exclude) reason (active_sessions s user) s = (Inr n, s')"
    using revoke_each_total by blast
  then show ?thesis by (simp add: revoke_user_sessions_def atomic_def)
qed

end
