(* ===== verification/AccountLifecycle.thy ===== *)
theory AccountLifecycle
  imports AccountSessions
begin

text \<open>
  Accounts from registration to archive (\<open>apps/accounts/services.py\<close>, and of \<open>apps/accounts/views.py\<close> the view an
  administrator manages an account with).

  The methods of \<open>AccountsService\<close> work on the instance they are given, here \<open>(key, row)\<close>; the view reads it
  just before. A verification code and the answer of the mail server are arguments.
\<close>

section \<open>Administration\<close>

definition active_admin :: "'a user_scheme \<Rightarrow> bool" where
  "active_admin u \<longleftrightarrow> u_global_role u = User_ADMIN \<and> u_status u = User_ACTIVE"

definition active_admin_count :: "'a core_db_scheme \<Rightarrow> nat" where
  "active_admin_count s = tbl_count (\<lambda>_ u. active_admin u) (db_users s)"

text \<open>\<open>new_role\<close> is \<open>None\<close> for a change of the status.\<close>

definition guard_last_admin :: "'a core_db_scheme \<Rightarrow> user \<Rightarrow> global_role option \<Rightarrow> error + unit" where
  "guard_last_admin s u new_role =
     (if \<not> is_administrator u then Inr ()
      else if (case new_role of None \<Rightarrow> True | Some r \<Rightarrow> r \<noteq> User_ADMIN) \<and> active_admin_count s \<le> 1
      then Inl (ValidationError (''Cannot remove, demote, suspend, or archive the last active administrator. '' @
             ''Promote another user to administrator first.''))
      else Inr ())"

definition edit_account ::
  "pk \<times> user \<Rightarrow> string option \<Rightarrow> global_role option \<Rightarrow> ('a core_db_scheme, unit) op" where
  "edit_account ku name role s =
     (let u = snd ku;
          u1 = (case name of None \<Rightarrow> u | Some n \<Rightarrow> u\<lparr>u_name := n\<rparr>)
      in case (case role of None \<Rightarrow> Inr u1
               | Some r \<Rightarrow> (case guard_last_admin s u1 (Some r) of Inl e \<Rightarrow> Inl e | Inr _ \<Rightarrow> Inr (u1\<lparr>u_global_role := r\<rparr>))) of
           Inl e \<Rightarrow> (Inl e, s)
         | Inr u2 \<Rightarrow> (Inr (), update_user (fst ku) (\<lambda>r. r\<lparr>u_name := u_name u2, u_global_role := u_global_role u2\<rparr>) s))"

text \<open>\<open>save(update_fields=["status", "is_active"])\<close>.\<close>

definition save_account_status :: "pk \<Rightarrow> user_status \<Rightarrow> bool \<Rightarrow> 'a security_db_scheme \<Rightarrow> 'a security_db_scheme" where
  "save_account_status k st b s = set_is_active k b (update_user k (\<lambda>r. r\<lparr>u_status := st\<rparr>) s)"

definition suspend_account :: "pk \<times> user \<Rightarrow> ('a security_db_scheme, unit) op" where
  "suspend_account ku s =
     (case guard_last_admin s (snd ku) None of
        Inl e \<Rightarrow> (Inl e, s)
      | Inr _ \<Rightarrow> (Inr (), save_account_status (fst ku) User_SUSPENDED False s))"

definition reactivate_account :: "pk \<times> user \<Rightarrow> ('a security_db_scheme, unit) op" where
  "reactivate_account ku s =
     (if u_status (snd ku) \<noteq> User_SUSPENDED
      then (Inl (ValidationError ''Only suspended accounts can be reactivated.''), s)
      else (Inr (), save_account_status (fst ku) User_ACTIVE True s))"

definition archive_account :: "pk \<times> user \<Rightarrow> ('a security_db_scheme, unit) op" where
  "archive_account ku s =
     (case guard_last_admin s (snd ku) None of
        Inl e \<Rightarrow> (Inl e, s)
      | Inr _ \<Rightarrow> (Inr (), save_account_status (fst ku) User_ARCHIVED False s))"

text \<open>The view: the permission, the instance as it is now, the action.\<close>

definition account_post :: "actor \<Rightarrow> pk \<Rightarrow> string \<Rightarrow> ('a security_db_scheme, unit) op" where
  "account_post u k action s =
     (if \<not> IsAdministrator u then (Inl (PermissionDenied []), s)
      else case tbl_get (db_users s) k of
        None \<Rightarrow> (Inl (DoesNotExist ''User''), s)
      | Some r \<Rightarrow>
          if action = ''suspend'' then suspend_account (k, r) s
          else if action = ''reactivate'' then reactivate_account (k, r) s
          else if action = ''archive'' then archive_account (k, r) s
          else (Inl (ValidationError ''Invalid action. Use suspend, reactivate, or archive.''), s))"

definition account_update :: "actor \<Rightarrow> pk \<Rightarrow> string option \<Rightarrow> global_role option \<Rightarrow> ('a security_db_scheme, unit) op" where
  "account_update u k name role s =
     (if \<not> IsAdministrator u then (Inl (PermissionDenied []), s)
      else case tbl_get (db_users s) k of
        None \<Rightarrow> (Inl (DoesNotExist ''User''), s)
      | Some r \<Rightarrow> edit_account (k, r) name role s)"

section \<open>Verification codes\<close>

definition new_verification_code :: "'a security_db_scheme \<Rightarrow> string \<Rightarrow> string \<Rightarrow> verification_code" where
  "new_verification_code s email code =
     \<lparr>vc_email = email, vc_purpose = Code_REGISTRATION, vc_code_hash = hash_code s code, vc_plain_code = code,
      vc_status = Code_PENDING,
      vc_expires_at = db_now s + EMAIL_VERIFICATION_CODE_TTL_MINUTES (db_account_settings s) * usec_per_minute,
      vc_consumed_at = None, vc_created_at = db_now s\<rparr>"

definition create_verification_code ::
  "string \<Rightarrow> string \<Rightarrow> 'a security_db_scheme \<Rightarrow> pk \<times> 'a security_db_scheme" where
  "create_verification_code email code s =
     (let t = tbl_update_where (\<lambda>_ c. vc_email c = email \<and> vc_purpose c = Code_REGISTRATION \<and> vc_status c = Code_PENDING)
            (\<lambda>c. c\<lparr>vc_status := Code_REVOKED\<rparr>) (db_verification_codes s)
      in (tbl_next t, s\<lparr>db_verification_codes := tbl_insert (new_verification_code s email code) t\<rparr>))"

definition subject_with_prefix :: "'a security_db_scheme \<Rightarrow> string \<Rightarrow> string" where
  "subject_with_prefix s text =
     (let prefix = py_strip (EMAIL_SUBJECT_PREFIX (db_account_settings s))
      in if prefix = [] then text else prefix @ '' '' @ text)"

definition send_verification_email ::
  "string \<Rightarrow> string \<Rightarrow> pk \<Rightarrow> pk \<Rightarrow> mail_answer \<Rightarrow> ('a security_db_scheme, pk) op" where
  "send_verification_email email code user verification answer s =
     (let subject = subject_with_prefix s ''Verify your GradSync email'';
          body = ''Your GradSync verification code is '' @ code @ ''.'' @ [CHR 0x0A] @ ''It expires in ''
            @ str_of_int (EMAIL_VERIFICATION_CODE_TTL_MINUTES (db_account_settings s)) @ '' minutes.'';
          args = (enqueue_defaults user VERIFICATION_CODE ''EmailVerificationCode'' (str_of_nat verification) subject)
            \<lparr>en_action_path := ''/verify-email'', en_delivery_policy := Notification_EMAIL_ONLY\<rparr>
      in case enqueue_notification args s of
           (Inl e, s1) \<Rightarrow> (Inl e, s1)
         | (Inr k, s1) \<Rightarrow>
             (case tbl_get (db_notifications s1) k of
                None \<Rightarrow> (Inl (DoesNotExist ''Notification''), s1)
              | Some n \<Rightarrow>
                  (case mark_notification_status (k, n) Notification_QUEUED [] s1 of
                     (n', s2) \<Rightarrow> (Inr k, after_send (k, n') answer ''SMTP backend did not accept the verification email.''
                                   (send_mail subject body email s2)))))"

definition issue_verification ::
  "string \<Rightarrow> string \<Rightarrow> pk \<Rightarrow> mail_answer \<Rightarrow> ('a security_db_scheme, pk) op" where
  "issue_verification email code user answer s =
     (case create_verification_code email code s of
        (k, s1) \<Rightarrow>
          (case send_verification_email email code user k answer s1 of
             (Inl e, s2) \<Rightarrow> (Inl e, s2)
           | (Inr _, s2) \<Rightarrow> (Inr k, s2)))"

definition resend_verification_code :: "string \<Rightarrow> string \<Rightarrow> mail_answer \<Rightarrow> ('a security_db_scheme, pk option) op" where
  "resend_verification_code email code answer s =
     (case tbl_first (\<lambda>_ u. u_email u = email \<and> u_status u = User_PENDING_EMAIL_VERIFICATION) (db_users s) of
        None \<Rightarrow> (Inr None, s)
      | Some (user, _) \<Rightarrow>
          (case issue_verification email code user answer s of
             (Inl e, s1) \<Rightarrow> (Inl e, s1)
           | (Inr k, s1) \<Rightarrow> (Inr (Some k), s1)))"

section \<open>Registration\<close>

record registration =
  rg_email :: string
  rg_password :: string
  rg_name :: string
  rg_nickname :: string
  rg_requested_role :: string
  rg_degree_type :: "string option"

definition degree_of_value :: "string option \<Rightarrow> degree_type option" where
  "degree_of_value v =
     (if v = Some ''masters'' then Some StudentProfile_MASTERS
      else if v = Some ''doctoral'' then Some StudentProfile_DOCTORAL else None)"

definition registration_guard :: "registration \<Rightarrow> error + unit" where
  "registration_guard a =
     (if rg_requested_role a \<noteq> ''student'' \<and> rg_requested_role a \<noteq> ''teacher''
      then Inl (ValidationError ''Requested role must be student or teacher.'')
      else if rg_requested_role a = ''student'' \<and> degree_of_value (rg_degree_type a) = None
      then Inl (ValidationError ''Student registration requires a masters or doctoral degree type.'')
      else case validate_collaboration_password (rg_password a) of
        Inl e \<Rightarrow> Inl e
      | Inr _ \<Rightarrow>
          if py_strip (rg_name a) = [] then Inl (ValidationError ''Name is required.'')
          else if py_strip (rg_nickname a) = [] then Inl (ValidationError ''Nickname is required.'')
          else Inr ())"

definition latest_activation :: "'a security_db_scheme \<Rightarrow> pk \<Rightarrow> (pk \<times> role_activation) option" where
  "latest_activation s user = youngest ra_created_at (tbl_filter (\<lambda>_ r. ra_user r = user) (db_role_activations s))"

definition can_resubmit :: "'a security_db_scheme \<Rightarrow> pk \<times> user \<Rightarrow> registration \<Rightarrow> bool" where
  "can_resubmit s ku a \<longleftrightarrow>
     rg_requested_role a = ''teacher'' \<and> u_requested_role (snd ku) = Requested_TEACHER
     \<and> u_email_verified_at (snd ku) \<noteq> None
     \<and> map_option (\<lambda>(_, r). ra_status r) (latest_activation s (fst ku)) = Some Activation_REJECTED
     \<and> check_password s (fst ku) (rg_password a)"

definition new_activation :: "'a security_db_scheme \<Rightarrow> pk \<Rightarrow> requested_role \<Rightarrow> role_activation" where
  "new_activation s user role =
     \<lparr>ra_user = user, ra_requested_role = role, ra_activation_source = Activation_ADMIN_APPROVAL,
      ra_status = Activation_PENDING, ra_reviewer = None, ra_invitation_token_hash = [],
      ra_expires_at = Some (db_now s + ROLE_ACTIVATION_TTL_DAYS (db_account_settings s) * usec_per_day),
      ra_reviewed_at = None, ra_review_reason = [], ra_created_at = db_now s\<rparr>"

fun requested_role_value :: "requested_role \<Rightarrow> string" where
  "requested_role_value Requested_STUDENT = ''student''"
| "requested_role_value Requested_TEACHER = ''teacher''"
| "requested_role_value Requested_ADMINISTRATOR = ''administrator''"
| "requested_role_value Requested_PENDING = ''pending''"

text \<open>The recorder of the audit trail for activations.\<close>

definition record_role_activation ::
  "actor \<Rightarrow> pk \<Rightarrow> role_activation \<Rightarrow> string \<Rightarrow> string \<Rightarrow> 'a audit_db_scheme \<Rightarrow> 'a audit_db_scheme" where
  "record_role_activation u k r action reason =
     record_event None (Some u) (''role_activation.'' @ action) (''Role activation '' @ action)
       (Some (''RoleActivationRequest'', k))
       (event_defaults\<lparr>opt_target_snapshot := Some [(''requestedRole'', PStr (requested_role_value (ra_requested_role r))),
          (''status'', PStr (activation_status_value (ra_status r))), (''reason'', PStr reason)]\<rparr>)"

definition resubmit_registration :: "pk \<times> user \<Rightarrow> registration \<Rightarrow> ('a security_db_scheme, pk \<times> pk option) op" where
  "resubmit_registration ku a s =
     (let k = fst ku;
          u = (snd ku)\<lparr>u_name := py_strip (rg_name a), u_nickname := py_strip (rg_nickname a),
                u_active_role := Requested_PENDING, u_status := User_PENDING_ROLE_ACTIVATION\<rparr>;
          s1 = set_is_active k True (update_user k (\<lambda>_. u) s);
          r = new_activation s k Requested_TEACHER;
          j = tbl_next (db_role_activations s)
      in (Inr (k, None), record_role_activation (actor_of_user k u) j r ''resubmitted'' []
            (s1\<lparr>db_role_activations := tbl_insert r (db_role_activations s)\<rparr>)))"

definition new_user :: "registration \<Rightarrow> user" where
  "new_user a =
     (let role = (if rg_requested_role a = ''teacher'' then Requested_TEACHER else Requested_STUDENT)
      in \<lparr>u_email = rg_email a, u_name = py_strip (rg_name a), u_global_role = role_to_global_role role,
          u_status = User_PENDING_EMAIL_VERIFICATION, u_locale = ''en'', u_requested_role = role,
          u_active_role = Requested_PENDING, u_nickname = py_strip (rg_nickname a), u_email_verified_at = None,
          u_is_superuser = False\<rparr>)"

definition create_user :: "registration \<Rightarrow> 'a security_db_scheme \<Rightarrow> pk \<times> 'a security_db_scheme" where
  "create_user a s =
     (let k = tbl_next (db_users s);
          s1 = s\<lparr>db_users := tbl_insert (new_user a) (db_users s),
                 db_credentials := (db_credentials s)(k \<mapsto>
                   \<lparr>cr_password = encode_password (db_crypto s) (rg_password a), cr_is_active = True\<rparr>)\<rparr>
      in (k, case degree_of_value (rg_degree_type a) of
               Some d \<Rightarrow> if rg_requested_role a = ''student''
                 then s1\<lparr>db_student_profiles := tbl_insert \<lparr>sp_user = k, sp_degree_type = d, sp_created_at = db_now s,
                        sp_updated_at = db_now s\<rparr> (db_student_profiles s1)\<rparr> else s1
             | None \<Rightarrow> s1))"

definition register_account :: "registration \<Rightarrow> string \<Rightarrow> mail_answer \<Rightarrow> ('a security_db_scheme, pk \<times> pk option) op" where
  "register_account a code answer = atomic (\<lambda>s.
     case registration_guard a of
       Inl e \<Rightarrow> (Inl e, s)
     | Inr _ \<Rightarrow>
     (case tbl_first (\<lambda>_ u. u_email u = rg_email a) (db_users s) of
       Some ku \<Rightarrow>
         if \<not> can_resubmit s ku a then (Inl (ValidationError ''An account with this email already exists.''), s)
         else resubmit_registration ku a s
     | None \<Rightarrow>
       (case create_user a s of
          (k, s1) \<Rightarrow>
            (case issue_verification (rg_email a) code k answer s1 of
               (Inl e, s2) \<Rightarrow> (Inl e, s2)
             | (Inr v, s2) \<Rightarrow> (Inr (k, Some v), s2)))))"

definition latest_code :: "'a security_db_scheme \<Rightarrow> string \<Rightarrow> (pk \<times> verification_code) option" where
  "latest_code s email =
     youngest vc_created_at (tbl_filter (\<lambda>_ c. vc_email c = email \<and> vc_purpose c = Code_REGISTRATION) (db_verification_codes s))"

text \<open>\<open>get_or_create\<close> of the pending activation.\<close>

definition pending_activation :: "pk \<Rightarrow> requested_role \<Rightarrow> ('a security_db_scheme, unit) op" where
  "pending_activation k role s =
     (let n = tbl_count (\<lambda>_ r. ra_user r = k \<and> ra_status r = Activation_PENDING) (db_role_activations s)
      in if 1 < n then (Inl (MultipleObjectsReturned ''RoleActivationRequest''), s)
         else if n = 1 then (Inr (), s)
         else (Inr (), s\<lparr>db_role_activations := tbl_insert (new_activation s k role) (db_role_activations s)\<rparr>))"

definition verified_user :: "instant \<Rightarrow> user \<Rightarrow> user" where
  "verified_user now u =
     (if u_requested_role u = Requested_STUDENT
      then u\<lparr>u_email_verified_at := Some now, u_active_role := Requested_STUDENT, u_status := User_ACTIVE\<rparr>
      else u\<lparr>u_email_verified_at := Some now, u_active_role := Requested_PENDING,
             u_status := User_PENDING_ROLE_ACTIVATION\<rparr>)"

definition verify_email :: "string \<Rightarrow> string \<Rightarrow> ('a security_db_scheme, pk) op" where
  "verify_email email code = atomic (\<lambda>s.
     let invalid = (Inl (ValidationError ''Invalid or expired verification code.''), s)
     in case latest_code s email of
          None \<Rightarrow> invalid
        | Some (vk, c) \<Rightarrow>
            if \<not> code_is_usable c (db_now s) \<or> vc_code_hash c \<noteq> hash_code s code then invalid
            else case tbl_first (\<lambda>_ u. u_email u = email) (db_users s) of
              None \<Rightarrow> (Inl (DoesNotExist ''User''), s)
            | Some (k, u) \<Rightarrow>
            (case (if u_requested_role u = Requested_STUDENT then (Inr (), s) else pending_activation k (u_requested_role u) s) of
              (Inl e, s1) \<Rightarrow> (Inl e, s1)
            | (Inr _, s1) \<Rightarrow>
                (Inr k, (update_user k (verified_user (db_now s)) s1)
                   \<lparr>db_verification_codes := tbl_update_where (\<lambda>j _. j = vk)
                       (\<lambda>c. c\<lparr>vc_status := Code_CONSUMED, vc_consumed_at := Some (db_now s)\<rparr>) (db_verification_codes s)\<rparr>)))"

section \<open>Role activation\<close>

definition activation_requires :: "string \<Rightarrow> activation_status option" where
  "activation_requires action =
     (if action = ''approve'' \<or> action = ''reject'' \<or> action = ''expire'' then Some Activation_PENDING
      else if action = ''revoke'' then Some Activation_APPROVED else None)"

definition activation_result :: "string \<Rightarrow> activation_status" where
  "activation_result action =
     (if action = ''approve'' then Activation_APPROVED else if action = ''reject'' then Activation_REJECTED
      else if action = ''revoke'' then Activation_REVOKED else Activation_EXPIRED)"

definition activation_guard :: "role_activation \<Rightarrow> actor \<Rightarrow> string \<Rightarrow> string \<Rightarrow> error + unit" where
  "activation_guard r reviewer action reason =
     (case activation_requires action of
        None \<Rightarrow> Inl (ValidationError ''Invalid role activation action.'')
      | Some st \<Rightarrow>
          if ra_status r \<noteq> st
          then Inl (ValidationError (''Only '' @ activation_status_value st @ '' role activation requests can be ''
                 @ action @ ''d.''))
          else if ra_user r = u_id reviewer
          then Inl (ValidationError ''Administrators cannot review their own role request.'')
          else if (action = ''reject'' \<or> action = ''revoke'') \<and> py_strip reason = []
          then Inl (ValidationError ''A reason is required for rejection or revocation.'')
          else Inr ())"

text \<open>\<open>TeacherProfile.objects.update_or_create\<close>; the profile is one to one.\<close>

definition approve_profile :: "pk \<Rightarrow> pk \<Rightarrow> 'a security_db_scheme \<Rightarrow> 'a security_db_scheme" where
  "approve_profile user reviewer s =
     s\<lparr>db_teacher_profiles :=
         (if tbl_exists (\<lambda>_ p. tp_user p = user) (db_teacher_profiles s)
          then tbl_update_where (\<lambda>_ p. tp_user p = user)
                 (\<lambda>p. p\<lparr>tp_approved_at := db_now s, tp_approved_by := Some reviewer\<rparr>) (db_teacher_profiles s)
          else tbl_insert \<lparr>tp_user = user, tp_approved_at = db_now s, tp_approved_by = Some reviewer\<rparr> (db_teacher_profiles s))\<rparr>"

definition drop_profile :: "pk \<Rightarrow> 'a security_db_scheme \<Rightarrow> 'a security_db_scheme" where
  "drop_profile user s =
     s\<lparr>db_teacher_profiles := (db_teacher_profiles s)\<lparr>tbl_rows :=
         filter (\<lambda>(_, p). tp_user p \<noteq> user) (tbl_rows (db_teacher_profiles s))\<rparr>\<rparr>"

definition approved_user :: "requested_role \<Rightarrow> user \<Rightarrow> user" where
  "approved_user role u =
     u\<lparr>u_active_role := role, u_global_role := role_to_global_role role, u_status := User_ACTIVE\<rparr>"

definition unapproved_user :: "user \<Rightarrow> user" where
  "unapproved_user u = u\<lparr>u_active_role := Requested_PENDING, u_status := User_PENDING_ROLE_ACTIVATION\<rparr>"

definition account_after_decision ::
  "role_activation \<Rightarrow> actor \<Rightarrow> string \<Rightarrow> 'a security_db_scheme \<Rightarrow> 'a security_db_scheme" where
  "account_after_decision r reviewer action s =
     (if action = ''approve''
      then let s1 = update_user (ra_user r) (approved_user (ra_requested_role r)) s
           in if ra_requested_role r = Requested_TEACHER then approve_profile (ra_user r) (u_id reviewer) s1 else s1
      else if action = ''revoke''
      then drop_profile (ra_user r) (update_user (ra_user r) unapproved_user s)
      else s)"

definition decide_role_activation :: "pk \<Rightarrow> actor \<Rightarrow> string \<Rightarrow> string \<Rightarrow> ('a security_db_scheme, pk) op" where
  "decide_role_activation k reviewer action reason = atomic (\<lambda>s.
     if activation_requires action = None then (Inl (ValidationError ''Invalid role activation action.''), s)
     else case tbl_get (db_role_activations s) k of
       None \<Rightarrow> (Inl (DoesNotExist ''RoleActivationRequest''), s)
     | Some r \<Rightarrow>
     (case activation_guard r reviewer action reason of
       Inl e \<Rightarrow> (Inl e, s)
     | Inr _ \<Rightarrow>
     let r' = r\<lparr>ra_reviewer := Some (u_id reviewer), ra_reviewed_at := Some (db_now s),
                ra_review_reason := py_strip reason, ra_status := activation_result action\<rparr>;
         s1 = (account_after_decision r reviewer action s)
                \<lparr>db_role_activations := tbl_put k r' (db_role_activations s)\<rparr>;
         s2 = record_role_activation reviewer k r' action (py_strip reason) s1
     in case enqueue_notification
           ((enqueue_defaults (ra_user r) ROLE_ACTIVATION ''RoleActivationRequest'' (str_of_nat k)
              (''Teacher access request '' @ activation_status_value (ra_status r')))
            \<lparr>en_sender := Some (u_id reviewer), en_action_path := ''/profile''\<rparr>) s2 of
          (Inl e, s3) \<Rightarrow> (Inl e, s3)
        | (Inr _, s3) \<Rightarrow> (Inr k, s3)))"

section \<open>Profile and password\<close>

definition save_profile :: "pk \<Rightarrow> degree_type \<Rightarrow> 'a security_db_scheme \<Rightarrow> 'a security_db_scheme" where
  "save_profile user d s =
     s\<lparr>db_student_profiles :=
         (if tbl_exists (\<lambda>_ p. sp_user p = user) (db_student_profiles s)
          then tbl_update_where (\<lambda>_ p. sp_user p = user)
                 (\<lambda>p. p\<lparr>sp_degree_type := d, sp_updated_at := db_now s\<rparr>) (db_student_profiles s)
          else tbl_insert \<lparr>sp_user = user, sp_degree_type = d, sp_created_at = db_now s, sp_updated_at = db_now s\<rparr>
                 (db_student_profiles s))\<rparr>"

definition update_profile :: "pk \<times> user \<Rightarrow> string \<Rightarrow> string \<Rightarrow> string option \<Rightarrow> ('a security_db_scheme, unit) op" where
  "update_profile ku name nickname degree = atomic (\<lambda>s.
     if py_strip name = [] then (Inl (ValidationError ''Name is required.''), s)
     else if py_strip nickname = [] then (Inl (ValidationError ''Nickname is required.''), s)
     else let s1 = update_user (fst ku) (\<lambda>r. r\<lparr>u_nickname := py_strip nickname, u_name := py_strip name\<rparr>) s
     in if u_global_role (snd ku) \<noteq> User_STUDENT then (Inr (), s1)
        else case degree_of_value degree of
          None \<Rightarrow> (Inl (ValidationError ''Student profile requires a masters or doctoral degree type.''), s1)
        | Some d \<Rightarrow> (Inr (), save_profile (fst ku) d s1))"

definition change_password :: "pk \<Rightarrow> string \<Rightarrow> string \<Rightarrow> ('a security_db_scheme, unit) op" where
  "change_password k current new s =
     (if \<not> check_password s k current then (Inl (ValidationError ''Current password is incorrect.''), s)
      else if current = new
      then (Inl (ValidationError ''New password must be different from the current password.''), s)
      else case validate_collaboration_password new of
        Inl e \<Rightarrow> (Inl e, s)
      | Inr _ \<Rightarrow> (Inr (), save_password k new s))"

end
