(* ===== verification/AccountSecurity.thy ===== *)
theory AccountSecurity
  imports AccountLifecycle
begin

text \<open>
  Password recovery and the change of the sign-in address (\<open>apps/accounts/security_services.py\<close>). The random token
  and code and the answers of the mail server are arguments.
\<close>

section \<open>Delivery\<close>

definition safe_delivery ::
  "pk \<Rightarrow> string \<Rightarrow> string \<Rightarrow> mail_answer \<Rightarrow> ('a security_db_scheme, pk) op" where
  "safe_delivery k recipient body answer s =
     (case tbl_get (db_notifications s) k of
        None \<Rightarrow> (Inl (DoesNotExist ''Notification''), s)
      | Some n \<Rightarrow>
          let s1 = update_notification k (\<lambda>r. r\<lparr>nt_recipient_email := recipient\<rparr>) s
          in case mark_notification_status (k, n\<lparr>nt_recipient_email := recipient\<rparr>) Notification_QUEUED [] s1 of
               (n', s2) \<Rightarrow> (Inr k, after_send (k, n') answer ''SMTP backend did not accept the security email.''
                             (send_mail (nt_subject n) body recipient s2)))"

text \<open>A notification sent by mail only, and its delivery.\<close>

definition security_mail ::
  "enqueue_args \<Rightarrow> string \<Rightarrow> string \<Rightarrow> mail_answer \<Rightarrow> ('a security_db_scheme, pk) op" where
  "security_mail args recipient body answer s =
     (case enqueue_notification args s of
        (Inl e, s1) \<Rightarrow> (Inl e, s1)
      | (Inr k, s1) \<Rightarrow> safe_delivery k recipient body answer s1)"

definition account_event ::
  "actor option \<Rightarrow> string \<Rightarrow> string \<Rightarrow> target \<Rightarrow> audit_outcome \<Rightarrow> pydict \<Rightarrow> 'a audit_db_scheme \<Rightarrow> 'a audit_db_scheme" where
  "account_event u event_type summary target outcome snapshot =
     record_event None u event_type summary target
       (event_defaults\<lparr>opt_category := AuditEvent_ACCOUNT_SECURITY, opt_outcome := outcome,
          opt_target_snapshot := Some snapshot, opt_allowed_snapshot_keys := Some (set (map fst snapshot))\<rparr>)"

section \<open>Password recovery\<close>

definition insert_recovery :: "recovery_request \<Rightarrow> ('a security_db_scheme, pk) op" where
  "insert_recovery r s =
     (if key_taken recovery_token_key r (db_recovery_requests s) \<or> key_taken pending_recovery_key r (db_recovery_requests s)
      then (Inl (IntegrityError ''unique_pending_account_recovery''), s)
      else (Inr (tbl_next (db_recovery_requests s)), s\<lparr>db_recovery_requests := tbl_insert r (db_recovery_requests s)\<rparr>))"

definition supersede_recoveries :: "pk \<Rightarrow> 'a security_db_scheme \<Rightarrow> 'a security_db_scheme" where
  "supersede_recoveries user s =
     s\<lparr>db_recovery_requests := tbl_update_where (\<lambda>_ r. rq_user r = user \<and> rq_status r = Recovery_PENDING)
         (\<lambda>r. r\<lparr>rq_status := Recovery_SUPERSEDED, rq_superseded_at := Some (db_now s), rq_updated_at := db_now s\<rparr>)
         (db_recovery_requests s)\<rparr>"

definition new_recovery :: "'a security_db_scheme \<Rightarrow> pk \<Rightarrow> string \<Rightarrow> string \<Rightarrow> string \<Rightarrow> string \<Rightarrow> recovery_request" where
  "new_recovery s user email token ip_hash agent =
     \<lparr>rq_user = user, rq_token_hash = hash_secret s token ''password-recovery'', rq_status = Recovery_PENDING,
      rq_requested_email_snapshot = email, rq_requested_ip_hash = take 64 ip_hash,
      rq_requested_user_agent = take 255 agent,
      rq_expires_at = db_now s + ACCOUNT_RECOVERY_TOKEN_TTL_SECONDS (db_account_settings s) * usec_per_second,
      rq_consumed_at = None, rq_superseded_at = None, rq_revoked_at = None, rq_delivery_notification = None,
      rq_created_at = db_now s, rq_updated_at = db_now s\<rparr>"

definition recovery_snapshot :: "recovery_status \<Rightarrow> pk \<Rightarrow> pydict" where
  "recovery_snapshot st user = [(''status'', PStr (recovery_status_value st)), (''userId'', PInt (int user))]"

definition issue_password_recovery :: "pk \<Rightarrow> string \<Rightarrow> string \<Rightarrow> string \<Rightarrow> ('a security_db_scheme, pk) op" where
  "issue_password_recovery user ip_hash agent token = atomic (\<lambda>s.
     case tbl_get (db_users s) user of
       None \<Rightarrow> (Inl (DoesNotExist ''User''), s)
     | Some u \<Rightarrow>
         (case insert_recovery (new_recovery s user (u_email u) token ip_hash agent) (supersede_recoveries user s) of
            (Inl e, s1) \<Rightarrow> (Inl e, s1)
          | (Inr k, s1) \<Rightarrow>
              (Inr k, account_event None ''account_security.password_recovery_issued'' ''Password recovery issued''
                 (Some (''AccountRecoveryRequest'', k)) AuditEvent_QUEUED (recovery_snapshot Recovery_PENDING user) s1)))"

definition rstrip_slash :: "string \<Rightarrow> string" where
  "rstrip_slash t = rev (dropWhile (\<lambda>c. c = CHR ''/'') (rev t))"

definition recovery_path :: "string \<Rightarrow> string" where
  "recovery_path return_to =
     (if py_startswith return_to ''/'' \<and> \<not> py_startswith return_to ''//'' then return_to else ''/reset-password'')"

text \<open>The characters of a token (letters, digits, - and _) need no quoting in the query string.\<close>

definition recovery_url :: "'a security_db_scheme \<Rightarrow> pk \<Rightarrow> string \<Rightarrow> string \<Rightarrow> string" where
  "recovery_url s k token return_to =
     (let base = rstrip_slash (py_strip (PUBLIC_BASE_URL (db_account_settings s)));
          origin = (if base = [] then APPROVED_FRONTEND_ORIGIN (db_account_settings s) else base)
      in origin @ recovery_path return_to @ ''?requestId='' @ str_of_nat k @ ''&token='' @ token)"

definition prefixed :: "'a security_db_scheme \<Rightarrow> string \<Rightarrow> string" where
  "prefixed s text = py_strip (py_strip (EMAIL_SUBJECT_PREFIX (db_account_settings s)) @ '' '' @ text)"

definition recovery_body :: "'a security_db_scheme \<Rightarrow> pk \<Rightarrow> string \<Rightarrow> string \<Rightarrow> string" where
  "recovery_body s k token return_to =
     ''Use this GradSync recovery link once within ''
     @ str_of_int (ACCOUNT_RECOVERY_TOKEN_TTL_SECONDS (db_account_settings s) div 60) @ '' minutes:'' @ [CHR 0x0A]
     @ recovery_url s k token return_to"

definition deliver_password_recovery ::
  "pk \<times> recovery_request \<Rightarrow> string \<Rightarrow> string \<Rightarrow> mail_answer \<Rightarrow> ('a security_db_scheme, pk) op" where
  "deliver_password_recovery kr token return_to answer s =
     (let k = fst kr; r = snd kr;
          args = (enqueue_defaults (rq_user r) PASSWORD_RECOVERY ''AccountRecoveryRequest'' (str_of_nat k)
                    (prefixed s ''Recover your GradSync account''))
            \<lparr>en_action_path := recovery_path return_to, en_delivery_policy := Notification_EMAIL_ONLY\<rparr>
      in case security_mail args (rq_requested_email_snapshot r) (recovery_body s k token return_to) answer s of
           (Inl e, s1) \<Rightarrow> (Inl e, s1)
         | (Inr n, s1) \<Rightarrow>
             (Inr n, s1\<lparr>db_recovery_requests := tbl_update_where (\<lambda>j _. j = k)
                 (\<lambda>r. r\<lparr>rq_delivery_notification := Some n, rq_updated_at := db_now s\<rparr>) (db_recovery_requests s1)\<rparr>))"

definition consumed_recovery :: "instant \<Rightarrow> recovery_request \<Rightarrow> recovery_request" where
  "consumed_recovery now r = r\<lparr>rq_status := Recovery_CONSUMED, rq_consumed_at := Some now, rq_updated_at := now\<rparr>"

text \<open>The request is consumed, every other pending request of the account is revoked.\<close>

definition close_recoveries :: "pk \<Rightarrow> pk \<Rightarrow> 'a security_db_scheme \<Rightarrow> 'a security_db_scheme" where
  "close_recoveries k user s =
     (let t = tbl_update_where (\<lambda>j _. j = k) (consumed_recovery (db_now s)) (db_recovery_requests s)
      in s\<lparr>db_recovery_requests := tbl_update_where (\<lambda>j r. j \<noteq> k \<and> rq_user r = user \<and> rq_status r = Recovery_PENDING)
             (\<lambda>r. r\<lparr>rq_status := Recovery_REVOKED, rq_revoked_at := Some (db_now s), rq_updated_at := db_now s\<rparr>) t\<rparr>)"

definition recovery_invalid :: error where
  "recovery_invalid = ValueError ''Recovery instruction is invalid or expired.''"

text \<open>A pending request found to have run out is marked, and then the block is left with the error.\<close>

definition expire_recovery :: "pk \<Rightarrow> recovery_request \<Rightarrow> 'a security_db_scheme \<Rightarrow> 'a security_db_scheme" where
  "expire_recovery k r s =
     (if rq_status r = Recovery_PENDING \<and> rq_expires_at r < db_now s
      then s\<lparr>db_recovery_requests := tbl_update_where (\<lambda>j _. j = k)
               (\<lambda>r. r\<lparr>rq_status := Recovery_EXPIRED, rq_updated_at := db_now s\<rparr>) (db_recovery_requests s)\<rparr>
      else s)"

definition consume_password_recovery :: "pk \<Rightarrow> string \<Rightarrow> string \<Rightarrow> ('a security_db_scheme, pk) op" where
  "consume_password_recovery k token password = atomic (\<lambda>s.
     case tbl_get (db_recovery_requests s) k of
       None \<Rightarrow> (Inl recovery_invalid, s)
     | Some r \<Rightarrow>
     if \<not> recovery_is_usable r (db_now s) \<or> rq_token_hash r \<noteq> hash_secret s token ''password-recovery''
     then (Inl recovery_invalid, expire_recovery k r s)
     else (case validate_collaboration_password password of
       Inl e \<Rightarrow> (Inl e, s)
     | Inr _ \<Rightarrow>
     (case tbl_get (db_users s) (rq_user r) of
       None \<Rightarrow> (Inl (DoesNotExist ''User''), s)
     | Some u \<Rightarrow>
     (case revoke_user_sessions (rq_user r) None None ''password_recovery''
             (close_recoveries k (rq_user r) (save_password (rq_user r) password s)) of
       (Inl e, s1) \<Rightarrow> (Inl e, s1)
     | (Inr _, s1) \<Rightarrow>
         (Inr (rq_user r), account_event None ''account_security.password_recovery_completed'' ''Password recovery completed''
            (Some (''AccountRecoveryRequest'', k)) AuditEvent_SUCCEEDED (recovery_snapshot Recovery_CONSUMED (rq_user r)) s1)))))"

section \<open>Change of the sign-in address\<close>

definition insert_email_change :: "email_change \<Rightarrow> ('a security_db_scheme, pk) op" where
  "insert_email_change c s =
     (if ec_previous_email c = ec_new_email c
      then (Inl (IntegrityError ''email_change_addresses_differ''), s)
      else if key_taken verification_hash_key c (db_email_changes s) \<or> key_taken pending_change_user_key c (db_email_changes s)
         \<or> key_taken pending_change_address_key c (db_email_changes s)
      then (Inl (IntegrityError ''unique_pending_email_change''), s)
      else (Inr (tbl_next (db_email_changes s)), s\<lparr>db_email_changes := tbl_insert c (db_email_changes s)\<rparr>))"

definition supersede_email_changes :: "pk \<Rightarrow> 'a security_db_scheme \<Rightarrow> 'a security_db_scheme" where
  "supersede_email_changes user s =
     s\<lparr>db_email_changes := tbl_update_where (\<lambda>_ c. ec_user c = user \<and> ec_status c = EmailChange_PENDING)
         (\<lambda>c. c\<lparr>ec_status := EmailChange_SUPERSEDED, ec_updated_at := db_now s\<rparr>) (db_email_changes s)\<rparr>"

definition new_email_change :: "'a security_db_scheme \<Rightarrow> pk \<Rightarrow> string \<Rightarrow> string \<Rightarrow> string \<Rightarrow> email_change" where
  "new_email_change s user previous new_email code =
     \<lparr>ec_user = user, ec_previous_email = previous, ec_new_email = new_email,
      ec_verification_hash = hash_secret s code ''email-change'', ec_status = EmailChange_PENDING,
      ec_expires_at = db_now s + EMAIL_CHANGE_TOKEN_TTL_SECONDS (db_account_settings s) * usec_per_second,
      ec_verified_at = None, ec_cancelled_at = None, ec_delivery_notification = None, ec_security_notification = None,
      ec_created_at = db_now s, ec_updated_at = db_now s\<rparr>"

definition email_used_by_other :: "'a core_db_scheme \<Rightarrow> pk \<Rightarrow> string \<Rightarrow> bool" where
  "email_used_by_other s user email =
     tbl_exists (\<lambda>k u. k \<noteq> user \<and> py_lower (u_email u) = py_lower email) (db_users s)"

definition email_change_guard :: "'a security_db_scheme \<Rightarrow> pk \<Rightarrow> user \<Rightarrow> string \<Rightarrow> string \<Rightarrow> error + unit" where
  "email_change_guard s user u new_email current =
     (if \<not> check_password s user current then Inl (ValidationError ''Current password is incorrect.'')
      else if new_email = py_lower (u_email u)
      then Inl (ValidationError ''New email must be different from the current email.'')
      else if email_used_by_other s user new_email
      then Inl (ValidationError ''An account with this email already exists.'') else Inr ())"

definition email_change_event ::
  "actor \<Rightarrow> string \<Rightarrow> string \<Rightarrow> pk \<Rightarrow> audit_outcome \<Rightarrow> email_change_status \<Rightarrow> 'a audit_db_scheme \<Rightarrow> 'a audit_db_scheme" where
  "email_change_event u event_type summary k outcome st =
     account_event (Some u) event_type summary (Some (''EmailChangeRequest'', k)) outcome
       [(''status'', PStr (email_change_status_value st))]"

definition issue_email_change :: "pk \<Rightarrow> string \<Rightarrow> string \<Rightarrow> string \<Rightarrow> ('a security_db_scheme, pk) op" where
  "issue_email_change user email current code = atomic (\<lambda>s.
     case tbl_get (db_users s) user of
       None \<Rightarrow> (Inl (DoesNotExist ''User''), s)
     | Some u \<Rightarrow>
     let new_email = normalized_email email in
     (case email_change_guard s user u new_email current of
       Inl e \<Rightarrow> (Inl e, s)
     | Inr _ \<Rightarrow>
     (case insert_email_change (new_email_change s user (u_email u) new_email code) (supersede_email_changes user s) of
       (Inl e, s1) \<Rightarrow> (Inl (ValidationError ''This email change is already pending.''), s1)
     | (Inr k, s1) \<Rightarrow>
       (Inr k, email_change_event (actor_of_user user u) ''account_security.email_change_requested'' ''Email change requested''
          k AuditEvent_QUEUED EmailChange_PENDING s1))))"

definition security_notification ::
  "pk \<times> email_change \<Rightarrow> string \<Rightarrow> string \<Rightarrow> string \<Rightarrow> mail_answer \<Rightarrow> ('a security_db_scheme, pk) op" where
  "security_notification kc subject recipient body answer =
     security_mail ((enqueue_defaults (ec_user (snd kc)) EMAIL_CHANGE_SECURITY ''EmailChangeRequest'' (str_of_nat (fst kc)) subject)
         \<lparr>en_action_path := ''/profile'', en_delivery_policy := Notification_EMAIL_ONLY\<rparr>) recipient body answer"

definition change_notice_body :: "email_change \<Rightarrow> string" where
  "change_notice_body c =
     ''A change from '' @ ec_previous_email c @ '' to '' @ ec_new_email c @ '' was requested. '' @
     ''Your current email remains active until verification.''"

definition change_code_body :: "'a security_db_scheme \<Rightarrow> string \<Rightarrow> string" where
  "change_code_body s code =
     ''Your GradSync email-change code is '' @ code @ ''. It expires in '' @
     str_of_int (EMAIL_CHANGE_TOKEN_TTL_SECONDS (db_account_settings s) div 60) @ '' minutes.''"

definition deliver_email_change ::
  "pk \<times> email_change \<Rightarrow> string \<Rightarrow> mail_answer \<Rightarrow> mail_answer \<Rightarrow> ('a security_db_scheme, unit) op" where
  "deliver_email_change kc code answer1 answer2 s =
     (case security_notification kc (prefixed s ''GradSync email change requested'') (ec_previous_email (snd kc))
             (change_notice_body (snd kc)) answer1 s of
        (Inl e, s1) \<Rightarrow> (Inl e, s1)
      | (Inr sec, s1) \<Rightarrow>
     (case security_notification kc (prefixed s ''Verify your new GradSync email'') (ec_new_email (snd kc))
             (change_code_body s code) answer2 s1 of
        (Inl e, s2) \<Rightarrow> (Inl e, s2)
      | (Inr ver, s2) \<Rightarrow>
          (Inr (), s2\<lparr>db_email_changes := tbl_update_where (\<lambda>j _. j = fst kc)
              (\<lambda>c. c\<lparr>ec_delivery_notification := Some ver, ec_security_notification := Some sec\<rparr>) (db_email_changes s2)\<rparr>)))"

definition pending_change_of :: "'a security_db_scheme \<Rightarrow> pk \<Rightarrow> (pk \<times> email_change) option" where
  "pending_change_of s user =
     youngest ec_created_at (tbl_filter (\<lambda>_ c. ec_user c = user \<and> ec_status c = EmailChange_PENDING) (db_email_changes s))"

definition save_email_change :: "pk \<Rightarrow> email_change \<Rightarrow> ('a security_db_scheme, unit) op" where
  "save_email_change k c s =
     (if key_taken_by_other verification_hash_key k c (db_email_changes s)
         \<or> key_taken_by_other pending_change_user_key k c (db_email_changes s)
         \<or> key_taken_by_other pending_change_address_key k c (db_email_changes s)
      then (Inl (IntegrityError ''verification_hash''), s)
      else (Inr (), s\<lparr>db_email_changes := tbl_put k (c\<lparr>ec_updated_at := db_now s\<rparr>) (db_email_changes s)\<rparr>))"

definition resend_email_change :: "pk \<Rightarrow> string \<Rightarrow> ('a security_db_scheme, pk) op" where
  "resend_email_change user code = atomic (\<lambda>s.
     let none = (Inl (ValidationError ''No active email change request exists.''), s)
     in case pending_change_of s user of
          None \<Rightarrow> none
        | Some (k, c) \<Rightarrow>
            if \<not> email_change_is_usable c (db_now s) then none
            else (case save_email_change k (c\<lparr>ec_verification_hash := hash_secret s code ''email-change''\<rparr>) s of
                    (Inl e, s1) \<Rightarrow> (Inl e, s1) | (Inr _, s1) \<Rightarrow> (Inr k, s1)))"

definition cancel_email_change :: "actor \<Rightarrow> ('a security_db_scheme, pk option) op" where
  "cancel_email_change u = atomic (\<lambda>s.
     case pending_change_of s (u_id u) of
       None \<Rightarrow> (Inr None, s)
     | Some (k, c) \<Rightarrow>
         (case save_email_change k (c\<lparr>ec_status := EmailChange_CANCELLED, ec_cancelled_at := Some (db_now s)\<rparr>) s of
            (Inl e, s1) \<Rightarrow> (Inl e, s1)
          | (Inr _, s1) \<Rightarrow>
              (Inr (Some k), email_change_event u ''account_security.email_change_cancelled'' ''Email change cancelled''
                 k AuditEvent_SUCCEEDED EmailChange_CANCELLED s1)))"

definition email_change_invalid :: error where
  "email_change_invalid = ValueError ''Email change instruction is invalid or expired.''"

text \<open>\<open>User.email\<close> is unique; the new address is in lower case.\<close>

definition save_user_email :: "pk \<Rightarrow> string \<Rightarrow> ('a core_db_scheme, unit) op" where
  "save_user_email k email s =
     (if tbl_exists (\<lambda>j u. j \<noteq> k \<and> u_email u = email) (db_users s) then (Inl (IntegrityError ''email''), s)
      else (Inr (), update_user k (\<lambda>u. u\<lparr>u_email := email, u_email_verified_at := Some (db_now s)\<rparr>) s))"

definition completed_mails ::
  "pk \<times> email_change \<Rightarrow> string \<Rightarrow> mail_answer \<Rightarrow> mail_answer \<Rightarrow> ('a security_db_scheme, unit) op" where
  "completed_mails kc previous answer1 answer2 s =
     (let subject = py_strip (EMAIL_SUBJECT_PREFIX (db_account_settings s) @ '' GradSync email changed'');
          body = ''Your GradSync sign-in email change is complete.''
      in case security_notification kc subject previous body answer1 s of
           (Inl e, s1) \<Rightarrow> (Inl e, s1)
         | (Inr _, s1) \<Rightarrow> void (security_notification kc subject (ec_new_email (snd kc)) body answer2) s1)"

definition verify_email_change ::
  "pk \<Rightarrow> pk \<Rightarrow> string \<Rightarrow> mail_answer \<Rightarrow> mail_answer \<Rightarrow> ('a security_db_scheme, pk) op" where
  "verify_email_change user k code answer1 answer2 = atomic (\<lambda>s.
     case tbl_get (db_email_changes s) k of
       None \<Rightarrow> (Inl email_change_invalid, s)
     | Some c \<Rightarrow>
     if ec_user c \<noteq> user \<or> \<not> email_change_is_usable c (db_now s)
        \<or> ec_verification_hash c \<noteq> hash_secret s code ''email-change''
     then (Inl email_change_invalid, s)
     else case tbl_get (db_users s) user of
       None \<Rightarrow> (Inl (DoesNotExist ''User''), s)
     | Some u \<Rightarrow>
     if email_used_by_other s user (ec_new_email c)
     then (Inl (ValidationError ''An account with this email already exists.''), s)
     else (case save_user_email user (ec_new_email c) s of
       (Inl e, s1) \<Rightarrow> (Inl e, s1)
     | (Inr _, s1) \<Rightarrow>
     let c' = c\<lparr>ec_status := EmailChange_VERIFIED, ec_verified_at := Some (db_now s)\<rparr>;
         actor = actor_of_user user (u\<lparr>u_email := ec_new_email c, u_email_verified_at := Some (db_now s)\<rparr>)
     in (case save_email_change k c' s1 of
       (Inl e, s2) \<Rightarrow> (Inl e, s2)
     | (Inr _, s2) \<Rightarrow>
     (case revoke_user_sessions user (Some actor) None ''email_changed'' s2 of
       (Inl e, s3) \<Rightarrow> (Inl e, s3)
     | (Inr _, s3) \<Rightarrow>
     (case completed_mails (k, c') (u_email u) answer1 answer2
             (email_change_event actor ''account_security.email_change_completed'' ''Email change completed''
                k AuditEvent_SUCCEEDED EmailChange_VERIFIED s3) of
       (Inl e, s4) \<Rightarrow> (Inl e, s4)
     | (Inr _, s4) \<Rightarrow> (Inr user, s4))))))"

definition pending_email_change :: "pk \<Rightarrow> 'a security_db_scheme \<Rightarrow> pk option \<times> 'a security_db_scheme" where
  "pending_email_change user s =
     (case pending_change_of s user of
        None \<Rightarrow> (None, s)
      | Some (k, c) \<Rightarrow>
          if ec_expires_at c < db_now s
          then (None, s\<lparr>db_email_changes := tbl_update_where (\<lambda>j _. j = k)
                          (\<lambda>c. c\<lparr>ec_status := EmailChange_EXPIRED\<rparr>) (db_email_changes s)\<rparr>)
          else (Some k, s))"

end
