(* ===== verification/AccountRules.thy ===== *)
theory AccountRules
  imports AccountSecurity
begin

text \<open>
  What holds over every run of the account services.

  \<^item> The constraints: one pending recovery and one pending change of address for an account, one pending change
    for an address, every secret hash once, one session for a browser session.
  \<^item> What is closed stays closed: a recovery or a change of address that is no longer pending keeps its status, a
    revoked session stays revoked and none becomes active again.
  \<^item> Recovering the password, and changing the address, ends every session of the account.
  \<^item> Administration never removes the last active administrator.
\<close>

section \<open>The constraints\<close>

definition recoveries_ok :: "recovery_request table \<Rightarrow> bool" where
  "recoveries_ok t \<longleftrightarrow> tbl_wf t \<and> unique_on recovery_token_key t \<and> unique_on pending_recovery_key t"

definition email_changes_ok :: "email_change table \<Rightarrow> bool" where
  "email_changes_ok t \<longleftrightarrow>
     tbl_wf t \<and> unique_on verification_hash_key t \<and> unique_on pending_change_user_key t
     \<and> unique_on pending_change_address_key t"

definition sessions_ok :: "account_session table \<Rightarrow> bool" where
  "sessions_ok t \<longleftrightarrow> tbl_wf t \<and> unique_on session_hash_key t"

definition security_ok :: "'a security_db_scheme \<Rightarrow> bool" where
  "security_ok s \<longleftrightarrow>
     recoveries_ok (db_recovery_requests s) \<and> email_changes_ok (db_email_changes s) \<and> sessions_ok (db_sessions s)"

definition recoveries_evolve :: "recovery_request table \<Rightarrow> recovery_request table \<Rightarrow> bool" where
  "recoveries_evolve t t' \<longleftrightarrow>
     (\<forall>k r. tbl_get t k = Some r \<longrightarrow> (\<exists>r'. tbl_get t' k = Some r' \<and> rq_user r' = rq_user r
        \<and> rq_token_hash r' = rq_token_hash r \<and> (rq_status r \<noteq> Recovery_PENDING \<longrightarrow> rq_status r' = rq_status r)))"

definition email_changes_evolve :: "email_change table \<Rightarrow> email_change table \<Rightarrow> bool" where
  "email_changes_evolve t t' \<longleftrightarrow>
     (\<forall>k c. tbl_get t k = Some c \<longrightarrow> (\<exists>c'. tbl_get t' k = Some c' \<and> ec_user c' = ec_user c
        \<and> ec_new_email c' = ec_new_email c \<and> (ec_status c \<noteq> EmailChange_PENDING \<longrightarrow> ec_status c' = ec_status c)))"

definition security_evolves :: "'a security_db_scheme \<Rightarrow> 'a security_db_scheme \<Rightarrow> bool" where
  "security_evolves s s' \<longleftrightarrow>
     recoveries_evolve (db_recovery_requests s) (db_recovery_requests s')
     \<and> email_changes_evolve (db_email_changes s) (db_email_changes s')
     \<and> sessions_evolve (db_sessions s) (db_sessions s')"

lemma recoveries_evolve_refl [simp]: "recoveries_evolve t t"
  by (simp add: recoveries_evolve_def)

lemma email_changes_evolve_refl [simp]: "email_changes_evolve t t"
  by (simp add: email_changes_evolve_def)

lemma recoveries_evolve_trans: "recoveries_evolve t u \<Longrightarrow> recoveries_evolve u v \<Longrightarrow> recoveries_evolve t v"
  unfolding recoveries_evolve_def by metis

lemma email_changes_evolve_trans: "email_changes_evolve t u \<Longrightarrow> email_changes_evolve u v \<Longrightarrow> email_changes_evolve t v"
  unfolding email_changes_evolve_def by metis

text \<open>A step keeps the constraints and takes nothing back.\<close>

definition sound :: "'a security_db_scheme \<Rightarrow> 'a security_db_scheme \<Rightarrow> bool" where
  "sound s s' \<longleftrightarrow> (security_ok s \<longrightarrow> security_ok s' \<and> security_evolves s s')"

lemma security_evolves_refl [simp]: "security_evolves s s"
  by (simp add: security_evolves_def)

lemma security_evolves_trans: "security_evolves s t \<Longrightarrow> security_evolves t u \<Longrightarrow> security_evolves s u"
  unfolding security_evolves_def
  by (blast intro: recoveries_evolve_trans email_changes_evolve_trans sessions_evolve_trans)

lemma sound_refl [simp, intro]: "sound s s"
  by (simp add: sound_def)

lemma sound_trans: "sound s t \<Longrightarrow> sound t u \<Longrightarrow> sound s u"
  unfolding sound_def by (blast intro: security_evolves_trans)

lemma sound_same:
  "db_recovery_requests s' = db_recovery_requests s \<Longrightarrow> db_email_changes s' = db_email_changes s
   \<Longrightarrow> db_sessions s' = db_sessions s \<Longrightarrow> sound s s'"
  by (simp add: sound_def security_ok_def security_evolves_def)

lemma sound_atomic:
  assumes "atomic m s = (r, s')" "\<And>x t. m s = (Inr x, t) \<Longrightarrow> sound s t"
  shows "sound s s'"
  using assms by (cases "m s") (auto simp: atomic_def split: sum.splits)

section \<open>What writes none of the three tables\<close>

lemma sound_mail: "only_mail s s' \<Longrightarrow> sound s s'"
  using only_mailD(12) notification_more_security(3,4,5) by (blast intro: sound_same)

lemma only_mail_mark_status: "mark_notification_status kn st failure s = (n, s') \<Longrightarrow> only_mail s s'"
  by (auto simp: mark_notification_status_def Let_def update_notification_def update_attempt_def only_mail_def
      split: option.splits)

lemma only_mail_mark_failed: "mark_notification_attempt_failed kn exc b s = (n, s') \<Longrightarrow> only_mail s s'"
  by (auto simp: mark_notification_attempt_failed_def Let_def update_notification_def update_attempt_def
      insert_attempt_def only_mail_def split: option.splits prod.splits)

lemma only_mail_update_notification: "only_mail s (update_notification k f s)"
  by (simp add: update_notification_def only_mail_def)

lemma sound_after_send: "sound s (after_send kn answer refused s)"
  unfolding after_send_def
  by (auto split: mail_answer.splits intro!: sound_mail)
    (metis only_mail_mark_status only_mail_mark_failed prod.collapse)+

lemma sound_send_mail: "sound s (send_mail subject body recipient s)"
  by (rule sound_same) (simp_all add: send_mail_def)

lemma sound_event [simp]: "sound s (record_event p a t sm tg opts s)"
  by (rule sound_same) simp_all

lemma sound_update_user: "sound s (update_user k f s)"
  by (rule sound_same) (simp_all add: update_user_def)

lemma sound_is_active: "sound s (set_is_active k b s)"
  by (rule sound_same) (simp_all add: set_is_active_def)

lemma sound_save_password: "sound s (save_password k p s)"
  by (rule sound_same) (simp_all add: save_password_def)

lemma sound_send_after:
  "sound s (after_send kn answer refused (send_mail subject body recipient s))"
  by (rule sound_trans [OF sound_send_mail sound_after_send])

lemma sound_enqueue: "enqueue_notification a s = (r, s') \<Longrightarrow> sound s s'"
  by (rule sound_mail [OF only_mail_enqueue])

lemma sound_safe_delivery: "safe_delivery k recipient body answer s = (r, s') \<Longrightarrow> sound s s'"
proof (cases "tbl_get (db_notifications s) k")
  case (Some n)
  assume d: "safe_delivery k recipient body answer s = (r, s')"
  let ?s1 = "update_notification k (\<lambda>r. r\<lparr>nt_recipient_email := recipient\<rparr>) s"
  obtain n' s2 where m: "mark_notification_status (k, n\<lparr>nt_recipient_email := recipient\<rparr>) Notification_QUEUED [] ?s1 = (n', s2)"
    by fastforce
  have "sound s s2"
    using sound_mail [OF only_mail_update_notification] sound_mail [OF only_mail_mark_status [OF m]] by (rule sound_trans)
  then show ?thesis using d Some m sound_trans [OF _ sound_send_after] by (auto simp: safe_delivery_def)
qed (simp add: safe_delivery_def)

lemma sound_security_mail: "security_mail args recipient body answer s = (r, s') \<Longrightarrow> sound s s'"
  unfolding security_mail_def
  by (auto split: prod.splits sum.splits dest: sound_enqueue sound_safe_delivery intro: sound_trans)

lemma sound_security_notification: "security_notification kc subject recipient body answer s = (r, s') \<Longrightarrow> sound s s'"
  unfolding security_notification_def by (rule sound_security_mail)

section \<open>Writes of the three tables\<close>

lemma recoveries_update:
  assumes "recoveries_ok t"
    and "\<And>k r. c k r \<Longrightarrow> rq_user (g r) = rq_user r \<and> rq_token_hash (g r) = rq_token_hash r
       \<and> (rq_status r = Recovery_PENDING \<or> rq_status (g r) = rq_status r)"
  shows "recoveries_ok (tbl_update_where c g t)" "recoveries_evolve t (tbl_update_where c g t)"
proof -
  have "recovery_token_key (g r) = recovery_token_key r" if "c k r" for k r
    using assms(2) [OF that] by (simp add: recovery_token_key_def)
  moreover have "pending_recovery_key (g r) = None \<or> pending_recovery_key (g r) = pending_recovery_key r" if "c k r" for k r
    using assms(2) [OF that] by (auto simp: pending_recovery_key_def)
  ultimately show "recoveries_ok (tbl_update_where c g t)"
    using assms(1) unfolding recoveries_ok_def by (blast intro: unique_on_update_where wf_tbl_update_where)
  show "recoveries_evolve t (tbl_update_where c g t)"
    using assms(2) by (fastforce simp: recoveries_evolve_def tbl_get_update_where)
qed

lemma email_changes_update:
  assumes "email_changes_ok t"
    and "\<And>k x. c k x \<Longrightarrow> ec_user (g x) = ec_user x \<and> ec_new_email (g x) = ec_new_email x
       \<and> ec_verification_hash (g x) = ec_verification_hash x
       \<and> (ec_status (g x) = ec_status x \<or> ec_status x = EmailChange_PENDING)"
  shows "email_changes_ok (tbl_update_where c g t)" "email_changes_evolve t (tbl_update_where c g t)"
proof -
  have "verification_hash_key (g r) = verification_hash_key r" if "c k r" for k r
    using assms(2) [OF that] by (simp add: verification_hash_key_def)
  moreover have "pending_change_user_key (g r) = None \<or> pending_change_user_key (g r) = pending_change_user_key r"
    "pending_change_address_key (g r) = None \<or> pending_change_address_key (g r) = pending_change_address_key r" if "c k r" for k r
    using assms(2) [OF that] by (auto simp: pending_change_user_key_def pending_change_address_key_def)
  ultimately show "email_changes_ok (tbl_update_where c g t)"
    using assms(1) unfolding email_changes_ok_def by (blast intro: unique_on_update_where wf_tbl_update_where)
  show "email_changes_evolve t (tbl_update_where c g t)"
    using assms(2) by (fastforce simp: email_changes_evolve_def tbl_get_update_where)
qed

lemma sessions_update:
  assumes "sessions_ok t"
    and "\<And>k x. c k x \<Longrightarrow> ss_user (g x) = ss_user x \<and> session_hash_key (g x) = session_hash_key x
       \<and> (ss_status (g x) = ss_status x \<or> ss_status x = Session_ACTIVE)"
  shows "sessions_ok (tbl_update_where c g t)" "sessions_evolve t (tbl_update_where c g t)"
proof -
  show "sessions_ok (tbl_update_where c g t)"
    using assms unfolding sessions_ok_def by (blast intro: unique_on_update_where wf_tbl_update_where)
  show "sessions_evolve t (tbl_update_where c g t)"
    using assms(2) by (fastforce simp: sessions_evolve_def tbl_get_update_where)
qed

lemma sound_recoveries:
  assumes "db_recovery_requests s' = tbl_update_where c g (db_recovery_requests s)"
    and "db_email_changes s' = db_email_changes s" "db_sessions s' = db_sessions s"
    and "\<And>k r. c k r \<Longrightarrow> rq_user (g r) = rq_user r \<and> rq_token_hash (g r) = rq_token_hash r
       \<and> (rq_status r = Recovery_PENDING \<or> rq_status (g r) = rq_status r)"
  shows "sound s s'"
  using assms(1-3) recoveries_update [OF _ assms(4)]
  by (simp add: sound_def security_ok_def security_evolves_def)

lemma sound_email_changes:
  assumes "db_email_changes s' = tbl_update_where c g (db_email_changes s)"
    and "db_recovery_requests s' = db_recovery_requests s" "db_sessions s' = db_sessions s"
    and "\<And>k x. c k x \<Longrightarrow> ec_user (g x) = ec_user x \<and> ec_new_email (g x) = ec_new_email x
       \<and> ec_verification_hash (g x) = ec_verification_hash x
       \<and> (ec_status (g x) = ec_status x \<or> ec_status x = EmailChange_PENDING)"
  shows "sound s s'"
  using assms(1-3) email_changes_update [OF _ assms(4)]
  by (simp add: sound_def security_ok_def security_evolves_def)

lemma sound_sessions:
  assumes "db_sessions s' = tbl_update_where c g (db_sessions s)"
    and "db_recovery_requests s' = db_recovery_requests s" "db_email_changes s' = db_email_changes s"
    and "\<And>k x. c k x \<Longrightarrow> ss_user (g x) = ss_user x \<and> session_hash_key (g x) = session_hash_key x
       \<and> (ss_status (g x) = ss_status x \<or> ss_status x = Session_ACTIVE)"
  shows "sound s s'"
  using assms(1-3) sessions_update [OF _ assms(4)]
  by (simp add: sound_def security_ok_def security_evolves_def)

lemma sound_supersede_recoveries: "sound s (supersede_recoveries user s)"
  unfolding supersede_recoveries_def
  by (rule sound_recoveries [where c = "\<lambda>_ r. rq_user r = user \<and> rq_status r = Recovery_PENDING"
        and g = "\<lambda>r. r\<lparr>rq_status := Recovery_SUPERSEDED, rq_superseded_at := Some (db_now s), rq_updated_at := db_now s\<rparr>"])
    auto

lemma sound_revoke_recoveries:
  "sound s (s\<lparr>db_recovery_requests := tbl_update_where (\<lambda>j r. j \<noteq> k \<and> rq_user r = user \<and> rq_status r = Recovery_PENDING)
     (\<lambda>r. r\<lparr>rq_status := Recovery_REVOKED, rq_revoked_at := Some now, rq_updated_at := now\<rparr>) (db_recovery_requests s)\<rparr>)"
  by (rule sound_recoveries [where c = "\<lambda>j r. j \<noteq> k \<and> rq_user r = user \<and> rq_status r = Recovery_PENDING"
        and g = "\<lambda>r. r\<lparr>rq_status := Recovery_REVOKED, rq_revoked_at := Some now, rq_updated_at := now\<rparr>"]) auto

text \<open>An update by key reaches the one row of the key.\<close>

lemma tbl_update_where_row:
  assumes wf: "tbl_wf t" and x: "tbl_get t k = Some x"
  shows "tbl_update_where (\<lambda>j _. j = k) g t = tbl_update_where (\<lambda>j r. j = k \<and> r = x) g t"
proof -
  have "r = x" if "(k, r) \<in> set (tbl_rows t)" for r
    using tbl_get_iff [OF wf, of k r] that x by simp
  then have "map (\<lambda>(j, r). (j, if j = k then g r else r)) (tbl_rows t)
      = map (\<lambda>(j, r). (j, if j = k \<and> r = x then g r else r)) (tbl_rows t)"
    by (intro map_cong refl) auto
  then show ?thesis by (simp add: tbl_update_where_def)
qed

lemma sound_close_recoveries:
  assumes "tbl_get (db_recovery_requests s) k = Some r" "rq_status r = Recovery_PENDING"
  shows "sound s (close_recoveries k user s)"
proof -
  let ?s = "s\<lparr>db_recovery_requests := tbl_update_where (\<lambda>j _. j = k) (consumed_recovery (db_now s)) (db_recovery_requests s)\<rparr>"
  have "sound s ?s"
  proof (cases "tbl_wf (db_recovery_requests s)")
    case True
    show ?thesis
      unfolding tbl_update_where_row [OF True assms(1)]
      by (rule sound_recoveries [where c = "\<lambda>j x. j = k \<and> x = r" and g = "consumed_recovery (db_now s)"])
        (auto simp: consumed_recovery_def assms(2))
  qed (simp add: sound_def security_ok_def recoveries_ok_def)
  then show ?thesis
    using sound_trans [OF _ sound_revoke_recoveries [of ?s k user "db_now s"]] by (simp add: close_recoveries_def Let_def)
qed

lemma sound_insert_recovery: "insert_recovery r s = (x, s') \<Longrightarrow> sound s s'"
  by (auto simp: insert_recovery_def sound_def security_ok_def security_evolves_def recoveries_ok_def recoveries_evolve_def
      tbl.wf_add tbl.get_add_old unique_on_insert split: if_splits)

lemma sound_insert_change: "insert_email_change c s = (x, s') \<Longrightarrow> sound s s'"
  by (auto simp: insert_email_change_def sound_def security_ok_def security_evolves_def email_changes_ok_def
      email_changes_evolve_def tbl.wf_add tbl.get_add_old unique_on_insert split: if_splits)

lemma sound_insert_session: "insert_session c s = (x, s') \<Longrightarrow> sound s s'"
  by (auto simp: insert_session_def sound_def security_ok_def security_evolves_def sessions_ok_def
      sessions_evolve_def tbl.wf_add tbl.get_add_old unique_on_insert split: if_splits)

text \<open>Saving a pending change: its account and its address stay.\<close>

lemma sound_save_change:
  assumes "save_email_change k c s = (x, s')" "tbl_get (db_email_changes s) k = Some c0"
    and "ec_status c0 = EmailChange_PENDING" "ec_user c = ec_user c0" "ec_new_email c = ec_new_email c0"
  shows "sound s s'"
proof (cases x)
  case (Inl e)
  then show ?thesis using assms(1) by (auto simp: save_email_change_def split: if_splits)
next
  case (Inr u)
  let ?c = "c\<lparr>ec_updated_at := db_now s\<rparr>"
  have keys: "verification_hash_key ?c = verification_hash_key c" "pending_change_user_key ?c = pending_change_user_key c"
    "pending_change_address_key ?c = pending_change_address_key c"
    by (simp_all add: verification_hash_key_def pending_change_user_key_def pending_change_address_key_def)
  have nt: "\<not> key_taken_by_other verification_hash_key k ?c (db_email_changes s)"
    "\<not> key_taken_by_other pending_change_user_key k ?c (db_email_changes s)"
    "\<not> key_taken_by_other pending_change_address_key k ?c (db_email_changes s)"
    and s': "s' = s\<lparr>db_email_changes := tbl_put k ?c (db_email_changes s)\<rparr>"
    using assms(1) Inr by (auto simp: save_email_change_def key_taken_by_other_def keys split: if_splits)
  have "email_changes_evolve (db_email_changes s) (tbl_put k ?c (db_email_changes s))" if "tbl_wf (db_email_changes s)"
    using assms that by (auto simp: email_changes_evolve_def tbl.get_put)
  then show ?thesis
    using nt by (auto simp: s' sound_def security_ok_def security_evolves_def email_changes_ok_def tbl.wf_put unique_on_put)
qed

lemma sound_revoke: "revoke_session k u reason s = (x, s') \<Longrightarrow> sound s s'"
proof (cases x)
  case (Inr b)
  assume r: "revoke_session k u reason s = (x, s')"
  then have r: "revoke_session k u reason s = (Inr b, s')" using Inr by simp
  show ?thesis
    unfolding sound_def
  proof
    assume ok: "security_ok s"
    have "sessions_ok (db_sessions s')"
    proof (cases b)
      case True
      have "sessions_ok (tbl_update_where (\<lambda>j _. j = k) (revoked_session u reason (db_now s)) (db_sessions s))"
        using ok unfolding security_ok_def sessions_ok_def
        by (auto intro!: wf_tbl_update_where unique_on_update_where simp: session_hash_key_def revoked_session_def)
      then show ?thesis using r True by (auto simp: revoke_session_Inr blacklist_session_tokens_def update_session_def)
    qed (use r ok in \<open>auto simp: revoke_session_Inr security_ok_def\<close>)
    then show "security_ok s' \<and> security_evolves s s'"
      using ok sessions_evolve_revoke [OF r] only_sessionsD [OF only_sessions_revoke [OF r]]
      by (simp add: security_ok_def security_evolves_def)
  qed
qed (simp add: revoke_session_def atomic_def split: option.splits if_splits)

lemma sound_revoke_each: "sound s (snd (revoke_each u exclude reason ks s))"
proof (induction ks arbitrary: s)
  case (Cons k ks)
  obtain y s1 where r: "revoke_session k u reason s = (y, s1)" by fastforce
  note s1 = sound_revoke [OF r]
  have "sound s (snd (revoke_each u exclude reason ks s1))" by (rule sound_trans [OF s1 Cons.IH])
  then show ?case using Cons.IH [of s] s1 r by (auto split: sum.splits prod.splits)
qed simp

lemma sound_revoke_user: "revoke_user_sessions user u exclude reason s = (x, s') \<Longrightarrow> sound s s'"
  unfolding revoke_user_sessions_def by (erule sound_atomic) (metis sound_revoke_each snd_conv)

end
