(* ===== verification/AccountAuth.thy ===== *)
theory AccountAuth
  imports AccountRules
begin

text \<open>
  Who a request acts for (\<open>apps/accounts/authentication.py\<close>), the rotation of refresh tokens
  (\<open>apps/accounts/tokens.py\<close>) and the views that end or begin sessions (\<open>apps/accounts/views.py\<close>).

  What the libraries decide is an argument: the account a signed token or a browser cookie names (\<open>None\<close> where
  they refuse it), what \<open>login\<close> and \<open>logout\<close> do to the stored browser sessions, and what the token library does to
  its tables. A session id in a token or a browser session is the text of the key of a session. A view answers with
  a status code, or leaves with the error it does not catch.
\<close>

section \<open>Authentication\<close>

definition session_by_id :: "'a security_db_scheme \<Rightarrow> string \<Rightarrow> (pk \<times> account_session) option" where
  "session_by_id s sid = tbl_first (\<lambda>k _. str_of_nat k = sid) (db_sessions s)"

datatype auth_failure = User_inactive | Session_invalid

text \<open>What both authenticators do once the library has named the account.\<close>

definition session_gate ::
  "pk \<times> user \<Rightarrow> string option \<Rightarrow> http_request option \<Rightarrow> 'a security_db_scheme \<Rightarrow> (auth_failure + pk) \<times> 'a security_db_scheme" where
  "session_gate ku sid request s =
     (if u_status (snd ku) \<noteq> User_ACTIVE then (Inl User_inactive, s)
      else case sid of
        None \<Rightarrow> (Inl Session_invalid, s)
      | Some i \<Rightarrow>
          if i = [] then (Inl Session_invalid, s)
          else case session_by_id s i of
            None \<Rightarrow> (Inl Session_invalid, s)
          | Some (k, _) \<Rightarrow>
              (case get_active_session (fst ku) k s of
                 (Inl _, s1) \<Rightarrow> (Inl Session_invalid, s1)
               | (Inr x, s1) \<Rightarrow> (Inr (fst ku), touch_session (k, x) request s1)))"

definition token_get_user ::
  "pk \<times> user \<Rightarrow> string option \<Rightarrow> 'a security_db_scheme \<Rightarrow> (auth_failure + pk) \<times> 'a security_db_scheme" where
  "token_get_user ku sid s = session_gate ku sid None s"

text \<open>The browser session; no account means the request stays anonymous.\<close>

definition session_authenticate ::
  "(pk \<times> user) option \<Rightarrow> http_request \<Rightarrow> 'a security_db_scheme \<Rightarrow> (auth_failure + pk) option \<times> 'a security_db_scheme" where
  "session_authenticate found r s =
     (case found of
        None \<Rightarrow> (None, s)
      | Some ku \<Rightarrow> (case session_gate ku (hr_account_session_id r) (Some r) s of (x, s1) \<Rightarrow> (Some x, s1)))"

section \<open>Refresh tokens\<close>

type_synonym token_tables = "outstanding_token table \<times> pk list"

definition write_tokens :: "(token_tables \<Rightarrow> token_tables) \<Rightarrow> 'a security_db_scheme \<Rightarrow> 'a security_db_scheme" where
  "write_tokens f s =
     (case f (db_outstanding_tokens s, db_blacklisted_tokens s) of
        (t, b) \<Rightarrow> s\<lparr>db_outstanding_tokens := t, db_blacklisted_tokens := b\<rparr>)"

text \<open>
  \<open>opened\<close> is what the library reads in the token: the account and the session id, \<open>None\<close> where it raises;
  \<open>blacklist\<close> and \<open>issue\<close> are what it writes. The result is the account the new pair is for.
\<close>

definition rotate_refresh_token ::
  "(pk \<times> string option) option \<Rightarrow> (token_tables \<Rightarrow> token_tables) \<Rightarrow> (token_tables \<Rightarrow> token_tables)
   \<Rightarrow> 'a security_db_scheme \<Rightarrow> (string + pk) \<times> 'a security_db_scheme" where
  "rotate_refresh_token opened blacklist issue s =
     (let bad = (Inl ''Refresh token is invalid or expired.'', s)
      in case opened of
           None \<Rightarrow> bad
         | Some (user, sid) \<Rightarrow>
         (case tbl_get (db_users s) user of
            None \<Rightarrow> bad
          | Some u \<Rightarrow>
         (case sid of
            None \<Rightarrow> bad
          | Some i \<Rightarrow>
            if u_status u \<noteq> User_ACTIVE then (Inl ''This account is not active.'', s)
            else case session_by_id s i of
              None \<Rightarrow> (Inl ''Session is invalid or expired.'', s)
            | Some (k, _) \<Rightarrow>
                (case get_active_session user k s of
                   (Inl _, s1) \<Rightarrow> (Inl ''Session is invalid or expired.'', s1)
                 | (Inr x, s1) \<Rightarrow>
                     (Inr user, touch_session (k, x) None (write_tokens issue (write_tokens blacklist s1)))))))"

text \<open>\<open>readable\<close>: the cookie is there and the library opens it.\<close>

definition revoke_refresh_token ::
  "bool \<Rightarrow> (token_tables \<Rightarrow> token_tables) \<Rightarrow> 'a security_db_scheme \<Rightarrow> 'a security_db_scheme" where
  "revoke_refresh_token readable blacklist s = (if readable then write_tokens blacklist s else s)"

section \<open>Views\<close>

type_synonym browser_store = "django_session table \<Rightarrow> django_session table"

definition write_browser :: "browser_store \<Rightarrow> 'a security_db_scheme \<Rightarrow> 'a security_db_scheme" where
  "write_browser f s = s\<lparr>db_django_sessions := f (db_django_sessions s)\<rparr>"

text \<open>The login serializer: the account the password belongs to, if it is active.\<close>

definition login_serializer :: "(pk \<times> user) option \<Rightarrow> error + pk" where
  "login_serializer found =
     (case found of
        None \<Rightarrow> Inl (ValidationError ''Invalid email or password.'')
      | Some (k, u) \<Rightarrow>
          if u_status u \<noteq> User_ACTIVE
          then Inl (ValidationError ''This account is not active. Contact an administrator.'')
          else Inr k)"

text \<open>The session and the tokens of an account that has just signed in; \<open>r\<close> is the request after \<open>login\<close>.\<close>

definition start_session ::
  "pk \<Rightarrow> http_request \<Rightarrow> string \<Rightarrow> browser_store \<Rightarrow> (token_tables \<Rightarrow> token_tables) \<Rightarrow> ('a security_db_scheme, nat) op" where
  "start_session user r fresh_key login issue s =
     (case create_account_session user r fresh_key (write_browser login s) of
        (Inl e, s1) \<Rightarrow> (Inl e, s1)
      | (Inr _, s1) \<Rightarrow> (Inr 200, write_tokens issue s1))"

definition login_view ::
  "(pk \<times> user) option \<Rightarrow> http_request \<Rightarrow> string \<Rightarrow> browser_store \<Rightarrow> (token_tables \<Rightarrow> token_tables)
   \<Rightarrow> ('a security_db_scheme, nat) op" where
  "login_view found r fresh_key login issue s =
     (case login_serializer found of
        Inl e \<Rightarrow> (Inr 400, s)
      | Inr user \<Rightarrow> start_session user r fresh_key login issue s)"

definition own_session :: "'a security_db_scheme \<Rightarrow> pk \<Rightarrow> string option \<Rightarrow> (pk \<times> account_session) option" where
  "own_session s user sid =
     (case sid of
        None \<Rightarrow> None
      | Some i \<Rightarrow>
          if i = [] then None
          else case session_by_id s i of
            Some (k, x) \<Rightarrow> if ss_user x = user then Some (k, x) else None
          | None \<Rightarrow> None)"

definition logout_view ::
  "actor \<Rightarrow> http_request \<Rightarrow> bool \<Rightarrow> (token_tables \<Rightarrow> token_tables) \<Rightarrow> browser_store \<Rightarrow> ('a security_db_scheme, nat) op" where
  "logout_view u r readable blacklist logout s =
     (case (case own_session s (u_id u) (current_session_id r) of
              None \<Rightarrow> (Inr False, s)
            | Some (k, _) \<Rightarrow> revoke_session k (Some u) ''logout'' s) of
        (Inl e, s1) \<Rightarrow> (Inl e, s1)
      | (Inr _, s1) \<Rightarrow> (Inr 204, write_browser logout (revoke_refresh_token readable blacklist s1)))"

text \<open>Asking for a recovery answers the same whatever happens; an error of the services is dropped.\<close>

definition recovery_candidate :: "'a core_db_scheme \<Rightarrow> string \<Rightarrow> (pk \<times> user) option" where
  "recovery_candidate s email =
     tbl_first (\<lambda>_ u. py_lower (u_email u) = normalized_email email \<and> u_status u = User_ACTIVE \<and> u_email_verified_at u \<noteq> None)
       (db_users s)"

definition recovery_request_view ::
  "string \<Rightarrow> http_request \<Rightarrow> string \<Rightarrow> string \<Rightarrow> mail_answer \<Rightarrow> ('a security_db_scheme, nat) op" where
  "recovery_request_view email r return_to token answer s =
     (case recovery_candidate s email of
        None \<Rightarrow> (Inr 202, s)
      | Some (user, _) \<Rightarrow>
          let ip_hash = (if hr_remote_addr r = [] then [] else keyed_hash s (hr_remote_addr r))
          in case issue_password_recovery user ip_hash (hr_user_agent r) token s of
               (Inl _, s1) \<Rightarrow> (Inr 202, s1)
             | (Inr k, s1) \<Rightarrow>
                 (case tbl_get (db_recovery_requests s1) k of
                    None \<Rightarrow> (Inr 202, s1)
                  | Some rq \<Rightarrow> (Inr 202, snd (deliver_password_recovery (k, rq) token return_to answer s1))))"

text \<open>The browser's own session ends with the recovery, whosever it is.\<close>

definition recovery_confirm_view ::
  "pk \<Rightarrow> string \<Rightarrow> string \<Rightarrow> http_request \<Rightarrow> browser_store \<Rightarrow> ('a security_db_scheme, nat) op" where
  "recovery_confirm_view k token password r logout s =
     (case consume_password_recovery k token password s of
        (Inl (ValidationError _), s1) \<Rightarrow> (Inr 400, s1)
      | (Inl (ValueError _), s1) \<Rightarrow> (Inr 409, s1)
      | (Inl e, s1) \<Rightarrow> (Inl e, s1)
      | (Inr _, s1) \<Rightarrow>
          (case (case current_session_id r of
                   None \<Rightarrow> (Inr False, s1)
                 | Some i \<Rightarrow>
                     (case session_by_id s1 i of
                        None \<Rightarrow> (Inr False, s1)
                      | Some (j, _) \<Rightarrow> revoke_session j None ''password_recovery_browser_reset'' s1)) of
             (Inl e, s2) \<Rightarrow> (Inl e, s2)
           | (Inr _, s2) \<Rightarrow> (Inr 204, write_browser logout s2)))"

definition email_change_post :: "actor \<Rightarrow> string \<Rightarrow> string \<Rightarrow> string \<Rightarrow> mail_answer \<Rightarrow> mail_answer \<Rightarrow> ('a security_db_scheme, nat) op" where
  "email_change_post u email current code answer1 answer2 s =
     (case issue_email_change (u_id u) email current code s of
        (Inl (ValidationError _), s1) \<Rightarrow> (Inr 400, s1)
      | (Inl e, s1) \<Rightarrow> (Inl e, s1)
      | (Inr k, s1) \<Rightarrow>
          (case tbl_get (db_email_changes s1) k of
             None \<Rightarrow> (Inl (DoesNotExist ''EmailChangeRequest''), s1)
           | Some c \<Rightarrow>
               (case deliver_email_change (k, c) code answer1 answer2 s1 of
                  (Inl e, s2) \<Rightarrow> (Inl e, s2) | (Inr _, s2) \<Rightarrow> (Inr 202, s2))))"

definition email_change_verify_view ::
  "actor \<Rightarrow> pk \<Rightarrow> string \<Rightarrow> mail_answer \<Rightarrow> mail_answer \<Rightarrow> http_request \<Rightarrow> string \<Rightarrow> browser_store
   \<Rightarrow> (token_tables \<Rightarrow> token_tables) \<Rightarrow> ('a security_db_scheme, nat) op" where
  "email_change_verify_view u k code answer1 answer2 r fresh_key login issue s =
     (case verify_email_change (u_id u) k code answer1 answer2 s of
        (Inl (ValidationError _), s1) \<Rightarrow> (Inr 409, s1)
      | (Inl (ValueError _), s1) \<Rightarrow> (Inr 409, s1)
      | (Inl e, s1) \<Rightarrow> (Inl e, s1)
      | (Inr user, s1) \<Rightarrow> start_session user r fresh_key login issue s1)"

definition email_change_resend_view :: "actor \<Rightarrow> string \<Rightarrow> mail_answer \<Rightarrow> mail_answer \<Rightarrow> ('a security_db_scheme, nat) op" where
  "email_change_resend_view u code answer1 answer2 s =
     (case resend_email_change (u_id u) code s of
        (Inl (ValidationError _), s1) \<Rightarrow> (Inr 400, s1)
      | (Inl e, s1) \<Rightarrow> (Inl e, s1)
      | (Inr k, s1) \<Rightarrow>
          (case tbl_get (db_email_changes s1) k of
             None \<Rightarrow> (Inl (DoesNotExist ''EmailChangeRequest''), s1)
           | Some c \<Rightarrow>
               (case deliver_email_change (k, c) code answer1 answer2 s1 of
                  (Inl e, s2) \<Rightarrow> (Inl e, s2) | (Inr _, s2) \<Rightarrow> (Inr 202, s2))))"

definition revoke_others_view :: "actor \<Rightarrow> http_request \<Rightarrow> ('a security_db_scheme, nat) op" where
  "revoke_others_view u r s =
     (case revoke_user_sessions (u_id u) (Some u) (current_session_id r) ''user_revoke_others'' s of
        (Inl e, s1) \<Rightarrow> (Inl e, s1)
      | (Inr n, s1) \<Rightarrow>
          (Inr 200, account_event (Some u) ''account_security.sessions_revoked'' ''Other account sessions revoked'' None
             AuditEvent_SUCCEEDED [(''revokedCount'', PInt (int n))] s1))"

definition session_delete_view :: "actor \<Rightarrow> http_request \<Rightarrow> string \<Rightarrow> ('a security_db_scheme, nat) op" where
  "session_delete_view u r sid s =
     (if current_session_id r = Some sid then (Inr 400, s)
      else case own_session s (u_id u) (Some sid) of
        None \<Rightarrow> (Inr 404, s)
      | Some (k, x) \<Rightarrow>
          (case revoke_session k (Some u) ''user_revoked_session'' s of
             (Inl e, s1) \<Rightarrow> (Inl e, s1)
           | (Inr changed, s1) \<Rightarrow>
               (Inr 204, if changed
                  then account_event (Some u) ''account_security.session_revoked'' ''Account session revoked''
                         (Some (''AccountSession'', k)) AuditEvent_SUCCEEDED [(''status'', PStr ''revoked'')]
                         (purge_django_session x s1)
                  else s1)))"

definition password_change_view ::
  "actor \<Rightarrow> string \<Rightarrow> string \<Rightarrow> http_request \<Rightarrow> browser_store \<Rightarrow> ('a security_db_scheme, nat) op" where
  "password_change_view u current new r rehash s =
     (case change_password (u_id u) current new s of
        (Inl (ValidationError _), s1) \<Rightarrow> (Inr 400, s1)
      | (Inl e, s1) \<Rightarrow> (Inl e, s1)
      | (Inr _, s1) \<Rightarrow>
          (case revoke_user_sessions (u_id u) (Some u) (current_session_id r) ''password_changed'' (write_browser rehash s1) of
             (Inl e, s2) \<Rightarrow> (Inl e, s2)
           | (Inr _, s2) \<Rightarrow> (Inr 204, s2)))"

section \<open>Views around a single service\<close>

definition token_refresh_view ::
  "string option \<Rightarrow> (pk \<times> string option) option \<Rightarrow> (token_tables \<Rightarrow> token_tables) \<Rightarrow> (token_tables \<Rightarrow> token_tables)
   \<Rightarrow> ('a security_db_scheme, nat) op" where
  "token_refresh_view cookie opened blacklist issue s =
     (if cookie = None \<or> cookie = Some [] then (Inr 401, s)
      else case rotate_refresh_token opened blacklist issue s of
        (Inl _, s1) \<Rightarrow> (Inr 401, s1)
      | (Inr _, s1) \<Rightarrow> (Inr 200, s1))"

definition registration_view :: "registration \<Rightarrow> string \<Rightarrow> mail_answer \<Rightarrow> ('a security_db_scheme, nat) op" where
  "registration_view a code answer s =
     (case register_account a code answer s of
        (Inl (ValidationError _), s1) \<Rightarrow> (Inr 400, s1)
      | (Inl e, s1) \<Rightarrow> (Inl e, s1)
      | (Inr _, s1) \<Rightarrow> (Inr 202, s1))"

definition email_verification_view :: "string \<Rightarrow> string \<Rightarrow> ('a security_db_scheme, nat) op" where
  "email_verification_view email code s =
     (case verify_email email code s of
        (Inl (ValidationError _), s1) \<Rightarrow> (Inr 400, s1)
      | (Inl (DoesNotExist _), s1) \<Rightarrow> (Inr 400, s1)
      | (Inl e, s1) \<Rightarrow> (Inl e, s1)
      | (Inr _, s1) \<Rightarrow> (Inr 200, s1))"

definition profile_view :: "pk \<times> user \<Rightarrow> string \<Rightarrow> string \<Rightarrow> string option \<Rightarrow> ('a security_db_scheme, nat) op" where
  "profile_view ku name nickname degree s =
     (case update_profile ku name nickname degree s of
        (Inl (ValidationError _), s1) \<Rightarrow> (Inr 400, s1)
      | (Inl e, s1) \<Rightarrow> (Inl e, s1)
      | (Inr _, s1) \<Rightarrow> (Inr 200, s1))"

text \<open>A decision on a request in another status is a conflict; its message starts with \<open>Only\<close>.\<close>

definition role_activation_view :: "pk \<Rightarrow> actor \<Rightarrow> string \<Rightarrow> string \<Rightarrow> ('a security_db_scheme, nat) op" where
  "role_activation_view k reviewer action reason s =
     (if \<not> IsAdministrator reviewer then (Inl (PermissionDenied []), s)
      else case decide_role_activation k reviewer action reason s of
        (Inl (ValidationError m), s1) \<Rightarrow> (Inr (if py_startswith m ''Only '' then 409 else 400), s1)
      | (Inl e, s1) \<Rightarrow> (Inl e, s1)
      | (Inr _, s1) \<Rightarrow> (Inr 200, s1))"

section \<open>Preferred language\<close>

definition get_locale :: "'a user_scheme \<Rightarrow> string" where
  "get_locale u = (if u_locale u \<in> {''en'', ''zh''} then u_locale u else ''en'')"

definition set_locale :: "pk \<Rightarrow> string \<Rightarrow> ('a core_db_scheme, string) op" where
  "set_locale k locale s =
     (if locale \<notin> {''en'', ''zh''} then (Inl (ValidationError ''Unsupported locale''), s)
      else (Inr locale, update_user k (\<lambda>u. u\<lparr>u_locale := locale\<rparr>) s))"

end
