(* ===== verification/AccountCommands.thy ===== *)
theory AccountCommands
  imports AccountAuth
begin

text \<open>
  Every operation of the account services and their views is sound: it keeps the constraints and takes nothing back.
  They are the commands of \<open>security_step\<close>; what they promise holds over every run.
\<close>

section \<open>Sessions\<close>

lemma sound_revoke': "sound s (snd (revoke_session k u reason s))"
  by (metis sound_revoke prod.collapse)

lemma sound_revoke_user': "sound s (snd (revoke_user_sessions user u exclude reason s))"
  by (metis sound_revoke_user prod.collapse)

lemma sound_create_session: "create_account_session user r key s = (x, s') \<Longrightarrow> sound s s'"
  unfolding create_account_session_def
  by (erule sound_atomic) (auto simp: Let_def split: prod.splits sum.splits dest: sound_insert_session)

lemma sound_update_row:
  assumes "tbl_get (db_sessions s) k = Some x"
    and "ss_user (g x) = ss_user x" "session_hash_key (g x) = session_hash_key x"
    and "ss_status (g x) = ss_status x \<or> ss_status x = Session_ACTIVE"
  shows "sound s (update_session k g s)"
proof (cases "tbl_wf (db_sessions s)")
  case True
  show ?thesis
    by (rule sound_sessions [where c = "\<lambda>j r. j = k \<and> r = x" and g = g])
      (use assms in \<open>auto simp: update_session_def tbl_update_where_row [OF True assms(1)]\<close>)
qed (simp add: sound_def security_ok_def sessions_ok_def)

lemma sound_get_active: "get_active_session user k s = (x, s') \<Longrightarrow> sound s s'"
  by (auto simp: get_active_session_def session_hash_key_def split: option.splits if_splits intro!: sound_update_row)

lemma sound_touch: "sound s (touch_session x request s)"
  by (auto simp: touch_session_def Let_def session_hash_key_def
      intro!: sound_sessions [where c = "\<lambda>j r. j = fst x \<and> ss_status r = Session_ACTIVE"])

lemma sound_purge: "sound s (purge_django_session x s)"
  by (rule sound_same) (simp_all add: purge_django_session_def split: option.splits)

lemma sound_tokens: "sound s (write_tokens f s)"
  by (rule sound_same) (simp_all add: write_tokens_def split: prod.splits)

lemma sound_revoke_token: "sound s (revoke_refresh_token b f s)"
  by (simp add: revoke_refresh_token_def sound_tokens)

lemma sound_browser: "sound s (write_browser f s)"
  by (rule sound_same) (simp_all add: write_browser_def)

lemma sound_gate: "session_gate ku sid request s = (x, s') \<Longrightarrow> sound s s'"
  by (auto simp: session_gate_def split: if_splits option.splits prod.splits sum.splits
      intro: sound_trans [OF sound_get_active sound_touch] sound_get_active)

lemma sound_rotate: "rotate_refresh_token opened blacklist issue s = (x, s') \<Longrightarrow> sound s s'"
  by (auto simp: rotate_refresh_token_def Let_def split: if_splits option.splits prod.splits sum.splits
      intro: sound_get_active
        sound_trans [OF sound_get_active sound_trans [OF sound_trans [OF sound_tokens sound_tokens] sound_touch]])

lemma sound_start_session: "start_session user r key login issue s = (x, s') \<Longrightarrow> sound s s'"
  by (auto simp: start_session_def split: prod.splits sum.splits
      intro: sound_trans [OF sound_browser] sound_trans [OF _ sound_tokens] sound_create_session)

section \<open>Recovery\<close>

lemma sound_account_event [simp]: "sound s (account_event u e sm tg oc sn s)"
  by (simp add: account_event_def)

lemma sound_issue_recovery: "issue_password_recovery user ip agent token s = (x, s') \<Longrightarrow> sound s s'"
  unfolding issue_password_recovery_def
  by (erule sound_atomic)
    (auto split: option.splits prod.splits sum.splits
      intro: sound_trans [OF sound_supersede_recoveries sound_trans [OF sound_insert_recovery sound_account_event]])

lemma sound_deliver_recovery: "deliver_password_recovery kr token return_to answer s = (x, s') \<Longrightarrow> sound s s'"
proof -
  have *: "sound t (t\<lparr>db_recovery_requests := tbl_update_where (\<lambda>j _. j = fst kr)
      (\<lambda>r. r\<lparr>rq_delivery_notification := n, rq_updated_at := now\<rparr>) (db_recovery_requests t)\<rparr>)" for n now and t :: "'a security_db_scheme"
    by (rule sound_recoveries [where c = "\<lambda>j _. j = fst kr"
          and g = "\<lambda>r. r\<lparr>rq_delivery_notification := n, rq_updated_at := now\<rparr>"]) auto
  assume "deliver_password_recovery kr token return_to answer s = (x, s')"
  then show ?thesis
    by (auto simp: deliver_password_recovery_def Let_def split: prod.splits sum.splits
        intro: sound_security_mail sound_trans [OF sound_security_mail *])
qed

lemma consume_recovery_success:
  assumes "consume_password_recovery k token password s = (Inr user, s')"
  obtains r n s1 where "tbl_get (db_recovery_requests s) k = Some r" "recovery_is_usable r (db_now s)"
    "rq_token_hash r = hash_secret s token ''password-recovery''" "user = rq_user r"
    "revoke_user_sessions user None None ''password_recovery'' (close_recoveries k user (save_password user password s)) = (Inr n, s1)"
    "s' = account_event None ''account_security.password_recovery_completed'' ''Password recovery completed''
            (Some (''AccountRecoveryRequest'', k)) AuditEvent_SUCCEEDED (recovery_snapshot Recovery_CONSUMED user) s1"
    "validate_collaboration_password password = Inr ()"
  using assms by (auto simp: consume_password_recovery_def split: option.splits if_splits sum.splits prod.splits)

lemma sound_consume: "consume_password_recovery k token password s = (x, s') \<Longrightarrow> sound s s'"
proof (cases x)
  case (Inr user)
  assume c: "consume_password_recovery k token password s = (x, s')"
  obtain r n s1 where 1: "tbl_get (db_recovery_requests s) k = Some r" "recovery_is_usable r (db_now s)"
    "revoke_user_sessions user None None ''password_recovery'' (close_recoveries k user (save_password user password s)) = (Inr n, s1)"
    "s' = account_event None ''account_security.password_recovery_completed'' ''Password recovery completed''
            (Some (''AccountRecoveryRequest'', k)) AuditEvent_SUCCEEDED (recovery_snapshot Recovery_CONSUMED user) s1"
    by (rule consume_recovery_success [OF c [unfolded Inr]])
  have "sound (save_password user password s) (close_recoveries k user (save_password user password s))"
    by (rule sound_close_recoveries [where r = r]) (use 1 in \<open>auto simp: save_password_def recovery_is_usable_def\<close>)
  then have "sound s (close_recoveries k user (save_password user password s))"
    by (rule sound_trans [OF sound_save_password])
  then show ?thesis
    using sound_trans [OF _ sound_trans [OF sound_revoke_user [OF 1(3)] sound_account_event]] by (simp add: 1(4))
qed (simp add: consume_password_recovery_def atomic_def split: prod.splits sum.splits)

section \<open>Change of address\<close>

lemma sound_supersede_changes: "sound s (supersede_email_changes user s)"
  unfolding supersede_email_changes_def
  by (rule sound_email_changes [where c = "\<lambda>_ c. ec_user c = user \<and> ec_status c = EmailChange_PENDING"
        and g = "\<lambda>c. c\<lparr>ec_status := EmailChange_SUPERSEDED, ec_updated_at := db_now s\<rparr>"])
    (auto simp: verification_hash_key_def)

lemma sound_change_event [simp]: "sound s (email_change_event u e sm k oc st s)"
  by (simp add: email_change_event_def)

lemma sound_issue_change: "issue_email_change user email current code s = (x, s') \<Longrightarrow> sound s s'"
  unfolding issue_email_change_def
  by (erule sound_atomic)
    (auto simp: Let_def split: option.splits prod.splits sum.splits
      intro: sound_trans [OF sound_supersede_changes sound_trans [OF sound_insert_change sound_change_event]])

lemma sound_deliver_change: "deliver_email_change kc code answer1 answer2 s = (x, s') \<Longrightarrow> sound s s'"
proof -
  have *: "sound t (t\<lparr>db_email_changes := tbl_update_where (\<lambda>j _. j = fst kc)
      (\<lambda>c. c\<lparr>ec_delivery_notification := v, ec_security_notification := w\<rparr>) (db_email_changes t)\<rparr>)" for v w and t :: "'a security_db_scheme"
    by (rule sound_email_changes [where c = "\<lambda>j _. j = fst kc"
          and g = "\<lambda>c. c\<lparr>ec_delivery_notification := v, ec_security_notification := w\<rparr>"]) (auto simp: verification_hash_key_def)
  assume "deliver_email_change kc code answer1 answer2 s = (x, s')"
  then show ?thesis
    by (auto simp: deliver_email_change_def split: prod.splits sum.splits
        intro: sound_security_notification sound_trans [OF sound_security_notification] sound_trans [OF _ *])
qed

lemma pending_change_ofD:
  assumes "pending_change_of s user = Some (k, c)" "tbl_wf (db_email_changes s)"
  shows "tbl_get (db_email_changes s) k = Some c" "ec_user c = user" "ec_status c = EmailChange_PENDING"
  using youngest_in [OF assms(1) [unfolded pending_change_of_def]] tbl_get_iff [OF assms(2)] by (auto simp: set_tbl_filter)

lemma sound_unless_wf: "(tbl_wf (db_email_changes s) \<Longrightarrow> sound s s') \<Longrightarrow> sound s s'"
  by (auto simp: sound_def security_ok_def email_changes_ok_def)

lemma sound_resend: "resend_email_change user code s = (x, s') \<Longrightarrow> sound s s'"
proof (unfold resend_email_change_def, erule sound_atomic, rule sound_unless_wf)
  fix y t
  assume wf: "tbl_wf (db_email_changes s)"
    and r: "(let none = (Inl (ValidationError ''No active email change request exists.''), s)
      in case pending_change_of s user of None \<Rightarrow> none
     | Some (k, c) \<Rightarrow> if \<not> email_change_is_usable c (db_now s) then none
        else (case save_email_change k (c\<lparr>ec_verification_hash := hash_secret s code ''email-change''\<rparr>) s of
                (Inl e, s1) \<Rightarrow> (Inl e, s1) | (Inr _, s1) \<Rightarrow> (Inr k, s1))) = (Inr y, t)"
  show "sound s t"
  proof (cases "pending_change_of s user")
    case (Some kc)
    obtain k c where kc: "kc = (k, c)" by fastforce
    note p = pending_change_ofD [OF Some [unfolded kc] wf]
    show ?thesis
      using r p Some kc by (auto split: prod.splits sum.splits if_splits intro: sound_save_change)
  qed (use r in simp)
qed

lemma sound_cancel: "cancel_email_change u s = (x, s') \<Longrightarrow> sound s s'"
  unfolding cancel_email_change_def
proof (erule sound_atomic, rule sound_unless_wf)
  fix y t
  assume wf: "tbl_wf (db_email_changes s)"
    and r: "(case pending_change_of s (u_id u) of None \<Rightarrow> (Inr None, s)
     | Some (k, c) \<Rightarrow> (case save_email_change k (c\<lparr>ec_status := EmailChange_CANCELLED, ec_cancelled_at := Some (db_now s)\<rparr>) s of
          (Inl e, s1) \<Rightarrow> (Inl e, s1)
        | (Inr _, s1) \<Rightarrow> (Inr (Some k), email_change_event u ''account_security.email_change_cancelled'' ''Email change cancelled''
                 k AuditEvent_SUCCEEDED EmailChange_CANCELLED s1))) = (Inr y, t)"
  show "sound s t"
  proof (cases "pending_change_of s (u_id u)")
    case (Some kc)
    obtain k c where kc: "kc = (k, c)" by fastforce
    note p = pending_change_ofD [OF Some [unfolded kc] wf]
    show ?thesis
      using r p Some kc
      by (auto split: prod.splits sum.splits intro!: sound_trans [OF sound_save_change sound_change_event])
  qed (use r in simp)
qed

lemma sound_pending: "pending_email_change user s = (x, s') \<Longrightarrow> sound s s'"
proof (rule sound_unless_wf)
  assume r: "pending_email_change user s = (x, s')" and wf: "tbl_wf (db_email_changes s)"
  show "sound s s'"
  proof (cases "pending_change_of s user")
    case (Some kc)
    obtain k c where kc: "kc = (k, c)" by fastforce
    note p = pending_change_ofD [OF Some [unfolded kc] wf]
    have "sound s (s\<lparr>db_email_changes := tbl_update_where (\<lambda>j _. j = k) (\<lambda>c. c\<lparr>ec_status := EmailChange_EXPIRED\<rparr>) (db_email_changes s)\<rparr>)"
      unfolding tbl_update_where_row [OF wf p(1)]
      by (rule sound_email_changes [where c = "\<lambda>j x. j = k \<and> x = c" and g = "\<lambda>c. c\<lparr>ec_status := EmailChange_EXPIRED\<rparr>"]) (use p in \<open>auto simp: verification_hash_key_def\<close>)
    then show ?thesis using r Some kc by (auto simp: pending_email_change_def split: if_splits)
  qed (use r in \<open>simp add: pending_email_change_def\<close>)
qed

lemma sound_save_email: "save_user_email k email s = (x, s') \<Longrightarrow> sound s s'"
  by (auto simp: save_user_email_def split: if_splits intro: sound_update_user)

lemma sound_completed_mails: "completed_mails kc previous answer1 answer2 s = (x, s') \<Longrightarrow> sound s s'"
  by (auto simp: completed_mails_def Let_def void_def split: prod.splits sum.splits
      intro: sound_security_notification sound_trans [OF sound_security_notification])

text \<open>The steps of a change that is verified: the address, the request, the sessions, the two notices.\<close>

definition change_verified ::
  "pk \<Rightarrow> pk \<Rightarrow> string \<Rightarrow> 'a security_db_scheme \<Rightarrow> 'a security_db_scheme \<Rightarrow> email_change \<Rightarrow> 'a security_db_scheme
   \<Rightarrow> 'a security_db_scheme \<Rightarrow> 'a security_db_scheme \<Rightarrow> bool" where
  "change_verified user k code s s' c s1 s2 s3 \<longleftrightarrow>
     tbl_get (db_email_changes s) k = Some c \<and> ec_user c = user \<and> email_change_is_usable c (db_now s)
     \<and> ec_verification_hash c = hash_secret s code ''email-change'' \<and> \<not> email_used_by_other s user (ec_new_email c)
     \<and> save_user_email user (ec_new_email c) s = (Inr (), s1)
     \<and> save_email_change k (c\<lparr>ec_status := EmailChange_VERIFIED, ec_verified_at := Some (db_now s)\<rparr>) s1 = (Inr (), s2)
     \<and> (\<exists>actor n. revoke_user_sessions user (Some actor) None ''email_changed'' s2 = (Inr n, s3))
     \<and> (\<exists>previous actor answer1 answer2. completed_mails (k, c\<lparr>ec_status := EmailChange_VERIFIED, ec_verified_at := Some (db_now s)\<rparr>)
          previous answer1 answer2
          (email_change_event actor ''account_security.email_change_completed'' ''Email change completed''
             k AuditEvent_SUCCEEDED EmailChange_VERIFIED s3) = (Inr (), s'))"

lemma verify_change_success:
  assumes "verify_email_change user k code answer1 answer2 s = (Inr y, s')"
  shows "\<exists>c s1 s2 s3. change_verified user k code s s' c s1 s2 s3"
proof -
  obtain c where c: "tbl_get (db_email_changes s) k = Some c" "ec_user c = user" "email_change_is_usable c (db_now s)"
    "ec_verification_hash c = hash_secret s code ''email-change''"
    using assms by (simp add: verify_email_change_def split: option.splits if_splits)
  obtain u where u: "tbl_get (db_users s) user = Some u" and e: "\<not> email_used_by_other s user (ec_new_email c)"
    using assms c by (simp add: verify_email_change_def split: option.splits if_splits)
  obtain s1 where 1: "save_user_email user (ec_new_email c) s = (Inr (), s1)"
    using assms c u e by (simp add: verify_email_change_def Let_def split: prod.splits sum.splits)
  obtain s2 where 2: "save_email_change k (c\<lparr>ec_status := EmailChange_VERIFIED, ec_verified_at := Some (db_now s)\<rparr>) s1 = (Inr (), s2)"
    using assms c u e 1 by (simp add: verify_email_change_def Let_def split: prod.splits sum.splits)
  let ?actor = "actor_of_user user (u\<lparr>u_email := ec_new_email c, u_email_verified_at := Some (db_now s)\<rparr>)"
  obtain n s3 where 3: "revoke_user_sessions user (Some ?actor) None ''email_changed'' s2 = (Inr n, s3)"
    using assms c u e 1 2 by (simp add: verify_email_change_def Let_def split: prod.splits sum.splits)
  have "completed_mails (k, c\<lparr>ec_status := EmailChange_VERIFIED, ec_verified_at := Some (db_now s)\<rparr>) (u_email u) answer1 answer2
      (email_change_event ?actor ''account_security.email_change_completed'' ''Email change completed''
         k AuditEvent_SUCCEEDED EmailChange_VERIFIED s3) = (Inr (), s')"
    using assms c u e 1 2 3 by (simp add: verify_email_change_def Let_def split: prod.splits sum.splits)
  then show ?thesis using c e 1 2 3 unfolding change_verified_def by blast
qed

lemma save_user_email_frame:
  assumes "save_user_email k email s = (x, s')"
  shows "db_email_changes s' = db_email_changes s" "db_recovery_requests s' = db_recovery_requests s"
    "db_sessions s' = db_sessions s" "db_now s' = db_now s"
  using assms by (auto simp: save_user_email_def update_user_def split: if_splits)

lemma sound_verify_change: "verify_email_change user k code answer1 answer2 s = (x, s') \<Longrightarrow> sound s s'"
proof (cases x)
  case (Inr y)
  assume v: "verify_email_change user k code answer1 answer2 s = (x, s')"
  obtain c s1 s2 s3 where cv: "change_verified user k code s s' c s1 s2 s3"
    using verify_change_success [OF v [unfolded Inr]] by blast
  then obtain actor n previous actor' answer1' answer2' where
      1: "tbl_get (db_email_changes s) k = Some c" "email_change_is_usable c (db_now s)"
      "save_user_email user (ec_new_email c) s = (Inr (), s1)"
      "save_email_change k (c\<lparr>ec_status := EmailChange_VERIFIED, ec_verified_at := Some (db_now s)\<rparr>) s1 = (Inr (), s2)"
    and 2: "revoke_user_sessions user (Some actor) None ''email_changed'' s2 = (Inr n, s3)"
    and 3: "completed_mails (k, c\<lparr>ec_status := EmailChange_VERIFIED, ec_verified_at := Some (db_now s)\<rparr>) previous answer1' answer2'
        (email_change_event actor' ''account_security.email_change_completed'' ''Email change completed''
           k AuditEvent_SUCCEEDED EmailChange_VERIFIED s3) = (Inr (), s')"
    unfolding change_verified_def by blast
  have "sound s1 s2"
    by (rule sound_save_change [OF 1(4), where ?c0.0 = c])
      (use 1 in \<open>auto simp: email_change_is_usable_def save_user_email_frame [OF 1(3)]\<close>)
  then have "sound s s2" by (rule sound_trans [OF sound_save_email [OF 1(3)]])
  moreover have "sound s2 s'"
    by (rule sound_trans [OF sound_revoke_user [OF 2] sound_trans [OF sound_change_event sound_completed_mails [OF 3]]])
  ultimately show ?thesis by (rule sound_trans)
qed (simp add: verify_email_change_def atomic_def split: prod.splits sum.splits)

section \<open>Accounts\<close>

lemma sound_save_status: "sound s (save_account_status k st b s)"
  unfolding save_account_status_def by (rule sound_trans [OF sound_update_user sound_is_active])

lemma sound_account_post: "account_post u k action s = (x, s') \<Longrightarrow> sound s s'"
  by (auto simp: account_post_def suspend_account_def reactivate_account_def archive_account_def
      split: option.splits if_splits sum.splits intro: sound_save_status)

lemma sound_account_update: "account_update u k name role s = (x, s') \<Longrightarrow> sound s s'"
  by (auto simp: account_update_def edit_account_def Let_def split: option.splits if_splits sum.splits intro: sound_update_user)

lemma sound_create_code: "create_verification_code email code s = (k, s') \<Longrightarrow> sound s s'"
  by (auto simp: create_verification_code_def Let_def intro!: sound_same)

lemma sound_send_verification: "send_verification_email email code user v answer s = (x, s') \<Longrightarrow> sound s s'"
  by (auto simp: send_verification_email_def Let_def split: prod.splits sum.splits option.splits
      intro: sound_enqueue sound_trans [OF sound_enqueue]
        sound_trans [OF sound_enqueue sound_trans [OF sound_mail [OF only_mail_mark_status] sound_send_after]])

lemma sound_issue_verification: "issue_verification email code user answer s = (x, s') \<Longrightarrow> sound s s'"
  by (auto simp: issue_verification_def split: prod.splits sum.splits
      intro: sound_trans [OF sound_create_code sound_send_verification])

lemma sound_resend_code: "resend_verification_code email code answer s = (x, s') \<Longrightarrow> sound s s'"
  by (auto simp: resend_verification_code_def split: option.splits prod.splits sum.splits intro: sound_issue_verification)

lemma sound_activation_event [simp]: "sound s (record_role_activation u k r action reason s)"
  by (simp add: record_role_activation_def)

lemma sound_resubmit: "resubmit_registration ku a s = (x, s') \<Longrightarrow> sound s s'"
proof -
  have *: "sound s (s1\<lparr>db_role_activations := t\<rparr>)" if "sound s s1" for s1 t
    by (rule sound_trans [OF that]) (rule sound_same; simp)
  assume "resubmit_registration ku a s = (x, s')"
  then show ?thesis
    by (auto simp: resubmit_registration_def Let_def
        intro!: sound_trans [OF * [OF sound_trans [OF sound_update_user sound_is_active]] sound_activation_event])
qed

lemma sound_create_user: "create_user a s = (k, s') \<Longrightarrow> sound s s'"
  by (auto simp: create_user_def Let_def split: option.splits intro!: sound_same)

lemma sound_register: "register_account a code answer s = (x, s') \<Longrightarrow> sound s s'"
  unfolding register_account_def
  by (erule sound_atomic)
    (auto split: sum.splits option.splits prod.splits if_splits
      intro: sound_resubmit sound_trans [OF sound_create_user sound_issue_verification])

lemma sound_pending_activation: "pending_activation k role s = (x, s') \<Longrightarrow> sound s s'"
  by (auto simp: pending_activation_def Let_def split: if_splits intro!: sound_same)

lemma sound_verify_email: "verify_email email code s = (x, s') \<Longrightarrow> sound s s'"
  unfolding verify_email_def
proof (erule sound_atomic)
  have *: "sound s ((update_user k f t)\<lparr>db_verification_codes := v\<rparr>)" if "sound s t" for k f v and t :: "'a security_db_scheme"
    by (rule sound_trans [OF sound_trans [OF that sound_update_user]]) (rule sound_same; simp)
  fix y t
  assume "(let invalid = (Inl (ValidationError ''Invalid or expired verification code.''), s)
     in case latest_code s email of
          None \<Rightarrow> invalid
        | Some (vk, c) \<Rightarrow>
            if \<not> code_is_usable c (db_now s) \<or> vc_code_hash c \<noteq> hash_code s code then invalid
            else case tbl_first (\<lambda>_ u. u_email u = email) (db_users s) of
              None \<Rightarrow> (Inl (DoesNotExist ''User''), s)
            | Some (k, u) \<Rightarrow>
            (case (if u_requested_role u = Requested_STUDENT then (Inr (), s) else pending_activation k (u_requested_role u) s) of
              (Inl e, s1) \<Rightarrow> (Inl e, s1)
            | (Inr _, s1) \<Rightarrow>
                (Inr k, (update_user k (verified_user (db_now s)) s1)
                   \<lparr>db_verification_codes := tbl_update_where (\<lambda>j _. j = vk)
                       (\<lambda>c. c\<lparr>vc_status := Code_CONSUMED, vc_consumed_at := Some (db_now s)\<rparr>) (db_verification_codes s)\<rparr>)))
     = (Inr y, t)"
  then show "sound s t"
    by (auto simp: Let_def split: option.splits if_splits sum.splits prod.splits intro!: * dest: sound_pending_activation)
qed

lemma sound_after_decision: "sound s (account_after_decision r reviewer action s)"
  by (auto simp: account_after_decision_def Let_def approve_profile_def drop_profile_def update_user_def intro!: sound_same)

lemma sound_decide: "decide_role_activation k reviewer action reason s = (x, s') \<Longrightarrow> sound s s'"
  unfolding decide_role_activation_def
proof (erule sound_atomic)
  have *: "sound s (t\<lparr>db_role_activations := v\<rparr>)" if "sound s t" for v t
    by (rule sound_trans [OF that]) (rule sound_same; simp)
  note steps = sound_trans [OF sound_trans [OF * [OF sound_after_decision] sound_activation_event] sound_enqueue]
  fix y t
  assume "(if activation_requires action = None then (Inl (ValidationError ''Invalid role activation action.''), s)
     else case tbl_get (db_role_activations s) k of
       None \<Rightarrow> (Inl (DoesNotExist ''RoleActivationRequest''), s)
     | Some r \<Rightarrow>
     (case activation_guard r reviewer action reason of
       Inl e \<Rightarrow> (Inl e, s)
     | Inr _ \<Rightarrow>
     let r' = r\<lparr>ra_reviewer := Some (u_id reviewer), ra_reviewed_at := Some (db_now s),
                ra_review_reason := py_strip reason, ra_status := activation_result action\<rparr>;
         s1 = (account_after_decision r reviewer action s)
                \<lparr>db_role_activations := tbl_put k r' (db_role_activations s)\<rparr>;
         s2 = record_role_activation reviewer k r' action (py_strip reason) s1
     in case enqueue_notification
           ((enqueue_defaults (ra_user r) ROLE_ACTIVATION ''RoleActivationRequest'' (str_of_nat k)
              (''Teacher access request '' @ activation_status_value (ra_status r')))
            \<lparr>en_sender := Some (u_id reviewer), en_action_path := ''/profile''\<rparr>) s2 of
          (Inl e, s3) \<Rightarrow> (Inl e, s3)
        | (Inr _, s3) \<Rightarrow> (Inr k, s3))) = (Inr y, t)"
  then show "sound s t"
    by (auto simp: Let_def split: option.splits if_splits sum.splits prod.splits intro: steps)
qed

lemma sound_update_profile: "update_profile ku name nickname degree s = (x, s') \<Longrightarrow> sound s s'"
proof -
  have *: "sound s (save_profile user d t)" if "sound s t" for user d and t :: "'a security_db_scheme"
    by (rule sound_trans [OF that]) (rule sound_same; simp add: save_profile_def)
  assume "update_profile ku name nickname degree s = (x, s')"
  then show ?thesis
    unfolding update_profile_def
    by (rule sound_atomic) (auto simp: Let_def split: if_splits option.splits intro: * sound_update_user)
qed

lemma sound_change_password: "change_password k current new s = (x, s') \<Longrightarrow> sound s s'"
  by (auto simp: change_password_def split: if_splits sum.splits intro: sound_save_password)

lemma sound_set_locale: "set_locale k locale s = (x, s') \<Longrightarrow> sound s s'"
  by (auto simp: set_locale_def split: if_splits intro: sound_update_user)

end
