(* ===== verification/AccountHistory.thy ===== *)
theory AccountHistory
  imports AccountCommands
begin

text \<open>
  The account services as one system of commands, and what the steps of a recovery, of a change of address and of
  administration leave behind.
\<close>

text \<open>A family of commands that keeps an invariant and moves the state only forward.\<close>

locale evolving_system = command_system step inv
  for step :: "'c \<Rightarrow> ('s, 'a) op" and inv :: "'s \<Rightarrow> bool" +
  fixes evolves :: "'s \<Rightarrow> 's \<Rightarrow> bool"
  assumes evolves_refl: "evolves s s"
    and evolves_trans: "evolves s t \<Longrightarrow> evolves t u \<Longrightarrow> evolves s u"
    and step_evolves: "inv s \<Longrightarrow> evolves s (snd (step c s))"
begin

lemma run_forward: "inv s \<Longrightarrow> evolves s (run_all step cs s)"
proof (induction cs arbitrary: s)
  case (Cons c cs)
  then show ?case using evolves_trans [OF step_evolves Cons.IH [OF step_inv]] by simp
qed (simp add: evolves_refl)

text \<open>What every forward move keeps holds after every run.\<close>

lemma run_forward_keeps: "inv s \<Longrightarrow> p s \<Longrightarrow> (\<And>t u. evolves t u \<Longrightarrow> p t \<Longrightarrow> p u) \<Longrightarrow> p (run_all step cs s)"
  using run_forward by blast

end

section \<open>Commands\<close>

datatype security_command =
    Login "(pk \<times> user) option" http_request string browser_store "token_tables \<Rightarrow> token_tables"
  | Logout actor http_request bool "token_tables \<Rightarrow> token_tables" browser_store
  | TokenRequest "pk \<times> user" "string option"
  | BrowserRequest "(pk \<times> user) option" http_request
  | RotateToken "(pk \<times> string option) option" "token_tables \<Rightarrow> token_tables" "token_tables \<Rightarrow> token_tables"
  | RevokeToken bool "token_tables \<Rightarrow> token_tables"
  | RequestRecovery string http_request string string mail_answer
  | ConfirmRecovery pk string string http_request browser_store
  | RequestEmailChange actor string string string mail_answer mail_answer
  | ReadEmailChange pk
  | CancelEmailChange actor
  | ResendEmailChange actor string mail_answer mail_answer
  | VerifyEmailChange actor pk string mail_answer mail_answer http_request string browser_store "token_tables \<Rightarrow> token_tables"
  | RevokeOthers actor http_request
  | DeleteSession actor http_request string
  | ChangePassword actor string string http_request browser_store
  | ManageAccount actor pk string
  | UpdateAccount actor pk "string option" "global_role option"
  | Register registration string mail_answer
  | VerifyEmail string string
  | ResendCode string string mail_answer
  | DecideActivation pk actor string string
  | UpdateProfile "pk \<times> user" string string "string option"
  | SetLocale pk string
  | PassTime nat

definition answered :: "'a \<times> 's \<Rightarrow> (error + unit) \<times> 's" where
  "answered r = (Inr (), snd r)"

lemma snd_answered [simp]: "snd (answered r) = snd r"
  by (simp add: answered_def)

fun security_step :: "security_command \<Rightarrow> ('a security_db_scheme, unit) op" where
  "security_step (Login f r key login issue) = void (login_view f r key login issue)"
| "security_step (Logout u r b f logout) = void (logout_view u r b f logout)"
| "security_step (TokenRequest ku sid) = (\<lambda>s. answered (token_get_user ku sid s))"
| "security_step (BrowserRequest f r) = (\<lambda>s. answered (session_authenticate f r s))"
| "security_step (RotateToken opened blacklist issue) = (\<lambda>s. answered (rotate_refresh_token opened blacklist issue s))"
| "security_step (RevokeToken b f) = (\<lambda>s. (Inr (), revoke_refresh_token b f s))"
| "security_step (RequestRecovery email r back token a) = void (recovery_request_view email r back token a)"
| "security_step (ConfirmRecovery k token pw r logout) = void (recovery_confirm_view k token pw r logout)"
| "security_step (RequestEmailChange u email pw code a b) = void (email_change_post u email pw code a b)"
| "security_step (ReadEmailChange user) = (\<lambda>s. answered (pending_email_change user s))"
| "security_step (CancelEmailChange u) = void (cancel_email_change u)"
| "security_step (ResendEmailChange u code a b) = void (email_change_resend_view u code a b)"
| "security_step (VerifyEmailChange u k code a b r key login issue) =
     void (email_change_verify_view u k code a b r key login issue)"
| "security_step (RevokeOthers u r) = void (revoke_others_view u r)"
| "security_step (DeleteSession u r sid) = void (session_delete_view u r sid)"
| "security_step (ChangePassword u old new r rehash) = void (password_change_view u old new r rehash)"
| "security_step (ManageAccount u k action) = account_post u k action"
| "security_step (UpdateAccount u k name role) = account_update u k name role"
| "security_step (Register a code answer) = void (register_account a code answer)"
| "security_step (VerifyEmail email code) = void (verify_email email code)"
| "security_step (ResendCode email code answer) = void (resend_verification_code email code answer)"
| "security_step (DecideActivation k u action reason) = void (decide_role_activation k u action reason)"
| "security_step (UpdateProfile ku name nickname degree) = update_profile ku name nickname degree"
| "security_step (SetLocale k locale) = void (set_locale k locale)"
| "security_step (PassTime n) = (\<lambda>s. (Inr (), s\<lparr>db_now := db_now s + int n\<rparr>))"

lemma sound_login: "sound s (snd (login_view f r key login issue s))"
  by (auto simp: login_view_def split: sum.splits) (metis sound_start_session prod.collapse)

lemma sound_logout: "sound s (snd (logout_view u r b f logout s))"
proof -
  define m where "m = (case own_session s (u_id u) (current_session_id r) of
              None \<Rightarrow> (Inr False, s) | Some (k, _) \<Rightarrow> revoke_session k (Some u) ''logout'' s)"
  have "sound s (snd m)" by (auto simp: m_def sound_revoke' split: option.splits)
  then show ?thesis
    unfolding logout_view_def m_def [symmetric]
    by (auto split: prod.splits sum.splits intro: sound_trans [OF _ sound_trans [OF sound_revoke_token sound_browser]])
qed

lemma sound_recovery_request: "sound s (snd (recovery_request_view email r back token a s))"
proof -
  have d: "sound s (snd (deliver_password_recovery kr token back a t))" if "sound s t" for kr t
    by (metis that sound_deliver_recovery sound_trans prod.collapse)
  show ?thesis
    by (auto simp: recovery_request_view_def Let_def split: option.splits prod.splits sum.splits
        intro: sound_issue_recovery d)
qed

lemma sound_recovery_confirm: "sound s (snd (recovery_confirm_view k token pw r logout s))"
proof -
  obtain x s1 where c: "consume_password_recovery k token pw s = (x, s1)" by fastforce
  have *: "sound s t" if "revoke_session j u reason s1 = (y, t)" for j u reason y t
    by (rule sound_trans [OF sound_consume [OF c] sound_revoke [OF that]])
  show ?thesis
    using c sound_consume [OF c] sound_trans [OF sound_consume [OF c] sound_browser]
    by (auto simp: recovery_confirm_view_def split: option.splits prod.splits sum.splits error.splits
        intro: * sound_trans [OF * sound_browser])
qed

lemma sound_email_change_post: "sound s (snd (email_change_post u email pw code a b s))"
  by (auto simp: email_change_post_def split: option.splits prod.splits sum.splits error.splits
      intro: sound_issue_change sound_trans [OF sound_issue_change sound_deliver_change])

lemma sound_email_change_resend: "sound s (snd (email_change_resend_view u code a b s))"
  by (auto simp: email_change_resend_view_def split: option.splits prod.splits sum.splits error.splits
      intro: sound_resend sound_trans [OF sound_resend sound_deliver_change])

lemma sound_email_change_verify: "sound s (snd (email_change_verify_view u k code a b r key login issue s))"
proof -
  obtain x s1 where v: "verify_email_change (u_id u) k code a b s = (x, s1)" by fastforce
  have "sound s (snd (start_session user r key login issue s1))" for user
    by (metis sound_trans sound_verify_change [OF v] sound_start_session prod.collapse)
  then show ?thesis
    using v sound_verify_change [OF v] by (auto simp: email_change_verify_view_def split: sum.splits error.splits)
qed

lemma sound_revoke_others: "sound s (snd (revoke_others_view u r s))"
  by (auto simp: revoke_others_view_def split: prod.splits sum.splits
      intro: sound_revoke_user sound_trans [OF sound_revoke_user sound_account_event])

lemma sound_session_delete: "sound s (snd (session_delete_view u r sid s))"
  by (auto simp: session_delete_view_def split: option.splits prod.splits sum.splits
      intro: sound_revoke sound_trans [OF sound_revoke sound_trans [OF sound_purge sound_account_event]])

lemma sound_password_change: "sound s (snd (password_change_view u old new r rehash s))"
  by (auto simp: password_change_view_def split: prod.splits sum.splits error.splits
      intro: sound_change_password sound_trans [OF sound_change_password sound_trans [OF sound_browser sound_revoke_user]])

lemma sound_plain:
  "sound s (snd (token_get_user ku sid s))" "sound s (snd (session_authenticate f r s))"
  "sound s (snd (rotate_refresh_token opened blacklist issue s))" "sound s (snd (pending_email_change user s))"
  "sound s (snd (cancel_email_change u s))" "sound s (snd (account_post u k action s))"
  "sound s (snd (account_update u k new_name role s))" "sound s (snd (register_account a code answer s))"
  "sound s (snd (verify_email email code s))" "sound s (snd (resend_verification_code email code answer s))"
  "sound s (snd (decide_role_activation k u action reason s))" "sound s (snd (update_profile ku name nickname degree s))"
  "sound s (snd (set_locale k locale s))" "sound s (s\<lparr>db_now := t\<rparr>)"
proof -
  have gate: "sound s (snd (session_gate ku sid q s))" for ku q sid by (metis sound_gate prod.collapse)
  show "sound s (snd (token_get_user ku sid s))" by (simp add: token_get_user_def gate)
  show "sound s (snd (session_authenticate f r s))"
    using gate by (auto simp: session_authenticate_def split: option.splits prod.splits) (metis snd_conv)
  show "sound s (s\<lparr>db_now := t\<rparr>)" by (rule sound_same) simp_all
qed (metis sound_rotate sound_pending sound_cancel sound_account_post sound_account_update sound_register sound_verify_email
    sound_resend_code sound_decide sound_update_profile sound_set_locale prod.collapse)+

lemma sound_step: "sound s (snd (security_step c s))"
  by (cases c) (simp_all add: snd_void sound_login sound_logout sound_recovery_request sound_recovery_confirm
      sound_email_change_post sound_email_change_resend sound_email_change_verify sound_revoke_others sound_session_delete
      sound_password_change sound_plain sound_revoke_token)

interpretation security: evolving_system security_step security_ok security_evolves
  using sound_step unfolding sound_def by unfold_locales (blast intro: security_evolves_refl security_evolves_trans)+

section \<open>After a recovery\<close>

lemma close_recoveries_get:
  "map_option rq_status (tbl_get (db_recovery_requests (close_recoveries k user s)) k)
   = map_option (\<lambda>_. Recovery_CONSUMED) (tbl_get (db_recovery_requests s) k)"
  by (cases "tbl_get (db_recovery_requests s) k")
    (auto simp: close_recoveries_def Let_def tbl_get_update_where consumed_recovery_def)

text \<open>The request is used up, the new password is stored, and no session of the account is active.\<close>

lemma recovery_effect:
  assumes "consume_password_recovery k token password s = (Inr user, s')"
  shows "map_option rq_status (tbl_get (db_recovery_requests s') k) = Some Recovery_CONSUMED"
    "db_credentials s' = db_credentials (save_password user password s)"
    "\<forall>j x. tbl_get (db_sessions s') j = Some x \<longrightarrow> ss_user x = user \<longrightarrow> ss_status x \<noteq> Session_ACTIVE"
proof -
  obtain r n s1 where 1: "tbl_get (db_recovery_requests s) k = Some r"
    and 2: "revoke_user_sessions user None None ''password_recovery'' (close_recoveries k user (save_password user password s)) = (Inr n, s1)"
    and 3: "s' = account_event None ''account_security.password_recovery_completed'' ''Password recovery completed''
            (Some (''AccountRecoveryRequest'', k)) AuditEvent_SUCCEEDED (recovery_snapshot Recovery_CONSUMED user) s1"
    by (rule consume_recovery_success [OF assms]) blast
  note r = revoke_user_sessions_success [OF 2]
  have "map_option rq_status (tbl_get (db_recovery_requests s1) k) = Some Recovery_CONSUMED"
    using only_sessionsD(3) [of _ s1] r close_recoveries_get [of k user "save_password user password s"] 1
    by (auto simp: save_password_def)
  then show "map_option rq_status (tbl_get (db_recovery_requests s') k) = Some Recovery_CONSUMED"
    by (simp add: 3 account_event_def)
  show "db_credentials s' = db_credentials (save_password user password s)"
    using only_sessionsD(5) [of _ s1] r by (auto simp: 3 account_event_def close_recoveries_def Let_def)
  show "\<forall>j x. tbl_get (db_sessions s') j = Some x \<longrightarrow> ss_user x = user \<longrightarrow> ss_status x \<noteq> Session_ACTIVE"
    using r by (simp add: 3 account_event_def)
qed

text \<open>A request that is no longer pending is refused at every later time.\<close>

lemma closed_recovery_refused:
  assumes "security_ok s" "tbl_get (db_recovery_requests s) k = Some r" "rq_status r \<noteq> Recovery_PENDING"
  shows "fst (consume_password_recovery k token password (run_all security_step cs s)) = Inl recovery_invalid"
proof -
  let ?t = "run_all security_step cs s"
  obtain r' where "tbl_get (db_recovery_requests ?t) k = Some r'" "rq_status r' = rq_status r"
    using security.run_forward [OF assms(1), of cs] assms(2,3)
    unfolding security_evolves_def recoveries_evolve_def by blast
  then show ?thesis using assms(3) by (simp add: consume_password_recovery_def atomic_def recovery_is_usable_def)
qed

section \<open>Ended sessions\<close>

lemma gate_needs_active:
  assumes "session_gate ku (Some sid) q s = (Inr user, s')"
  shows "\<exists>k x. str_of_nat k = sid \<and> tbl_get (db_sessions s) k = Some x \<and> ss_user x = user \<and> user = fst ku
     \<and> is_active_session x (db_now s) \<and> u_status (snd ku) = User_ACTIVE"
proof -
  obtain k y x where k: "session_by_id s sid = Some (k, y)" and g: "get_active_session (fst ku) k s = (Inr x, s)"
      "user = fst ku" "u_status (snd ku) = User_ACTIVE"
    using assms by (auto simp: session_gate_def get_active_session_def split: if_splits option.splits prod.splits sum.splits)
  have "str_of_nat k = sid" using tbl_firstD k unfolding session_by_id_def by fastforce
  then show ?thesis using g by (auto simp: get_active_session_def split: option.splits if_splits)
qed

lemma no_active_session_refused:
  assumes "\<And>j x. tbl_get (db_sessions s) j = Some x \<Longrightarrow> ss_user x = fst ku \<Longrightarrow> ss_status x \<noteq> Session_ACTIVE"
  shows "\<exists>e. fst (session_gate ku (Some sid) q s) = Inl e"
proof (cases "session_gate ku (Some sid) q s")
  case (Pair y t)
  show ?thesis
  proof (cases y)
    case (Inr user)
    obtain k x where "tbl_get (db_sessions s) k = Some x" "ss_user x = fst ku" "ss_status x = Session_ACTIVE"
      using gate_needs_active [OF Pair [unfolded Inr]] by (auto simp: is_active_session_def)
    then show ?thesis using assms by blast
  qed (simp add: Pair)
qed

lemma ended_session_refused:
  assumes ok: "security_ok s" and x: "tbl_get (db_sessions s) k = Some x" "ss_status x \<noteq> Session_ACTIVE"
  shows "\<exists>e. fst (session_gate ku (Some (str_of_nat k)) q (run_all security_step cs s)) = Inl e"
proof (cases "session_gate ku (Some (str_of_nat k)) q (run_all security_step cs s)")
  case (Pair y t)
  obtain x' where "tbl_get (db_sessions (run_all security_step cs s)) k = Some x'" "ss_status x' \<noteq> Session_ACTIVE"
    using security.run_forward [OF ok, of cs] x unfolding security_evolves_def sessions_evolve_def by metis
  then show ?thesis
    using Pair gate_needs_active by (cases y) (fastforce simp: is_active_session_def str_of_nat_inject)+
qed

section \<open>After a change of address\<close>

text \<open>Sending a message keeps the accounts, their sessions and the requests.\<close>

definition same_accounts :: "'a security_db_scheme \<Rightarrow> 'a security_db_scheme \<Rightarrow> bool" where
  "same_accounts s s' \<longleftrightarrow>
     db_users s' = db_users s \<and> db_sessions s' = db_sessions s \<and> db_email_changes s' = db_email_changes s"

lemma same_accounts_refl [simp]: "same_accounts s s"
  by (simp add: same_accounts_def)

lemma same_accounts_trans: "same_accounts s t \<Longrightarrow> same_accounts t u \<Longrightarrow> same_accounts s u"
  by (simp add: same_accounts_def)

lemma same_accounts_mail: "only_mail s s' \<Longrightarrow> same_accounts s s'"
  using only_mailD [of s s'] notification_more_security [of s' s] by (simp add: same_accounts_def)

lemma same_accounts_send: "same_accounts s (after_send kn answer refused (send_mail subject body recipient s))"
proof -
  have "same_accounts t (after_send kn answer refused t)" for t :: "'a security_db_scheme"
    unfolding after_send_def
    by (auto split: mail_answer.splits intro!: same_accounts_mail)
      (metis only_mail_mark_status only_mail_mark_failed prod.collapse)+
  then show ?thesis by (rule same_accounts_trans [rotated]) (simp add: same_accounts_def send_mail_def)
qed

lemma same_accounts_delivery: "safe_delivery k recipient body answer s = (r, s') \<Longrightarrow> same_accounts s s'"
proof (cases "tbl_get (db_notifications s) k")
  case (Some n)
  assume d: "safe_delivery k recipient body answer s = (r, s')"
  let ?s1 = "update_notification k (\<lambda>r. r\<lparr>nt_recipient_email := recipient\<rparr>) s"
  obtain n' s2 where m: "mark_notification_status (k, n\<lparr>nt_recipient_email := recipient\<rparr>) Notification_QUEUED [] ?s1 = (n', s2)"
    by fastforce
  have "same_accounts s s2"
    using same_accounts_mail [OF only_mail_update_notification] same_accounts_mail [OF only_mail_mark_status [OF m]]
    by (rule same_accounts_trans)
  then show ?thesis using d Some m same_accounts_trans [OF _ same_accounts_send] by (auto simp: safe_delivery_def)
qed (simp add: safe_delivery_def)

lemma same_accounts_notification: "security_notification kc subject recipient body answer s = (r, s') \<Longrightarrow> same_accounts s s'"
  unfolding security_notification_def security_mail_def
  by (auto split: prod.splits sum.splits
      intro: same_accounts_mail [OF only_mail_enqueue]
        same_accounts_trans [OF same_accounts_mail [OF only_mail_enqueue] same_accounts_delivery])

lemma same_accounts_completed: "completed_mails kc previous answer1 answer2 s = (r, s') \<Longrightarrow> same_accounts s s'"
  by (auto simp: completed_mails_def Let_def void_def split: prod.splits sum.splits
      intro: same_accounts_notification same_accounts_trans [OF same_accounts_notification same_accounts_notification])

lemma change_effect:
  assumes v: "verify_email_change user k code answer1 answer2 s = (Inr y, s')" and wf: "tbl_wf (db_email_changes s)"
  shows "\<exists>c. tbl_get (db_email_changes s) k = Some c \<and> ec_user c = user
    \<and> map_option u_email (tbl_get (db_users s') user) = map_option (\<lambda>_. ec_new_email c) (tbl_get (db_users s) user)
    \<and> map_option ec_status (tbl_get (db_email_changes s') k) = Some EmailChange_VERIFIED
    \<and> (\<forall>j x. tbl_get (db_sessions s') j = Some x \<longrightarrow> ss_user x = user \<longrightarrow> ss_status x \<noteq> Session_ACTIVE)"
proof -
  obtain c s1 s2 s3 where cv: "change_verified user k code s s' c s1 s2 s3"
    using verify_change_success [OF v] by blast
  then obtain actor n previous actor' answer1' answer2' where
      1: "tbl_get (db_email_changes s) k = Some c" "ec_user c = user" "save_user_email user (ec_new_email c) s = (Inr (), s1)"
      "save_email_change k (c\<lparr>ec_status := EmailChange_VERIFIED, ec_verified_at := Some (db_now s)\<rparr>) s1 = (Inr (), s2)"
    and 2: "revoke_user_sessions user (Some actor) None ''email_changed'' s2 = (Inr n, s3)"
    and 3: "completed_mails (k, c\<lparr>ec_status := EmailChange_VERIFIED, ec_verified_at := Some (db_now s)\<rparr>) previous answer1' answer2'
        (email_change_event actor' ''account_security.email_change_completed'' ''Email change completed''
           k AuditEvent_SUCCEEDED EmailChange_VERIFIED s3) = (Inr (), s')"
    unfolding change_verified_def by blast
  note r = revoke_user_sessions_success [OF 2]
  have e: "db_users s' = db_users s3" "db_sessions s' = db_sessions s3" "db_email_changes s' = db_email_changes s3"
    using same_accounts_completed [OF 3] by (simp_all add: same_accounts_def email_change_event_def account_event_def)
  have u: "map_option u_email (tbl_get (db_users s2) user) = map_option (\<lambda>_. ec_new_email c) (tbl_get (db_users s) user)"
    using 1(3,4) by (cases "tbl_get (db_users s) user")
      (auto simp: save_user_email_def save_email_change_def update_user_def tbl_get_update_where split: if_splits)
  have "map_option ec_status (tbl_get (db_email_changes s2) k) = Some EmailChange_VERIFIED"
    using 1(4) wf save_user_email_frame(1) [OF 1(3)] by (auto simp: save_email_change_def tbl.get_put split: if_splits)
  then show ?thesis using 1(1,2) u r e only_sessionsD(1,4) [of s2 s3] by auto
qed

section \<open>The last administrator\<close>

text \<open>An update of one row changes a count by at most one, and not at all downwards where the row still counts.\<close>

lemma filter_update_one:
  "distinct (map fst rs) \<Longrightarrow>
   length (filter (\<lambda>(_, r). p r) rs) \<le> Suc (length (filter (\<lambda>(_, r). p r) (map (\<lambda>(j, r). (j, if j = k then g r else r)) rs)))"
proof (induction rs)
  case (Cons a rs)
  obtain j x where a: "a = (j, x)" by fastforce
  show ?case
  proof (cases "j = k")
    case True
    then have "map (\<lambda>(i, r). (i, if i = k then g r else r)) rs = rs"
      using Cons.prems a by (intro map_idI) (auto simp: rev_image_eqI)
    then show ?thesis by (simp add: a)
  qed (use Cons a in auto)
qed simp

lemma filter_update_kept:
  "(\<And>r. (k, r) \<in> set rs \<Longrightarrow> p r \<Longrightarrow> p (g r)) \<Longrightarrow>
   length (filter (\<lambda>(_, r). p r) rs) \<le> length (filter (\<lambda>(_, r). p r) (map (\<lambda>(j, r). (j, if j = k then g r else r)) rs))"
  by (induction rs) (fastforce split: if_splits)+

lemma active_admin_count_update:
  assumes "tbl_wf (db_users s)"
  shows "active_admin_count s \<le> Suc (active_admin_count (update_user k g s))"
  using assms filter_update_one [of "tbl_rows (db_users s)" active_admin k g]
  by (simp add: active_admin_count_def tbl_count_def tbl_filter_def update_user_def tbl_wf_def)

lemma active_admin_count_kept:
  assumes "tbl_wf (db_users s)" "tbl_get (db_users s) k = Some u" "active_admin u \<Longrightarrow> active_admin (g u)"
  shows "active_admin_count s \<le> active_admin_count (update_user k g s)"
proof -
  have "r = u" if "(k, r) \<in> set (tbl_rows (db_users s))" for r
    using tbl_get_iff [OF assms(1), of k r] that assms(2) by simp
  then show ?thesis
    using filter_update_kept [of k "tbl_rows (db_users s)" active_admin g] assms(3)
    by (auto simp: active_admin_count_def tbl_count_def tbl_filter_def update_user_def)
qed

lemma active_admin_count_set_active [simp]: "active_admin_count (set_is_active k b s) = active_admin_count s"
  by (simp add: active_admin_count_def set_is_active_def)

text \<open>A write the guard lets through leaves an active administrator.\<close>

lemma guarded_write_keeps_admin:
  assumes "guard_last_admin s u new_role = Inr ()" "tbl_wf (db_users s)" "tbl_get (db_users s) k = Some u0"
    and "u_global_role u = u_global_role u0" "0 < active_admin_count s"
    and "new_role = Some User_ADMIN \<or> \<not> active_admin u0 \<Longrightarrow> active_admin u0 \<Longrightarrow> active_admin (g u0)"
  shows "0 < active_admin_count (update_user k g s)"
proof (cases "1 < active_admin_count s")
  case True
  then show ?thesis using active_admin_count_update [OF assms(2), of k g] by linarith
next
  case False
  then have "new_role = Some User_ADMIN \<or> \<not> active_admin u0"
    using assms(1,4) by (auto simp: guard_last_admin_def is_administrator_def active_admin_def split: if_splits option.splits)
  then show ?thesis
    using active_admin_count_kept [OF assms(2,3), of g] assms(5,6) by linarith
qed

lemma account_post_keeps_admin:
  assumes "tbl_wf (db_users s)" "0 < active_admin_count s"
  shows "0 < active_admin_count (snd (account_post u k action s))"
proof -
  have *: "0 < active_admin_count (save_account_status k st b s)"
    if "guard_last_admin s r None = Inr ()" "tbl_get (db_users s) k = Some r" for r st b
    using guarded_write_keeps_admin [OF that(1) assms(1) that(2) refl assms(2), of "\<lambda>r. r\<lparr>u_status := st\<rparr>"]
    by (simp add: save_account_status_def)
  have active: "0 < active_admin_count (save_account_status k User_ACTIVE True s)" if "tbl_get (db_users s) k = Some r" for r
    using active_admin_count_kept [OF assms(1) that, of "\<lambda>r. r\<lparr>u_status := User_ACTIVE\<rparr>"] assms(2)
    by (simp add: active_admin_def save_account_status_def)
  show ?thesis
    using assms(2)
    by (simp add: account_post_def suspend_account_def archive_account_def reactivate_account_def * active
        split: option.split sum.split)
qed

lemma account_update_keeps_admin:
  assumes "tbl_wf (db_users s)" "0 < active_admin_count s"
  shows "0 < active_admin_count (snd (account_update u k new_name role s))"
proof (cases "tbl_get (db_users s) k")
  case (Some r)
  define u1 where "u1 = (case new_name of None \<Rightarrow> r | Some n \<Rightarrow> r\<lparr>u_name := n\<rparr>)"
  have role1: "u_global_role u1 = u_global_role r" by (simp add: u1_def split: option.splits)
  show ?thesis
  proof (cases role)
    case None
    have "active_admin_count s \<le> active_admin_count (update_user k (\<lambda>x. x\<lparr>u_name := u_name u1, u_global_role := u_global_role u1\<rparr>) s)"
      by (rule active_admin_count_kept [OF assms(1) Some]) (simp add: active_admin_def role1)
    then show ?thesis using assms(2) Some None by (simp add: account_update_def edit_account_def u1_def [symmetric])
  next
    case (Some g)
    have "0 < active_admin_count (update_user k (\<lambda>x. x\<lparr>u_name := u_name u1, u_global_role := g\<rparr>) s)"
      if "guard_last_admin s u1 (Some g) = Inr ()"
      by (rule guarded_write_keeps_admin [OF that assms(1) \<open>tbl_get (db_users s) k = Some r\<close> role1 assms(2)])
        (auto simp: active_admin_def)
    then show ?thesis
      using assms(2) Some \<open>tbl_get (db_users s) k = Some r\<close>
      by (auto simp: account_update_def edit_account_def u1_def [symmetric] Let_def split: sum.splits)
  qed
qed (use assms in \<open>simp add: account_update_def\<close>)

end
