(* ===== verification/AccountSamples.thy ===== *)
theory AccountSamples
  imports ExecutionSamples AccountHistory
begin

text \<open>
  Four accounts with the password \<open>Secret-1a\<close>; sam has asked for a recovery (token \<open>tok\<close>), rob's request has run
  out, ada wants a new address (code \<open>123456\<close>); sam has two active sessions, ada one that was revoked. The library
  functions are replaced by ones that can be computed.
\<close>

definition sample_crypto :: account_crypto where
  "sample_crypto =
     \<lparr>hmac_hex = (\<lambda>k t. k @ t), sha256_hex = (\<lambda>t. t), encode_password = (\<lambda>p. CHR ''$'' # p),
      password_matches = (\<lambda>p e. e = CHR ''$'' # p), token_sid = (\<lambda>_ _. None)\<rparr>"

definition sample_account_settings :: account_settings where
  "sample_account_settings =
     \<lparr>SECRET_KEY = ''k'', EMAIL_VERIFICATION_CODE_TTL_MINUTES = 10, ROLE_ACTIVATION_TTL_DAYS = 14,
      ACCOUNT_RECOVERY_TOKEN_TTL_SECONDS = 1800, EMAIL_CHANGE_TOKEN_TTL_SECONDS = 1800,
      ACCOUNT_SESSION_ACTIVITY_UPDATE_SECONDS = 300, REFRESH_TOKEN_LIFETIME = 604800, EMAIL_SUBJECT_PREFIX = [],
      PUBLIC_BASE_URL = ''https://g'', APPROVED_FRONTEND_ORIGIN = ''https://g''\<rparr>"

definition sample_recovery :: "pk \<Rightarrow> string \<Rightarrow> int \<Rightarrow> recovery_request" where
  "sample_recovery user token expires =
     \<lparr>rq_user = user, rq_token_hash = ''kpassword-recovery:'' @ token, rq_status = Recovery_PENDING,
      rq_requested_email_snapshot = [], rq_requested_ip_hash = [], rq_requested_user_agent = [],
      rq_expires_at = hours expires, rq_consumed_at = None, rq_superseded_at = None, rq_revoked_at = None,
      rq_delivery_notification = None, rq_created_at = 0, rq_updated_at = 0\<rparr>"

definition sample_change :: email_change where
  "sample_change =
     \<lparr>ec_user = 1, ec_previous_email = ''ada@example.org'', ec_new_email = ''ada@new.org'',
      ec_verification_hash = ''kemail-change:123456'', ec_status = EmailChange_PENDING, ec_expires_at = hours 1,
      ec_verified_at = None, ec_cancelled_at = None, ec_delivery_notification = None, ec_security_notification = None,
      ec_created_at = 0, ec_updated_at = 0\<rparr>"

definition sample_session :: "pk \<Rightarrow> string \<Rightarrow> session_status \<Rightarrow> account_session" where
  "sample_session user key st =
     \<lparr>ss_user = user, ss_django_session_key_hash = Some key, ss_status = st, ss_device_label = [], ss_user_agent = [],
      ss_initial_ip_hash = [], ss_last_ip_hash = [], ss_created_at = 0, ss_last_seen_at = hours (- 1),
      ss_expires_at = hours 5, ss_revoked_at = None, ss_revoked_by = None, ss_revoke_reason = []\<rparr>"

definition sample_code :: "string \<Rightarrow> verification_code" where
  "sample_code email =
     \<lparr>vc_email = email, vc_purpose = Code_REGISTRATION, vc_code_hash = ''123456'', vc_plain_code = ''123456'',
      vc_status = Code_PENDING, vc_expires_at = hours 1, vc_consumed_at = None, vc_created_at = 0\<rparr>"

definition sample_activation :: role_activation where
  "sample_activation =
     \<lparr>ra_user = 3, ra_requested_role = Requested_TEACHER, ra_activation_source = Activation_ADMIN_APPROVAL,
      ra_status = Activation_REJECTED, ra_reviewer = Some 4, ra_invitation_token_hash = [], ra_expires_at = None,
      ra_reviewed_at = Some 0, ra_review_reason = ''incomplete'', ra_created_at = 0\<rparr>"

definition sample_security :: security_db where
  "sample_security = notification_db.extend sample_mail
     (security_db.fields ((\<lambda>_. None)(1 \<mapsto> \<lparr>cr_password = ''$Secret-1a'', cr_is_active = True\<rparr>,
          2 \<mapsto> \<lparr>cr_password = ''$Secret-1a'', cr_is_active = True\<rparr>, 3 \<mapsto> \<lparr>cr_password = ''$Secret-1a'', cr_is_active = True\<rparr>,
          4 \<mapsto> \<lparr>cr_password = ''$Secret-1a'', cr_is_active = True\<rparr>))
        tbl_empty tbl_empty tbl_empty \<lparr>tbl_rows = [(1, sample_activation)], tbl_next = 2\<rparr>
        \<lparr>tbl_rows = [(1, sample_recovery 2 ''tok'' 1), (2, sample_recovery 3 ''old'' (- 1))], tbl_next = 3\<rparr>
        \<lparr>tbl_rows = [(1, sample_change)], tbl_next = 2\<rparr>
        \<lparr>tbl_rows = [(1, sample_session 2 ''a'' Session_ACTIVE), (2, sample_session 2 ''b'' Session_ACTIVE),
           (3, sample_session 1 ''c'' Session_REVOKED)], tbl_next = 4\<rparr>
        tbl_empty [] tbl_empty [] sample_account_settings sample_crypto)"

lemma sample_security_ok: "security_ok sample_security"
  by (auto simp: security_ok_def recoveries_ok_def email_changes_ok_def sessions_ok_def sample_security_def
      notification_db.defs security_db.defs tbl_wf_def unique_on_def sample_recovery_def sample_session_def
      recovery_token_key_def pending_recovery_key_def session_hash_key_def split: if_splits)

text \<open>The sample with another status of an account, and a code that was mailed to it.\<close>

definition with_status :: "pk \<Rightarrow> user_status \<Rightarrow> requested_role \<Rightarrow> 'a core_db_scheme \<Rightarrow> 'a core_db_scheme" where
  "with_status k st role = update_user k (\<lambda>u. u\<lparr>u_status := st, u_requested_role := role\<rparr>)"

definition suspended_security :: "pk \<Rightarrow> security_db" where
  "suspended_security k = set_is_active k False (with_status k User_SUSPENDED
     (if k = 2 then Requested_STUDENT else Requested_TEACHER)
     (sample_security\<lparr>db_verification_codes := \<lparr>tbl_rows = [(1, sample_code ''sam@example.org'')], tbl_next = 2\<rparr>\<rparr>))"

definition sample_request :: http_request where
  "sample_request = \<lparr>hr_session_key = None, hr_account_session_id = Some ''1'', hr_token_sid = None,
     hr_user_agent = ''Firefox/1 Linux'', hr_forwarded_for = [], hr_remote_addr = ''10.0.0.1''\<rparr>"

definition security_run :: "security_command list" where
  "security_run =
     [Login (Some (1, sample_user ''ada'' User_ADVISOR)) (sample_request\<lparr>hr_account_session_id := None\<rparr>) ''d'' (\<lambda>t. t) (\<lambda>t. t),
      ConfirmRecovery 1 ''tok'' ''Secret-2b'' sample_request (\<lambda>t. t), PassTime 60,
      VerifyEmailChange ada 1 ''123456'' (Delivered 1) (Delivered 1) sample_request ''e'' (\<lambda>t. t) (\<lambda>t. t)]"

end
