(* ===== verification/Tasks.thy ===== *)
theory Tasks
  imports Collaboration
begin

text \<open>
  Tasks of a project (\<open>apps/tasks/models.py\<close>, \<open>apps/tasks/services.py\<close>, and of \<open>apps/tasks/views.py\<close> the view set
  that reads the project and the task before it calls the service).

  A task may have a parent; saving one checks the chain of parents by walking up it. The walk is a recursion that
  ends because it never meets a key twice. Deleting a task deletes everything below it. The rows of other
  applications that point to a deleted task (deliverable links, evidence) are not part of this state.
\<close>

section \<open>Records\<close>

datatype task_status =
    Task_NOT_STARTED | Task_IN_PROGRESS | Task_BLOCKED | Task_SUBMITTED | Task_COMPLETED | Task_CANCELLED

fun task_status_value :: "task_status \<Rightarrow> string" where
  "task_status_value Task_NOT_STARTED = ''not_started''"
| "task_status_value Task_IN_PROGRESS = ''in_progress''"
| "task_status_value Task_BLOCKED = ''blocked''"
| "task_status_value Task_SUBMITTED = ''submitted''"
| "task_status_value Task_COMPLETED = ''completed''"
| "task_status_value Task_CANCELLED = ''cancelled''"

datatype task_priority = Task_LOW | Task_NORMAL | Task_HIGH | Task_URGENT

record task =
  ta_project :: pk
  ta_parent_task :: "pk option"
  ta_title :: string
  ta_description :: string
  ta_assignee :: "pk option"
  ta_assignees :: "pk list"
  ta_status :: task_status
  ta_priority :: task_priority
  ta_deadline_at :: "instant option"
  ta_created_by :: pk
  ta_completed_at :: "instant option"
  ta_created_at :: instant
  ta_updated_at :: instant

record task_db = project_db +
  db_tasks :: "task table"

lemma record_event_tasks [simp]:
  "db_tasks (record_event p a t sm tg opts s) = db_tasks s"
  "db_memberships (record_event p a t sm tg opts s) = db_memberships s"
  "db_projects (record_event p a t sm tg opts s) = db_projects s"
  by (simp_all add: record_event_def)

section \<open>Cleaning\<close>

text \<open>
  The loop over the parents: \<open>seen\<close> holds the keys met so far, first the task's own (none for a new task). Every
  step meets a stored key that was not met before, so the number of stored keys not met yet goes down.
\<close>

definition unseen :: "'a table \<Rightarrow> pk list \<Rightarrow> nat" where
  "unseen t seen = card (fst ` set (tbl_rows t) - set seen)"

lemma unseen_less: "tbl_get t k = Some r \<Longrightarrow> k \<notin> set seen \<Longrightarrow> unseen t (k # seen) < unseen t seen"
proof -
  assume k: "tbl_get t k = Some r" "k \<notin> set seen"
  then have "k \<in> fst ` set (tbl_rows t) - set seen" using tbl_getD by (force simp: image_iff)
  then have "fst ` set (tbl_rows t) - set (k # seen) \<subset> fst ` set (tbl_rows t) - set seen" by auto
  then show ?thesis unfolding unseen_def by (intro psubset_card_mono) simp_all
qed

function walk_parents :: "task table \<Rightarrow> pk list \<Rightarrow> pk option \<Rightarrow> error + unit" where
  "walk_parents t seen parent =
     (case parent of
        None \<Rightarrow> Inr ()
      | Some k \<Rightarrow>
          (case tbl_get t k of
             None \<Rightarrow> Inl (DoesNotExist ''Task'')
           | Some r \<Rightarrow>
               if k \<in> set seen then Inl (ValidationError ''Task hierarchy cannot contain cycles'')
               else walk_parents t (k # seen) (ta_parent_task r)))"
  by pat_completeness auto
termination
  by (relation "measure (\<lambda>(t, seen, _). unseen t seen)") (auto intro: unseen_less)

declare walk_parents.simps [simp del]

definition has_active_member :: "'a project_db_scheme \<Rightarrow> pk \<Rightarrow> pk \<Rightarrow> bool" where
  "has_active_member s pid user =
     tbl_exists (\<lambda>_ m. pm_project m = pid \<and> pm_user m = user \<and> pm_status m = ProjectMembership_ACTIVE) (db_memberships s)"

definition clean_task :: "'a task_db_scheme \<Rightarrow> pk option \<Rightarrow> task \<Rightarrow> error + unit" where
  "clean_task s self t =
     (case (case ta_parent_task t of
              None \<Rightarrow> Inr None
            | Some k \<Rightarrow> (case tbl_get (db_tasks s) k of None \<Rightarrow> Inl (DoesNotExist ''Task'') | Some p \<Rightarrow> Inr (Some p))) of
        Inl e \<Rightarrow> Inl e
      | Inr parent \<Rightarrow>
          if (case parent of None \<Rightarrow> False | Some p \<Rightarrow> ta_project p \<noteq> ta_project t)
          then Inl (ValidationError ''Parent task must belong to the same project'')
          else if (case (parent, ta_deadline_at t) of
                     (Some p, Some d) \<Rightarrow> (case ta_deadline_at p of None \<Rightarrow> False | Some d' \<Rightarrow> d > d')
                   | _ \<Rightarrow> False)
          then Inl (ValidationError ''Child task deadline cannot be later than parent deadline'')
          else (case walk_parents (db_tasks s) (case self of None \<Rightarrow> [] | Some k \<Rightarrow> [k]) (ta_parent_task t) of
                  Inl e \<Rightarrow> Inl e
                | Inr _ \<Rightarrow>
                    (case ta_assignee t of
                       None \<Rightarrow> Inr ()
                     | Some u \<Rightarrow>
                         if has_active_member s (ta_project t) u then Inr ()
                         else Inl (ValidationError ''Assignee must be an active project member''))))"

text \<open>
  \<open>full_clean\<close>: the field errors and those of \<open>clean\<close> are collected, of which the first is kept here; a parent that
  does not exist leaves it with the exception the access to the parent raises.
\<close>

definition clean_task_fields :: "'a task_db_scheme \<Rightarrow> task \<Rightarrow> error + unit" where
  "clean_task_fields s t =
     (if ta_title t = [] then Inl (FieldError ''title'' ''This field cannot be blank.'')
      else if 255 < length (ta_title t) then Inl (FieldError ''title'' ''Ensure this value has at most 255 characters.'')
      else if (case ta_assignee t of None \<Rightarrow> False | Some u \<Rightarrow> tbl_get (db_users s) u = None)
      then Inl (FieldError ''assignee'' ''user instance does not exist.'') else Inr ())"

definition full_clean_task :: "'a task_db_scheme \<Rightarrow> pk option \<Rightarrow> task \<Rightarrow> error + unit" where
  "full_clean_task s self t =
     (case clean_task s self t of
        Inl (DoesNotExist m) \<Rightarrow> Inl (DoesNotExist m)
      | c \<Rightarrow> (case clean_task_fields s t of Inl e \<Rightarrow> Inl e | Inr _ \<Rightarrow> c))"

definition insert_task :: "task \<Rightarrow> ('a task_db_scheme, pk) op" where
  "insert_task t s =
     (case full_clean_task s None t of
        Inl e \<Rightarrow> (Inl e, s)
      | Inr _ \<Rightarrow> (Inr (tbl_next (db_tasks s)),
          s\<lparr>db_tasks := tbl_insert (t\<lparr>ta_created_at := db_now s, ta_updated_at := db_now s\<rparr>) (db_tasks s)\<rparr>))"

text \<open>The many-to-many table is written apart; saving a row leaves the stored assignees as they are.\<close>

definition save_task :: "pk \<Rightarrow> task \<Rightarrow> ('a task_db_scheme, unit) op" where
  "save_task k t s =
     (case full_clean_task s (Some k) t of
        Inl e \<Rightarrow> (Inl e, s)
      | Inr _ \<Rightarrow> (Inr (), s\<lparr>db_tasks := tbl_put k
          (t\<lparr>ta_updated_at := db_now s,
             ta_assignees := (case tbl_get (db_tasks s) k of None \<Rightarrow> [] | Some r \<Rightarrow> ta_assignees r)\<rparr>) (db_tasks s)\<rparr>))"

definition set_assignees :: "pk \<Rightarrow> pk list \<Rightarrow> 'a task_db_scheme \<Rightarrow> 'a task_db_scheme" where
  "set_assignees k users s =
     s\<lparr>db_tasks := tbl_update_where (\<lambda>j _. j = k) (\<lambda>r. r\<lparr>ta_assignees := users\<rparr>) (db_tasks s)\<rparr>"

section \<open>Services\<close>

text \<open>
  The keyword arguments; \<open>None\<close> is an argument that was not given. They are the validated fields of the
  serializer. On creation an assignee given by id wins over the first of the list, on a change the list wins.
\<close>

record task_args =
  tg_title :: "string option"
  tg_description :: "string option"
  tg_parent_task :: "pk option option"
  tg_assignee :: "pk option option"
  tg_assignee_ids :: "pk list option"
  tg_status :: "task_status option"
  tg_priority :: "task_priority option"
  tg_deadline_at :: "instant option option"

definition resolve_assignees :: "'a project_db_scheme \<Rightarrow> pk \<Rightarrow> pk list option \<Rightarrow> error + pk list" where
  "resolve_assignees s pid ids =
     (case ids of
        None \<Rightarrow> Inr []
      | Some us \<Rightarrow>
          let normalized = rev (remdups (rev us))
          in if \<not> list_all (has_active_member s pid) normalized
             then Inl (ValidationError ''Assignees must be active project members'')
             else Inr (filter (\<lambda>u. tbl_get (db_users s) u \<noteq> None) normalized))"

definition task_event :: "actor \<Rightarrow> pk \<Rightarrow> string \<Rightarrow> string \<Rightarrow> pk \<Rightarrow> 'a audit_db_scheme \<Rightarrow> 'a audit_db_scheme" where
  "task_event u pid event_type summary k =
     record_event (Some pid) (Some u) event_type summary (Some (''Task'', k)) event_defaults"

definition new_task :: "actor \<Rightarrow> pk \<Rightarrow> string \<Rightarrow> pk list \<Rightarrow> task_args \<Rightarrow> task" where
  "new_task u pid title users a =
     \<lparr>ta_project = pid, ta_parent_task = (case tg_parent_task a of None \<Rightarrow> None | Some p \<Rightarrow> p), ta_title = title,
      ta_description = (case tg_description a of None \<Rightarrow> [] | Some d \<Rightarrow> d),
      ta_assignee = (case tg_assignee a of Some x \<Rightarrow> x | None \<Rightarrow> (case users of [] \<Rightarrow> None | x # _ \<Rightarrow> Some x)),
      ta_assignees = [], ta_status = (case tg_status a of None \<Rightarrow> Task_NOT_STARTED | Some x \<Rightarrow> x),
      ta_priority = (case tg_priority a of None \<Rightarrow> Task_NORMAL | Some x \<Rightarrow> x),
      ta_deadline_at = (case tg_deadline_at a of None \<Rightarrow> None | Some d \<Rightarrow> d), ta_created_by = u_id u,
      ta_completed_at = None, ta_created_at = 0, ta_updated_at = 0\<rparr>"

definition create_task :: "actor \<Rightarrow> pk \<times> research_project \<Rightarrow> string \<Rightarrow> task_args \<Rightarrow> ('a task_db_scheme, pk) op" where
  "create_task u p title a s =
     (if \<not> user_is_active_project_member s u (fst p)
      then (Inl (PermissionDenied ''You are not a member of this project''), s)
      else if \<not> is_project_advisor s u (fst p)
      then (Inl (PermissionDenied ''Only advisors can create project tasks''), s)
      else case ensure_project_writable (snd p) of
        Inl e \<Rightarrow> (Inl e, s)
      | Inr _ \<Rightarrow>
     (case resolve_assignees s (fst p) (tg_assignee_ids a) of
        Inl e \<Rightarrow> (Inl e, s)
      | Inr users \<Rightarrow>
     (case insert_task (new_task u (fst p) title users a) s of
        (Inl e, s1) \<Rightarrow> (Inl e, s1)
      | (Inr k, s1) \<Rightarrow>
          (Inr k, task_event u (fst p) ''task.created'' (''Created task '' @ title) k
             (if users = [] then s1 else set_assignees k users s1)))))"

definition plans_task :: "task_args \<Rightarrow> bool" where
  "plans_task a \<longleftrightarrow>
     tg_title a \<noteq> None \<or> tg_description a \<noteq> None \<or> tg_assignee a \<noteq> None \<or> tg_assignee_ids a \<noteq> None
     \<or> tg_parent_task a \<noteq> None \<or> tg_priority a \<noteq> None \<or> tg_deadline_at a \<noteq> None"

definition changed_task :: "task_args \<Rightarrow> pk list \<Rightarrow> instant \<Rightarrow> task \<Rightarrow> task" where
  "changed_task a users now t =
     t\<lparr>ta_title := (case tg_title a of None \<Rightarrow> ta_title t | Some x \<Rightarrow> x),
       ta_description := (case tg_description a of None \<Rightarrow> ta_description t | Some x \<Rightarrow> x),
       ta_parent_task := (case tg_parent_task a of None \<Rightarrow> ta_parent_task t | Some x \<Rightarrow> x),
       ta_assignee := (if tg_assignee_ids a \<noteq> None then (case users of [] \<Rightarrow> None | x # _ \<Rightarrow> Some x)
                       else case tg_assignee a of None \<Rightarrow> ta_assignee t | Some x \<Rightarrow> x),
       ta_status := (case tg_status a of None \<Rightarrow> ta_status t | Some x \<Rightarrow> x),
       ta_priority := (case tg_priority a of None \<Rightarrow> ta_priority t | Some x \<Rightarrow> x),
       ta_deadline_at := (case tg_deadline_at a of None \<Rightarrow> ta_deadline_at t | Some x \<Rightarrow> x),
       ta_completed_at := (if tg_status a = Some Task_COMPLETED then Some now else ta_completed_at t)\<rparr>"

definition update_task :: "actor \<Rightarrow> pk \<times> research_project \<Rightarrow> pk \<times> task \<Rightarrow> task_args \<Rightarrow> ('a task_db_scheme, pk) op" where
  "update_task u p kt a s =
     (let pid = fst p; k = fst kt; t = snd kt;
          is_advisor = is_project_advisor s u pid;
          is_assignee = (ta_assignee t = Some (u_id u)
            \<or> (case tbl_get (db_tasks s) k of None \<Rightarrow> False | Some r \<Rightarrow> u_id u \<in> set (ta_assignees r)))
      in if \<not> user_is_active_project_member s u pid
         then (Inl (PermissionDenied ''You are not a member of this project''), s)
         else case ensure_project_writable (snd p) of
           Inl e \<Rightarrow> (Inl e, s)
         | Inr _ \<Rightarrow>
         if \<not> (is_advisor \<or> is_assignee)
         then (Inl (PermissionDenied ''Only advisors or assigned students can update this task''), s)
         else if \<not> is_advisor \<and> plans_task a
         then (Inl (PermissionDenied ''Only advisors can change task planning fields''), s)
         else case resolve_assignees s pid (tg_assignee_ids a) of
           Inl e \<Rightarrow> (Inl e, s)
         | Inr users \<Rightarrow>
         let t' = changed_task a users (db_now s) t
         in case save_task k t' s of
           (Inl e, s1) \<Rightarrow> (Inl e, s1)
         | (Inr _, s1) \<Rightarrow>
             let s2 = (if tg_assignee_ids a = None then s1 else set_assignees k users s1)
             in (Inr k,
                 if ta_status t \<noteq> ta_status t'
                 then task_event u pid ''task.status_changed'' (''Changed task '' @ ta_title t' @ '' from ''
                        @ task_status_value (ta_status t) @ '' to '' @ task_status_value (ta_status t')) k s2
                 else task_event u pid ''task.updated'' (''Updated task '' @ ta_title t') k s2))"

text \<open>\<open>delete\<close> collects level by level what points to the rows collected so far.\<close>

definition children_of :: "task table \<Rightarrow> pk list \<Rightarrow> pk list" where
  "children_of t doomed =
     map fst (filter (\<lambda>(k, r). k \<notin> set doomed \<and> (case ta_parent_task r of None \<Rightarrow> False | Some p \<Rightarrow> p \<in> set doomed))
       (tbl_rows t))"

lemma in_children_of:
  "j \<in> set (children_of t doomed) \<longleftrightarrow>
   (\<exists>r p. (j, r) \<in> set (tbl_rows t) \<and> j \<notin> set doomed \<and> ta_parent_task r = Some p \<and> p \<in> set doomed)"
  by (force simp: children_of_def split: option.splits)

function doomed_tasks :: "task table \<Rightarrow> pk list \<Rightarrow> pk list" where
  "doomed_tasks t doomed =
     (if children_of t doomed = [] then doomed else doomed_tasks t (doomed @ children_of t doomed))"
  by pat_completeness auto
termination
proof (relation "measure (\<lambda>(t, doomed). unseen t doomed)")
  fix t doomed
  assume "children_of t doomed \<noteq> []"
  then obtain j where j: "j \<in> set (children_of t doomed)" by (cases "children_of t doomed") auto
  then have "j \<in> fst ` set (tbl_rows t)" "j \<notin> set doomed" by (force simp: in_children_of)+
  then have "fst ` set (tbl_rows t) - set (doomed @ children_of t doomed) \<subset> fst ` set (tbl_rows t) - set doomed"
    using j by auto
  then show "((t, doomed @ children_of t doomed), t, doomed) \<in> measure (\<lambda>(t, doomed). unseen t doomed)"
    by (simp add: unseen_def psubset_card_mono)
qed simp

declare doomed_tasks.simps [simp del]

definition delete_tasks :: "pk list \<Rightarrow> task table \<Rightarrow> task table" where
  "delete_tasks ks t = t\<lparr>tbl_rows := filter (\<lambda>(k, _). k \<notin> set ks) (tbl_rows t)\<rparr>"

definition delete_task :: "actor \<Rightarrow> pk \<times> research_project \<Rightarrow> pk \<times> task \<Rightarrow> ('a task_db_scheme, unit) op" where
  "delete_task u p kt s =
     (if \<not> user_is_active_project_member s u (fst p)
      then (Inl (PermissionDenied ''You are not a member of this project''), s)
      else case ensure_project_writable (snd p) of
        Inl e \<Rightarrow> (Inl e, s)
      | Inr _ \<Rightarrow>
          if \<not> is_project_advisor s u (fst p)
          then (Inl (PermissionDenied ''Only advisors can delete project tasks''), s)
          else (Inr (), (task_event u (fst p) ''task.deleted'' (''Deleted task '' @ ta_title (snd kt)) (fst kt) s)
            \<lparr>db_tasks := delete_tasks (doomed_tasks (db_tasks s) [fst kt]) (db_tasks s)\<rparr>))"

section \<open>View set\<close>

text \<open>The project the account may see, and the task of the project.\<close>

definition visible_project :: "'a project_db_scheme \<Rightarrow> actor \<Rightarrow> pk \<Rightarrow> (pk \<times> research_project) option" where
  "visible_project s u pid =
     (case tbl_get (db_projects s) pid of
        None \<Rightarrow> None
      | Some p \<Rightarrow>
          if u_is_superuser u \<or> is_administrator u \<or> has_active_member s pid (u_id u) then Some (pid, p) else None)"

definition task_of_project :: "'a task_db_scheme \<Rightarrow> pk \<Rightarrow> pk \<Rightarrow> (pk \<times> task) option" where
  "task_of_project s pid k =
     (case tbl_get (db_tasks s) k of None \<Rightarrow> None | Some t \<Rightarrow> if ta_project t = pid then Some (k, t) else None)"

definition task_create_view :: "actor \<Rightarrow> pk \<Rightarrow> string \<Rightarrow> task_args \<Rightarrow> ('a task_db_scheme, pk) op" where
  "task_create_view u pid title a s =
     (case visible_project s u pid of
        None \<Rightarrow> (Inl (DoesNotExist ''ResearchProject''), s)
      | Some p \<Rightarrow> create_task u p title a s)"

definition with_task ::
  "actor \<Rightarrow> pk \<Rightarrow> pk \<Rightarrow> (pk \<times> research_project \<Rightarrow> pk \<times> task \<Rightarrow> ('a task_db_scheme, 'b) op) \<Rightarrow> ('a task_db_scheme, 'b) op" where
  "with_task u pid k f s =
     (case visible_project s u pid of
        None \<Rightarrow> (Inl (DoesNotExist ''ResearchProject''), s)
      | Some p \<Rightarrow>
          (case task_of_project s pid k of None \<Rightarrow> (Inl (DoesNotExist ''Task''), s) | Some kt \<Rightarrow> f p kt s))"

definition task_update_view :: "actor \<Rightarrow> pk \<Rightarrow> pk \<Rightarrow> task_args \<Rightarrow> ('a task_db_scheme, pk) op" where
  "task_update_view u pid k a = with_task u pid k (\<lambda>p kt. update_task u p kt a)"

definition task_delete_view :: "actor \<Rightarrow> pk \<Rightarrow> pk \<Rightarrow> ('a task_db_scheme, unit) op" where
  "task_delete_view u pid k = with_task u pid k (\<lambda>p kt. delete_task u p kt)"

end
