(* ===== verification/TaskRules.thy ===== *)
theory TaskRules
  imports Tasks
begin

text \<open>
  The hierarchy of tasks. \<open>chain t p ks\<close> says that climbing from \<open>p\<close> meets exactly the keys \<open>ks\<close> and then ends at a
  task without parent. The check of the code accepts exactly the parents whose chain ends without meeting the task
  itself, and every operation keeps the tables in this shape, so no climb in the program runs for ever.
\<close>

section \<open>Chains of parents\<close>

fun chain :: "task table \<Rightarrow> pk option \<Rightarrow> pk list \<Rightarrow> bool" where
  "chain t p [] \<longleftrightarrow> p = None"
| "chain t p (k # ks) \<longleftrightarrow> p = Some k \<and> (\<exists>r. tbl_get t k = Some r \<and> chain t (ta_parent_task r) ks)"

lemma chain_None [simp]: "chain t None ks \<longleftrightarrow> ks = []"
  by (cases ks) auto

lemma chain_unique: "chain t p ks \<Longrightarrow> chain t p ls \<Longrightarrow> ks = ls"
proof (induction ks arbitrary: p ls)
  case (Cons k ks)
  then show ?case by (cases ls) auto
qed auto

lemma chain_suffix: "chain t p (as @ k # bs) \<Longrightarrow> chain t (Some k) (k # bs)"
  by (induction as arbitrary: p) auto

lemma chain_distinct: "chain t p ks \<Longrightarrow> distinct ks"
proof (induction ks arbitrary: p)
  case (Cons k ks)
  have "k \<notin> set ks"
  proof
    assume "k \<in> set ks"
    then obtain as bs where ks: "ks = as @ k # bs" by (meson split_list)
    have "chain t (Some k) (k # bs)"
      by (rule chain_suffix [where p = p and as = "k # as"]) (use Cons.prems ks in simp)
    moreover have "chain t (Some k) (k # ks)" using Cons.prems by auto
    ultimately have "k # bs = k # ks" by (rule chain_unique)
    then show False by (simp add: ks)
  qed
  then show ?case using Cons by auto
qed simp

lemma chain_keys: "chain t p ks \<Longrightarrow> set ks \<subseteq> fst ` set (tbl_rows t)"
proof (induction ks arbitrary: p)
  case (Cons k ks)
  then obtain r where r: "tbl_get t k = Some r" "chain t (ta_parent_task r) ks" by auto
  then have "k \<in> fst ` set (tbl_rows t)" using tbl_getD by (force simp: image_iff)
  then show ?case using Cons.IH [OF r(2)] by simp
qed simp

lemma chain_length: "chain t p ks \<Longrightarrow> length ks \<le> length (tbl_rows t)"
proof -
  assume c: "chain t p ks"
  have "card (set ks) \<le> card (fst ` set (tbl_rows t))" by (rule card_mono [OF _ chain_keys [OF c]]) simp
  also have "\<dots> \<le> card (set (tbl_rows t))" by (rule card_image_le) simp
  also have "\<dots> \<le> length (tbl_rows t)" by (rule card_length)
  finally show ?thesis using distinct_card [OF chain_distinct [OF c]] by simp
qed

lemma walk_None [simp]: "walk_parents t seen None = Inr ()"
  by (subst walk_parents.simps) simp

lemma walk_Some:
  "tbl_get t k = Some r \<Longrightarrow> walk_parents t seen (Some k) =
   (if k \<in> set seen then Inl (ValidationError ''Task hierarchy cannot contain cycles'')
    else walk_parents t (k # seen) (ta_parent_task r))"
  by (subst walk_parents.simps) simp

lemma walk_missing: "tbl_get t k = None \<Longrightarrow> walk_parents t seen (Some k) = Inl (DoesNotExist ''Task'')"
  by (subst walk_parents.simps) simp

lemma walk_chain: "walk_parents t seen p = Inr () \<Longrightarrow> \<exists>ks. chain t p ks \<and> set ks \<inter> set seen = {}"
proof (induction t seen p rule: walk_parents.induct)
  case (1 t seen p)
  show ?case
  proof (cases p)
    case (Some k)
    show ?thesis
    proof (cases "tbl_get t k")
      case (Some r)
      then have k: "k \<notin> set seen" "walk_parents t (k # seen) (ta_parent_task r) = Inr ()"
        using 1(2) \<open>p = Some k\<close> by (auto simp: walk_Some split: if_splits)
      then obtain ks where "chain t (ta_parent_task r) ks" "set ks \<inter> set (k # seen) = {}"
        using 1(1) \<open>p = Some k\<close> Some by blast
      then show ?thesis using k(1) Some \<open>p = Some k\<close> by (intro exI [of _ "k # ks"]) auto
    qed (use 1(2) Some in \<open>simp add: walk_missing\<close>)
  qed (auto intro: exI [of _ "[]"])
qed

lemma chain_walk: "chain t p ks \<Longrightarrow> distinct ks \<Longrightarrow> set ks \<inter> set seen = {} \<Longrightarrow> walk_parents t seen p = Inr ()"
proof (induction ks arbitrary: p seen)
  case (Cons k ks)
  then obtain r where r: "p = Some k" "tbl_get t k = Some r" "chain t (ta_parent_task r) ks" by auto
  have "walk_parents t (k # seen) (ta_parent_task r) = Inr ()"
    by (rule Cons.IH [OF r(3)]) (use Cons.prems in auto)
  then show ?case using Cons.prems(3) by (simp add: r(1) walk_Some [OF r(2)])
qed simp

lemma walk_iff: "walk_parents t seen p = Inr () \<longleftrightarrow> (\<exists>ks. chain t p ks \<and> set ks \<inter> set seen = {})"
  using walk_chain chain_walk chain_distinct by blast

text \<open>Where every parent exists, the only other answer is the cycle.\<close>

definition parents_exist :: "task table \<Rightarrow> bool" where
  "parents_exist t \<longleftrightarrow> (\<forall>k r j. tbl_get t k = Some r \<longrightarrow> ta_parent_task r = Some j \<longrightarrow> tbl_get t j \<noteq> None)"

lemma walk_cases:
  assumes "parents_exist t"
  shows "(case p of None \<Rightarrow> True | Some k \<Rightarrow> tbl_get t k \<noteq> None) \<Longrightarrow>
    walk_parents t seen p \<in> {Inr (), Inl (ValidationError ''Task hierarchy cannot contain cycles'')}"
  using assms
proof (induction t seen p rule: walk_parents.induct)
  case (1 t seen p)
  show ?case
  proof (cases p)
    case (Some k)
    then obtain r where r: "tbl_get t k = Some r" using 1(2) by auto
    show ?thesis
    proof (cases "k \<in> set seen")
      case False
      have "case ta_parent_task r of None \<Rightarrow> True | Some j \<Rightarrow> tbl_get t j \<noteq> None"
        using 1(3) r by (auto simp: parents_exist_def split: option.splits)
      then show ?thesis using 1(1) [OF Some r False] 1(3) False by (simp add: Some walk_Some [OF r])
    qed (simp add: Some walk_Some [OF r])
  qed simp
qed

section \<open>The invariant\<close>

definition task_row_ok :: "task table \<Rightarrow> task \<Rightarrow> bool" where
  "task_row_ok t r \<longleftrightarrow>
     ta_title r \<noteq> [] \<and> length (ta_title r) \<le> 255
     \<and> (\<forall>j. ta_parent_task r = Some j \<longrightarrow> (\<exists>q. tbl_get t j = Some q \<and> ta_project q = ta_project r))"

definition tasks_ok :: "task table \<Rightarrow> bool" where
  "tasks_ok t \<longleftrightarrow>
     tbl_wf t \<and> (\<forall>k r. tbl_get t k = Some r \<longrightarrow> task_row_ok t r \<and> (\<exists>ks. chain t (Some k) ks))"

lemma tasks_okD:
  assumes "tasks_ok t"
  shows "tbl_wf t" "tbl_get t k = Some r \<Longrightarrow> task_row_ok t r" "tbl_get t k = Some r \<Longrightarrow> \<exists>ks. chain t (Some k) ks"
  using assms by (auto simp: tasks_ok_def)

lemma chain_cong:
  "chain t p ks \<Longrightarrow> (\<And>k. k \<in> set ks \<Longrightarrow> map_option ta_parent_task (tbl_get t' k) = map_option ta_parent_task (tbl_get t k))
   \<Longrightarrow> chain t' p ks"
proof (induction ks arbitrary: p)
  case (Cons k ks)
  then obtain r where r: "p = Some k" "tbl_get t k = Some r" "chain t (ta_parent_task r) ks" by auto
  obtain r' where r': "tbl_get t' k = Some r'" "ta_parent_task r' = ta_parent_task r"
    using Cons.prems(2) [of k] r(2) by auto
  have "chain t' (ta_parent_task r) ks" by (rule Cons.IH [OF r(3)]) (use Cons.prems(2) in simp)
  then show ?case using r(1) r' by simp
qed simp

lemma task_row_ok_mono:
  assumes "task_row_ok t r" "\<And>j q. tbl_get t j = Some q \<Longrightarrow> \<exists>q'. tbl_get t' j = Some q' \<and> ta_project q' = ta_project q"
    and "ta_title r' = ta_title r" "ta_parent_task r' = ta_parent_task r" "ta_project r' = ta_project r"
  shows "task_row_ok t' r'"
  using assms unfolding task_row_ok_def by metis

text \<open>What a successful check says of the task to be saved.\<close>

lemma full_clean_task:
  assumes "full_clean_task s self t = Inr ()"
  shows "task_row_ok (db_tasks s) t"
    "\<exists>ks. chain (db_tasks s) (ta_parent_task t) ks \<and> (\<forall>k. self = Some k \<longrightarrow> k \<notin> set ks)"
    "\<forall>p q d d'. ta_parent_task t = Some p \<longrightarrow> tbl_get (db_tasks s) p = Some q \<longrightarrow> ta_deadline_at t = Some d
       \<longrightarrow> ta_deadline_at q = Some d' \<longrightarrow> d \<le> d'"
    "\<forall>u. ta_assignee t = Some u \<longrightarrow> has_active_member s (ta_project t) u"
proof -
  have c: "clean_task s self t = Inr ()" and f: "clean_task_fields s t = Inr ()"
    using assms by (auto simp: full_clean_task_def split: sum.splits error.splits)
  show "task_row_ok (db_tasks s) t"
    using c f by (auto simp: task_row_ok_def clean_task_def clean_task_fields_def split: option.splits if_splits sum.splits)
  have "walk_parents (db_tasks s) (case self of None \<Rightarrow> [] | Some k \<Rightarrow> [k]) (ta_parent_task t) = Inr ()"
    using c by (auto simp: clean_task_def split: option.splits if_splits sum.splits)
  then show "\<exists>ks. chain (db_tasks s) (ta_parent_task t) ks \<and> (\<forall>k. self = Some k \<longrightarrow> k \<notin> set ks)"
    using walk_chain by (fastforce split: option.splits)
  show "\<forall>p q d d'. ta_parent_task t = Some p \<longrightarrow> tbl_get (db_tasks s) p = Some q \<longrightarrow> ta_deadline_at t = Some d
       \<longrightarrow> ta_deadline_at q = Some d' \<longrightarrow> d \<le> d'"
    using c by (auto simp: clean_task_def split: option.splits if_splits sum.splits)
  show "\<forall>u. ta_assignee t = Some u \<longrightarrow> has_active_member s (ta_project t) u"
    using c by (auto simp: clean_task_def split: option.splits if_splits sum.splits)
qed

lemma tasks_ok_insert:
  assumes ok: "tasks_ok t" and row: "task_row_ok t r" and c: "chain t (ta_parent_task r) ks"
  shows "tasks_ok (tbl_insert r t)"
proof -
  have wf: "tbl_wf t" using ok by (simp add: tasks_ok_def)
  note old = tbl.get_add_old [OF wf]
  have keep: "chain (tbl_insert r t) p ls" if "chain t p ls" for p ls
    by (rule chain_cong [OF that])
      (use chain_keys [OF that] old in \<open>force simp: tbl_get_iff [OF wf, symmetric]\<close>)
  have "task_row_ok (tbl_insert r t) x \<and> (\<exists>ls. chain (tbl_insert r t) (Some k) ls)"
    if x: "tbl_get (tbl_insert r t) k = Some x" for k x
  proof (cases "tbl_get t k")
    case None
    then have "k = tbl_next t \<and> x = r" using x wf by (auto simp: tbl.get_add split: if_splits)
    then show ?thesis using x keep [OF c] task_row_ok_mono [OF row] old by (metis chain.simps(2))
  next
    case (Some y)
    then have "x = y" using x old by simp
    then show ?thesis using Some ok keep task_row_ok_mono [of t y "tbl_insert r t" y] old unfolding tasks_ok_def by metis
  qed
  then show ?thesis using wf by (simp add: tasks_ok_def tbl.wf_add)
qed

text \<open>Where the new parent's chain avoids the task, every old chain through the task goes on along the new one.\<close>

lemma chain_put:
  assumes wf: "tbl_wf t" and c: "chain t (ta_parent_task r) ls" "k \<notin> set ls"
  shows "chain t p ks \<Longrightarrow> \<exists>ms. chain (tbl_put k r t) p ms"
proof (induction ks arbitrary: p)
  case (Cons j ks)
  have new: "chain (tbl_put k r t) (ta_parent_task r) ls"
    by (rule chain_cong [OF c(1)]) (use c(2) wf in \<open>auto simp: tbl.get_put\<close>)
  obtain x where x: "p = Some j" "tbl_get t j = Some x" "chain t (ta_parent_task x) ks" using Cons.prems by auto
  show ?case
  proof (cases "j = k")
    case True
    then show ?thesis using new x(1) wf by (intro exI [of _ "k # ls"]) (simp add: tbl.get_put)
  next
    case False
    obtain ms where "chain (tbl_put k r t) (ta_parent_task x) ms" using Cons.IH [OF x(3)] by blast
    then show ?thesis using False x wf by (intro exI [of _ "j # ms"]) (simp add: tbl.get_put)
  qed
qed (auto intro: exI [of _ "[]"])

lemma tasks_ok_put:
  assumes ok: "tasks_ok t" and old: "tbl_get t k = Some r0" "ta_project r = ta_project r0"
    and row: "task_row_ok t r" and c: "chain t (ta_parent_task r) ls" "k \<notin> set ls"
  shows "tasks_ok (tbl_put k r t)"
proof -
  have wf: "tbl_wf t" using ok by (simp add: tasks_ok_def)
  have proj: "\<exists>q'. tbl_get (tbl_put k r t) j = Some q' \<and> ta_project q' = ta_project q" if "tbl_get t j = Some q" for j q
    using that old wf by (auto simp: tbl.get_put)
  have "task_row_ok (tbl_put k r t) x \<and> (\<exists>ms. chain (tbl_put k r t) (Some j) ms)"
    if x: "tbl_get (tbl_put k r t) j = Some x" for j x
  proof -
    obtain y where y: "tbl_get t j = Some y" using x old wf by (cases "j = k") (auto simp: tbl.get_put)
    then obtain ks where "chain t (Some j) ks" using ok unfolding tasks_ok_def by blast
    then have ch: "\<exists>ms. chain (tbl_put k r t) (Some j) ms" by (rule chain_put [OF wf c])
    have "task_row_ok t x" using x row ok wf y by (cases "j = k") (auto simp: tbl.get_put tasks_ok_def)
    then have "task_row_ok (tbl_put k r t) x" by (rule task_row_ok_mono [OF _ proj]) auto
    then show ?thesis using ch by blast
  qed
  then show ?thesis using wf by (simp add: tasks_ok_def tbl.wf_put)
qed

lemma tasks_ok_assignees:
  assumes ok: "tasks_ok t"
  shows "tasks_ok (tbl_update_where (\<lambda>j _. j = k) (\<lambda>r. r\<lparr>ta_assignees := us\<rparr>) t)" (is "tasks_ok ?t")
proof -
  have get: "tbl_get ?t j = map_option (\<lambda>r. if j = k then r\<lparr>ta_assignees := us\<rparr> else r) (tbl_get t j)" for j
    by (cases "tbl_get t j") (auto simp: tbl_get_update_where)
  have "task_row_ok ?t x \<and> (\<exists>ms. chain ?t (Some j) ms)" if x: "tbl_get ?t j = Some x" for j x
  proof -
    obtain y where y: "tbl_get t j = Some y" "x = (if j = k then y\<lparr>ta_assignees := us\<rparr> else y)" using x get by auto
    then obtain ks where row: "task_row_ok t y" and ks: "chain t (Some j) ks" using tasks_okD [OF ok] by blast
    have "task_row_ok ?t x" by (rule task_row_ok_mono [OF row]) (auto simp: get y(2))
    moreover have "chain ?t (Some j) ks"
    proof (rule chain_cong [OF ks])
      show "map_option ta_parent_task (tbl_get ?t i) = map_option ta_parent_task (tbl_get t i)" for i
        by (cases "tbl_get t i") (simp_all add: get)
    qed
    ultimately show ?thesis by blast
  qed
  then show ?thesis using ok by (simp add: tasks_ok_def wf_tbl_update_where)
qed

section \<open>Deletion\<close>

lemma doomed_start: "set doomed \<subseteq> set (doomed_tasks t doomed)"
proof (induction t doomed rule: doomed_tasks.induct)
  case (1 t doomed)
  then show ?case by (subst doomed_tasks.simps) auto
qed

lemma doomed_closed: "children_of t (doomed_tasks t doomed) = []"
proof (induction t doomed rule: doomed_tasks.induct)
  case (1 t doomed)
  then show ?case by (cases "children_of t doomed = []") (simp_all add: doomed_tasks.simps [of t doomed])
qed

text \<open>A task is deleted exactly when its chain of parents meets one of the tasks deleted first.\<close>

lemma doomed_below:
  assumes "j \<in> set (doomed_tasks t doomed)" "tbl_wf t" "chain t (Some j) ks"
  shows "set ks \<inter> set doomed \<noteq> {}"
  using assms
proof (induction t doomed arbitrary: j ks rule: doomed_tasks.induct)
  case (1 t doomed)
  show ?case
  proof (cases "children_of t doomed = []")
    case True
    then have "j \<in> set doomed" using 1(2) by (simp add: doomed_tasks.simps [of t doomed])
    then show ?thesis using 1(4) by (cases ks) auto
  next
    case False
    have "j \<in> set (doomed_tasks t (doomed @ children_of t doomed))"
      using 1(2) False by (simp add: doomed_tasks.simps [of t doomed])
    then have "set ks \<inter> set (doomed @ children_of t doomed) \<noteq> {}" by (rule 1(1) [OF False _ 1(3,4)])
    then consider "set ks \<inter> set doomed \<noteq> {}" | i where "i \<in> set ks" "i \<in> set (children_of t doomed)" by auto
    then show ?thesis
    proof cases
      case 2
      then obtain r p where r: "tbl_get t i = Some r" "ta_parent_task r = Some p" "p \<in> set doomed"
        using tbl_get_iff [OF 1(3)] by (auto simp: in_children_of)
      obtain as bs where ks: "ks = as @ i # bs" using 2(1) by (meson split_list)
      have "chain t (Some i) (i # bs)" using chain_suffix 1(4) ks by blast
      then have "p \<in> set bs" using r by (cases bs) auto
      then show ?thesis using r(3) ks by auto
    qed
  qed
qed

lemma chain_meets_doomed:
  assumes "tbl_wf t" "chain t (Some j) ks" "i \<in> set ks" "i \<in> set doomed"
  shows "j \<in> set (doomed_tasks t doomed)"
  using assms(2,3)
proof (induction ks arbitrary: j)
  case (Cons k ks)
  then obtain r where r: "k = j" "tbl_get t j = Some r" "chain t (ta_parent_task r) ks" by auto
  show ?case
  proof (cases "i = j")
    case True
    then show ?thesis using assms(4) doomed_start by blast
  next
    case False
    then obtain l ls where l: "ks = l # ls" using Cons.prems(2) r(1) by (cases ks) auto
    then have p: "ta_parent_task r = Some l" using r(3) by simp
    have "l \<in> set (doomed_tasks t doomed)"
      using Cons.IH [of l] r False Cons.prems(2) p by simp
    then show ?thesis
      using doomed_closed [of t doomed] p r(2) tbl_getD by (metis in_children_of list.set(1) empty_iff)
  qed
qed simp

lemma tasks_ok_delete:
  assumes ok: "tasks_ok t"
  shows "tasks_ok (delete_tasks (doomed_tasks t doomed) t)" (is "tasks_ok ?t")
proof -
  have wf: "tbl_wf t" using ok by (simp add: tasks_ok_def)
  have get: "tbl_get ?t j = (if j \<in> set (doomed_tasks t doomed) then None else tbl_get t j)" for j
  proof -
    have "map_of (filter (\<lambda>(k, _). k \<notin> A) d) j = (if j \<in> A then None else map_of d j)" for A and d :: "(pk \<times> task) list"
      by (induction d) auto
    then show ?thesis by (simp add: delete_tasks_def tbl_get_fun)
  qed
  have closed: "ta_parent_task r = Some p \<Longrightarrow> p \<notin> set (doomed_tasks t doomed)"
    if "tbl_get t j = Some r" "j \<notin> set (doomed_tasks t doomed)" for j r p
    using doomed_closed [of t doomed] that tbl_getD by (metis in_children_of list.set(1) empty_iff)
  have keep: "chain ?t p ks" if "chain t p ks" "case p of None \<Rightarrow> True | Some j \<Rightarrow> j \<notin> set (doomed_tasks t doomed)" for p ks
    using that
  proof (induction ks arbitrary: p)
    case (Cons k ks)
    then obtain r where r: "p = Some k" "tbl_get t k = Some r" "chain t (ta_parent_task r) ks" by auto
    have k: "k \<notin> set (doomed_tasks t doomed)" using Cons.prems(2) r(1) by simp
    have "chain ?t (ta_parent_task r) ks"
      by (rule Cons.IH [OF r(3)]) (use closed [OF r(2) k] in \<open>simp split: option.split\<close>)
    then show ?case using r k by (simp add: get)
  qed simp
  have "task_row_ok ?t x \<and> (\<exists>ks. chain ?t (Some j) ks)" if x: "tbl_get ?t j = Some x" for j x
  proof -
    have y: "tbl_get t j = Some x" "j \<notin> set (doomed_tasks t doomed)" using x by (auto simp: get split: if_splits)
    then have "task_row_ok t x" "\<exists>ks. chain t (Some j) ks" using ok unfolding tasks_ok_def by blast+
    then show ?thesis using keep [of "Some j"] y closed [OF y] by (auto simp: task_row_ok_def get)
  qed
  moreover have "tbl_wf ?t" using wf by (auto simp: tbl_wf_def delete_tasks_def distinct_map_filter)
  ultimately show ?thesis by (simp add: tasks_ok_def)
qed

section \<open>The services keep the invariant\<close>

lemma task_event_tasks [simp]: "db_tasks (task_event u pid e sm k s) = db_tasks s"
  by (simp add: task_event_def)

lemma tasks_ok_set_assignees: "tasks_ok (db_tasks s) \<Longrightarrow> tasks_ok (db_tasks (set_assignees k us s))"
  by (simp add: set_assignees_def tasks_ok_assignees)

lemma changed_task_project [simp]: "ta_project (changed_task a users now t) = ta_project t"
  by (simp add: changed_task_def)

lemma tasks_ok_create:
  assumes "create_task u p title a s = (r, s')" "tasks_ok (db_tasks s)" shows "tasks_ok (db_tasks s')"
proof -
  have ins: "tasks_ok (db_tasks s1)" if i: "insert_task t s = (x, s1)" for t x s1
  proof (cases x)
    case (Inr k)
    then have f: "full_clean_task s None t = Inr ()"
      and s1: "db_tasks s1 = tbl_insert (t\<lparr>ta_created_at := db_now s, ta_updated_at := db_now s\<rparr>) (db_tasks s)"
      using i by (auto simp: insert_task_def split: sum.splits)
    obtain ks where "chain (db_tasks s) (ta_parent_task t) ks" using full_clean_task(2) [OF f] by blast
    moreover have "task_row_ok (db_tasks s) (t\<lparr>ta_created_at := db_now s, ta_updated_at := db_now s\<rparr>)"
      using full_clean_task(1) [OF f] by (simp add: task_row_ok_def)
    ultimately show ?thesis unfolding s1 by (intro tasks_ok_insert [OF assms(2)]) simp_all
  qed (use i assms(2) in \<open>auto simp: insert_task_def split: sum.splits\<close>)
  then show ?thesis
    using assms
    by (auto simp: create_task_def split: if_splits sum.splits prod.splits intro: ins tasks_ok_set_assignees [OF ins])
qed

lemma save_task_get:
  assumes "save_task k t s = (Inr (), s')"
  shows "full_clean_task s (Some k) t = Inr ()"
    "\<exists>r. db_tasks s' = tbl_put k r (db_tasks s) \<and> r = t\<lparr>ta_updated_at := ta_updated_at r, ta_assignees := ta_assignees r\<rparr>"
  using assms by (auto simp: save_task_def split: sum.splits)

lemma tasks_ok_save:
  assumes "save_task k t s = (Inr (), s')" "tasks_ok (db_tasks s)"
    and "tbl_get (db_tasks s) k = Some r0" "ta_project t = ta_project r0"
  shows "tasks_ok (db_tasks s')"
proof -
  note f = save_task_get(1) [OF assms(1)]
  obtain r where r: "db_tasks s' = tbl_put k r (db_tasks s)"
      "r = t\<lparr>ta_updated_at := ta_updated_at r, ta_assignees := ta_assignees r\<rparr>"
    using save_task_get(2) [OF assms(1)] by blast
  have same: "ta_title r = ta_title t" "ta_parent_task r = ta_parent_task t" "ta_project r = ta_project t"
    by (subst r(2), simp)+
  obtain ks where "chain (db_tasks s) (ta_parent_task t) ks" "k \<notin> set ks" using full_clean_task(2) [OF f] by blast
  moreover have "task_row_ok (db_tasks s) r" using full_clean_task(1) [OF f] by (simp add: task_row_ok_def same)
  ultimately show ?thesis
    unfolding r(1) by (intro tasks_ok_put [OF assms(2,3)]) (simp_all add: same assms(4))
qed

lemma tasks_ok_update:
  assumes "update_task u p (k, t) a s = (r, s')" "tasks_ok (db_tasks s)"
    and "tbl_get (db_tasks s) k = Some r0" "ta_project t = ta_project r0"
  shows "tasks_ok (db_tasks s')"
proof -
  have sav: "tasks_ok (db_tasks s1)" if sv: "save_task k (changed_task a users now t) s = (x, s1)" for users now x s1
  proof (cases x)
    case (Inr y)
    have sv: "save_task k (changed_task a users now t) s = (Inr (), s1)" using sv Inr by simp
    show ?thesis
      by (rule tasks_ok_save [OF sv assms(2,3)]) (simp add: assms(4))
  qed (use sv assms(2) in \<open>auto simp: save_task_def split: sum.splits\<close>)
  then show ?thesis
    using assms(1,2)
    by (auto simp: update_task_def Let_def split: if_splits sum.splits prod.splits intro: sav tasks_ok_set_assignees [OF sav])
qed

datatype task_command =
    CreateTask actor pk string task_args
  | UpdateTask actor pk pk task_args
  | DeleteTask actor pk pk

fun task_step :: "task_command \<Rightarrow> ('a task_db_scheme, unit) op" where
  "task_step (CreateTask u pid title a) = void (task_create_view u pid title a)"
| "task_step (UpdateTask u pid k a) = void (task_update_view u pid k a)"
| "task_step (DeleteTask u pid k) = task_delete_view u pid k"

lemma tasks_ok_step:
  assumes "tasks_ok (db_tasks s)" shows "tasks_ok (db_tasks (snd (task_step c s)))"
proof (cases c)
  case (CreateTask u pid title a)
  have "tasks_ok (db_tasks (snd (create_task u p title a s)))" for p
    by (rule tasks_ok_create [OF prod.collapse [symmetric] assms])
  then show ?thesis
    using assms by (auto simp: CreateTask snd_void task_create_view_def split: option.splits)
next
  case (UpdateTask u pid k a)
  have "tasks_ok (db_tasks (snd (update_task u p (k, t) a s)))" if "tbl_get (db_tasks s) k = Some t" for p t
    by (rule tasks_ok_update [OF prod.collapse [symmetric] assms that refl])
  then show ?thesis
    using assms by (auto simp: UpdateTask snd_void task_update_view_def with_task_def task_of_project_def split: option.splits if_splits)
next
  case (DeleteTask u pid k)
  have "tasks_ok (db_tasks (snd (delete_task u p (k, t) s)))" for p t
    using assms tasks_ok_delete by (auto simp: delete_task_def split: if_splits sum.splits)
  then show ?thesis
    using assms by (auto simp: DeleteTask task_delete_view_def with_task_def task_of_project_def split: option.splits)
qed

interpretation tasks: command_system task_step "\<lambda>s. tasks_ok (db_tasks s)"
  by unfold_locales (rule tasks_ok_step)

text \<open>After a deletion the tasks that remain are exactly those not below the deleted one.\<close>

lemma delete_task_effect:
  assumes "delete_task u p (k, t) s = (Inr (), s')" "tasks_ok (db_tasks s)"
  shows "tbl_get (db_tasks s') j =
    (case tbl_get (db_tasks s) j of None \<Rightarrow> None
     | Some r \<Rightarrow> if \<exists>ks. chain (db_tasks s) (Some j) ks \<and> k \<in> set ks then None else Some r)"
proof -
  have wf: "tbl_wf (db_tasks s)" using assms(2) by (simp add: tasks_ok_def)
  have s': "db_tasks s' = delete_tasks (doomed_tasks (db_tasks s) [k]) (db_tasks s)"
    using assms(1) by (auto simp: delete_task_def split: if_splits sum.splits)
  have get: "tbl_get (delete_tasks ds t) j = (if j \<in> set ds then None else tbl_get t j)" for ds t
  proof -
    have "map_of (filter (\<lambda>(k, _). k \<notin> A) d) j = (if j \<in> A then None else map_of d j)" for A and d :: "(pk \<times> task) list"
      by (induction d) auto
    then show ?thesis by (simp add: delete_tasks_def tbl_get_fun)
  qed
  have "j \<in> set (doomed_tasks (db_tasks s) [k]) \<longleftrightarrow> (\<exists>ks. chain (db_tasks s) (Some j) ks \<and> k \<in> set ks)"
    if row: "tbl_get (db_tasks s) j = Some r" for r
  proof
    obtain ks where ks: "chain (db_tasks s) (Some j) ks" using tasks_okD(3) [OF assms(2) row] by blast
    assume "j \<in> set (doomed_tasks (db_tasks s) [k])"
    then have "k \<in> set ks" using doomed_below [OF _ wf ks] by fastforce
    then show "\<exists>ks. chain (db_tasks s) (Some j) ks \<and> k \<in> set ks" using ks by blast
  qed (use chain_meets_doomed [OF wf] in auto)
  then show ?thesis by (auto simp: s' get split: option.splits)
qed

section \<open>Changes of the status\<close>

definition status_change :: "task_status \<Rightarrow> task_args" where
  "status_change st =
     \<lparr>tg_title = None, tg_description = None, tg_parent_task = None, tg_assignee = None, tg_assignee_ids = None,
      tg_status = Some st, tg_priority = None, tg_deadline_at = None\<rparr>"

lemma clean_ignores_status:
  "full_clean_task s self (t\<lparr>ta_status := st, ta_completed_at := c\<rparr>) = full_clean_task s self t"
proof -
  have "clean_task s self (t\<lparr>ta_status := st, ta_completed_at := c\<rparr>) = clean_task s self t"
    by (simp add: clean_task_def cong: option.case_cong sum.case_cong prod.case_cong if_cong)
  moreover have "clean_task_fields s (t\<lparr>ta_status := st, ta_completed_at := c\<rparr>) = clean_task_fields s t"
    by (simp add: clean_task_fields_def)
  ultimately show ?thesis by (simp only: full_clean_task_def)
qed

lemma status_change_simps [simp]:
  "tg_assignee_ids (status_change st) = None" "\<not> plans_task (status_change st)"
  by (simp_all add: status_change_def plans_task_def)

lemma resolve_none [simp]: "resolve_assignees s pid None = Inr []"
  by (simp add: resolve_assignees_def)

lemma changed_status:
  "changed_task (status_change st) users now t
   = t\<lparr>ta_status := st, ta_completed_at := (if st = Task_COMPLETED then Some now else ta_completed_at t)\<rparr>"
  by (simp add: changed_task_def status_change_def)

text \<open>An assigned member who is no advisor may set any status, whatever it was; the time of completion stays.\<close>

lemma assignee_sets_status:
  assumes "user_is_active_project_member s u (fst p)" "rp_status (snd p) \<noteq> ResearchProject_ARCHIVED"
    and "ta_assignee t = Some (u_id u)" "full_clean_task s (Some k) t = Inr ()" "st \<noteq> Task_COMPLETED"
    and "tbl_wf (db_tasks s)"
  shows "\<exists>s' t'. update_task u p (k, t) (status_change st) s = (Inr k, s') \<and> tbl_get (db_tasks s') k = Some t'
    \<and> ta_status t' = st \<and> ta_completed_at t' = ta_completed_at t"
proof -
  let ?t = "changed_task (status_change st) [] (db_now s) t"
  have "full_clean_task s (Some k) ?t = Inr ()" by (simp only: changed_status clean_ignores_status assms(4))
  then obtain s1 where s1: "save_task k ?t s = (Inr (), s1)" by (simp add: save_task_def)
  then obtain t' where t': "tbl_get (db_tasks s1) k = Some t'" "ta_status t' = st" "ta_completed_at t' = ta_completed_at t"
    using assms(5,6) by (auto simp: save_task_def changed_status tbl.get_put split: sum.splits)
  have "fst (update_task u p (k, t) (status_change st) s) = Inr k
      \<and> db_tasks (snd (update_task u p (k, t) (status_change st) s)) = db_tasks s1"
    using assms(1,2,3) s1
    by (simp add: update_task_def Let_def ensure_project_writable_def)
  then show ?thesis using t' by (metis prod.collapse)
qed

text \<open>Only the task that is saved is compared with its parent, never its children with it.\<close>

definition deadline_change :: "instant \<Rightarrow> task_args" where
  "deadline_change d = (status_change Task_NOT_STARTED)\<lparr>tg_status := None, tg_deadline_at := Some (Some d)\<rparr>"

lemma deadline_change_simps [simp]: "tg_assignee_ids (deadline_change d) = None"
  by (simp add: deadline_change_def status_change_def)

lemma deadline_moves_without_children:
  assumes "user_is_active_project_member s u (fst p)" "rp_status (snd p) \<noteq> ResearchProject_ARCHIVED"
    and "is_project_advisor s u (fst p)" "full_clean_task s (Some k) t = Inr ()" "ta_parent_task t = None"
    and "tbl_wf (db_tasks s)" "tbl_get (db_tasks s) j = Some c" "j \<noteq> k"
  shows "\<exists>s' t'. update_task u p (k, t) (deadline_change d) s = (Inr k, s')
    \<and> tbl_get (db_tasks s') k = Some t' \<and> ta_deadline_at t' = Some d \<and> tbl_get (db_tasks s') j = Some c"
proof -
  let ?t = "changed_task (deadline_change d) [] (db_now s) t"
  have t: "?t = t\<lparr>ta_deadline_at := Some d\<rparr>" by (simp add: changed_task_def deadline_change_def status_change_def)
  have "full_clean_task s (Some k) ?t = Inr ()"
    using assms(4,5) by (auto simp: t full_clean_task_def clean_task_def clean_task_fields_def split: option.splits if_splits)
  then obtain s1 where s1: "save_task k ?t s = (Inr (), s1)" by (simp add: save_task_def)
  then obtain t' where t': "tbl_get (db_tasks s1) k = Some t'" "ta_deadline_at t' = Some d" "tbl_get (db_tasks s1) j = Some c"
    using assms(6,7,8) by (auto simp: save_task_def t tbl.get_put split: sum.splits)
  have "fst (update_task u p (k, t) (deadline_change d) s) = Inr k
      \<and> db_tasks (snd (update_task u p (k, t) (deadline_change d) s)) = db_tasks s1"
    using assms(1,2,3) s1
    by (simp add: update_task_def Let_def ensure_project_writable_def)
  then show ?thesis using t' by (metis prod.collapse)
qed

end
