(* ===== verification/TaskSamples.thy ===== *)
theory TaskSamples
  imports ExecutionSamples TaskRules
begin

text \<open>Three tasks of the sample project, one below the other; sam's is completed.\<close>

definition sample_task :: "pk option \<Rightarrow> int \<Rightarrow> task_status \<Rightarrow> task" where
  "sample_task parent deadline st =
     \<lparr>ta_project = 1, ta_parent_task = parent, ta_title = ''Align'', ta_description = [], ta_assignee = Some 2,
      ta_assignees = [2], ta_status = st, ta_priority = Task_NORMAL, ta_deadline_at = Some (hours deadline),
      ta_created_by = 1, ta_completed_at = (if st = Task_COMPLETED then Some 7 else None), ta_created_at = 0,
      ta_updated_at = 0\<rparr>"

definition sample_tasks :: task_db where
  "sample_tasks = project_db.extend (project_db.truncate sample_mail)
     (task_db.fields \<lparr>tbl_rows = [(1, sample_task None 10 Task_IN_PROGRESS), (2, sample_task (Some 1) 8 Task_COMPLETED),
        (3, sample_task (Some 2) 6 Task_NOT_STARTED)], tbl_next = 4\<rparr>)"

lemma sample_task_rows:
  "db_tasks sample_tasks = \<lparr>tbl_rows = [(1, sample_task None 10 Task_IN_PROGRESS), (2, sample_task (Some 1) 8 Task_COMPLETED),
     (3, sample_task (Some 2) 6 Task_NOT_STARTED)], tbl_next = 4\<rparr>"
  by (simp add: sample_tasks_def project_db.defs task_db.defs)

lemma sample_tasks_ok: "tasks_ok (db_tasks sample_tasks)"
proof -
  let ?t = "db_tasks sample_tasks"
  have "chain ?t (Some 1) [1]" "chain ?t (Some 2) [2, 1]" "chain ?t (Some 3) [3, 2, 1]"
    by (simp_all add: sample_task_rows sample_task_def tbl_get_def)
  moreover have "tbl_get ?t k = Some r \<Longrightarrow> k = 1 \<or> k = 2 \<or> k = 3" for k r
    by (auto simp: sample_task_rows tbl_get_def split: if_splits)
  moreover have "task_row_ok ?t r" if "tbl_get ?t k = Some r" for k r
    using that by (auto simp: sample_task_rows sample_task_def tbl_get_def task_row_ok_def split: if_splits)
  moreover have "tbl_wf ?t" by (simp add: sample_task_rows tbl_wf_def)
  ultimately show ?thesis unfolding tasks_ok_def by blast
qed

definition child_args :: "pk \<Rightarrow> task_args" where
  "child_args parent = (status_change Task_NOT_STARTED)\<lparr>tg_parent_task := Some (Some parent), tg_assignee_ids := Some [2]\<rparr>"

definition task_run :: "task_command list" where
  "task_run = [CreateTask ada 1 ''Measure'' (child_args 3), UpdateTask ada 1 1 (child_args 4), DeleteTask ada 1 2]"

end
