(* ===== verification/ScheduleModel.thy ===== *)
theory ScheduleModel
  imports NotificationDelivery Common
begin

text \<open>
  The schedule tables (\<open>apps/schedules/models.py\<close>), who may see and change an item
  (\<open>apps/schedules/permissions.py\<close>), and the occurrence keys of \<open>apps/schedules/services.py\<close>.

  Saving an item runs \<open>full_clean\<close>: \<open>item_errors\<close> is the dictionary of errors it collects, of which the
  operations report the first. The lemmas say what a clean item promises.
\<close>

section \<open>Records\<close>

datatype schedule_scope = Schedule_PERSONAL | Schedule_GROUP

fun schedule_scope_value :: "schedule_scope \<Rightarrow> string" where
  "schedule_scope_value Schedule_PERSONAL = ''personal''"
| "schedule_scope_value Schedule_GROUP = ''group''"

datatype schedule_category =
    Category_PERSONAL | Category_MEETING | Category_SEMINAR | Category_MILESTONE | Category_DEFENSE
  | Category_DEADLINE | Category_OTHER

datatype recurrence_frequency = Recurrence_NONE | Recurrence_DAILY | Recurrence_WEEKLY | Recurrence_MONTHLY

datatype schedule_status = Schedule_ACTIVE | Schedule_COMPLETED | Schedule_CANCELLED

record schedule_item =
  si_owner :: pk
  si_organizer :: pk
  si_scope :: schedule_scope
  si_category :: schedule_category
  si_title :: string
  si_description :: string
  si_all_day :: bool
  si_starts_at :: "instant option"
  si_ends_at :: "instant option"
  si_starts_on :: "day option"
  si_ends_on :: "day option"
  si_timezone :: string
  si_recurrence_frequency :: recurrence_frequency
  si_recurrence_interval :: int
  si_recurrence_weekdays :: "int list"
  si_recurrence_until :: "day option"
  si_status :: schedule_status
  si_published_at :: "instant option"
  si_cancelled_at :: "instant option"
  si_version :: nat
  si_created_at :: instant
  si_updated_at :: instant

datatype audience_scope = Audience_PROJECT | Audience_ACCOUNT

record schedule_audience =
  sa_item :: pk
  sa_scope_type :: audience_scope
  sa_project :: "pk option"
  sa_account :: "pk option"
  sa_created_by :: pk
  sa_created_at :: instant

record recipient_grant =
  sg_item :: pk
  sg_recipient :: pk
  sg_valid_from :: instant
  sg_valid_until :: "instant option"
  sg_source_types :: "string list"
  sg_source_project_ids :: "pk list"
  sg_resolved_at :: instant

datatype exception_status = Exception_RESCHEDULED | Exception_COMPLETED | Exception_CANCELLED

record occurrence_exception =
  sx_item :: pk
  sx_original_starts_at :: "instant option"
  sx_original_starts_on :: "day option"
  sx_override_starts_at :: "instant option"
  sx_override_ends_at :: "instant option"
  sx_override_starts_on :: "day option"
  sx_override_ends_on :: "day option"
  sx_override_title :: "string option"
  sx_override_description :: "string option"
  sx_status :: exception_status
  sx_version :: nat
  sx_created_by :: pk
  sx_created_at :: instant
  sx_updated_at :: instant

record schedule_reminder =
  sr_item :: pk
  sr_offset_minutes :: int
  sr_mandatory :: bool
  sr_created_at :: instant

datatype revision_change =
    Revision_PUBLISHED | Revision_CHANGED | Revision_TIME_CHANGED | Revision_AUDIENCE_CHANGED
  | Revision_OCCURRENCE_CHANGED | Revision_CANCELLED

record schedule_revision =
  sv_item :: pk
  sv_revision_number :: nat
  sv_actor :: pk
  sv_change_type :: revision_change
  sv_changed_fields :: "string list"
  sv_audience_summary :: pydict
  sv_effective_from :: string
  sv_created_at :: instant

datatype dispatch_event =
    Dispatch_PUBLISHED | Dispatch_CHANGED | Dispatch_CANCELLED | Dispatch_REMOVED | Dispatch_REMINDER

datatype dispatch_channel = Dispatch_IN_APP | Dispatch_EMAIL

datatype dispatch_status = Dispatch_CLAIMED | Dispatch_CREATED | Dispatch_SKIPPED | Dispatch_FAILED

record schedule_dispatch =
  sd_item :: pk
  sd_recipient :: pk
  sd_occurrence_key :: string
  sd_event_type :: dispatch_event
  sd_offset_minutes :: "int option"
  sd_offset_key :: int
  sd_channel :: dispatch_channel
  sd_notification :: "pk option"
  sd_status :: dispatch_status
  sd_failure_code :: string
  sd_created_at :: instant
  sd_updated_at :: instant

record schedule_db = notification_db +
  db_schedules :: "schedule_item table"
  db_schedule_audiences :: "schedule_audience table"
  db_recipient_grants :: "recipient_grant table"
  db_schedule_exceptions :: "occurrence_exception table"
  db_schedule_reminders :: "schedule_reminder table"
  db_schedule_revisions :: "schedule_revision table"
  db_schedule_dispatches :: "schedule_dispatch table"

text \<open>The unique constraints of the tables, the partial ones with their conditions.\<close>

definition project_audience_key :: "schedule_audience \<Rightarrow> (pk \<times> pk) option" where
  "project_audience_key a = map_option (\<lambda>p. (sa_item a, p)) (sa_project a)"

definition account_audience_key :: "schedule_audience \<Rightarrow> (pk \<times> pk) option" where
  "account_audience_key a = map_option (\<lambda>u. (sa_item a, u)) (sa_account a)"

definition open_grant_key :: "recipient_grant \<Rightarrow> (pk \<times> pk) option" where
  "open_grant_key g = (if sg_valid_until g = None then Some (sg_item g, sg_recipient g) else None)"

definition timed_exception_key :: "occurrence_exception \<Rightarrow> (pk \<times> instant) option" where
  "timed_exception_key x = map_option (\<lambda>t. (sx_item x, t)) (sx_original_starts_at x)"

definition day_exception_key :: "occurrence_exception \<Rightarrow> (pk \<times> day) option" where
  "day_exception_key x = map_option (\<lambda>d. (sx_item x, d)) (sx_original_starts_on x)"

definition reminder_key :: "schedule_reminder \<Rightarrow> (pk \<times> int) option" where
  "reminder_key r = Some (sr_item r, sr_offset_minutes r)"

definition revision_key :: "schedule_revision \<Rightarrow> (pk \<times> nat) option" where
  "revision_key r = Some (sv_item r, sv_revision_number r)"

definition dispatch_key ::
  "schedule_dispatch \<Rightarrow> (pk \<times> pk \<times> string \<times> dispatch_event \<times> int \<times> dispatch_channel) option"
where
  "dispatch_key d =
     Some (sd_item d, sd_recipient d, sd_occurrence_key d, sd_event_type d, sd_offset_key d, sd_channel d)"

lemmas schedule_keys = project_audience_key_def account_audience_key_def open_grant_key_def
  timed_exception_key_def day_exception_key_def reminder_key_def revision_key_def dispatch_key_def

section \<open>Cleaning an item\<close>

definition error_if :: "bool \<Rightarrow> string \<Rightarrow> string \<Rightarrow> (string \<times> string) list" where
  "error_if b field message = (if b then [(field, message)] else [])"

definition first_local_date :: "zone_db \<Rightarrow> schedule_item \<Rightarrow> day option" where
  "first_local_date zd i =
     (if si_all_day i then si_starts_on i
      else case si_starts_at i of
        None \<Rightarrow> None
      | Some t \<Rightarrow> if zone_known zd (si_timezone i) then Some (date_of (to_local zd (si_timezone i) t)) else None)"

definition range_errors :: "schedule_item \<Rightarrow> (string \<times> string) list" where
  "range_errors i =
     (if si_all_day i
      then if si_starts_at i \<noteq> None \<or> si_ends_at i \<noteq> None \<or> si_starts_on i = None \<or> si_ends_on i = None
           then [(''all_day'', ''All-day items require only a date range.'')]
           else error_if (the (si_ends_on i) \<le> the (si_starts_on i)) ''ends_on'' ''End date must be after start date.''
      else if si_starts_on i \<noteq> None \<or> si_ends_on i \<noteq> None \<or> si_starts_at i = None \<or> si_ends_at i = None
           then [(''all_day'', ''Timed items require only a timestamp range.'')]
           else error_if (the (si_ends_at i) \<le> the (si_starts_at i)) ''ends_at'' ''End time must be after start time.'')"

definition recurrence_errors :: "zone_db \<Rightarrow> schedule_item \<Rightarrow> (string \<times> string) list" where
  "recurrence_errors zd i =
     (if si_recurrence_frequency i = Recurrence_NONE
      then error_if (si_recurrence_until i \<noteq> None \<or> si_recurrence_weekdays i \<noteq> [])
             ''recurrence_until'' ''Non-recurring items cannot have recurrence bounds.''
      else (case si_recurrence_until i of
              None \<Rightarrow> [(''recurrence_until'', ''Recurring items require an end date.'')]
            | Some u \<Rightarrow>
                error_if (case first_local_date zd i of None \<Rightarrow> False | Some d \<Rightarrow> u > d + 731)
                  ''recurrence_until'' ''Recurrence cannot span more than two years.'')
           @ error_if (si_recurrence_frequency i \<noteq> Recurrence_WEEKLY \<and> si_recurrence_weekdays i \<noteq> [])
               ''recurrence_weekdays'' ''Weekdays apply only to weekly recurrence.'')"

definition clean_schedule_item :: "zone_db \<Rightarrow> schedule_item \<Rightarrow> error + (string \<times> string) list" where
  "clean_schedule_item zd i =
     (if zone_malformed zd (si_timezone i) then Inl (ValueError ''timezone'')
      else Inr (dict_build
        (error_if (py_strip (si_title i) = []) ''title'' ''Title is required.''
         @ error_if (\<not> zone_known zd (si_timezone i)) ''timezone'' ''Enter a valid IANA timezone.''
         @ range_errors i
         @ error_if (\<not> (1 \<le> si_recurrence_interval i \<and> si_recurrence_interval i \<le> 30))
             ''recurrence_interval'' ''Recurrence interval must be between 1 and 30.''
         @ error_if (\<not> distinct (si_recurrence_weekdays i)
                     \<or> \<not> list_all (\<lambda>d. 1 \<le> d \<and> d \<le> 7) (si_recurrence_weekdays i))
             ''recurrence_weekdays'' ''Weekdays must be unique ISO weekdays.''
         @ recurrence_errors zd i
         @ error_if (si_scope i = Schedule_PERSONAL \<and> si_owner i \<noteq> si_organizer i)
             ''organizer'' ''Personal item organizer must be its owner.''
         @ error_if (si_scope i = Schedule_GROUP \<and> si_published_at i = None)
             ''published_at'' ''Published group items require a publication time.'')))"

text \<open>\<open>clean_fields\<close>: the references, the lengths and the range of the column types.\<close>

definition schedule_field_errors :: "'a core_db_scheme \<Rightarrow> schedule_item \<Rightarrow> (string \<times> string) list" where
  "schedule_field_errors s i =
     error_if (tbl_get (db_users s) (si_owner i) = None) ''owner'' ''user instance does not exist.''
     @ error_if (tbl_get (db_users s) (si_organizer i) = None) ''organizer'' ''user instance does not exist.''
     @ error_if (si_title i = []) ''title'' ''This field cannot be blank.''
     @ error_if (255 < length (si_title i)) ''title'' ''Ensure this value has at most 255 characters.''
     @ error_if (si_timezone i = []) ''timezone'' ''This field cannot be blank.''
     @ error_if (64 < length (si_timezone i)) ''timezone'' ''Ensure this value has at most 64 characters.''
     @ error_if (si_recurrence_interval i < 0) ''recurrence_interval'' ''Ensure this value is greater than or equal to 0.''
     @ error_if (si_recurrence_interval i > 32767) ''recurrence_interval'' ''Ensure this value is less than or equal to 32767.''"

definition first_error :: "(string \<times> string) list \<Rightarrow> error + unit" where
  "first_error errors = (case errors of [] \<Rightarrow> Inr () | (f, m) # _ \<Rightarrow> Inl (FieldError f m))"

definition full_clean_item :: "'a notification_db_scheme \<Rightarrow> schedule_item \<Rightarrow> error + schedule_item" where
  "full_clean_item s i =
     (case clean_schedule_item (db_zones s) i of
        Inl e \<Rightarrow> Inl e
      | Inr errors \<Rightarrow>
          (case first_error (schedule_field_errors s i @ errors) of
             Inl e \<Rightarrow> Inl e
           | Inr _ \<Rightarrow> Inr (i\<lparr>si_title := py_strip (si_title i)\<rparr>)))"

definition insert_item :: "schedule_item \<Rightarrow> ('a schedule_db_scheme, pk \<times> schedule_item) op" where
  "insert_item i s =
     (case full_clean_item s i of
        Inl e \<Rightarrow> (Inl e, s)
      | Inr c \<Rightarrow>
          let r = c\<lparr>si_created_at := db_now s, si_updated_at := db_now s\<rparr>
          in (Inr (tbl_next (db_schedules s), r), s\<lparr>db_schedules := tbl_insert r (db_schedules s)\<rparr>))"

definition save_item :: "pk \<Rightarrow> schedule_item \<Rightarrow> ('a schedule_db_scheme, schedule_item) op" where
  "save_item k i s =
     (case full_clean_item s i of
        Inl e \<Rightarrow> (Inl e, s)
      | Inr c \<Rightarrow>
          let r = c\<lparr>si_updated_at := db_now s\<rparr>
          in (Inr r, s\<lparr>db_schedules := tbl_put k r (db_schedules s)\<rparr>))"

text \<open>\<open>save(update_fields=["version", "updated_at"])\<close>: all of the item is cleaned, two columns are written.\<close>

definition save_item_version :: "pk \<Rightarrow> schedule_item \<Rightarrow> ('a schedule_db_scheme, schedule_item) op" where
  "save_item_version k i s =
     (case full_clean_item s i of
        Inl e \<Rightarrow> (Inl e, s)
      | Inr c \<Rightarrow>
          (Inr (c\<lparr>si_updated_at := db_now s\<rparr>),
           s\<lparr>db_schedules := tbl_update_where (\<lambda>k' _. k' = k)
               (\<lambda>r. r\<lparr>si_version := si_version c, si_updated_at := db_now s\<rparr>) (db_schedules s)\<rparr>))"

section \<open>Cleaning the other records\<close>

definition clean_schedule_audience :: "'a schedule_db_scheme \<Rightarrow> schedule_audience \<Rightarrow> error + unit" where
  "clean_schedule_audience s a =
     (if \<not> ((sa_scope_type a = Audience_PROJECT \<and> sa_project a \<noteq> None \<and> sa_account a = None)
          \<or> (sa_scope_type a = Audience_ACCOUNT \<and> sa_account a \<noteq> None \<and> sa_project a = None))
      then Inl (ValidationError ''Audience must select exactly one matching project or account.'')
      else if (case tbl_get (db_schedules s) (sa_item a) of None \<Rightarrow> False | Some i \<Rightarrow> si_scope i \<noteq> Schedule_GROUP)
      then Inl (ValidationError ''Audiences apply only to group schedule items.'')
      else Inr ())"

definition clean_recipient_grant :: "recipient_grant \<Rightarrow> error + unit" where
  "clean_recipient_grant g =
     (case sg_valid_until g of
        Some u \<Rightarrow> if u \<le> sg_valid_from g then Inl (FieldError ''valid_until'' ''Grant end must be after its start.'')
                  else Inr ()
      | None \<Rightarrow> Inr ())"

definition clean_occurrence_exception :: "occurrence_exception \<Rightarrow> error + unit" where
  "clean_occurrence_exception x =
     (if (sx_original_starts_at x \<noteq> None) = (sx_original_starts_on x \<noteq> None)
      then Inl (ValidationError ''Exception requires exactly one original occurrence key.'')
      else if (case sx_override_starts_at x of
                 None \<Rightarrow> False
               | Some a \<Rightarrow> (case sx_override_ends_at x of None \<Rightarrow> True | Some b \<Rightarrow> b \<le> a))
      then Inl (FieldError ''override_ends_at'' ''Override end must be after start.'')
      else if (case sx_override_starts_on x of
                 None \<Rightarrow> False
               | Some a \<Rightarrow> (case sx_override_ends_on x of None \<Rightarrow> True | Some b \<Rightarrow> b \<le> a))
      then Inl (FieldError ''override_ends_on'' ''Override end must be after start.'')
      else Inr ())"

definition ALLOWED_OFFSETS :: "int list" where
  "ALLOWED_OFFSETS = [0, 15, 30, 60, 1440, 10080]"

definition clean_schedule_reminder :: "'a schedule_db_scheme \<Rightarrow> pk option \<Rightarrow> schedule_reminder \<Rightarrow> error + unit" where
  "clean_schedule_reminder s self r =
     (if sr_offset_minutes r \<notin> set ALLOWED_OFFSETS
      then Inl (FieldError ''offset_minutes'' ''Unsupported reminder offset.'')
      else if self = None \<and> 3 \<le> tbl_count (\<lambda>_ r'. sr_item r' = sr_item r) (db_schedule_reminders s)
      then Inl (ValidationError ''A schedule item supports at most three reminders.'')
      else Inr ())"

definition clean_dispatch :: "schedule_dispatch \<Rightarrow> error + unit" where
  "clean_dispatch d =
     (if sd_event_type d = Dispatch_REMINDER \<and> sd_offset_minutes d = None
      then Inl (FieldError ''offset_minutes'' ''Reminder dispatch requires an offset.'')
      else if sd_event_type d \<noteq> Dispatch_REMINDER \<and> sd_offset_minutes d \<noteq> None
      then Inl (FieldError ''offset_minutes'' ''Only reminder dispatches accept an offset.'')
      else Inr ())"

text \<open>
  \<open>save\<close> of a new dispatch: the offset key, \<open>full_clean\<close> with the length of the key and the unique
  constraint, the row.
\<close>

definition insert_dispatch :: "schedule_dispatch \<Rightarrow> ('a schedule_db_scheme, pk) op" where
  "insert_dispatch d s =
     (let r = d\<lparr>sd_offset_key := (case sd_offset_minutes d of None \<Rightarrow> -1 | Some m \<Rightarrow> m),
                sd_created_at := db_now s, sd_updated_at := db_now s\<rparr>
      in if sd_occurrence_key r = [] then (Inl (FieldError ''occurrence_key'' ''This field cannot be blank.''), s)
         else if 40 < length (sd_occurrence_key r)
         then (Inl (FieldError ''occurrence_key'' ''Ensure this value has at most 40 characters.''), s)
         else case clean_dispatch r of
           Inl e \<Rightarrow> (Inl e, s)
         | Inr _ \<Rightarrow>
             if key_taken dispatch_key r (db_schedule_dispatches s)
             then (Inl (ValidationError ''unique_schedule_dispatch''), s)
             else (Inr (tbl_next (db_schedule_dispatches s)),
                   s\<lparr>db_schedule_dispatches := tbl_insert r (db_schedule_dispatches s)\<rparr>))"

section \<open>Permissions\<close>

text \<open>The schedules' own \<open>is_active_account\<close>: unlike the projects', it does not ask for a verified address.\<close>

definition is_active_schedule_account :: "actor \<Rightarrow> bool" where
  "is_active_schedule_account u \<longleftrightarrow> u_is_authenticated u \<and> u_status u = User_ACTIVE"

definition can_manage_group_item :: "actor \<Rightarrow> schedule_item \<Rightarrow> bool" where
  "can_manage_group_item u i \<longleftrightarrow>
     is_active_schedule_account u \<and> si_scope i = Schedule_GROUP \<and> (si_owner i = u_id u \<or> is_administrator u)"

definition can_publish_group_item :: "actor \<Rightarrow> bool" where
  "can_publish_group_item u \<longleftrightarrow> is_active_schedule_account u \<and> is_advisor u"

definition grant_covers :: "recipient_grant \<Rightarrow> instant \<Rightarrow> bool" where
  "grant_covers g t \<longleftrightarrow> sg_valid_from g \<le> t \<and> (case sg_valid_until g of None \<Rightarrow> True | Some u \<Rightarrow> u > t)"

definition can_view_schedule_item :: "'a schedule_db_scheme \<Rightarrow> actor \<Rightarrow> pk \<Rightarrow> schedule_item \<Rightarrow> instant option \<Rightarrow> bool" where
  "can_view_schedule_item s u k i occurrence_at \<longleftrightarrow>
     (if \<not> is_active_schedule_account u then False
      else if si_scope i = Schedule_PERSONAL then si_owner i = u_id u
      else let t = (case occurrence_at of None \<Rightarrow> db_now s | Some t \<Rightarrow> t)
           in si_owner i = u_id u
              \<or> tbl_exists (\<lambda>_ g. sg_item g = k \<and> sg_recipient g = u_id u \<and> grant_covers g t) (db_recipient_grants s)
              \<or> can_manage_group_item u i)"

definition audience_members :: "'a project_db_scheme \<Rightarrow> pk set \<Rightarrow> (pk \<times> project_membership) list" where
  "audience_members s pids = tbl_filter (\<lambda>_ m. pm_project m \<in> pids \<and> pm_status m = ProjectMembership_ACTIVE) (db_memberships s)"

definition advised_projects :: "'a project_db_scheme \<Rightarrow> pk \<Rightarrow> pk set" where
  "advised_projects s user =
     set (map (\<lambda>(_, m). pm_project m)
       (tbl_filter (\<lambda>_ m. pm_user m = user \<and> pm_role m = ProjectMembership_ADVISOR
          \<and> pm_status m = ProjectMembership_ACTIVE) (db_memberships s)))"

definition eligible_recipient_accounts :: "'a project_db_scheme \<Rightarrow> actor \<Rightarrow> (pk \<times> user) list" where
  "eligible_recipient_accounts s u =
     (if is_administrator u then tbl_filter (\<lambda>_ a. u_status a = User_ACTIVE) (db_users s)
      else if u_global_role u \<noteq> User_ADVISOR then []
      else tbl_filter (\<lambda>k a. u_status a = User_ACTIVE
             \<and> list_ex (\<lambda>(_, m). pm_user m = k) (audience_members s (advised_projects s (u_id u)))) (db_users s))"

definition can_manage_project :: "'a project_db_scheme \<Rightarrow> actor \<Rightarrow> pk \<Rightarrow> research_project \<Rightarrow> bool" where
  "can_manage_project s u pid p = canManageProject (project_capabilities s u pid p)"

definition can_manage_report_schedule :: "'a project_db_scheme \<Rightarrow> actor \<Rightarrow> pk \<Rightarrow> research_project \<Rightarrow> bool" where
  "can_manage_report_schedule s u pid p \<longleftrightarrow> is_active_schedule_account u \<and> can_manage_project s u pid p"

section \<open>Occurrence keys\<close>

text \<open>
  \<open>datetime.fromisoformat\<close> for the extended calendar forms (\<open>YYYY-MM-DD\<close>, then after any one separator
  \<open>HH[:MM[:SS[.f]]]\<close> and an offset); the program prints its keys with \<open>isoformat\<close>, in one of these. The basic and the
  week forms, which Python also reads, are refused here.
\<close>

fun read_digits :: "nat \<Rightarrow> string \<Rightarrow> (int \<times> string) option" where
  "read_digits 0 t = Some (0, t)"
| "read_digits (Suc n) [] = None"
| "read_digits (Suc n) (c # t) =
     (if is_digit c
      then map_option (\<lambda>(v, r). (int (of_char c - 48) * 10 ^ n + v, r)) (read_digits n t) else None)"

definition read_char :: "char \<Rightarrow> string \<Rightarrow> string option" where
  "read_char c t = (case t of [] \<Rightarrow> None | d # r \<Rightarrow> if d = c then Some r else None)"

definition day_of_civil :: "int \<Rightarrow> int \<Rightarrow> int \<Rightarrow> day" where
  "day_of_civil y m d =
     (let y' = (if m \<le> 2 then y - 1 else y); era = y' div 400; yoe = y' - era * 400;
          doy = (153 * (if m > 2 then m - 3 else m + 9) + 2) div 5 + d - 1
      in era * 146097 + (yoe * 365 + yoe div 4 - yoe div 100 + doy) - 719468)"

definition civil_date :: "int \<Rightarrow> int \<Rightarrow> int \<Rightarrow> day option" where
  "civil_date y m d =
     (if 1 \<le> y \<and> civil_of_day (day_of_civil y m d) = (y, m, d) then Some (day_of_civil y m d) else None)"

definition read_date :: "string \<Rightarrow> (day \<times> string) option" where
  "read_date t =
     (case read_digits 4 t of
        None \<Rightarrow> None
      | Some (y, t1) \<Rightarrow>
     (case Option.bind (read_char (CHR ''-'') t1) (read_digits 2) of
        None \<Rightarrow> None
      | Some (m, t2) \<Rightarrow>
     (case Option.bind (read_char (CHR ''-'') t2) (read_digits 2) of
        None \<Rightarrow> None
      | Some (d, t3) \<Rightarrow> map_option (\<lambda>n. (n, t3)) (civil_date y m d))))"

definition read_fraction :: "string \<Rightarrow> (int \<times> string) option" where
  "read_fraction t =
     (let ds = takeWhile is_digit t; rest = dropWhile is_digit t
      in if ds = [] then None
         else map_option (\<lambda>(v, _). (v, rest)) (read_digits 6 (take 6 (ds @ ''000000''))))"

definition read_component :: "char \<Rightarrow> string \<Rightarrow> (int option \<times> string) option" where
  "read_component sep t =
     (case read_char sep t of
        None \<Rightarrow> Some (None, t)
      | Some r \<Rightarrow> map_option (\<lambda>(v, r'). (Some v, r')) (read_digits 2 r))"

text \<open>Hours, minutes, seconds, microseconds and what follows them.\<close>

definition read_clock :: "string \<Rightarrow> (int \<times> int \<times> int \<times> int \<times> string) option" where
  "read_clock t =
     (case read_digits 2 t of
        None \<Rightarrow> None
      | Some (h, t1) \<Rightarrow>
     (case read_component (CHR '':'') t1 of
        None \<Rightarrow> None
      | Some (None, _) \<Rightarrow> Some (h, 0, 0, 0, t1)
      | Some (Some m, t2) \<Rightarrow>
     (case read_component (CHR '':'') t2 of
        None \<Rightarrow> None
      | Some (None, _) \<Rightarrow> Some (h, m, 0, 0, t2)
      | Some (Some sec, t3) \<Rightarrow>
          (if t3 \<noteq> [] \<and> (hd t3 = CHR ''.'' \<or> hd t3 = CHR '','')
           then map_option (\<lambda>(us, t4). (h, m, sec, us, t4)) (read_fraction (tl t3))
           else Some (h, m, sec, 0, t3)))))"

definition clock_usec :: "int \<Rightarrow> int \<Rightarrow> int \<Rightarrow> int \<Rightarrow> int" where
  "clock_usec h m sec us = h * usec_per_hour + m * usec_per_minute + sec * usec_per_second + us"

definition read_offset :: "string \<Rightarrow> int option option" where
  "read_offset t =
     (case t of
        [] \<Rightarrow> Some None
      | c # r \<Rightarrow>
          if c = CHR ''Z'' then (if r = [] then Some (Some 0) else None)
          else if c \<noteq> CHR ''+'' \<and> c \<noteq> CHR ''-'' then None
          else (case read_clock r of
                  Some (h, m, sec, us, []) \<Rightarrow>
                    let off = clock_usec h m sec us
                    in if off < usec_per_day then Some (Some (if c = CHR ''-'' then - off else off)) else None
                | _ \<Rightarrow> None))"

text \<open>The wall clock and the offset, \<open>None\<close> for a naive value.\<close>

definition fromisoformat :: "string \<Rightarrow> (instant \<times> int option) option" where
  "fromisoformat t =
     (case read_date t of
        None \<Rightarrow> None
      | Some (d, []) \<Rightarrow> Some (combine d 0, None)
      | Some (d, _ # t1) \<Rightarrow>
          (case read_clock t1 of
             None \<Rightarrow> None
           | Some (h, m, sec, us, t2) \<Rightarrow>
               if h < 24 \<and> m < 60 \<and> sec < 60
               then map_option (\<lambda>off. (combine d (clock_usec h m sec us), off)) (read_offset t2)
               else None))"

datatype occurrence_at = On_day day | At_instant instant

definition zulu_replaced :: "string \<Rightarrow> string" where
  "zulu_replaced t = concat (map (\<lambda>c. if c = CHR ''Z'' then ''+00:00'' else [c]) t)"

definition parse_occurrence_key :: "zone_db \<Rightarrow> schedule_item \<Rightarrow> string option \<Rightarrow> error + occurrence_at" where
  "parse_occurrence_key zd i key =
     (case key of
        None \<Rightarrow> Inl (FieldError ''occurrenceKey'' ''Select an occurrence.'')
      | Some t \<Rightarrow>
          if t = [] then Inl (FieldError ''occurrenceKey'' ''Select an occurrence.'')
          else if si_all_day i
          then (case fromisoformat t of
                  None \<Rightarrow> Inl (FieldError ''occurrenceKey'' ''Enter a valid occurrence key.'')
                | Some (wall, _) \<Rightarrow> Inr (On_day (date_of wall)))
          else (case fromisoformat (zulu_replaced t) of
                  None \<Rightarrow> Inl (FieldError ''occurrenceKey'' ''Enter a valid occurrence key.'')
                | Some (wall, Some off) \<Rightarrow> Inr (At_instant (wall - off))
                | Some (wall, None) \<Rightarrow> Inr (At_instant (from_local zd (si_timezone i) wall))))"

definition local_date_of :: "zone_db \<Rightarrow> schedule_item \<Rightarrow> occurrence_at \<Rightarrow> day" where
  "local_date_of zd i v =
     (case v of On_day d \<Rightarrow> d | At_instant t \<Rightarrow> date_of (to_local zd (si_timezone i) t))"

lemma fromisoformat_examples:
  "fromisoformat ''2024-02-29'' = Some (combine 19782 0, None)"
  "fromisoformat ''2023-02-29'' = None"
  "fromisoformat (isoformat 1709210096000001) = Some (1709210096000001, Some 0)"
  by code_simp+

section \<open>What cleaning promises\<close>

definition item_range_sound :: "schedule_item \<Rightarrow> bool" where
  "item_range_sound i \<longleftrightarrow>
     (if si_all_day i
      then si_starts_at i = None \<and> si_ends_at i = None
           \<and> (case (si_starts_on i, si_ends_on i) of (Some a, Some b) \<Rightarrow> a < b | _ \<Rightarrow> False)
      else si_starts_on i = None \<and> si_ends_on i = None
           \<and> (case (si_starts_at i, si_ends_at i) of (Some a, Some b) \<Rightarrow> a < b | _ \<Rightarrow> False))"

definition item_recurrence_sound :: "zone_db \<Rightarrow> schedule_item \<Rightarrow> bool" where
  "item_recurrence_sound zd i \<longleftrightarrow>
     1 \<le> si_recurrence_interval i \<and> si_recurrence_interval i \<le> 30
     \<and> distinct (si_recurrence_weekdays i) \<and> list_all (\<lambda>d. 1 \<le> d \<and> d \<le> 7) (si_recurrence_weekdays i)
     \<and> (si_recurrence_weekdays i \<noteq> [] \<longrightarrow> si_recurrence_frequency i = Recurrence_WEEKLY)
     \<and> (si_recurrence_frequency i = Recurrence_NONE \<longleftrightarrow> si_recurrence_until i = None)
     \<and> (case (si_recurrence_until i, first_local_date zd i) of (Some u, Some d) \<Rightarrow> u \<le> d + 731 | _ \<Rightarrow> True)"

definition item_sound :: "zone_db \<Rightarrow> schedule_item \<Rightarrow> bool" where
  "item_sound zd i \<longleftrightarrow>
     si_title i \<noteq> [] \<and> py_strip (si_title i) = si_title i \<and> length (si_title i) \<le> 255
     \<and> zone_known zd (si_timezone i) \<and> item_range_sound i \<and> item_recurrence_sound zd i
     \<and> (si_scope i = Schedule_PERSONAL \<longrightarrow> si_owner i = si_organizer i)
     \<and> (si_scope i = Schedule_GROUP \<longrightarrow> si_published_at i \<noteq> None)"

lemma error_if_Nil [simp]: "error_if b f m = [] \<longleftrightarrow> \<not> b"
  by (simp add: error_if_def)

lemma dict_set_not_Nil [simp]: "dict_set k v d \<noteq> []"
  by (cases d) (auto split: if_splits)

lemma dict_fold_not_Nil: "d \<noteq> [] \<Longrightarrow> foldl (\<lambda>d (k, v). dict_set k v d) d kvs \<noteq> []"
  by (induction kvs arbitrary: d) (simp_all add: case_prod_unfold)

lemma dict_build_Nil: "dict_build kvs = [] \<longleftrightarrow> kvs = []"
  by (cases kvs) (simp_all add: dict_build_def case_prod_unfold dict_fold_not_Nil [unfolded case_prod_unfold])

lemma first_error_Inr: "first_error es = Inr u \<longleftrightarrow> es = []"
  by (simp add: first_error_def split: list.splits)

lemma dropWhile_hd: "xs = [] \<or> \<not> P (hd xs) \<Longrightarrow> dropWhile P xs = xs"
  by (cases xs) auto

lemma py_strip_idem: "py_strip (py_strip t) = py_strip t"
proof -
  let ?u = "dropWhile is_space t"
  let ?v = "rev (dropWhile is_space (rev ?u))"
  have v: "?v = [] \<or> (\<not> is_space (hd ?v) \<and> \<not> is_space (last ?v))"
  proof (cases "?v = []")
    case False
    have "\<not> is_space (last ?v)" using False hd_dropWhile [of is_space "rev ?u"] by (simp add: last_rev)
    moreover have "?u = ?v @ rev (takeWhile is_space (rev ?u))"
      by (metis rev_append rev_rev_ident takeWhile_dropWhile_id)
    then have "hd ?v = hd ?u" "?u \<noteq> []" using False by (metis hd_append2, metis append_is_Nil_conv)
    then have "\<not> is_space (hd ?v)" using hd_dropWhile [of is_space t] by simp
    ultimately show ?thesis by blast
  qed simp
  have 1: "dropWhile is_space ?v = ?v" using v by (intro dropWhile_hd) blast
  have "rev ?v = [] \<or> \<not> is_space (hd (rev ?v))" using v unfolding hd_rev by (metis rev_is_Nil_conv)
  then have 2: "dropWhile is_space (rev ?v) = rev ?v" by (rule dropWhile_hd)
  have "rev (dropWhile is_space (rev (dropWhile is_space ?v))) = ?v" unfolding 1 2 by (rule rev_rev_ident)
  then show ?thesis unfolding py_strip_def .
qed

lemma length_py_strip: "length (py_strip t) \<le> length t"
  by (metis length_dropWhile_le length_rev order_trans py_strip_def)

lemma first_local_date_title [simp]: "first_local_date zd (i\<lparr>si_title := x\<rparr>) = first_local_date zd i"
  by (cases "si_starts_at i") (simp_all add: first_local_date_def)

lemma item_sound_title:
  "item_range_sound (i\<lparr>si_title := x\<rparr>) = item_range_sound i"
  "item_recurrence_sound zd (i\<lparr>si_title := x\<rparr>) = item_recurrence_sound zd i"
  by (simp_all add: item_range_sound_def item_recurrence_sound_def)

lemma clean_errors_Nil:
  "clean_schedule_item zd i = Inr [] \<longleftrightarrow>
   \<not> zone_malformed zd (si_timezone i) \<and> py_strip (si_title i) \<noteq> [] \<and> zone_known zd (si_timezone i)
   \<and> item_range_sound i \<and> item_recurrence_sound zd i
   \<and> (si_scope i = Schedule_PERSONAL \<longrightarrow> si_owner i = si_organizer i)
   \<and> (si_scope i = Schedule_GROUP \<longrightarrow> si_published_at i \<noteq> None)"
proof -
  have "range_errors i = [] \<longleftrightarrow> item_range_sound i"
    by (auto simp: range_errors_def item_range_sound_def split: option.splits)
  moreover have "1 \<le> si_recurrence_interval i \<and> si_recurrence_interval i \<le> 30
      \<and> distinct (si_recurrence_weekdays i) \<and> list_all (\<lambda>d. 1 \<le> d \<and> d \<le> 7) (si_recurrence_weekdays i)
      \<and> recurrence_errors zd i = [] \<longleftrightarrow> item_recurrence_sound zd i"
    by (auto simp: recurrence_errors_def item_recurrence_sound_def split: option.splits)
  ultimately show ?thesis by (auto simp: clean_schedule_item_def dict_build_Nil)
qed

text \<open>An item that passes is sound with its title stripped, and a sound item passes unchanged.\<close>

lemma full_clean_itemD:
  assumes "full_clean_item s i = Inr c"
  shows "item_sound (db_zones s) c" "c = i\<lparr>si_title := py_strip (si_title i)\<rparr>"
proof -
  have c: "clean_schedule_item (db_zones s) i = Inr []" "schedule_field_errors s i = []"
      "c = i\<lparr>si_title := py_strip (si_title i)\<rparr>"
    using assms by (auto simp: full_clean_item_def first_error_Inr split: sum.splits)
  have "length (si_title i) \<le> 255" using c(2) by (simp add: schedule_field_errors_def)
  then show "item_sound (db_zones s) c"
    using c(1) length_py_strip [of "si_title i"]
    by (simp add: c(3) clean_errors_Nil item_sound_def py_strip_idem item_sound_title)
  show "c = i\<lparr>si_title := py_strip (si_title i)\<rparr>" by (rule c(3))
qed

lemma first_local_date_touch [simp]:
  "first_local_date zd (i\<lparr>si_updated_at := t\<rparr>) = first_local_date zd i"
  "first_local_date zd (i\<lparr>si_created_at := t\<rparr>) = first_local_date zd i"
  "first_local_date zd (i\<lparr>si_version := v\<rparr>) = first_local_date zd i"
  by (cases "si_starts_at i", simp_all add: first_local_date_def)+

lemma item_sound_touch [simp]:
  "item_sound zd (i\<lparr>si_updated_at := t\<rparr>) = item_sound zd i"
  "item_sound zd (i\<lparr>si_created_at := t\<rparr>) = item_sound zd i"
  "item_sound zd (i\<lparr>si_version := v\<rparr>) = item_sound zd i"
  unfolding item_sound_def item_recurrence_sound_def item_range_sound_def first_local_date_touch by simp_all

lemma insert_itemD:
  assumes "insert_item i s = (Inr (k, r), s')"
  shows "k = tbl_next (db_schedules s)" "s' = s\<lparr>db_schedules := tbl_insert r (db_schedules s)\<rparr>"
    "item_sound (db_zones s) r"
    "r = i\<lparr>si_title := py_strip (si_title i), si_created_at := db_now s, si_updated_at := db_now s\<rparr>"
  using assms full_clean_itemD [of s i] by (auto simp: insert_item_def Let_def split: sum.splits)

lemma save_itemD:
  assumes "save_item k i s = (Inr r, s')"
  shows "s' = s\<lparr>db_schedules := tbl_put k r (db_schedules s)\<rparr>" "item_sound (db_zones s) r"
    "r = i\<lparr>si_title := py_strip (si_title i), si_updated_at := db_now s\<rparr>"
  using assms full_clean_itemD [of s i] by (auto simp: save_item_def Let_def split: sum.splits)

lemma save_item_versionD:
  assumes "save_item_version k i s = (Inr r, s')"
  shows "s' = s\<lparr>db_schedules := tbl_update_where (\<lambda>k' _. k' = k)
      (\<lambda>r. r\<lparr>si_version := si_version i, si_updated_at := db_now s\<rparr>) (db_schedules s)\<rparr>"
    "r = i\<lparr>si_title := py_strip (si_title i), si_updated_at := db_now s\<rparr>" "item_sound (db_zones s) r"
  using assms full_clean_itemD [of s i] by (auto simp: save_item_version_def split: sum.splits)

lemma insert_dispatchD:
  assumes "insert_dispatch d s = (Inr k, s')"
  obtains r where "k = tbl_next (db_schedule_dispatches s)"
    "s' = s\<lparr>db_schedule_dispatches := tbl_insert r (db_schedule_dispatches s)\<rparr>"
    "\<not> key_taken dispatch_key r (db_schedule_dispatches s)" "clean_dispatch r = Inr ()"
    "r = d\<lparr>sd_offset_key := (case sd_offset_minutes d of None \<Rightarrow> -1 | Some m \<Rightarrow> m),
           sd_created_at := db_now s, sd_updated_at := db_now s\<rparr>"
  using assms by (auto simp: insert_dispatch_def Let_def split: if_splits sum.splits)

end
