(* ===== verification/ScheduleAudience.thy ===== *)
theory ScheduleAudience
  imports ScheduleModel
begin

text \<open>
  Who receives a group schedule (\<open>apps/schedules/audience_services.py\<close>, \<open>apps/schedules/signals.py\<close>) and the
  notifications of a change (\<open>dispatch_group_event\<close> in \<open>apps/schedules/reminder_services.py\<close>).

  The selection of an item (projects and accounts) is resolved into one open grant per recipient. A dispatch row
  claims a recipient for one event of one version of the item, so the same event is announced once.
\<close>

section \<open>Announcing a change\<close>

text \<open>
  \<open>_action_path\<close>: the date of \<open>item.starts_on or item.starts_at.date()\<close> and the occurrence key. An item without the
  start its kind needs (never a stored one) makes it raise.
\<close>

definition schedule_action_path :: "pk \<Rightarrow> schedule_item \<Rightarrow> string option" where
  "schedule_action_path k i =
     (let on = (case si_starts_on i of Some d \<Rightarrow> Some d | None \<Rightarrow> map_option date_of (si_starts_at i));
          key = (if si_all_day i then map_option str_of_day (si_starts_on i) else map_option isoformat (si_starts_at i))
      in case (on, key) of
           (Some d, Some t) \<Rightarrow>
             Some (''/?date='' @ str_of_day d @ ''&item=schedule%3A'' @ str_of_nat k @ ''%3A'' @ t)
         | _ \<Rightarrow> None)"

fun group_event :: "dispatch_event \<Rightarrow> (notification_event \<times> string) option" where
  "group_event Dispatch_PUBLISHED = Some (SCHEDULE_PUBLISHED, ''New group schedule'')"
| "group_event Dispatch_CHANGED = Some (SCHEDULE_CHANGED, ''Group schedule changed'')"
| "group_event Dispatch_CANCELLED = Some (SCHEDULE_CANCELLED, ''Group schedule cancelled'')"
| "group_event Dispatch_REMOVED = Some (SCHEDULE_RECIPIENT_REMOVED, ''Schedule audience changed'')"
| "group_event Dispatch_REMINDER = None"

definition new_dispatch ::
  "pk \<Rightarrow> pk \<Rightarrow> string \<Rightarrow> dispatch_event \<Rightarrow> int option \<Rightarrow> dispatch_channel \<Rightarrow> pk option \<Rightarrow> schedule_dispatch"
where
  "new_dispatch k recipient key ev offset channel notification =
     \<lparr>sd_item = k, sd_recipient = recipient, sd_occurrence_key = key, sd_event_type = ev,
      sd_offset_minutes = offset, sd_offset_key = -1, sd_channel = channel, sd_notification = notification,
      sd_status = Dispatch_CLAIMED, sd_failure_code = [], sd_created_at = 0, sd_updated_at = 0\<rparr>"

text \<open>\<open>get_or_create\<close>: the row that agrees with \<open>d\<close> in the fields looked up, or \<open>d\<close> itself.\<close>

definition get_or_create_dispatch ::
  "(schedule_dispatch \<Rightarrow> schedule_dispatch \<Rightarrow> bool) \<Rightarrow> schedule_dispatch \<Rightarrow> ('a schedule_db_scheme, pk \<times> bool) op"
where
  "get_or_create_dispatch same d s =
     (case tbl_first (\<lambda>_ r. same d r) (db_schedule_dispatches s) of
        Some (k, _) \<Rightarrow> (Inr (k, False), s)
      | None \<Rightarrow> (case insert_dispatch d s of (Inl e, s1) \<Rightarrow> (Inl e, s1) | (Inr k, s1) \<Rightarrow> (Inr (k, True), s1)))"

definition same_event :: "schedule_dispatch \<Rightarrow> schedule_dispatch \<Rightarrow> bool" where
  "same_event d r \<longleftrightarrow>
     sd_item r = sd_item d \<and> sd_recipient r = sd_recipient d \<and> sd_occurrence_key r = sd_occurrence_key d
     \<and> sd_event_type r = sd_event_type d \<and> sd_channel r = sd_channel d"

definition same_reminder :: "schedule_dispatch \<Rightarrow> schedule_dispatch \<Rightarrow> bool" where
  "same_reminder d r \<longleftrightarrow> same_event d r \<and> sd_offset_minutes r = sd_offset_minutes d"

definition mark_dispatched :: "pk \<Rightarrow> pk \<Rightarrow> 'a schedule_db_scheme \<Rightarrow> 'a schedule_db_scheme" where
  "mark_dispatched dk nk s =
     s\<lparr>db_schedule_dispatches := tbl_update_where (\<lambda>k _. k = dk)
        (\<lambda>d. d\<lparr>sd_notification := Some nk, sd_status := Dispatch_CREATED, sd_updated_at := db_now s\<rparr>)
        (db_schedule_dispatches s)\<rparr>"

text \<open>What the loop over the recipients does not change.\<close>

record dispatch_job =
  dj_item :: pk
  dj_key :: string
  dj_event :: dispatch_event
  dj_project :: "pk option"
  dj_sender :: pk
  dj_path :: "string option"

definition group_notification :: "dispatch_job \<Rightarrow> pk \<Rightarrow> instant \<Rightarrow> notification_event \<Rightarrow> string \<Rightarrow> string \<Rightarrow> enqueue_args" where
  "group_notification j recipient now ev subject path =
     (enqueue_defaults recipient ev ''ScheduleItem'' (str_of_nat (dj_item j)) subject)
       \<lparr>en_project := dj_project j, en_sender := Some (dj_sender j), en_action_path := path,
        en_eligible_at := Some now,
        en_delivery_policy := (if dj_event j = Dispatch_CANCELLED then Notification_IN_APP_EMAIL else Notification_IN_APP)\<rparr>"

definition dispatch_to :: "dispatch_job \<Rightarrow> pk \<Rightarrow> ('a schedule_db_scheme, bool) op" where
  "dispatch_to j recipient s =
     (let row = (\<lambda>channel nk. new_dispatch (dj_item j) recipient (dj_key j) (dj_event j) None channel nk)
      in case get_or_create_dispatch same_event (row Dispatch_IN_APP None) s of
           (Inl e, s1) \<Rightarrow> (Inl e, s1)
         | (Inr (dk, False), s1) \<Rightarrow> (Inr False, s1)
         | (Inr (dk, True), s1) \<Rightarrow>
        (case group_event (dj_event j) of
           None \<Rightarrow> (Inl (KeyError ''reminder''), s1)
         | Some (ev, subject) \<Rightarrow>
        (case dj_path j of
           None \<Rightarrow> (Inl (AttributeError ''NoneType''), s1)
         | Some path \<Rightarrow>
        (case enqueue_notification (group_notification j recipient (db_now s1) ev subject path) s1 of
           (Inl e, s2) \<Rightarrow> (Inl e, s2)
         | (Inr nk, s2) \<Rightarrow>
             let s3 = mark_dispatched dk nk s2
             in if dj_event j \<noteq> Dispatch_CANCELLED then (Inr True, s3)
                else (case get_or_create_dispatch same_event (row Dispatch_EMAIL (Some nk)) s3 of
                        (Inl e, s4) \<Rightarrow> (Inl e, s4) | (Inr _, s4) \<Rightarrow> (Inr True, s4))))))"

fun dispatch_all :: "dispatch_job \<Rightarrow> pk list \<Rightarrow> ('a schedule_db_scheme, nat) op" where
  "dispatch_all j [] s = (Inr 0, s)"
| "dispatch_all j (r # rs) s =
     (case dispatch_to j r s of
        (Inl e, s1) \<Rightarrow> (Inl e, s1)
      | (Inr created, s1) \<Rightarrow>
          (case dispatch_all j rs s1 of
             (Inl e, s2) \<Rightarrow> (Inl e, s2) | (Inr n, s2) \<Rightarrow> (Inr (if created then Suc n else n), s2)))"

text \<open>The project of the first audience that has one.\<close>

definition audiences_of :: "'a schedule_db_scheme \<Rightarrow> pk \<Rightarrow> (pk \<times> schedule_audience) list" where
  "audiences_of s k = tbl_filter (\<lambda>_ a. sa_item a = k) (db_schedule_audiences s)"

definition audience_project :: "'a schedule_db_scheme \<Rightarrow> pk \<Rightarrow> pk option" where
  "audience_project s k = first_some (\<lambda>(_, a). sa_project a) (audiences_of s k)"

definition open_grants :: "'a schedule_db_scheme \<Rightarrow> pk \<Rightarrow> (pk \<times> recipient_grant) list" where
  "open_grants s k = tbl_filter (\<lambda>_ g. sg_item g = k \<and> sg_valid_until g = None) (db_recipient_grants s)"

definition open_recipients :: "'a schedule_db_scheme \<Rightarrow> pk \<Rightarrow> pk list" where
  "open_recipients s k = map (\<lambda>(_, g). sg_recipient g) (open_grants s k)"

definition series_key :: "nat \<Rightarrow> string" where
  "series_key v = ''series:'' @ str_of_nat v"

definition dispatch_group_event ::
  "pk \<Rightarrow> schedule_item \<Rightarrow> pk \<Rightarrow> dispatch_event \<Rightarrow> pk list option \<Rightarrow> ('a schedule_db_scheme, nat) op"
where
  "dispatch_group_event k i sender ev recipients s =
     dispatch_all
       \<lparr>dj_item = k, dj_key = series_key (si_version i), dj_event = ev, dj_project = audience_project s k,
        dj_sender = sender, dj_path = schedule_action_path k i\<rparr>
       (case recipients of None \<Rightarrow> open_recipients s k | Some rs \<Rightarrow> rs) s"

section \<open>Selecting an audience\<close>

definition project_options :: "'a project_db_scheme \<Rightarrow> actor \<Rightarrow> string \<Rightarrow> (pk \<times> research_project) list" where
  "project_options s u query =
     tbl_filter (\<lambda>k p. rp_status p = ResearchProject_ACTIVE
        \<and> (is_administrator u \<or> k \<in> advised_projects s (u_id u))
        \<and> (query = [] \<or> py_contains (py_lower (rp_title p)) (py_lower query))) (db_projects s)"

definition account_options :: "'a project_db_scheme \<Rightarrow> actor \<Rightarrow> string \<Rightarrow> (pk \<times> user) list" where
  "account_options s u query =
     filter (\<lambda>(_, a). query = [] \<or> py_contains (py_lower (u_name a)) (py_lower query)
        \<or> py_contains (py_lower (u_email a)) (py_lower query)) (eligible_recipient_accounts s u)"

text \<open>The order of the two searches, by label and id, and the first page of \<open>audience_options\<close>.\<close>

definition labelled :: "(string \<times> pk) list \<Rightarrow> nat \<Rightarrow> (string \<times> pk) list" where
  "labelled ls n = take n (sort_key fst (sort_key snd ls))"

definition audience_options ::
  "'a project_db_scheme \<Rightarrow> actor \<Rightarrow> string \<Rightarrow> string \<Rightarrow> nat \<Rightarrow> error + (string \<times> pk) list"
where
  "audience_options s u option_type query n =
     (if \<not> can_publish_group_item u
      then Inl (PermissionDenied ''Only advisors and administrators can select group audiences.'')
      else if option_type = ''project''
      then Inr (labelled (map (\<lambda>(k, p). (rp_title p, k)) (project_options s u query)) n)
      else if option_type = ''account''
      then Inr (labelled (map (\<lambda>(k, a). (u_name a, k)) (account_options s u query)) n)
      else Inl (FieldError ''type'' ''Choose project or account.''))"

section \<open>Evidence\<close>

text \<open>Why an account receives the item: the kinds of selection and the projects it was found in.\<close>

type_synonym evidence = "(pk \<times> string list \<times> pk list) list"

definition entry_add :: "string \<Rightarrow> pk option \<Rightarrow> string list \<times> pk list \<Rightarrow> string list \<times> pk list" where
  "entry_add kind project e =
     (case e of (kinds, projects) \<Rightarrow>
        (if kind \<in> set kinds then kinds else kinds @ [kind],
         case project of None \<Rightarrow> projects | Some p \<Rightarrow> if p \<in> set projects then projects else projects @ [p]))"

definition evidence_add :: "pk \<Rightarrow> string \<Rightarrow> pk option \<Rightarrow> evidence \<Rightarrow> evidence" where
  "evidence_add user kind project ev =
     dict_set user (entry_add kind project (case map_of ev user of None \<Rightarrow> ([], []) | Some e \<Rightarrow> e)) ev"

definition member_evidence :: "pk \<Rightarrow> (pk \<times> project_membership) list \<Rightarrow> evidence \<Rightarrow> evidence" where
  "member_evidence self ms ev =
     foldl (\<lambda>ev (_, m). if pm_user m = self then ev else evidence_add (pm_user m) ''project'' (Some (pm_project m)) ev)
       ev ms"

definition account_evidence :: "pk \<Rightarrow> pk list \<Rightarrow> evidence \<Rightarrow> evidence" where
  "account_evidence self ks ev = foldl (\<lambda>ev k. if k = self then ev else evidence_add k ''account'' None ev) ev ks"

definition insert_audience :: "schedule_audience \<Rightarrow> ('a schedule_db_scheme, unit) op" where
  "insert_audience a s =
     (if key_taken project_audience_key a (db_schedule_audiences s)
      then (Inl (IntegrityError ''unique_schedule_project_audience''), s)
      else if key_taken account_audience_key a (db_schedule_audiences s)
      then (Inl (IntegrityError ''unique_schedule_account_audience''), s)
      else (Inr (), s\<lparr>db_schedule_audiences := tbl_insert a (db_schedule_audiences s)\<rparr>))"

definition insert_grant :: "recipient_grant \<Rightarrow> ('a schedule_db_scheme, unit) op" where
  "insert_grant g s =
     (if key_taken open_grant_key g (db_recipient_grants s)
      then (Inl (IntegrityError ''unique_open_schedule_grant''), s)
      else (Inr (), s\<lparr>db_recipient_grants := tbl_insert (g\<lparr>sg_resolved_at := db_now s\<rparr>) (db_recipient_grants s)\<rparr>))"

definition grant_of :: "pk \<Rightarrow> instant \<Rightarrow> pk \<times> string list \<times> pk list \<Rightarrow> recipient_grant" where
  "grant_of k now e =
     (case e of (user, kinds, projects) \<Rightarrow>
        \<lparr>sg_item = k, sg_recipient = user, sg_valid_from = now, sg_valid_until = None,
         sg_source_types = sort kinds, sg_source_project_ids = sort projects, sg_resolved_at = now\<rparr>)"

definition record_grant :: "pk \<Rightarrow> instant \<Rightarrow> pk \<times> string list \<times> pk list \<Rightarrow> ('a schedule_db_scheme, unit) op" where
  "record_grant k now e s =
     (let g = grant_of k now e
      in case tbl_first (\<lambda>_ r. sg_item r = k \<and> sg_recipient r = fst e \<and> sg_valid_until r = None) (db_recipient_grants s) of
           None \<Rightarrow> insert_grant g s
         | Some (gk, r) \<Rightarrow>
             (Inr (), s\<lparr>db_recipient_grants := tbl_put gk
                (r\<lparr>sg_source_types := sg_source_types g, sg_source_project_ids := sg_source_project_ids g,
                   sg_resolved_at := db_now s\<rparr>) (db_recipient_grants s)\<rparr>))"

section \<open>Resolving an audience\<close>

definition project_audience :: "pk \<Rightarrow> pk \<Rightarrow> instant \<Rightarrow> pk \<Rightarrow> schedule_audience" where
  "project_audience k creator now p =
     \<lparr>sa_item = k, sa_scope_type = Audience_PROJECT, sa_project = Some p, sa_account = None,
      sa_created_by = creator, sa_created_at = now\<rparr>"

definition account_audience :: "pk \<Rightarrow> pk \<Rightarrow> instant \<Rightarrow> pk \<Rightarrow> schedule_audience" where
  "account_audience k creator now a =
     \<lparr>sa_item = k, sa_scope_type = Audience_ACCOUNT, sa_project = None, sa_account = Some a,
      sa_created_by = creator, sa_created_at = now\<rparr>"

definition clear_audiences :: "pk \<Rightarrow> 'a schedule_db_scheme \<Rightarrow> 'a schedule_db_scheme" where
  "clear_audiences k s =
     s\<lparr>db_schedule_audiences := (db_schedule_audiences s)\<lparr>tbl_rows :=
        filter (\<lambda>(_, a). sa_item a \<noteq> k) (tbl_rows (db_schedule_audiences s))\<rparr>\<rparr>"

definition audience_summary :: "nat \<Rightarrow> nat \<Rightarrow> nat \<Rightarrow> pydict" where
  "audience_summary projects accounts recipients =
     [(''projectCount'', PInt (int projects)), (''accountCount'', PInt (int accounts)),
      (''resolvedRecipientCount'', PInt (int recipients))]"

definition resolve_audience ::
  "actor \<Rightarrow> pk \<Rightarrow> schedule_item \<Rightarrow> pk list \<Rightarrow> pk list \<Rightarrow> instant option \<Rightarrow> ('a schedule_db_scheme, pydict) op"
where
  "resolve_audience u k i project_ids account_ids resolved_at = atomic (\<lambda>s.
     if \<not> can_publish_group_item u
     then (Inl (PermissionDenied ''Only advisors and administrators can publish group schedules.''), s)
     else if si_scope i \<noteq> Schedule_GROUP
     then (Inl (ValidationError ''Audience grants require a group schedule.''), s)
     else if project_ids = [] \<and> account_ids = []
     then (Inl (FieldError ''audience'' ''Select at least one project or account.''), s)
     else
       let pids = set project_ids; aids = set account_ids;
           projects = tbl_filter (\<lambda>p _. p \<in> pids) (db_projects s);
           accounts = filter (\<lambda>(a, _). a \<in> aids) (eligible_recipient_accounts s u)
       in if length projects \<noteq> card pids
             \<or> list_ex (\<lambda>(p, r). rp_status r \<noteq> ResearchProject_ACTIVE \<or> \<not> can_manage_project s u p r) projects
          then (Inl (FieldError ''audience'' ''A selected project is no longer eligible.''), s)
          else if length accounts \<noteq> card aids
          then (Inl (FieldError ''audience'' ''A selected account is no longer eligible.''), s)
          else
            (case for_each insert_audience
                    (map (project_audience k (u_id u) (db_now s)) (map fst projects)
                     @ map (account_audience k (u_id u) (db_now s)) (map fst accounts)) (clear_audiences k s) of
               (Inl e, s1) \<Rightarrow> (Inl e, s1)
             | (Inr _, s1) \<Rightarrow>
                 let ev = account_evidence (u_id u) (map fst accounts)
                            (member_evidence (u_id u) (audience_members s1 (set (map fst projects))) []);
                     now = (case resolved_at of None \<Rightarrow> db_now s1 | Some t \<Rightarrow> t)
                 in case for_each (record_grant k now) ev s1 of
                      (Inl e, s2) \<Rightarrow> (Inl e, s2)
                    | (Inr _, s2) \<Rightarrow> (Inr (audience_summary (length projects) (length accounts) (length ev)), s2)))"

section \<open>Resolving it again\<close>

definition account_active :: "'a core_db_scheme \<Rightarrow> pk \<Rightarrow> bool" where
  "account_active s k \<longleftrightarrow> (case tbl_get (db_users s) k of None \<Rightarrow> False | Some a \<Rightarrow> u_status a = User_ACTIVE)"

definition audience_project_ids :: "'a schedule_db_scheme \<Rightarrow> pk \<Rightarrow> pk list" where
  "audience_project_ids s k =
     List.map_filter (\<lambda>(_, a). if sa_scope_type a = Audience_PROJECT then sa_project a else None) (audiences_of s k)"

definition audience_account_ids :: "'a schedule_db_scheme \<Rightarrow> pk \<Rightarrow> pk list" where
  "audience_account_ids s k =
     filter (account_active s)
       (List.map_filter (\<lambda>(_, a). if sa_scope_type a = Audience_ACCOUNT then sa_account a else None) (audiences_of s k))"

definition audience_evidence :: "'a schedule_db_scheme \<Rightarrow> pk \<Rightarrow> pk \<Rightarrow> evidence" where
  "audience_evidence s k owner =
     account_evidence owner (audience_account_ids s k)
       (member_evidence owner
         (filter (\<lambda>(_, m). account_active s (pm_user m)) (audience_members s (set (audience_project_ids s k)))) [])"

text \<open>
  The bulk update: an open grant without evidence is closed, not before the instant after it began; the others get
  the evidence of today.
\<close>

definition regrant :: "instant \<Rightarrow> evidence \<Rightarrow> recipient_grant \<Rightarrow> recipient_grant" where
  "regrant now ev g =
     (case map_of ev (sg_recipient g) of
        None \<Rightarrow> g\<lparr>sg_valid_until := Some (max now (sg_valid_from g + 1)), sg_resolved_at := now\<rparr>
      | Some (kinds, projects) \<Rightarrow>
          g\<lparr>sg_source_types := sort kinds, sg_source_project_ids := sort projects, sg_resolved_at := now\<rparr>)"

text \<open>The bulk update, the evidence that has no open grant yet, and the recipients whose grant is closed.\<close>

definition regranted :: "pk \<Rightarrow> instant \<Rightarrow> evidence \<Rightarrow> 'a schedule_db_scheme \<Rightarrow> 'a schedule_db_scheme" where
  "regranted k now ev s =
     s\<lparr>db_recipient_grants := tbl_update_where (\<lambda>_ g. sg_item g = k \<and> sg_valid_until g = None)
        (regrant now ev) (db_recipient_grants s)\<rparr>"

definition granted_additions :: "'a schedule_db_scheme \<Rightarrow> pk \<Rightarrow> evidence \<Rightarrow> evidence" where
  "granted_additions s k ev = filter (\<lambda>e. fst e \<notin> set (open_recipients s k)) ev"

definition removed_recipients :: "'a schedule_db_scheme \<Rightarrow> pk \<Rightarrow> evidence \<Rightarrow> pk list" where
  "removed_recipients s k ev = filter (\<lambda>r. r \<notin> set (map fst ev)) (open_recipients s k)"

definition reresolve_audience ::
  "pk \<Rightarrow> schedule_item \<Rightarrow> instant option \<Rightarrow> ('a schedule_db_scheme, nat \<times> nat \<times> nat) op"
where
  "reresolve_audience k i resolved_at = atomic (\<lambda>s.
     if si_scope i \<noteq> Schedule_GROUP then (Inr (0, 0, 0), s)
     else
       let now = (case resolved_at of None \<Rightarrow> db_now s | Some t \<Rightarrow> t);
           ev = audience_evidence s k (si_owner i);
           additions = granted_additions s k ev;
           removed = removed_recipients s k ev
       in case for_each insert_grant (map (grant_of k now) additions) (regranted k now ev s) of
            (Inl e, s2) \<Rightarrow> (Inl e, s2)
          | (Inr _, s2) \<Rightarrow>
              (case (if removed = [] then (Inr 0, s2)
                     else dispatch_group_event k i (si_owner i) Dispatch_REMOVED (Some removed) s2) of
                 (Inl e, s3) \<Rightarrow> (Inl e, s3)
               | (Inr _, s3) \<Rightarrow> (Inr (length additions, length removed, length ev), s3)))"

text \<open>The receiver of \<open>post_save\<close> of a membership: every group item whose audience names the project.\<close>

definition items_of_project :: "'a schedule_db_scheme \<Rightarrow> pk \<Rightarrow> (pk \<times> schedule_item) list" where
  "items_of_project s pid =
     tbl_filter (\<lambda>k i. si_scope i = Schedule_GROUP
        \<and> list_ex (\<lambda>(_, a). sa_project a = Some pid) (audiences_of s k)) (db_schedules s)"

definition refresh_project_schedule_grants :: "pk \<Rightarrow> ('a schedule_db_scheme, unit) op" where
  "refresh_project_schedule_grants pid s =
     for_each (\<lambda>(k, i). void (reresolve_audience k i None)) (items_of_project s pid) s"

end
