(* ===== verification/ScheduleServices.thy ===== *)
theory ScheduleServices
  imports ScheduleAudience
begin

text \<open>
  The operations on schedule items (\<open>apps/schedules/services.py\<close>): create, publish, update, cancel, complete, delete,
  each for one occurrence, for an occurrence and all after it, or for the series.

  The dictionary of changed fields is \<open>schedule_fields\<close>; an absent key is \<open>None\<close>. \<open>_apply_fields\<close> takes
  \<open>recurrence\<close> and \<open>reminders\<close> out of the dictionary it is given, which its callers read again afterwards:
  \<open>popped\<close> is what is left. A changed item is named by its key and its fields in memory, which can differ from the
  stored row.
\<close>

section \<open>Fields\<close>

record recurrence_input =
  ri_frequency :: "recurrence_frequency option"
  ri_interval :: "int option"
  ri_weekdays :: "int list option"
  ri_until :: "day option"

type_synonym reminder_input = "int \<times> bool"

record schedule_fields =
  fd_category :: "schedule_category option"
  fd_title :: "string option"
  fd_description :: "string option"
  fd_all_day :: "bool option"
  fd_starts_at :: "instant option option"
  fd_ends_at :: "instant option option"
  fd_starts_on :: "day option option"
  fd_ends_on :: "day option option"
  fd_timezone :: "string option"
  fd_recurrence :: "recurrence_input option"
  fd_reminders :: "reminder_input list option"

definition no_fields :: schedule_fields where
  "no_fields = \<lparr>fd_category = None, fd_title = None, fd_description = None, fd_all_day = None, fd_starts_at = None,
     fd_ends_at = None, fd_starts_on = None, fd_ends_on = None, fd_timezone = None, fd_recurrence = None,
     fd_reminders = None\<rparr>"

definition given :: "'b option \<Rightarrow> 'b \<Rightarrow> 'b" where
  "given x old = (case x of None \<Rightarrow> old | Some y \<Rightarrow> y)"

definition apply_recurrence :: "recurrence_input option \<Rightarrow> schedule_item \<Rightarrow> schedule_item" where
  "apply_recurrence r i =
     (case r of
        None \<Rightarrow> i
      | Some x \<Rightarrow> i\<lparr>si_recurrence_frequency := given (ri_frequency x) Recurrence_NONE,
                    si_recurrence_interval := given (ri_interval x) 1,
                    si_recurrence_weekdays := given (ri_weekdays x) [], si_recurrence_until := ri_until x\<rparr>)"

definition apply_fields :: "schedule_fields \<Rightarrow> schedule_item \<Rightarrow> schedule_item" where
  "apply_fields f i =
     apply_recurrence (fd_recurrence f)
       (i\<lparr>si_category := given (fd_category f) (si_category i), si_title := given (fd_title f) (si_title i),
          si_description := given (fd_description f) (si_description i),
          si_all_day := given (fd_all_day f) (si_all_day i), si_starts_at := given (fd_starts_at f) (si_starts_at i),
          si_ends_at := given (fd_ends_at f) (si_ends_at i), si_starts_on := given (fd_starts_on f) (si_starts_on i),
          si_ends_on := given (fd_ends_on f) (si_ends_on i), si_timezone := given (fd_timezone f) (si_timezone i)\<rparr>)"

definition popped :: "schedule_fields \<Rightarrow> schedule_fields" where
  "popped f = f\<lparr>fd_recurrence := None, fd_reminders := None\<rparr>"

text \<open>The keys of the dictionary, sorted.\<close>

definition name_if :: "'b option \<Rightarrow> string \<Rightarrow> string list" where
  "name_if x name = (case x of None \<Rightarrow> [] | Some _ \<Rightarrow> [name])"

definition field_names :: "schedule_fields \<Rightarrow> string list" where
  "field_names f =
     name_if (fd_all_day f) ''all_day'' @ name_if (fd_category f) ''category''
     @ name_if (fd_description f) ''description'' @ name_if (fd_ends_at f) ''ends_at'' @ name_if (fd_ends_on f) ''ends_on''
     @ name_if (fd_recurrence f) ''recurrence'' @ name_if (fd_reminders f) ''reminders''
     @ name_if (fd_starts_at f) ''starts_at'' @ name_if (fd_starts_on f) ''starts_on''
     @ name_if (fd_timezone f) ''timezone'' @ name_if (fd_title f) ''title''"

section \<open>Helpers\<close>

definition assert_owner :: "actor \<Rightarrow> schedule_item \<Rightarrow> error + unit" where
  "assert_owner u i =
     (if si_owner i \<noteq> u_id u then Inl (PermissionDenied ''Only the schedule owner can change this item.'') else Inr ())"

definition assert_can_change :: "actor \<Rightarrow> schedule_item \<Rightarrow> error + unit" where
  "assert_can_change u i =
     (if si_scope i = Schedule_PERSONAL then assert_owner u i
      else if \<not> can_manage_group_item u i
      then Inl (PermissionDenied ''Only the publisher or an administrator can change this schedule.'')
      else Inr ())"

text \<open>\<open>ScheduleVersionConflict\<close> carries the item.\<close>

definition assert_version :: "pk \<Rightarrow> schedule_item \<Rightarrow> int \<Rightarrow> error + unit" where
  "assert_version k i expected =
     (if int (si_version i) \<noteq> expected
      then Inl (VersionConflict [(''id'', PInt (int k)), (''version'', PInt (int (si_version i)))]) else Inr ())"

definition insert_reminder :: "pk \<Rightarrow> reminder_input \<Rightarrow> ('a schedule_db_scheme, unit) op" where
  "insert_reminder k r s =
     (let row = \<lparr>sr_item = k, sr_offset_minutes = fst r, sr_mandatory = snd r, sr_created_at = db_now s\<rparr>
      in if key_taken reminder_key row (db_schedule_reminders s)
         then (Inl (IntegrityError ''unique_schedule_reminder''), s)
         else (Inr (), s\<lparr>db_schedule_reminders := tbl_insert row (db_schedule_reminders s)\<rparr>))"

definition replace_reminders :: "pk \<Rightarrow> reminder_input list option \<Rightarrow> ('a schedule_db_scheme, unit) op" where
  "replace_reminders k reminders s =
     (case reminders of
        None \<Rightarrow> (Inr (), s)
      | Some rs \<Rightarrow>
          for_each (insert_reminder k) rs
            (s\<lparr>db_schedule_reminders := (db_schedule_reminders s)\<lparr>tbl_rows :=
                 filter (\<lambda>(_, r). sr_item r \<noteq> k) (tbl_rows (db_schedule_reminders s))\<rparr>\<rparr>))"

definition reminders_of :: "'a schedule_db_scheme \<Rightarrow> pk \<Rightarrow> reminder_input list" where
  "reminders_of s k =
     map (\<lambda>(_, r). (sr_offset_minutes r, sr_mandatory r)) (tbl_filter (\<lambda>_ r. sr_item r = k) (db_schedule_reminders s))"

definition insert_schedule_revision :: "schedule_revision \<Rightarrow> ('a schedule_db_scheme, unit) op" where
  "insert_schedule_revision r s =
     (if key_taken revision_key r (db_schedule_revisions s)
      then (Inl (IntegrityError ''unique_schedule_revision''), s)
      else if 40 < length (sv_effective_from r) then (Inl (DataError ''effective_from''), s)
      else (Inr (), s\<lparr>db_schedule_revisions := tbl_insert (r\<lparr>sv_created_at := db_now s\<rparr>) (db_schedule_revisions s)\<rparr>))"

definition last_revision :: "'a schedule_db_scheme \<Rightarrow> pk \<Rightarrow> nat" where
  "last_revision s k =
     foldl max 0 (map (\<lambda>(_, r). sv_revision_number r) (tbl_filter (\<lambda>_ r. sv_item r = k) (db_schedule_revisions s)))"

definition record_group_revision ::
  "pk \<Rightarrow> actor \<Rightarrow> revision_change \<Rightarrow> string list \<Rightarrow> string option \<Rightarrow> ('a schedule_db_scheme, unit) op"
where
  "record_group_revision k u change changed effective s =
     insert_schedule_revision
       \<lparr>sv_item = k, sv_revision_number = last_revision s k + 1, sv_actor = u_id u, sv_change_type = change,
        sv_changed_fields = changed, sv_audience_summary = [], sv_effective_from = given effective [],
        sv_created_at = db_now s\<rparr> s"

definition record_schedule_event ::
  "actor \<Rightarrow> pk \<Rightarrow> schedule_item \<Rightarrow> string \<Rightarrow> string \<Rightarrow> pydict \<Rightarrow> 'a audit_db_scheme \<Rightarrow> 'a audit_db_scheme"
where
  "record_schedule_event u k i action outcome audience s =
     (if si_scope i = Schedule_PERSONAL then s
      else record_event None (Some u) (''schedule.'' @ action) (''Group schedule '' @ action @ '': '' @ outcome)
             (Some (''ScheduleItem'', k))
             (event_defaults\<lparr>opt_target_snapshot := Some
                [(''scope'', PStr (schedule_scope_value (si_scope i))), (''outcome'', PStr outcome),
                 (''audience'', PDict audience), (''version'', PInt (int (si_version i)))]\<rparr>) s)"

section \<open>Creating and publishing\<close>

definition new_schedule :: "actor \<Rightarrow> schedule_scope \<Rightarrow> instant \<Rightarrow> schedule_item" where
  "new_schedule u scope now =
     \<lparr>si_owner = u_id u, si_organizer = u_id u, si_scope = scope, si_category = Category_PERSONAL, si_title = [],
      si_description = [], si_all_day = False, si_starts_at = None, si_ends_at = None, si_starts_on = None,
      si_ends_on = None, si_timezone = ''UTC'', si_recurrence_frequency = Recurrence_NONE,
      si_recurrence_interval = 1, si_recurrence_weekdays = [], si_recurrence_until = None,
      si_status = Schedule_ACTIVE, si_published_at = (if scope = Schedule_GROUP then Some now else None),
      si_cancelled_at = None, si_version = 1, si_created_at = now, si_updated_at = now\<rparr>"

text \<open>What creation and publication do with a group item: the audience, revision 1, the event, the announcement.\<close>

definition announce_group ::
  "actor \<Rightarrow> pk \<Rightarrow> schedule_item \<Rightarrow> pk list \<Rightarrow> pk list \<Rightarrow> ('a schedule_db_scheme, unit) op"
where
  "announce_group u k i project_ids account_ids s =
     (case resolve_audience u k i project_ids account_ids None s of
        (Inl e, s1) \<Rightarrow> (Inl e, s1)
      | (Inr summary, s1) \<Rightarrow>
          (case insert_schedule_revision
                  \<lparr>sv_item = k, sv_revision_number = 1, sv_actor = u_id u, sv_change_type = Revision_PUBLISHED,
                   sv_changed_fields = [''scope'', ''audience''], sv_audience_summary = summary,
                   sv_effective_from = [], sv_created_at = db_now s1\<rparr> s1 of
             (Inl e, s2) \<Rightarrow> (Inl e, s2)
           | (Inr _, s2) \<Rightarrow>
               void (dispatch_group_event k i (u_id u) Dispatch_PUBLISHED None)
                 (record_schedule_event u k i ''published'' ''success'' summary s2)))"

definition create_schedule ::
  "actor \<Rightarrow> schedule_scope \<Rightarrow> (pk list \<times> pk list) option \<Rightarrow> schedule_fields \<Rightarrow> ('a schedule_db_scheme, pk) op"
where
  "create_schedule u scope audience f = atomic (\<lambda>s.
     if scope = Schedule_GROUP \<and> \<not> can_publish_group_item u
     then (Inl (PermissionDenied ''Only advisors and administrators can publish group schedules.''), s)
     else case insert_item (apply_fields f (new_schedule u scope (db_now s))) s of
       (Inl e, s1) \<Rightarrow> (Inl e, s1)
     | (Inr (k, i), s1) \<Rightarrow>
         (case replace_reminders k (fd_reminders f) s1 of
            (Inl e, s2) \<Rightarrow> (Inl e, s2)
          | (Inr _, s2) \<Rightarrow>
              if scope \<noteq> Schedule_GROUP then (Inr k, s2)
              else (case announce_group u k i (fst (given audience ([], []))) (snd (given audience ([], []))) s2 of
                      (Inl e, s3) \<Rightarrow> (Inl e, s3) | (Inr _, s3) \<Rightarrow> (Inr k, s3))))"

definition publish_schedule ::
  "actor \<Rightarrow> pk \<Rightarrow> int \<Rightarrow> pk list \<times> pk list \<Rightarrow> reminder_input list option \<Rightarrow> ('a schedule_db_scheme, pk) op"
where
  "publish_schedule u k expected audience reminders = atomic (\<lambda>s.
     case tbl_get (db_schedules s) k of
       None \<Rightarrow> (Inl (DoesNotExist ''ScheduleItem''), s)
     | Some locked \<Rightarrow>
     (case assert_owner u locked of Inl e \<Rightarrow> (Inl e, s) | Inr _ \<Rightarrow>
     (case assert_version k locked expected of Inl e \<Rightarrow> (Inl e, s) | Inr _ \<Rightarrow>
      if si_scope locked \<noteq> Schedule_PERSONAL \<or> \<not> can_publish_group_item u
      then (Inl (PermissionDenied ''Only owned private schedules can be published.''), s)
      else case save_item k (locked\<lparr>si_scope := Schedule_GROUP, si_published_at := Some (db_now s),
                                    si_version := Suc (si_version locked)\<rparr>) s of
        (Inl e, s1) \<Rightarrow> (Inl e, s1)
      | (Inr i, s1) \<Rightarrow>
          (case replace_reminders k reminders s1 of
             (Inl e, s2) \<Rightarrow> (Inl e, s2)
           | (Inr _, s2) \<Rightarrow>
               (case announce_group u k i (fst audience) (snd audience) s2 of
                  (Inl e, s3) \<Rightarrow> (Inl e, s3) | (Inr _, s3) \<Rightarrow> (Inr k, s3))))))"

section \<open>One occurrence\<close>

definition new_exception :: "pk \<Rightarrow> pk \<Rightarrow> occurrence_at \<Rightarrow> instant \<Rightarrow> occurrence_exception" where
  "new_exception k creator v now =
     \<lparr>sx_item = k, sx_original_starts_at = (case v of On_day _ \<Rightarrow> None | At_instant t \<Rightarrow> Some t),
      sx_original_starts_on = (case v of On_day d \<Rightarrow> Some d | At_instant _ \<Rightarrow> None),
      sx_override_starts_at = None, sx_override_ends_at = None, sx_override_starts_on = None,
      sx_override_ends_on = None, sx_override_title = None, sx_override_description = None,
      sx_status = Exception_RESCHEDULED, sx_version = 1, sx_created_by = creator, sx_created_at = now,
      sx_updated_at = now\<rparr>"

definition exception_at :: "occurrence_exception \<Rightarrow> occurrence_at \<Rightarrow> bool" where
  "exception_at x v =
     (case v of On_day d \<Rightarrow> sx_original_starts_on x = Some d | At_instant t \<Rightarrow> sx_original_starts_at x = Some t)"

definition exception_for ::
  "pk \<Rightarrow> schedule_item \<Rightarrow> string option \<Rightarrow> actor \<Rightarrow> ('a schedule_db_scheme, pk \<times> occurrence_exception) op"
where
  "exception_for k i key u s =
     (case parse_occurrence_key (db_zones s) i key of
        Inl e \<Rightarrow> (Inl e, s)
      | Inr v \<Rightarrow>
          (case tbl_first (\<lambda>_ x. sx_item x = k \<and> exception_at x v) (db_schedule_exceptions s) of
             Some (xk, x) \<Rightarrow> (Inr (xk, x), s)
           | None \<Rightarrow>
               let x = new_exception k (u_id u) v (db_now s)
               in (Inr (tbl_next (db_schedule_exceptions s), x),
                   s\<lparr>db_schedule_exceptions := tbl_insert x (db_schedule_exceptions s)\<rparr>)))"

definition save_exception :: "pk \<Rightarrow> occurrence_exception \<Rightarrow> 'a schedule_db_scheme \<Rightarrow> 'a schedule_db_scheme" where
  "save_exception xk x s =
     s\<lparr>db_schedule_exceptions := tbl_put xk (x\<lparr>sx_updated_at := db_now s\<rparr>) (db_schedule_exceptions s)\<rparr>"

definition overridden :: "schedule_fields \<Rightarrow> occurrence_exception \<Rightarrow> occurrence_exception" where
  "overridden f x =
     (let x1 = x\<lparr>sx_override_title := (case fd_title f of None \<Rightarrow> sx_override_title x | t \<Rightarrow> t),
                 sx_override_description := (case fd_description f of None \<Rightarrow> sx_override_description x | d \<Rightarrow> d)\<rparr>;
          x2 = (if fd_all_day f = Some True
                then x1\<lparr>sx_override_starts_on := given (fd_starts_on f) None,
                        sx_override_ends_on := given (fd_ends_on f) None,
                        sx_override_starts_at := None, sx_override_ends_at := None\<rparr>
                else if fd_starts_at f \<noteq> None \<or> fd_ends_at f \<noteq> None
                then x1\<lparr>sx_override_starts_at := given (fd_starts_at f) None,
                        sx_override_ends_at := given (fd_ends_at f) None,
                        sx_override_starts_on := None, sx_override_ends_on := None\<rparr>
                else x1)
      in x2\<lparr>sx_status := Exception_RESCHEDULED, sx_version := Suc (sx_version x)\<rparr>)"

text \<open>The exception of the occurrence changed by \<open>g\<close>.\<close>

definition change_occurrence ::
  "pk \<Rightarrow> schedule_item \<Rightarrow> string option \<Rightarrow> actor \<Rightarrow> (occurrence_exception \<Rightarrow> occurrence_exception)
   \<Rightarrow> ('a schedule_db_scheme, unit) op"
where
  "change_occurrence k i key u g s =
     (case exception_for k i key u s of
        (Inl e, s1) \<Rightarrow> (Inl e, s1)
      | (Inr (xk, x), s1) \<Rightarrow> (Inr (), save_exception xk (g x) s1))"

definition with_exception_status :: "exception_status \<Rightarrow> occurrence_exception \<Rightarrow> occurrence_exception" where
  "with_exception_status st x = x\<lparr>sx_status := st, sx_version := Suc (sx_version x)\<rparr>"

section \<open>An occurrence and all after it\<close>

definition copied_audience :: "pk \<Rightarrow> pk \<Rightarrow> instant \<Rightarrow> schedule_audience \<Rightarrow> schedule_audience" where
  "copied_audience k creator now a = a\<lparr>sa_item := k, sa_created_by := creator, sa_created_at := now\<rparr>"

definition copied_grant :: "pk \<Rightarrow> instant \<Rightarrow> recipient_grant \<Rightarrow> recipient_grant" where
  "copied_grant k now g = g\<lparr>sg_item := k, sg_valid_until := None, sg_resolved_at := now\<rparr>"

definition moved_start :: "occurrence_at \<Rightarrow> schedule_item \<Rightarrow> schedule_item" where
  "moved_start v i =
     (case v of
        On_day d \<Rightarrow> i\<lparr>si_starts_on := Some d,
                       si_ends_on := Some (d + (the (si_ends_on i) - the (si_starts_on i)))\<rparr>
      | At_instant t \<Rightarrow> i\<lparr>si_starts_at := Some t,
                           si_ends_at := Some (t + (the (si_ends_at i) - the (si_starts_at i)))\<rparr>)"

text \<open>
  The result is the item as the caller's variable \<open>locked\<close> sees it afterwards, the key and the fields of the item that
  carries the future, and the fields left in the dictionary.
\<close>

definition split_future ::
  "pk \<Rightarrow> schedule_item \<Rightarrow> actor \<Rightarrow> string option \<Rightarrow> schedule_fields
   \<Rightarrow> ('a schedule_db_scheme, schedule_item \<times> pk \<times> schedule_item) op"
where
  "split_future k i u key f s =
     (case parse_occurrence_key (db_zones s) i key of
        Inl e \<Rightarrow> (Inl e, s)
      | Inr v \<Rightarrow>
      if si_recurrence_frequency i = Recurrence_NONE
      then (Inr (apply_fields f i, k, apply_fields f i), s)
      else case save_item k (i\<lparr>si_recurrence_until := Some (local_date_of (db_zones s) i v - 1),
                              si_version := Suc (si_version i)\<rparr>) s of
        (Inl e, s1) \<Rightarrow> (Inl e, s1)
      | (Inr past, s1) \<Rightarrow>
          (case insert_item (apply_fields f (moved_start v
                  (past\<lparr>si_version := 1, si_recurrence_until := si_recurrence_until i\<rparr>))) s1 of
             (Inl e, s2) \<Rightarrow> (Inl e, s2)
           | (Inr (nk, future), s2) \<Rightarrow>
          (case replace_reminders nk (Some (given (fd_reminders f) (reminders_of s2 k))) s2 of
             (Inl e, s3) \<Rightarrow> (Inl e, s3)
           | (Inr _, s3) \<Rightarrow>
               if si_scope i \<noteq> Schedule_GROUP then (Inr (past, nk, future), s3)
               else (case for_each insert_audience
                             (map (copied_audience nk (u_id u) (db_now s3)) (map snd (audiences_of s3 k))) s3 of
                       (Inl e, s4) \<Rightarrow> (Inl e, s4)
                     | (Inr _, s4) \<Rightarrow>
                         (case for_each insert_grant (map (copied_grant nk (db_now s4)) (map snd (open_grants s4 k))) s4 of
                            (Inl e, s5) \<Rightarrow> (Inl e, s5)
                          | (Inr _, s5) \<Rightarrow> (Inr (past, nk, future), s5))))))"

section \<open>Changing, cancelling, completing, deleting\<close>

datatype change_scope = Change_OCCURRENCE | Change_FUTURE | Change_SERIES | Change_OTHER string

text \<open>The revision and the announcement of a change of a group item; nothing for a personal one.\<close>

definition announce_change ::
  "pk \<Rightarrow> schedule_item \<Rightarrow> actor \<Rightarrow> revision_change \<Rightarrow> string list \<Rightarrow> string option \<Rightarrow> ('a schedule_db_scheme, unit) op"
where
  "announce_change k i u change changed effective s =
     (if si_scope i \<noteq> Schedule_GROUP then (Inr (), s)
      else case record_group_revision k u change changed effective s of
        (Inl e, s1) \<Rightarrow> (Inl e, s1)
      | (Inr _, s1) \<Rightarrow> void (dispatch_group_event k i (u_id u) Dispatch_CHANGED None) s1)"

definition update_occurrence ::
  "pk \<Rightarrow> schedule_item \<Rightarrow> actor \<Rightarrow> schedule_fields \<Rightarrow> string option \<Rightarrow> ('a schedule_db_scheme, pk) op"
where
  "update_occurrence k locked u f key s =
     (case change_occurrence k locked key u (overridden f) s of
        (Inl e, s1) \<Rightarrow> (Inl e, s1)
      | (Inr _, s1) \<Rightarrow>
          (case save_item_version k (locked\<lparr>si_version := Suc (si_version locked)\<rparr>) s1 of
             (Inl e, s2) \<Rightarrow> (Inl e, s2)
           | (Inr i, s2) \<Rightarrow>
               (case announce_change k i u Revision_OCCURRENCE_CHANGED (field_names f) key s2 of
                  (Inl e, s3) \<Rightarrow> (Inl e, s3) | (Inr _, s3) \<Rightarrow> (Inr k, s3))))"

definition update_future ::
  "pk \<Rightarrow> schedule_item \<Rightarrow> actor \<Rightarrow> schedule_fields \<Rightarrow> string option \<Rightarrow> ('a schedule_db_scheme, pk) op"
where
  "update_future k locked u f key s =
     (case split_future k locked u key f s of
        (Inl e, s1) \<Rightarrow> (Inl e, s1)
      | (Inr (_, nk, future), s1) \<Rightarrow>
          (case announce_change nk future u Revision_CHANGED (field_names (popped f)) key s1 of
             (Inl e, s2) \<Rightarrow> (Inl e, s2) | (Inr _, s2) \<Rightarrow> (Inr nk, s2)))"

definition update_series ::
  "pk \<Rightarrow> schedule_item \<Rightarrow> actor \<Rightarrow> schedule_fields \<Rightarrow> ('a schedule_db_scheme, pk) op"
where
  "update_series k locked u f s =
     (case save_item k ((apply_fields f locked)\<lparr>si_version := Suc (si_version locked)\<rparr>) s of
        (Inl e, s1) \<Rightarrow> (Inl e, s1)
      | (Inr i, s1) \<Rightarrow>
          (case replace_reminders k (fd_reminders f) s1 of
             (Inl e, s2) \<Rightarrow> (Inl e, s2)
           | (Inr _, s2) \<Rightarrow>
               (case announce_change k i u Revision_CHANGED (field_names (popped f)) None s2 of
                  (Inl e, s3) \<Rightarrow> (Inl e, s3) | (Inr _, s3) \<Rightarrow> (Inr k, s3))))"

definition bad_scope :: error where
  "bad_scope = FieldError ''changeScope'' ''Choose occurrence, future, or series.''"

definition update_schedule ::
  "actor \<Rightarrow> pk \<Rightarrow> int \<Rightarrow> change_scope \<Rightarrow> schedule_fields \<Rightarrow> string option \<Rightarrow> ('a schedule_db_scheme, pk) op"
where
  "update_schedule u k expected scope f key = atomic (\<lambda>s.
     case tbl_get (db_schedules s) k of
       None \<Rightarrow> (Inl (DoesNotExist ''ScheduleItem''), s)
     | Some locked \<Rightarrow>
     (case assert_can_change u locked of Inl e \<Rightarrow> (Inl e, s) | Inr _ \<Rightarrow>
     (case assert_version k locked expected of Inl e \<Rightarrow> (Inl e, s) | Inr _ \<Rightarrow>
     (case scope of
        Change_OCCURRENCE \<Rightarrow> update_occurrence k locked u f key s
      | Change_FUTURE \<Rightarrow> update_future k locked u f key s
      | Change_SERIES \<Rightarrow> update_series k locked u f s
      | Change_OTHER _ \<Rightarrow> (Inl bad_scope, s)))))"

definition cancelled_item :: "schedule_item \<Rightarrow> instant \<Rightarrow> schedule_item" where
  "cancelled_item i now =
     i\<lparr>si_status := Schedule_CANCELLED, si_cancelled_at := Some now, si_version := Suc (si_version i)\<rparr>"

text \<open>The item the cancellation is recorded for, with its fields.\<close>

definition cancel_target ::
  "pk \<Rightarrow> schedule_item \<Rightarrow> actor \<Rightarrow> change_scope \<Rightarrow> string option \<Rightarrow> ('a schedule_db_scheme, pk \<times> schedule_item) op"
where
  "cancel_target k locked u scope key s =
     (case scope of
        Change_OCCURRENCE \<Rightarrow>
          (case change_occurrence k locked key u (with_exception_status Exception_CANCELLED) s of
             (Inl e, s1) \<Rightarrow> (Inl e, s1)
           | (Inr _, s1) \<Rightarrow>
               (case save_item_version k (locked\<lparr>si_version := Suc (si_version locked)\<rparr>) s1 of
                  (Inl e, s2) \<Rightarrow> (Inl e, s2) | (Inr i, s2) \<Rightarrow> (Inr (k, i), s2)))
      | Change_FUTURE \<Rightarrow>
          (case split_future k locked u key no_fields s of
             (Inl e, s1) \<Rightarrow> (Inl e, s1)
           | (Inr (_, nk, future), s1) \<Rightarrow>
               (case save_item nk (cancelled_item future (db_now s1)) s1 of
                  (Inl e, s2) \<Rightarrow> (Inl e, s2) | (Inr i, s2) \<Rightarrow> (Inr (nk, i), s2)))
      | Change_SERIES \<Rightarrow>
          (case save_item k (cancelled_item locked (db_now s)) s of
             (Inl e, s1) \<Rightarrow> (Inl e, s1) | (Inr i, s1) \<Rightarrow> (Inr (k, i), s1))
      | Change_OTHER _ \<Rightarrow> (Inl bad_scope, s))"

definition cancel_schedule ::
  "actor \<Rightarrow> pk \<Rightarrow> int \<Rightarrow> change_scope \<Rightarrow> string option \<Rightarrow> string \<Rightarrow> ('a schedule_db_scheme, pk) op"
where
  "cancel_schedule u k expected scope key reason = atomic (\<lambda>s.
     case tbl_get (db_schedules s) k of
       None \<Rightarrow> (Inl (DoesNotExist ''ScheduleItem''), s)
     | Some locked \<Rightarrow>
     if si_scope locked \<noteq> Schedule_GROUP
     then (Inl (PermissionDenied ''Private schedules must be deleted, not cancelled.''), s)
     else
     (case assert_can_change u locked of Inl e \<Rightarrow> (Inl e, s) | Inr _ \<Rightarrow>
     (case assert_version k locked expected of Inl e \<Rightarrow> (Inl e, s) | Inr _ \<Rightarrow>
     (case cancel_target k locked u scope key s of
        (Inl e, s1) \<Rightarrow> (Inl e, s1)
      | (Inr (tk, target), s1) \<Rightarrow>
     (case record_group_revision tk u Revision_CANCELLED
             (if reason = [] then [''status''] else [''reason'', ''status'']) key s1 of
        (Inl e, s2) \<Rightarrow> (Inl e, s2)
      | (Inr _, s2) \<Rightarrow>
          (case dispatch_group_event tk target (u_id u) Dispatch_CANCELLED None
                  (record_schedule_event u tk target ''cancelled'' ''success''
                     [(''activeRecipientCount'', PInt (int (length (open_grants s2 tk))))] s2) of
             (Inl e, s3) \<Rightarrow> (Inl e, s3) | (Inr _, s3) \<Rightarrow> (Inr tk, s3)))))))"

text \<open>
  When the item does not recur, \<open>split_future\<close> gives back the item itself: the status and the version the rest of the
  operation writes are those of one object.
\<close>

definition complete_target ::
  "pk \<Rightarrow> schedule_item \<Rightarrow> actor \<Rightarrow> change_scope \<Rightarrow> string option \<Rightarrow> ('a schedule_db_scheme, schedule_item) op"
where
  "complete_target k locked u scope key s =
     (case scope of
        Change_OCCURRENCE \<Rightarrow>
          (case change_occurrence k locked key u (with_exception_status Exception_COMPLETED) s of
             (Inl e, s1) \<Rightarrow> (Inl e, s1) | (Inr _, s1) \<Rightarrow> (Inr locked, s1))
      | Change_FUTURE \<Rightarrow>
          (case split_future k locked u key no_fields s of
             (Inl e, s1) \<Rightarrow> (Inl e, s1)
           | (Inr (past, nk, future), s1) \<Rightarrow>
               (case save_item nk (future\<lparr>si_status := Schedule_COMPLETED\<rparr>) s1 of
                  (Inl e, s2) \<Rightarrow> (Inl e, s2) | (Inr i, s2) \<Rightarrow> (Inr (if nk = k then i else past), s2)))
      | Change_SERIES \<Rightarrow>
          save_item k (locked\<lparr>si_status := Schedule_COMPLETED, si_version := Suc (si_version locked)\<rparr>) s
      | Change_OTHER _ \<Rightarrow> (Inl bad_scope, s))"

definition complete_schedule ::
  "actor \<Rightarrow> pk \<Rightarrow> int \<Rightarrow> change_scope \<Rightarrow> string option \<Rightarrow> ('a schedule_db_scheme, pk) op"
where
  "complete_schedule u k expected scope key = atomic (\<lambda>s.
     case tbl_get (db_schedules s) k of
       None \<Rightarrow> (Inl (DoesNotExist ''ScheduleItem''), s)
     | Some locked \<Rightarrow>
     (case assert_owner u locked of Inl e \<Rightarrow> (Inl e, s) | Inr _ \<Rightarrow>
     (case assert_version k locked expected of Inl e \<Rightarrow> (Inl e, s) | Inr _ \<Rightarrow>
     (case complete_target k locked u scope key s of
        (Inl e, s1) \<Rightarrow> (Inl e, s1)
      | (Inr i, s1) \<Rightarrow>
          if scope = Change_SERIES then (Inr k, s1)
          else (case save_item_version k (i\<lparr>si_version := Suc (si_version i)\<rparr>) s1 of
                  (Inl e, s2) \<Rightarrow> (Inl e, s2) | (Inr _, s2) \<Rightarrow> (Inr k, s2))))))"

text \<open>\<open>locked.delete()\<close>: the rows of the other tables that point to the item go with it.\<close>

definition drop_rows :: "('b \<Rightarrow> bool) \<Rightarrow> 'b table \<Rightarrow> 'b table" where
  "drop_rows p t = t\<lparr>tbl_rows := filter (\<lambda>(_, r). \<not> p r) (tbl_rows t)\<rparr>"

definition delete_item :: "pk \<Rightarrow> 'a schedule_db_scheme \<Rightarrow> 'a schedule_db_scheme" where
  "delete_item k s =
     s\<lparr>db_schedules := tbl_delete k (db_schedules s),
       db_schedule_audiences := drop_rows (\<lambda>a. sa_item a = k) (db_schedule_audiences s),
       db_recipient_grants := drop_rows (\<lambda>g. sg_item g = k) (db_recipient_grants s),
       db_schedule_exceptions := drop_rows (\<lambda>x. sx_item x = k) (db_schedule_exceptions s),
       db_schedule_reminders := drop_rows (\<lambda>r. sr_item r = k) (db_schedule_reminders s),
       db_schedule_revisions := drop_rows (\<lambda>r. sv_item r = k) (db_schedule_revisions s),
       db_schedule_dispatches := drop_rows (\<lambda>d. sd_item d = k) (db_schedule_dispatches s)\<rparr>"

definition delete_private_schedule ::
  "actor \<Rightarrow> pk \<Rightarrow> int \<Rightarrow> change_scope \<Rightarrow> string option \<Rightarrow> ('a schedule_db_scheme, unit) op"
where
  "delete_private_schedule u k expected scope key = atomic (\<lambda>s.
     case tbl_get (db_schedules s) k of
       None \<Rightarrow> (Inl (DoesNotExist ''ScheduleItem''), s)
     | Some locked \<Rightarrow>
     (case assert_owner u locked of Inl e \<Rightarrow> (Inl e, s) | Inr _ \<Rightarrow>
     if si_scope locked \<noteq> Schedule_PERSONAL
     then (Inl (PermissionDenied ''Published schedules must be cancelled, not deleted.''), s)
     else
     (case assert_version k locked expected of Inl e \<Rightarrow> (Inl e, s) | Inr _ \<Rightarrow>
     (case scope of
        Change_OCCURRENCE \<Rightarrow>
          (case change_occurrence k locked key u (with_exception_status Exception_CANCELLED) s of
             (Inl e, s1) \<Rightarrow> (Inl e, s1)
           | (Inr _, s1) \<Rightarrow> void (save_item_version k (locked\<lparr>si_version := Suc (si_version locked)\<rparr>)) s1)
      | Change_FUTURE \<Rightarrow>
          (case parse_occurrence_key (db_zones s) locked key of
             Inl e \<Rightarrow> (Inl e, s)
           | Inr v \<Rightarrow>
               void (save_item k (locked\<lparr>si_recurrence_until := Some (local_date_of (db_zones s) locked v - 1),
                                         si_version := Suc (si_version locked)\<rparr>)) s)
      | Change_SERIES \<Rightarrow> (Inr (), delete_item k s)
      | Change_OTHER _ \<Rightarrow> (Inl bad_scope, s)))))"

end
