(* ===== verification/ScheduleCalendar.thy ===== *)
theory ScheduleCalendar
  imports ScheduleServices
begin

text \<open>
  The expansion of a series into occurrences (\<open>apps/schedules/recurrence.py\<close>) and the calendar of the authored items
  (\<open>authored_schedule_occurrences\<close> in \<open>apps/schedules/projection_services.py\<close>).

  The recurrence rule of \<open>dateutil\<close> and its addition of years are parameters (\<open>dateutil\<close>): the package is not part
  of the repository. A wall clock is an instant of the zone's own clock (\<open>to_local\<close>).
\<close>

section \<open>Expanding a series\<close>

record recurrence_rule =
  rr_frequency :: recurrence_frequency
  rr_dtstart :: instant
  rr_interval :: int
  rr_until :: instant
  rr_byweekday :: "int list option"

record dateutil =
  rrule :: "recurrence_rule \<Rightarrow> instant list"
  plus_years :: "day \<Rightarrow> int \<Rightarrow> day"

definition MAX_OCCURRENCES :: nat where
  "MAX_OCCURRENCES = 1000"

record expanded_occurrence =
  oc_starts_at :: "instant option"
  oc_ends_at :: "instant option"
  oc_starts_on :: "day option"
  oc_ends_on :: "day option"

text \<open>A bound of the window: a date, an aware datetime or \<open>None\<close>.\<close>

datatype window_bound = No_bound | On_date day | At_time instant

definition series_dates ::
  "dateutil \<Rightarrow> instant \<Rightarrow> recurrence_frequency \<Rightarrow> int \<Rightarrow> day option \<Rightarrow> int list \<Rightarrow> error + instant list"
where
  "series_dates lib start frequency interval until weekdays =
     (if frequency = Recurrence_NONE then Inr [start]
      else case until of
        None \<Rightarrow> Inl (TypeError ''until'')
      | Some d \<Rightarrow>
          Inr (rrule lib
            \<lparr>rr_frequency = frequency, rr_dtstart = start, rr_interval = interval, rr_until = combine d time_max,
             rr_byweekday = (if frequency = Recurrence_WEEKLY \<and> weekdays \<noteq> []
                             then Some (map (\<lambda>x. x - 1) weekdays) else None)\<rparr>))"

definition bound_date :: "window_bound \<Rightarrow> day option" where
  "bound_date b = (case b of No_bound \<Rightarrow> None | On_date d \<Rightarrow> Some d | At_time t \<Rightarrow> Some (date_of t))"

definition date_overlaps :: "day \<Rightarrow> day \<Rightarrow> window_bound \<Rightarrow> window_bound \<Rightarrow> error + bool" where
  "date_overlaps start end ws we =
     (case bound_date we of
        None \<Rightarrow> Inl (TypeError ''date < NoneType'')
      | Some e \<Rightarrow>
          if start < e
          then (case bound_date ws of None \<Rightarrow> Inl (TypeError ''date > NoneType'') | Some b \<Rightarrow> Inr (end > b))
          else Inr False)"

definition bound_time :: "zone_db \<Rightarrow> string \<Rightarrow> window_bound \<Rightarrow> instant option" where
  "bound_time zd zone b =
     (case b of No_bound \<Rightarrow> None | On_date d \<Rightarrow> Some (from_local zd zone (combine d 0)) | At_time t \<Rightarrow> Some t)"

definition time_overlaps ::
  "zone_db \<Rightarrow> string \<Rightarrow> instant \<Rightarrow> instant \<Rightarrow> window_bound \<Rightarrow> window_bound \<Rightarrow> error + bool"
where
  "time_overlaps zd zone start end ws we =
     (case (bound_time zd zone ws, bound_time zd zone we) of
        (Some b, Some e) \<Rightarrow> Inr (start < e \<and> end > b)
      | _ \<Rightarrow> Inl (TypeError ''combine''))"

text \<open>\<open>RecurrenceLimitError\<close> is a \<open>ValueError\<close>.\<close>

definition check_recurrence :: "dateutil \<Rightarrow> schedule_item \<Rightarrow> day \<Rightarrow> error + unit" where
  "check_recurrence lib i first_date =
     (if si_recurrence_frequency i = Recurrence_NONE then Inr ()
      else case si_recurrence_until i of
        None \<Rightarrow> Inl (ValueError ''Recurring schedules require an end date.'')
      | Some u \<Rightarrow>
          if u > plus_years lib first_date 2
          then Inl (ValueError ''Recurrence cannot span more than two years.'') else Inr ())"

fun day_occurrences :: "int \<Rightarrow> window_bound \<Rightarrow> window_bound \<Rightarrow> instant list \<Rightarrow> error + expanded_occurrence list" where
  "day_occurrences duration ws we [] = Inr []"
| "day_occurrences duration ws we (g # gs) =
     (let d = date_of g
      in case date_overlaps d (d + duration) ws we of
           Inl e \<Rightarrow> Inl e
         | Inr shown \<Rightarrow>
             map_sum id (\<lambda>os. if shown
                 then \<lparr>oc_starts_at = None, oc_ends_at = None, oc_starts_on = Some d, oc_ends_on = Some (d + duration)\<rparr> # os
                 else os) (day_occurrences duration ws we gs))"

fun time_occurrences ::
  "zone_db \<Rightarrow> string \<Rightarrow> int \<Rightarrow> window_bound \<Rightarrow> window_bound \<Rightarrow> instant list \<Rightarrow> error + expanded_occurrence list"
where
  "time_occurrences zd zone duration ws we [] = Inr []"
| "time_occurrences zd zone duration ws we (t # ts) =
     (case time_overlaps zd zone t (t + duration) ws we of
        Inl e \<Rightarrow> Inl e
      | Inr shown \<Rightarrow>
          map_sum id (\<lambda>os. if shown
              then \<lparr>oc_starts_at = Some t, oc_ends_at = Some (t + duration), oc_starts_on = None, oc_ends_on = None\<rparr> # os
              else os) (time_occurrences zd zone duration ws we ts))"

text \<open>
  \<open>expand_occurrences\<close> with the arguments of an item. One start that does not recur is the item's own instant; the
  wall clocks of a rule are read back in the zone.
\<close>

definition expand_occurrences ::
  "dateutil \<Rightarrow> zone_db \<Rightarrow> schedule_item \<Rightarrow> window_bound \<Rightarrow> window_bound \<Rightarrow> error + expanded_occurrence list"
where
  "expand_occurrences lib zd i ws we =
     (let zone = si_timezone i; frequency = si_recurrence_frequency i;
          dates = (\<lambda>start. series_dates lib start frequency (si_recurrence_interval i) (si_recurrence_until i)
                     (si_recurrence_weekdays i))
      in if zone_malformed zd zone then Inl (ValueError ''timezone'')
         else if \<not> zone_known zd zone then Inl (ZoneInfoNotFoundError zone)
         else case si_starts_on i of
           Some d \<Rightarrow>
             (case check_recurrence lib i d of
                Inl e \<Rightarrow> Inl e
              | Inr _ \<Rightarrow>
             (case si_ends_on i of
                None \<Rightarrow> Inl (TypeError ''NoneType - date'')
              | Some d' \<Rightarrow>
             (case dates (combine d 0) of
                Inl e \<Rightarrow> Inl e
              | Inr gs \<Rightarrow>
                  if MAX_OCCURRENCES < length gs
                  then Inl (ValueError ''A series cannot generate more than 1,000 occurrences.'')
                  else day_occurrences (d' - d) ws we gs)))
         | None \<Rightarrow>
             (case si_starts_at i of
                None \<Rightarrow> Inl (AttributeError ''NoneType'')
              | Some t \<Rightarrow>
             (case check_recurrence lib i (date_of (to_local zd zone t)) of
                Inl e \<Rightarrow> Inl e
              | Inr _ \<Rightarrow>
             (case si_ends_at i of
                None \<Rightarrow> Inl (ValueError ''Timed occurrences require start and end timestamps.'')
              | Some t' \<Rightarrow>
             (case dates (to_local zd zone t) of
                Inl e \<Rightarrow> Inl e
              | Inr gs \<Rightarrow>
                  if MAX_OCCURRENCES < length gs
                  then Inl (ValueError ''A series cannot generate more than 1,000 occurrences.'')
                  else time_occurrences zd zone (t' - t) ws we
                         (if frequency = Recurrence_NONE then [t] else map (from_local zd zone) gs))))))"

section \<open>The calendar of the authored items\<close>

record occurrence_capabilities =
  ca_can_edit :: bool
  ca_can_delete :: bool
  ca_can_publish :: bool
  ca_can_cancel :: bool
  ca_can_view_delivery_status :: bool
  ca_is_read_only :: bool

record calendar_occurrence =
  co_occurrence_id :: string
  co_source_id :: pk
  co_scope :: schedule_scope
  co_category :: schedule_category
  co_title :: string
  co_description :: string
  co_starts_at :: "instant option"
  co_ends_at :: "instant option"
  co_starts_on :: "day option"
  co_ends_on :: "day option"
  co_timezone :: string
  co_status :: string
  co_version :: nat
  co_capabilities :: occurrence_capabilities

fun schedule_status_value :: "schedule_status \<Rightarrow> string" where
  "schedule_status_value Schedule_ACTIVE = ''active''"
| "schedule_status_value Schedule_COMPLETED = ''completed''"
| "schedule_status_value Schedule_CANCELLED = ''cancelled''"

definition item_capabilities :: "actor \<Rightarrow> schedule_item \<Rightarrow> occurrence_capabilities" where
  "item_capabilities u i =
     (let own = (si_owner i = u_id u); group = (si_scope i = Schedule_GROUP);
          manage = (group \<and> (own \<or> is_administrator u))
      in \<lparr>ca_can_edit = (own \<or> (group \<and> is_administrator u)), ca_can_delete = (\<not> group \<and> own),
          ca_can_publish = (\<not> group \<and> own), ca_can_cancel = manage, ca_can_view_delivery_status = manage,
          ca_is_read_only = (\<not> own)\<rparr>)"

definition exception_of ::
  "occurrence_exception list \<Rightarrow> schedule_item \<Rightarrow> expanded_occurrence \<Rightarrow> occurrence_exception option"
where
  "exception_of xs i oc =
     find (\<lambda>x. if si_all_day i then sx_original_starts_on x = oc_starts_on oc
               else sx_original_starts_at x = oc_starts_at oc) xs"

definition overriding :: "('b \<Rightarrow> 'c option) \<Rightarrow> 'b option \<Rightarrow> 'c option \<Rightarrow> 'c option" where
  "overriding f x own = (case x of None \<Rightarrow> own | Some y \<Rightarrow> (case f y of None \<Rightarrow> own | Some v \<Rightarrow> Some v))"

definition occurrence_key :: "schedule_item \<Rightarrow> expanded_occurrence \<Rightarrow> string" where
  "occurrence_key i oc =
     (if si_all_day i then (case oc_starts_on oc of None \<Rightarrow> [] | Some d \<Rightarrow> str_of_day d)
      else (case oc_starts_at oc of None \<Rightarrow> [] | Some t \<Rightarrow> isoformat t))"

definition occurrence_time :: "instant option \<Rightarrow> day option \<Rightarrow> instant" where
  "occurrence_time at on = (case at of Some t \<Rightarrow> t | None \<Rightarrow> (case on of Some d \<Rightarrow> combine d 0 | None \<Rightarrow> 0))"

definition time_bound :: "instant option \<Rightarrow> window_bound" where
  "time_bound t = (case t of None \<Rightarrow> No_bound | Some x \<Rightarrow> At_time x)"

text \<open>One occurrence as the calendar shows it, under the exception recorded for it.\<close>

definition shown_occurrence ::
  "actor \<Rightarrow> pk \<Rightarrow> schedule_item \<Rightarrow> expanded_occurrence \<Rightarrow> occurrence_exception option \<Rightarrow> calendar_occurrence"
where
  "shown_occurrence u k i oc x =
     \<lparr>co_occurrence_id = ''schedule:'' @ str_of_nat k @ '':'' @ occurrence_key i oc, co_source_id = k,
      co_scope = si_scope i, co_category = si_category i,
      co_title = given (Option.bind x sx_override_title) (si_title i),
      co_description = given (Option.bind x sx_override_description) (si_description i),
      co_starts_at = overriding sx_override_starts_at x (oc_starts_at oc),
      co_ends_at = overriding sx_override_ends_at x (oc_ends_at oc),
      co_starts_on = overriding sx_override_starts_on x (oc_starts_on oc),
      co_ends_on = overriding sx_override_ends_on x (oc_ends_on oc),
      co_timezone = si_timezone i,
      co_status = (if map_option sx_status x = Some Exception_COMPLETED then ''completed''
                   else if map_option sx_status x = Some Exception_CANCELLED then ''cancelled''
                   else schedule_status_value (si_status i)),
      co_version = si_version i, co_capabilities = item_capabilities u i\<rparr>"

definition hidden_from :: "actor \<Rightarrow> schedule_item \<Rightarrow> recipient_grant list \<Rightarrow> instant \<Rightarrow> bool" where
  "hidden_from u i gs t \<longleftrightarrow>
     si_scope i = Schedule_GROUP \<and> si_owner i \<noteq> u_id u \<and> \<not> is_administrator u
     \<and> \<not> list_ex (\<lambda>g. sg_recipient g = u_id u \<and> grant_covers g t) gs"

text \<open>
  The loop over the occurrences of one item. It assigns its own \<open>starts_at\<close> and \<open>ends_at\<close>, which are the names of
  the window the function was called with: \<open>ws\<close> and \<open>we\<close> are what the two hold.
\<close>

fun show_occurrences ::
  "actor \<Rightarrow> pk \<Rightarrow> schedule_item \<Rightarrow> occurrence_exception list \<Rightarrow> recipient_grant list \<Rightarrow> expanded_occurrence list
   \<Rightarrow> window_bound \<Rightarrow> window_bound \<Rightarrow> calendar_occurrence list \<times> window_bound \<times> window_bound"
where
  "show_occurrences u k i xs gs [] ws we = ([], ws, we)"
| "show_occurrences u k i xs gs (oc # ocs) ws we =
     (let x = exception_of xs i oc
      in if map_option sx_status x = Some Exception_CANCELLED \<and> si_scope i = Schedule_PERSONAL
         then show_occurrences u k i xs gs ocs ws we
         else
           let r = shown_occurrence u k i oc x;
               (rest, ws', we') = show_occurrences u k i xs gs ocs (time_bound (co_starts_at r)) (time_bound (co_ends_at r))
           in (if hidden_from u i gs (occurrence_time (co_starts_at r) (co_starts_on r)) then rest else r # rest, ws', we'))"

definition exceptions_of :: "'a schedule_db_scheme \<Rightarrow> pk \<Rightarrow> occurrence_exception list" where
  "exceptions_of s k = map snd (tbl_filter (\<lambda>_ x. sx_item x = k) (db_schedule_exceptions s))"

definition grants_of :: "'a schedule_db_scheme \<Rightarrow> pk \<Rightarrow> recipient_grant list" where
  "grants_of s k = map snd (tbl_filter (\<lambda>_ g. sg_item g = k) (db_recipient_grants s))"

fun authored_loop ::
  "dateutil \<Rightarrow> 'a schedule_db_scheme \<Rightarrow> actor \<Rightarrow> (pk \<times> schedule_item) list \<Rightarrow> window_bound \<Rightarrow> window_bound
   \<Rightarrow> error + calendar_occurrence list"
where
  "authored_loop lib s u [] ws we = Inr []"
| "authored_loop lib s u ((k, i) # items) ws we =
     (case expand_occurrences lib (db_zones s) i ws we of
        Inl e \<Rightarrow> Inl e
      | Inr ocs \<Rightarrow>
          (case show_occurrences u k i (exceptions_of s k) (grants_of s k) ocs ws we of
             (out, ws', we') \<Rightarrow> map_sum id ((@) out) (authored_loop lib s u items ws' we')))"

text \<open>
  The visible items: the user's own, the group items with a grant of the user that begins before the window ends
  and (a second join) any grant that is open or ends after the window begins, and every group item for an
  administrator.
\<close>

definition visible_items :: "'a schedule_db_scheme \<Rightarrow> actor \<Rightarrow> instant \<Rightarrow> instant \<Rightarrow> (pk \<times> schedule_item) list" where
  "visible_items s u starts_at ends_at =
     tbl_filter (\<lambda>k i. si_owner i = u_id u
        \<or> (si_scope i = Schedule_GROUP
           \<and> list_ex (\<lambda>g. sg_recipient g = u_id u \<and> sg_valid_from g < ends_at) (grants_of s k)
           \<and> list_ex (\<lambda>g. case sg_valid_until g of None \<Rightarrow> True | Some t \<Rightarrow> t > starts_at) (grants_of s k))
        \<or> (is_administrator u \<and> si_scope i = Schedule_GROUP)) (db_schedules s)"

definition authored_schedule_occurrences ::
  "dateutil \<Rightarrow> 'a schedule_db_scheme \<Rightarrow> actor \<Rightarrow> instant \<Rightarrow> instant \<Rightarrow> error + calendar_occurrence list"
where
  "authored_schedule_occurrences lib s u starts_at ends_at =
     authored_loop lib s u (visible_items s u starts_at ends_at) (At_time starts_at) (At_time ends_at)"

end
