(* ===== verification/ScheduleReminders.thy ===== *)
theory ScheduleReminders
  imports ScheduleCalendar
begin

text \<open>
  The reminders that are due (\<open>create_due_schedule_reminders\<close> and \<open>_create_reminder_notifications\<close> in
  \<open>apps/schedules/reminder_services.py\<close>).

  The scan reads the items with their reminders, grants, exceptions and audiences at its start (\<open>prefetch_related\<close>);
  the loop writes while it goes on, and reads the recipients from what was fetched. The scan is not atomic: what it
  wrote before an error stays.
\<close>

section \<open>Notifications of one reminder\<close>

text \<open>The profiles of the recipients, created where missing, and the category rows that lack.\<close>

definition ensure_profiles :: "pk list \<Rightarrow> 'a notification_db_scheme \<Rightarrow> 'a notification_db_scheme" where
  "ensure_profiles users s =
     (let s1 = foldl (\<lambda>s u. snd (get_or_create_profile u s)) s users;
          ks = map fst (tbl_filter (\<lambda>_ p. pp_user p \<in> set users) (db_preference_profiles s1))
      in s1\<lparr>db_category_preferences := foldl (\<lambda>t k. add_missing_categories k t) (db_category_preferences s1) ks\<rparr>)"

definition profile_key :: "'a notification_db_scheme \<Rightarrow> pk \<Rightarrow> pk" where
  "profile_key s u = (case tbl_first (\<lambda>_ p. pp_user p = u) (db_preference_profiles s) of Some (k, _) \<Rightarrow> k | None \<Rightarrow> 0)"

definition schedule_email_enabled :: "'a notification_db_scheme \<Rightarrow> pk \<Rightarrow> bool" where
  "schedule_email_enabled s u =
     (case tbl_first (\<lambda>_ p. cp_profile p = profile_key s u \<and> cp_category p = Notification_SCHEDULE)
             (db_category_preferences s) of
        Some (_, p) \<Rightarrow> cp_email_enabled p | None \<Rightarrow> True)"

text \<open>What the claims of one occurrence and offset share.\<close>

record reminder_job =
  rj_item :: pk
  rj_row :: schedule_item
  rj_project :: "pk option"
  rj_key :: string
  rj_offset :: int
  rj_eligible_at :: instant

definition reminder_notification :: "reminder_job \<Rightarrow> string \<Rightarrow> pk \<Rightarrow> bool \<Rightarrow> instant \<Rightarrow> 'a notification_db_scheme \<Rightarrow> notification" where
  "reminder_notification j path recipient enabled email_at s =
     (notification_of s (enqueue_defaults recipient SCHEDULE_REMINDER ''ScheduleItem'' (str_of_nat (rj_item j)) ''Schedule reminder''))
       \<lparr>nt_project := rj_project j, nt_sender := Some (si_organizer (rj_row j)), nt_action_path := path,
        nt_status := (if enabled then Notification_PENDING else Notification_IN_APP_ONLY),
        nt_delivery_policy := Notification_IN_APP_EMAIL,
        nt_eligible_at := (if enabled then email_at else rj_eligible_at j),
        nt_category := Notification_SCHEDULE\<rparr>"

text \<open>A claim with the notification made for it and the values of its email attempt.\<close>

record reminder_plan =
  pl_dispatch :: pk
  pl_notification :: notification
  pl_enabled :: bool
  pl_email_at :: instant

fun reminder_plans ::
  "reminder_job \<Rightarrow> string \<Rightarrow> (pk \<times> pk) list \<Rightarrow> 'a notification_db_scheme \<Rightarrow> error + reminder_plan list"
where
  "reminder_plans j path [] s = Inr []"
| "reminder_plans j path ((recipient, dk) # claims) s =
     (case quiet_hours_eligible_at_for_profile (db_zones s) (profile_of s (profile_key s recipient)) (rj_eligible_at j) of
        Inl e \<Rightarrow> Inl e
      | Inr email_at \<Rightarrow>
          let enabled = schedule_email_enabled s recipient
          in map_sum id (\<lambda>ps. \<lparr>pl_dispatch = dk, pl_notification = reminder_notification j path recipient enabled email_at s,
                                pl_enabled = enabled, pl_email_at = email_at\<rparr> # ps) (reminder_plans j path claims s))"

fun create_notifications :: "reminder_plan list \<Rightarrow> ('a notification_db_scheme, (pk \<times> reminder_plan) list) op" where
  "create_notifications [] s = (Inr [], s)"
| "create_notifications (p # ps) s =
     (case insert_notification (pl_notification p) s of
        (Inl e, s1) \<Rightarrow> (Inl e, s1)
      | (Inr nk, s1) \<Rightarrow>
          (case create_notifications ps s1 of
             (Inl e, s2) \<Rightarrow> (Inl e, s2) | (Inr nps, s2) \<Rightarrow> (Inr ((nk, p) # nps), s2)))"

definition reminder_attempts :: "instant \<Rightarrow> pk \<times> reminder_plan \<Rightarrow> 'a notification_db_scheme \<Rightarrow> 'a notification_db_scheme" where
  "reminder_attempts eligible np s =
     (case np of (nk, p) \<Rightarrow>
        insert_attempt (email_attempt nk (pl_enabled p) (pl_email_at p) (db_now s))
          (insert_attempt ((in_app_attempt nk (pl_notification p))\<lparr>da_eligible_at := eligible\<rparr>) s))"

text \<open>The dispatch of the email channel; \<open>ignore_conflicts\<close> leaves a row that is there.\<close>

definition email_dispatch :: "reminder_job \<Rightarrow> instant \<Rightarrow> pk \<times> reminder_plan \<Rightarrow> schedule_dispatch" where
  "email_dispatch j now np =
     (case np of (nk, p) \<Rightarrow>
        (new_dispatch (rj_item j) (nt_recipient (pl_notification p)) (rj_key j) Dispatch_REMINDER (Some (rj_offset j))
           Dispatch_EMAIL (Some nk))\<lparr>sd_offset_key := rj_offset j, sd_created_at := now, sd_updated_at := now\<rparr>)"

definition insert_dispatch_ignoring :: "schedule_dispatch \<Rightarrow> 'a schedule_db_scheme \<Rightarrow> 'a schedule_db_scheme" where
  "insert_dispatch_ignoring d s =
     (if key_taken dispatch_key d (db_schedule_dispatches s) then s
      else s\<lparr>db_schedule_dispatches := tbl_insert d (db_schedule_dispatches s)\<rparr>)"

definition create_reminder_notifications ::
  "reminder_job \<Rightarrow> (pk \<times> pk) list \<Rightarrow> ('a schedule_db_scheme, nat) op"
where
  "create_reminder_notifications j claims = atomic (\<lambda>s.
     if claims = [] then (Inr 0, s)
     else
       let s1 = ensure_profiles (map fst claims) s
       in case schedule_action_path (rj_item j) (rj_row j) of
            None \<Rightarrow> (Inl (AttributeError ''NoneType''), s1)
          | Some path \<Rightarrow>
         (case reminder_plans j path claims s1 of
            Inl e \<Rightarrow> (Inl e, s1)
          | Inr plans \<Rightarrow>
         (case create_notifications plans s1 of
            (Inl e, s2) \<Rightarrow> (Inl e, s2)
          | (Inr nps, s2) \<Rightarrow>
              let s3 = foldl (\<lambda>s np. reminder_attempts (rj_eligible_at j) np s) s2 nps;
                  s4 = foldl (\<lambda>s (nk, p). mark_dispatched (pl_dispatch p) nk s) s3 nps;
                  s5 = foldl (\<lambda>s np. insert_dispatch_ignoring (email_dispatch j (db_now s) np) s) s4 nps
              in (Inr (length nps), s5))))"

section \<open>The scan\<close>

definition reminder_slack :: int where
  "reminder_slack = 5 * usec_per_minute"

definition minutes :: "int \<Rightarrow> int" where
  "minutes m = m * usec_per_minute"

text \<open>The recipients of an occurrence, as fetched when the scan began (\<open>s0\<close>).\<close>

definition reminder_recipients :: "'a schedule_db_scheme \<Rightarrow> pk \<Rightarrow> schedule_item \<Rightarrow> instant \<Rightarrow> pk list" where
  "reminder_recipients s0 k i start =
     (if si_scope i = Schedule_PERSONAL then (if account_active s0 (si_owner i) then [si_owner i] else [])
      else map sg_recipient (filter (\<lambda>g. account_active s0 (sg_recipient g) \<and> grant_covers g start) (grants_of s0 k)))"

fun claim_reminders ::
  "pk \<Rightarrow> string \<Rightarrow> int \<Rightarrow> pk list \<Rightarrow> ('a schedule_db_scheme, (pk \<times> pk) list) op"
where
  "claim_reminders k key offset [] s = (Inr [], s)"
| "claim_reminders k key offset (r # rs) s =
     (case get_or_create_dispatch same_reminder
             (new_dispatch k r key Dispatch_REMINDER (Some offset) Dispatch_IN_APP None) s of
        (Inl e, s1) \<Rightarrow> (Inl e, s1)
      | (Inr (dk, created), s1) \<Rightarrow>
          (case claim_reminders k key offset rs s1 of
             (Inl e, s2) \<Rightarrow> (Inl e, s2)
           | (Inr claims, s2) \<Rightarrow> (Inr (if created then (r, dk) # claims else claims), s2)))"

definition occurrence_start :: "zone_db \<Rightarrow> schedule_item \<Rightarrow> expanded_occurrence \<Rightarrow> instant" where
  "occurrence_start zd i oc =
     (case oc_starts_at oc of
        Some t \<Rightarrow> t
      | None \<Rightarrow> from_local zd (si_timezone i) (combine (case oc_starts_on oc of Some d \<Rightarrow> d | None \<Rightarrow> 0) 0))"

definition reminder_due :: "instant \<Rightarrow> int \<Rightarrow> instant \<Rightarrow> bool" where
  "reminder_due now offset start \<longleftrightarrow>
     now - reminder_slack \<le> start - minutes offset \<and> start - minutes offset \<le> now + reminder_slack"

definition remind_occurrence ::
  "'a schedule_db_scheme \<Rightarrow> pk \<Rightarrow> schedule_item \<Rightarrow> instant \<Rightarrow> int \<Rightarrow> expanded_occurrence \<Rightarrow> ('a schedule_db_scheme, nat) op"
where
  "remind_occurrence s0 k i now offset oc s =
     (let start = occurrence_start (db_zones s) i oc; key = occurrence_key i oc
      in if \<not> reminder_due now offset start then (Inr 0, s)
         else if (case exception_of (exceptions_of s0 k) i oc of
                    None \<Rightarrow> False | Some x \<Rightarrow> sx_status x \<in> {Exception_CANCELLED, Exception_COMPLETED})
         then (Inr 0, s)
         else case claim_reminders k key offset (reminder_recipients s0 k i start) s of
           (Inl e, s1) \<Rightarrow> (Inl e, s1)
         | (Inr claims, s1) \<Rightarrow>
             create_reminder_notifications
               \<lparr>rj_item = k, rj_row = i, rj_project = audience_project s0 k, rj_key = key, rj_offset = offset,
                rj_eligible_at = now\<rparr> claims s1)"

fun sum_each :: "('b \<Rightarrow> ('s, nat) op) \<Rightarrow> 'b list \<Rightarrow> ('s, nat) op" where
  "sum_each f [] s = (Inr 0, s)"
| "sum_each f (x # xs) s =
     (case f x s of
        (Inl e, s1) \<Rightarrow> (Inl e, s1)
      | (Inr n, s1) \<Rightarrow> (case sum_each f xs s1 of (Inl e, s2) \<Rightarrow> (Inl e, s2) | (Inr m, s2) \<Rightarrow> (Inr (n + m), s2)))"

definition scan_window :: "schedule_item \<Rightarrow> instant \<Rightarrow> int \<Rightarrow> window_bound \<times> window_bound" where
  "scan_window i now offset =
     (let ws = now + minutes (offset - 5); we = now + minutes (offset + 5)
      in if si_all_day i then (On_date (date_of ws), On_date (date_of (we + usec_per_day)))
         else (At_time ws, At_time we))"

definition remind_offset ::
  "dateutil \<Rightarrow> 'a schedule_db_scheme \<Rightarrow> pk \<Rightarrow> schedule_item \<Rightarrow> instant \<Rightarrow> int \<Rightarrow> ('a schedule_db_scheme, nat) op"
where
  "remind_offset lib s0 k i now offset s =
     (case scan_window i now offset of
        (ws, we) \<Rightarrow>
          (case expand_occurrences lib (db_zones s) i ws we of
             Inl e \<Rightarrow> (Inl e, s)
           | Inr ocs \<Rightarrow> sum_each (remind_occurrence s0 k i now offset) ocs s))"

definition remind_item ::
  "dateutil \<Rightarrow> 'a schedule_db_scheme \<Rightarrow> instant \<Rightarrow> pk \<times> schedule_item \<Rightarrow> ('a schedule_db_scheme, nat) op"
where
  "remind_item lib s0 now ki s =
     (case ki of (k, i) \<Rightarrow>
        (case (if si_scope i = Schedule_GROUP then void (reresolve_audience k i (Some now)) s else (Inr (), s)) of
           (Inl e, s1) \<Rightarrow> (Inl e, s1)
         | (Inr _, s1) \<Rightarrow> sum_each (remind_offset lib s0 k i now) (map fst (reminders_of s0 k)) s1))"

definition scanned_items :: "'a schedule_db_scheme \<Rightarrow> nat \<Rightarrow> (pk \<times> schedule_item) list" where
  "scanned_items s n =
     take n (tbl_filter (\<lambda>k i. si_status i = Schedule_ACTIVE \<and> reminders_of s k \<noteq> []) (db_schedules s))"

definition create_due_schedule_reminders ::
  "dateutil \<Rightarrow> instant option \<Rightarrow> nat \<Rightarrow> ('a schedule_db_scheme, nat) op"
where
  "create_due_schedule_reminders lib now n s =
     sum_each (remind_item lib s (given now (db_now s))) (scanned_items s n) s"

end
