(* ===== verification/ScheduleRules.thy ===== *)
theory ScheduleRules
  imports ScheduleReminders
begin

text \<open>
  The invariant of the schedule tables (\<open>schedules_ok\<close>): every stored item would pass \<open>full_clean\<close>, the unique
  constraints hold, and audiences and grants belong to group items only. The services keep it; the relation
  \<open>step_ok\<close> is what each write promises, and composes along the handlers.
\<close>

section \<open>The invariant\<close>

definition grouped :: "'a schedule_db_scheme \<Rightarrow> pk \<Rightarrow> bool" where
  "grouped s k \<longleftrightarrow> (case tbl_get (db_schedules s) k of None \<Rightarrow> False | Some i \<Rightarrow> si_scope i = Schedule_GROUP)"

definition items_ok :: "zone_db \<Rightarrow> schedule_item table \<Rightarrow> bool" where
  "items_ok zd t \<longleftrightarrow> tbl_wf t \<and> (\<forall>(k, i) \<in> set (tbl_rows t). item_sound zd i)"

definition audience_shaped :: "schedule_audience \<Rightarrow> bool" where
  "audience_shaped a \<longleftrightarrow>
     (case sa_scope_type a of
        Audience_PROJECT \<Rightarrow> sa_project a \<noteq> None \<and> sa_account a = None
      | Audience_ACCOUNT \<Rightarrow> sa_account a \<noteq> None \<and> sa_project a = None)"

definition audiences_ok :: "schedule_audience table \<Rightarrow> bool" where
  "audiences_ok t \<longleftrightarrow> tbl_wf t \<and> unique_on project_audience_key t \<and> unique_on account_audience_key t
     \<and> (\<forall>(k, a) \<in> set (tbl_rows t). audience_shaped a)"

definition grants_ok :: "recipient_grant table \<Rightarrow> bool" where
  "grants_ok t \<longleftrightarrow> tbl_wf t \<and> unique_on open_grant_key t \<and> (\<forall>(k, g) \<in> set (tbl_rows t). clean_recipient_grant g = Inr ())"

definition exceptions_ok :: "occurrence_exception table \<Rightarrow> bool" where
  "exceptions_ok t \<longleftrightarrow> tbl_wf t \<and> unique_on timed_exception_key t \<and> unique_on day_exception_key t
     \<and> (\<forall>(k, x) \<in> set (tbl_rows t). (sx_original_starts_at x = None) \<noteq> (sx_original_starts_on x = None))"

definition dispatches_ok :: "schedule_dispatch table \<Rightarrow> bool" where
  "dispatches_ok t \<longleftrightarrow> tbl_wf t \<and> unique_on dispatch_key t \<and> (\<forall>(k, d) \<in> set (tbl_rows t). clean_dispatch d = Inr ())"

definition schedules_ok :: "'a schedule_db_scheme \<Rightarrow> bool" where
  "schedules_ok s \<longleftrightarrow>
     items_ok (db_zones s) (db_schedules s) \<and> audiences_ok (db_schedule_audiences s)
     \<and> grants_ok (db_recipient_grants s) \<and> exceptions_ok (db_schedule_exceptions s)
     \<and> tbl_wf (db_schedule_reminders s) \<and> unique_on reminder_key (db_schedule_reminders s)
     \<and> tbl_wf (db_schedule_revisions s) \<and> unique_on revision_key (db_schedule_revisions s)
     \<and> dispatches_ok (db_schedule_dispatches s)
     \<and> (\<forall>(k, a) \<in> set (tbl_rows (db_schedule_audiences s)). grouped s (sa_item a))
     \<and> (\<forall>(k, g) \<in> set (tbl_rows (db_recipient_grants s)). grouped s (sg_item g))"

definition step_ok :: "'a schedule_db_scheme \<Rightarrow> 'a schedule_db_scheme \<Rightarrow> bool" where
  "step_ok s s' \<longleftrightarrow>
     (schedules_ok s \<longrightarrow> schedules_ok s' \<and> db_zones s' = db_zones s \<and> (\<forall>k. grouped s k \<longrightarrow> grouped s' k))"

lemma step_ok_refl [simp, intro]: "step_ok s s"
  by (simp add: step_ok_def)

lemma step_ok_trans: "step_ok s t \<Longrightarrow> step_ok t u \<Longrightarrow> step_ok s u"
  by (simp add: step_ok_def)

text \<open>A write that leaves the schedule tables alone.\<close>

definition same_schedules :: "'a schedule_db_scheme \<Rightarrow> 'a schedule_db_scheme \<Rightarrow> bool" where
  "same_schedules s s' \<longleftrightarrow>
     db_zones s' = db_zones s \<and> db_schedules s' = db_schedules s \<and> db_schedule_audiences s' = db_schedule_audiences s
     \<and> db_recipient_grants s' = db_recipient_grants s \<and> db_schedule_exceptions s' = db_schedule_exceptions s
     \<and> db_schedule_reminders s' = db_schedule_reminders s \<and> db_schedule_revisions s' = db_schedule_revisions s
     \<and> db_schedule_dispatches s' = db_schedule_dispatches s"

lemma same_schedules_ok: "same_schedules s s' \<Longrightarrow> step_ok s s'"
  by (simp add: same_schedules_def step_ok_def schedules_ok_def grouped_def)

lemma same_schedules_trans: "same_schedules s t \<Longrightarrow> same_schedules t u \<Longrightarrow> same_schedules s u"
  by (simp add: same_schedules_def)

lemma schedule_more:
  "notification_db.more s' = notification_db.more s \<Longrightarrow>
   db_schedules s' = db_schedules s \<and> db_schedule_audiences s' = db_schedule_audiences s
   \<and> db_recipient_grants s' = db_recipient_grants s \<and> db_schedule_exceptions s' = db_schedule_exceptions s
   \<and> db_schedule_reminders s' = db_schedule_reminders s \<and> db_schedule_revisions s' = db_schedule_revisions s
   \<and> db_schedule_dispatches s' = db_schedule_dispatches s \<and> schedule_db.more s' = schedule_db.more s"
  for s s' :: "'a schedule_db_scheme"
  by (cases s, cases s') simp

lemma only_mail_schedules: "only_mail s s' \<Longrightarrow> same_schedules s s'" for s s' :: "'a schedule_db_scheme"
  using schedule_more [of s' s] by (auto simp: only_mail_def same_schedules_def)

lemma record_event_schedules [simp]: "same_schedules s (record_event p a t sm tg opts s)"
  by (simp add: same_schedules_def record_event_def)

lemma record_schedule_event_schedules: "same_schedules s (record_schedule_event u k i a out d s)"
  by (cases "si_scope i = Schedule_PERSONAL")
    (simp_all add: record_schedule_event_def, simp add: same_schedules_def)

text \<open>Sequences of writes.\<close>

lemma step_ok_for_each:
  assumes "for_each f xs s = (r, s')"
    and "\<And>x t q t'. x \<in> set xs \<Longrightarrow> step_ok s t \<Longrightarrow> f x t = (q, t') \<Longrightarrow> step_ok t t'"
  shows "step_ok s s'"
proof -
  have "for_each f ys t = (r, s') \<Longrightarrow> set ys \<subseteq> set xs \<Longrightarrow> step_ok s t \<Longrightarrow> step_ok s s'" for ys t
  proof (induction ys arbitrary: t)
    case (Cons y ys)
    obtain q t' where y: "f y t = (q, t')" by fastforce
    have "step_ok s t'" using step_ok_trans Cons.prems(3) assms(2) [OF _ Cons.prems(3) y] Cons.prems(2) by auto
    then show ?case using Cons y by (cases q) auto
  qed simp
  then show ?thesis using assms(1) by blast
qed

lemma step_ok_atomic:
  assumes "atomic m s = (r, s')" "\<And>q t. m s = (q, t) \<Longrightarrow> step_ok s t"
  shows "step_ok s s'"
  using assms by (cases r) auto

lemma step_ok_void: "void m s = (r, s') \<Longrightarrow> (\<And>q t. m s = (q, t) \<Longrightarrow> step_ok s t) \<Longrightarrow> step_ok s s'"
  by (auto simp: void_def split: prod.splits sum.splits)

section \<open>Writes to one table\<close>

lemma tbl_get_insert_old: "tbl_wf t \<Longrightarrow> tbl_get t k = Some r \<Longrightarrow> tbl_get (tbl_insert x t) k = Some r"
  by (rule tbl.get_add_old)

lemma items_ok_insert: "items_ok zd t \<Longrightarrow> item_sound zd i \<Longrightarrow> items_ok zd (tbl_insert i t)"
  by (auto simp: items_ok_def tbl.wf_add)

lemma items_ok_put: "items_ok zd t \<Longrightarrow> item_sound zd i \<Longrightarrow> items_ok zd (tbl_put k i t)"
  using set_rows_put [of t k i] by (auto simp: items_ok_def tbl.wf_put)

lemma step_ok_items:
  assumes "s' = s\<lparr>db_schedules := t\<rparr>"
    and "items_ok (db_zones s) (db_schedules s) \<Longrightarrow> items_ok (db_zones s) t"
    and "\<And>k. tbl_wf (db_schedules s) \<Longrightarrow> grouped s k \<Longrightarrow> grouped (s\<lparr>db_schedules := t\<rparr>) k"
  shows "step_ok s s'"
proof -
  have g: "(\<forall>(k, a) \<in> set rows. grouped s (f a)) \<Longrightarrow> tbl_wf (db_schedules s)
      \<Longrightarrow> (\<forall>(k, a) \<in> set rows. grouped (s\<lparr>db_schedules := t\<rparr>) (f a))" for rows :: "(pk \<times> 'b) list" and f
    using assms(3) by blast
  have g': "(\<forall>(k, a) \<in> set rows. grouped s (f a)) \<Longrightarrow> tbl_wf (db_schedules s)
      \<Longrightarrow> (\<forall>(k, a) \<in> set rows. grouped (s\<lparr>db_schedules := t\<rparr>) (f a))" for rows :: "(pk \<times> 'c) list" and f
    using assms(3) by blast
  show ?thesis
    using assms(2,3) g g'
    by (auto simp: assms(1) step_ok_def schedules_ok_def items_ok_def)
qed

lemma insert_item_ok: "insert_item i s = (r, s') \<Longrightarrow> step_ok s s'"
proof (cases r)
  case (Inr kr)
  assume e: "insert_item i s = (r, s')"
  obtain k x where k: "kr = (k, x)" by fastforce
  note d = insert_itemD [OF e [unfolded Inr k]]
  show ?thesis
    using d(3) by (intro step_ok_items [OF d(2)]) (auto simp: items_ok_insert grouped_def tbl_get_insert_old
        split: option.splits)
qed (auto simp: insert_item_def Let_def split: sum.splits)

lemma save_item_ok:
  assumes "save_item k i s = (r, s')" "grouped s k \<Longrightarrow> si_scope i = Schedule_GROUP"
  shows "step_ok s s'"
proof (cases r)
  case (Inr x)
  note d = save_itemD [OF assms(1) [unfolded Inr]]
  have sc: "si_scope x = si_scope i" by (simp add: d(3))
  show ?thesis
    using d(2) assms(2) sc
    by (intro step_ok_items [OF d(1)]) (auto simp: items_ok_put grouped_def tbl.get_put split: option.splits)
qed (use assms in \<open>auto simp: save_item_def Let_def split: sum.splits\<close>)

lemma item_sound_version_of: "item_sound zd (i\<lparr>si_version := v, si_updated_at := t\<rparr>) = item_sound zd i"
  by simp

lemma save_item_version_ok:
  assumes "save_item_version k i s = (r, s')" shows "step_ok s s'"
proof (cases r)
  case (Inr x)
  note d = save_item_versionD [OF assms [unfolded Inr]]
  show ?thesis
  proof (rule step_ok_items [OF d(1)], goal_cases)
    case 1
    then show ?case by (auto simp: items_ok_def wf_tbl_update_where simp del: rows_update_where) (auto split: if_splits)
  next
    case (2 j)
    then show ?case by (auto simp: grouped_def tbl_get_update_where split: option.splits)
  qed
qed (use assms in \<open>auto simp: save_item_version_def split: sum.splits\<close>)

lemma audience_item_ok:
  assumes "audience_shaped a"
    and "insert_audience a s = (r, s')" "schedules_ok s \<Longrightarrow> grouped s (sa_item a)"
  shows "step_ok s s'"
proof (cases r)
  case (Inr x)
  then have k: "\<not> key_taken project_audience_key a (db_schedule_audiences s)"
      "\<not> key_taken account_audience_key a (db_schedule_audiences s)"
      "s' = s\<lparr>db_schedule_audiences := tbl_insert a (db_schedule_audiences s)\<rparr>"
    using assms(2) by (auto simp: insert_audience_def split: if_splits)
  then show ?thesis
    using assms(1,3) by (auto simp: step_ok_def schedules_ok_def audiences_ok_def tbl.wf_add unique_on_insert grouped_def)
qed (use assms(2) in \<open>auto simp: insert_audience_def split: if_splits\<close>)

lemma key_of_resolved: "open_grant_key (g\<lparr>sg_resolved_at := t\<rparr>) = open_grant_key g"
  by (simp add: open_grant_key_def)

lemma insert_grant_ok:
  assumes "insert_grant g s = (r, s')" "clean_recipient_grant g = Inr ()" "schedules_ok s \<Longrightarrow> grouped s (sg_item g)"
  shows "step_ok s s'"
proof (cases r)
  case (Inr x)
  then have k: "\<not> key_taken open_grant_key (g\<lparr>sg_resolved_at := db_now s\<rparr>) (db_recipient_grants s)"
      "s' = s\<lparr>db_recipient_grants := tbl_insert (g\<lparr>sg_resolved_at := db_now s\<rparr>) (db_recipient_grants s)\<rparr>"
    using assms(1) by (auto simp: insert_grant_def key_taken_def key_of_resolved split: if_splits)
  have c: "clean_recipient_grant (g\<lparr>sg_resolved_at := db_now s\<rparr>) = Inr ()"
    using assms(2) by (cases "sg_valid_until g") (simp_all add: clean_recipient_grant_def)
  show ?thesis
    using k c assms(3) by (auto simp: step_ok_def schedules_ok_def grants_ok_def tbl.wf_add unique_on_insert grouped_def)
qed (use assms(1) in \<open>auto simp: insert_grant_def split: if_splits\<close>)

lemma grant_of_clean [simp]: "clean_recipient_grant (grant_of k now e) = Inr ()"
  and grant_of_item [simp]: "sg_item (grant_of k now e) = k" "sg_recipient (grant_of k now e) = fst e"
    "sg_valid_until (grant_of k now e) = None"
  by (simp_all add: clean_recipient_grant_def grant_of_def split: prod.splits)

lemma grants_ok_put:
  assumes "grants_ok t" "tbl_get t k = Some g0" "clean_recipient_grant g = Inr ()"
    and "open_grant_key g = None \<or> open_grant_key g = open_grant_key g0"
  shows "grants_ok (tbl_put k g t)"
proof -
  have t: "tbl_wf t" "unique_on open_grant_key t" using assms(1) by (simp_all add: grants_ok_def)
  have "unique_on open_grant_key (tbl_put k g t)"
    by (rule unique_on_put [OF t(2,1) key_kept_not_taken [OF t(2) assms(2,4)]])
  then show ?thesis
    using assms(1,3) tbl.wf_put [OF t(1)] unfolding grants_ok_def set_rows_put [OF t(1)] by auto
qed

lemma record_grant_ok:
  assumes "record_grant k now e s = (r, s')" "schedules_ok s \<Longrightarrow> grouped s k"
  shows "step_ok s s'"
proof (cases "tbl_first (\<lambda>_ r. sg_item r = k \<and> sg_recipient r = fst e \<and> sg_valid_until r = None) (db_recipient_grants s)")
  case None
  then have "insert_grant (grant_of k now e) s = (r, s')" using assms(1) by (simp add: record_grant_def Let_def)
  then show ?thesis by (rule insert_grant_ok) (simp_all add: assms(2))
next
  case (Some kg)
  obtain gk g where kg: "kg = (gk, g)" by fastforce
  define g' where "g' = g\<lparr>sg_source_types := sg_source_types (grant_of k now e),
      sg_source_project_ids := sg_source_project_ids (grant_of k now e), sg_resolved_at := db_now s\<rparr>"
  have s': "s' = s\<lparr>db_recipient_grants := tbl_put gk g' (db_recipient_grants s)\<rparr>"
    using assms(1) Some kg by (simp add: record_grant_def Let_def g'_def)
  have in_t: "(gk, g) \<in> set (tbl_rows (db_recipient_grants s))" and g: "sg_item g = k" "sg_valid_until g = None"
    using tbl_firstD [OF Some [unfolded kg]] by simp_all
  have "grants_ok (tbl_put gk g' (db_recipient_grants s))" if "grants_ok (db_recipient_grants s)"
    by (rule grants_ok_put [OF that, of _ g])
      (use in_t that g in \<open>auto simp: tbl_get_iff grants_ok_def g'_def clean_recipient_grant_def open_grant_key_def\<close>)
  moreover have "sg_item g' = k" by (simp add: g'_def g)
  ultimately show ?thesis
    using assms(2) unfolding s' step_ok_def schedules_ok_def
    by (auto simp: grants_ok_def set_rows_put grouped_def simp del: rows_put)
qed

lemma drop_rows_wf: "tbl_wf t \<Longrightarrow> tbl_wf (t\<lparr>tbl_rows := filter P (tbl_rows t)\<rparr>)"
  by (auto simp: tbl_wf_def distinct_map_filter)

lemma unique_on_drop: "unique_on f t \<Longrightarrow> unique_on f (t\<lparr>tbl_rows := filter P (tbl_rows t)\<rparr>)"
  unfolding unique_on_def by auto

lemma clear_audiences_ok: "step_ok s (clear_audiences k s)"
  by (auto simp: step_ok_def schedules_ok_def clear_audiences_def audiences_ok_def drop_rows_wf unique_on_drop grouped_def)

lemma insert_dispatch_ok: "insert_dispatch d s = (r, s') \<Longrightarrow> step_ok s s'"
proof (cases r)
  case (Inr k)
  assume "insert_dispatch d s = (r, s')"
  then obtain x where x: "s' = s\<lparr>db_schedule_dispatches := tbl_insert x (db_schedule_dispatches s)\<rparr>"
      "\<not> key_taken dispatch_key x (db_schedule_dispatches s)" "clean_dispatch x = Inr ()"
    using Inr insert_dispatchD by metis
  then show ?thesis
    by (auto simp: step_ok_def schedules_ok_def dispatches_ok_def tbl.wf_add unique_on_insert grouped_def)
qed (auto simp: insert_dispatch_def Let_def split: if_splits sum.splits)

lemma get_or_create_dispatch_ok: "get_or_create_dispatch same d s = (r, s') \<Longrightarrow> step_ok s s'"
  using insert_dispatch_ok [of d s]
  by (auto simp: get_or_create_dispatch_def split: option.splits prod.splits sum.splits)

lemma unique_on_update_same:
  assumes "unique_on f t" "\<And>k r. f (g r) = f r" shows "unique_on f (tbl_update_where c g t)"
  using assms unfolding unique_on_def rows_update_where by (fastforce split: if_splits)

lemma mark_dispatched_ok: "step_ok s (mark_dispatched dk nk s)"
proof -
  have "dispatches_ok (tbl_update_where (\<lambda>k _. k = dk)
      (\<lambda>d. d\<lparr>sd_notification := Some nk, sd_status := Dispatch_CREATED, sd_updated_at := now\<rparr>) t)"
    if "dispatches_ok t" for t now
    using that unique_on_update_same [of dispatch_key t]
    by (auto simp: dispatches_ok_def wf_tbl_update_where dispatch_key_def clean_dispatch_def simp del: rows_update_where)
      (auto split: if_splits)
  then show ?thesis by (simp add: step_ok_def schedules_ok_def mark_dispatched_def grouped_def)
qed

section \<open>Announcements and audiences\<close>

lemma enqueue_ok: "enqueue_notification a s = (r, s') \<Longrightarrow> step_ok s s'" for s :: "'a schedule_db_scheme"
  by (rule same_schedules_ok [OF only_mail_schedules [OF only_mail_enqueue]])

lemma dispatch_to_ok:
  assumes "dispatch_to j k s = (r, s')" shows "step_ok s s'"
proof -
  let ?row = "\<lambda>channel nk. new_dispatch (dj_item j) k (dj_key j) (dj_event j) None channel nk"
  obtain q1 s1 where 1: "get_or_create_dispatch same_event (?row Dispatch_IN_APP None) s = (q1, s1)" by fastforce
  note ok1 = get_or_create_dispatch_ok [OF 1]
  show ?thesis
  proof (cases "\<exists>dk ev sub path. q1 = Inr (dk, True) \<and> group_event (dj_event j) = Some (ev, sub) \<and> dj_path j = Some path")
    case False
    then have "s' = s1"
      using assms 1 by (auto simp: dispatch_to_def Let_def split: sum.splits prod.splits bool.splits option.splits)
    then show ?thesis using ok1 by simp
  next
    case True
    then obtain dk ev sub path where t: "q1 = Inr (dk, True)" "group_event (dj_event j) = Some (ev, sub)" "dj_path j = Some path"
      by blast
    obtain q2 s2 where 2: "enqueue_notification (group_notification j k (db_now s1) ev sub path) s1 = (q2, s2)" by fastforce
    note ok2 = step_ok_trans [OF ok1 enqueue_ok [OF 2]]
    show ?thesis
    proof (cases q2)
      case (Inl e)
      then show ?thesis using assms 1 2 t ok2 by (simp add: dispatch_to_def Let_def)
    next
      case (Inr nk)
      note ok3 = step_ok_trans [OF ok2 mark_dispatched_ok [of s2 dk nk]]
      obtain q4 s4 where 4: "get_or_create_dispatch same_event (?row Dispatch_EMAIL (Some nk)) (mark_dispatched dk nk s2) = (q4, s4)"
        by fastforce
      then show ?thesis
        using assms 1 2 t Inr ok3 step_ok_trans [OF ok3 get_or_create_dispatch_ok [OF 4]]
        by (auto simp: dispatch_to_def Let_def split: if_splits sum.splits)
    qed
  qed
qed

lemma dispatch_all_ok: "dispatch_all j ks s = (r, s') \<Longrightarrow> step_ok s s'"
proof (induction ks arbitrary: s s' r)
  case (Cons k ks)
  obtain q1 s1 where 1: "dispatch_to j k s = (q1, s1)" by fastforce
  obtain q2 s2 where 2: "dispatch_all j ks s1 = (q2, s2)" by fastforce
  show ?case
    using Cons.prems 1 2 dispatch_to_ok [OF 1] step_ok_trans [OF dispatch_to_ok [OF 1] Cons.IH [OF 2]]
    by (auto split: sum.splits)
qed simp

lemma dispatch_group_event_ok: "dispatch_group_event k i u ev rs s = (r, s') \<Longrightarrow> step_ok s s'"
  unfolding dispatch_group_event_def by (rule dispatch_all_ok)

text \<open>Where an assumption on the state is needed, the step is taken from a state that satisfies the invariant.\<close>

lemma step_ok_when: "(schedules_ok s \<Longrightarrow> step_ok s s') \<Longrightarrow> step_ok s s'"
  by (auto simp: step_ok_def)

lemma for_each_audiences_ok:
  assumes e: "for_each insert_audience as s = (r, s')"
    and a: "\<And>a. a \<in> set as \<Longrightarrow> audience_shaped a" "\<And>a. a \<in> set as \<Longrightarrow> schedules_ok s \<Longrightarrow> grouped s (sa_item a)"
  shows "step_ok s s'"
proof (rule step_ok_when)
  assume ok: "schedules_ok s"
  show "step_ok s s'"
  proof (rule step_ok_for_each [OF e])
    fix x t q t' assume x: "x \<in> set as" and st: "step_ok s t" and i: "insert_audience x t = (q, t')"
    show "step_ok t t'"
      by (rule audience_item_ok [OF a(1) [OF x] i]) (use st ok a(2) [OF x] in \<open>simp add: step_ok_def\<close>)
  qed
qed

lemma for_each_grants_ok:
  assumes e: "for_each insert_grant gs s = (r, s')"
    and a: "\<And>g. g \<in> set gs \<Longrightarrow> clean_recipient_grant g = Inr ()"
      "\<And>g. g \<in> set gs \<Longrightarrow> schedules_ok s \<Longrightarrow> grouped s (sg_item g)"
  shows "step_ok s s'"
proof (rule step_ok_when)
  assume ok: "schedules_ok s"
  show "step_ok s s'"
  proof (rule step_ok_for_each [OF e])
    fix x t q t' assume x: "x \<in> set gs" and st: "step_ok s t" and i: "insert_grant x t = (q, t')"
    show "step_ok t t'"
      by (rule insert_grant_ok [OF i a(1) [OF x]]) (use st ok a(2) [OF x] in \<open>simp add: step_ok_def\<close>)
  qed
qed

lemma for_each_record_grant_ok:
  assumes e: "for_each (record_grant k now) es s = (r, s')" and g: "schedules_ok s \<Longrightarrow> grouped s k"
  shows "step_ok s s'"
proof (rule step_ok_when)
  assume ok: "schedules_ok s"
  show "step_ok s s'"
  proof (rule step_ok_for_each [OF e])
    fix x t q t' assume st: "step_ok s t" and i: "record_grant k now x t = (q, t')"
    show "step_ok t t'" by (rule record_grant_ok [OF i]) (use st ok g in \<open>simp add: step_ok_def\<close>)
  qed
qed

lemma resolve_audience_grouped:
  assumes e: "resolve_audience u k i ps as at s = (r, s')" and ok: "schedules_ok s" and g: "grouped s k"
  shows "step_ok s s'"
proof (cases r)
  case (Inr summary)
  let ?projects = "tbl_filter (\<lambda>p _. p \<in> set ps) (db_projects s)"
  let ?accounts = "filter (\<lambda>(a, _). a \<in> set as) (eligible_recipient_accounts s u)"
  let ?rows = "map (project_audience k (u_id u) (db_now s)) (map fst ?projects)
      @ map (account_audience k (u_id u) (db_now s)) (map fst ?accounts)"
  obtain q1 s1 where 1: "for_each insert_audience ?rows (clear_audiences k s) = (q1, s1)" by fastforce
  have ok0: "step_ok s (clear_audiences k s)" by (rule clear_audiences_ok)
  have ok1: "step_ok s s1"
    by (rule step_ok_trans [OF ok0 for_each_audiences_ok [OF 1]])
      (use ok0 ok g in \<open>auto simp: project_audience_def account_audience_def audience_shaped_def step_ok_def\<close>)
  obtain ev now where 2: "for_each (record_grant k now) ev s1 = (Inr (), s')"
    using e [unfolded Inr resolve_audience_def atomic_Inr Let_def] 1
    by (auto split: if_splits sum.splits prod.splits)
  have "step_ok s1 s'"
    by (rule for_each_record_grant_ok [OF 2]) (use ok1 ok g in \<open>simp add: step_ok_def\<close>)
  then show ?thesis by (rule step_ok_trans [OF ok1])
qed (use e in \<open>simp add: resolve_audience_def\<close>)

lemma resolve_audience_ok:
  assumes "resolve_audience u k i ps as at s = (r, s')" "schedules_ok s \<Longrightarrow> grouped s k"
  shows "step_ok s s'"
  using resolve_audience_grouped [OF assms(1)] assms(2) by (blast intro: step_ok_when)

lemma regrant_facts [simp]:
  "sg_item (regrant now ev g) = sg_item g" "sg_recipient (regrant now ev g) = sg_recipient g"
  "sg_valid_from (regrant now ev g) = sg_valid_from g"
  by (simp_all add: regrant_def split: option.splits prod.splits)

lemma regrant_key: "open_grant_key (regrant now ev g) = None \<or> open_grant_key (regrant now ev g) = open_grant_key g"
  by (simp add: regrant_def open_grant_key_def split: option.splits prod.splits)

lemma regrant_clean: "sg_valid_until g = None \<Longrightarrow> clean_recipient_grant (regrant now ev g) = Inr ()"
  by (cases "map_of ev (sg_recipient g)") (auto simp: regrant_def clean_recipient_grant_def)

lemma regrant_step_ok:
  "step_ok s (s\<lparr>db_recipient_grants := tbl_update_where (\<lambda>_ g. sg_item g = k \<and> sg_valid_until g = None)
     (regrant now ev) (db_recipient_grants s)\<rparr>)"
proof -
  let ?t = "tbl_update_where (\<lambda>_ g. sg_item g = k \<and> sg_valid_until g = None) (regrant now ev)"
  have "grants_ok (?t t)" if t: "grants_ok t" for t
  proof -
    have "unique_on open_grant_key (?t t)"
      by (rule unique_on_update_where) (use t regrant_key in \<open>auto simp: grants_ok_def\<close>)
    then show ?thesis using t regrant_clean by (auto simp: grants_ok_def wf_tbl_update_where)
  qed
  then show ?thesis by (auto simp: step_ok_def schedules_ok_def grouped_def)
qed

lemma reresolve_audienceE:
  assumes "reresolve_audience k i at s = (Inr x, s')" "si_scope i = Schedule_GROUP"
  obtains now ev s2 y where "now = (case at of None \<Rightarrow> db_now s | Some t \<Rightarrow> t)"
    "ev = audience_evidence s k (si_owner i)"
    "for_each insert_grant (map (grant_of k now) (granted_additions s k ev)) (regranted k now ev s) = (Inr (), s2)"
    "(if removed_recipients s k ev = [] then (Inr 0, s2)
      else dispatch_group_event k i (si_owner i) Dispatch_REMOVED (Some (removed_recipients s k ev)) s2) = (Inr y, s')"
    "x = (length (granted_additions s k ev), length (removed_recipients s k ev), length ev)"
proof -
  let ?now = "case at of None \<Rightarrow> db_now s | Some t \<Rightarrow> t"
  let ?ev = "audience_evidence s k (si_owner i)"
  obtain q2 s2 where 2: "for_each insert_grant (map (grant_of k ?now) (granted_additions s k ?ev)) (regranted k ?now ?ev s) = (q2, s2)"
    by fastforce
  obtain q3 s3 where 3: "(if removed_recipients s k ?ev = [] then (Inr 0, s2)
      else dispatch_group_event k i (si_owner i) Dispatch_REMOVED (Some (removed_recipients s k ?ev)) s2) = (q3, s3)"
    by fastforce
  have "q2 = Inr ()" "\<exists>y. q3 = Inr y"
    "s3 = s'" "x = (length (granted_additions s k ?ev), length (removed_recipients s k ?ev), length ?ev)"
    using assms(1) unfolding reresolve_audience_def atomic_Inr Let_def 2 by (auto simp: 3 assms(2) split: sum.splits)
  then show ?thesis using that [of ?now ?ev s2] 2 3 by auto
qed

lemma reresolve_audience_ok:
  assumes e: "reresolve_audience k i at s = (r, s')"
    and g: "schedules_ok s \<Longrightarrow> si_scope i = Schedule_GROUP \<Longrightarrow> grouped s k"
  shows "step_ok s s'"
proof (cases "si_scope i = Schedule_GROUP \<and> (\<exists>x. r = Inr x)")
  case False
  then show ?thesis using e by (cases r) (auto simp: reresolve_audience_def)
next
  case True
  then obtain x where x: "si_scope i = Schedule_GROUP" "r = Inr x" by blast
  obtain now ev s2 y where 2: "for_each insert_grant (map (grant_of k now) (granted_additions s k ev)) (regranted k now ev s) = (Inr (), s2)"
    and 3: "(if removed_recipients s k ev = [] then (Inr 0, s2)
      else dispatch_group_event k i (si_owner i) Dispatch_REMOVED (Some (removed_recipients s k ev)) s2) = (Inr y, s')"
    using reresolve_audienceE [OF e [unfolded x(2)] x(1)] by metis
  have 1: "step_ok s (regranted k now ev s)" unfolding regranted_def by (rule regrant_step_ok)
  have "step_ok (regranted k now ev s) s2" if "schedules_ok s"
    by (rule for_each_grants_ok [OF 2]) (use 1 that g x in \<open>auto simp: step_ok_def\<close>)
  then have "step_ok s s2" using step_ok_trans [OF 1] by (blast intro: step_ok_when)
  moreover have "step_ok s2 s'" using 3 dispatch_group_event_ok by (auto split: if_splits)
  ultimately show ?thesis by (rule step_ok_trans)
qed

lemma refresh_project_schedule_grants_ok:
  assumes "refresh_project_schedule_grants pid s = (r, s')" shows "step_ok s s'"
proof (rule step_ok_when)
  assume ok: "schedules_ok s"
  then have wf: "tbl_wf (db_schedules s)" by (simp add: schedules_ok_def items_ok_def)
  show "step_ok s s'"
  proof (rule step_ok_for_each [OF assms [unfolded refresh_project_schedule_grants_def]])
    fix x t q t'
    assume x: "x \<in> set (items_of_project s pid)" and st: "step_ok s t"
      and e: "(case x of (k, i) \<Rightarrow> void (reresolve_audience k i None)) t = (q, t')"
    obtain k i where ki: "x = (k, i)" by fastforce
    have "grouped s k"
      using x wf unfolding ki by (auto simp: items_of_project_def set_tbl_filter grouped_def tbl_get_iff [symmetric])
    then have "grouped t k" using st ok by (simp add: step_ok_def)
    then show "step_ok t t'"
      using e unfolding ki by (auto intro: reresolve_audience_ok elim!: step_ok_void)
  qed
qed

end
