(* ===== verification/ScheduleCommands.thy ===== *)
theory ScheduleCommands
  imports ScheduleRules
begin

text \<open>
  The services keep the invariant of the schedule tables (\<open>schedules_ok\<close>), one lemma per operation, and the commands a
  client, the membership signal and the reminder scan can issue as one system (\<open>schedule_step\<close>), which is an
  instance of \<open>command_system\<close>.
\<close>

lemma step_ok_case:
  assumes "(case M of (Inl e, s1) \<Rightarrow> (Inl e, s1) | (Inr x, s1) \<Rightarrow> f x s1) = (r, s')"
    and "\<And>q t. M = (q, t) \<Longrightarrow> step_ok s t"
    and "\<And>x t. M = (Inr x, t) \<Longrightarrow> step_ok s t \<Longrightarrow> f x t = (r, s') \<Longrightarrow> step_ok t s'"
  shows "step_ok s s'"
proof -
  obtain q t where M: "M = (q, t)" by fastforce
  note 1 = assms(2) [OF M]
  show ?thesis
  proof (cases q)
    case (Inr x)
    then have "step_ok t s'" using assms(1) M 1 by (intro assms(3) [of x t]) auto
    then show ?thesis by (rule step_ok_trans [OF 1])
  qed (use assms(1) M 1 in auto)
qed

text \<open>The same where the rest of the handler does not change the state.\<close>

lemma step_ok_last:
  assumes "(case M of (Inl e, s1) \<Rightarrow> (Inl e, s1) | (Inr x, s1) \<Rightarrow> (Inr (g x s1), s1)) = (r, s')"
    and "\<And>q t. M = (q, t) \<Longrightarrow> step_ok s t"
  shows "step_ok s s'"
  by (rule step_ok_case [OF assms(1) assms(2)]) auto

section \<open>Reminders, revisions, exceptions\<close>

lemma insert_reminder_ok: "insert_reminder k x s = (r, s') \<Longrightarrow> step_ok s s'"
  by (auto simp: insert_reminder_def Let_def step_ok_def schedules_ok_def tbl.wf_add unique_on_insert grouped_def
      split: if_splits)

lemma replace_reminders_ok:
  assumes "replace_reminders k rs s = (r, s')" shows "step_ok s s'"
proof (cases rs)
  case (Some xs)
  let ?s = "s\<lparr>db_schedule_reminders := (db_schedule_reminders s)\<lparr>tbl_rows :=
      filter (\<lambda>(_, r). sr_item r \<noteq> k) (tbl_rows (db_schedule_reminders s))\<rparr>\<rparr>"
  have "step_ok s ?s"
    by (auto simp: step_ok_def schedules_ok_def drop_rows_wf unique_on_drop grouped_def)
  moreover have "step_ok ?s s'"
    by (rule step_ok_for_each [of "insert_reminder k" xs])
      (use assms Some insert_reminder_ok in \<open>auto simp: replace_reminders_def\<close>)
  ultimately show ?thesis by (rule step_ok_trans)
qed (use assms in \<open>simp add: replace_reminders_def\<close>)

lemma insert_schedule_revision_ok: "insert_schedule_revision x s = (r, s') \<Longrightarrow> step_ok s s'"
proof -
  assume e: "insert_schedule_revision x s = (r, s')"
  have "key_taken revision_key (x\<lparr>sv_created_at := t\<rparr>) tb = key_taken revision_key x tb" for t tb
    by (simp add: key_taken_def revision_key_def)
  then show ?thesis
    using e by (auto simp: insert_schedule_revision_def step_ok_def schedules_ok_def tbl.wf_add unique_on_insert grouped_def
        split: if_splits)
qed

lemma record_group_revision_ok: "record_group_revision k u c ch ef s = (r, s') \<Longrightarrow> step_ok s s'"
  unfolding record_group_revision_def by (rule insert_schedule_revision_ok)

lemma new_exception_key [simp]:
  "timed_exception_key (new_exception k c v t) = (case v of On_day d \<Rightarrow> None | At_instant i \<Rightarrow> Some (k, i))"
  "day_exception_key (new_exception k c v t) = (case v of On_day d \<Rightarrow> Some (k, d) | At_instant i \<Rightarrow> None)"
  by (simp_all add: new_exception_def timed_exception_key_def day_exception_key_def split: occurrence_at.split)

lemma new_exception_keyed:
  "(sx_original_starts_at (new_exception k c v t) = None) \<noteq> (sx_original_starts_on (new_exception k c v t) = None)"
  by (simp add: new_exception_def split: occurrence_at.split)

lemma new_exception_not_taken:
  assumes "tbl_first (\<lambda>_ x. sx_item x = k \<and> exception_at x v) t = None"
  shows "\<not> key_taken timed_exception_key (new_exception k c v now) t" "\<not> key_taken day_exception_key (new_exception k c v now) t"
proof -
  have n: "(j, x) \<in> set (tbl_rows t) \<Longrightarrow> \<not> (sx_item x = k \<and> exception_at x v)" for j x
    using assms by (auto simp: tbl_first_None tbl_exists_iff)
  show "\<not> key_taken timed_exception_key (new_exception k c v now) t"
  proof (cases v)
    case (At_instant a)
    then have "timed_exception_key x \<noteq> Some (k, a)" if "(j, x) \<in> set (tbl_rows t)" for j x
      using n [OF that] by (auto simp: timed_exception_key_def exception_at_def)
    then show ?thesis using At_instant by (auto simp: key_taken_def tbl_exists_iff)
  qed (simp add: key_taken_def)
  show "\<not> key_taken day_exception_key (new_exception k c v now) t"
  proof (cases v)
    case (On_day a)
    then have "day_exception_key x \<noteq> Some (k, a)" if "(j, x) \<in> set (tbl_rows t)" for j x
      using n [OF that] by (auto simp: day_exception_key_def exception_at_def)
    then show ?thesis using On_day by (auto simp: key_taken_def tbl_exists_iff)
  qed (simp add: key_taken_def)
qed

lemma exception_forE:
  assumes "exception_for k i key u s = (r, s')"
  shows "step_ok s s'"
    and "r = Inr (xk, x) \<Longrightarrow> schedules_ok s \<Longrightarrow> tbl_get (db_schedule_exceptions s') xk = Some x"
proof -
  show "step_ok s s'"
    using assms new_exception_not_taken new_exception_keyed
    by (auto simp: exception_for_def Let_def step_ok_def schedules_ok_def exceptions_ok_def tbl.wf_add unique_on_insert
        grouped_def split: sum.splits option.splits prod.splits)
  assume "r = Inr (xk, x)" "schedules_ok s"
  then show "tbl_get (db_schedule_exceptions s') xk = Some x"
    using assms by (auto simp: exception_for_def Let_def schedules_ok_def exceptions_ok_def tbl.get_add_new tbl_get_iff
        dest: tbl_firstD split: sum.splits option.splits)
qed

definition same_occurrence :: "(occurrence_exception \<Rightarrow> occurrence_exception) \<Rightarrow> bool" where
  "same_occurrence g \<longleftrightarrow> (\<forall>x. sx_item (g x) = sx_item x \<and> sx_original_starts_at (g x) = sx_original_starts_at x
      \<and> sx_original_starts_on (g x) = sx_original_starts_on x)"

lemma same_occurrence_overridden [simp]: "same_occurrence (overridden f)"
  and same_occurrence_status [simp]: "same_occurrence (with_exception_status st)"
  by (auto simp: same_occurrence_def overridden_def with_exception_status_def Let_def)

lemma exceptions_ok_put:
  assumes "exceptions_ok t" "tbl_get t k = Some x0"
    and "sx_item x = sx_item x0" "sx_original_starts_at x = sx_original_starts_at x0"
      "sx_original_starts_on x = sx_original_starts_on x0"
  shows "exceptions_ok (tbl_put k x t)"
proof -
  have t: "tbl_wf t" "unique_on timed_exception_key t" "unique_on day_exception_key t"
    using assms(1) by (simp_all add: exceptions_ok_def)
  have "timed_exception_key x = timed_exception_key x0" "day_exception_key x = day_exception_key x0"
    using assms(3-5) by (simp_all add: timed_exception_key_def day_exception_key_def)
  then have "unique_on timed_exception_key (tbl_put k x t)" "unique_on day_exception_key (tbl_put k x t)"
    using unique_on_put [OF t(2,1) key_kept_not_taken [OF t(2) assms(2)]]
      unique_on_put [OF t(3,1) key_kept_not_taken [OF t(3) assms(2)]] by auto
  moreover have "(sx_original_starts_at x = None) \<noteq> (sx_original_starts_on x = None)"
    using assms tbl_getD [OF assms(2)] by (auto simp: exceptions_ok_def)
  ultimately show ?thesis
    using assms(1) tbl.wf_put [OF t(1)] unfolding exceptions_ok_def set_rows_put [OF t(1)] by auto
qed

lemma change_occurrence_ok:
  assumes e: "change_occurrence k i key u g s = (r, s')" and g: "same_occurrence g"
  shows "step_ok s s'"
proof (rule step_ok_when)
  assume ok: "schedules_ok s"
  show "step_ok s s'"
  proof (rule step_ok_case [OF e [unfolded change_occurrence_def]])
    show "exception_for k i key u s = (q, t) \<Longrightarrow> step_ok s t" for q t by (rule exception_forE)
  next
    fix y t
    assume x: "exception_for k i key u s = (Inr y, t)" and st: "step_ok s t"
      and s': "(case y of (xk, x) \<Rightarrow> (Inr (), save_exception xk (g x) t)) = (r, s')"
    obtain xk x0 where y: "y = (xk, x0)" by fastforce
    have get: "tbl_get (db_schedule_exceptions t) xk = Some x0" using exception_forE(2) [OF x _ ok] y by simp
    have "exceptions_ok (tbl_put xk (g x0\<lparr>sx_updated_at := db_now t\<rparr>) (db_schedule_exceptions t))"
      if "exceptions_ok (db_schedule_exceptions t)"
      by (rule exceptions_ok_put [OF that get]) (use g in \<open>simp_all add: same_occurrence_def\<close>)
    then show "step_ok t s'"
      using s' y by (auto simp: save_exception_def step_ok_def schedules_ok_def grouped_def)
  qed
qed

section \<open>Creating and publishing\<close>

lemma scope_apply_fields [simp]: "si_scope (apply_fields f i) = si_scope i"
  by (simp add: apply_fields_def apply_recurrence_def split: option.split)

lemma scope_moved_start [simp]: "si_scope (moved_start v i) = si_scope i"
  by (simp add: moved_start_def split: occurrence_at.split)

lemma schedules_ok_wf: "schedules_ok s \<Longrightarrow> tbl_wf (db_schedules s)"
  by (simp add: schedules_ok_def items_ok_def)

lemma insert_item_grouped:
  assumes "insert_item i s = (Inr (k, r), s')" "schedules_ok s"
  shows "grouped s' k \<longleftrightarrow> si_scope i = Schedule_GROUP" "si_scope r = si_scope i" "tbl_get (db_schedules s') k = Some r"
  using insert_itemD [OF assms(1)] tbl.get_add_new [OF schedules_ok_wf [OF assms(2)], of r]
  by (auto simp: grouped_def)

lemma save_item_grouped:
  assumes "save_item k i s = (Inr r, s')" "schedules_ok s"
  shows "grouped s' k \<longleftrightarrow> si_scope i = Schedule_GROUP" "si_scope r = si_scope i" "tbl_get (db_schedules s') k = Some r"
  using save_itemD [OF assms(1)] tbl.get_put [OF schedules_ok_wf [OF assms(2)], of k r]
  by (auto simp: grouped_def)

text \<open>\<open>step_ok_case\<close> from a state that satisfies the invariant: the next state does, and keeps the group items.\<close>

lemma step_ok_then:
  assumes "(case M of (Inl e, s1) \<Rightarrow> (Inl e, s1) | (Inr x, s1) \<Rightarrow> f x s1) = (r, s')" "schedules_ok s"
    and "\<And>q t. M = (q, t) \<Longrightarrow> step_ok s t"
    and "\<And>x t. M = (Inr x, t) \<Longrightarrow> schedules_ok t \<Longrightarrow> (\<And>k. grouped s k \<Longrightarrow> grouped t k) \<Longrightarrow> f x t = (r, s')
           \<Longrightarrow> step_ok t s'"
  shows "step_ok s s'"
  using assms(1,3)
proof (rule step_ok_case)
  show "step_ok t s'" if "M = (Inr x, t)" "step_ok s t" "f x t = (r, s')" for x t
    using that(2) assms(2) by (intro assms(4) [OF that(1) _ _ that(3)]) (simp_all add: step_ok_def)
qed

lemma step_ok_assuming:
  assumes "atomic m s = (r, s')" "\<And>q t. schedules_ok s \<Longrightarrow> m s = (q, t) \<Longrightarrow> step_ok s t"
  shows "step_ok s s'"
proof (rule step_ok_when)
  show "step_ok s s'" if "schedules_ok s"
    using assms(2) [OF that] by (rule step_ok_atomic [OF assms(1)])
qed

lemma announce_group_ok:
  assumes e: "announce_group u k i ps as s = (r, s')" and g: "grouped s k"
  shows "step_ok s s'"
proof (rule step_ok_case [OF e [unfolded announce_group_def]], goal_cases)
  case (1 q t)
  then show ?case by (rule resolve_audience_ok) (rule g)
next
  case (2 x t)
  show ?case
  proof (rule step_ok_case [OF 2(3)], goal_cases)
    case (1 q t)
    then show ?case by (rule insert_schedule_revision_ok)
  next
    case v: (2 y t2)
    show ?case
      by (rule step_ok_trans [OF same_schedules_ok [OF record_schedule_event_schedules] step_ok_void [OF v(3)]])
        (rule dispatch_group_event_ok)
  qed
qed

text \<open>The reminders, then the announcement when the item is published.\<close>

lemma after_save_ok:
  assumes e: "(case replace_reminders k rs t1 of
      (Inl e, s2) \<Rightarrow> (Inl e, s2)
    | (Inr _, s2) \<Rightarrow>
        if \<not> pub then (Inr k, s2)
        else (case announce_group u k i ps as s2 of (Inl e, s3) \<Rightarrow> (Inl e, s3) | (Inr _, s3) \<Rightarrow> (Inr k, s3))) = (q, t)"
    and ok: "schedules_ok t1" and g: "pub \<Longrightarrow> grouped t1 k"
  shows "step_ok t1 t"
proof (rule step_ok_then [OF e ok], goal_cases)
  case (1 q t)
  then show ?case by (rule replace_reminders_ok)
next
  case (2 x t2)
  then show ?case by (cases pub) (auto elim!: step_ok_last intro: announce_group_ok g)
qed

lemma create_schedule_ok:
  assumes "create_schedule u scope audience f s = (r, s')" shows "step_ok s s'"
proof (rule step_ok_assuming [OF assms [unfolded create_schedule_def]], goal_cases)
  case (1 q t)
  show ?case
  proof (cases "scope = Schedule_GROUP \<and> \<not> can_publish_group_item u")
    case False
    show ?thesis
    proof (rule step_ok_then [OF 1(2) [unfolded if_not_P [OF False]] 1(1)], goal_cases)
      case (1 q t)
      then show ?case by (rule insert_item_ok)
    next
      case i: (2 ki t1)
      obtain k x where k: "ki = (k, x)" by fastforce
      have g: "grouped t1 k \<longleftrightarrow> scope = Schedule_GROUP"
        using insert_item_grouped(1) [OF i(1) [unfolded k] 1(1)] by (simp add: new_schedule_def)
      show ?case
        by (rule after_save_ok [OF i(4) [unfolded k prod.case] i(2)]) (simp add: g)
    qed
  qed (use 1 in simp)
qed

lemma publish_schedule_ok:
  assumes "publish_schedule u k expected audience reminders s = (r, s')" shows "step_ok s s'"
proof (rule step_ok_assuming [OF assms [unfolded publish_schedule_def]], goal_cases)
  case (1 q t)
  then consider "t = s" | locked where "(case save_item k (locked\<lparr>si_scope := Schedule_GROUP, si_published_at := Some (db_now s),
                                    si_version := Suc (si_version locked)\<rparr>) s of
        (Inl e, s1) \<Rightarrow> (Inl e, s1)
      | (Inr i, s1) \<Rightarrow>
          (case replace_reminders k reminders s1 of
             (Inl e, s2) \<Rightarrow> (Inl e, s2)
           | (Inr _, s2) \<Rightarrow>
               (case announce_group u k i (fst audience) (snd audience) s2 of
                  (Inl e, s3) \<Rightarrow> (Inl e, s3) | (Inr _, s3) \<Rightarrow> (Inr k, s3)))) = (q, t)"
    by (auto split: option.splits sum.splits if_splits)
  then show ?case
  proof cases
    case (2 locked)
    show ?thesis
    proof (rule step_ok_then [OF 2 1(1)], goal_cases)
      case (1 q t)
      then show ?case by (rule save_item_ok) simp
    next
      case i: (2 x t1)
      show ?case
        by (rule after_save_ok [where pub = True, unfolded not_True_eq_False if_False, OF i(4) i(2)])
          (simp add: save_item_grouped(1) [OF i(1) 1(1)])
    qed
  qed simp
qed

section \<open>An occurrence and all after it\<close>

lemma for_each_keeps:
  assumes "for_each f xs s = (r, s')" "\<And>x t q t'. f x t = (q, t') \<Longrightarrow> g t' = g t"
  shows "g s' = g s"
  using assms(1)
proof (induction xs arbitrary: s)
  case (Cons x xs)
  obtain q t where x: "f x s = (q, t)" by fastforce
  then show ?case using Cons assms(2) [OF x] by (cases q) auto
qed simp

lemma insert_reminder_schedules: "insert_reminder k x s = (r, s') \<Longrightarrow> db_schedules s' = db_schedules s"
  by (auto simp: insert_reminder_def Let_def split: if_splits)

lemma replace_reminders_schedules:
  assumes "replace_reminders k rs s = (r, s')" shows "db_schedules s' = db_schedules s"
proof (cases rs)
  case (Some xs)
  let ?s = "s\<lparr>db_schedule_reminders := (db_schedule_reminders s)\<lparr>tbl_rows :=
      filter (\<lambda>(_, r). sr_item r \<noteq> k) (tbl_rows (db_schedule_reminders s))\<rparr>\<rparr>"
  have e: "for_each (insert_reminder k) xs ?s = (r, s')"
    using assms by (simp add: replace_reminders_def Some)
  have "db_schedules s' = db_schedules ?s"
    by (rule for_each_keeps [OF e, where g = db_schedules]) (rule insert_reminder_schedules)
  then show ?thesis by simp
qed (use assms in \<open>simp add: replace_reminders_def\<close>)

lemma audiences_of_shaped: "schedules_ok s \<Longrightarrow> (j, a) \<in> set (audiences_of s k) \<Longrightarrow> audience_shaped a"
  by (auto simp: audiences_of_def set_tbl_filter schedules_ok_def audiences_ok_def)

lemma copied_audience_shaped: "audience_shaped a \<Longrightarrow> audience_shaped (copied_audience k c now a)"
  by (simp add: audience_shaped_def copied_audience_def split: audience_scope.splits)

lemma copied_audience_item [simp]: "sa_item (copied_audience k c now a) = k"
  by (simp add: copied_audience_def)

lemma copied_grant_facts [simp]:
  "sg_item (copied_grant k now g) = k" "clean_recipient_grant (copied_grant k now g) = Inr ()"
  "sg_recipient (copied_grant k now g) = sg_recipient g" "sg_valid_until (copied_grant k now g) = None"
  by (simp_all add: copied_grant_def clean_recipient_grant_def)

text \<open>The audience and the open grants of the item, copied to its future.\<close>

lemma copy_recipients_ok:
  assumes e: "(case for_each insert_audience (map (copied_audience nk c (db_now s3)) (map snd (audiences_of s3 k))) s3 of
      (Inl e, s4) \<Rightarrow> (Inl e, s4)
    | (Inr _, s4) \<Rightarrow>
        (case for_each insert_grant (map (copied_grant nk (db_now s4)) (map snd (open_grants s4 k))) s4 of
           (Inl e, s5) \<Rightarrow> (Inl e, s5) | (Inr _, s5) \<Rightarrow> (Inr x, s5))) = (r, s')"
    and ok: "schedules_ok s3" and g: "grouped s3 nk"
  shows "step_ok s3 s'"
proof (rule step_ok_then [OF e ok], goal_cases)
  case (1 q t)
  then show ?case
    by (rule for_each_audiences_ok) (use audiences_of_shaped [OF ok] g in \<open>auto intro: copied_audience_shaped\<close>)
next
  case (2 y t)
  show ?case
    by (rule step_ok_last [OF 2(4)]) (rule for_each_grants_ok, auto simp: 2(3) [OF g])
qed

lemma split_future_ok:
  assumes e: "split_future k i u key f s = (r, s')" and get: "tbl_get (db_schedules s) k = Some i" and ok: "schedules_ok s"
  shows "step_ok s s'"
proof -
  consider "s' = s" | v where "(case save_item k (i\<lparr>si_recurrence_until := Some (local_date_of (db_zones s) i v - 1),
                              si_version := Suc (si_version i)\<rparr>) s of
        (Inl e, s1) \<Rightarrow> (Inl e, s1)
      | (Inr past, s1) \<Rightarrow>
          (case insert_item (apply_fields f (moved_start v
                  (past\<lparr>si_version := 1, si_recurrence_until := si_recurrence_until i\<rparr>))) s1 of
             (Inl e, s2) \<Rightarrow> (Inl e, s2)
           | (Inr (nk, future), s2) \<Rightarrow>
          (case replace_reminders nk (Some (given (fd_reminders f) (reminders_of s2 k))) s2 of
             (Inl e, s3) \<Rightarrow> (Inl e, s3)
           | (Inr _, s3) \<Rightarrow>
               if si_scope i \<noteq> Schedule_GROUP then (Inr (past, nk, future), s3)
               else (case for_each insert_audience
                             (map (copied_audience nk (u_id u) (db_now s3)) (map snd (audiences_of s3 k))) s3 of
                       (Inl e, s4) \<Rightarrow> (Inl e, s4)
                     | (Inr _, s4) \<Rightarrow>
                         (case for_each insert_grant (map (copied_grant nk (db_now s4)) (map snd (open_grants s4 k))) s4 of
                            (Inl e, s5) \<Rightarrow> (Inl e, s5)
                          | (Inr _, s5) \<Rightarrow> (Inr (past, nk, future), s5)))))) = (r, s')"
    using e [unfolded split_future_def] by (auto split: sum.splits if_splits)
  then show ?thesis
  proof cases
    case (2 v)
    show ?thesis
    proof (rule step_ok_then [OF 2 ok], goal_cases)
      case (1 q t)
      then show ?case by (rule save_item_ok) (use get in \<open>simp add: grouped_def\<close>)
    next
      case p: (2 past s1)
      note sp = save_item_grouped(2) [OF p(1) ok]
      show ?case
      proof (rule step_ok_then [OF p(4,2)], goal_cases)
        case (1 q t)
        then show ?case by (rule insert_item_ok)
      next
        case n: (2 nf s2)
        obtain nk future where nf: "nf = (nk, future)" by fastforce
        have g: "grouped s2 nk \<longleftrightarrow> si_scope i = Schedule_GROUP"
          using insert_item_grouped(1) [OF n(1) [unfolded nf] p(2)] sp by simp
        show ?case
        proof (rule step_ok_then [OF n(4) [unfolded nf prod.case] n(2)], goal_cases)
          case (1 q t)
          then show ?case by (rule replace_reminders_ok)
        next
          case c: (2 x s3)
          show ?case
          proof (cases "si_scope i = Schedule_GROUP")
            case True
            then have "grouped s3 nk" using c(3) g by simp
            with c(2) c(4) True show ?thesis by (intro copy_recipients_ok) simp_all
          qed (use c(4) in simp)
        qed
      qed
    qed
  qed simp
qed

lemma insert_audience_schedules: "insert_audience a s = (r, s') \<Longrightarrow> db_schedules s' = db_schedules s"
  by (auto simp: insert_audience_def split: if_splits)

lemma insert_grant_schedules: "insert_grant g s = (r, s') \<Longrightarrow> db_schedules s' = db_schedules s"
  by (auto simp: insert_grant_def split: if_splits)

lemma for_each_schedules:
  "for_each insert_audience as s = (r, s') \<Longrightarrow> db_schedules s' = db_schedules s"
  "for_each insert_grant gs s = (r, s') \<Longrightarrow> db_schedules s' = db_schedules s"
  by (erule for_each_keeps [where g = db_schedules], erule insert_audience_schedules)
    (erule for_each_keeps [where g = db_schedules], erule insert_grant_schedules)

text \<open>The writes of a split that went through.\<close>

lemma split_futureE:
  assumes e: "split_future k i u key f s = (Inr (past, nk, future), s')" and rec: "si_recurrence_frequency i \<noteq> Recurrence_NONE"
  obtains v s1 s2 where "parse_occurrence_key (db_zones s) i key = Inr v"
    "save_item k (i\<lparr>si_recurrence_until := Some (local_date_of (db_zones s) i v - 1), si_version := Suc (si_version i)\<rparr>) s
       = (Inr past, s1)"
    "insert_item (apply_fields f (moved_start v (past\<lparr>si_version := 1, si_recurrence_until := si_recurrence_until i\<rparr>))) s1
       = (Inr (nk, future), s2)"
    "db_schedules s' = db_schedules s2"
proof -
  obtain v where v: "parse_occurrence_key (db_zones s) i key = Inr v"
    using e by (auto simp: split_future_def split: sum.splits)
  let ?past = "i\<lparr>si_recurrence_until := Some (local_date_of (db_zones s) i v - 1), si_version := Suc (si_version i)\<rparr>"
  obtain q1 s1 where 1: "save_item k ?past s = (q1, s1)" by fastforce
  then obtain p where p: "q1 = Inr p" using e rec v by (cases q1) (simp_all add: split_future_def)
  let ?future = "apply_fields f (moved_start v (p\<lparr>si_version := 1, si_recurrence_until := si_recurrence_until i\<rparr>))"
  obtain q2 s2 where 2: "insert_item ?future s1 = (q2, s2)" by fastforce
  then obtain n x where n: "q2 = Inr (n, x)" using e rec v 1 p by (cases q2) (auto simp: split_future_def)
  obtain q3 s3 where 3: "replace_reminders n (Some (given (fd_reminders f) (reminders_of s2 k))) s2 = (q3, s3)" by fastforce
  obtain q4 s4 where 4: "for_each insert_audience (map (copied_audience n (u_id u) (db_now s3)) (map snd (audiences_of s3 k))) s3 = (q4, s4)"
    by fastforce
  obtain q5 s5 where 5: "for_each insert_grant (map (copied_grant n (db_now s4)) (map snd (open_grants s4 k))) s4 = (q5, s5)"
    by fastforce
  have "p = past \<and> n = nk \<and> x = future \<and> (s' = s3 \<or> s' = s5)"
    using e rec v 1 p 2 n 3 4 5 by (auto simp: split_future_def split: if_splits sum.splits)
  moreover have "db_schedules s3 = db_schedules s2" "db_schedules s5 = db_schedules s2"
    using replace_reminders_schedules [OF 3] for_each_schedules(1) [OF 4] for_each_schedules(2) [OF 5] by simp_all
  ultimately show ?thesis using that v 1 p 2 n by auto
qed

lemma split_future_single:
  assumes "split_future k i u key f s = (Inr (past, nk, future), s')" "si_recurrence_frequency i = Recurrence_NONE"
  shows "s' = s" "past = apply_fields f i" "nk = k" "future = apply_fields f i"
  using assms by (auto simp: split_future_def split: sum.splits)

text \<open>The two items of a split: the old one ends the day before, the new one is version 1 and ends where the old did.\<close>

lemma split_future_items:
  assumes e: "split_future k i u key f s = (Inr (past, nk, future), s')" and rec: "si_recurrence_frequency i \<noteq> Recurrence_NONE"
    and get: "tbl_get (db_schedules s) k = Some i" and ok: "schedules_ok s"
  obtains v where "parse_occurrence_key (db_zones s) i key = Inr v" "nk \<noteq> k" "tbl_get (db_schedules s) nk = None"
    "tbl_get (db_schedules s') k = Some past" "tbl_get (db_schedules s') nk = Some future"
    "past = i\<lparr>si_title := si_title past, si_recurrence_until := Some (local_date_of (db_zones s) i v - 1),
              si_version := Suc (si_version i), si_updated_at := db_now s\<rparr>"
    "future = (apply_fields f (moved_start v (past\<lparr>si_version := 1, si_recurrence_until := si_recurrence_until i\<rparr>)))
       \<lparr>si_title := si_title future, si_created_at := db_now s, si_updated_at := db_now s\<rparr>"
    "item_sound (db_zones s) past" "item_sound (db_zones s) future"
proof -
  obtain v s1 s2 where v: "parse_occurrence_key (db_zones s) i key = Inr v"
    and 1: "save_item k (i\<lparr>si_recurrence_until := Some (local_date_of (db_zones s) i v - 1), si_version := Suc (si_version i)\<rparr>) s
       = (Inr past, s1)"
    and 2: "insert_item (apply_fields f (moved_start v (past\<lparr>si_version := 1, si_recurrence_until := si_recurrence_until i\<rparr>))) s1
       = (Inr (nk, future), s2)"
    and s': "db_schedules s' = db_schedules s2"
    by (rule split_futureE [OF e rec])
  note p = save_itemD [OF 1] note n = insert_itemD [OF 2]
  have wf: "tbl_wf (db_schedules s)" by (rule schedules_ok_wf [OF ok])
  have wf1: "tbl_wf (db_schedules s1)" using p(1) by (simp add: tbl.wf_put [OF wf])
  have get1: "tbl_get (db_schedules s1) k = Some past" using p(1) by (simp add: tbl.get_put [OF wf])
  have new: "tbl_get (db_schedules s1) nk = None" using n(1) tbl.fresh_new [OF wf1] by simp
  then have ne: "nk \<noteq> k" using get1 by auto
  have "tbl_get (db_schedules s) nk = None" using new ne p(1) by (simp add: tbl.get_put [OF wf])
  moreover have "tbl_get (db_schedules s') k = Some past" "tbl_get (db_schedules s') nk = Some future"
    using get1 ne n(1,2) by (simp_all add: s' tbl.get_add [OF wf1])
  moreover have "past = i\<lparr>si_title := si_title past, si_recurrence_until := Some (local_date_of (db_zones s) i v - 1),
              si_version := Suc (si_version i), si_updated_at := db_now s\<rparr>" using p(3) by simp
  moreover have "future = (apply_fields f (moved_start v (past\<lparr>si_version := 1, si_recurrence_until := si_recurrence_until i\<rparr>)))
       \<lparr>si_title := si_title future, si_created_at := db_now s, si_updated_at := db_now s\<rparr>"
    using n(4) p(1) by simp
  moreover have "item_sound (db_zones s) past" "item_sound (db_zones s) future"
    using p(1,2) n(3) by simp_all
  ultimately show ?thesis using that v ne by blast
qed

lemma split_future_grouped:
  assumes e: "split_future k i u key f s = (Inr (past, nk, future), s')"
    and get: "tbl_get (db_schedules s) k = Some i" and ok: "schedules_ok s"
  shows "si_scope future = si_scope i" "si_scope past = si_scope i" "grouped s' nk \<longleftrightarrow> si_scope i = Schedule_GROUP"
    "grouped s' k \<longleftrightarrow> si_scope i = Schedule_GROUP"
proof -
  have "si_scope future = si_scope i \<and> si_scope past = si_scope i \<and> (grouped s' nk \<longleftrightarrow> si_scope i = Schedule_GROUP)
    \<and> (grouped s' k \<longleftrightarrow> si_scope i = Schedule_GROUP)"
  proof (cases "si_recurrence_frequency i = Recurrence_NONE")
    case True
    then show ?thesis using split_future_single [OF e True] get by (simp add: grouped_def)
  next
    case False
    obtain v s1 s2 where
      1: "save_item k (i\<lparr>si_recurrence_until := Some (local_date_of (db_zones s) i v - 1), si_version := Suc (si_version i)\<rparr>) s
         = (Inr past, s1)"
      and 2: "insert_item (apply_fields f (moved_start v (past\<lparr>si_version := 1, si_recurrence_until := si_recurrence_until i\<rparr>))) s1
         = (Inr (nk, future), s2)"
      by (rule split_futureE [OF e False])
    have p: "si_scope past = si_scope i" using save_itemD(3) [OF 1] by simp
    have "si_scope future = si_scope past" using insert_itemD(4) [OF 2] by simp
    moreover obtain "tbl_get (db_schedules s') k = Some past" "tbl_get (db_schedules s') nk = Some future"
      by (rule split_future_items [OF e False get ok])
    ultimately show ?thesis using p by (simp add: grouped_def)
  qed
  then show "si_scope future = si_scope i" "si_scope past = si_scope i" "grouped s' nk \<longleftrightarrow> si_scope i = Schedule_GROUP"
    "grouped s' k \<longleftrightarrow> si_scope i = Schedule_GROUP" by simp_all
qed

end
