(* ===== verification/ScheduleSystem.thy ===== *)
theory ScheduleSystem
  imports ScheduleCommands
begin

text \<open>
  Changing, cancelling, completing and deleting keep the invariant, as does the reminder scan; then all commands
  as one system (\<open>schedule_step\<close>), an instance of \<open>command_system\<close>. Last, what no command does: a group item never
  becomes personal again.
\<close>

section \<open>Changing an item\<close>

lemma announce_change_ok: "announce_change k i u c ch ef s = (r, s') \<Longrightarrow> step_ok s s'"
proof -
  assume e: "announce_change k i u c ch ef s = (r, s')"
  show ?thesis
  proof (cases "si_scope i = Schedule_GROUP")
    case True
    then have e2: "(case record_group_revision k u c ch ef s of (Inl e, s1) \<Rightarrow> (Inl e, s1)
        | (Inr _, s1) \<Rightarrow> void (dispatch_group_event k i (u_id u) Dispatch_CHANGED None) s1) = (r, s')"
      using e by (simp add: announce_change_def)
    show ?thesis
    proof (rule step_ok_case [OF e2], goal_cases)
      case (2 x t)
      then show ?case by (auto elim: step_ok_void intro: dispatch_group_event_ok)
    qed (rule record_group_revision_ok)
  qed (use e in \<open>simp add: announce_change_def\<close>)
qed

lemma update_occurrence_ok:
  assumes "update_occurrence k i u f key s = (r, s')" shows "step_ok s s'"
proof (rule step_ok_case [OF assms [unfolded update_occurrence_def]], goal_cases)
  case (2 x t)
  show ?case
  proof (rule step_ok_case [OF 2(3)], goal_cases)
    case (2 y t2)
    show ?case by (rule step_ok_last [OF 2(3)]) (rule announce_change_ok)
  qed (rule save_item_version_ok)
qed (auto intro: change_occurrence_ok)

lemma update_future_ok:
  assumes e: "update_future k i u f key s = (r, s')" and "tbl_get (db_schedules s) k = Some i" "schedules_ok s"
  shows "step_ok s s'"
proof (rule step_ok_case [OF e [unfolded update_future_def]], goal_cases)
  case (2 x t)
  obtain past nk future where x: "x = (past, nk, future)" by (cases x)
  show ?case by (rule step_ok_last [OF 2(3) [unfolded x prod.case]]) (rule announce_change_ok)
qed (auto intro: split_future_ok assms(2,3))

lemma update_series_ok:
  assumes e: "update_series k i u f s = (r, s')" and get: "tbl_get (db_schedules s) k = Some i"
  shows "step_ok s s'"
proof (rule step_ok_case [OF e [unfolded update_series_def]], goal_cases)
  case (1 q t)
  then show ?case by (rule save_item_ok) (use get in \<open>simp add: grouped_def\<close>)
next
  case (2 x t)
  show ?case
  proof (rule step_ok_case [OF 2(3)], goal_cases)
    case (2 y t2)
    show ?case by (rule step_ok_last [OF 2(3)]) (rule announce_change_ok)
  qed (rule replace_reminders_ok)
qed

lemma update_schedule_ok:
  assumes "update_schedule u k expected scope f key s = (r, s')" shows "step_ok s s'"
proof (rule step_ok_assuming [OF assms [unfolded update_schedule_def]], goal_cases)
  case (1 q t)
  then consider "t = s" | i where "tbl_get (db_schedules s) k = Some i"
      "update_occurrence k i u f key s = (q, t) \<or> update_future k i u f key s = (q, t) \<or> update_series k i u f s = (q, t)"
    by (auto split: option.splits sum.splits change_scope.splits)
  then show ?case
  proof cases
    case (2 i)
    from 2(2) show ?thesis
      by (elim disjE) (auto intro: update_occurrence_ok update_future_ok update_series_ok 2(1) 1(1))
  qed simp
qed

section \<open>Cancelling, completing, deleting\<close>

lemma scope_cancelled_item [simp]: "si_scope (cancelled_item i now) = si_scope i"
  by (simp add: cancelled_item_def)

lemma cancel_target_ok:
  assumes e: "cancel_target k i u scope key s = (r, s')" and get: "tbl_get (db_schedules s) k = Some i" and ok: "schedules_ok s"
  shows "step_ok s s'"
proof (cases scope)
  case Change_OCCURRENCE
  note e2 = e [unfolded cancel_target_def Change_OCCURRENCE change_scope.case]
  show ?thesis
  proof (rule step_ok_case [OF e2], goal_cases)
    case (2 x t)
    show ?case by (rule step_ok_last [OF 2(3)]) (rule save_item_version_ok)
  qed (auto intro: change_occurrence_ok)
next
  case Change_FUTURE
  note e2 = e [unfolded cancel_target_def Change_FUTURE change_scope.case]
  show ?thesis
  proof (rule step_ok_case [OF e2], goal_cases)
    case (1 q t)
    then show ?case by (rule split_future_ok [OF _ get ok])
  next
    case (2 x t)
    obtain past nk future where x: "x = (past, nk, future)" by (cases x)
    note g = split_future_grouped [OF 2(1) [unfolded x] get ok]
    show ?case
      by (rule step_ok_last [OF 2(3) [unfolded x prod.case]]) (rule save_item_ok, assumption, simp add: g)
  qed
next
  case Change_SERIES
  note e2 = e [unfolded cancel_target_def Change_SERIES change_scope.case]
  show ?thesis by (rule step_ok_last [OF e2]) (rule save_item_ok, assumption, use get in \<open>simp add: grouped_def\<close>)
qed (use e in \<open>simp add: cancel_target_def\<close>)

lemma cancel_schedule_ok:
  assumes "cancel_schedule u k expected scope key reason s = (r, s')" shows "step_ok s s'"
proof (rule step_ok_assuming [OF assms [unfolded cancel_schedule_def]], goal_cases)
  case (1 q t)
  then consider "t = s" | i where "tbl_get (db_schedules s) k = Some i" "(case cancel_target k i u scope key s of
        (Inl e, s1) \<Rightarrow> (Inl e, s1)
      | (Inr (tk, target), s1) \<Rightarrow>
     (case record_group_revision tk u Revision_CANCELLED
             (if reason = [] then [''status''] else [''reason'', ''status'']) key s1 of
        (Inl e, s2) \<Rightarrow> (Inl e, s2)
      | (Inr _, s2) \<Rightarrow>
          (case dispatch_group_event tk target (u_id u) Dispatch_CANCELLED None
                  (record_schedule_event u tk target ''cancelled'' ''success''
                     [(''activeRecipientCount'', PInt (int (length (open_grants s2 tk))))] s2) of
             (Inl e, s3) \<Rightarrow> (Inl e, s3) | (Inr _, s3) \<Rightarrow> (Inr tk, s3)))) = (q, t)"
    by (auto split: option.splits sum.splits if_splits)
  then show ?case
  proof cases
    case (2 i)
    show ?thesis
    proof (rule step_ok_case [OF 2(2)], goal_cases)
      case (1 q t)
      then show ?case by (rule cancel_target_ok [OF _ 2(1)]) (rule \<open>schedules_ok s\<close>)
    next
      case c: (2 x s1)
      obtain tk target where x: "x = (tk, target)" by fastforce
      show ?case
      proof (rule step_ok_case [OF c(3) [unfolded x prod.case]], goal_cases)
        case (2 y s2)
        note ev = same_schedules_ok [OF record_schedule_event_schedules]
        show ?case by (rule step_ok_trans [OF ev step_ok_last [OF 2(3)]]) (rule dispatch_group_event_ok)
      qed (rule record_group_revision_ok)
    qed
  qed simp
qed

lemma complete_target_ok:
  assumes e: "complete_target k i u scope key s = (r, s')" and get: "tbl_get (db_schedules s) k = Some i" and ok: "schedules_ok s"
  shows "step_ok s s'"
proof (cases scope)
  case Change_OCCURRENCE
  note e2 = e [unfolded complete_target_def Change_OCCURRENCE change_scope.case]
  show ?thesis by (rule step_ok_last [OF e2]) (rule change_occurrence_ok, assumption, simp)
next
  case Change_FUTURE
  note e2 = e [unfolded complete_target_def Change_FUTURE change_scope.case]
  show ?thesis
  proof (rule step_ok_case [OF e2], goal_cases)
    case (1 q t)
    then show ?case by (rule split_future_ok [OF _ get ok])
  next
    case (2 x t)
    obtain past nk future where x: "x = (past, nk, future)" by (cases x)
    note g = split_future_grouped [OF 2(1) [unfolded x] get ok]
    show ?case
      by (rule step_ok_last [OF 2(3) [unfolded x prod.case]]) (rule save_item_ok, assumption, simp add: g)
  qed
next
  case Change_SERIES
  then have "save_item k (i\<lparr>si_status := Schedule_COMPLETED, si_version := Suc (si_version i)\<rparr>) s = (r, s')"
    using e by (simp add: complete_target_def)
  then show ?thesis by (rule save_item_ok) (use get in \<open>simp add: grouped_def\<close>)
qed (use e in \<open>simp add: complete_target_def\<close>)

lemma complete_schedule_ok:
  assumes "complete_schedule u k expected scope key s = (r, s')" shows "step_ok s s'"
proof (rule step_ok_assuming [OF assms [unfolded complete_schedule_def]], goal_cases)
  case (1 q t)
  then consider "t = s" | i where "tbl_get (db_schedules s) k = Some i" "(case complete_target k i u scope key s of
        (Inl e, s1) \<Rightarrow> (Inl e, s1)
      | (Inr i, s1) \<Rightarrow>
          if scope = Change_SERIES then (Inr k, s1)
          else (case save_item_version k (i\<lparr>si_version := Suc (si_version i)\<rparr>) s1 of
                  (Inl e, s2) \<Rightarrow> (Inl e, s2) | (Inr _, s2) \<Rightarrow> (Inr k, s2))) = (q, t)"
    by (auto split: option.splits sum.splits)
  then show ?case
  proof cases
    case (2 i)
    show ?thesis
    proof (rule step_ok_case [OF 2(2)], goal_cases)
      case (1 q t)
      then show ?case by (rule complete_target_ok [OF _ 2(1)]) (rule \<open>schedules_ok s\<close>)
    next
      case (2 x s1)
      then show ?case by (cases "scope = Change_SERIES") (auto elim!: step_ok_last intro: save_item_version_ok)
    qed
  qed simp
qed

lemma drop_rows_filter: "drop_rows p t = t\<lparr>tbl_rows := filter (\<lambda>(_, r). \<not> p r) (tbl_rows t)\<rparr>"
  by (simp add: drop_rows_def)

lemma delete_item_ok:
  assumes "\<not> grouped s k" shows "step_ok s (delete_item k s)"
proof -
  have g: "grouped (delete_item k s) j" if "grouped s j" "tbl_wf (db_schedules s)" for j
  proof -
    have "j \<noteq> k" using that(1) assms by auto
    then show ?thesis using that by (simp add: grouped_def delete_item_def tbl.get_del)
  qed
  show ?thesis
    unfolding step_ok_def
  proof (intro impI conjI)
    assume ok: "schedules_ok s"
    note wf = schedules_ok_wf [OF ok]
    have i: "items_ok (db_zones s) (tbl_delete k (db_schedules s))"
      using ok by (auto simp: schedules_ok_def items_ok_def wf_tbl_delete tbl_delete_def drop_rows_wf)
    show "schedules_ok (delete_item k s)"
      using ok i g [OF _ wf]
      by (auto simp: schedules_ok_def delete_item_def audiences_ok_def grants_ok_def exceptions_ok_def dispatches_ok_def
          drop_rows_filter drop_rows_wf unique_on_drop)
    show "db_zones (delete_item k s) = db_zones s" by (simp add: delete_item_def)
    show "\<forall>j. grouped s j \<longrightarrow> grouped (delete_item k s) j" using g wf by blast
  qed
qed

lemma delete_private_schedule_ok:
  assumes "delete_private_schedule u k expected scope key s = (r, s')" shows "step_ok s s'"
proof (rule step_ok_assuming [OF assms [unfolded delete_private_schedule_def]], goal_cases)
  case (1 q t)
  then consider "t = s"
    | i where "tbl_get (db_schedules s) k = Some i" "si_scope i = Schedule_PERSONAL" "t = delete_item k s"
    | i v where "tbl_get (db_schedules s) k = Some i"
      "void (save_item k (i\<lparr>si_recurrence_until := v, si_version := Suc (si_version i)\<rparr>)) s = (q, t)"
    | i where "(case change_occurrence k i key u (with_exception_status Exception_CANCELLED) s of
             (Inl e, s1) \<Rightarrow> (Inl e, s1)
           | (Inr _, s1) \<Rightarrow> void (save_item_version k (i\<lparr>si_version := Suc (si_version i)\<rparr>)) s1) = (q, t)"
    by (auto split: option.splits sum.splits if_splits change_scope.splits)
  then show ?case
  proof cases
    case (2 i)
    then show ?thesis by (simp add: delete_item_ok grouped_def)
  next
    case (3 i v)
    then show ?thesis by (auto elim!: step_ok_void intro: save_item_ok simp: grouped_def)
  next
    case (4 i)
    show ?thesis
      by (rule step_ok_case [OF 4]) (auto elim!: step_ok_void intro: save_item_version_ok change_occurrence_ok)
  qed simp
qed

section \<open>The reminder scan\<close>

lemma step_ok_foldl: "(\<And>t x. step_ok t (f t x)) \<Longrightarrow> step_ok s (foldl f s xs)"
  by (induction xs arbitrary: s) (auto intro: step_ok_trans)

lemma ensure_profiles_ok: "step_ok s (ensure_profiles us s)" for s :: "'a schedule_db_scheme"
proof -
  have 1: "step_ok t (snd (get_or_create_profile u t))" for t :: "'a schedule_db_scheme" and u
    by (rule same_schedules_ok) (auto simp: get_or_create_profile_def same_schedules_def split: option.splits prod.splits)
  let ?s = "foldl (\<lambda>s u. snd (get_or_create_profile u s)) s us"
  have "step_ok s ?s" by (rule step_ok_foldl) (rule 1)
  moreover have "step_ok ?s (?s\<lparr>db_category_preferences := c\<rparr>)" for c
    by (rule same_schedules_ok) (simp add: same_schedules_def)
  ultimately show ?thesis unfolding ensure_profiles_def Let_def by (rule step_ok_trans)
qed

lemma create_notifications_ok: "create_notifications ps s = (r, s') \<Longrightarrow> step_ok s s'" for s :: "'a schedule_db_scheme"
proof (induction ps arbitrary: s r s')
  case (Cons p ps)
  show ?case
  proof (rule step_ok_case [OF Cons.prems [unfolded create_notifications.simps]], goal_cases)
    case (1 q t)
    then show ?case by (rule same_schedules_ok [OF only_mail_schedules [OF only_mail_insert_notification]])
  next
    case (2 x t)
    show ?case by (rule step_ok_last [OF 2(3)]) (rule Cons.IH)
  qed
qed simp

lemma reminder_attempts_ok: "step_ok s (reminder_attempts e np s)" for s :: "'a schedule_db_scheme"
  by (rule same_schedules_ok) (simp add: reminder_attempts_def insert_attempt_def same_schedules_def split: prod.splits)

lemma email_dispatch_clean: "clean_dispatch (email_dispatch j now np) = Inr ()"
  by (simp add: email_dispatch_def new_dispatch_def clean_dispatch_def split: prod.splits)

lemma insert_dispatch_ignoring_ok: "clean_dispatch d = Inr () \<Longrightarrow> step_ok s (insert_dispatch_ignoring d s)"
  by (auto simp: insert_dispatch_ignoring_def step_ok_def schedules_ok_def dispatches_ok_def tbl.wf_add unique_on_insert
      grouped_def)

lemma create_reminder_notifications_ok:
  assumes "create_reminder_notifications j claims s = (r, s')" shows "step_ok s s'"
proof (rule step_ok_atomic [OF assms [unfolded create_reminder_notifications_def]], goal_cases)
  case (1 q t)
  let ?s1 = "ensure_profiles (map fst claims) s"
  have 2: "step_ok s ?s1" by (rule ensure_profiles_ok)
  consider "t = s" | "t = ?s1" | plans where "(case create_notifications plans ?s1 of
            (Inl e, s2) \<Rightarrow> (Inl e, s2)
          | (Inr nps, s2) \<Rightarrow> (Inr (length nps),
              foldl (\<lambda>s np. insert_dispatch_ignoring (email_dispatch j (db_now s) np) s)
                (foldl (\<lambda>s (nk, p). mark_dispatched (pl_dispatch p) nk s)
                  (foldl (\<lambda>s np. reminder_attempts (rj_eligible_at j) np s) s2 nps) nps) nps)) = (q, t)"
    using 1 [unfolded Let_def] by (auto split: if_splits option.splits sum.splits)
  then show ?case
  proof cases
    case (3 plans)
    have "step_ok ?s1 t"
    proof (rule step_ok_case [OF 3], goal_cases)
      case (1 q t)
      then show ?case by (rule create_notifications_ok)
    next
      case (2 nps s2)
      have "step_ok s2 (foldl (\<lambda>s np. reminder_attempts (rj_eligible_at j) np s) s2 nps)" (is "step_ok s2 ?s3")
        by (rule step_ok_foldl) (rule reminder_attempts_ok)
      moreover have "step_ok ?s3 (foldl (\<lambda>s (nk, p). mark_dispatched (pl_dispatch p) nk s) ?s3 nps)" (is "step_ok ?s3 ?s4")
        by (rule step_ok_foldl) (simp add: mark_dispatched_ok split: prod.split)
      moreover have "step_ok ?s4 (foldl (\<lambda>s np. insert_dispatch_ignoring (email_dispatch j (db_now s) np) s) ?s4 nps)"
        by (rule step_ok_foldl) (rule insert_dispatch_ignoring_ok [OF email_dispatch_clean])
      ultimately have "step_ok s2 (foldl (\<lambda>s np. insert_dispatch_ignoring (email_dispatch j (db_now s) np) s) ?s4 nps)"
        using step_ok_trans by blast
      then show ?case using 2(3) by auto
    qed
    then show ?thesis by (rule step_ok_trans [OF 2])
  qed (use 2 in simp_all)
qed

lemma claim_reminders_ok: "claim_reminders k key off rs s = (r, s') \<Longrightarrow> step_ok s s'"
proof (induction rs arbitrary: s r s')
  case (Cons x rs)
  show ?case
  proof (rule step_ok_case [OF Cons.prems [unfolded claim_reminders.simps]], goal_cases)
    case (2 y t)
    obtain dk created where y: "y = (dk, created)" by fastforce
    show ?case by (rule step_ok_last [OF 2(3) [unfolded y prod.case]]) (rule Cons.IH)
  qed (rule get_or_create_dispatch_ok)
qed simp

lemma remind_occurrence_ok: "remind_occurrence s0 k i now off oc s = (r, s') \<Longrightarrow> step_ok s s'"
  by (auto simp: remind_occurrence_def Let_def split: if_splits elim!: step_ok_case
      intro: claim_reminders_ok create_reminder_notifications_ok)

lemma sum_each_ok:
  assumes "sum_each f xs s = (r, s')" "\<And>x t q t'. x \<in> set xs \<Longrightarrow> step_ok s t \<Longrightarrow> f x t = (q, t') \<Longrightarrow> step_ok t t'"
  shows "step_ok s s'"
proof -
  have "sum_each f ys t = (r, s') \<Longrightarrow> set ys \<subseteq> set xs \<Longrightarrow> step_ok s t \<Longrightarrow> step_ok t s'" for ys t r
  proof (induction ys arbitrary: t r)
    case (Cons y ys)
    show ?case
    proof (rule step_ok_case [OF Cons.prems(1) [unfolded sum_each.simps]], goal_cases)
      case (1 q u)
      then show ?case using Cons.prems(2,3) assms(2) by auto
    next
      case (2 n u)
      obtain q v where v: "sum_each f ys u = (q, v)" by fastforce
      then have "step_ok u v"
        using 2 Cons.prems step_ok_trans by (cases q) (auto intro!: Cons.IH)
      then show ?case using 2(3) v by (cases q) auto
    qed
  qed simp
  then show ?thesis using assms(1) by blast
qed

lemma remind_offset_ok: "remind_offset lib s0 k i now off s = (r, s') \<Longrightarrow> step_ok s s'"
  by (auto simp: remind_offset_def split: prod.splits sum.splits elim!: sum_each_ok intro: remind_occurrence_ok)

lemma remind_item_ok:
  assumes "remind_item lib s0 now (k, i) s = (r, s')" "si_scope i = Schedule_GROUP \<Longrightarrow> grouped s k"
  shows "step_ok s s'"
proof (rule step_ok_case [OF assms(1) [unfolded remind_item_def prod.case]], goal_cases)
  case (1 q t)
  then show ?case by (auto split: if_splits elim!: step_ok_void intro: reresolve_audience_ok assms(2))
next
  case (2 x t)
  then show ?case by (auto elim!: sum_each_ok intro: remind_offset_ok)
qed

lemma create_due_schedule_reminders_ok:
  assumes "create_due_schedule_reminders lib now n s = (r, s')" shows "step_ok s s'"
proof (rule step_ok_when)
  assume ok: "schedules_ok s"
  show "step_ok s s'"
  proof (rule sum_each_ok [OF assms [unfolded create_due_schedule_reminders_def]])
    fix x t q t' assume x: "x \<in> set (scanned_items s n)" and st: "step_ok s t"
      and e: "remind_item lib s (given now (db_now s)) x t = (q, t')"
    obtain k i where ki: "x = (k, i)" by fastforce
    have "(k, i) \<in> set (tbl_rows (db_schedules s))"
      using x ki by (auto simp: scanned_items_def set_tbl_filter dest: in_set_takeD)
    then have "tbl_get (db_schedules s) k = Some i" using schedules_ok_wf [OF ok] by (simp add: tbl_get_iff)
    then have "si_scope i = Schedule_GROUP \<Longrightarrow> grouped t k" using st ok by (simp add: step_ok_def grouped_def)
    then show "step_ok t t'" by (rule remind_item_ok [OF e [unfolded ki]])
  qed
qed

section \<open>The commands\<close>

datatype schedule_command =
    CreateSchedule actor schedule_scope "(pk list \<times> pk list) option" schedule_fields
  | PublishSchedule actor pk int "pk list \<times> pk list" "reminder_input list option"
  | UpdateSchedule actor pk int change_scope schedule_fields "string option"
  | CancelSchedule actor pk int change_scope "string option" string
  | CompleteSchedule actor pk int change_scope "string option"
  | DeleteSchedule actor pk int change_scope "string option"
  | MembershipSaved pk
  | DueReminders dateutil "instant option" nat
  | ScheduleClock instant

fun schedule_step :: "schedule_command \<Rightarrow> ('a schedule_db_scheme, unit) op" where
  "schedule_step (CreateSchedule u scope audience f) = void (create_schedule u scope audience f)"
| "schedule_step (PublishSchedule u k v audience rs) = void (publish_schedule u k v audience rs)"
| "schedule_step (UpdateSchedule u k v scope f key) = void (update_schedule u k v scope f key)"
| "schedule_step (CancelSchedule u k v scope key reason) = void (cancel_schedule u k v scope key reason)"
| "schedule_step (CompleteSchedule u k v scope key) = void (complete_schedule u k v scope key)"
| "schedule_step (DeleteSchedule u k v scope key) = delete_private_schedule u k v scope key"
| "schedule_step (MembershipSaved pid) = refresh_project_schedule_grants pid"
| "schedule_step (DueReminders lib now n) = void (create_due_schedule_reminders lib now n)"
| "schedule_step (ScheduleClock t) = (\<lambda>s. (Inr (), s\<lparr>db_now := t\<rparr>))"

lemma schedule_clock_ok: "step_ok s (s\<lparr>db_now := t\<rparr>)"
  by (rule same_schedules_ok) (simp add: same_schedules_def)

lemma schedule_step_ok: "schedule_step c s = (r, s') \<Longrightarrow> step_ok s s'"
  by (cases c) (auto elim!: step_ok_void intro: create_schedule_ok publish_schedule_ok update_schedule_ok cancel_schedule_ok
      complete_schedule_ok delete_private_schedule_ok refresh_project_schedule_grants_ok
      create_due_schedule_reminders_ok schedule_clock_ok)

interpretation schedules: command_system schedule_step schedules_ok
proof unfold_locales
  show "schedules_ok (snd (schedule_step c s))" if "schedules_ok s" for c and s :: "'a schedule_db_scheme"
    using schedule_step_ok [of c s] that by (metis prod.collapse step_ok_def)
qed

text \<open>A group item stays a group item: publication is not undone, and a published item is never deleted.\<close>

lemma run_keeps_grouped:
  assumes "schedules_ok s" "grouped s k" shows "grouped (run_all schedule_step cs s) k"
  using assms
proof (induction cs arbitrary: s)
  case (Cons c cs)
  have "step_ok s (snd (schedule_step c s))" by (metis prod.collapse schedule_step_ok)
  then show ?case using Cons by (auto simp: step_ok_def)
qed simp

end
