(* ===== verification/ScheduleFacts.thy ===== *)
theory ScheduleFacts
  imports ScheduleSystem
begin

text \<open>
  What the operations on schedules achieve: resolving an audience again leaves exactly the recipients the selection
  names (\<open>should_receive\<close>), an announcement is made once, a split hands the future to a new item, the calendar shows an
  outsider only what a grant covers, and edits are optimistic.
\<close>

section \<open>Frames\<close>

definition only_dispatch :: "'a schedule_db_scheme \<Rightarrow> 'a schedule_db_scheme \<Rightarrow> bool" where
  "only_dispatch s s' \<longleftrightarrow>
     db_now s' = db_now s \<and> db_users s' = db_users s \<and> db_projects s' = db_projects s \<and> db_memberships s' = db_memberships s
     \<and> db_zones s' = db_zones s \<and> db_schedules s' = db_schedules s \<and> db_schedule_audiences s' = db_schedule_audiences s
     \<and> db_recipient_grants s' = db_recipient_grants s \<and> db_schedule_exceptions s' = db_schedule_exceptions s
     \<and> db_schedule_reminders s' = db_schedule_reminders s \<and> db_schedule_revisions s' = db_schedule_revisions s"

lemma only_dispatch_refl [simp]: "only_dispatch s s"
  by (simp add: only_dispatch_def)

lemma only_dispatch_trans: "only_dispatch s t \<Longrightarrow> only_dispatch t u \<Longrightarrow> only_dispatch s u"
  by (simp add: only_dispatch_def)

lemma only_dispatch_mail: "only_mail s s' \<Longrightarrow> only_dispatch s s'" for s s' :: "'a schedule_db_scheme"
  using only_mail_schedules [of s s'] by (simp add: only_dispatch_def same_schedules_def only_mail_def)

lemma only_dispatch_get_or_create: "get_or_create_dispatch same d s = (r, s') \<Longrightarrow> only_dispatch s s'"
  by (auto simp: get_or_create_dispatch_def insert_dispatch_def Let_def only_dispatch_def
      split: option.splits prod.splits sum.splits if_splits)

lemma only_dispatch_mark [simp]: "only_dispatch s (mark_dispatched dk nk s)"
  by (simp add: only_dispatch_def mark_dispatched_def)

text \<open>The four ways a recipient is handled: an error, already announced, announced, announced by email as well.\<close>

lemma dispatch_to_cases:
  assumes "dispatch_to j k s = (r, s')"
  obtains (failed) e where "r = Inl e" "only_dispatch s s'"
  | (known) dk where "r = Inr False" "s' = s"
      "get_or_create_dispatch same_event (new_dispatch (dj_item j) k (dj_key j) (dj_event j) None Dispatch_IN_APP None) s = (Inr (dk, False), s)"
  | (announced) dk s1 a nk s2 where "r = Inr True"
      "get_or_create_dispatch same_event (new_dispatch (dj_item j) k (dj_key j) (dj_event j) None Dispatch_IN_APP None) s = (Inr (dk, True), s1)"
      "enqueue_notification a s1 = (Inr nk, s2)" "dj_event j \<noteq> Dispatch_CANCELLED" "s' = mark_dispatched dk nk s2"
  | (emailed) dk s1 a nk s2 q where "r = Inr True"
      "get_or_create_dispatch same_event (new_dispatch (dj_item j) k (dj_key j) (dj_event j) None Dispatch_IN_APP None) s = (Inr (dk, True), s1)"
      "enqueue_notification a s1 = (Inr nk, s2)" "dj_event j = Dispatch_CANCELLED"
      "get_or_create_dispatch same_event (new_dispatch (dj_item j) k (dj_key j) (dj_event j) None Dispatch_EMAIL (Some nk))
         (mark_dispatched dk nk s2) = (Inr q, s')"
proof -
  let ?row = "\<lambda>channel nk. new_dispatch (dj_item j) k (dj_key j) (dj_event j) None channel nk"
  obtain q1 s1 where 1: "get_or_create_dispatch same_event (?row Dispatch_IN_APP None) s = (q1, s1)" by fastforce
  note f1 = only_dispatch_get_or_create [OF 1]
  show ?thesis
  proof (cases q1)
    case (Inl e)
    then have "r = Inl e" "s' = s1" using assms 1 by (simp_all add: dispatch_to_def Let_def)
    then show ?thesis using failed f1 by blast
  next
    case (Inr p)
    obtain dk created where p: "p = (dk, created)" by fastforce
    show ?thesis
    proof (cases created)
      case False
      then have "s1 = s" using 1 Inr p by (auto simp: get_or_create_dispatch_def split: option.splits prod.splits sum.splits)
      moreover have "r = Inr False" "s' = s1" using assms 1 Inr p False by (simp_all add: dispatch_to_def Let_def)
      ultimately show ?thesis using known [of dk] 1 Inr p False by simp
    next
      case True
      have g: "get_or_create_dispatch same_event (?row Dispatch_IN_APP None) s = (Inr (dk, True), s1)"
        using 1 Inr p True by simp
      show ?thesis
      proof (cases "\<exists>ev sub path. group_event (dj_event j) = Some (ev, sub) \<and> dj_path j = Some path")
        case False
        then have "\<exists>e. r = Inl e" "s' = s1"
          using assms 1 Inr p True by (auto simp: dispatch_to_def Let_def split: option.splits)
        then show ?thesis using failed f1 by blast
      next
        case t: True
        then obtain ev sub path where t: "group_event (dj_event j) = Some (ev, sub)" "dj_path j = Some path" by blast
        obtain q2 s2 where 2: "enqueue_notification (group_notification j k (db_now s1) ev sub path) s1 = (q2, s2)" by fastforce
        note f2 = only_dispatch_trans [OF f1 only_dispatch_mail [OF only_mail_enqueue [OF 2]]]
        show ?thesis
        proof (cases q2)
          case (Inl e)
          then have "r = Inl e" "s' = s2" using assms 1 2 t \<open>q1 = Inr p\<close> p True by (simp_all add: dispatch_to_def Let_def)
          then show ?thesis using failed f2 by blast
        next
          case nk: (Inr nk)
          note f3 = only_dispatch_trans [OF f2 only_dispatch_mark [of s2 dk nk]]
          show ?thesis
          proof (cases "dj_event j = Dispatch_CANCELLED")
            case False
            then have "r = Inr True" "s' = mark_dispatched dk nk s2"
              using assms 1 2 t \<open>q1 = Inr p\<close> p True nk by (simp_all add: dispatch_to_def Let_def)
            then show ?thesis using announced [OF _ g 2 [unfolded nk] False] by blast
          next
            case c: True
            obtain q4 s4 where 4: "get_or_create_dispatch same_event (?row Dispatch_EMAIL (Some nk)) (mark_dispatched dk nk s2) = (q4, s4)"
              by fastforce
            show ?thesis
            proof (cases q4)
              case (Inl e)
              then have "r = Inl e" "s' = s4"
                using assms 1 2 t \<open>q1 = Inr p\<close> p True nk c 4 by (simp_all add: dispatch_to_def Let_def)
              then show ?thesis using failed only_dispatch_trans [OF f3 only_dispatch_get_or_create [OF 4]] by blast
            next
              case q: (Inr q)
              then have r4: "r = Inr True" "s' = s4"
                using assms 1 2 t \<open>q1 = Inr p\<close> p True nk c 4 by (simp_all add: dispatch_to_def Let_def)
              then show ?thesis using emailed [OF r4(1) g 2 [unfolded nk] c] 4 q r4(2) by simp
            qed
          qed
        qed
      qed
    qed
  qed
qed

lemma only_dispatch_to:
  assumes "dispatch_to j k s = (r, s')" shows "only_dispatch s s'"
  using assms
proof (cases rule: dispatch_to_cases)
  case (announced dk s1 a nk s2)
  then show ?thesis
    using only_dispatch_trans [OF only_dispatch_get_or_create only_dispatch_trans [OF only_dispatch_mail [OF only_mail_enqueue] only_dispatch_mark]]
    by blast
next
  case (emailed dk s1 a nk s2 q)
  have "only_dispatch s (mark_dispatched dk nk s2)"
    using only_dispatch_trans [OF only_dispatch_get_or_create [OF emailed(2)]
        only_dispatch_trans [OF only_dispatch_mail [OF only_mail_enqueue [OF emailed(3)]] only_dispatch_mark]] .
  then show ?thesis by (rule only_dispatch_trans [OF _ only_dispatch_get_or_create [OF emailed(5)]])
qed simp_all

lemma only_dispatch_all: "dispatch_all j ks s = (r, s') \<Longrightarrow> only_dispatch s s'"
proof (induction ks arbitrary: s r s')
  case (Cons k ks)
  obtain q1 s1 where 1: "dispatch_to j k s = (q1, s1)" by fastforce
  obtain q2 s2 where 2: "dispatch_all j ks s1 = (q2, s2)" by fastforce
  show ?case
    using Cons.prems 1 2 only_dispatch_to [OF 1] only_dispatch_trans [OF only_dispatch_to [OF 1] Cons.IH [OF 2]]
    by (auto split: sum.splits)
qed simp

lemma only_dispatch_group_event: "dispatch_group_event k i u ev rs s = (r, s') \<Longrightarrow> only_dispatch s s'"
  unfolding dispatch_group_event_def by (rule only_dispatch_all)

section \<open>Announced once\<close>

definition claimed :: "schedule_dispatch \<Rightarrow> 'a schedule_db_scheme \<Rightarrow> bool" where
  "claimed d s \<longleftrightarrow> tbl_exists (\<lambda>_ r. same_event d r) (db_schedule_dispatches s)"

lemma claimed_cong: "db_schedule_dispatches s' = db_schedule_dispatches s \<Longrightarrow> claimed d s' = claimed d s"
  by (simp add: claimed_def)

lemma claimed_insert: "claimed d s \<Longrightarrow> claimed d (s\<lparr>db_schedule_dispatches := tbl_insert x (db_schedule_dispatches s)\<rparr>)"
  by (simp add: claimed_def tbl_exists_def)

lemma claimed_get_or_create:
  assumes "get_or_create_dispatch same e s = (r, s')" "claimed d s" shows "claimed d s'"
  using assms
  by (auto simp: get_or_create_dispatch_def insert_dispatch_def Let_def intro: claimed_insert
      split: option.splits prod.splits sum.splits if_splits)

lemma claimed_mark: "claimed d s \<Longrightarrow> claimed d (mark_dispatched dk nk s)"
  by (force simp: claimed_def mark_dispatched_def tbl_exists_iff same_event_def)

lemma claimed_mail: "only_mail s s' \<Longrightarrow> claimed d s \<Longrightarrow> claimed d s'" for s s' :: "'a schedule_db_scheme"
  using claimed_cong only_mail_schedules unfolding same_schedules_def by blast

lemma get_or_create_claims:
  assumes "get_or_create_dispatch same_event d s = (Inr q, s')" shows "claimed d s'"
proof (cases "tbl_first (\<lambda>_ r. same_event d r) (db_schedule_dispatches s)")
  case None
  then have "\<exists>k. insert_dispatch d s = (Inr k, s')"
    using assms by (auto simp: get_or_create_dispatch_def split: prod.splits sum.splits)
  then obtain k x where "s' = s\<lparr>db_schedule_dispatches := tbl_insert x (db_schedule_dispatches s)\<rparr>"
      "x = d\<lparr>sd_offset_key := (case sd_offset_minutes d of None \<Rightarrow> -1 | Some m \<Rightarrow> m),
           sd_created_at := db_now s, sd_updated_at := db_now s\<rparr>"
    using insert_dispatchD by metis
  then show ?thesis by (simp add: claimed_def tbl_exists_def same_event_def)
next
  case (Some kr)
  obtain k x where kr: "kr = (k, x)" by fastforce
  have "s' = s" using assms Some kr by (simp add: get_or_create_dispatch_def)
  then show ?thesis using tbl_firstD [OF Some [unfolded kr]] by (auto simp: claimed_def tbl_exists_iff)
qed

lemma get_or_create_known:
  assumes "claimed d s" shows "\<exists>dk. get_or_create_dispatch same_event d s = (Inr (dk, False), s)"
proof -
  obtain kr where "tbl_first (\<lambda>_ r. same_event d r) (db_schedule_dispatches s) = Some kr"
    using assms tbl_first_None [of "\<lambda>_ r. same_event d r"] by (cases "tbl_first (\<lambda>_ r. same_event d r) (db_schedule_dispatches s)")
      (auto simp: claimed_def)
  then show ?thesis by (cases kr) (auto simp: get_or_create_dispatch_def)
qed

definition job_claim :: "dispatch_job \<Rightarrow> pk \<Rightarrow> schedule_dispatch" where
  "job_claim j k = new_dispatch (dj_item j) k (dj_key j) (dj_event j) None Dispatch_IN_APP None"

lemma claimed_dispatch_to:
  assumes "dispatch_to j k s = (Inr b, s')"
  shows "claimed (job_claim j k) s'" and "claimed d s \<Longrightarrow> claimed d s'"
proof -
  have "claimed (job_claim j k) s' \<and> (claimed d s \<longrightarrow> claimed d s')"
    using assms
  proof (cases rule: dispatch_to_cases)
    case (known dk)
    then show ?thesis using get_or_create_claims [OF known(3)] by (simp add: job_claim_def)
  next
    case (announced dk s1 a nk s2)
    have "claimed d s' " if "claimed d s1" for d
      using claimed_mark [OF claimed_mail [OF only_mail_enqueue [OF announced(3)] that]] announced(5) by simp
    then show ?thesis
      using get_or_create_claims [OF announced(2)] claimed_get_or_create [OF announced(2)] by (simp add: job_claim_def)
  next
    case (emailed dk s1 a nk s2 q)
    have "claimed d s' " if "claimed d s1" for d
      using claimed_get_or_create [OF emailed(5) claimed_mark [OF claimed_mail [OF only_mail_enqueue [OF emailed(3)] that]]] .
    then show ?thesis
      using get_or_create_claims [OF emailed(2)] claimed_get_or_create [OF emailed(2)] by (simp add: job_claim_def)
  qed simp
  then show "claimed (job_claim j k) s'" "claimed d s \<Longrightarrow> claimed d s'" by blast+
qed

lemma claimed_dispatch_all:
  "dispatch_all j ks s = (Inr n, s') \<Longrightarrow> (\<forall>k \<in> set ks. claimed (job_claim j k) s') \<and> (claimed d s \<longrightarrow> claimed d s')"
proof (induction ks arbitrary: s n d)
  case (Cons k ks)
  obtain q1 s1 where 1: "dispatch_to j k s = (q1, s1)" by fastforce
  obtain q2 s2 where 2: "dispatch_all j ks s1 = (q2, s2)" by fastforce
  obtain b m where b: "q1 = Inr b" "q2 = Inr m" "s2 = s'"
    using Cons.prems 1 2 by (auto split: sum.splits)
  note c = claimed_dispatch_to [OF 1 [unfolded b]]
  show ?case using Cons.IH [OF 2 [unfolded b]] c by auto
qed simp

lemma dispatch_all_known:
  "\<forall>k \<in> set ks. claimed (job_claim j k) s \<Longrightarrow> dispatch_all j ks s = (Inr 0, s)"
proof (induction ks)
  case (Cons k ks)
  then obtain dk where dk: "get_or_create_dispatch same_event (job_claim j k) s = (Inr (dk, False), s)"
    using get_or_create_known [of "job_claim j k" s] by auto
  have "dispatch_to j k s = (Inr False, s)" using dk by (simp add: dispatch_to_def Let_def job_claim_def)
  then show ?case using Cons by simp
qed simp

text \<open>The same event of the same version, whoever sends it: nobody is told twice.\<close>

lemma dispatch_group_event_again:
  assumes e: "dispatch_group_event k i u ev rs s = (Inr n, s')"
  shows "dispatch_group_event k i u' ev rs s' = (Inr 0, s')"
proof -
  let ?j = "\<lambda>u s. \<lparr>dj_item = k, dj_key = series_key (si_version i), dj_event = ev, dj_project = audience_project s k,
      dj_sender = u, dj_path = schedule_action_path k i\<rparr>"
  let ?rs = "case rs of None \<Rightarrow> open_recipients s k | Some rs \<Rightarrow> rs"
  have "open_recipients s' k = open_recipients s k"
    using only_dispatch_group_event [OF e] by (simp add: open_recipients_def open_grants_def only_dispatch_def)
  then have rs: "(case rs of None \<Rightarrow> open_recipients s' k | Some rs \<Rightarrow> rs) = ?rs" by (simp split: option.split)
  have c: "\<forall>r \<in> set ?rs. claimed (job_claim (?j u s) r) s'"
    using claimed_dispatch_all [OF e [unfolded dispatch_group_event_def]] by blast
  have "job_claim (?j u' s') r = job_claim (?j u s) r" for r by (simp add: job_claim_def)
  then have "dispatch_all (?j u' s') ?rs s' = (Inr 0, s')" using c by (intro dispatch_all_known) simp
  then show ?thesis unfolding dispatch_group_event_def rs .
qed

section \<open>Who an audience reaches\<close>

text \<open>The selection as a predicate: an active account other than the owner, selected itself or an active member of a selected project.\<close>

definition should_receive :: "'a schedule_db_scheme \<Rightarrow> pk \<Rightarrow> pk \<Rightarrow> pk \<Rightarrow> bool" where
  "should_receive s k owner r \<longleftrightarrow>
     r \<noteq> owner \<and> account_active s r \<and>
     (tbl_exists (\<lambda>_ a. sa_item a = k \<and> sa_scope_type a = Audience_ACCOUNT \<and> sa_account a = Some r) (db_schedule_audiences s)
      \<or> tbl_exists (\<lambda>_ a. sa_item a = k \<and> sa_scope_type a = Audience_PROJECT
            \<and> (case sa_project a of None \<Rightarrow> False | Some p \<Rightarrow>
                 tbl_exists (\<lambda>_ m. pm_project m = p \<and> pm_user m = r \<and> pm_status m = ProjectMembership_ACTIVE)
                   (db_memberships s))) (db_schedule_audiences s))"

lemma keys_evidence_add: "fst ` set (evidence_add u kind p ev) = insert u (fst ` set ev)"
  by (simp add: evidence_add_def fst_set_dict_set)

lemma distinct_evidence_add: "distinct (map fst ev) \<Longrightarrow> distinct (map fst (evidence_add u kind p ev))"
  by (simp add: evidence_add_def distinct_dict_set)

lemma keys_member_evidence: "fst ` set (member_evidence self ms ev) = fst ` set ev \<union> ((\<lambda>(_, m). pm_user m) ` set ms - {self})"
proof (induction ms arbitrary: ev)
  case (Cons km ms)
  obtain k m where "km = (k, m)" by fastforce
  then show ?case using Cons by (auto simp: member_evidence_def keys_evidence_add)
qed (simp add: member_evidence_def)

lemma keys_account_evidence: "fst ` set (account_evidence self ks ev) = fst ` set ev \<union> (set ks - {self})"
proof (induction ks arbitrary: ev)
  case (Cons k ks)
  then show ?case by (auto simp: account_evidence_def keys_evidence_add)
qed (simp add: account_evidence_def)

lemma distinct_evidence:
  "distinct (map fst ev) \<Longrightarrow> distinct (map fst (member_evidence self ms ev))"
  "distinct (map fst ev) \<Longrightarrow> distinct (map fst (account_evidence self ks ev))"
proof -
  show "distinct (map fst ev) \<Longrightarrow> distinct (map fst (member_evidence self ms ev))"
    by (induction ms arbitrary: ev) (auto simp: member_evidence_def distinct_evidence_add)
  show "distinct (map fst ev) \<Longrightarrow> distinct (map fst (account_evidence self ks ev))"
    by (induction ks arbitrary: ev) (auto simp: account_evidence_def distinct_evidence_add)
qed

lemma distinct_audience_evidence: "distinct (map fst (audience_evidence s k owner))"
  by (simp add: audience_evidence_def distinct_evidence)

lemma set_map_filter_option: "set (List.map_filter f xs) = {y. \<exists>x \<in> set xs. f x = Some y}"
  by (induction xs) (auto simp: map_filter_simps split: option.splits)

lemma in_audience_accounts:
  "r \<in> set (audience_account_ids s k) \<longleftrightarrow> account_active s r
     \<and> tbl_exists (\<lambda>_ a. sa_item a = k \<and> sa_scope_type a = Audience_ACCOUNT \<and> sa_account a = Some r) (db_schedule_audiences s)"
  by (auto simp: audience_account_ids_def set_map_filter_option audiences_of_def tbl_filter_def tbl_exists_iff
      split: if_splits)

lemma in_audience_projects:
  "p \<in> set (audience_project_ids s k) \<longleftrightarrow>
     tbl_exists (\<lambda>_ a. sa_item a = k \<and> sa_scope_type a = Audience_PROJECT \<and> sa_project a = Some p) (db_schedule_audiences s)"
  by (auto simp: audience_project_ids_def set_map_filter_option audiences_of_def tbl_filter_def tbl_exists_iff
      split: if_splits)

lemma in_member_users:
  "r \<in> (\<lambda>(_, m). pm_user m) ` set (filter (\<lambda>(_, m). account_active s (pm_user m)) (audience_members s pids)) \<longleftrightarrow>
   account_active s r \<and> (\<exists>p \<in> pids. tbl_exists (\<lambda>_ m. pm_project m = p \<and> pm_user m = r \<and> pm_status m = ProjectMembership_ACTIVE)
     (db_memberships s))"
  by (fastforce simp: audience_members_def tbl_filter_def tbl_exists_iff)

lemma should_receive_alt:
  "should_receive s k owner r \<longleftrightarrow> r \<noteq> owner \<and> account_active s r \<and>
     (r \<in> set (audience_account_ids s k)
      \<or> (\<exists>p \<in> set (audience_project_ids s k). tbl_exists (\<lambda>_ m. pm_project m = p \<and> pm_user m = r
            \<and> pm_status m = ProjectMembership_ACTIVE) (db_memberships s)))"
proof -
  have c: "(case x of None \<Rightarrow> False | Some p \<Rightarrow> q p) \<longleftrightarrow> (\<exists>p. x = Some p \<and> q p)" for x :: "pk option" and q
    by (cases x) auto
  have "tbl_exists (\<lambda>_ a. sa_item a = k \<and> sa_scope_type a = Audience_PROJECT
            \<and> (case sa_project a of None \<Rightarrow> False | Some p \<Rightarrow> q p)) (db_schedule_audiences s)
      \<longleftrightarrow> (\<exists>p \<in> set (audience_project_ids s k). q p)" for q
    unfolding Bex_def in_audience_projects tbl_exists_iff c by blast
  then show ?thesis by (auto simp: should_receive_def in_audience_accounts)
qed

lemma audience_evidence_keys: "fst ` set (audience_evidence s k owner) = {r. should_receive s k owner r}"
proof -
  have "r \<in> fst ` set (audience_evidence s k owner) \<longleftrightarrow> should_receive s k owner r" for r
    unfolding audience_evidence_def keys_account_evidence keys_member_evidence Un_iff Diff_iff in_member_users should_receive_alt
    by (auto simp: in_audience_accounts)
  then show ?thesis by blast
qed

lemma open_recipients_alt:
  "open_recipients s k = map (\<lambda>(_, g). sg_recipient g)
     (filter (\<lambda>(_, g). sg_item g = k \<and> sg_valid_until g = None) (tbl_rows (db_recipient_grants s)))"
  by (simp add: open_recipients_def open_grants_def tbl_filter_def)

lemma open_recipients_regranted:
  "open_recipients (regranted k now ev s) k = filter (\<lambda>r. r \<in> fst ` set ev) (open_recipients s k)"
proof -
  have "map (\<lambda>(_, g). sg_recipient g) (filter (\<lambda>(_, g). sg_item g = k \<and> sg_valid_until g = None)
        (map (\<lambda>(j, r). (j, if sg_item r = k \<and> sg_valid_until r = None then regrant now ev r else r)) rows))
      = filter (\<lambda>r. r \<in> fst ` set ev) (map (\<lambda>(_, g). sg_recipient g)
          (filter (\<lambda>(_, g). sg_item g = k \<and> sg_valid_until g = None) rows))" for rows :: "(pk \<times> recipient_grant) list"
  proof (induction rows)
    case (Cons x rows)
    obtain j g where x: "x = (j, g)" by fastforce
    have "map_of ev (sg_recipient g) = None \<longleftrightarrow> sg_recipient g \<notin> fst ` set ev" by (simp add: map_of_eq_None_iff)
    then have "sg_valid_until (regrant now ev g) = None \<longleftrightarrow> sg_recipient g \<in> fst ` set ev" if "sg_valid_until g = None"
      using that by (auto simp: regrant_def split: option.splits)
    then show ?case using Cons x by auto
  qed simp
  then show ?thesis by (simp add: open_recipients_alt regranted_def)
qed

lemma for_each_insert_grants:
  assumes "for_each insert_grant gs s = (Inr (), s')" "\<forall>g \<in> set gs. sg_item g = k \<and> sg_valid_until g = None"
  shows "open_recipients s' k = open_recipients s k @ map sg_recipient gs"
  using assms
proof (induction gs arbitrary: s)
  case (Cons g gs)
  obtain s1 where 1: "insert_grant g s = (Inr (), s1)" and 2: "for_each insert_grant gs s1 = (Inr (), s')"
    using Cons.prems(1) by (auto split: prod.splits sum.splits)
  have "open_recipients s1 k = open_recipients s k @ [sg_recipient g]"
    using 1 Cons.prems(2) by (auto simp: insert_grant_def open_recipients_alt split: if_splits)
  then show ?case using Cons.IH [OF 2] Cons.prems(2) by simp
qed simp

lemma distinct_open_recipients:
  assumes "schedules_ok s" shows "distinct (open_recipients s k)"
proof -
  have u: "unique_on open_grant_key (db_recipient_grants s)" "distinct (map fst (tbl_rows (db_recipient_grants s)))"
    using assms by (simp_all add: schedules_ok_def grants_ok_def tbl_wf_def)
  let ?f = "filter (\<lambda>(_, g). sg_item g = k \<and> sg_valid_until g = None) (tbl_rows (db_recipient_grants s))"
  have "distinct (tbl_rows (db_recipient_grants s))" using u(2) by (simp add: distinct_map)
  then have d: "distinct ?f" by (rule distinct_filter)
  have same: "(a, g) = (b, h)"
    if "(a, g) \<in> set ?f" "(b, h) \<in> set ?f" "sg_recipient g = sg_recipient h" for a g b h
  proof -
    have r: "(a, g) \<in> set (tbl_rows (db_recipient_grants s))" "(b, h) \<in> set (tbl_rows (db_recipient_grants s))"
      using that(1,2) by simp_all
    have "a = b" by (rule unique_onD [OF u(1) r]) (use that in \<open>simp_all add: open_grant_key_def\<close>)
    then show ?thesis using eq_key_imp_eq_value [OF u(2), of a g h] r by simp
  qed
  have "inj_on (\<lambda>(_, g). sg_recipient g) (set ?f)"
  proof (rule inj_onI)
    fix x y assume "x \<in> set ?f" "y \<in> set ?f" "(case x of (_, g) \<Rightarrow> sg_recipient g) = (case y of (_, g) \<Rightarrow> sg_recipient g)"
    then show "x = y" using same [of "fst x" "snd x" "fst y" "snd y"] by (simp add: case_prod_unfold)
  qed
  then show ?thesis using d by (simp add: open_recipients_alt distinct_map)
qed

text \<open>After a resolution the open grants are those of the selection, one each, and the count returned is theirs.\<close>

lemma reresolve_reaches_selection:
  assumes e: "reresolve_audience k i at s = (Inr (added, removed, active), s')"
    and i: "si_scope i = Schedule_GROUP" and ok: "schedules_ok s"
  shows "set (open_recipients s' k) = {r. should_receive s k (si_owner i) r}"
    "active = length (open_recipients s' k)" "distinct (open_recipients s' k)"
proof -
  obtain now ev s2 y where ev: "ev = audience_evidence s k (si_owner i)"
    and 2: "for_each insert_grant (map (grant_of k now) (granted_additions s k ev)) (regranted k now ev s) = (Inr (), s2)"
    and 3: "(if removed_recipients s k ev = [] then (Inr 0, s2)
      else dispatch_group_event k i (si_owner i) Dispatch_REMOVED (Some (removed_recipients s k ev)) s2) = (Inr y, s')"
    and n: "(added, removed, active) = (length (granted_additions s k ev), length (removed_recipients s k ev), length ev)"
    by (rule reresolve_audienceE [OF e i]) blast
  have "open_recipients s' k = open_recipients s2 k"
    using 3 only_dispatch_group_event [of k i "si_owner i" Dispatch_REMOVED "Some (removed_recipients s k ev)" s2]
    by (auto simp: open_recipients_alt only_dispatch_def split: if_splits)
  also have "\<dots> = filter (\<lambda>r. r \<in> fst ` set ev) (open_recipients s k) @ map fst (granted_additions s k ev)"
    using for_each_insert_grants [OF 2, of k] by (simp add: open_recipients_regranted comp_def)
  finally have o: "open_recipients s' k =
      filter (\<lambda>r. r \<in> fst ` set ev) (open_recipients s k) @ map fst (granted_additions s k ev)" .
  have dev: "distinct (map fst ev)" unfolding ev by (rule distinct_audience_evidence)
  have set: "set (open_recipients s' k) = fst ` set ev"
    unfolding o by (auto simp: granted_additions_def)
  then show "set (open_recipients s' k) = {r. should_receive s k (si_owner i) r}"
    unfolding ev audience_evidence_keys by simp
  show d: "distinct (open_recipients s' k)"
    unfolding o using distinct_open_recipients [OF ok, of k] dev
    by (auto simp: granted_additions_def distinct_map_filter)
  have "length (open_recipients s' k) = card (fst ` set ev)" using distinct_card [OF d] set by simp
  also have "\<dots> = length ev" using distinct_card [OF dev] by simp
  finally show "active = length (open_recipients s' k)" using n by simp
qed

end
