(* ===== verification/ScheduleEffects.thy ===== *)
theory ScheduleEffects
  imports ScheduleFacts
begin

text \<open>
  The effects of the edits on schedules and of the reads of the calendar: a split hands the future, its reminders' owner
  and its recipients to a new item; edits of a series are optimistic (an instance of \<open>optimistic_update\<close>); what the
  calendar shows; and the behaviours of the code that its callers have to know about (the window of the calendar that
  moves, the reminder whose claim outlives its failure, the project an administrator is offered and refused).
\<close>

section \<open>Splitting a series\<close>

lemma replace_reminders_grants: "replace_reminders k rs s = (r, s') \<Longrightarrow> db_recipient_grants s' = db_recipient_grants s"
proof (cases rs)
  case (Some xs)
  let ?s = "s\<lparr>db_schedule_reminders := (db_schedule_reminders s)\<lparr>tbl_rows :=
      filter (\<lambda>(_, r). sr_item r \<noteq> k) (tbl_rows (db_schedule_reminders s))\<rparr>\<rparr>"
  assume "replace_reminders k rs s = (r, s')"
  then have e: "for_each (insert_reminder k) xs ?s = (r, s')" by (simp add: replace_reminders_def Some)
  have "db_recipient_grants s' = db_recipient_grants ?s"
    by (rule for_each_keeps [OF e, where g = db_recipient_grants]) (auto simp: insert_reminder_def Let_def split: if_splits)
  then show ?thesis by simp
qed (simp add: replace_reminders_def)

lemma for_each_audiences_grants:
  "for_each insert_audience as s = (r, s') \<Longrightarrow> db_recipient_grants s' = db_recipient_grants s"
  by (erule for_each_keeps [where g = db_recipient_grants]) (auto simp: insert_audience_def split: if_splits)

lemma for_each_insert_grants_other:
  assumes "for_each insert_grant gs s = (Inr (), s')" "\<forall>g \<in> set gs. sg_item g \<noteq> k"
  shows "open_recipients s' k = open_recipients s k"
  using assms
proof (induction gs arbitrary: s)
  case (Cons g gs)
  obtain s1 where 1: "insert_grant g s = (Inr (), s1)" and 2: "for_each insert_grant gs s1 = (Inr (), s')"
    using Cons.prems(1) by (auto split: prod.splits sum.splits)
  have "open_recipients s1 k = open_recipients s k"
    using 1 Cons.prems(2) by (auto simp: insert_grant_def open_recipients_alt split: if_splits)
  then show ?case using Cons.IH [OF 2] Cons.prems(2) by simp
qed simp

lemma no_grants_of_missing: "schedules_ok s \<Longrightarrow> tbl_get (db_schedules s) k = None \<Longrightarrow> open_recipients s k = []"
  by (auto simp: schedules_ok_def grouped_def open_recipients_alt filter_empty_conv)

lemma open_recipients_cong: "db_recipient_grants s' = db_recipient_grants s \<Longrightarrow> open_recipients s' k = open_recipients s k"
  by (simp add: open_recipients_alt)

text \<open>The recipients of the past are those of the future as well.\<close>

lemma split_future_recipients:
  assumes e: "split_future k i u key f s = (Inr (past, nk, future), s')" and rec: "si_recurrence_frequency i \<noteq> Recurrence_NONE"
    and get: "tbl_get (db_schedules s) k = Some i" and ok: "schedules_ok s" and g: "si_scope i = Schedule_GROUP"
  shows "open_recipients s' nk = open_recipients s k" "open_recipients s' k = open_recipients s k"
proof -
  obtain v where v: "parse_occurrence_key (db_zones s) i key = Inr v" and ne: "nk \<noteq> k" and new: "tbl_get (db_schedules s) nk = None"
    by (rule split_future_items [OF e rec get ok])
  let ?past = "i\<lparr>si_recurrence_until := Some (local_date_of (db_zones s) i v - 1), si_version := Suc (si_version i)\<rparr>"
  obtain q1 s1 where 1: "save_item k ?past s = (q1, s1)" by fastforce
  then obtain p where p: "q1 = Inr p" using e rec v by (cases q1) (simp_all add: split_future_def)
  obtain q2 s2 where 2: "insert_item (apply_fields f (moved_start v (p\<lparr>si_version := 1, si_recurrence_until := si_recurrence_until i\<rparr>))) s1
      = (q2, s2)" by fastforce
  then obtain n x where n: "q2 = Inr (n, x)" using e rec v 1 p by (cases q2) (auto simp: split_future_def)
  obtain q3 s3 where 3: "replace_reminders n (Some (given (fd_reminders f) (reminders_of s2 k))) s2 = (q3, s3)" by fastforce
  obtain q4 s4 where 4: "for_each insert_audience (map (copied_audience n (u_id u) (db_now s3)) (map snd (audiences_of s3 k))) s3 = (q4, s4)"
    by fastforce
  obtain q5 s5 where 5: "for_each insert_grant (map (copied_grant n (db_now s4)) (map snd (open_grants s4 k))) s4 = (q5, s5)"
    by fastforce
  have fin: "q5 = Inr () \<and> n = nk \<and> s' = s5"
    using e rec v 1 p 2 n 3 4 5 g by (auto simp: split_future_def split: if_splits sum.splits)
  have gr: "db_recipient_grants s4 = db_recipient_grants s"
    using save_itemD(1) [OF 1 [unfolded p]] insert_itemD(2) [OF 2 [unfolded n]]
      replace_reminders_grants [OF 3] for_each_audiences_grants [OF 4] by simp
  have o: "open_recipients s4 j = open_recipients s j" for j by (rule open_recipients_cong [OF gr])
  have gs: "map sg_recipient (map (copied_grant n (db_now s4)) (map snd (open_grants s4 k))) = open_recipients s4 k"
    by (simp add: open_recipients_def comp_def case_prod_unfold)
  have "open_recipients s5 nk = open_recipients s4 nk @ open_recipients s4 k"
    using for_each_insert_grants [of _ s4 s5 nk] 5 fin gs by auto
  then show "open_recipients s' nk = open_recipients s k"
    using fin o no_grants_of_missing [OF ok new] by simp
  have "open_recipients s5 k = open_recipients s4 k"
    by (rule for_each_insert_grants_other [of "map (copied_grant n (db_now s4)) (map snd (open_grants s4 k))"])
      (use 5 fin ne in auto)
  then show "open_recipients s' k = open_recipients s k" using fin o by simp
qed

lemma announce_change_frame:
  assumes "announce_change k i u c ch ef s = (r, s')"
  shows "db_schedules s' = db_schedules s" "db_recipient_grants s' = db_recipient_grants s"
proof -
  have "db_schedules s' = db_schedules s \<and> db_recipient_grants s' = db_recipient_grants s"
  proof (cases "si_scope i = Schedule_GROUP")
    case True
    obtain q1 s1 where 1: "record_group_revision k u c ch ef s = (q1, s1)" by fastforce
    obtain q2 s2 where 2: "dispatch_group_event k i (u_id u) Dispatch_CHANGED None s1 = (q2, s2)" by fastforce
    have "db_schedules s1 = db_schedules s \<and> db_recipient_grants s1 = db_recipient_grants s"
      using 1 by (auto simp: record_group_revision_def insert_schedule_revision_def split: if_splits)
    moreover have "s' = s1 \<or> s' = s2"
      using assms True 1 2 by (auto simp: announce_change_def void_def split: sum.splits)
    ultimately show ?thesis using only_dispatch_group_event [OF 2] by (auto simp: only_dispatch_def)
  qed (use assms in \<open>simp add: announce_change_def\<close>)
  then show "db_schedules s' = db_schedules s" "db_recipient_grants s' = db_recipient_grants s" by simp_all
qed

lemma update_scheduleE:
  assumes "update_schedule u k expected scope f key s = (Inr x, s')" "tbl_get (db_schedules s) k = Some i"
  shows "assert_can_change u i = Inr ()" "int (si_version i) = expected"
    "scope = Change_FUTURE \<Longrightarrow> update_future k i u f key s = (Inr x, s')"
    "scope = Change_SERIES \<Longrightarrow> update_series k i u f s = (Inr x, s')"
    "scope = Change_OCCURRENCE \<Longrightarrow> update_occurrence k i u f key s = (Inr x, s')"
  using assms by (auto simp: update_schedule_def assert_version_def split: sum.splits if_splits)

definition series_split ::
  "zone_db \<Rightarrow> schedule_item \<Rightarrow> occurrence_at \<Rightarrow> schedule_item \<Rightarrow> schedule_item \<Rightarrow> bool"
where
  "series_split zd i v past future \<longleftrightarrow>
     si_recurrence_until past = Some (local_date_of zd i v - 1) \<and> si_version past = Suc (si_version i)
     \<and> si_version future = 1 \<and> si_owner future = si_owner i \<and> si_scope future = si_scope i
     \<and> item_sound zd past \<and> item_sound zd future"

lemma apply_fields_keeps [simp]:
  "si_version (apply_fields f i) = si_version i" "si_owner (apply_fields f i) = si_owner i"
  "fd_recurrence f = None \<Longrightarrow> si_recurrence_until (apply_fields f i) = si_recurrence_until i"
  by (simp_all add: apply_fields_def apply_recurrence_def split: option.split)

lemma moved_start_keeps [simp]:
  "si_version (moved_start v i) = si_version i" "si_owner (moved_start v i) = si_owner i"
  "si_recurrence_until (moved_start v i) = si_recurrence_until i"
  by (simp_all add: moved_start_def split: occurrence_at.split)

lemma update_future_splits:
  assumes e: "update_schedule u k expected Change_FUTURE f key s = (Inr nk, s')"
    and rec: "si_recurrence_frequency i \<noteq> Recurrence_NONE"
    and get: "tbl_get (db_schedules s) k = Some i" and ok: "schedules_ok s"
  obtains v past future where "parse_occurrence_key (db_zones s) i key = Inr v" "nk \<noteq> k"
    "tbl_get (db_schedules s') k = Some past" "tbl_get (db_schedules s') nk = Some future"
    "series_split (db_zones s) i v past future"
    "fd_recurrence f = None \<Longrightarrow> si_recurrence_until future = si_recurrence_until i"
    "si_scope i = Schedule_GROUP \<Longrightarrow> open_recipients s' nk = open_recipients s k"
proof -
  note uf = update_scheduleE(3) [OF e get refl]
  obtain q1 s1 where 1: "split_future k i u key f s = (q1, s1)" by fastforce
  then obtain past n future where q: "q1 = Inr (past, n, future)"
    using uf by (cases q1) (auto simp: update_future_def)
  obtain q2 s2 where 2: "announce_change n future u Revision_CHANGED (field_names (popped f)) key s1 = (q2, s2)" by fastforce
  have fin: "n = nk" "s' = s2" using uf 1 q 2 by (auto simp: update_future_def split: sum.splits)
  note a = announce_change_frame [OF 2]
  note sp = 1 [unfolded q fin(1)]
  obtain v where v: "parse_occurrence_key (db_zones s) i key = Inr v" "nk \<noteq> k"
    and gets: "tbl_get (db_schedules s1) k = Some past" "tbl_get (db_schedules s1) nk = Some future"
    and past: "past = i\<lparr>si_title := si_title past, si_recurrence_until := Some (local_date_of (db_zones s) i v - 1),
              si_version := Suc (si_version i), si_updated_at := db_now s\<rparr>"
    and future: "future = (apply_fields f (moved_start v (past\<lparr>si_version := 1, si_recurrence_until := si_recurrence_until i\<rparr>)))
       \<lparr>si_title := si_title future, si_created_at := db_now s, si_updated_at := db_now s\<rparr>"
    and sound: "item_sound (db_zones s) past" "item_sound (db_zones s) future"
    by (rule split_future_items [OF sp rec get ok])
  define pt ft where "pt = si_title past" and "ft = si_title future"
  note past' = past [folded pt_def] and future' = future [folded ft_def]
  have p: "si_recurrence_until past = Some (local_date_of (db_zones s) i v - 1)" "si_version past = Suc (si_version i)"
    "si_owner past = si_owner i"
    by (subst past', simp)+
  have fu: "si_version future = 1" "si_owner future = si_owner past"
    "fd_recurrence f = None \<Longrightarrow> si_recurrence_until future = si_recurrence_until i"
    by (subst future', simp)+
  have "series_split (db_zones s) i v past future"
    using p fu sound split_future_grouped(1) [OF sp get ok] by (simp add: series_split_def)
  moreover have "open_recipients s' nk = open_recipients s k" if "si_scope i = Schedule_GROUP"
    using split_future_recipients(1) [OF sp rec get ok that] open_recipients_cong [OF a(2)] fin by simp
  ultimately show ?thesis using that [of v past future] v gets fu(3) a(1) fin by simp
qed

text \<open>A single item has no future to split off: the change is accepted, and nothing is written.\<close>

lemma update_future_of_single:
  assumes get: "tbl_get (db_schedules s) k = Some i" and "si_recurrence_frequency i = Recurrence_NONE"
    and "si_scope i = Schedule_PERSONAL" "si_owner i = u_id u" "int (si_version i) = expected"
    and key: "parse_occurrence_key (db_zones s) i key = Inr v"
  shows "update_schedule u k expected Change_FUTURE f key s = (Inr k, s)"
  using assms
  by (simp add: update_schedule_def assert_can_change_def assert_owner_def assert_version_def update_future_def
      split_future_def announce_change_def atomic_def)

section \<open>Optimistic edits\<close>

definition schedule_version :: "pk \<Rightarrow> 'a schedule_db_scheme \<Rightarrow> nat option" where
  "schedule_version k s = map_option si_version (tbl_get (db_schedules s) k)"

lemma update_series_version:
  assumes e: "update_series k i u f s = (Inr x, s')" and ok: "schedules_ok s"
  shows "schedule_version k s' = Some (Suc (si_version i))"
proof -
  obtain q1 s1 where 1: "save_item k ((apply_fields f i)\<lparr>si_version := Suc (si_version i)\<rparr>) s = (q1, s1)" by fastforce
  then obtain r where r: "q1 = Inr r" using e by (cases q1) (simp_all add: update_series_def)
  obtain q2 s2 where 2: "replace_reminders k (fd_reminders f) s1 = (q2, s2)" by fastforce
  obtain q3 s3 where 3: "announce_change k r u Revision_CHANGED (field_names (popped f)) None s2 = (q3, s3)" by fastforce
  have "s' = s3" using e 1 r 2 3 by (auto simp: update_series_def split: sum.splits)
  then have "db_schedules s' = db_schedules s1"
    using announce_change_frame(1) [OF 3] replace_reminders_schedules [OF 2] by simp
  moreover have "si_version r = Suc (si_version i)" using save_itemD(3) [OF 1 [unfolded r]] by simp
  ultimately show ?thesis using save_item_grouped(3) [OF 1 [unfolded r] ok] by (simp add: schedule_version_def)
qed

interpretation schedule_edit: optimistic_update "schedule_version k" "\<lambda>v. update_schedule u k (int v) Change_SERIES f key" schedules_ok
proof unfold_locales
  fix s :: "'a schedule_db_scheme" and v
  assume "schedule_version k s \<noteq> Some v"
  then show "\<exists>e. update_schedule u k (int v) Change_SERIES f key s = (Inl e, s)"
    by (auto simp: update_schedule_def schedule_version_def assert_version_def atomic_def
        split: option.splits sum.splits prod.splits)
next
  fix s s' :: "'a schedule_db_scheme" and v x
  assume ok: "schedules_ok s" and e: "update_schedule u k (int v) Change_SERIES f key s = (Inr x, s')"
  obtain i where i: "tbl_get (db_schedules s) k = Some i"
    using e by (auto simp: update_schedule_def split: option.splits)
  have "schedule_version k s' = Some (Suc (si_version i))"
    by (rule update_series_version [OF update_scheduleE(4) [OF e i refl] ok])
  moreover have "si_version i = v" using update_scheduleE(2) [OF e i] by simp
  ultimately show "\<exists>v'. schedule_version k s' = Some v' \<and> v < v'" by auto
qed

section \<open>What the calendar shows\<close>

lemma shown_occurrence_fields [simp]:
  "co_source_id (shown_occurrence u k i oc x) = k" "co_scope (shown_occurrence u k i oc x) = si_scope i"
  by (simp_all add: shown_occurrence_def)

lemma show_occurrences_visible:
  "r \<in> set (fst (show_occurrences u k i xs gs ocs ws we)) \<Longrightarrow>
   co_source_id r = k \<and> \<not> hidden_from u i gs (occurrence_time (co_starts_at r) (co_starts_on r))"
proof (induction ocs arbitrary: ws we)
  case (Cons oc ocs)
  let ?r = "shown_occurrence u k i oc (exception_of xs i oc)"
  obtain rest ws' we' where rest: "show_occurrences u k i xs gs ocs (time_bound (co_starts_at ?r)) (time_bound (co_ends_at ?r)) = (rest, ws', we')"
    by (metis prod_cases3)
  show ?case
    using Cons.prems Cons.IH [of ws we] Cons.IH [of "time_bound (co_starts_at ?r)" "time_bound (co_ends_at ?r)"] rest
    by (auto simp: Let_def split: if_splits)
qed simp

lemma authored_loop_visible:
  assumes "authored_loop lib s u items ws we = Inr out" "r \<in> set out"
  obtains i where "(co_source_id r, i) \<in> set items"
    "\<not> hidden_from u i (grants_of s (co_source_id r)) (occurrence_time (co_starts_at r) (co_starts_on r))"
proof -
  have "\<exists>i. (co_source_id r, i) \<in> set items
      \<and> \<not> hidden_from u i (grants_of s (co_source_id r)) (occurrence_time (co_starts_at r) (co_starts_on r))"
    using assms
  proof (induction items arbitrary: ws we out)
    case (Cons ki items)
    obtain k i where ki: "ki = (k, i)" by fastforce
    obtain ocs where ocs: "expand_occurrences lib (db_zones s) i ws we = Inr ocs"
      using Cons.prems(1) ki by (auto split: sum.splits)
    obtain shown ws' we' where sh: "show_occurrences u k i (exceptions_of s k) (grants_of s k) ocs ws we = (shown, ws', we')"
      by (metis prod_cases3)
    obtain more where more: "authored_loop lib s u items ws' we' = Inr more" "out = shown @ more"
      using Cons.prems(1) ki ocs sh by (cases "authored_loop lib s u items ws' we'") auto
    show ?case
    proof (cases "r \<in> set shown")
      case True
      then have "r \<in> set (fst (show_occurrences u k i (exceptions_of s k) (grants_of s k) ocs ws we))" by (simp add: sh)
      from show_occurrences_visible [OF this] show ?thesis using ki by auto
    next
      case False
      then show ?thesis using Cons.IH [OF more(1)] Cons.prems(2) more(2) by auto
    qed
  qed simp
  then show ?thesis using that by blast
qed

text \<open>Neither owner nor administrator: only group items, and only occurrences a grant of the user covers.\<close>

lemma calendar_covers:
  assumes "authored_schedule_occurrences lib s u starts_at ends_at = Inr out" "r \<in> set out" "\<not> is_administrator u"
  obtains i where "(co_source_id r, i) \<in> set (tbl_rows (db_schedules s))"
    "si_owner i = u_id u
     \<or> si_scope i = Schedule_GROUP
       \<and> (\<exists>g \<in> set (grants_of s (co_source_id r)). sg_recipient g = u_id u
            \<and> grant_covers g (occurrence_time (co_starts_at r) (co_starts_on r)))"
proof -
  obtain i where i: "(co_source_id r, i) \<in> set (visible_items s u starts_at ends_at)"
      "\<not> hidden_from u i (grants_of s (co_source_id r)) (occurrence_time (co_starts_at r) (co_starts_on r))"
    by (rule authored_loop_visible [OF assms(1) [unfolded authored_schedule_occurrences_def] assms(2)])
  have "(co_source_id r, i) \<in> set (tbl_rows (db_schedules s))"
    and "si_owner i = u_id u \<or> si_scope i = Schedule_GROUP"
    using i(1) assms(3) by (auto simp: visible_items_def set_tbl_filter)
  then show ?thesis using that i(2) assms(3) by (auto simp: hidden_from_def list_ex_iff)
qed

text \<open>
  An item of a whole day that is shown leaves \<open>None\<close> in the variables of the window, and the next timed item cannot be
  compared with it.
\<close>

definition single_item :: "zone_db \<Rightarrow> schedule_item \<Rightarrow> bool" where
  "single_item zd i \<longleftrightarrow> item_sound zd i \<and> si_recurrence_frequency i = Recurrence_NONE \<and> \<not> zone_malformed zd (si_timezone i)"

lemma expand_single_day:
  assumes "single_item zd i" "si_all_day i" "si_starts_on i = Some d" "si_ends_on i = Some d'"
    and "d < date_of b" "date_of a < d'"
  shows "expand_occurrences lib zd i (At_time a) (At_time b) =
    Inr [\<lparr>oc_starts_at = None, oc_ends_at = None, oc_starts_on = Some d, oc_ends_on = Some d'\<rparr>]"
proof -
  have "date_of (combine d 0) = d" by (rule date_of_combine) (simp_all add: usec_per_day_def)
  then show ?thesis
    using assms
    by (simp add: single_item_def item_sound_def expand_occurrences_def check_recurrence_def series_dates_def MAX_OCCURRENCES_def
        Let_def date_overlaps_def bound_date_def)
qed

lemma expand_single_time:
  assumes "single_item zd i" "\<not> si_all_day i" "si_starts_at i = Some t" "si_ends_at i = Some t'"
  shows "expand_occurrences lib zd i ws we =
    (case time_overlaps zd (si_timezone i) t t' ws we of
       Inl e \<Rightarrow> Inl e
     | Inr shown \<Rightarrow> Inr (if shown
         then [\<lparr>oc_starts_at = Some t, oc_ends_at = Some t', oc_starts_on = None, oc_ends_on = None\<rparr>] else []))"
proof -
  have "si_starts_on i = None" using assms(1,2) by (simp add: single_item_def item_sound_def item_range_sound_def)
  then show ?thesis
    using assms
    by (simp add: single_item_def item_sound_def expand_occurrences_def check_recurrence_def series_dates_def MAX_OCCURRENCES_def
        Let_def split: sum.split)
qed

lemma calendar_fails_after_whole_day:
  assumes "visible_items s u a b = (k, i) # (k', i') # rest"
    and day: "single_item (db_zones s) i" "si_all_day i" "si_starts_on i = Some d" "si_ends_on i = Some d'"
      "d < date_of b" "date_of a < d'" "exceptions_of s k = []"
    and timed: "single_item (db_zones s) i'" "\<not> si_all_day i'" "si_starts_at i' = Some t" "si_ends_at i' = Some t'"
  shows "authored_schedule_occurrences lib s u a b = Inl (TypeError ''combine'')"
proof -
  let ?oc = "\<lparr>oc_starts_at = None, oc_ends_at = None, oc_starts_on = Some d, oc_ends_on = Some d'\<rparr>"
  have x: "exception_of (exceptions_of s k) i ?oc = None" by (simp add: exception_of_def day(7))
  have "co_starts_at (shown_occurrence u k i ?oc None) = None" "co_ends_at (shown_occurrence u k i ?oc None) = None"
    by (simp_all add: shown_occurrence_def overriding_def)
  then obtain out where "show_occurrences u k i (exceptions_of s k) (grants_of s k) [?oc] (At_time a) (At_time b) = (out, No_bound, No_bound)"
    by (simp add: x time_bound_def Let_def)
  moreover have "expand_occurrences lib (db_zones s) i' No_bound No_bound = Inl (TypeError ''combine'')"
    using expand_single_time [OF timed] by (simp add: time_overlaps_def bound_time_def)
  ultimately show ?thesis
    using expand_single_day [OF day(1-6), of lib] by (simp add: authored_schedule_occurrences_def assms(1))
qed

text \<open>With two timed items, the second is looked for in the window of the first.\<close>

lemma calendar_window_of_the_first:
  assumes "visible_items s u a b = [(k, i), (k', i')]"
    and first: "single_item (db_zones s) i" "\<not> si_all_day i" "si_starts_at i = Some t" "si_ends_at i = Some t'"
      "t < b" "a < t'" "exceptions_of s k = []" "si_owner i = u_id u"
    and second: "single_item (db_zones s) i'" "\<not> si_all_day i'" "si_starts_at i' = Some v" "si_ends_at i' = Some v'"
      "t' \<le> v"
  shows "\<exists>r. authored_schedule_occurrences lib s u a b = Inr [r] \<and> co_source_id r = k"
proof -
  let ?oc = "\<lparr>oc_starts_at = Some t, oc_ends_at = Some t', oc_starts_on = None, oc_ends_on = None\<rparr>"
  let ?r = "shown_occurrence u k i ?oc None"
  have x: "exception_of (exceptions_of s k) i ?oc = None" by (simp add: exception_of_def first(7))
  have r: "co_starts_at ?r = Some t" "co_ends_at ?r = Some t'" by (simp_all add: shown_occurrence_def overriding_def)
  have "show_occurrences u k i (exceptions_of s k) (grants_of s k) [?oc] (At_time a) (At_time b)
      = ([?r], At_time t, At_time t')"
    by (simp add: x r time_bound_def Let_def hidden_from_def first(8))
  moreover have "expand_occurrences lib (db_zones s) i (At_time a) (At_time b) = Inr [?oc]"
    using expand_single_time [OF first(1-4)] first(5,6) by (simp add: time_overlaps_def bound_time_def)
  moreover have "expand_occurrences lib (db_zones s) i' (At_time t) (At_time t') = Inr []"
    using expand_single_time [OF second(1-4)] second(5) by (simp add: time_overlaps_def bound_time_def)
  ultimately have "authored_schedule_occurrences lib s u a b = Inr [?r]"
    by (simp add: authored_schedule_occurrences_def assms(1))
  then show ?thesis by simp
qed

section \<open>A selection that is offered and refused\<close>

lemma outsider_manages_nothing: "active_membership s u p = None \<Longrightarrow> \<not> can_manage_project s u p r"
  by (simp add: can_manage_project_def project_capabilities_def capabilities_of_def Let_def)

lemma resolve_needs_management:
  assumes pub: "can_publish_group_item u" and i: "si_scope i = Schedule_GROUP"
    and p: "p \<in> set project_ids" "tbl_get (db_projects s) p = Some r" "active_membership s u p = None"
  shows "resolve_audience u k i project_ids account_ids at s
    = (Inl (FieldError ''audience'' ''A selected project is no longer eligible.''), s)"
proof -
  have "(p, r) \<in> set (tbl_filter (\<lambda>p _. p \<in> set project_ids) (db_projects s))"
    using tbl_getD [OF p(2)] p(1) by (simp add: set_tbl_filter)
  then have "list_ex (\<lambda>(p, r). rp_status r \<noteq> ResearchProject_ACTIVE \<or> \<not> can_manage_project s u p r)
      (tbl_filter (\<lambda>p _. p \<in> set project_ids) (db_projects s))"
    using outsider_manages_nothing [OF p(3)] by (force simp: list_ex_iff)
  then show ?thesis using pub i p(1) by (auto simp: resolve_audience_def atomic_def Let_def)
qed

lemma administrator_is_offered:
  assumes "is_administrator u" "tbl_get (db_projects s) p = Some r" "rp_status r = ResearchProject_ACTIVE"
  shows "(p, r) \<in> set (project_options s u [])"
  using assms tbl_getD [OF assms(2)] by (simp add: project_options_def set_tbl_filter)

section \<open>A reminder that fails\<close>

definition reminder_claimed :: "pk \<Rightarrow> string \<Rightarrow> int \<Rightarrow> pk \<Rightarrow> 'a schedule_db_scheme \<Rightarrow> bool" where
  "reminder_claimed k key off r s \<longleftrightarrow>
     tbl_exists (\<lambda>_ x. same_reminder (new_dispatch k r key Dispatch_REMINDER (Some off) Dispatch_IN_APP None) x)
       (db_schedule_dispatches s)"

lemma get_or_create_reminder_claimed:
  assumes "get_or_create_dispatch same_reminder (new_dispatch k r key Dispatch_REMINDER (Some off) Dispatch_IN_APP None) s
    = (Inr q, s')"
  shows "reminder_claimed k key off r s'" "reminder_claimed k key off r' s \<Longrightarrow> reminder_claimed k key off r' s'"
proof -
  let ?d = "new_dispatch k r key Dispatch_REMINDER (Some off) Dispatch_IN_APP None"
  have "reminder_claimed k key off r s' \<and> (reminder_claimed k key off r' s \<longrightarrow> reminder_claimed k key off r' s')"
  proof (cases "tbl_first (\<lambda>_ x. same_reminder ?d x) (db_schedule_dispatches s)")
    case None
    then have "\<exists>k. insert_dispatch ?d s = (Inr k, s')"
      using assms by (auto simp: get_or_create_dispatch_def split: prod.splits sum.splits)
    then obtain x where x: "s' = s\<lparr>db_schedule_dispatches := tbl_insert x (db_schedule_dispatches s)\<rparr>"
        "x = ?d\<lparr>sd_offset_key := (case sd_offset_minutes ?d of None \<Rightarrow> -1 | Some m \<Rightarrow> m),
           sd_created_at := db_now s, sd_updated_at := db_now s\<rparr>"
      using insert_dispatchD by metis
    then show ?thesis by (simp add: reminder_claimed_def tbl_exists_def same_reminder_def same_event_def)
  next
    case (Some kx)
    obtain j x where kx: "kx = (j, x)" by fastforce
    have "s' = s" using assms Some kx by (simp add: get_or_create_dispatch_def)
    then show ?thesis using tbl_firstD [OF Some [unfolded kx]] by (auto simp: reminder_claimed_def tbl_exists_iff)
  qed
  then show "reminder_claimed k key off r s'" "reminder_claimed k key off r' s \<Longrightarrow> reminder_claimed k key off r' s'" by blast+
qed

lemma claim_reminders_claims:
  "claim_reminders k key off rs s = (Inr claims, s') \<Longrightarrow>
   (\<forall>r \<in> set rs. reminder_claimed k key off r s') \<and> (reminder_claimed k key off r' s \<longrightarrow> reminder_claimed k key off r' s')"
proof (induction rs arbitrary: s claims r')
  case (Cons r rs)
  obtain q1 s1 where 1: "get_or_create_dispatch same_reminder
      (new_dispatch k r key Dispatch_REMINDER (Some off) Dispatch_IN_APP None) s = (q1, s1)" by fastforce
  obtain q2 s2 where 2: "claim_reminders k key off rs s1 = (q2, s2)" by fastforce
  obtain q cl where q: "q1 = Inr q" "q2 = Inr cl" "s2 = s'"
    using Cons.prems 1 2 by (auto split: sum.splits prod.splits)
  note c = get_or_create_reminder_claimed [OF 1 [unfolded q]]
  show ?case using Cons.IH [OF 2 [unfolded q]] c by auto
qed simp

lemma claim_reminders_known:
  "\<forall>r \<in> set rs. reminder_claimed k key off r s \<Longrightarrow> claim_reminders k key off rs s = (Inr [], s)"
proof (induction rs)
  case (Cons r rs)
  let ?d = "new_dispatch k r key Dispatch_REMINDER (Some off) Dispatch_IN_APP None"
  have "tbl_first (\<lambda>_ x. same_reminder ?d x) (db_schedule_dispatches s) \<noteq> None"
    using Cons.prems tbl_first_None [of "\<lambda>_ x. same_reminder ?d x"] by (simp add: reminder_claimed_def)
  then obtain kx where "tbl_first (\<lambda>_ x. same_reminder ?d x) (db_schedule_dispatches s) = Some kx" by blast
  then have "\<exists>dk. get_or_create_dispatch same_reminder ?d s = (Inr (dk, False), s)"
    by (cases kx) (auto simp: get_or_create_dispatch_def)
  then show ?case using Cons by auto
qed simp

text \<open>
  The claims are rows of their own transaction: when making the notifications fails they stay, and the next scan finds
  them and takes the reminder for sent.
\<close>

lemma remind_occurrence_lost:
  assumes e: "remind_occurrence s0 k i now off oc s = (Inl e, s')"
    and c: "claim_reminders k (occurrence_key i oc) off (reminder_recipients s0 k i (occurrence_start (db_zones s) i oc)) s = (Inr claims, s1)"
    and z: "db_zones s1 = db_zones s"
  shows "remind_occurrence s0 k i now off oc s' = (Inr 0, s')"
proof -
  let ?start = "occurrence_start (db_zones s) i oc"
  have due: "reminder_due now off ?start"
    "\<not> (case exception_of (exceptions_of s0 k) i oc of None \<Rightarrow> False | Some x \<Rightarrow> sx_status x \<in> {Exception_CANCELLED, Exception_COMPLETED})"
    using e by (auto simp: remind_occurrence_def Let_def split: if_splits)
  have "s' = s1" using e due c by (auto simp: remind_occurrence_def Let_def create_reminder_notifications_def)
  moreover have "claim_reminders k (occurrence_key i oc) off (reminder_recipients s0 k i ?start) s1 = (Inr [], s1)"
    using claim_reminders_claims [OF c] by (intro claim_reminders_known) blast
  ultimately show ?thesis
    using due z by (simp add: remind_occurrence_def Let_def create_reminder_notifications_def atomic_def)
qed

end
