(* ===== verification/ScheduleSamples.thy ===== *)
theory ScheduleSamples
  imports ExecutionSamples ScheduleEffects
begin

text \<open>
  A student's whole day and a student's appointment, and a daily group meeting of the sample project, published to
  its members. A stand-in for \<open>dateutil\<close> that repeats daily.
\<close>

definition sample_schedule :: "pk \<Rightarrow> schedule_scope \<Rightarrow> string \<Rightarrow> schedule_item" where
  "sample_schedule owner scope title =
     \<lparr>si_owner = owner, si_organizer = owner, si_scope = scope, si_category = Category_OTHER, si_title = title,
      si_description = [], si_all_day = False, si_starts_at = Some (hours 2), si_ends_at = Some (hours 3),
      si_starts_on = None, si_ends_on = None, si_timezone = ''UTC'', si_recurrence_frequency = Recurrence_NONE,
      si_recurrence_interval = 1, si_recurrence_weekdays = [], si_recurrence_until = None,
      si_status = Schedule_ACTIVE, si_published_at = (if scope = Schedule_GROUP then Some 0 else None),
      si_cancelled_at = None, si_version = 1, si_created_at = 0, si_updated_at = 0\<rparr>"

definition field_day :: schedule_item where
  "field_day = (sample_schedule 2 Schedule_PERSONAL ''Field day'')
     \<lparr>si_all_day := True, si_starts_at := None, si_ends_at := None, si_starts_on := Some 20000, si_ends_on := Some 20001\<rparr>"

definition appointment :: schedule_item where
  "appointment = sample_schedule 2 Schedule_PERSONAL ''Dentist''"

definition stand_up :: schedule_item where
  "stand_up = (sample_schedule 1 Schedule_GROUP ''Stand-up'')
     \<lparr>si_recurrence_frequency := Recurrence_DAILY, si_recurrence_until := Some 20005\<rparr>"

definition sample_grant :: "pk \<Rightarrow> recipient_grant" where
  "sample_grant u = \<lparr>sg_item = 3, sg_recipient = u, sg_valid_from = 0, sg_valid_until = None,
     sg_source_types = [''project''], sg_source_project_ids = [1], sg_resolved_at = 0\<rparr>"

definition sample_schedules :: schedule_db where
  "sample_schedules = notification_db.extend sample_mail
     (schedule_db.fields
        \<lparr>tbl_rows = [(1, field_day), (2, appointment), (3, stand_up)], tbl_next = 4\<rparr>
        \<lparr>tbl_rows = [(1, \<lparr>sa_item = 3, sa_scope_type = Audience_PROJECT, sa_project = Some 1, sa_account = None,
           sa_created_by = 1, sa_created_at = 0\<rparr>)], tbl_next = 2\<rparr>
        \<lparr>tbl_rows = [(1, sample_grant 3)], tbl_next = 2\<rparr>
        tbl_empty \<lparr>tbl_rows = [(1, \<lparr>sr_item = 3, sr_offset_minutes = 30, sr_mandatory = True, sr_created_at = 0\<rparr>)], tbl_next = 2\<rparr>
        tbl_empty tbl_empty)"

lemmas sample_schedule_defs = sample_schedules_def notification_db.defs schedule_db.defs sample_mail_def

lemma sample_items_sound: "item_sound utc_zones field_day" "item_sound utc_zones appointment" "item_sound utc_zones stand_up"
  by code_simp+

lemma sample_schedules_ok: "schedules_ok sample_schedules"
proof -
  have "si_scope stand_up = Schedule_GROUP" by code_simp
  then show ?thesis
    using sample_items_sound
    by (auto simp: schedules_ok_def sample_schedule_defs items_ok_def audiences_ok_def audience_shaped_def grants_ok_def
        exceptions_ok_def dispatches_ok_def clean_recipient_grant_def sample_grant_def grouped_def tbl_get_def
        tbl_wf_def tbl_empty_def unique_on_def split: if_splits)
qed

definition daily_dateutil :: dateutil where
  "daily_dateutil =
     \<lparr>rrule = (\<lambda>r. map (\<lambda>n. rr_dtstart r + int n * usec_per_day * rr_interval r)
        (filter (\<lambda>n. rr_dtstart r + int n * usec_per_day * rr_interval r \<le> rr_until r) [0..<32])),
      plus_years = (\<lambda>d n. d + 365 * n)\<rparr>"

definition later_stand_up :: schedule_fields where
  "later_stand_up = no_fields\<lparr>fd_title := Some ''Stand-up, later''\<rparr>"

definition seminar :: schedule_fields where
  "seminar = no_fields\<lparr>fd_category := Some Category_SEMINAR, fd_title := Some '' Seminar '', fd_starts_at := Some (Some (hours 30)),
     fd_ends_at := Some (Some (hours 31)), fd_timezone := Some ''UTC''\<rparr>"

definition schedule_run :: "schedule_command list" where
  "schedule_run =
     [CreateSchedule rob Schedule_GROUP (Some ([], [2])) seminar,
      UpdateSchedule ada 3 1 Change_FUTURE later_stand_up (Some ''2024-10-06T02:00:00+00:00''),
      CompleteSchedule sam 2 1 Change_SERIES None, MembershipSaved 1]"

end
