(* ===== verification/Decimals.thy ===== *)
theory Decimals
  imports AuditTrail Common
begin

text \<open>
  What the report services take from Python's \<open>str\<close>, \<open>set\<close> and \<open>decimal\<close>: the text of a JSON value, whether it can
  be put into a set and which values are equal there, \<open>Decimal(text)\<close> and the comparison of decimals, and the
  rounding of a database column of 14 digits, 4 of them after the point.

  A decimal is a sign, a coefficient that is not negative and an exponent of ten, an infinity, or not a number.
\<close>

section \<open>The text of a value\<close>

definition hex_digit :: "nat \<Rightarrow> char" where
  "hex_digit n = (if n < 10 then char_of (48 + n) else char_of (87 + n))"

definition printable :: "char \<Rightarrow> bool" where
  "printable c = (let n = of_char c :: nat in (32 \<le> n \<and> n \<le> 126) \<or> (161 \<le> n \<and> n \<noteq> 173))"

definition repr_char :: "char \<Rightarrow> char \<Rightarrow> string" where
  "repr_char quote c =
     (if c = quote \<or> c = CHR 0x5C then [CHR 0x5C, c]
      else if c = CHR 0x0A then [CHR 0x5C, CHR ''n'']
      else if c = CHR 0x0D then [CHR 0x5C, CHR ''r'']
      else if c = CHR 0x09 then [CHR 0x5C, CHR ''t'']
      else if printable c then [c]
      else [CHR 0x5C, CHR ''x'', hex_digit (of_char c div 16), hex_digit (of_char c mod 16)])"

definition repr_str :: "string \<Rightarrow> string" where
  "repr_str t =
     (let quote = (if CHR 0x27 \<in> set t \<and> CHR 0x22 \<notin> set t then CHR 0x22 else CHR 0x27)
      in [quote] @ concat (map (repr_char quote) t) @ [quote])"

function py_repr :: "pyval \<Rightarrow> string" where
  "py_repr PNone = ''None''"
| "py_repr (PBool b) = (if b then ''True'' else ''False'')"
| "py_repr (PInt i) = str_of_int i"
| "py_repr (PFloat t) = t"
| "py_repr (PStr t) = repr_str t"
| "py_repr (PList xs) = ''['' @ py_join '', '' (map py_repr xs) @ '']''"
| "py_repr (PDict d) = ''{'' @ py_join '', '' (map (\<lambda>(k, v). repr_str k @ '': '' @ py_repr v) d) @ ''}''"
| "py_repr (POther t) = t"
  by pat_completeness auto
termination
proof (relation "measure size", goal_cases)
  case (2 xs x)
  then show ?case using size_pylist_mem [of x xs] by (auto simp del: pyval.size)
next
  case (3 d kv k v)
  then show ?case using size_pydict_mem [of k v d] by (auto simp del: pyval.size)
qed simp

definition py_str :: "pyval \<Rightarrow> string" where
  "py_str v = (case v of PStr t \<Rightarrow> t | _ \<Rightarrow> py_repr v)"

text \<open>\<open>d.get(key, default)\<close>.\<close>

definition dict_get_or :: "string \<Rightarrow> pyval \<Rightarrow> pydict \<Rightarrow> pyval" where
  "dict_get_or k v d = (case map_of d k of None \<Rightarrow> v | Some x \<Rightarrow> x)"

section \<open>Reading a decimal\<close>

datatype decimal = Finite bool int int | Infinite bool | Not_a_number

definition digits_value :: "string \<Rightarrow> int" where
  "digits_value ds = foldl (\<lambda>n c. 10 * n + (of_char c - 48)) 0 ds"

definition read_sign :: "string \<Rightarrow> bool \<times> string" where
  "read_sign t =
     (if t = [] then (False, t)
      else if hd t = CHR ''-'' then (True, tl t) else if hd t = CHR ''+'' then (False, tl t) else (False, t))"

definition read_exponent :: "string \<Rightarrow> int option" where
  "read_exponent t =
     (if t = [] then Some 0
      else if hd t \<noteq> CHR ''e'' then None
      else let (neg, ds) = read_sign (tl t)
           in if ds = [] \<or> \<not> list_all is_digit ds then None
              else Some (if neg then - digits_value ds else digits_value ds))"

definition read_finite :: "bool \<Rightarrow> string \<Rightarrow> decimal option" where
  "read_finite neg t =
     (let whole = takeWhile is_digit t; r = dropWhile is_digit t;
          (part, r') = (if r \<noteq> [] \<and> hd r = CHR ''.'' then (takeWhile is_digit (tl r), dropWhile is_digit (tl r))
                        else ([], r))
      in if whole = [] \<and> part = [] then None
         else map_option (\<lambda>e. Finite neg (digits_value (whole @ part)) (e - int (length part))) (read_exponent r'))"

text \<open>\<open>Decimal(text)\<close>; \<open>None\<close> is \<open>InvalidOperation\<close>.\<close>

definition read_decimal :: "string \<Rightarrow> decimal option" where
  "read_decimal text =
     (let t = py_lower (filter (\<lambda>c. c \<noteq> CHR ''_'') (py_strip text));
          (neg, r) = read_sign t; nan = (if r \<noteq> [] \<and> hd r = CHR ''s'' then tl r else r)
      in if r = ''inf'' \<or> r = ''infinity'' then Some (Infinite neg)
         else if py_startswith nan ''nan'' \<and> list_all is_digit (drop 3 nan) then Some Not_a_number
         else read_finite neg r)"

lemma read_decimal_examples:
  "read_decimal '' 12.50 '' = Some (Finite False 1250 (- 2))"
  "read_decimal ''-1E+3'' = Some (Finite True 1 3)"
  "read_decimal ''NaN'' = Some Not_a_number"
  "read_decimal ''twelve'' = None" "read_decimal ''.'' = None" "read_decimal '''' = None"
  by code_simp+

section \<open>Comparing\<close>

definition signed :: "bool \<Rightarrow> int \<Rightarrow> int" where
  "signed neg n = (if neg then - n else n)"

definition dec_less :: "decimal \<Rightarrow> decimal \<Rightarrow> error + bool" where
  "dec_less x y =
     (case (x, y) of
        (Finite s m e, Finite s' m' e') \<Rightarrow>
          let low = min e e' in Inr (signed s m * 10 ^ nat (e - low) < signed s' m' * 10 ^ nat (e' - low))
      | (Not_a_number, _) \<Rightarrow> Inl (InvalidOperation ''comparison involving NaN'')
      | (_, Not_a_number) \<Rightarrow> Inl (InvalidOperation ''comparison involving NaN'')
      | (Infinite s, Infinite s') \<Rightarrow> Inr (s \<and> \<not> s')
      | (Infinite s, _) \<Rightarrow> Inr s
      | (_, Infinite s') \<Rightarrow> Inr (\<not> s'))"

definition dec_int :: "int \<Rightarrow> decimal" where
  "dec_int i = Finite (i < 0) \<bar>i\<bar> 0"

text \<open>The value of a finite decimal, as a numerator over a power of ten: what the order is about.\<close>

definition scaled_to :: "int \<Rightarrow> decimal \<Rightarrow> int" where
  "scaled_to low x = (case x of Finite s m e \<Rightarrow> signed s m * 10 ^ nat (e - low) | _ \<Rightarrow> 0)"

definition dec_exponent :: "decimal \<Rightarrow> int" where
  "dec_exponent x = (case x of Finite s m e \<Rightarrow> e | _ \<Rightarrow> 0)"

definition is_finite :: "decimal \<Rightarrow> bool" where
  "is_finite x \<longleftrightarrow> (case x of Finite _ _ _ \<Rightarrow> True | _ \<Rightarrow> False)"

lemma scaled_to_lower:
  assumes "low' \<le> low" "low \<le> dec_exponent x"
  shows "scaled_to low' x = scaled_to low x * 10 ^ nat (low - low')"
proof (cases x)
  case (Finite s m e)
  then have "nat (e - low') = nat (e - low) + nat (low - low')" using assms by (simp add: dec_exponent_def)
  then show ?thesis by (simp add: Finite scaled_to_def power_add)
qed (simp_all add: scaled_to_def)

text \<open>Any common exponent will do for a comparison.\<close>

lemma dec_less_scaled:
  assumes "is_finite x" "is_finite y" "low \<le> dec_exponent x" "low \<le> dec_exponent y"
  shows "dec_less x y = Inr (scaled_to low x < scaled_to low y)"
proof -
  obtain s m e s' m' e' where xy: "x = Finite s m e" "y = Finite s' m' e'"
    using assms(1,2) by (cases x; cases y) (auto simp: is_finite_def)
  let ?l = "min e e'"
  have "scaled_to low x = scaled_to ?l x * 10 ^ nat (?l - low)" "scaled_to low y = scaled_to ?l y * 10 ^ nat (?l - low)"
    using assms(3,4) by (auto intro!: scaled_to_lower simp: xy dec_exponent_def)
  then have "scaled_to low x < scaled_to low y \<longleftrightarrow> scaled_to ?l x < scaled_to ?l y"
    by simp
  then show ?thesis by (simp add: xy dec_less_def scaled_to_def Let_def)
qed

lemma dec_less_trans:
  assumes "is_finite x" "is_finite y" "is_finite z" "dec_less x y = Inr False" "dec_less y z = Inr False"
  shows "dec_less x z = Inr False"
proof -
  let ?l = "min (dec_exponent x) (min (dec_exponent y) (dec_exponent z))"
  have l: "?l \<le> dec_exponent x" "?l \<le> dec_exponent y" "?l \<le> dec_exponent z" by auto
  show ?thesis
    using assms(4,5) unfolding dec_less_scaled [OF assms(1,2) l(1,2)] dec_less_scaled [OF assms(2,3) l(2,3)]
      dec_less_scaled [OF assms(1,3) l(1,3)] by auto
qed

section \<open>Sets of values\<close>

definition py_hashable :: "pyval \<Rightarrow> bool" where
  "py_hashable v = (case v of PList _ \<Rightarrow> False | PDict _ \<Rightarrow> False | _ \<Rightarrow> True)"

definition py_number :: "pyval \<Rightarrow> decimal option" where
  "py_number v =
     (case v of PBool b \<Rightarrow> Some (dec_int (if b then 1 else 0)) | PInt i \<Rightarrow> Some (dec_int i)
      | PFloat t \<Rightarrow> read_decimal t | _ \<Rightarrow> None)"

text \<open>Numbers are equal across their types; a float is compared by the decimal it prints.\<close>

definition py_equal :: "pyval \<Rightarrow> pyval \<Rightarrow> bool" where
  "py_equal v w =
     (case (py_number v, py_number w) of
        (Some x, Some y) \<Rightarrow> dec_less x y = Inr False \<and> dec_less y x = Inr False
      | (None, None) \<Rightarrow> v = w
      | _ \<Rightarrow> False)"

definition py_member :: "pyval \<Rightarrow> pyval list \<Rightarrow> bool" where
  "py_member v xs = list_ex (py_equal v) xs"

fun py_distinct :: "pyval list \<Rightarrow> bool" where
  "py_distinct [] = True"
| "py_distinct (x # xs) = (\<not> py_member x xs \<and> py_distinct xs)"

section \<open>A numeric column\<close>

definition round_to_4 :: "int \<Rightarrow> int \<Rightarrow> int" where
  "round_to_4 m e =
     (if 0 \<le> e + 4 then m * 10 ^ nat (e + 4)
      else let d = 10 ^ nat (- (e + 4)) in (2 * m + d) div (2 * d))"

text \<open>\<open>DecimalField(max_digits=14, decimal_places=4)\<close> on PostgreSQL: a number that is not finite is refused by the
  field, the rest is rounded, and more than ten digits before the point overflow.\<close>

definition numeric_column :: "decimal \<Rightarrow> error + decimal" where
  "numeric_column x =
     (case x of
        Finite neg m e \<Rightarrow>
          let n = round_to_4 m e
          in if n < 10 ^ 14 then Inr (Finite neg n (-4)) else Inl (DataError ''numeric field overflow'')
      | _ \<Rightarrow> Inl (ValidationError ''value must be a decimal number.''))"

definition numeric_option :: "decimal option \<Rightarrow> error + decimal option" where
  "numeric_option x = (case x of None \<Rightarrow> Inr None | Some y \<Rightarrow> map_sum id Some (numeric_column y))"

lemma numeric_columnD: "numeric_column x = Inr y \<Longrightarrow> is_finite x \<and> is_finite y \<and> dec_exponent y = - 4"
  by (auto simp: numeric_column_def is_finite_def dec_exponent_def Let_def split: decimal.splits if_splits)

text \<open>A value with four places or fewer is stored as it is.\<close>

lemma numeric_column_exact:
  assumes "numeric_column x = Inr y" "- 4 \<le> dec_exponent x"
  shows "scaled_to (- 4) y = scaled_to (- 4) x"
  using assms
  by (auto simp: numeric_column_def dec_exponent_def scaled_to_def round_to_4_def signed_def Let_def
      split: decimal.splits if_splits)

end
