(* ===== verification/ReportModel.thy ===== *)
theory ReportModel
  imports Deliverables Collaboration Decimals
begin

text \<open>
  The records of the report services (\<open>apps/submissions/models.py\<close>): templates with versions and fields, reporting
  periods, weekly reports with their responses, the deadline schedule of a project, drafts and inline comments. The
  writing records are in \<open>WritingModel\<close>.

  \<open>db_report_project\<close> and \<open>db_draft_version_project\<close>, which the review assignments read, are kept in step with the
  two tables. \<open>db_float_text\<close> is the text Python prints for the float next to a decimal.
\<close>

section \<open>Records\<close>

record report_schedule =
  wk_project :: pk
  wk_weekday :: int
  wk_deadline_time :: int
  wk_timezone :: string
  wk_version :: nat
  wk_updated_by :: pk
  wk_created_at :: instant
  wk_updated_at :: instant

datatype report_review = Report_PENDING_REVIEW | Report_REVIEWED | Report_NEEDS_REVISION | Report_CLOSED

fun report_review_value :: "report_review \<Rightarrow> string" where
  "report_review_value Report_PENDING_REVIEW = ''pending_review''"
| "report_review_value Report_REVIEWED = ''reviewed''"
| "report_review_value Report_NEEDS_REVISION = ''needs_revision''"
| "report_review_value Report_CLOSED = ''closed''"

datatype draft_status = Draft_ACTIVE | Draft_CLOSED

record draft =
  df_project :: pk
  df_title :: string
  df_student :: pk
  df_status :: draft_status
  df_created_at :: instant
  df_updated_at :: instant

record draft_version =
  dv_draft :: pk
  dv_project :: pk
  dv_version_number :: nat
  dv_submitted_by :: pk
  dv_content_reference :: string
  dv_summary :: string
  dv_review_status :: report_review
  dv_submitted_at :: instant
  dv_reviewed_at :: "instant option"

record weekly_report =
  wr_project :: pk
  wr_student :: pk
  wr_report_week_start :: day
  wr_completed_work :: string
  wr_blockers :: string
  wr_next_steps :: string
  wr_attachment_reference :: string
  wr_revision_number :: nat
  wr_review_status :: report_review
  wr_submitted_at :: instant
  wr_reviewed_at :: "instant option"
  wr_reporting_period :: "pk option"
  wr_template_version :: "pk option"
  wr_submitted_late :: bool
  wr_idempotency_key :: string
  wr_response_schema_version :: nat

datatype comment_target = Comment_DRAFT_VERSION | Comment_PROGRESS_REPORT

fun comment_target_value :: "comment_target \<Rightarrow> string" where
  "comment_target_value Comment_DRAFT_VERSION = ''draft_version''"
| "comment_target_value Comment_PROGRESS_REPORT = ''progress_report''"

datatype comment_status = Comment_OPEN | Comment_RESOLVED

fun comment_status_value :: "comment_status \<Rightarrow> string" where
  "comment_status_value Comment_OPEN = ''open''"
| "comment_status_value Comment_RESOLVED = ''resolved''"

record inline_comment =
  ic_project :: pk
  ic_target_type :: comment_target
  ic_target_id :: pk
  ic_author :: pk
  ic_anchor :: string
  ic_body :: string
  ic_status :: comment_status
  ic_created_at :: instant
  ic_updated_at :: instant
  ic_resolved_at :: "instant option"

record report_template =
  tp_project :: pk
  tp_name :: string
  tp_active_version :: "pk option"
  tp_created_by :: pk
  tp_created_at :: instant
  tp_updated_at :: instant

datatype template_status = Template_DRAFT | Template_PUBLISHED | Template_SUPERSEDED

fun template_status_value :: "template_status \<Rightarrow> string" where
  "template_status_value Template_DRAFT = ''draft''"
| "template_status_value Template_PUBLISHED = ''published''"
| "template_status_value Template_SUPERSEDED = ''superseded''"

record template_version =
  tv_project :: pk
  tv_template :: pk
  tv_version_number :: nat
  tv_status :: template_status
  tv_version :: nat
  tv_created_by :: pk
  tv_created_at :: instant
  tv_published_by :: "pk option"
  tv_published_at :: "instant option"

datatype field_type =
    Field_LONG_TEXT | Field_NUMBER | Field_PERCENTAGE | Field_SINGLE_CHOICE | Field_MULTIPLE_CHOICE
  | Field_EXECUTION_PROGRESS | Field_RISK_BLOCKER

fun field_type_value :: "field_type \<Rightarrow> string" where
  "field_type_value Field_LONG_TEXT = ''long_text''"
| "field_type_value Field_NUMBER = ''number''"
| "field_type_value Field_PERCENTAGE = ''percentage''"
| "field_type_value Field_SINGLE_CHOICE = ''single_choice''"
| "field_type_value Field_MULTIPLE_CHOICE = ''multiple_choice''"
| "field_type_value Field_EXECUTION_PROGRESS = ''execution_progress''"
| "field_type_value Field_RISK_BLOCKER = ''risk_blocker''"

definition field_types :: "field_type list" where
  "field_types = [Field_LONG_TEXT, Field_NUMBER, Field_PERCENTAGE, Field_SINGLE_CHOICE, Field_MULTIPLE_CHOICE,
     Field_EXECUTION_PROGRESS, Field_RISK_BLOCKER]"

text \<open>A field as \<open>validate_field_definition\<close> returns it, and as a row of a template version.\<close>

record field_definition =
  fl_key :: string
  fl_label_en :: string
  fl_label_zh :: string
  fl_help_text_en :: string
  fl_help_text_zh :: string
  fl_field_type :: field_type
  fl_required :: bool
  fl_order :: int
  fl_unit :: string
  fl_options :: pyval
  fl_min_value :: "decimal option"
  fl_max_value :: "decimal option"
  fl_analytics_enabled :: bool

record template_field = field_definition +
  fl_template_version :: pk

datatype period_state = Period_OPEN | Period_CLOSED

fun period_state_value :: "period_state \<Rightarrow> string" where
  "period_state_value Period_OPEN = ''open''"
| "period_state_value Period_CLOSED = ''closed''"

record reporting_period =
  pd_project :: pk
  pd_starts_on :: day
  pd_ends_on :: day
  pd_deadline_at :: instant
  pd_template_version :: pk
  pd_state :: period_state
  pd_opened_at :: instant
  pd_closed_at :: "instant option"
  pd_generation_key :: string

record report_response =
  rq_project :: pk
  rq_report :: pk
  rq_template_field :: pk
  rq_value :: pyval
  rq_numeric_value :: "decimal option"
  rq_source_type :: string
  rq_source_id :: string
  rq_created_at :: instant

record report_db = execution_db +
  db_report_schedules :: "report_schedule table"
  db_report_templates :: "report_template table"
  db_template_versions :: "template_version table"
  db_template_fields :: "template_field table"
  db_reporting_periods :: "reporting_period table"
  db_weekly_reports :: "weekly_report table"
  db_report_responses :: "report_response table"
  db_drafts :: "draft table"
  db_draft_versions :: "draft_version table"
  db_inline_comments :: "inline_comment table"
  db_float_text :: "decimal \<Rightarrow> string"

section \<open>Unique constraints\<close>

definition schedule_project_key :: "report_schedule \<Rightarrow> pk option" where
  "schedule_project_key w = Some (wk_project w)"

definition template_project_key :: "report_template \<Rightarrow> pk option" where
  "template_project_key t = Some (tp_project t)"

definition template_number_key :: "template_version \<Rightarrow> (pk \<times> nat) option" where
  "template_number_key v = Some (tv_template v, tv_version_number v)"

definition template_draft_key :: "template_version \<Rightarrow> pk option" where
  "template_draft_key v = (if tv_status v = Template_DRAFT then Some (tv_template v) else None)"

definition template_published_key :: "template_version \<Rightarrow> pk option" where
  "template_published_key v = (if tv_status v = Template_PUBLISHED then Some (tv_template v) else None)"

definition field_name_key :: "template_field \<Rightarrow> (pk \<times> string) option" where
  "field_name_key f = Some (fl_template_version f, fl_key f)"

definition field_order_key :: "template_field \<Rightarrow> (pk \<times> int) option" where
  "field_order_key f = Some (fl_template_version f, fl_order f)"

definition period_project_key :: "reporting_period \<Rightarrow> (pk \<times> day) option" where
  "period_project_key p = Some (pd_project p, pd_starts_on p)"

definition period_generation_key :: "reporting_period \<Rightarrow> string option" where
  "period_generation_key p = Some (pd_generation_key p)"

definition report_revision_key :: "weekly_report \<Rightarrow> (pk \<times> pk \<times> day \<times> nat) option" where
  "report_revision_key r = Some (wr_project r, wr_student r, wr_report_week_start r, wr_revision_number r)"

definition report_retry_key :: "weekly_report \<Rightarrow> (pk \<times> pk \<times> string) option" where
  "report_retry_key r =
     (if wr_idempotency_key r = [] then None else Some (wr_project r, wr_student r, wr_idempotency_key r))"

definition response_key :: "report_response \<Rightarrow> (pk \<times> pk) option" where
  "response_key r = Some (rq_report r, rq_template_field r)"

definition draft_number_key :: "draft_version \<Rightarrow> (pk \<times> nat) option" where
  "draft_number_key v = Some (dv_draft v, dv_version_number v)"

lemmas report_keys = schedule_project_key_def template_project_key_def template_number_key_def template_draft_key_def
  template_published_key_def field_name_key_def field_order_key_def period_project_key_def period_generation_key_def
  report_revision_key_def report_retry_key_def response_key_def draft_number_key_def

text \<open>\<open>objects.create\<close> of a report: the constraints, and the lengths of two columns.\<close>

definition insert_report :: "weekly_report \<Rightarrow> ('a report_db_scheme, pk) op" where
  "insert_report r s =
     (if length (wr_idempotency_key r) > 100 \<or> length (wr_attachment_reference r) > 512
      then (Inl (DataError ''value too long''), s)
      else if key_taken report_revision_key r (db_weekly_reports s)
      then (Inl (IntegrityError ''submissions_weeklyprogressreport_revision''), s)
      else if key_taken report_retry_key r (db_weekly_reports s)
      then (Inl (IntegrityError ''unique_structured_report_retry''), s)
      else (Inr (tbl_next (db_weekly_reports s)),
            s\<lparr>db_weekly_reports := tbl_insert r (db_weekly_reports s),
              db_report_project := (db_report_project s)(tbl_next (db_weekly_reports s) \<mapsto> wr_project r)\<rparr>))"

definition insert_version :: "template_version \<Rightarrow> ('a report_db_scheme, pk) op" where
  "insert_version v s =
     (if key_taken template_number_key v (db_template_versions s) \<or> key_taken template_draft_key v (db_template_versions s)
         \<or> key_taken template_published_key v (db_template_versions s)
      then (Inl (IntegrityError ''unique_report_template_version''), s)
      else (Inr (tbl_next (db_template_versions s)), s\<lparr>db_template_versions := tbl_insert v (db_template_versions s)\<rparr>))"

text \<open>A row of a field: the lengths of its columns, the range of its order, its numeric columns.\<close>

definition field_row :: "pk \<Rightarrow> field_definition \<Rightarrow> error + template_field" where
  "field_row v f =
     (if length (fl_key f) > 80 \<or> length (fl_label_en f) > 255 \<or> length (fl_label_zh f) > 255 \<or> length (fl_unit f) > 40
         \<or> fl_order f > 2147483647
      then Inl (DataError ''value out of range'')
      else if fl_order f < 0 then Inl (IntegrityError ''order_check'')
      else case numeric_option (fl_min_value f) of
        Inl e \<Rightarrow> Inl e
      | Inr lo \<Rightarrow>
          (case numeric_option (fl_max_value f) of
             Inl e \<Rightarrow> Inl e
           | Inr hi \<Rightarrow> Inr (field_definition.extend (f\<lparr>fl_min_value := lo, fl_max_value := hi\<rparr>)
               (template_field.fields v))))"

fun bulk_rows :: "('b \<Rightarrow> error + 'c) \<Rightarrow> 'b list \<Rightarrow> error + 'c list" where
  "bulk_rows f [] = Inr []"
| "bulk_rows f (x # xs) = (case f x of Inl e \<Rightarrow> Inl e | Inr y \<Rightarrow> map_sum id ((#) y) (bulk_rows f xs))"

definition insert_all :: "'b list \<Rightarrow> 'b table \<Rightarrow> 'b table" where
  "insert_all rs t = foldl (\<lambda>t r. tbl_insert r t) t rs"

definition bulk_create_fields :: "pk \<Rightarrow> field_definition list \<Rightarrow> ('a report_db_scheme, unit) op" where
  "bulk_create_fields v fs s =
     (case bulk_rows (field_row v) fs of
        Inl e \<Rightarrow> (Inl e, s)
      | Inr rows \<Rightarrow>
          let t = insert_all rows (db_template_fields s)
          in if list_ex (\<lambda>r. key_taken field_name_key r (db_template_fields s) \<or> key_taken field_order_key r (db_template_fields s)) rows
                \<or> \<not> distinct (map fl_key rows) \<or> \<not> distinct (map fl_order rows)
             then (Inl (IntegrityError ''unique_report_template_field''), s)
             else (Inr (), s\<lparr>db_template_fields := t\<rparr>))"

section \<open>Queries\<close>

text \<open>\<open>version.fields.all()\<close>, ordered by \<open>order\<close>, then \<open>id\<close>.\<close>

definition fields_of :: "'a report_db_scheme \<Rightarrow> pk \<Rightarrow> (pk \<times> template_field) list" where
  "fields_of s v = sort_key (\<lambda>(k, f). (fl_order f, k)) (tbl_filter (\<lambda>_ f. fl_template_version f = v) (db_template_fields s))"

definition versions_of :: "'a report_db_scheme \<Rightarrow> pk \<Rightarrow> (pk \<times> template_version) list" where
  "versions_of s t = tbl_filter (\<lambda>_ v. tv_template v = t) (db_template_versions s)"

definition maximum_or :: "nat \<Rightarrow> nat list \<Rightarrow> nat" where
  "maximum_or z ns = foldl max z ns"

definition template_of :: "'a report_db_scheme \<Rightarrow> pk \<Rightarrow> (pk \<times> report_template) option" where
  "template_of s pid = tbl_first (\<lambda>_ t. tp_project t = pid) (db_report_templates s)"

definition active_student_member :: "'a project_db_scheme \<Rightarrow> actor \<Rightarrow> pk \<Rightarrow> bool" where
  "active_student_member s u pid \<longleftrightarrow>
     tbl_exists (\<lambda>_ m. pm_project m = pid \<and> pm_user m = u_id u \<and> pm_status m = ProjectMembership_ACTIVE
        \<and> pm_role m = ProjectMembership_STUDENT) (db_memberships s)"

text \<open>A notification created with the defaults of its model.\<close>

definition submission_notification ::
  "pk \<Rightarrow> pk \<Rightarrow> actor \<Rightarrow> notification_event \<Rightarrow> string \<times> pk \<Rightarrow> string \<Rightarrow> string \<Rightarrow> notification_category \<Rightarrow> instant \<Rightarrow> notification"
where
  "submission_notification pid recipient u event target subject path category now =
     \<lparr>nt_project = Some pid, nt_recipient = recipient, nt_recipient_email = [], nt_sender = Some (u_id u),
      nt_event_type = event, nt_target_type = fst target, nt_target_id = str_of_nat (snd target),
      nt_subject = subject, nt_action_path = path,
      nt_status = Notification_PENDING, nt_delivery_policy = Notification_IN_APP_EMAIL, nt_eligible_at = now,
      nt_queued_at = None, nt_sent_at = None, nt_last_attempt_at = None, nt_retry_count = 0, nt_failure_reason = [],
      nt_category = category, nt_requirement_type = Notification_INFORMATIONAL,
      nt_outcome_state = Notification_NOT_REQUIRED, nt_due_at = None, nt_expires_at = None, nt_acknowledged_at = None,
      nt_action_completed_at = None, nt_expired_at = None, nt_unavailable_at = None, nt_completion_event_type = [],
      nt_completion_event_id = [], nt_dedupe_key = [], nt_active_follow_up = False, nt_reminder_count = 0,
      nt_escalation_level = 0, nt_last_reminded_at = None, nt_last_escalated_at = None, nt_created_at = now\<rparr>"

text \<open>
  One notification to every active member of the given roles. A subject longer than its column is refused by the
  database; the notifications of the members before are there by then.
\<close>

definition members_in :: "'a project_db_scheme \<Rightarrow> pk \<Rightarrow> membership_role set \<Rightarrow> pk list" where
  "members_in s pid roles =
     map (\<lambda>(_, m). pm_user m)
       (tbl_filter (\<lambda>_ m. pm_project m = pid \<and> pm_role m \<in> roles \<and> pm_status m = ProjectMembership_ACTIVE) (db_memberships s))"

definition notify_members ::
  "pk \<Rightarrow> membership_role set \<Rightarrow> actor \<Rightarrow> string \<times> pk \<Rightarrow> string \<Rightarrow> string \<Rightarrow> notification_category
   \<Rightarrow> ('a notification_db_scheme, unit) op"
where
  "notify_members pid roles u target subject path category s =
     for_each (\<lambda>r s. if 255 < length subject then (Inl (DataError ''value too long''), s)
         else void (insert_notification
           (submission_notification pid r u NEW_SUBMISSION target subject path category (db_now s))) s)
       (members_in s pid roles) s"

lemma notify_members_frame:
  assumes "notify_members pid roles u target subject path category s = (r, s')"
  obtains t where "s' = s\<lparr>db_notifications := t\<rparr>"
proof -
  have "for_each (\<lambda>r s. if 255 < length subject then (Inl (DataError ''value too long''), s)
         else void (insert_notification
           (submission_notification pid r u NEW_SUBMISSION target subject path category (db_now s))) s) xs s = (r, s')
      \<Longrightarrow> \<exists>t. s' = s\<lparr>db_notifications := t\<rparr>" for xs
  proof (induction xs arbitrary: s)
    case Nil
    then show ?case by (auto intro!: exI [of _ "db_notifications s"])
  next
    case (Cons x xs)
    let ?n = "submission_notification pid x u NEW_SUBMISSION target subject path category (db_now s)"
    obtain q s1 where 1: "(if 255 < length subject then (Inl (DataError ''value too long''), s)
        else void (insert_notification ?n) s) = (q, s1)" by fastforce
    then obtain t1 where t1: "s1 = s\<lparr>db_notifications := t1\<rparr>"
      by (cases s) (auto simp: void_def insert_notification_def split: if_splits)
    show ?case
    proof (cases q)
      case (Inl e)
      then show ?thesis using Cons.prems 1 t1 by auto
    next
      case (Inr a)
      then show ?thesis using Cons.prems Cons.IH [of s1] 1 t1 by auto
    qed
  qed
  then show ?thesis using assms that unfolding notify_members_def by blast
qed

end
