(* ===== verification/ReportTemplates.thy ===== *)
theory ReportTemplates
  imports ReportModel ScheduleModel
begin

text \<open>
  Report templates (\<open>apps/submissions/report_template_services.py\<close>), reporting periods
  (\<open>apps/submissions/report_period_services.py\<close>) and the deadline schedule of a project
  (\<open>apps/submissions/services.py\<close>).

  A template has versions: one draft at most, whose fields are replaced as a whole, and one published version at
  most, which the template names as its active one. The Chinese labels are the bytes of their UTF-8 encoding.
\<close>

section \<open>Field definitions\<close>

definition choice_types :: "field_type set" where
  "choice_types = {Field_SINGLE_CHOICE, Field_MULTIPLE_CHOICE}"

definition numeric_types :: "field_type set" where
  "numeric_types = {Field_NUMBER, Field_PERCENTAGE}"

definition analytics_types :: "field_type set" where
  "analytics_types = numeric_types \<union> {Field_EXECUTION_PROGRESS, Field_RISK_BLOCKER}"

definition require_template_manager :: "'a project_db_scheme \<Rightarrow> actor \<Rightarrow> pk \<Rightarrow> research_project \<Rightarrow> error + unit" where
  "require_template_manager s u pid p =
     (if canManageReportTemplates (project_capabilities s u pid p) then Inr ()
      else Inl (PermissionDenied ''Only the primary advisor can manage report templates.''))"

definition decimal_bound :: "pyval \<Rightarrow> error + decimal option" where
  "decimal_bound v =
     (if \<not> py_hashable v then Inl (TypeError ''unhashable type'')
      else if v = PNone \<or> v = PStr [] then Inr None
      else case read_decimal (py_str v) of
        None \<Rightarrow> Inl (ValueError ''Enter a valid numeric bound.'')
      | Some d \<Rightarrow> Inr (Some d))"

text \<open>\<open>int(value)\<close>.\<close>

definition int_of_value :: "pyval \<Rightarrow> error + int" where
  "int_of_value v =
     (case v of
        PInt i \<Rightarrow> Inr i
      | PBool b \<Rightarrow> Inr (if b then 1 else 0)
      | PStr t \<Rightarrow> (case py_int t of None \<Rightarrow> Inl (ValueError ''invalid literal for int()'') | Some i \<Rightarrow> Inr i)
      | PFloat t \<Rightarrow>
          (case read_decimal t of
             Some (Finite neg m e) \<Rightarrow>
               let n = (if 0 \<le> e then m * 10 ^ nat e else m div 10 ^ nat (- e)) in Inr (signed neg n)
           | Some (Infinite _) \<Rightarrow> Inl (OverflowError ''cannot convert float infinity to integer'')
           | _ \<Rightarrow> Inl (ValueError ''cannot convert float NaN to integer''))
      | _ \<Rightarrow> Inl (TypeError ''int() argument''))"

text \<open>What \<open>validate_field_definition\<close> reads: the entries of a request, or the columns of a stored field.\<close>

record field_data =
  in_field_type :: pyval
  in_key :: string
  in_label_en :: string
  in_label_zh :: string
  in_help_text_en :: string
  in_help_text_zh :: string
  in_required :: bool
  in_order :: "error + int"
  in_unit :: string
  in_options :: pyval
  in_min_value :: "error + decimal option"
  in_max_value :: "error + decimal option"
  in_analytics_enabled :: bool

definition data_of_dict :: "pydict \<Rightarrow> field_data" where
  "data_of_dict d =
     \<lparr>in_field_type = dict_get ''field_type'' d,
      in_key = py_strip (py_str (dict_get_or ''key'' (PStr []) d)),
      in_label_en = py_strip (py_str (dict_get_or ''label_en'' (PStr []) d)),
      in_label_zh = py_strip (py_str (dict_get_or ''label_zh'' (PStr []) d)),
      in_help_text_en = py_strip (py_str (dict_get_or ''help_text_en'' (PStr []) d)),
      in_help_text_zh = py_strip (py_str (dict_get_or ''help_text_zh'' (PStr []) d)),
      in_required = py_truthy (dict_get_or ''required'' (PBool False) d),
      in_order = (case map_of d ''order'' of None \<Rightarrow> Inl (KeyError ''order'') | Some v \<Rightarrow> int_of_value v),
      in_unit = py_strip (py_str (dict_get_or ''unit'' (PStr []) d)),
      in_options = (if py_truthy (dict_get ''options'' d) then dict_get ''options'' d else PList []),
      in_min_value = decimal_bound (dict_get ''min_value'' d),
      in_max_value = decimal_bound (dict_get ''max_value'' d),
      in_analytics_enabled = py_truthy (dict_get_or ''analytics_enabled'' (PBool False) d)\<rparr>"

definition data_of_field :: "field_definition \<Rightarrow> field_data" where
  "data_of_field f =
     \<lparr>in_field_type = PStr (field_type_value (fl_field_type f)), in_key = py_strip (fl_key f),
      in_label_en = py_strip (fl_label_en f), in_label_zh = py_strip (fl_label_zh f),
      in_help_text_en = py_strip (fl_help_text_en f), in_help_text_zh = py_strip (fl_help_text_zh f),
      in_required = fl_required f, in_order = Inr (fl_order f), in_unit = py_strip (fl_unit f),
      in_options = (if py_truthy (fl_options f) then fl_options f else PList []),
      in_min_value = Inr (fl_min_value f), in_max_value = Inr (fl_max_value f),
      in_analytics_enabled = fl_analytics_enabled f\<rparr>"

definition py_len :: "pyval \<Rightarrow> error + nat" where
  "py_len v =
     (case v of PList xs \<Rightarrow> Inr (length xs) | PDict d \<Rightarrow> Inr (length d) | PStr t \<Rightarrow> Inr (length t)
      | _ \<Rightarrow> Inl (TypeError ''object has no len()''))"

definition dicts_in :: "pyval \<Rightarrow> error + pydict list" where
  "dicts_in v =
     (case v of
        PList xs \<Rightarrow>
          if list_all (\<lambda>x. case x of PDict _ \<Rightarrow> True | _ \<Rightarrow> False) xs
          then Inr (map (\<lambda>x. case x of PDict d \<Rightarrow> d | _ \<Rightarrow> []) xs)
          else Inl (AttributeError ''object has no attribute get'')
      | _ \<Rightarrow> Inl (AttributeError ''object has no attribute get''))"

definition option_value :: "pydict \<Rightarrow> string" where
  "option_value d = py_strip (py_str (dict_get_or ''value'' (PStr []) d))"

definition check_options :: "field_type \<Rightarrow> pyval \<Rightarrow> error + unit" where
  "check_options ft options =
     (if ft \<in> choice_types
      then case py_len options of
        Inl e \<Rightarrow> Inl e
      | Inr n \<Rightarrow>
          if \<not> (1 \<le> n \<and> n \<le> 50) then Inl (ValueError ''Choice fields require between 1 and 50 options.'')
          else (case dicts_in options of
                  Inl e \<Rightarrow> Inl e
                | Inr ds \<Rightarrow>
                    if list_ex (\<lambda>d. option_value d = [] \<or> py_strip (py_str (dict_get_or ''labelEn'' (PStr []) d)) = []
                            \<or> py_strip (py_str (dict_get_or ''labelZh'' (PStr []) d)) = []) ds
                       \<or> \<not> distinct (map option_value ds)
                    then Inl (ValueError ''Choice values and bilingual labels must be unique.'') else Inr ())
      else if py_truthy options then Inl (ValueError ''Options apply only to choice fields.'') else Inr ())"

text \<open>The two bounds of a field: those of a percentage are fixed.\<close>

definition field_bounds :: "field_type \<Rightarrow> decimal option \<Rightarrow> decimal option \<Rightarrow> error + decimal option \<times> decimal option" where
  "field_bounds ft minimum maximum =
     (if ft \<noteq> Field_PERCENTAGE \<and> ft \<notin> numeric_types \<and> (minimum \<noteq> None \<or> maximum \<noteq> None)
      then Inl (ValueError ''Numeric bounds apply only to numeric fields.'')
      else
        let (lo, hi) = (if ft = Field_PERCENTAGE then (Some (dec_int 0), Some (dec_int 100)) else (minimum, maximum))
        in case (lo, hi) of
             (Some a, Some b) \<Rightarrow>
               (case dec_less b a of
                  Inl e \<Rightarrow> Inl e
                | Inr True \<Rightarrow> Inl (ValueError ''Minimum value cannot exceed maximum value.'')
                | Inr False \<Rightarrow> Inr (lo, hi))
           | _ \<Rightarrow> Inr (lo, hi))"

definition field_type_of :: "pyval \<Rightarrow> field_type option" where
  "field_type_of v = (case v of PStr t \<Rightarrow> find (\<lambda>ft. field_type_value ft = t) field_types | _ \<Rightarrow> None)"

definition validate_field_definition :: "field_data \<Rightarrow> error + field_definition" where
  "validate_field_definition d =
     (case field_type_of (in_field_type d) of
        None \<Rightarrow> Inl (ValueError ''Select a supported report field type.'')
      | Some ft \<Rightarrow>
     if in_key d = [] then Inl (ValueError ''A stable field key is required.'')
     else if in_label_en d = [] \<or> in_label_zh d = []
     then Inl (ValueError ''English and Chinese field labels are required.'')
     else case check_options ft (in_options d) of
       Inl e \<Rightarrow> Inl e
     | Inr _ \<Rightarrow>
    (case in_min_value d of Inl e \<Rightarrow> Inl e | Inr minimum \<Rightarrow>
    (case in_max_value d of Inl e \<Rightarrow> Inl e | Inr maximum \<Rightarrow>
    (case field_bounds ft minimum maximum of
       Inl e \<Rightarrow> Inl e
     | Inr (lo, hi) \<Rightarrow>
         if in_unit d \<noteq> [] \<and> ft \<noteq> Field_NUMBER then Inl (ValueError ''Units apply only to number fields.'')
         else if in_analytics_enabled d \<and> ft \<notin> analytics_types
         then Inl (ValueError ''Analytics are not supported for this field type.'')
         else case in_order d of
           Inl e \<Rightarrow> Inl e
         | Inr n \<Rightarrow>
             Inr \<lparr>fl_key = in_key d, fl_label_en = in_label_en d, fl_label_zh = in_label_zh d,
                  fl_help_text_en = in_help_text_en d, fl_help_text_zh = in_help_text_zh d, fl_field_type = ft,
                  fl_required = in_required d, fl_order = n, fl_unit = in_unit d, fl_options = in_options d,
                  fl_min_value = lo, fl_max_value = hi, fl_analytics_enabled = in_analytics_enabled d\<rparr>))))"

section \<open>Drafts and publication\<close>

definition template_event ::
  "pk \<Rightarrow> actor \<Rightarrow> string \<Rightarrow> pk \<Rightarrow> template_version \<Rightarrow> bool \<Rightarrow> 'a audit_db_scheme \<Rightarrow> 'a audit_db_scheme"
where
  "template_event pid u action k v privileged =
     record_execution_event (Some pid) (Some u) action (Some (''ReportTemplateVersion'', k))
       (Some [(''status'', PStr (template_status_value (tv_status v))), (''version'', PInt (int (tv_version v)))]) privileged"

definition get_or_create_template :: "actor \<Rightarrow> pk \<Rightarrow> string \<Rightarrow> ('a report_db_scheme, pk \<times> report_template) op" where
  "get_or_create_template u pid name s =
     (case template_of s pid of
        Some (k, t) \<Rightarrow> (Inr (k, t), s)
      | None \<Rightarrow>
          if 255 < length (py_strip name) then (Inl (DataError ''value too long''), s)
          else
            let t = \<lparr>tp_project = pid, tp_name = py_strip name, tp_active_version = None, tp_created_by = u_id u,
                     tp_created_at = db_now s, tp_updated_at = db_now s\<rparr>
            in (Inr (tbl_next (db_report_templates s), t),
                s\<lparr>db_report_templates := tbl_insert t (db_report_templates s)\<rparr>))"

definition new_version :: "actor \<Rightarrow> pk \<Rightarrow> pk \<Rightarrow> nat \<Rightarrow> instant \<Rightarrow> template_version" where
  "new_version u pid tk n now =
     \<lparr>tv_project = pid, tv_template = tk, tv_version_number = n, tv_status = Template_DRAFT, tv_version = 1,
      tv_created_by = u_id u, tv_created_at = now, tv_published_by = None, tv_published_at = None\<rparr>"

definition next_version_number :: "'a report_db_scheme \<Rightarrow> pk \<Rightarrow> nat" where
  "next_version_number s tk = Suc (maximum_or 0 (map (\<lambda>(_, v). tv_version_number v) (versions_of s tk)))"

definition copy_active_fields :: "report_template \<Rightarrow> pk \<Rightarrow> ('a report_db_scheme, unit) op" where
  "copy_active_fields t v s =
     (case tp_active_version t of
        None \<Rightarrow> (Inr (), s)
      | Some a \<Rightarrow> bulk_create_fields v (map (\<lambda>(_, f). field_definition.truncate f) (fields_of s a)) s)"

definition draft_version_of :: "'a report_db_scheme \<Rightarrow> pk \<Rightarrow> (pk \<times> template_version) option" where
  "draft_version_of s tk = tbl_first (\<lambda>_ v. tv_template v = tk \<and> tv_status v = Template_DRAFT) (db_template_versions s)"

definition create_template_draft :: "actor \<Rightarrow> pk \<times> research_project \<Rightarrow> string \<Rightarrow> ('a report_db_scheme, pk) op" where
  "create_template_draft u project name = atomic (\<lambda>s.
     case require_template_manager s u (fst project) (snd project) of
       Inl e \<Rightarrow> (Inl e, s)
     | Inr _ \<Rightarrow>
    (case get_or_create_template u (fst project) name s of
       (Inl e, s1) \<Rightarrow> (Inl e, s1)
     | (Inr (tk, t), s1) \<Rightarrow>
    (case draft_version_of s1 tk of
       Some (k, v) \<Rightarrow> (Inr k, s1)
     | None \<Rightarrow>
         let v = new_version u (fst project) tk (next_version_number s1 tk) (db_now s1)
         in case insert_version v s1 of
              (Inl e, s2) \<Rightarrow> (Inl e, s2)
            | (Inr k, s2) \<Rightarrow>
                (case copy_active_fields t k s2 of
                   (Inl e, s3) \<Rightarrow> (Inl e, s3)
                 | (Inr _, s3) \<Rightarrow> (Inr k, template_event (fst project) u ''report_template.draft_created'' k v False s3)))))"

text \<open>A version with the row of its project, as \<open>select_related\<close> reads them.\<close>

definition locked_version :: "'a report_db_scheme \<Rightarrow> pk \<Rightarrow> error + template_version \<times> research_project" where
  "locked_version s k =
     (case tbl_get (db_template_versions s) k of
        None \<Rightarrow> Inl (DoesNotExist ''ReportTemplateVersion'')
      | Some v \<Rightarrow> map_sum id (Pair v) (project_row s (tv_project v)))"

text \<open>Deleting the fields of a version is refused while a response names one of them.\<close>

definition delete_fields :: "pk \<Rightarrow> ('a report_db_scheme, unit) op" where
  "delete_fields v s =
     (if tbl_exists (\<lambda>_ r. list_ex (\<lambda>(k, _). rq_template_field r = k) (fields_of s v)) (db_report_responses s)
      then (Inl (IntegrityError ''ProtectedError''), s)
      else (Inr (), s\<lparr>db_template_fields := (db_template_fields s)\<lparr>tbl_rows :=
              filter (\<lambda>(_, f). fl_template_version f \<noteq> v) (tbl_rows (db_template_fields s))\<rparr>\<rparr>))"

definition replace_template_fields :: "actor \<Rightarrow> pk \<Rightarrow> int option \<Rightarrow> field_data list \<Rightarrow> ('a report_db_scheme, pk) op" where
  "replace_template_fields u k expected items = atomic (\<lambda>s.
     case locked_version s k of
       Inl e \<Rightarrow> (Inl e, s)
     | Inr (v, p) \<Rightarrow>
    (case require_template_manager s u (tv_project v) p of
       Inl e \<Rightarrow> (Inl e, s)
     | Inr _ \<Rightarrow>
     if tv_status v \<noteq> Template_DRAFT
     then (Inl (ValueError ''Only a draft can be edited; this version is published.''), s)
     else if expected \<noteq> Some (int (tv_version v))
     then (Inl (ValueError ''The report template changed; refresh and try again.''), s)
     else if \<not> (1 \<le> length items \<and> length items \<le> 50)
     then (Inl (ValueError ''A template requires between 1 and 50 fields.''), s)
     else case bulk_rows validate_field_definition items of
       Inl e \<Rightarrow> (Inl e, s)
     | Inr fs \<Rightarrow>
         if \<not> distinct (map fl_key fs) \<or> \<not> distinct (map fl_order fs)
         then (Inl (ValueError ''Field keys and order values must be unique.''), s)
         else (case delete_fields k s of
                 (Inl e, s1) \<Rightarrow> (Inl e, s1)
               | (Inr _, s1) \<Rightarrow>
                   (case bulk_create_fields k fs s1 of
                      (Inl e, s2) \<Rightarrow> (Inl e, s2)
                    | (Inr _, s2) \<Rightarrow>
                        (Inr k, s2\<lparr>db_template_versions :=
                           tbl_put k (v\<lparr>tv_version := Suc (tv_version v)\<rparr>) (db_template_versions s2)\<rparr>)))))"

definition supersede_published :: "pk \<Rightarrow> 'a report_db_scheme \<Rightarrow> 'a report_db_scheme" where
  "supersede_published tk s =
     s\<lparr>db_template_versions := tbl_update_where (\<lambda>_ v. tv_template v = tk \<and> tv_status v = Template_PUBLISHED)
         (\<lambda>v. v\<lparr>tv_status := Template_SUPERSEDED\<rparr>) (db_template_versions s)\<rparr>"

definition published_version :: "actor \<Rightarrow> instant \<Rightarrow> template_version \<Rightarrow> template_version" where
  "published_version u now v = v\<lparr>tv_status := Template_PUBLISHED, tv_published_by := Some (u_id u), tv_published_at := Some now\<rparr>"

definition activate_version :: "pk \<Rightarrow> pk \<Rightarrow> 'a report_db_scheme \<Rightarrow> 'a report_db_scheme" where
  "activate_version tk k s =
     s\<lparr>db_report_templates := tbl_update_where (\<lambda>j _. j = tk)
         (\<lambda>t. t\<lparr>tp_active_version := Some k, tp_updated_at := db_now s\<rparr>) (db_report_templates s)\<rparr>"

definition publish_template_version :: "actor \<Rightarrow> pk \<Rightarrow> int option \<Rightarrow> ('a report_db_scheme, pk) op" where
  "publish_template_version u k expected = atomic (\<lambda>s.
     case locked_version s k of
       Inl e \<Rightarrow> (Inl e, s)
     | Inr (v, p) \<Rightarrow>
    (case require_template_manager s u (tv_project v) p of
       Inl e \<Rightarrow> (Inl e, s)
     | Inr _ \<Rightarrow>
     if tv_status v = Template_PUBLISHED then (Inr k, s)
     else if tv_status v \<noteq> Template_DRAFT then (Inl (ValueError ''Only a draft template can be published.''), s)
     else if expected \<noteq> Some (int (tv_version v))
     then (Inl (ValueError ''The report template changed; refresh and try again.''), s)
     else if fields_of s k = [] then (Inl (ValueError ''Publish at least one valid template field.''), s)
     else case bulk_rows (\<lambda>(_, f). validate_field_definition (data_of_field (field_definition.truncate f))) (fields_of s k) of
       Inl e \<Rightarrow> (Inl e, s)
     | Inr _ \<Rightarrow>
         let v' = published_version u (db_now s) v; s1 = supersede_published (tv_template v) s;
             s2 = s1\<lparr>db_template_versions := tbl_put k v' (db_template_versions s1)\<rparr>
         in (Inr k, template_event (tv_project v) u ''report_template.published'' k v' True
               (activate_version (tv_template v) k s2))))"

section \<open>The default template\<close>

definition default_field :: "string \<Rightarrow> string \<Rightarrow> string \<Rightarrow> string \<Rightarrow> bool \<Rightarrow> int \<Rightarrow> bool \<Rightarrow> pydict" where
  "default_field key en zh ft required n analytics =
     [(''key'', PStr key), (''label_en'', PStr en), (''label_zh'', PStr zh), (''field_type'', PStr ft),
      (''required'', PBool required), (''order'', PInt n)]
     @ (if analytics then [(''analytics_enabled'', PBool True)] else [])"

definition default_fields :: "pydict list" where
  "default_fields =
     [default_field ''completed_work'' ''Completed work''
        [CHR 0xE5, CHR 0xB7, CHR 0xB2, CHR 0xE5, CHR 0xAE, CHR 0x8C, CHR 0xE6, CHR 0x88, CHR 0x90, CHR 0xE5, CHR 0xB7,
         CHR 0xA5, CHR 0xE4, CHR 0xBD, CHR 0x9C] ''long_text'' True 0 False,
      default_field ''blockers'' ''Blockers''
        [CHR 0xE9, CHR 0x98, CHR 0xBB, CHR 0xE7, CHR 0xA2, CHR 0x8D, CHR 0xE4, CHR 0xBA, CHR 0x8B, CHR 0xE9, CHR 0xA1,
         CHR 0xB9] ''risk_blocker'' False 1 True,
      default_field ''next_steps'' ''Next steps''
        [CHR 0xE4, CHR 0xB8, CHR 0x8B, CHR 0xE4, CHR 0xB8, CHR 0x80, CHR 0xE6, CHR 0xAD, CHR 0xA5, CHR 0xE8, CHR 0xAE,
         CHR 0xA1, CHR 0xE5, CHR 0x88, CHR 0x92] ''long_text'' True 2 False,
      default_field ''progress_percent'' ''Progress'' [CHR 0xE8, CHR 0xBF, CHR 0x9B, CHR 0xE5, CHR 0xBA, CHR 0xA6]
        ''percentage'' False 3 True]"

text \<open>An empty draft gets the four default fields; its version is read again before it is published.\<close>

definition fill_default :: "actor \<Rightarrow> pk \<Rightarrow> ('a report_db_scheme, unit) op" where
  "fill_default u k s =
     (if fields_of s k \<noteq> [] then (Inr (), s)
      else void (replace_template_fields u k (map_option (\<lambda>v. int (tv_version v)) (tbl_get (db_template_versions s) k))
             (map data_of_dict default_fields)) s)"

definition ensure_default_report_template :: "actor \<Rightarrow> pk \<times> research_project \<Rightarrow> ('a report_db_scheme, pk) op" where
  "ensure_default_report_template u project = atomic (\<lambda>s.
     case Option.bind (template_of s (fst project)) (\<lambda>(_, t). tp_active_version t) of
       Some k \<Rightarrow> (Inr k, s)
     | None \<Rightarrow>
         (case create_template_draft u project ''Weekly progress'' s of
            (Inl e, s1) \<Rightarrow> (Inl e, s1)
          | (Inr k, s1) \<Rightarrow>
              (case fill_default u k s1 of
                 (Inl e, s2) \<Rightarrow> (Inl e, s2)
               | (Inr _, s2) \<Rightarrow>
                   publish_template_version u k (map_option (\<lambda>v. int (tv_version v)) (tbl_get (db_template_versions s2) k)) s2)))"

section \<open>Reporting periods\<close>

definition iso_weekday :: "day \<Rightarrow> int" where
  "iso_weekday d = (d + 3) mod 7 + 1"

text \<open>The loop that looks for the weekday of the deadline: it returns for a weekday from 1 to 7 only.\<close>

partial_function (option) next_weekday :: "int \<Rightarrow> day \<Rightarrow> day option" where
  "next_weekday w d = (if iso_weekday d = w then Some d else next_weekday w (d + 1))"

declare next_weekday.simps [code]

definition schedule_of :: "'a report_db_scheme \<Rightarrow> pk \<Rightarrow> (pk \<times> report_schedule) option" where
  "schedule_of s pid = tbl_first (\<lambda>_ w. wk_project w = pid) (db_report_schedules s)"

definition period_deadline :: "'a report_db_scheme \<Rightarrow> pk \<Rightarrow> day \<Rightarrow> instant option" where
  "period_deadline s pid starts_on =
     (case schedule_of s pid of
        None \<Rightarrow> Some (combine (starts_on + 6) time_max)
      | Some (_, w) \<Rightarrow>
          map_option (\<lambda>d. from_local (db_zones s) (wk_timezone w) (combine d (wk_deadline_time w)))
            (next_weekday (wk_weekday w) starts_on))"

definition new_period :: "pk \<Rightarrow> day \<Rightarrow> instant \<Rightarrow> pk \<Rightarrow> instant \<Rightarrow> reporting_period" where
  "new_period pid starts_on deadline v now =
     \<lparr>pd_project = pid, pd_starts_on = starts_on, pd_ends_on = starts_on + 7, pd_deadline_at = deadline,
      pd_template_version = v, pd_state = Period_OPEN, pd_opened_at = now, pd_closed_at = None,
      pd_generation_key = ''weekly:'' @ str_of_nat pid @ '':'' @ str_of_day starts_on\<rparr>"

definition insert_period :: "reporting_period \<Rightarrow> ('a report_db_scheme, pk) op" where
  "insert_period p s =
     (if key_taken period_project_key p (db_reporting_periods s) \<or> key_taken period_generation_key p (db_reporting_periods s)
      then (Inl (IntegrityError ''unique_project_reporting_period''), s)
      else (Inr (tbl_next (db_reporting_periods s)), s\<lparr>db_reporting_periods := tbl_insert p (db_reporting_periods s)\<rparr>))"

definition reporting_period_of :: "'a report_db_scheme \<Rightarrow> pk \<Rightarrow> day \<Rightarrow> (pk \<times> reporting_period) option" where
  "reporting_period_of s pid d = tbl_first (\<lambda>_ p. pd_project p = pid \<and> pd_starts_on p = d) (db_reporting_periods s)"

text \<open>The default template is made in the name of the project's advisor.\<close>

definition project_template :: "pk \<times> research_project \<Rightarrow> ('a report_db_scheme, pk) op" where
  "project_template project s =
     (case actor_of s (rp_advisor (snd project)) of
        None \<Rightarrow> (Inl (DoesNotExist ''User''), s)
      | Some advisor \<Rightarrow> ensure_default_report_template advisor project s)"

definition open_reporting_period :: "pk \<times> research_project \<Rightarrow> day \<Rightarrow> ('a report_db_scheme, pk) op" where
  "open_reporting_period project starts_on = atomic (\<lambda>s.
     if rp_status (snd project) = ResearchProject_ARCHIVED
     then (Inl (ValueError ''Archived projects cannot open reporting periods.''), s)
     else case reporting_period_of s (fst project) starts_on of
       Some (k, _) \<Rightarrow> (Inr k, s)
     | None \<Rightarrow>
         (case project_template project s of
            (Inl e, s1) \<Rightarrow> (Inl e, s1)
          | (Inr v, s1) \<Rightarrow>
              (case period_deadline s1 (fst project) starts_on of
                 None \<Rightarrow> (Inl Does_not_return, s1)
               | Some deadline \<Rightarrow>
                   (case insert_period (new_period (fst project) starts_on deadline v (db_now s1)) s1 of
                      (Inl e, s2) \<Rightarrow> (Inl e, s2)
                    | (Inr k, s2) \<Rightarrow>
                        (Inr k, record_execution_event (Some (fst project)) None ''report_period.opened''
                           (Some (''ReportingPeriod'', k)) (Some [(''status'', PStr (period_state_value Period_OPEN))]) False s2)))))"

definition due_periods :: "'a report_db_scheme \<Rightarrow> instant \<Rightarrow> nat \<Rightarrow> (pk \<times> reporting_period) list" where
  "due_periods s now limit =
     take limit (sort_key (\<lambda>(_, p). pd_deadline_at p)
       (tbl_filter (\<lambda>_ p. pd_state p = Period_OPEN \<and> pd_deadline_at p < now) (db_reporting_periods s)))"

definition close_due_reporting_periods :: "instant option \<Rightarrow> nat \<Rightarrow> ('a report_db_scheme, nat) op" where
  "close_due_reporting_periods now limit s =
     (let current = (case now of None \<Rightarrow> db_now s | Some t \<Rightarrow> t); due = due_periods s current limit
      in (Inr (length due),
          s\<lparr>db_reporting_periods := tbl_update_where (\<lambda>k _. k \<in> fst ` set due)
              (\<lambda>p. p\<lparr>pd_state := Period_CLOSED, pd_closed_at := Some current\<rparr>) (db_reporting_periods s)\<rparr>))"

text \<open>
  One project of the weekly job. The defaults of \<open>get_or_create\<close> are evaluated first, whether the period is there
  or not; creating it is a savepoint, but nothing surrounds the loop.
\<close>

definition open_current_for :: "day \<Rightarrow> pk \<times> research_project \<Rightarrow> ('a report_db_scheme, nat) op" where
  "open_current_for starts_on project s =
     (case period_deadline s (fst project) starts_on of
        None \<Rightarrow> (Inl Does_not_return, s)
      | Some deadline \<Rightarrow>
          (case project_template project s of
             (Inl e, s1) \<Rightarrow> (Inl e, s1)
           | (Inr v, s1) \<Rightarrow>
               (case reporting_period_of s1 (fst project) starts_on of
                  Some _ \<Rightarrow> (Inr 0, s1)
                | None \<Rightarrow>
                    (case insert_period (new_period (fst project) starts_on deadline v (db_now s1)) s1 of
                       (Inl e, s2) \<Rightarrow> (Inl e, s2) | (Inr _, s2) \<Rightarrow> (Inr 1, s2)))))"

fun open_each :: "day \<Rightarrow> (pk \<times> research_project) list \<Rightarrow> ('a report_db_scheme, nat) op" where
  "open_each d [] s = (Inr 0, s)"
| "open_each d (p # ps) s =
     (case open_current_for d p s of
        (Inl e, s1) \<Rightarrow> (Inl e, s1)
      | (Inr n, s1) \<Rightarrow> (case open_each d ps s1 of (Inl e, s2) \<Rightarrow> (Inl e, s2) | (Inr m, s2) \<Rightarrow> (Inr (n + m), s2)))"

definition active_projects :: "'a project_db_scheme \<Rightarrow> (pk \<times> research_project) list" where
  "active_projects s = sort_key fst (tbl_filter (\<lambda>_ p. rp_status p = ResearchProject_ACTIVE) (db_projects s))"

definition open_current_reporting_periods :: "day option \<Rightarrow> nat \<Rightarrow> ('a report_db_scheme, nat) op" where
  "open_current_reporting_periods starts_on limit s =
     (let today = date_of (db_now s); start = (case starts_on of None \<Rightarrow> today - (iso_weekday today - 1) | Some d \<Rightarrow> d)
      in open_each start (take limit (active_projects s)) s)"

section \<open>The deadline schedule\<close>

definition clean_report_schedule :: "'a notification_db_scheme \<Rightarrow> report_schedule \<Rightarrow> error + unit" where
  "clean_report_schedule s w =
     (if wk_timezone w = [] then Inl (FieldError ''timezone'' ''This field cannot be blank.'')
      else if 64 < length (wk_timezone w) then Inl (FieldError ''timezone'' ''Ensure this value has at most 64 characters.'')
      else if wk_weekday w < 0 \<or> wk_weekday w > 32767 then Inl (FieldError ''weekday'' ''value out of range'')
      else if zone_malformed (db_zones s) (wk_timezone w) then Inl (ValueError ''timezone'')
      else first_error (dict_build
        (error_if (\<not> (1 \<le> wk_weekday w \<and> wk_weekday w \<le> 7)) ''weekday'' ''Weekday must be an ISO weekday from 1 to 7.''
         @ error_if (\<not> zone_known (db_zones s) (wk_timezone w)) ''timezone'' ''Enter a valid IANA timezone.''
         @ error_if (case tbl_get (db_projects s) (wk_project w) of None \<Rightarrow> True | Some p \<Rightarrow> rp_status p \<noteq> ResearchProject_ACTIVE)
             ''project'' ''Archived projects cannot configure report deadlines.'')))"

definition schedule_event :: "pk \<Rightarrow> actor \<Rightarrow> string \<Rightarrow> pk \<Rightarrow> 'a audit_db_scheme \<Rightarrow> 'a audit_db_scheme" where
  "schedule_event pid u action k =
     record_event (Some pid) (Some u) (''report_schedule.'' @ action) (''Report schedule '' @ action)
       (Some (''ProjectReportSchedule'', k)) event_defaults"

definition configure_project_report_schedule ::
  "actor \<Rightarrow> pk \<times> research_project \<Rightarrow> int \<Rightarrow> int \<Rightarrow> string \<Rightarrow> int option \<Rightarrow> ('a report_db_scheme, pk) op"
where
  "configure_project_report_schedule u project weekday deadline zone expected = atomic (\<lambda>s.
     if \<not> can_manage_report_schedule s u (fst project) (snd project)
     then (Inl (PermissionDenied ''You cannot configure this project's report schedule.''), s)
     else if rp_status (snd project) \<noteq> ResearchProject_ACTIVE
     then (Inl (ValidationError ''Archived projects cannot configure report deadlines.''), s)
     else case schedule_of s (fst project) of
       Some (k, w) \<Rightarrow>
         if expected \<noteq> None \<and> expected \<noteq> Some (int (wk_version w))
         then (Inl (VersionConflict [(''currentVersion'', PInt (int (wk_version w)))]), s)
         else
           let w' = w\<lparr>wk_weekday := weekday, wk_deadline_time := deadline, wk_timezone := zone, wk_updated_by := u_id u,
                      wk_version := Suc (wk_version w), wk_updated_at := db_now s\<rparr>
           in (case clean_report_schedule s w' of
                 Inl e \<Rightarrow> (Inl e, s)
               | Inr _ \<Rightarrow> (Inr k, schedule_event (fst project) u ''updated'' k
                   (s\<lparr>db_report_schedules := tbl_put k w' (db_report_schedules s)\<rparr>)))
     | None \<Rightarrow>
         if expected \<noteq> None \<and> expected \<noteq> Some 0
         then (Inl (ValidationError ''No current report schedule exists.''), s)
         else
           let w = \<lparr>wk_project = fst project, wk_weekday = weekday, wk_deadline_time = deadline, wk_timezone = zone,
                    wk_version = 1, wk_updated_by = u_id u, wk_created_at = db_now s, wk_updated_at = db_now s\<rparr>;
               k = tbl_next (db_report_schedules s)
           in (case clean_report_schedule s w of
                 Inl e \<Rightarrow> (Inl e, s)
               | Inr _ \<Rightarrow> (Inr k, schedule_event (fst project) u ''configured'' k
                   (s\<lparr>db_report_schedules := tbl_insert w (db_report_schedules s)\<rparr>))))"

definition remove_project_report_schedule :: "actor \<Rightarrow> pk \<times> research_project \<Rightarrow> int \<Rightarrow> ('a report_db_scheme, unit) op" where
  "remove_project_report_schedule u project expected = atomic (\<lambda>s.
     if \<not> can_manage_report_schedule s u (fst project) (snd project)
     then (Inl (PermissionDenied ''You cannot remove this project's report schedule.''), s)
     else case schedule_of s (fst project) of
       None \<Rightarrow> (Inr (), s)
     | Some (k, w) \<Rightarrow>
         if expected \<noteq> int (wk_version w)
         then (Inl (VersionConflict [(''currentVersion'', PInt (int (wk_version w)))]), s)
         else (Inr (),
           record_event (Some (fst project)) (Some u) ''report_schedule.removed'' ''Report schedule removed'' None
             (event_defaults\<lparr>opt_target_snapshot := Some [(''policyId'', PInt (int k)), (''outcome'', PStr ''removed'')]\<rparr>)
             (s\<lparr>db_report_schedules := tbl_delete k (db_report_schedules s)\<rparr>)))"

end
