(* ===== verification/ReportSubmissions.thy ===== *)
theory ReportSubmissions
  imports ReportTemplates
begin

text \<open>
  What students hand in and reviewers answer: structured reports and the older weekly reports
  (\<open>apps/submissions/report_services.py\<close>), inline comments (\<open>apps/submissions/comment_services.py\<close>) and drafts
  (\<open>apps/submissions/draft_services.py\<close>). Only \<open>submit_structured_report\<close> is atomic.
\<close>

section \<open>Values of a response\<close>

definition empty_response :: "pyval \<Rightarrow> bool" where
  "empty_response v \<longleftrightarrow> v = PNone \<or> v = PStr [] \<or> v = PList []"

type_synonym response = "pyval \<times> decimal option \<times> string \<times> string"

definition plain :: "pyval \<Rightarrow> response" where
  "plain v = (v, None, [], [])"

text \<open>A comparison that raises, or that must not hold.\<close>

definition refuse_if :: "error + bool \<Rightarrow> error \<Rightarrow> error + unit" where
  "refuse_if b e = (case b of Inl x \<Rightarrow> Inl x | Inr True \<Rightarrow> Inl e | Inr False \<Rightarrow> Inr ())"

definition below :: "decimal \<Rightarrow> decimal option \<Rightarrow> error + bool" where
  "below d lo = (case lo of None \<Rightarrow> Inr False | Some m \<Rightarrow> dec_less d m)"

definition above :: "decimal \<Rightarrow> decimal option \<Rightarrow> error + bool" where
  "above d hi = (case hi of None \<Rightarrow> Inr False | Some m \<Rightarrow> dec_less m d)"

definition number_response :: "(decimal \<Rightarrow> string) \<Rightarrow> template_field \<Rightarrow> pyval \<Rightarrow> error + response" where
  "number_response float_text f v =
     (case read_decimal (py_str v) of
        None \<Rightarrow> Inl (ValueError (fl_label_en f @ '' must be numeric.''))
      | Some d \<Rightarrow>
          (case refuse_if (below d (fl_min_value f)) (ValueError (fl_label_en f @ '' is below its minimum.'')) of
             Inl e \<Rightarrow> Inl e
           | Inr _ \<Rightarrow>
               (case refuse_if (above d (fl_max_value f)) (ValueError (fl_label_en f @ '' exceeds its maximum.'')) of
                  Inl e \<Rightarrow> Inl e
                | Inr _ \<Rightarrow> Inr (PFloat (float_text d), Some d, [], []))))"

text \<open>The set of the options' values.\<close>

definition choice_of :: "pyval \<Rightarrow> error + pyval" where
  "choice_of x =
     (case x of
        PDict d \<Rightarrow>
          (case map_of d ''value'' of
             None \<Rightarrow> Inl (KeyError ''value'')
           | Some v \<Rightarrow> if py_hashable v then Inr v else Inl (TypeError ''unhashable type''))
      | _ \<Rightarrow> Inl (TypeError ''indices must be integers''))"

definition allowed_values :: "template_field \<Rightarrow> error + pyval list" where
  "allowed_values f = (case fl_options f of PList xs \<Rightarrow> bulk_rows choice_of xs | _ \<Rightarrow> Inl (TypeError ''not iterable''))"

definition single_choice :: "template_field \<Rightarrow> pyval \<Rightarrow> error + response" where
  "single_choice f v =
     (case allowed_values f of
        Inl e \<Rightarrow> Inl e
      | Inr allowed \<Rightarrow>
          if \<not> py_hashable v then Inl (TypeError ''unhashable type'')
          else if \<not> py_member v allowed then Inl (ValueError (''Select a valid '' @ fl_label_en f @ '' option.''))
          else Inr (plain v))"

definition multiple_choice :: "template_field \<Rightarrow> pyval \<Rightarrow> error + response" where
  "multiple_choice f v =
     (case allowed_values f of
        Inl e \<Rightarrow> Inl e
      | Inr allowed \<Rightarrow>
          (case v of
             PList xs \<Rightarrow>
               if \<not> list_all py_hashable xs then Inl (TypeError ''unhashable type'')
               else if \<not> py_distinct xs \<or> \<not> list_all (\<lambda>x. py_member x allowed) xs
               then Inl (ValueError (''Select valid '' @ fl_label_en f @ '' options.''))
               else Inr (plain v)
           | _ \<Rightarrow> Inl (ValueError (''Select valid '' @ fl_label_en f @ '' options.''))))"

text \<open>The record an execution response points to: a milestone or a deliverable of the project.\<close>

definition pk_value :: "string \<Rightarrow> error + int" where
  "pk_value t = (case py_int t of None \<Rightarrow> Inl (ValueError ''Field 'id' expected a number'') | Some n \<Rightarrow> Inr n)"

definition source_exists :: "'a execution_db_scheme \<Rightarrow> pk \<Rightarrow> string \<Rightarrow> string \<Rightarrow> error + bool" where
  "source_exists s pid st sid =
     (if st = ''milestone'' then map_sum id (\<lambda>n. tbl_exists (\<lambda>k m. int k = n \<and> ms_project m = pid) (db_milestones s)) (pk_value sid)
      else if st = ''deliverable''
      then map_sum id (\<lambda>n. tbl_exists (\<lambda>k d. int k = n \<and> dl_project d = pid) (db_deliverables s)) (pk_value sid)
      else Inr False)"

definition percent_outside :: "decimal \<Rightarrow> error + bool" where
  "percent_outside d =
     (case dec_less d (dec_int 0) of Inl e \<Rightarrow> Inl e | Inr True \<Rightarrow> Inr True | Inr False \<Rightarrow> dec_less (dec_int 100) d)"

definition progress_value :: "pyval \<Rightarrow> error + decimal option" where
  "progress_value v =
     (if v = PNone then Inr None
      else case read_decimal (py_str v) of
        None \<Rightarrow> Inl (InvalidOperation ''ConversionSyntax'')
      | Some d \<Rightarrow> map_sum id (\<lambda>_. Some d)
          (refuse_if (percent_outside d) (ValueError ''Execution progress must be between 0 and 100.'')))"

definition progress_response :: "'a execution_db_scheme \<Rightarrow> pk \<Rightarrow> pyval \<Rightarrow> error + response" where
  "progress_response s pid v =
     (case v of
        PDict d \<Rightarrow>
          let st = py_str (dict_get_or ''sourceType'' (PStr []) d); sid = py_str (dict_get_or ''sourceId'' (PStr []) d)
          in (case source_exists s pid st sid of
                Inl e \<Rightarrow> Inl e
              | Inr False \<Rightarrow> Inl (ValueError ''Execution source must belong to this project.'')
              | Inr True \<Rightarrow> map_sum id (\<lambda>n. (v, n, st, sid)) (progress_value (dict_get ''progressPercent'' d)))
      | _ \<Rightarrow> Inl (ValueError ''Execution progress must select a project record.''))"

definition risk_response :: "pyval \<Rightarrow> error + response" where
  "risk_response v =
     (case v of
        PList xs \<Rightarrow> Inr (v, Some (dec_int (int (length xs))), [], [])
      | PStr t \<Rightarrow> Inr (v, Some (dec_int (if py_truthy v then 1 else 0)), [], [])
      | PDict d \<Rightarrow> Inr (v, Some (dec_int (if py_truthy v then 1 else 0)), [], [])
      | _ \<Rightarrow> Inl (ValueError ''Risk or blocker response is invalid.''))"

definition text_response :: "template_field \<Rightarrow> pyval \<Rightarrow> error + response" where
  "text_response f v =
     (case v of
        PStr t \<Rightarrow> if 12000 < length t then Inl (ValueError (fl_label_en f @ '' must be text.'')) else Inr (plain v)
      | _ \<Rightarrow> Inl (ValueError (fl_label_en f @ '' must be text.'')))"

definition validate_response_value :: "'a report_db_scheme \<Rightarrow> pk \<Rightarrow> template_field \<Rightarrow> pyval \<Rightarrow> error + response" where
  "validate_response_value s pid f v =
     (if empty_response v
      then if fl_required f then Inl (ValueError (fl_label_en f @ '' is required.'')) else Inr (plain v)
      else case fl_field_type f of
        Field_LONG_TEXT \<Rightarrow> text_response f v
      | Field_NUMBER \<Rightarrow> number_response (db_float_text s) f v
      | Field_PERCENTAGE \<Rightarrow> number_response (db_float_text s) f v
      | Field_SINGLE_CHOICE \<Rightarrow> single_choice f v
      | Field_MULTIPLE_CHOICE \<Rightarrow> multiple_choice f v
      | Field_EXECUTION_PROGRESS \<Rightarrow> progress_response s pid v
      | Field_RISK_BLOCKER \<Rightarrow> risk_response v)"

section \<open>Structured reports\<close>

text \<open>The responses kept: those that are given, with the field they answer.\<close>

definition prepare_responses ::
  "'a report_db_scheme \<Rightarrow> pk \<Rightarrow> (pk \<times> template_field) list \<Rightarrow> pydict \<Rightarrow> error + (pk \<times> response) list"
where
  "prepare_responses s pid fs responses =
     map_sum id (\<lambda>rs. map (\<lambda>(k, f, r). (k, r)) (filter (\<lambda>(k, f, v, _). \<not> empty_response v \<or> fl_required f) rs))
       (bulk_rows (\<lambda>(k, f). map_sum id (\<lambda>r. (k, f, r)) (validate_response_value s pid f (dict_get (fl_key f) responses))) fs)"

definition reports_by :: "'a report_db_scheme \<Rightarrow> pk \<Rightarrow> pk \<Rightarrow> (weekly_report \<Rightarrow> bool) \<Rightarrow> (pk \<times> weekly_report) list" where
  "reports_by s pid student P =
     tbl_filter (\<lambda>_ r. wr_project r = pid \<and> wr_student r = student \<and> P r) (db_weekly_reports s)"

text \<open>\<open>order_by("-revision_number").first()\<close>\<close>

definition latest_report :: "(pk \<times> weekly_report) list \<Rightarrow> (pk \<times> weekly_report) option" where
  "latest_report xs =
     (case rev (sort_key (\<lambda>(_, r). wr_revision_number r) xs) of [] \<Rightarrow> None | x # _ \<Rightarrow> Some x)"

definition next_revision :: "'a report_db_scheme \<Rightarrow> pk \<Rightarrow> pk \<Rightarrow> day \<Rightarrow> nat" where
  "next_revision s pid student week =
     Suc (maximum_or 0 (map (\<lambda>(_, r). wr_revision_number r) (reports_by s pid student (\<lambda>r. wr_report_week_start r = week))))"

definition structured_report ::
  "pk \<Rightarrow> pk \<Rightarrow> pk \<Rightarrow> reporting_period \<Rightarrow> pydict \<Rightarrow> nat \<Rightarrow> string \<Rightarrow> instant \<Rightarrow> weekly_report"
where
  "structured_report pid student period p responses revision key now =
     \<lparr>wr_project = pid, wr_student = student, wr_report_week_start = pd_starts_on p,
      wr_completed_work = py_str (dict_get_or ''completed_work'' (PStr []) responses),
      wr_blockers = py_str (dict_get_or ''blockers'' (PStr []) responses),
      wr_next_steps = py_str (dict_get_or ''next_steps'' (PStr []) responses),
      wr_attachment_reference = [], wr_revision_number = revision, wr_review_status = Report_PENDING_REVIEW,
      wr_submitted_at = now, wr_reviewed_at = None, wr_reporting_period = Some period,
      wr_template_version = Some (pd_template_version p), wr_submitted_late = (pd_deadline_at p < now),
      wr_idempotency_key = key, wr_response_schema_version = 1\<rparr>"

definition response_row :: "pk \<Rightarrow> pk \<Rightarrow> instant \<Rightarrow> pk \<times> response \<Rightarrow> error + report_response" where
  "response_row pid report now x =
     (case x of (field, v, numeric, st, sid) \<Rightarrow>
        if 80 < length sid then Inl (DataError ''value too long'')
        else map_sum id (\<lambda>n. \<lparr>rq_project = pid, rq_report = report, rq_template_field = field, rq_value = v,
               rq_numeric_value = n, rq_source_type = st, rq_source_id = sid, rq_created_at = now\<rparr>)
             (numeric_option numeric))"

definition insert_responses :: "pk \<Rightarrow> pk \<Rightarrow> (pk \<times> response) list \<Rightarrow> ('a report_db_scheme, unit) op" where
  "insert_responses pid report xs s =
     (case bulk_rows (response_row pid report (db_now s)) xs of
        Inl e \<Rightarrow> (Inl e, s)
      | Inr rows \<Rightarrow>
          if list_ex (\<lambda>r. key_taken response_key r (db_report_responses s)) rows \<or> \<not> distinct (map rq_template_field rows)
          then (Inl (IntegrityError ''unique_report_field_response''), s)
          else (Inr (), s\<lparr>db_report_responses := insert_all rows (db_report_responses s)\<rparr>))"

definition structured_event :: "pk \<Rightarrow> actor \<Rightarrow> pk \<Rightarrow> nat \<Rightarrow> 'a audit_db_scheme \<Rightarrow> 'a audit_db_scheme" where
  "structured_event pid u k revision =
     record_event (Some pid) (Some u) ''weekly_report.structured_submitted''
       (''Submitted structured report revision '' @ str_of_nat revision) (Some (''WeeklyProgressReport'', k))
       (event_defaults\<lparr>opt_target_snapshot := Some [(''status'', PStr (report_review_value Report_PENDING_REVIEW)),
            (''version'', PInt 1)],
          opt_allowed_snapshot_keys := Some {''status'', ''version''}\<rparr>)"

text \<open>The part that writes: the report, its responses, the notifications, the event.\<close>

definition store_structured ::
  "actor \<Rightarrow> pk \<Rightarrow> pk \<Rightarrow> reporting_period \<Rightarrow> pydict \<Rightarrow> string \<Rightarrow> (pk \<times> response) list \<Rightarrow> ('a report_db_scheme, pk) op"
where
  "store_structured u pid period p responses key prepared s =
     (let revision = next_revision s pid (u_id u) (pd_starts_on p)
      in case insert_report (structured_report pid (u_id u) period p responses revision key (db_now s)) s of
        (Inl e, s1) \<Rightarrow> (Inl e, s1)
      | (Inr k, s1) \<Rightarrow>
     (case insert_responses pid k prepared s1 of
        (Inl e, s2) \<Rightarrow> (Inl e, s2)
      | (Inr _, s2) \<Rightarrow>
     (case notify_members pid {ProjectMembership_ADVISOR, ProjectMembership_CO_ADVISOR} u (''WeeklyProgressReport'', k)
             ''Structured progress report submitted'' (''/projects/'' @ str_of_nat pid @ ''/reviews'') Notification_REPORT s2 of
        (Inl e, s3) \<Rightarrow> (Inl e, s3)
      | (Inr _, s3) \<Rightarrow> (Inr k, structured_event pid u k revision s3))))"

definition structured_allowed :: "'a project_db_scheme \<Rightarrow> actor \<Rightarrow> pk \<times> research_project \<Rightarrow> error + unit" where
  "structured_allowed s u project =
     (if \<not> active_student_member s u (fst project)
      then Inl (PermissionDenied ''Only project students can submit progress reports.'')
      else ensure_project_writable (snd project))"

definition unknown_keys :: "(pk \<times> template_field) list \<Rightarrow> pydict \<Rightarrow> bool" where
  "unknown_keys fs responses \<longleftrightarrow> list_ex (\<lambda>(key, _). key \<notin> (\<lambda>(_, f). fl_key f) ` set fs) responses"

definition submit_structured_report ::
  "actor \<Rightarrow> pk \<times> research_project \<Rightarrow> pk \<Rightarrow> pydict \<Rightarrow> string \<Rightarrow> ('a report_db_scheme, pk) op"
where
  "submit_structured_report u project period responses key = atomic (\<lambda>s.
     case structured_allowed s u project of
       Inl e \<Rightarrow> (Inl e, s)
     | Inr _ \<Rightarrow>
    (case tbl_get (db_reporting_periods s) period of
       None \<Rightarrow> (Inl (DoesNotExist ''ReportingPeriod''), s)
     | Some p \<Rightarrow>
     if pd_project p \<noteq> fst project then (Inl (ValueError ''Reporting period must belong to this project.''), s)
     else case reports_by s (fst project) (u_id u) (\<lambda>r. wr_idempotency_key r = key) of
       (k, _) # _ \<Rightarrow> (Inr k, s)
     | [] \<Rightarrow>
     if (case latest_report (reports_by s (fst project) (u_id u) (\<lambda>r. wr_reporting_period r = Some period)) of
           None \<Rightarrow> False | Some (_, r) \<Rightarrow> wr_review_status r \<noteq> Report_NEEDS_REVISION)
     then (Inl (ValueError ''This reporting period is awaiting review.''), s)
     else
       let fs = fields_of s (pd_template_version p)
       in if unknown_keys fs responses
          then (Inl (ValueError ''A response references an unknown template field.''), s)
          else (case prepare_responses s (fst project) fs responses of
                  Inl e \<Rightarrow> (Inl e, s)
                | Inr prepared \<Rightarrow> store_structured u (fst project) period p responses key prepared s)))"

section \<open>Weekly reports\<close>

record report_args =
  rg_report_week_start :: day
  rg_completed_work :: string
  rg_blockers :: string
  rg_next_steps :: string
  rg_attachment_reference :: string

definition written_report :: "pk \<Rightarrow> pk \<Rightarrow> report_args \<Rightarrow> nat \<Rightarrow> instant \<Rightarrow> weekly_report" where
  "written_report pid student a revision now =
     \<lparr>wr_project = pid, wr_student = student, wr_report_week_start = rg_report_week_start a,
      wr_completed_work = rg_completed_work a, wr_blockers = rg_blockers a, wr_next_steps = rg_next_steps a,
      wr_attachment_reference = rg_attachment_reference a, wr_revision_number = revision,
      wr_review_status = Report_PENDING_REVIEW, wr_submitted_at = now, wr_reviewed_at = None,
      wr_reporting_period = None, wr_template_version = None, wr_submitted_late = False, wr_idempotency_key = [],
      wr_response_schema_version = 1\<rparr>"

definition report_event :: "pk \<Rightarrow> actor \<Rightarrow> string \<Rightarrow> string \<Rightarrow> pk \<Rightarrow> 'a audit_db_scheme \<Rightarrow> 'a audit_db_scheme" where
  "report_event pid u action summary k =
     record_event (Some pid) (Some u) action summary (Some (''WeeklyProgressReport'', k)) event_defaults"

definition submit_allowed :: "'a project_db_scheme \<Rightarrow> actor \<Rightarrow> pk \<times> research_project \<Rightarrow> string \<Rightarrow> error + unit" where
  "submit_allowed s u project message =
     (if \<not> user_is_active_project_member s u (fst project) then Inl (PermissionDenied ''You are not a member of this project'')
      else case ensure_project_writable (snd project) of
        Inl e \<Rightarrow> Inl e
      | Inr _ \<Rightarrow> if \<not> active_student_member s u (fst project) then Inl (PermissionDenied message) else Inr ())"

definition submit_report :: "actor \<Rightarrow> pk \<times> research_project \<Rightarrow> report_args \<Rightarrow> ('a report_db_scheme, pk) op" where
  "submit_report u project a s =
     (case submit_allowed s u project ''Only project students can submit weekly reports'' of
        Inl e \<Rightarrow> (Inl e, s)
      | Inr _ \<Rightarrow>
          let latest = latest_report (reports_by s (fst project) (u_id u) (\<lambda>r. wr_report_week_start r = rg_report_week_start a));
              revision = (case latest of None \<Rightarrow> 1 | Some (_, r) \<Rightarrow> Suc (wr_revision_number r))
          in if (case latest of None \<Rightarrow> False | Some (_, r) \<Rightarrow> wr_review_status r \<noteq> Report_NEEDS_REVISION)
             then (Inl (ValidationError ''A weekly report already exists for this project week. Wait for review or choose a different week.''), s)
             else (case insert_report (written_report (fst project) (u_id u) a revision (db_now s)) s of
                     (Inl e, s1) \<Rightarrow> (Inl e, s1)
                   | (Inr k, s1) \<Rightarrow>
                       (case notify_members (fst project) {ProjectMembership_ADVISOR, ProjectMembership_CO_ADVISOR} u
                               (''WeeklyProgressReport'', k) ''New weekly progress report submitted''
                               (''/projects/'' @ str_of_nat (fst project) @ ''/reports/'' @ str_of_nat k)
                               Notification_ADMINISTRATION s1 of
                          (Inl e, s2) \<Rightarrow> (Inl e, s2)
                        | (Inr _, s2) \<Rightarrow>
                            (Inr k, report_event (fst project) u ''weekly_report.submitted''
                               (''Submitted weekly progress report revision '' @ str_of_nat revision) k s2))))"

definition update_report_review ::
  "actor \<Rightarrow> pk \<times> research_project \<Rightarrow> pk \<Rightarrow> report_review \<Rightarrow> ('a report_db_scheme, pk) op"
where
  "update_report_review u project k status s =
     (case tbl_get (db_weekly_reports s) k of
        None \<Rightarrow> (Inl (DoesNotExist ''WeeklyProgressReport''), s)
      | Some r \<Rightarrow>
          if \<not> reviewer_can_access_target s u (WeeklyReport k)
          then (Inl (PermissionDenied ''You are not assigned to review this report''), s)
          else case ensure_project_writable (snd project) of
            Inl e \<Rightarrow> (Inl e, s)
          | Inr _ \<Rightarrow>
              (Inr k, report_event (fst project) u ''weekly_report.reviewed''
                 (''Set weekly report '' @ str_of_nat k @ '' to '' @ report_review_value status) k
                 (s\<lparr>db_weekly_reports := tbl_put k (r\<lparr>wr_review_status := status, wr_reviewed_at := Some (db_now s)\<rparr>)
                    (db_weekly_reports s)\<rparr>)))"

section \<open>Inline comments\<close>

definition comment_event :: "pk \<Rightarrow> actor \<Rightarrow> string \<Rightarrow> string \<Rightarrow> pk \<Rightarrow> 'a audit_db_scheme \<Rightarrow> 'a audit_db_scheme" where
  "comment_event pid u action summary k =
     record_event (Some pid) (Some u) action summary (Some (''InlineComment'', k)) event_defaults"

definition create_comment ::
  "actor \<Rightarrow> pk \<times> research_project \<Rightarrow> comment_target \<Rightarrow> pk \<Rightarrow> string \<Rightarrow> string \<Rightarrow> ('a report_db_scheme, pk) op"
where
  "create_comment u project tt tid anchor body s =
     (case ensure_project_writable (snd project) of
        Inl e \<Rightarrow> (Inl e, s)
      | Inr _ \<Rightarrow>
      if tt \<noteq> Comment_PROGRESS_REPORT
      then (Inl (ValidationError ''Inline comments are only supported for weekly reports''), s)
      else case tbl_get (db_weekly_reports s) tid of
        None \<Rightarrow> (Inl (DoesNotExist ''WeeklyProgressReport''), s)
      | Some r \<Rightarrow>
          if wr_project r \<noteq> fst project
          then (Inl (ValidationError ''Comment target must belong to the same project''), s)
          else if \<not> reviewer_can_access_target s u (WeeklyReport tid)
          then (Inl (PermissionDenied ''You are not assigned to review this report''), s)
          else if 255 < length anchor then (Inl (DataError ''value too long''), s)
          else
            let c = \<lparr>ic_project = fst project, ic_target_type = tt, ic_target_id = tid, ic_author = u_id u, ic_anchor = anchor,
                     ic_body = body, ic_status = Comment_OPEN, ic_created_at = db_now s, ic_updated_at = db_now s,
                     ic_resolved_at = None\<rparr>;
                k = tbl_next (db_inline_comments s)
            in (Inr k, comment_event (fst project) u ''comment.created''
                  (''Commented on '' @ comment_target_value tt @ '' '' @ str_of_nat tid) k
                  (s\<lparr>db_inline_comments := tbl_insert c (db_inline_comments s)\<rparr>)))"

definition set_comment_status ::
  "actor \<Rightarrow> pk \<times> research_project \<Rightarrow> pk \<Rightarrow> comment_status \<Rightarrow> ('a report_db_scheme, pk) op"
where
  "set_comment_status u project k status s =
     (case tbl_get (db_inline_comments s) k of
        None \<Rightarrow> (Inl (DoesNotExist ''InlineComment''), s)
      | Some c \<Rightarrow>
     (case ensure_project_writable (snd project) of
        Inl e \<Rightarrow> (Inl e, s)
      | Inr _ \<Rightarrow>
      if ic_target_type c \<noteq> Comment_PROGRESS_REPORT then (Inl (PermissionDenied ''You cannot update this comment''), s)
      else case tbl_get (db_weekly_reports s) (ic_target_id c) of
        None \<Rightarrow> (Inl (DoesNotExist ''WeeklyProgressReport''), s)
      | Some r \<Rightarrow>
          if \<not> reviewer_can_access_target s u (WeeklyReport (ic_target_id c))
          then (Inl (PermissionDenied ''You are not assigned to review this report''), s)
          else
            let c' = c\<lparr>ic_status := status, ic_updated_at := db_now s,
                       ic_resolved_at := (if status = Comment_RESOLVED then Some (db_now s) else None)\<rparr>
            in (Inr k, comment_event (fst project) u ''comment.status_changed''
                  (''Set comment '' @ str_of_nat k @ '' to '' @ comment_status_value status) k
                  (s\<lparr>db_inline_comments := tbl_put k c' (db_inline_comments s)\<rparr>))))"

section \<open>Drafts\<close>

definition draft_event :: "pk \<Rightarrow> actor \<Rightarrow> string \<Rightarrow> string \<Rightarrow> string \<times> pk \<Rightarrow> 'a audit_db_scheme \<Rightarrow> 'a audit_db_scheme" where
  "draft_event pid u action summary target =
     record_event (Some pid) (Some u) action summary (Some target) event_defaults"

definition create_draft :: "actor \<Rightarrow> pk \<times> research_project \<Rightarrow> string \<Rightarrow> ('a report_db_scheme, pk) op" where
  "create_draft u project title s =
     (case submit_allowed s u project ''Only project students can submit drafts'' of
        Inl e \<Rightarrow> (Inl e, s)
      | Inr _ \<Rightarrow>
          if 255 < length title then (Inl (DataError ''value too long''), s)
          else
            let d = \<lparr>df_project = fst project, df_title = title, df_student = u_id u, df_status = Draft_ACTIVE,
                     df_created_at = db_now s, df_updated_at = db_now s\<rparr>;
                k = tbl_next (db_drafts s)
            in (Inr k, draft_event (fst project) u ''draft.created'' (''Created draft '' @ title) (''Draft'', k)
                  (s\<lparr>db_drafts := tbl_insert d (db_drafts s)\<rparr>)))"

definition next_draft_number :: "'a report_db_scheme \<Rightarrow> pk \<Rightarrow> nat" where
  "next_draft_number s k =
     Suc (maximum_or 0 (map (\<lambda>(_, v). dv_version_number v) (tbl_filter (\<lambda>_ v. dv_draft v = k) (db_draft_versions s))))"

definition insert_draft_version :: "draft_version \<Rightarrow> ('a report_db_scheme, pk) op" where
  "insert_draft_version v s =
     (if 512 < length (dv_content_reference v) then (Inl (DataError ''value too long''), s)
      else if key_taken draft_number_key v (db_draft_versions s)
      then (Inl (IntegrityError ''submissions_draftversion_draft_id_version_number''), s)
      else (Inr (tbl_next (db_draft_versions s)),
            s\<lparr>db_draft_versions := tbl_insert v (db_draft_versions s),
              db_draft_version_project := (db_draft_version_project s)(tbl_next (db_draft_versions s) \<mapsto> dv_project v)\<rparr>))"

definition draft_guard :: "'a report_db_scheme \<Rightarrow> actor \<Rightarrow> pk \<times> research_project \<Rightarrow> draft \<Rightarrow> error + unit" where
  "draft_guard s u project d =
     (if \<not> user_is_active_project_member s u (fst project) then Inl (PermissionDenied ''You are not a member of this project'')
      else case ensure_project_writable (snd project) of
        Inl e \<Rightarrow> Inl e
      | Inr _ \<Rightarrow>
          if df_student d \<noteq> u_id u then Inl (PermissionDenied ''Only the draft owner can submit a new version'')
          else if df_status d \<noteq> Draft_ACTIVE then Inl (PermissionDenied ''Closed drafts cannot receive new versions'')
          else Inr ())"

definition submit_draft_version ::
  "actor \<Rightarrow> pk \<times> research_project \<Rightarrow> pk \<Rightarrow> string \<Rightarrow> string \<Rightarrow> ('a report_db_scheme, pk) op"
where
  "submit_draft_version u project k reference summary s =
     (case tbl_get (db_drafts s) k of
        None \<Rightarrow> (Inl (DoesNotExist ''Draft''), s)
      | Some d \<Rightarrow>
     (case draft_guard s u project d of
        Inl e \<Rightarrow> (Inl e, s)
      | Inr _ \<Rightarrow>
          let v = \<lparr>dv_draft = k, dv_project = fst project, dv_version_number = next_draft_number s k,
                   dv_submitted_by = u_id u, dv_content_reference = reference, dv_summary = summary,
                   dv_review_status = Report_PENDING_REVIEW, dv_submitted_at = db_now s, dv_reviewed_at = None\<rparr>
          in (case insert_draft_version v s of
                (Inl e, s1) \<Rightarrow> (Inl e, s1)
              | (Inr vk, s1) \<Rightarrow>
                  (case notify_members (fst project) {ProjectMembership_ADVISOR, ProjectMembership_REVIEWER} u
                          (''DraftVersion'', vk) (''New draft submitted: '' @ df_title d) ''/writing''
                          Notification_ADMINISTRATION s1 of
                     (Inl e, s2) \<Rightarrow> (Inl e, s2)
                   | (Inr _, s2) \<Rightarrow>
                       (Inr vk, draft_event (fst project) u ''draft_version.submitted''
                          (''Submitted draft version '' @ str_of_nat (dv_version_number v)) (''DraftVersion'', vk) s2)))))"

definition update_draft_review ::
  "actor \<Rightarrow> pk \<times> research_project \<Rightarrow> pk \<Rightarrow> report_review \<Rightarrow> ('a report_db_scheme, pk) op"
where
  "update_draft_review u project k status s =
     (case tbl_get (db_draft_versions s) k of
        None \<Rightarrow> (Inl (DoesNotExist ''DraftVersion''), s)
      | Some v \<Rightarrow>
     (case require_project_reviewer u (fst project) s of
        (Inl e, s1) \<Rightarrow> (Inl e, s1)
      | (Inr _, s1) \<Rightarrow>
     (case ensure_project_writable (snd project) of
        Inl e \<Rightarrow> (Inl e, s1)
      | Inr _ \<Rightarrow>
          (Inr k, draft_event (fst project) u ''draft_version.reviewed''
             (''Set draft version '' @ str_of_nat k @ '' to '' @ report_review_value status) (''DraftVersion'', k)
             (s1\<lparr>db_draft_versions := tbl_put k (v\<lparr>dv_review_status := status, dv_reviewed_at := Some (db_now s1)\<rparr>)
                (db_draft_versions s1)\<rparr>)))))"

end
