(* ===== verification/ReportRules.thy ===== *)
theory ReportRules
  imports ReportSubmissions
begin

text \<open>
  The invariant of the report tables (\<open>reports_ok\<close>) and the relation each write stands in (\<open>report_step\<close>): the
  invariant is kept, a version that left its draft keeps its status and its fields, and a report that was handed in
  keeps its text and its responses.

  \<open>composable\<close> is the contract of such relations: what holds of every write holds of a handler.
\<close>

section \<open>Relations that compose along a handler\<close>

locale composable =
  fixes R :: "'s \<Rightarrow> 's \<Rightarrow> bool"
  assumes reflexive: "R s s"
    and transitive: "R s t \<Longrightarrow> R t u \<Longrightarrow> R s u"
begin

lemma of_case:
  assumes "(case M of (Inl e, s1) \<Rightarrow> (Inl e, s1) | (Inr x, s1) \<Rightarrow> f x s1) = (r, s')"
    and "\<And>q t. M = (q, t) \<Longrightarrow> R s t"
    and "\<And>x t. M = (Inr x, t) \<Longrightarrow> R s t \<Longrightarrow> f x t = (r, s') \<Longrightarrow> R t s'"
  shows "R s s'"
proof -
  obtain q t where M: "M = (q, t)" by fastforce
  note 1 = assms(2) [OF M]
  show ?thesis
  proof (cases q)
    case (Inr x)
    then have "R t s'" using assms(1) M 1 by (intro assms(3) [of x t]) auto
    then show ?thesis by (rule transitive [OF 1])
  qed (use assms(1) M 1 in auto)
qed

lemma of_atomic: "atomic m s = (r, s') \<Longrightarrow> (\<And>q t. m s = (q, t) \<Longrightarrow> R s t) \<Longrightarrow> R s s'"
  by (cases r) (auto simp: reflexive)

lemma of_void: "void m s = (r, s') \<Longrightarrow> (\<And>q t. m s = (q, t) \<Longrightarrow> R s t) \<Longrightarrow> R s s'"
  by (auto simp: void_def split: prod.splits sum.splits)

end

section \<open>The invariant\<close>

definition released :: "template_version table \<Rightarrow> pk \<Rightarrow> bool" where
  "released t v \<longleftrightarrow> (case tbl_get t v of None \<Rightarrow> False | Some w \<Rightarrow> tv_status w \<noteq> Template_DRAFT)"

definition schedules_fine :: "report_schedule table \<Rightarrow> bool" where
  "schedules_fine t \<longleftrightarrow> tbl_wf t \<and> unique_on schedule_project_key t
     \<and> (\<forall>(k, w) \<in> set (tbl_rows t). 1 \<le> wk_weekday w \<and> wk_weekday w \<le> 7)"

text \<open>The active version of a template is its published one, and the other way round.\<close>

definition templates_fine :: "report_template table \<Rightarrow> template_version table \<Rightarrow> bool" where
  "templates_fine ts vs \<longleftrightarrow> tbl_wf ts \<and> unique_on template_project_key ts
     \<and> tbl_wf vs \<and> unique_on template_number_key vs \<and> unique_on template_draft_key vs \<and> unique_on template_published_key vs
     \<and> (\<forall>k v. tbl_get vs k = Some v \<longrightarrow> tbl_get ts (tv_template v) \<noteq> None)
     \<and> (\<forall>tk t k. tbl_get ts tk = Some t \<longrightarrow>
          tp_active_version t = Some k \<longleftrightarrow> (\<exists>v. tbl_get vs k = Some v \<and> tv_template v = tk \<and> tv_status v = Template_PUBLISHED))"

definition fields_fine :: "template_version table \<Rightarrow> template_field table \<Rightarrow> bool" where
  "fields_fine vs fs \<longleftrightarrow> tbl_wf fs \<and> unique_on field_name_key fs \<and> unique_on field_order_key fs
     \<and> (\<forall>(k, f) \<in> set (tbl_rows fs). tbl_get vs (fl_template_version f) \<noteq> None)"

definition periods_fine :: "template_version table \<Rightarrow> reporting_period table \<Rightarrow> bool" where
  "periods_fine vs ps \<longleftrightarrow> tbl_wf ps \<and> unique_on period_project_key ps \<and> unique_on period_generation_key ps
     \<and> (\<forall>(k, p) \<in> set (tbl_rows ps). released vs (pd_template_version p) \<and> pd_ends_on p = pd_starts_on p + 7)"

definition same_week :: "weekly_report \<Rightarrow> weekly_report \<Rightarrow> bool" where
  "same_week r r' \<longleftrightarrow>
     wr_project r' = wr_project r \<and> wr_student r' = wr_student r \<and> wr_report_week_start r' = wr_report_week_start r"

text \<open>The revisions of a week are numbered from one, without a gap.\<close>

definition week_has :: "weekly_report table \<Rightarrow> weekly_report \<Rightarrow> nat \<Rightarrow> bool" where
  "week_has t r m \<longleftrightarrow> tbl_exists (\<lambda>_ r'. same_week r r' \<and> wr_revision_number r' = m) t"

definition revisions_contiguous :: "weekly_report table \<Rightarrow> bool" where
  "revisions_contiguous t \<longleftrightarrow>
     (\<forall>k r. (k, r) \<in> set (tbl_rows t) \<longrightarrow> 1 \<le> wr_revision_number r
        \<and> (\<forall>m. 1 \<le> m \<and> m < wr_revision_number r \<longrightarrow> week_has t r m))"

definition report_of_period :: "reporting_period table \<Rightarrow> weekly_report \<Rightarrow> bool" where
  "report_of_period ps r \<longleftrightarrow>
     (case wr_reporting_period r of
        None \<Rightarrow> True
      | Some k \<Rightarrow> \<exists>p. tbl_get ps k = Some p \<and> wr_template_version r = Some (pd_template_version p)
          \<and> wr_report_week_start r = pd_starts_on p \<and> wr_project r = pd_project p)"

definition weekly_fine :: "reporting_period table \<Rightarrow> weekly_report table \<Rightarrow> bool" where
  "weekly_fine ps rs \<longleftrightarrow> tbl_wf rs \<and> unique_on report_revision_key rs \<and> unique_on report_retry_key rs
     \<and> revisions_contiguous rs \<and> (\<forall>(k, r) \<in> set (tbl_rows rs). report_of_period ps r)"

text \<open>A response answers a field of the version its report was written for.\<close>

definition response_fits :: "weekly_report table \<Rightarrow> template_field table \<Rightarrow> report_response \<Rightarrow> bool" where
  "response_fits rs fs q \<longleftrightarrow>
     (\<exists>r f. tbl_get rs (rq_report q) = Some r \<and> tbl_get fs (rq_template_field q) = Some f
        \<and> wr_template_version r = Some (fl_template_version f))"

definition responses_fine :: "weekly_report table \<Rightarrow> template_field table \<Rightarrow> report_response table \<Rightarrow> bool" where
  "responses_fine rs fs qs \<longleftrightarrow> tbl_wf qs \<and> unique_on response_key qs
     \<and> (\<forall>(k, q) \<in> set (tbl_rows qs). response_fits rs fs q)"

definition reports_ok :: "'a report_db_scheme \<Rightarrow> bool" where
  "reports_ok s \<longleftrightarrow>
     schedules_fine (db_report_schedules s)
     \<and> templates_fine (db_report_templates s) (db_template_versions s)
     \<and> fields_fine (db_template_versions s) (db_template_fields s)
     \<and> periods_fine (db_template_versions s) (db_reporting_periods s)
     \<and> weekly_fine (db_reporting_periods s) (db_weekly_reports s)
     \<and> responses_fine (db_weekly_reports s) (db_template_fields s) (db_report_responses s)
     \<and> (\<forall>k. db_report_project s k = map_option wr_project (tbl_get (db_weekly_reports s) k))
     \<and> tbl_wf (db_drafts s) \<and> tbl_wf (db_draft_versions s) \<and> unique_on draft_number_key (db_draft_versions s)
     \<and> (\<forall>k. db_draft_version_project s k = map_option dv_project (tbl_get (db_draft_versions s) k))
     \<and> tbl_wf (db_inline_comments s)"

section \<open>What stays\<close>

definition version_fields :: "template_field table \<Rightarrow> pk \<Rightarrow> (pk \<times> template_field) list" where
  "version_fields fs v = tbl_filter (\<lambda>_ f. fl_template_version f = v) fs"

lemma fields_of_alt: "fields_of s v = sort_key (\<lambda>(k, f). (fl_order f, k)) (version_fields (db_template_fields s) v)"
  by (simp add: fields_of_def version_fields_def)

text \<open>A report without the outcome of its review.\<close>

definition written :: "weekly_report \<Rightarrow> weekly_report" where
  "written r = r\<lparr>wr_review_status := Report_PENDING_REVIEW, wr_reviewed_at := None\<rparr>"

definition entries_kept :: "('b \<Rightarrow> 'c) \<Rightarrow> 'b table \<Rightarrow> 'b table \<Rightarrow> bool" where
  "entries_kept f t t' \<longleftrightarrow> (\<forall>k r. tbl_get t k = Some r \<longrightarrow> (\<exists>r'. tbl_get t' k = Some r' \<and> f r' = f r))"

definition reports_kept :: "'a report_db_scheme \<Rightarrow> 'a report_db_scheme \<Rightarrow> bool" where
  "reports_kept s s' \<longleftrightarrow>
     (\<forall>v. released (db_template_versions s) v \<longrightarrow> released (db_template_versions s') v
        \<and> version_fields (db_template_fields s') v = version_fields (db_template_fields s) v)
     \<and> entries_kept written (db_weekly_reports s) (db_weekly_reports s')
     \<and> entries_kept id (db_report_responses s) (db_report_responses s')"

definition report_step :: "'a report_db_scheme \<Rightarrow> 'a report_db_scheme \<Rightarrow> bool" where
  "report_step s s' \<longleftrightarrow> (reports_ok s \<longrightarrow> reports_ok s' \<and> reports_kept s s')"

lemma entries_kept_refl [simp]: "entries_kept f t t"
  by (simp add: entries_kept_def)

lemma entries_kept_trans: "entries_kept f t u \<Longrightarrow> entries_kept f u w \<Longrightarrow> entries_kept f t w"
  unfolding entries_kept_def by metis

lemma reports_kept_refl [simp]: "reports_kept s s"
  by (simp add: reports_kept_def)

lemma reports_kept_trans: "reports_kept s t \<Longrightarrow> reports_kept t u \<Longrightarrow> reports_kept s u"
  unfolding reports_kept_def using entries_kept_trans by metis

interpretation rep: composable report_step
  by unfold_locales (auto simp: report_step_def intro: reports_kept_trans)

lemma entries_kept_insert: "tbl_wf t \<Longrightarrow> entries_kept f t (tbl_insert x t)"
  by (auto simp: entries_kept_def intro: tbl.get_add_old)

lemma entries_kept_put: "tbl_wf t \<Longrightarrow> tbl_get t k = Some r0 \<Longrightarrow> f r = f r0 \<Longrightarrow> entries_kept f t (tbl_put k r t)"
  by (auto simp: entries_kept_def tbl.get_put)

text \<open>Writes to the other tables.\<close>

definition same_reports :: "'a report_db_scheme \<Rightarrow> 'a report_db_scheme \<Rightarrow> bool" where
  "same_reports s s' \<longleftrightarrow>
     db_report_schedules s' = db_report_schedules s \<and> db_report_templates s' = db_report_templates s
     \<and> db_template_versions s' = db_template_versions s \<and> db_template_fields s' = db_template_fields s
     \<and> db_reporting_periods s' = db_reporting_periods s \<and> db_weekly_reports s' = db_weekly_reports s
     \<and> db_report_responses s' = db_report_responses s \<and> db_drafts s' = db_drafts s
     \<and> db_draft_versions s' = db_draft_versions s \<and> db_inline_comments s' = db_inline_comments s
     \<and> db_report_project s' = db_report_project s \<and> db_draft_version_project s' = db_draft_version_project s"

lemma same_reports_step: "same_reports s s' \<Longrightarrow> report_step s s'"
  by (simp add: same_reports_def report_step_def reports_ok_def reports_kept_def)

lemma record_event_reports [simp]:
  "report_step s (record_event p a t sm tg opts s)" "report_step s (record_execution_event p a act tg st pr s)"
  by (rule same_reports_step, simp add: same_reports_def record_event_def record_execution_event_def)+

lemma record_after:
  "report_step s t \<Longrightarrow> report_step s (record_event p a ty sm tg opts t)"
  "report_step s t \<Longrightarrow> report_step s (record_execution_event p a act tg st pr t)"
  by (rule rep.transitive, assumption, simp)+

lemma notify_members_step: "notify_members pid roles u target subject path category s = (r, s') \<Longrightarrow> report_step s s'"
  by (erule notify_members_frame, rule same_reports_step) (simp add: same_reports_def)

end
