(* ===== verification/ReportWrites.thy ===== *)
theory ReportWrites
  imports ReportRules
begin

text \<open>
  The writes of the report services, table by table: each stands in \<open>report_step\<close>.
\<close>

lemma released_get: "released t v \<longleftrightarrow> (\<exists>w. tbl_get t v = Some w \<and> tv_status w \<noteq> Template_DRAFT)"
  by (simp add: released_def split: option.splits)

lemma maximum_or_ge: "z \<le> maximum_or z ns" "n \<in> set ns \<Longrightarrow> n \<le> maximum_or z ns"
proof -
  have "z \<le> foldl max z ns \<and> (\<forall>n \<in> set ns. n \<le> foldl max z ns)" for z
    by (induction ns arbitrary: z) (auto intro: order_trans [OF max.cobounded1] order_trans [OF max.cobounded2])
  then show "z \<le> maximum_or z ns" "n \<in> set ns \<Longrightarrow> n \<le> maximum_or z ns" by (auto simp: maximum_or_def)
qed

lemma maximum_or_in: "maximum_or z ns = z \<or> maximum_or z ns \<in> set ns"
  unfolding maximum_or_def by (induction ns arbitrary: z) (auto simp: max_def split: if_splits)

lemma unique_on_put_same:
  "unique_on f t \<Longrightarrow> tbl_wf t \<Longrightarrow> tbl_get t k = Some r0 \<Longrightarrow> f r = None \<or> f r = f r0 \<Longrightarrow> unique_on f (tbl_put k r t)"
  by (rule unique_on_put) (auto dest: key_kept_not_taken)

section \<open>Templates and versions\<close>

lemma templates_fine_insert:
  assumes ok: "templates_fine ts vs" and new: "tbl_first (\<lambda>_ t. tp_project t = tp_project x) ts = None"
    and none: "tp_active_version x = None"
  shows "templates_fine (tbl_insert x ts) vs"
proof -
  have wf: "tbl_wf ts" "tbl_wf vs" using ok by (simp_all add: templates_fine_def)
  have u: "\<not> key_taken template_project_key x ts"
    using new by (auto simp: tbl_first_None key_taken_def template_project_key_def tbl_exists_iff)
  have fresh: "tv_template v \<noteq> tbl_next ts" if "tbl_get vs k = Some v" for k v
  proof -
    have "tbl_get ts (tv_template v) \<noteq> None" using ok that by (simp add: templates_fine_def)
    then show ?thesis using tbl.fresh_new [OF wf(1)] by metis
  qed
  have "tbl_get (tbl_insert x ts) (tv_template v) \<noteq> None" if "tbl_get vs k = Some v" for k v
    using ok that tbl.get_add [OF wf(1), of x] by (auto simp: templates_fine_def)
  moreover have "tp_active_version t = Some k \<longleftrightarrow>
      (\<exists>v. tbl_get vs k = Some v \<and> tv_template v = tk \<and> tv_status v = Template_PUBLISHED)"
    if "tbl_get (tbl_insert x ts) tk = Some t" for tk t k
    using that ok none fresh tbl.get_add [OF wf(1), of x] by (auto simp: templates_fine_def split: if_splits)
  ultimately show ?thesis
    using ok u wf by (simp add: templates_fine_def tbl.wf_add unique_on_insert)
qed

lemma templates_fine_draft:
  assumes ok: "templates_fine ts vs" and st: "tv_status v = Template_DRAFT" and t: "tbl_get ts (tv_template v) \<noteq> None"
    and u: "\<not> key_taken template_number_key v vs" "\<not> key_taken template_draft_key v vs" "\<not> key_taken template_published_key v vs"
  shows "templates_fine ts (tbl_insert v vs)"
proof -
  have wf: "tbl_wf vs" using ok by (simp add: templates_fine_def)
  have "tp_active_version x \<noteq> Some (tbl_next vs)" if "tbl_get ts tk = Some x" for tk x
    using ok that tbl.fresh_new [OF wf] by (auto simp: templates_fine_def)
  then show ?thesis
    using ok u st t by (auto simp: templates_fine_def tbl.wf_add unique_on_insert tbl.get_add [OF wf])
qed

lemma templates_fine_bump:
  assumes ok: "templates_fine ts vs" and get: "tbl_get vs k = Some v"
  shows "templates_fine ts (tbl_put k (v\<lparr>tv_version := n\<rparr>) vs)"
proof -
  have wf: "tbl_wf vs" using ok by (simp add: templates_fine_def)
  have "unique_on template_number_key (tbl_put k (v\<lparr>tv_version := n\<rparr>) vs)"
    "unique_on template_draft_key (tbl_put k (v\<lparr>tv_version := n\<rparr>) vs)"
    "unique_on template_published_key (tbl_put k (v\<lparr>tv_version := n\<rparr>) vs)"
    by (rule unique_on_put_same [OF _ wf get];
        use ok in \<open>simp add: templates_fine_def template_number_key_def template_draft_key_def template_published_key_def\<close>)+
  then show ?thesis
    using ok get by (auto simp: templates_fine_def tbl.wf_put [OF wf] tbl.get_put [OF wf])
qed

lemma supersede_get:
  "tbl_get (tbl_update_where (\<lambda>_ v. tv_template v = tk \<and> tv_status v = Template_PUBLISHED)
      (\<lambda>v. v\<lparr>tv_status := Template_SUPERSEDED\<rparr>) vs) j =
   map_option (\<lambda>v. if tv_template v = tk \<and> tv_status v = Template_PUBLISHED then v\<lparr>tv_status := Template_SUPERSEDED\<rparr> else v)
     (tbl_get vs j)"
  by (simp add: tbl_get_update_where)

text \<open>Publishing: the version before is superseded, the draft published and named by its template.\<close>

lemma templates_fine_publish:
  fixes vs :: "template_version table"
  defines "vs1 \<equiv> \<lambda>tk. tbl_update_where (\<lambda>_ v. tv_template v = tk \<and> tv_status v = Template_PUBLISHED)
      (\<lambda>v. v\<lparr>tv_status := Template_SUPERSEDED\<rparr>) vs"
  assumes ok: "templates_fine ts vs" and get: "tbl_get vs k = Some v" and st: "tv_status v = Template_DRAFT"
    and v': "tv_template v' = tv_template v" "tv_version_number v' = tv_version_number v" "tv_status v' = Template_PUBLISHED"
  shows "templates_fine (tbl_update_where (\<lambda>j _. j = tv_template v)
      (\<lambda>t. t\<lparr>tp_active_version := Some k, tp_updated_at := now\<rparr>) ts) (tbl_put k v' (vs1 (tv_template v)))"
proof -
  let ?vs = "vs1 (tv_template v)"
  let ?ts = "tbl_update_where (\<lambda>j _. j = tv_template v) (\<lambda>t. t\<lparr>tp_active_version := Some k, tp_updated_at := now\<rparr>) ts"
  have wf: "tbl_wf ts" "tbl_wf vs" using ok by (simp_all add: templates_fine_def)
  have wf1: "tbl_wf ?vs" unfolding vs1_def by (rule wf_tbl_update_where [OF wf(2)])
  have get1: "tbl_get ?vs k = Some v" using get st by (simp add: vs1_def supersede_get)
  have u1: "unique_on template_number_key ?vs" "unique_on template_draft_key ?vs" "unique_on template_published_key ?vs"
    unfolding vs1_def using ok
    by (auto intro!: unique_on_update_where simp: templates_fine_def template_number_key_def template_draft_key_def
        template_published_key_def)
  have no: "(j, w) \<in> set (tbl_rows ?vs) \<Longrightarrow> \<not> (tv_template w = tv_template v \<and> tv_status w = Template_PUBLISHED)" for j w
    using tbl_get_iff [OF wf1, of j w] by (auto simp: vs1_def supersede_get split: if_splits)
  have pub: "\<not> key_taken_by_other template_published_key k v' ?vs"
  proof
    assume "key_taken_by_other template_published_key k v' ?vs"
    then obtain j w where "(j, w) \<in> set (tbl_rows ?vs)" "template_published_key w = Some (tv_template v)"
      by (auto simp: key_taken_by_other_def tbl_exists_iff template_published_key_def v')
    then show False using no [of j w] by (auto simp: template_published_key_def split: if_splits)
  qed
  have num: "\<not> key_taken_by_other template_number_key k v' ?vs"
    by (rule key_kept_not_taken [OF u1(1) get1]) (simp add: template_number_key_def v')
  have dr: "\<not> key_taken_by_other template_draft_key k v' ?vs"
    by (rule key_kept_not_taken [OF u1(2) get1]) (simp add: template_draft_key_def v')
  have "unique_on template_project_key ?ts"
    by (rule unique_on_update_where) (use ok in \<open>auto simp: templates_fine_def template_project_key_def\<close>)
  note base = this wf_tbl_update_where [OF wf(1)] tbl.wf_put [OF wf1] unique_on_put [OF u1(1) wf1 num]
    unique_on_put [OF u1(2) wf1 dr] unique_on_put [OF u1(3) wf1 pub]
  have tmpl: "tbl_get ts (tv_template w) \<noteq> None" if "tbl_get vs j = Some w" for j w
    using ok that by (simp add: templates_fine_def)
  have act: "tp_active_version t = Some j \<longleftrightarrow>
      (\<exists>w. tbl_get vs j = Some w \<and> tv_template w = tk \<and> tv_status w = Template_PUBLISHED)" if "tbl_get ts tk = Some t" for tk t j
    using ok that by (simp add: templates_fine_def)
  have "tbl_get ?ts (tv_template w) \<noteq> None" if "tbl_get (tbl_put k v' ?vs) j = Some w" for j w
  proof (cases "j = k")
    case True
    then show ?thesis using that tmpl [OF get] v' by (simp add: tbl.get_put [OF wf1] tbl_get_update_where)
  next
    case False
    then have "tbl_get ?vs j = Some w" using that by (simp add: tbl.get_put [OF wf1])
    then obtain w0 where "tbl_get vs j = Some w0" "tv_template w = tv_template w0"
      by (auto simp: vs1_def supersede_get split: if_splits)
    then show ?thesis using tmpl [of j w0] by (simp add: tbl_get_update_where)
  qed
  moreover have "tp_active_version t = Some j \<longleftrightarrow>
      (\<exists>w. tbl_get (tbl_put k v' ?vs) j = Some w \<and> tv_template w = tk \<and> tv_status w = Template_PUBLISHED)"
    if t: "tbl_get ?ts tk = Some t" for tk t j
  proof (cases "tk = tv_template v")
    case True
    then have "tp_active_version t = Some k" using t by (auto simp: tbl_get_update_where)
    moreover have "\<not> (\<exists>w. tbl_get ?vs j = Some w \<and> tv_template w = tk \<and> tv_status w = Template_PUBLISHED)"
      using True by (auto simp: vs1_def supersede_get split: if_splits)
    ultimately show ?thesis using True v' by (auto simp: tbl.get_put [OF wf1])
  next
    case False
    then have "tbl_get ts tk = Some t" using t by (auto simp: tbl_get_update_where)
    moreover have "(\<exists>w. tbl_get (tbl_put k v' ?vs) j = Some w \<and> tv_template w = tk \<and> tv_status w = Template_PUBLISHED) \<longleftrightarrow>
        (\<exists>w. tbl_get vs j = Some w \<and> tv_template w = tk \<and> tv_status w = Template_PUBLISHED)"
    proof (cases "j = k")
      case True
      then show ?thesis using False v' get by (auto simp: tbl.get_put [OF wf1])
    next
      case other: False
      then have "tbl_get (tbl_put k v' ?vs) j = tbl_get ?vs j" by (simp add: tbl.get_put [OF wf1])
      then show ?thesis using False by (cases "tbl_get vs j") (auto simp: vs1_def supersede_get)
    qed
    ultimately show ?thesis using act by simp
  qed
  ultimately show ?thesis using base unfolding templates_fine_def by blast
qed

text \<open>What the other tables ask of the versions: they stay, and what was released stays released.\<close>

definition versions_grow :: "template_version table \<Rightarrow> template_version table \<Rightarrow> bool" where
  "versions_grow vs vs' \<longleftrightarrow>
     (\<forall>v. tbl_get vs v \<noteq> None \<longrightarrow> tbl_get vs' v \<noteq> None) \<and> (\<forall>v. released vs v \<longrightarrow> released vs' v)"

lemma versions_grow_insert: "tbl_wf vs \<Longrightarrow> versions_grow vs (tbl_insert v vs)"
  unfolding versions_grow_def released_get by (metis tbl.get_add_old option.exhaust option.distinct(1))

lemma versions_grow_put:
  "tbl_wf vs \<Longrightarrow> tbl_get vs k = Some v \<Longrightarrow> tv_status v' = tv_status v \<or> tv_status v' \<noteq> Template_DRAFT
   \<Longrightarrow> versions_grow vs (tbl_put k v' vs)"
  by (auto simp: versions_grow_def released_get tbl.get_put)

lemma versions_grow_supersede:
  "versions_grow vs (tbl_update_where (\<lambda>_ v. tv_template v = tk \<and> tv_status v = Template_PUBLISHED)
      (\<lambda>v. v\<lparr>tv_status := Template_SUPERSEDED\<rparr>) vs)"
  by (auto simp: versions_grow_def released_def supersede_get split: option.splits)

lemma versions_grow_trans: "versions_grow vs vs' \<Longrightarrow> versions_grow vs' vs'' \<Longrightarrow> versions_grow vs vs''"
  by (simp add: versions_grow_def)

lemma versions_step:
  assumes s': "s' = s\<lparr>db_template_versions := vs, db_report_templates := ts\<rparr>"
    and ok: "reports_ok s \<Longrightarrow> templates_fine ts vs" "reports_ok s \<Longrightarrow> versions_grow (db_template_versions s) vs"
  shows "report_step s s'"
proof -
  have "reports_ok s' \<and> reports_kept s s'" if r: "reports_ok s"
  proof -
    note g = ok(2) [OF r]
    have "fields_fine vs (db_template_fields s)" "periods_fine vs (db_reporting_periods s)"
      using r g by (fastforce simp: reports_ok_def fields_fine_def periods_fine_def versions_grow_def)+
    then have "reports_ok s'" using r ok(1) [OF r] by (simp add: s' reports_ok_def)
    moreover have "reports_kept s s'" using g by (simp add: s' reports_kept_def versions_grow_def)
    ultimately show ?thesis by simp
  qed
  then show ?thesis by (simp add: report_step_def)
qed

section \<open>Fields\<close>

lemma fields_step:
  assumes s': "s' = s\<lparr>db_template_fields := fs\<rparr>"
    and f: "reports_ok s \<Longrightarrow> fields_fine (db_template_versions s) fs"
    and kept: "\<And>v. reports_ok s \<Longrightarrow> released (db_template_versions s) v
       \<Longrightarrow> version_fields fs v = version_fields (db_template_fields s) v"
    and resp: "\<And>k q f. reports_ok s \<Longrightarrow> (k, q) \<in> set (tbl_rows (db_report_responses s))
       \<Longrightarrow> tbl_get (db_template_fields s) (rq_template_field q) = Some f \<Longrightarrow> tbl_get fs (rq_template_field q) = Some f"
  shows "report_step s s'"
proof -
  have "responses_fine (db_weekly_reports s) fs (db_report_responses s)" if "reports_ok s"
    using that resp [OF that] unfolding reports_ok_def responses_fine_def response_fits_def by fast
  then show ?thesis
    using f kept by (simp add: report_step_def s' reports_ok_def reports_kept_def)
qed

lemma insert_all_Cons [simp]: "insert_all (r # rs) t = insert_all rs (tbl_insert r t)"
  and insert_all_Nil [simp]: "insert_all [] t = t"
  by (simp_all add: insert_all_def)

lemma insert_all_wf: "tbl_wf t \<Longrightarrow> tbl_wf (insert_all rs t)"
  by (induction rs arbitrary: t) (simp_all add: tbl.wf_add)

lemma insert_all_old: "tbl_wf t \<Longrightarrow> tbl_get t k = Some r \<Longrightarrow> tbl_get (insert_all rs t) k = Some r"
  by (induction rs arbitrary: t) (simp_all add: tbl.wf_add tbl.get_add_old)

lemma insert_all_rows:
  "\<exists>ks. tbl_rows (insert_all rs t) = tbl_rows t @ zip ks rs \<and> length ks = length rs"
proof (induction rs arbitrary: t)
  case (Cons r rs)
  from Cons [of "tbl_insert r t"] obtain ks where "tbl_rows (insert_all rs (tbl_insert r t)) = tbl_rows t @ zip (tbl_next t # ks) (r # rs)"
    "length ks = length rs" by auto
  then show ?case by (intro exI [of _ "tbl_next t # ks"]) simp
qed simp

lemma insert_all_mem: "(k, r) \<in> set (tbl_rows (insert_all rs t)) \<Longrightarrow> (k, r) \<in> set (tbl_rows t) \<or> r \<in> set rs"
  using insert_all_rows [of rs t] by (auto dest: set_zip_rightD)

text \<open>A unique key survives a bulk insert when the new keys are free and differ among themselves.\<close>

lemma unique_on_insert_all:
  assumes "unique_on f t" "\<And>r. r \<in> set rs \<Longrightarrow> \<not> key_taken f r t" "distinct (map f rs)"
  shows "unique_on f (insert_all rs t)"
  using assms
proof (induction rs arbitrary: t)
  case (Cons r rs)
  have "\<not> key_taken f x (tbl_insert r t)" if "x \<in> set rs" for x
    using that Cons.prems(2) [of x] Cons.prems(3) by (auto simp: key_taken_def tbl_exists_iff image_iff)
  then show ?case using Cons by (simp add: unique_on_insert)
qed simp

lemma bulk_rows_mem: "bulk_rows f xs = Inr ys \<Longrightarrow> y \<in> set ys \<Longrightarrow> \<exists>x \<in> set xs. f x = Inr y"
proof (induction xs arbitrary: ys)
  case (Cons x xs)
  then show ?case by (cases "f x"; cases "bulk_rows f xs") auto
qed simp

lemma bulk_rows_length: "bulk_rows f xs = Inr ys \<Longrightarrow> length ys = length xs"
proof (induction xs arbitrary: ys)
  case (Cons x xs)
  then show ?case by (cases "f x"; cases "bulk_rows f xs") auto
qed simp

lemma field_row_version: "field_row v f = Inr r \<Longrightarrow> fl_template_version r = v"
  by (auto simp: field_row_def field_definition.defs template_field.defs split: if_splits sum.splits)

lemma version_fields_insert_all:
  "(\<And>r. r \<in> set rs \<Longrightarrow> fl_template_version r \<noteq> v) \<Longrightarrow> version_fields (insert_all rs t) v = version_fields t v"
  by (induction rs arbitrary: t) (simp_all add: version_fields_def tbl_filter_def)

lemma bulk_create_fields_step:
  assumes e: "bulk_create_fields v fs s = (r, s')"
    and draft: "tbl_get (db_template_versions s) v = Some w" "tv_status w = Template_DRAFT"
  shows "report_step s s'"
proof (cases "s' = s")
  case False
  then obtain rows where rows: "bulk_rows (field_row v) fs = Inr rows"
    and s': "s' = s\<lparr>db_template_fields := insert_all rows (db_template_fields s)\<rparr>"
    and free: "\<forall>r \<in> set rows. \<not> key_taken field_name_key r (db_template_fields s) \<and> \<not> key_taken field_order_key r (db_template_fields s)"
    and dist: "distinct (map fl_key rows)" "distinct (map fl_order rows)"
    using e by (auto simp: bulk_create_fields_def Let_def list_ex_iff split: sum.splits if_splits)
  have v: "fl_template_version x = v" if "x \<in> set rows" for x
    using bulk_rows_mem [OF rows that] by (auto dest: field_row_version)
  have keys: "distinct (map field_name_key rows)" "distinct (map field_order_key rows)"
    using dist by (simp_all add: distinct_map inj_on_def field_name_key_def field_order_key_def)
  show ?thesis
  proof (rule fields_step [OF s'], goal_cases)
    case 1
    then have f: "fields_fine (db_template_versions s) (db_template_fields s)" by (simp add: reports_ok_def)
    show ?case
      using f free keys draft v
      by (auto simp: fields_fine_def insert_all_wf intro!: unique_on_insert_all dest!: insert_all_mem)
  next
    case (2 u)
    then have "u \<noteq> v" using draft by (auto simp: released_get)
    then show ?case using v by (intro version_fields_insert_all) auto
  next
    case (3 k q f)
    then show ?case by (auto simp: reports_ok_def fields_fine_def intro: insert_all_old)
  qed
qed (simp add: rep.reflexive)

lemma drop_where_get:
  "tbl_wf t \<Longrightarrow> tbl_get (t\<lparr>tbl_rows := filter (\<lambda>(_, f). P f) (tbl_rows t)\<rparr>) k =
     (case tbl_get t k of None \<Rightarrow> None | Some f \<Rightarrow> if P f then Some f else None)"
proof -
  assume wf: "tbl_wf t"
  have wf': "tbl_wf (t\<lparr>tbl_rows := filter (\<lambda>(_, f). P f) (tbl_rows t)\<rparr>)"
    using wf by (auto simp: tbl_wf_def intro: distinct_map_filter)
  show ?thesis
  proof (cases "tbl_get t k")
    case None
    then have "tbl_get (t\<lparr>tbl_rows := filter (\<lambda>(_, f). P f) (tbl_rows t)\<rparr>) k = None" by (auto simp: tbl_get_None)
    then show ?thesis using None by simp
  next
    case (Some f)
    then have m: "(k, g) \<in> set (tbl_rows t) \<longleftrightarrow> g = f" for g using tbl_get_iff [OF wf, of k g] by auto
    show ?thesis
    proof (cases "P f")
      case True
      then show ?thesis using Some m tbl_get_iff [OF wf', of k f] by simp
    next
      case False
      then have "tbl_get (t\<lparr>tbl_rows := filter (\<lambda>(_, f). P f) (tbl_rows t)\<rparr>) k = None"
        using m by (auto simp: tbl_get_None)
      then show ?thesis using Some False by simp
    qed
  qed
qed

lemma fields_of_mem: "(k, f) \<in> set (fields_of s v) \<longleftrightarrow> (k, f) \<in> set (tbl_rows (db_template_fields s)) \<and> fl_template_version f = v"
  by (auto simp: fields_of_def set_tbl_filter)

lemma delete_fields_step:
  assumes e: "delete_fields v s = (r, s')"
    and draft: "tbl_get (db_template_versions s) v = Some w" "tv_status w = Template_DRAFT"
  shows "report_step s s'"
proof (cases "s' = s")
  case False
  let ?fs = "(db_template_fields s)\<lparr>tbl_rows := filter (\<lambda>(_, f). fl_template_version f \<noteq> v) (tbl_rows (db_template_fields s))\<rparr>"
  have s': "s' = s\<lparr>db_template_fields := ?fs\<rparr>"
    and free: "\<not> tbl_exists (\<lambda>_ r. list_ex (\<lambda>(k, _). rq_template_field r = k) (fields_of s v)) (db_report_responses s)"
    using e False by (auto simp: delete_fields_def split: if_splits)
  show ?thesis
  proof (rule fields_step [OF s'], goal_cases)
    case 1
    then have "tbl_wf (db_template_fields s)" by (simp add: reports_ok_def fields_fine_def)
    then have "tbl_wf ?fs" by (auto simp: tbl_wf_def intro: distinct_map_filter)
    then show ?case using 1 unfolding reports_ok_def fields_fine_def unique_on_def by fastforce
  next
    case (2 u)
    then have "u \<noteq> v" using draft by (auto simp: released_get)
    then show ?case by (auto simp: version_fields_def tbl_filter_def intro!: filter_cong)
  next
    case (3 k q f)
    have "fl_template_version f \<noteq> v"
      using free 3(2) fields_of_mem [of "rq_template_field q" f s v] tbl_getD [OF 3(3)]
      by (auto simp: tbl_exists_iff list_ex_iff)
    then show ?case using 3 drop_where_get [of "db_template_fields s" "\<lambda>f. fl_template_version f \<noteq> v"]
      by (simp add: reports_ok_def fields_fine_def)
  qed
qed (simp add: rep.reflexive)

section \<open>Periods and schedules\<close>

text \<open>Periods that stay, with their week and their template.\<close>

definition periods_grow :: "reporting_period table \<Rightarrow> reporting_period table \<Rightarrow> bool" where
  "periods_grow ps ps' \<longleftrightarrow>
     entries_kept (\<lambda>p. (pd_project p, pd_starts_on p, pd_template_version p)) ps ps'"

lemma periods_step:
  assumes s': "s' = s\<lparr>db_reporting_periods := ps\<rparr>"
    and ok: "reports_ok s \<Longrightarrow> periods_fine (db_template_versions s) ps"
    and grow: "reports_ok s \<Longrightarrow> periods_grow (db_reporting_periods s) ps"
  shows "report_step s s'"
proof -
  have keep: "report_of_period ps r" if ok': "reports_ok s" and old: "report_of_period (db_reporting_periods s) r" for r
  proof (cases "wr_reporting_period r")
    case (Some k)
    then obtain p where p: "tbl_get (db_reporting_periods s) k = Some p" "wr_template_version r = Some (pd_template_version p)"
      "wr_report_week_start r = pd_starts_on p" "wr_project r = pd_project p"
      using old by (auto simp: report_of_period_def)
    moreover obtain p' where "tbl_get ps k = Some p'" "pd_project p' = pd_project p" "pd_starts_on p' = pd_starts_on p"
      "pd_template_version p' = pd_template_version p"
      using grow [OF ok'] p(1) unfolding periods_grow_def entries_kept_def by fast
    ultimately show ?thesis by (simp add: report_of_period_def Some)
  qed (simp add: report_of_period_def)
  then have "weekly_fine ps (db_weekly_reports s)" if "reports_ok s"
    using that keep [OF that] unfolding reports_ok_def weekly_fine_def by fast
  then show ?thesis using ok by (simp add: report_step_def s' reports_ok_def reports_kept_def)
qed

lemma insert_period_step:
  assumes e: "insert_period p s = (r, s')" and p: "pd_ends_on p = pd_starts_on p + 7"
    and v: "reports_ok s \<Longrightarrow> released (db_template_versions s) (pd_template_version p)"
  shows "report_step s s'"
proof (cases "s' = s")
  case False
  then have s': "s' = s\<lparr>db_reporting_periods := tbl_insert p (db_reporting_periods s)\<rparr>"
    and free: "\<not> key_taken period_project_key p (db_reporting_periods s)" "\<not> key_taken period_generation_key p (db_reporting_periods s)"
    using e by (auto simp: insert_period_def split: if_splits)
  show ?thesis
  proof (rule periods_step [OF s'], goal_cases)
    case 1
    then show ?case using p v [OF 1] free by (auto simp: reports_ok_def periods_fine_def tbl.wf_add unique_on_insert)
  next
    case 2
    then show ?case by (simp add: periods_grow_def reports_ok_def periods_fine_def entries_kept_insert)
  qed
qed (simp add: rep.reflexive)

lemma close_due_step:
  assumes "close_due_reporting_periods now limit s = (r, s')" shows "report_step s s'"
proof -
  obtain P t where s': "s' = s\<lparr>db_reporting_periods := tbl_update_where P
      (\<lambda>p. p\<lparr>pd_state := Period_CLOSED, pd_closed_at := Some t\<rparr>) (db_reporting_periods s)\<rparr>"
    using assms by (auto simp: close_due_reporting_periods_def Let_def)
  show ?thesis
  proof (rule periods_step [OF s'], goal_cases)
    case 1
    then have ok: "periods_fine (db_template_versions s) (db_reporting_periods s)" by (simp add: reports_ok_def)
    have "unique_on period_project_key (tbl_update_where P (\<lambda>p. p\<lparr>pd_state := Period_CLOSED, pd_closed_at := Some t\<rparr>) (db_reporting_periods s))"
      "unique_on period_generation_key (tbl_update_where P (\<lambda>p. p\<lparr>pd_state := Period_CLOSED, pd_closed_at := Some t\<rparr>) (db_reporting_periods s))"
      using ok by (auto intro!: unique_on_update_where simp: periods_fine_def period_project_key_def period_generation_key_def)
    then show ?case using ok by (auto simp: periods_fine_def wf_tbl_update_where)
  next
    case 2
    show ?case by (auto simp: periods_grow_def entries_kept_def tbl_get_update_where)
  qed
qed

lemma schedules_step:
  "s' = s\<lparr>db_report_schedules := t\<rparr> \<Longrightarrow> (reports_ok s \<Longrightarrow> schedules_fine t) \<Longrightarrow> report_step s s'"
  by (simp add: report_step_def reports_ok_def reports_kept_def)

section \<open>Reports and responses\<close>

lemma latest_reportD: "latest_report xs = Some (k, r) \<Longrightarrow> (k, r) \<in> set xs \<and> (\<forall>(k', r') \<in> set xs. wr_revision_number r' \<le> wr_revision_number r)"
proof -
  let ?ys = "sort_key (\<lambda>(_, r). wr_revision_number r) xs"
  assume l: "latest_report xs = Some (k, r)"
  then obtain zs where "rev ?ys = (k, r) # zs" by (auto simp: latest_report_def split: list.splits)
  then have ys: "?ys = rev zs @ [(k, r)]" by (metis rev.simps(2) rev_rev_ident)
  have "sorted (map (\<lambda>(_, r). wr_revision_number r) ?ys)" by simp
  then have "\<forall>x \<in> set (rev zs). (\<lambda>(_, r). wr_revision_number r) x \<le> wr_revision_number r"
    unfolding ys by (simp add: sorted_append)
  moreover have "set xs = insert (k, r) (set zs)" using arg_cong [OF ys, of set] by simp
  ultimately show ?thesis by auto
qed

lemma latest_report_None: "latest_report xs = None \<longleftrightarrow> xs = []"
proof
  assume "latest_report xs = None"
  then have "sort_key (\<lambda>(_, r). wr_revision_number r) xs = []" by (simp add: latest_report_def split: list.splits)
  then have "set (sort_key (\<lambda>(_, r). wr_revision_number r) xs) = {}" by (simp only: list.set)
  then show "xs = []" by simp
qed (simp add: latest_report_def)

text \<open>Both ways of choosing the number of a new revision.\<close>

lemma next_revision_latest:
  "(case latest_report (reports_by s pid student (\<lambda>r. wr_report_week_start r = week)) of None \<Rightarrow> 1
     | Some (_, r) \<Rightarrow> Suc (wr_revision_number r)) = next_revision s pid student week"
proof (cases "latest_report (reports_by s pid student (\<lambda>r. wr_report_week_start r = week))")
  case None
  note empty = this [unfolded latest_report_None]
  show ?thesis unfolding next_revision_def empty by (simp add: latest_report_def maximum_or_def)
next
  case (Some x)
  obtain k r where x: "x = (k, r)" by fastforce
  let ?xs = "reports_by s pid student (\<lambda>r. wr_report_week_start r = week)"
  note l = latest_reportD [OF Some [unfolded x]]
  have "maximum_or 0 (map (\<lambda>(_, r). wr_revision_number r) ?xs) = wr_revision_number r"
  proof (rule antisym)
    show "wr_revision_number r \<le> maximum_or 0 (map (\<lambda>(_, r). wr_revision_number r) ?xs)"
      using l by (intro maximum_or_ge) force
    show "maximum_or 0 (map (\<lambda>(_, r). wr_revision_number r) ?xs) \<le> wr_revision_number r"
      using l maximum_or_in [of 0 "map (\<lambda>(_, r). wr_revision_number r) ?xs"] by auto
  qed
  then show ?thesis by (simp add: Some x next_revision_def)
qed

lemma week_has_mem: "(k, y) \<in> set (tbl_rows t) \<Longrightarrow> same_week r y \<Longrightarrow> wr_revision_number y = m \<Longrightarrow> week_has t r m"
  by (auto simp: week_has_def tbl_exists_iff)

lemma week_hasD: "week_has t r m \<Longrightarrow> \<exists>k y. (k, y) \<in> set (tbl_rows t) \<and> same_week r y \<and> wr_revision_number y = m"
  by (auto simp: week_has_def tbl_exists_iff)

lemma same_week_trans: "same_week x y \<Longrightarrow> same_week y z \<Longrightarrow> same_week x z"
  by (simp add: same_week_def)

lemma contiguous_insert:
  assumes c: "revisions_contiguous (db_weekly_reports s)"
    and n: "wr_revision_number x = next_revision s (wr_project x) (wr_student x) (wr_report_week_start x)"
  shows "revisions_contiguous (tbl_insert x (db_weekly_reports s))"
proof -
  let ?t = "db_weekly_reports s" and ?t' = "tbl_insert x (db_weekly_reports s)"
  let ?xs = "reports_by s (wr_project x) (wr_student x) (\<lambda>r. wr_report_week_start r = wr_report_week_start x)"
  let ?m = "maximum_or 0 (map (\<lambda>(_, r). wr_revision_number r) ?xs)"
  have mem: "(k, r) \<in> set ?xs \<longleftrightarrow> (k, r) \<in> set (tbl_rows ?t) \<and> same_week x r" for k r
    by (auto simp: reports_by_def set_tbl_filter same_week_def)
  have grow: "week_has ?t r m \<Longrightarrow> week_has ?t' r m" for r m
    by (auto simp: week_has_def tbl_exists_iff)
  have new: "week_has ?t x m" if m: "1 \<le> m" "m \<le> ?m" for m
  proof -
    have "?m \<in> set (map (\<lambda>(_, r). wr_revision_number r) ?xs)"
      using maximum_or_in [of 0 "map (\<lambda>(_, r). wr_revision_number r) ?xs"] m by linarith
    then obtain k r where r: "(k, r) \<in> set ?xs" "wr_revision_number r = ?m" by auto
    then have rx: "(k, r) \<in> set (tbl_rows ?t)" "same_week x r" using mem by simp_all
    show ?thesis
    proof (cases "m = ?m")
      case True
      then show ?thesis using r rx by (intro week_has_mem) auto
    next
      case False
      then have "m < wr_revision_number r" using m r by simp
      then have "week_has ?t r m" using c m(1) rx(1) unfolding revisions_contiguous_def by blast
      then obtain j y where "(j, y) \<in> set (tbl_rows ?t)" "same_week r y" "wr_revision_number y = m" using week_hasD by blast
      then show ?thesis using same_week_trans [OF rx(2)] by (intro week_has_mem)
    qed
  qed
  have x: "wr_revision_number x = Suc ?m" using n by (simp add: next_revision_def)
  show ?thesis
    unfolding revisions_contiguous_def
  proof (intro allI impI, goal_cases)
    case (1 k r)
    then consider "(k, r) \<in> set (tbl_rows ?t)" | "r = x" by auto
    then show ?case
    proof cases
      case 1
      then show ?thesis using c grow unfolding revisions_contiguous_def by blast
    next
      case 2
      then show ?thesis using x grow new by simp
    qed
  qed
qed

lemma contiguous_update:
  assumes wf: "tbl_wf t" and c: "revisions_contiguous t" and get: "tbl_get t k = Some r0"
    and same: "same_week r0 r" "wr_revision_number r = wr_revision_number r0"
  shows "revisions_contiguous (tbl_put k r t)"
proof -
  let ?t = "tbl_put k r t"
  have old: "week_has ?t x m" if xs: "week_has t x m" for x m
  proof -
    obtain j y where jy: "(j, y) \<in> set (tbl_rows t)" "same_week x y" "wr_revision_number y = m" using week_hasD [OF xs] by blast
    show ?thesis
    proof (cases "j = k")
      case True
      then have "y = r0" using jy(1) get tbl_get_iff [OF wf, of k y] by simp
      then have "same_week x r" "wr_revision_number r = m" using jy same same_week_trans by simp_all
      then show ?thesis by (intro week_has_mem [of k r]) (simp_all add: set_rows_put [OF wf] del: rows_put)
    next
      case False
      then have "(j, y) \<in> set (tbl_rows ?t)" using jy by (simp add: set_rows_put [OF wf] del: rows_put)
      then show ?thesis using jy(2,3) by (rule week_has_mem)
    qed
  qed
  have eq: "week_has u r m = week_has u r0 m" for u m using same by (simp add: week_has_def same_week_def)
  show ?thesis
    unfolding revisions_contiguous_def
  proof (intro allI impI, goal_cases)
    case (1 j y)
    then consider "(j, y) \<in> set (tbl_rows t)" | "y = r" by (auto simp: set_rows_put [OF wf] simp del: rows_put)
    then show ?case
    proof cases
      case 1
      then show ?thesis using c old unfolding revisions_contiguous_def by blast
    next
      case 2
      then show ?thesis using c old tbl_getD [OF get] same unfolding revisions_contiguous_def 2 eq by metis
    qed
  qed
qed

end
