(* ===== verification/ReportCommands.thy ===== *)
theory ReportCommands
  imports ReportWrites
begin

text \<open>
  Every operation of the report services stands in \<open>report_step\<close>; then all of them as one system (\<open>report_command\<close>),
  an instance of \<open>command_system\<close>.
\<close>

lemma map_sum_Inr: "map_sum id f x = Inr y \<longleftrightarrow> (\<exists>z. x = Inr z \<and> y = f z)"
  by (cases x) auto

section \<open>Reports\<close>

lemma insert_report_step:
  assumes e: "insert_report x s = (r, s')"
    and period: "reports_ok s \<Longrightarrow> report_of_period (db_reporting_periods s) x"
    and n: "wr_revision_number x = next_revision s (wr_project x) (wr_student x) (wr_report_week_start x)"
  shows "report_step s s'"
proof (cases "s' = s")
  case False
  then have s': "s' = s\<lparr>db_weekly_reports := tbl_insert x (db_weekly_reports s),
      db_report_project := (db_report_project s)(tbl_next (db_weekly_reports s) \<mapsto> wr_project x)\<rparr>"
    and free: "\<not> key_taken report_revision_key x (db_weekly_reports s)" "\<not> key_taken report_retry_key x (db_weekly_reports s)"
    using e by (auto simp: insert_report_def split: if_splits)
  have "reports_ok s' \<and> reports_kept s s'" if ok: "reports_ok s"
  proof -
    have wf: "tbl_wf (db_weekly_reports s)" using ok by (simp add: reports_ok_def weekly_fine_def)
    have w: "weekly_fine (db_reporting_periods s) (tbl_insert x (db_weekly_reports s))"
      using ok free period [OF ok] contiguous_insert [OF _ n]
      by (auto simp: reports_ok_def weekly_fine_def tbl.wf_add unique_on_insert)
    have q: "responses_fine (tbl_insert x (db_weekly_reports s)) (db_template_fields s) (db_report_responses s)"
      using ok unfolding reports_ok_def responses_fine_def response_fits_def
      by (auto dest!: bspec intro: tbl.get_add_old [OF wf])
    have "entries_kept written (db_weekly_reports s) (tbl_insert x (db_weekly_reports s))" by (rule entries_kept_insert [OF wf])
    then show ?thesis using ok w q by (simp add: s' reports_ok_def reports_kept_def tbl.get_add [OF wf])
  qed
  then show ?thesis by (simp add: report_step_def)
qed (simp add: rep.reflexive)

lemma insert_report_row:
  assumes "insert_report x s = (Inr k, s')"
  shows "k = tbl_next (db_weekly_reports s) \<and> db_weekly_reports s' = tbl_insert x (db_weekly_reports s)
    \<and> db_template_fields s' = db_template_fields s \<and> db_report_responses s' = db_report_responses s"
  using assms by (auto simp: insert_report_def split: if_splits)

lemma response_row_row:
  "response_row pid k now x = Inr q \<Longrightarrow> rq_report q = k \<and> rq_template_field q = fst x"
  by (auto simp: response_row_def map_sum_Inr split: if_splits prod.splits)

lemma insert_responses_step:
  assumes e: "insert_responses pid k xs s = (r, s')"
    and rep: "tbl_get (db_weekly_reports s) k = Some w" "wr_template_version w = Some v"
    and f: "\<And>j x. (j, x) \<in> set xs \<Longrightarrow> \<exists>f. tbl_get (db_template_fields s) j = Some f \<and> fl_template_version f = v"
  shows "report_step s s'"
proof (cases "s' = s")
  case False
  then obtain rows where rows: "bulk_rows (response_row pid k (db_now s)) xs = Inr rows"
    and s': "s' = s\<lparr>db_report_responses := insert_all rows (db_report_responses s)\<rparr>"
    and free: "\<forall>q \<in> set rows. \<not> key_taken response_key q (db_report_responses s)" "distinct (map rq_template_field rows)"
    using e by (auto simp: insert_responses_def list_ex_iff split: sum.splits if_splits)
  have q: "rq_report q = k \<and> (\<exists>x. (rq_template_field q, x) \<in> set xs)" if "q \<in> set rows" for q
    using bulk_rows_mem [OF rows that] response_row_row by fastforce
  have keys: "distinct (map response_key rows)"
    using free(2) by (auto simp: distinct_map inj_on_def response_key_def)
  have fits: "response_fits (db_weekly_reports s) (db_template_fields s) q" if "q \<in> set rows" for q
    using q [OF that] rep f unfolding response_fits_def by blast
  have "reports_ok s' \<and> reports_kept s s'" if ok: "reports_ok s"
  proof -
    have old: "responses_fine (db_weekly_reports s) (db_template_fields s) (db_report_responses s)" using ok by (simp add: reports_ok_def)
    have wf: "tbl_wf (db_report_responses s)" using old by (simp add: responses_fine_def)
    have "responses_fine (db_weekly_reports s) (db_template_fields s) (insert_all rows (db_report_responses s))"
      using old free keys fits by (auto simp: responses_fine_def insert_all_wf intro!: unique_on_insert_all dest!: insert_all_mem)
    moreover have "entries_kept id (db_report_responses s) (insert_all rows (db_report_responses s))"
      by (auto simp: entries_kept_def insert_all_old [OF wf])
    ultimately show ?thesis using ok by (simp add: s' reports_ok_def reports_kept_def)
  qed
  then show ?thesis by (simp add: report_step_def)
qed (simp add: rep.reflexive)

lemma prepared_fields:
  assumes "prepare_responses s pid fs responses = Inr prepared" "(j, x) \<in> set prepared"
  shows "\<exists>f. (j, f) \<in> set fs"
proof -
  obtain rs where rs: "bulk_rows (\<lambda>(k, f). map_sum id (\<lambda>r. (k, f, r)) (validate_response_value s pid f (dict_get (fl_key f) responses))) fs = Inr rs"
    and p: "prepared = map (\<lambda>(k, f, r). (k, r)) (filter (\<lambda>(k, f, v, _). \<not> empty_response v \<or> fl_required f) rs)"
    using assms(1) by (auto simp: prepare_responses_def map_sum_Inr)
  obtain f where "(j, f, x) \<in> set rs" using assms(2) by (auto simp: p)
  then obtain y where "y \<in> set fs" "(\<lambda>(k, f). map_sum id (\<lambda>r. (k, f, r)) (validate_response_value s pid f (dict_get (fl_key f) responses))) y = Inr (j, f, x)"
    using bulk_rows_mem [OF rs] by blast
  moreover obtain k g where "y = (k, g)" by fastforce
  ultimately show ?thesis by (auto simp: map_sum_Inr)
qed

lemma store_structured_step:
  assumes e: "store_structured u pid period p responses key prepared s = (r, s')"
    and p: "tbl_get (db_reporting_periods s) period = Some p" "pd_project p = pid"
    and prep: "\<And>j x. (j, x) \<in> set prepared \<Longrightarrow> \<exists>f. (j, f) \<in> set (fields_of s (pd_template_version p))"
    and ok: "reports_ok s"
  shows "report_step s s'"
proof (rule rep.of_case [OF e [unfolded store_structured_def Let_def]], goal_cases)
  case (1 q t)
  then show ?case
    by (rule insert_report_step) (simp_all add: structured_report_def report_of_period_def p)
next
  case (2 k s1)
  note ins = insert_report_row [OF 2(1)]
  have wf: "tbl_wf (db_weekly_reports s)" "tbl_wf (db_template_fields s)"
    using ok by (simp_all add: reports_ok_def weekly_fine_def fields_fine_def)
  show ?case
  proof (rule rep.of_case [OF 2(3)], goal_cases)
    case (1 q t)
    show ?case
    proof (rule insert_responses_step [OF 1])
      show "tbl_get (db_weekly_reports s1) k = Some (structured_report pid (u_id u) period p responses
          (next_revision s pid (u_id u) (pd_starts_on p)) key (db_now s))"
        using ins by (simp add: tbl.get_add [OF wf(1)])
      show "\<exists>f. tbl_get (db_template_fields s1) j = Some f \<and> fl_template_version f = pd_template_version p"
        if "(j, x) \<in> set prepared" for j x
        using prep [OF that] ins by (auto simp: fields_of_mem tbl_get_iff [OF wf(2)])
    qed (simp add: structured_report_def)
  next
    case c: (2 x s2)
    show ?case
    proof (rule rep.of_case [OF c(3)], goal_cases)
      case (1 q t)
      then show ?case by (rule notify_members_step)
    qed (auto simp: structured_event_def)
  qed
qed

lemma submit_structured_report_step:
  assumes "submit_structured_report u project period responses key s = (r, s')" shows "report_step s s'"
proof -
  have "report_step s s'" if ok: "reports_ok s"
  proof (rule rep.of_atomic [OF assms [unfolded submit_structured_report_def]], goal_cases)
    case (1 q t)
    then consider "t = s" | p prepared where "tbl_get (db_reporting_periods s) period = Some p" "pd_project p = fst project"
        "prepare_responses s (fst project) (fields_of s (pd_template_version p)) responses = Inr prepared"
        "store_structured u (fst project) period p responses key prepared s = (q, t)"
      by (auto simp: Let_def split: sum.splits option.splits if_splits list.splits)
    then show ?case
    proof cases
      case (2 p prepared)
      show ?thesis by (rule store_structured_step [OF 2(4,1,2) prepared_fields [OF 2(3)] ok])
    qed (simp add: rep.reflexive)
  qed
  then show ?thesis by (auto simp: report_step_def)
qed

lemma submit_report_step:
  assumes "submit_report u project a s = (r, s')" shows "report_step s s'"
proof -
  let ?r = "written_report (fst project) (u_id u) a (next_revision s (fst project) (u_id u) (rg_report_week_start a)) (db_now s)"
  from assms consider "s' = s"
    | "(case insert_report ?r s of (Inl e, s1) \<Rightarrow> (Inl e, s1)
        | (Inr k, s1) \<Rightarrow> (case notify_members (fst project) {ProjectMembership_ADVISOR, ProjectMembership_CO_ADVISOR} u
              (''WeeklyProgressReport'', k) ''New weekly progress report submitted''
              (''/projects/'' @ str_of_nat (fst project) @ ''/reports/'' @ str_of_nat k) Notification_ADMINISTRATION s1 of
            (Inl e, s2) \<Rightarrow> (Inl e, s2)
          | (Inr _, s2) \<Rightarrow> (Inr k, report_event (fst project) u ''weekly_report.submitted''
              (''Submitted weekly progress report revision '' @
                 str_of_nat (next_revision s (fst project) (u_id u) (rg_report_week_start a))) k s2))) = (r, s')"
    unfolding submit_report_def Let_def next_revision_latest by (auto split: sum.splits if_splits)
  then show ?thesis
  proof cases
    case 2
    show ?thesis
    proof (rule rep.of_case [OF 2], goal_cases)
      case (1 q t)
      then show ?case by (rule insert_report_step) (simp_all add: written_report_def report_of_period_def)
    next
      case c: (2 x s2)
      show ?case
      proof (rule rep.of_case [OF c(3)], goal_cases)
        case (1 q t)
        then show ?case by (rule notify_members_step)
      qed (auto simp: report_event_def)
    qed
  qed (simp add: rep.reflexive)
qed

lemma update_report_review_step:
  assumes e: "update_report_review u project k status s = (r, s')" shows "report_step s s'"
proof (cases "s' = s")
  case False
  then obtain w where get: "tbl_get (db_weekly_reports s) k = Some w"
    and s': "s' = report_event (fst project) u ''weekly_report.reviewed''
        (''Set weekly report '' @ str_of_nat k @ '' to '' @ report_review_value status) k
        (s\<lparr>db_weekly_reports := tbl_put k (w\<lparr>wr_review_status := status, wr_reviewed_at := Some (db_now s)\<rparr>) (db_weekly_reports s)\<rparr>)"
    using e by (auto simp: update_report_review_def split: option.splits if_splits sum.splits)
  let ?w = "w\<lparr>wr_review_status := status, wr_reviewed_at := Some (db_now s)\<rparr>"
  let ?t = "tbl_put k ?w (db_weekly_reports s)"
  have "report_step s (s\<lparr>db_weekly_reports := ?t\<rparr>)"
    unfolding report_step_def
  proof (rule impI)
    assume ok: "reports_ok s"
    then have wf: "tbl_wf (db_weekly_reports s)" and old: "weekly_fine (db_reporting_periods s) (db_weekly_reports s)"
      by (simp_all add: reports_ok_def weekly_fine_def)
    have u: "unique_on report_revision_key ?t" "unique_on report_retry_key ?t"
      by (rule unique_on_put_same [OF _ wf get]; use old in \<open>simp add: weekly_fine_def report_revision_key_def report_retry_key_def\<close>)+
    have c: "revisions_contiguous ?t"
      by (rule contiguous_update [OF wf _ get]) (use old in \<open>simp_all add: weekly_fine_def same_week_def\<close>)
    have p: "report_of_period (db_reporting_periods s) ?w"
    proof -
      have "report_of_period (db_reporting_periods s) w" using old tbl_getD [OF get] by (auto simp: weekly_fine_def)
      then show ?thesis by (cases "wr_reporting_period w") (simp_all add: report_of_period_def)
    qed
    have w: "weekly_fine (db_reporting_periods s) ?t"
      using old u c p unfolding weekly_fine_def by (auto simp: tbl.wf_put set_rows_put [OF wf] simp del: rows_put)
    have q: "responses_fine ?t (db_template_fields s) (db_report_responses s)"
      using ok get unfolding reports_ok_def responses_fine_def response_fits_def
      by (fastforce simp: tbl.get_put [OF wf])
    have m: "\<forall>j. db_report_project s j = map_option wr_project (tbl_get ?t j)"
      using ok get by (auto simp: reports_ok_def tbl.get_put [OF wf])
    have "entries_kept written (db_weekly_reports s) ?t"
      by (rule entries_kept_put [OF wf get]) (simp add: written_def)
    then show "reports_ok (s\<lparr>db_weekly_reports := ?t\<rparr>) \<and> reports_kept s (s\<lparr>db_weekly_reports := ?t\<rparr>)"
      using ok w q m by (simp add: reports_ok_def reports_kept_def)
  qed
  then show ?thesis by (simp add: s' report_event_def record_after)
qed (simp add: rep.reflexive)

section \<open>Comments and drafts\<close>

lemma create_comment_step:
  assumes "create_comment u project tt tid anchor body s = (r, s')" shows "report_step s s'"
proof -
  have "report_step s (comment_event p u a sm k (s\<lparr>db_inline_comments := tbl_insert c (db_inline_comments s)\<rparr>))" for p a sm k c
    unfolding comment_event_def by (rule record_after) (simp add: report_step_def reports_ok_def reports_kept_def tbl.wf_add)
  then show ?thesis
    using assms rep.reflexive by (auto simp: create_comment_def Let_def split: sum.splits if_splits option.splits)
qed

lemma set_comment_status_step:
  assumes "set_comment_status u project k status s = (r, s')" shows "report_step s s'"
proof -
  have "report_step s (comment_event p u a sm k (s\<lparr>db_inline_comments := tbl_put k c (db_inline_comments s)\<rparr>))" for p a sm k c
    unfolding comment_event_def by (rule record_after) (simp add: report_step_def reports_ok_def reports_kept_def tbl.wf_put)
  then show ?thesis
    using assms rep.reflexive by (auto simp: set_comment_status_def Let_def split: sum.splits if_splits option.splits)
qed

lemma create_draft_step:
  assumes "create_draft u project title s = (r, s')" shows "report_step s s'"
proof -
  have "report_step s (draft_event p u a sm k (s\<lparr>db_drafts := tbl_insert d (db_drafts s)\<rparr>))" for p a sm k d
    unfolding draft_event_def by (rule record_after) (simp add: report_step_def reports_ok_def reports_kept_def tbl.wf_add)
  then show ?thesis
    using assms rep.reflexive by (auto simp: create_draft_def Let_def split: sum.splits if_splits option.splits)
qed

lemma insert_draft_version_step:
  assumes "insert_draft_version v s = (r, s')" shows "report_step s s'"
proof (cases "s' = s")
  case False
  then have s': "s' = s\<lparr>db_draft_versions := tbl_insert v (db_draft_versions s),
      db_draft_version_project := (db_draft_version_project s)(tbl_next (db_draft_versions s) \<mapsto> dv_project v)\<rparr>"
    and free: "\<not> key_taken draft_number_key v (db_draft_versions s)"
    using assms by (auto simp: insert_draft_version_def split: if_splits)
  show ?thesis
    using free by (auto simp: s' report_step_def reports_ok_def reports_kept_def tbl.wf_add unique_on_insert tbl.get_add)
qed (simp add: rep.reflexive)

lemma submit_draft_version_step:
  assumes e: "submit_draft_version u project k reference summary s = (r, s')" shows "report_step s s'"
proof (cases "s' = s")
  case False
  then obtain d where d: "tbl_get (db_drafts s) k = Some d" "draft_guard s u project d = Inr ()"
    using e by (auto simp: submit_draft_version_def split: option.splits sum.splits)
  note e2 = e [unfolded submit_draft_version_def d option.case sum.case Let_def]
  show ?thesis
  proof (rule rep.of_case [OF e2], goal_cases)
    case (1 q t)
    then show ?case by (rule insert_draft_version_step)
  next
    case c: (2 x s2)
    show ?case
    proof (rule rep.of_case [OF c(3)], goal_cases)
      case (1 q t)
      then show ?case by (rule notify_members_step)
    qed (auto simp: draft_event_def)
  qed
qed (simp add: rep.reflexive)

lemma update_draft_review_step:
  assumes e: "update_draft_review u project k status s = (r, s')" shows "report_step s s'"
proof (cases "s' = s")
  case False
  then obtain v ev where get: "tbl_get (db_draft_versions s) k = Some v"
    and s': "s' = draft_event (fst project) u ''draft_version.reviewed''
       (''Set draft version '' @ str_of_nat k @ '' to '' @ report_review_value status) (''DraftVersion'', k)
       (s\<lparr>db_draft_versions := tbl_put k (v\<lparr>dv_review_status := status, dv_reviewed_at := Some (db_now s)\<rparr>) (db_draft_versions s)\<rparr>)"
    using e by (auto simp: update_draft_review_def require_project_reviewer_def guard_def split: option.splits if_splits sum.splits)
  let ?v = "v\<lparr>dv_review_status := status, dv_reviewed_at := Some (db_now s)\<rparr>"
  have "report_step s (s\<lparr>db_draft_versions := tbl_put k ?v (db_draft_versions s)\<rparr>)"
    using get by (auto simp: report_step_def reports_ok_def reports_kept_def tbl.wf_put tbl.get_put draft_number_key_def
        intro!: unique_on_put_same)
  then show ?thesis by (simp add: s' draft_event_def record_after)
qed (simp add: rep.reflexive)

section \<open>Templates\<close>

lemma locked_versionD: "locked_version s k = Inr (v, p) \<Longrightarrow> tbl_get (db_template_versions s) k = Some v"
  by (auto simp: locked_version_def map_sum_Inr split: option.splits)

lemma reports_okD:
  assumes "reports_ok s"
  shows "schedules_fine (db_report_schedules s)" "templates_fine (db_report_templates s) (db_template_versions s)"
    "fields_fine (db_template_versions s) (db_template_fields s)" "periods_fine (db_template_versions s) (db_reporting_periods s)"
    "weekly_fine (db_reporting_periods s) (db_weekly_reports s)"
    "responses_fine (db_weekly_reports s) (db_template_fields s) (db_report_responses s)"
  using assms by (simp_all add: reports_ok_def)

lemma get_or_create_template_step:
  assumes "get_or_create_template u pid name s = (r, s')" shows "report_step s s'"
proof (cases "s' = s")
  case False
  then obtain t where s': "s' = s\<lparr>db_report_templates := tbl_insert t (db_report_templates s)\<rparr>"
    and new: "tbl_first (\<lambda>_ t. tp_project t = pid) (db_report_templates s) = None" "tp_project t = pid" "tp_active_version t = None"
    using assms by (auto simp: get_or_create_template_def template_of_def Let_def split: option.splits if_splits)
  show ?thesis
  proof (rule versions_step [where vs = "db_template_versions s" and ts = "tbl_insert t (db_report_templates s)"], goal_cases)
    case 2
    then show ?case using new by (intro templates_fine_insert reports_okD) auto
  qed (simp_all add: s' versions_grow_def)
qed (simp add: rep.reflexive)

lemma get_or_create_template_row:
  assumes "get_or_create_template u pid name s = (Inr (tk, t), s')" "reports_ok s"
  shows "tbl_get (db_report_templates s') tk = Some t"
proof -
  have wf: "tbl_wf (db_report_templates s)" using assms(2) by (simp add: reports_ok_def templates_fine_def)
  show ?thesis
    using assms(1) tbl_get_iff [OF wf] by (auto simp: get_or_create_template_def template_of_def Let_def tbl.get_add [OF wf]
        dest!: tbl_firstD split: option.splits if_splits)
qed

lemma insert_draft_step:
  assumes e: "insert_version v s = (r, s')" and st: "tv_status v = Template_DRAFT"
    and t: "reports_ok s \<Longrightarrow> tbl_get (db_report_templates s) (tv_template v) \<noteq> None"
  shows "report_step s s'"
proof (cases "s' = s")
  case False
  then have s': "s' = s\<lparr>db_template_versions := tbl_insert v (db_template_versions s)\<rparr>"
    and free: "\<not> key_taken template_number_key v (db_template_versions s)" "\<not> key_taken template_draft_key v (db_template_versions s)"
      "\<not> key_taken template_published_key v (db_template_versions s)"
    using e by (auto simp: insert_version_def split: if_splits)
  show ?thesis
  proof (rule versions_step [where vs = "tbl_insert v (db_template_versions s)" and ts = "db_report_templates s"], goal_cases)
    case 2
    then show ?case using free st t by (intro templates_fine_draft reports_okD) auto
  next
    case 3
    then show ?case by (intro versions_grow_insert) (simp add: reports_ok_def templates_fine_def)
  qed (simp add: s')
qed (simp add: rep.reflexive)

lemma create_template_draft_step:
  assumes e: "create_template_draft u project name s = (r, s')" shows "report_step s s'"
proof -
  have "report_step s s'" if ok: "reports_ok s"
  proof (rule rep.of_atomic [OF e [unfolded create_template_draft_def]], goal_cases)
    case (1 q t)
    show ?case
    proof (cases "require_template_manager s u (fst project) (snd project)")
      case (Inr a)
      note 2 = 1 [unfolded Inr sum.case]
      show ?thesis
      proof (rule rep.of_case [OF 2], goal_cases)
        case (1 q t)
        then show ?case by (rule get_or_create_template_step)
      next
        case c: (2 x s1)
        obtain tk tm where x: "x = (tk, tm)" by fastforce
        have ok1: "reports_ok s1" using c(2) ok by (simp add: report_step_def)
        have tm: "tbl_get (db_report_templates s1) tk = Some tm" by (rule get_or_create_template_row [OF c(1) [unfolded x] ok])
        show ?case
        proof (cases "draft_version_of s1 tk")
          case None
          let ?v = "new_version u (fst project) tk (next_version_number s1 tk) (db_now s1)"
          note c2 = c(3) [unfolded x prod.case None option.case Let_def]
          show ?thesis
          proof (rule rep.of_case [OF c2], goal_cases)
            case (1 q t)
            then show ?case by (rule insert_draft_step) (simp_all add: new_version_def tm)
          next
            case d: (2 k s2)
            have wf: "tbl_wf (db_template_versions s1)" using ok1 by (simp add: reports_ok_def templates_fine_def)
            have v: "tbl_get (db_template_versions s2) k = Some ?v"
              using d(1) by (auto simp: insert_version_def tbl.get_add [OF wf] split: if_splits)
            show ?case
            proof (rule rep.of_case [OF d(3)], goal_cases)
              case (1 q t)
              then show ?case
                by (cases "tp_active_version tm")
                  (auto simp: copy_active_fields_def rep.reflexive new_version_def intro: bulk_create_fields_step [OF _ v])
            qed (auto simp: template_event_def)
          qed
        qed (use c(3) x in \<open>auto simp: rep.reflexive\<close>)
      qed
    qed (use 1 in \<open>simp add: rep.reflexive\<close>)
  qed
  then show ?thesis by (auto simp: report_step_def)
qed

end
