(* ===== verification/ReportSystem.thy ===== *)
theory ReportSystem
  imports ReportCommands
begin

text \<open>
  The template, period and schedule services stand in \<open>report_step\<close>; then everything a client and the weekly job can
  ask for as one system (\<open>report_command\<close>), an instance of \<open>command_system\<close>. Replacing the fields of a draft and
  configuring a schedule are instances of \<open>optimistic_update\<close>.
\<close>

section \<open>Editing and publishing\<close>

lemma delete_fields_versions: "delete_fields k s = (r, s') \<Longrightarrow> db_template_versions s' = db_template_versions s"
  by (auto simp: delete_fields_def split: if_splits)

lemma bulk_create_fields_versions: "bulk_create_fields k fs s = (r, s') \<Longrightarrow> db_template_versions s' = db_template_versions s"
  by (auto simp: bulk_create_fields_def Let_def split: if_splits sum.splits)

lemma replace_template_fields_cases:
  assumes "replace_template_fields u k expected fs s = (r, s')"
  obtains e where "r = Inl e" "s' = s"
  | v p ds s1 s2 where "locked_version s k = Inr (v, p)" "tv_status v = Template_DRAFT" "expected = Some (int (tv_version v))"
      "delete_fields k s = (Inr (), s1)" "bulk_create_fields k ds s1 = (Inr (), s2)" "r = Inr k"
      "bulk_rows validate_field_definition fs = Inr ds"
      "s' = s2\<lparr>db_template_versions := tbl_put k (v\<lparr>tv_version := Suc (tv_version v)\<rparr>) (db_template_versions s2)\<rparr>"
proof (cases r)
  case (Inl e)
  then show ?thesis using assms that(1) by (auto simp: replace_template_fields_def)
next
  case (Inr j)
  show ?thesis
    using assms unfolding Inr replace_template_fields_def atomic_def
    by (auto split: sum.splits if_splits prod.splits intro: that(2) [unfolded Inr])
qed

lemma replace_template_fields_step:
  assumes e: "replace_template_fields u k expected fs s = (r, s')" shows "report_step s s'"
  using e
proof (cases rule: replace_template_fields_cases)
  case (2 v p ds s1 s2)
  note get = locked_versionD [OF 2(1)]
  have get1: "tbl_get (db_template_versions s1) k = Some v" using get delete_fields_versions [OF 2(4)] by simp
  have get2: "tbl_get (db_template_versions s2) k = Some v" using get1 bulk_create_fields_versions [OF 2(5)] by simp
  have "report_step s s2"
    using delete_fields_step [OF 2(4) get 2(2)] bulk_create_fields_step [OF 2(5) get1 2(2)] by (rule rep.transitive)
  moreover have "report_step s2 s'"
  proof (rule versions_step [where vs = "tbl_put k (v\<lparr>tv_version := Suc (tv_version v)\<rparr>) (db_template_versions s2)"
        and ts = "db_report_templates s2"], goal_cases)
    case 2
    then show ?case by (intro templates_fine_bump get2 reports_okD)
  next
    case 3
    then show ?case by (intro versions_grow_put [OF _ get2]) (auto simp: reports_ok_def templates_fine_def)
  qed (simp add: 2)
  ultimately show ?thesis by (rule rep.transitive)
qed (simp add: rep.reflexive)

lemma publish_cases:
  assumes "publish_template_version u k expected s = (r, s')"
  obtains e where "r = Inl e" "s' = s"
  | v p where "locked_version s k = Inr (v, p)" "tv_status v = Template_PUBLISHED" "r = Inr k" "s' = s"
  | v p where "locked_version s k = Inr (v, p)" "tv_status v = Template_DRAFT" "expected = Some (int (tv_version v))"
      "r = Inr k" "fields_of s k \<noteq> []"
      "s' = template_event (tv_project v) u ''report_template.published'' k (published_version u (db_now s) v) True
         (activate_version (tv_template v) k ((supersede_published (tv_template v) s)\<lparr>db_template_versions :=
            tbl_put k (published_version u (db_now s) v) (db_template_versions (supersede_published (tv_template v) s))\<rparr>))"
proof (cases r)
  case (Inl e)
  then show ?thesis using assms that(1) by (auto simp: publish_template_version_def)
next
  case (Inr j)
  show ?thesis
    using assms unfolding Inr publish_template_version_def atomic_def Let_def
    by (auto split: sum.splits if_splits prod.splits intro: that(2,3) [unfolded Inr])
qed

lemma publish_step:
  assumes e: "publish_template_version u k expected s = (r, s')" shows "report_step s s'"
  using e
proof (cases rule: publish_cases)
  case (3 v p)
  note get = locked_versionD [OF 3(1)]
  let ?v = "published_version u (db_now s) v"
  let ?vs = "tbl_update_where (\<lambda>_ w. tv_template w = tv_template v \<and> tv_status w = Template_PUBLISHED)
      (\<lambda>v. v\<lparr>tv_status := Template_SUPERSEDED\<rparr>) (db_template_versions s)"
  let ?ts = "tbl_update_where (\<lambda>j _. j = tv_template v)
      (\<lambda>t. t\<lparr>tp_active_version := Some k, tp_updated_at := db_now s\<rparr>) (db_report_templates s)"
  have "report_step s (s\<lparr>db_template_versions := tbl_put k ?v ?vs, db_report_templates := ?ts\<rparr>)"
  proof (rule versions_step [OF refl], goal_cases)
    case 1
    then show ?case by (intro templates_fine_publish get reports_okD) (simp_all add: published_version_def 3(2))
  next
    case 2
    then have wf: "tbl_wf (db_template_versions s)" by (simp add: reports_ok_def templates_fine_def)
    have "tbl_get ?vs k = Some v" using get 3(2) by (simp add: supersede_get)
    then have "versions_grow ?vs (tbl_put k ?v ?vs)"
      by (rule versions_grow_put [OF wf_tbl_update_where [OF wf]]) (simp add: published_version_def)
    then show ?case by (rule versions_grow_trans [OF versions_grow_supersede])
  qed
  moreover have "s' = template_event (tv_project v) u ''report_template.published'' k ?v True
      (s\<lparr>db_template_versions := tbl_put k ?v ?vs, db_report_templates := ?ts\<rparr>)"
    by (simp add: 3(6) activate_version_def supersede_published_def)
  ultimately show ?thesis by (simp add: template_event_def record_after)
qed (simp_all add: rep.reflexive)

lemma template_event_versions [simp]:
  "db_template_versions (template_event pid u a k v pr s) = db_template_versions s"
  "db_report_templates (template_event pid u a k v pr s) = db_report_templates s"
  "db_template_fields (template_event pid u a k v pr s) = db_template_fields s"
  by (simp_all add: template_event_def record_execution_event_def record_event_def)

lemma publish_released:
  assumes e: "publish_template_version u k expected s = (Inr j, s')" and ok: "reports_ok s"
  shows "released (db_template_versions s') j"
  using e
proof (cases rule: publish_cases)
  case (2 v p)
  then show ?thesis using locked_versionD [OF 2(1)] by (auto simp: released_get)
next
  case (3 v p)
  have "tbl_wf (db_template_versions (supersede_published (tv_template v) s))"
    using ok by (simp add: supersede_published_def reports_ok_def templates_fine_def wf_tbl_update_where)
  then show ?thesis using 3(4) by (simp add: 3(6) released_get activate_version_def tbl.get_put published_version_def)
qed simp

section \<open>The default template and the periods\<close>

lemma fill_default_step: "fill_default u k s = (r, s') \<Longrightarrow> report_step s s'"
proof -
  assume e: "fill_default u k s = (r, s')"
  show ?thesis
  proof (cases "fields_of s k = []")
    case True
    show ?thesis
      by (rule rep.of_void [where m = "replace_template_fields u k (map_option (\<lambda>v. int (tv_version v)) (tbl_get (db_template_versions s) k))
             (map data_of_dict default_fields)"])
        (use e True in \<open>simp_all add: fill_default_def replace_template_fields_step\<close>)
  qed (use e in \<open>simp add: fill_default_def rep.reflexive\<close>)
qed

lemma ensure_default_step:
  assumes e: "ensure_default_report_template u project s = (r, s')"
  shows "report_step s s'"
proof (rule rep.of_atomic [OF e [unfolded ensure_default_report_template_def]], goal_cases)
  case (1 q t)
  show ?case
  proof (cases "Option.bind (template_of s (fst project)) (\<lambda>(_, t). tp_active_version t)")
    case None
    show ?thesis
    proof (rule rep.of_case [OF 1 [unfolded None option.case]], goal_cases)
      case (1 q t)
      then show ?case by (rule create_template_draft_step)
    next
      case c: (2 k s1)
      show ?case
      proof (rule rep.of_case [OF c(3)], goal_cases)
        case (1 q t)
        then show ?case by (rule fill_default_step)
      qed (rule publish_step)
    qed
  qed (use 1 in \<open>simp add: rep.reflexive\<close>)
qed

lemma ensure_default_released:
  assumes e: "ensure_default_report_template u project s = (Inr v, s')" and ok: "reports_ok s"
  shows "released (db_template_versions s') v"
proof (cases "Option.bind (template_of s (fst project)) (\<lambda>(_, t). tp_active_version t)")
  case (Some k)
  then obtain tk t where t: "template_of s (fst project) = Some (tk, t)" "tp_active_version t = Some k"
    by (auto simp: bind_eq_Some_conv)
  have wf: "tbl_wf (db_report_templates s)" using ok by (simp add: reports_ok_def templates_fine_def)
  have "tbl_get (db_report_templates s) tk = Some t"
    using t(1) tbl_get_iff [OF wf] by (auto simp: template_of_def dest!: tbl_firstD)
  then obtain w where "tbl_get (db_template_versions s) k = Some w" "tv_status w = Template_PUBLISHED"
    using reports_okD(2) [OF ok] t(2) unfolding templates_fine_def by blast
  moreover have "v = k" "s' = s" using e by (simp_all add: ensure_default_report_template_def Some atomic_def)
  ultimately show ?thesis by (simp add: released_get)
next
  case None
  obtain k s1 s2 ex where c: "create_template_draft u project ''Weekly progress'' s = (Inr k, s1)" "fill_default u k s1 = (Inr (), s2)"
    "publish_template_version u k ex s2 = (Inr v, s')"
    using e by (auto simp: ensure_default_report_template_def None atomic_def split: prod.splits sum.splits)
  have "reports_ok s2"
    using rep.transitive [OF create_template_draft_step [OF c(1)] fill_default_step [OF c(2)]] ok by (simp add: report_step_def)
  then show ?thesis by (rule publish_released [OF c(3)])
qed

lemma project_template_step: "project_template project s = (r, s') \<Longrightarrow> report_step s s'"
  by (auto simp: project_template_def rep.reflexive intro: ensure_default_step split: option.splits)

lemma project_template_released:
  "project_template project s = (Inr v, s') \<Longrightarrow> reports_ok s \<Longrightarrow> released (db_template_versions s') v"
  by (auto simp: project_template_def intro: ensure_default_released split: option.splits)

lemma new_period_fields [simp]:
  "pd_ends_on (new_period pid d at v now) = pd_starts_on (new_period pid d at v now) + 7"
  "pd_template_version (new_period pid d at v now) = v" "pd_project (new_period pid d at v now) = pid"
  "pd_starts_on (new_period pid d at v now) = d"
  by (simp_all add: new_period_def)

lemma open_reporting_period_step:
  assumes e: "open_reporting_period project d s = (r, s')" shows "report_step s s'"
proof -
  have "report_step s s'" if ok: "reports_ok s"
  proof (rule rep.of_atomic [OF e [unfolded open_reporting_period_def]], goal_cases)
    case (1 q t)
    then consider "t = s" | "(case project_template project s of
            (Inl e, s1) \<Rightarrow> (Inl e, s1)
          | (Inr v, s1) \<Rightarrow>
              (case period_deadline s1 (fst project) d of
                 None \<Rightarrow> (Inl Does_not_return, s1)
               | Some deadline \<Rightarrow>
                   (case insert_period (new_period (fst project) d deadline v (db_now s1)) s1 of
                      (Inl e, s2) \<Rightarrow> (Inl e, s2)
                    | (Inr k, s2) \<Rightarrow>
                        (Inr k, record_execution_event (Some (fst project)) None ''report_period.opened''
                           (Some (''ReportingPeriod'', k)) (Some [(''status'', PStr (period_state_value Period_OPEN))]) False s2)))) = (q, t)"
      by (auto split: if_splits option.splits prod.splits)
    then show ?case
    proof cases
      case 2
      show ?thesis
      proof (rule rep.of_case [OF 2], goal_cases)
        case (1 q t)
        then show ?case by (rule project_template_step)
      next
        case c: (2 v s1)
        show ?case
        proof (cases "period_deadline s1 (fst project) d")
          case (Some at)
          show ?thesis
          proof (rule rep.of_case [OF c(3) [unfolded Some option.case]], goal_cases)
            case (1 q t)
            then show ?case by (rule insert_period_step) (simp_all add: project_template_released [OF c(1) ok])
          qed auto
        qed (use c(3) in \<open>simp add: rep.reflexive\<close>)
      qed
    qed (simp add: rep.reflexive)
  qed
  then show ?thesis by (auto simp: report_step_def)
qed

lemma open_current_for_step:
  assumes e: "open_current_for d project s = (r, s')" shows "report_step s s'"
proof -
  have "report_step s s'" if ok: "reports_ok s"
  proof (cases "period_deadline s (fst project) d")
    case (Some at)
    show ?thesis
    proof (rule rep.of_case [OF e [unfolded open_current_for_def Some option.case]], goal_cases)
      case (1 q t)
      then show ?case by (rule project_template_step)
    next
      case c: (2 v s1)
      show ?case
      proof (cases "reporting_period_of s1 (fst project) d")
        case None
        show ?thesis
        proof (rule rep.of_case [OF c(3) [unfolded None option.case]], goal_cases)
          case (1 q t)
          then show ?case by (rule insert_period_step) (simp_all add: project_template_released [OF c(1) ok])
        qed (auto simp: rep.reflexive)
      qed (use c(3) in \<open>simp add: rep.reflexive\<close>)
    qed
  qed (use e in \<open>simp add: open_current_for_def rep.reflexive\<close>)
  then show ?thesis by (auto simp: report_step_def)
qed

lemma open_each_step: "open_each d ps s = (r, s') \<Longrightarrow> report_step s s'"
proof (induction ps arbitrary: s r s')
  case (Cons p ps)
  show ?case
  proof (rule rep.of_case [OF Cons.prems [unfolded open_each.simps]], goal_cases)
    case (1 q t)
    then show ?case by (rule open_current_for_step)
  next
    case (2 n t)
    show ?case by (rule rep.of_case [OF 2(3)]) (auto simp: rep.reflexive intro: Cons.IH)
  qed
qed (simp add: rep.reflexive)

lemma open_current_step: "open_current_reporting_periods d limit s = (r, s') \<Longrightarrow> report_step s s'"
  by (simp add: open_current_reporting_periods_def Let_def open_each_step)

section \<open>The deadline schedule\<close>

lemma clean_weekday: "clean_report_schedule s w = Inr () \<Longrightarrow> 1 \<le> wk_weekday w \<and> wk_weekday w \<le> 7"
proof (rule ccontr)
  assume c: "clean_report_schedule s w = Inr ()" and n: "\<not> (1 \<le> wk_weekday w \<and> wk_weekday w \<le> 7)"
  let ?es = "error_if (\<not> (1 \<le> wk_weekday w \<and> wk_weekday w \<le> 7)) ''weekday'' ''Weekday must be an ISO weekday from 1 to 7.''
         @ error_if (\<not> zone_known (db_zones s) (wk_timezone w)) ''timezone'' ''Enter a valid IANA timezone.''
         @ error_if (case tbl_get (db_projects s) (wk_project w) of None \<Rightarrow> True | Some p \<Rightarrow> rp_status p \<noteq> ResearchProject_ACTIVE)
             ''project'' ''Archived projects cannot configure report deadlines.''"
  have "first_error (dict_build ?es) = Inr ()" using c by (auto simp: clean_report_schedule_def split: if_splits)
  moreover have "dict_build ?es = ?es" by (rule dict_build_id) (simp add: error_if_def)
  ultimately show False using n by (simp add: first_error_Inr error_if_def)
qed

lemma schedule_event_step [simp]: "report_step s t \<Longrightarrow> report_step s (schedule_event pid u a k t)"
  by (simp add: schedule_event_def record_after)

lemma schedule_ofD: "schedule_of s pid = Some (k, w) \<Longrightarrow> schedules_fine (db_report_schedules s) \<Longrightarrow>
  tbl_get (db_report_schedules s) k = Some w \<and> wk_project w = pid"
  by (auto simp: schedule_of_def schedules_fine_def tbl_get_iff dest!: tbl_firstD)

lemma configure_cases:
  assumes "configure_project_report_schedule u project weekday deadline zone expected s = (r, s')"
  obtains e where "r = Inl e" "s' = s"
  | k w w' where "schedule_of s (fst project) = Some (k, w)" "expected = None \<or> expected = Some (int (wk_version w))"
      "w' = w\<lparr>wk_weekday := weekday, wk_deadline_time := deadline, wk_timezone := zone, wk_updated_by := u_id u,
              wk_version := Suc (wk_version w), wk_updated_at := db_now s\<rparr>"
      "clean_report_schedule s w' = Inr ()" "r = Inr k"
      "s' = schedule_event (fst project) u ''updated'' k (s\<lparr>db_report_schedules := tbl_put k w' (db_report_schedules s)\<rparr>)"
  | w where "clean_report_schedule s w = Inr ()" "schedule_of s (fst project) = None" "expected = None \<or> expected = Some 0"
      "wk_project w = fst project" "wk_version w = 1" "r = Inr (tbl_next (db_report_schedules s))"
      "s' = schedule_event (fst project) u ''configured'' (tbl_next (db_report_schedules s))
         (s\<lparr>db_report_schedules := tbl_insert w (db_report_schedules s)\<rparr>)"
proof (cases r)
  case (Inl e)
  then show ?thesis using assms that(1) by (auto simp: configure_project_report_schedule_def)
next
  case (Inr j)
  show ?thesis
    using assms unfolding Inr configure_project_report_schedule_def atomic_def Let_def
    by (auto split: sum.splits if_splits prod.splits option.splits intro: that(2,3) [unfolded Inr])
qed

lemma configure_step:
  assumes e: "configure_project_report_schedule u project weekday deadline zone expected s = (r, s')" shows "report_step s s'"
  using e
proof (cases rule: configure_cases)
  case (2 k w w')
  have "report_step s (s\<lparr>db_report_schedules := tbl_put k w' (db_report_schedules s)\<rparr>)"
  proof (rule schedules_step [OF refl])
    assume "reports_ok s"
    note f = reports_okD(1) [OF this]
    then have wf: "tbl_wf (db_report_schedules s)" and get: "tbl_get (db_report_schedules s) k = Some w"
      using schedule_ofD [OF 2(1)] by (simp_all add: schedules_fine_def)
    have "unique_on schedule_project_key (tbl_put k w' (db_report_schedules s))"
      by (rule unique_on_put_same [OF _ wf get]) (use f in \<open>simp_all add: schedules_fine_def schedule_project_key_def 2(3)\<close>)
    then show "schedules_fine (tbl_put k w' (db_report_schedules s))"
      using f clean_weekday [OF 2(4)] by (auto simp: schedules_fine_def tbl.wf_put set_rows_put [OF wf] simp del: rows_put)
  qed
  then show ?thesis by (simp add: 2(6))
next
  case (3 w)
  have "report_step s (s\<lparr>db_report_schedules := tbl_insert w (db_report_schedules s)\<rparr>)"
  proof (rule schedules_step [OF refl])
    assume "reports_ok s"
    note f = reports_okD(1) [OF this]
    have "\<not> key_taken schedule_project_key w (db_report_schedules s)"
      using 3(2,4) by (auto simp: schedule_of_def tbl_first_None key_taken_def schedule_project_key_def tbl_exists_iff)
    then show "schedules_fine (tbl_insert w (db_report_schedules s))"
      using f clean_weekday [OF 3(1)] by (auto simp: schedules_fine_def tbl.wf_add unique_on_insert)
  qed
  then show ?thesis by (simp add: 3(7))
qed (simp add: rep.reflexive)

lemma unique_on_delete: "unique_on f t \<Longrightarrow> unique_on f (tbl_delete k t)"
  unfolding unique_on_def tbl_delete_def by fastforce

lemma remove_step:
  assumes e: "remove_project_report_schedule u project expected s = (r, s')" shows "report_step s s'"
proof -
  have "report_step s (s\<lparr>db_report_schedules := tbl_delete k (db_report_schedules s)\<rparr>)" for k
    by (rule schedules_step [OF refl], drule reports_okD(1))
      (auto simp: schedules_fine_def tbl.wf_del unique_on_delete, auto simp: tbl_delete_def)
  then show ?thesis
    using e by (auto simp: remove_project_report_schedule_def atomic_def rep.reflexive record_after split: if_splits option.splits)
qed

section \<open>The system\<close>

datatype report_command =
    CreateTemplateDraft actor "pk \<times> research_project" string
  | ReplaceTemplateFields actor pk "int option" "field_data list"
  | PublishTemplate actor pk "int option"
  | EnsureDefaultTemplate actor "pk \<times> research_project"
  | OpenPeriod "pk \<times> research_project" day
  | CloseDuePeriods "instant option" nat
  | OpenCurrentPeriods "day option" nat
  | ConfigureSchedule actor "pk \<times> research_project" int int string "int option"
  | RemoveSchedule actor "pk \<times> research_project" int
  | SubmitStructured actor "pk \<times> research_project" pk pydict string
  | SubmitReport actor "pk \<times> research_project" report_args
  | ReviewReport actor "pk \<times> research_project" pk report_review
  | CreateComment actor "pk \<times> research_project" comment_target pk string string
  | SetCommentStatus actor "pk \<times> research_project" pk comment_status
  | CreateDraft actor "pk \<times> research_project" string
  | SubmitDraftVersion actor "pk \<times> research_project" pk string string
  | ReviewDraft actor "pk \<times> research_project" pk report_review

definition report_command :: "report_command \<Rightarrow> ('a report_db_scheme, unit) op" where
  "report_command c =
     (case c of
        CreateTemplateDraft u p n \<Rightarrow> void (create_template_draft u p n)
      | ReplaceTemplateFields u k v fs \<Rightarrow> void (replace_template_fields u k v fs)
      | PublishTemplate u k v \<Rightarrow> void (publish_template_version u k v)
      | EnsureDefaultTemplate u p \<Rightarrow> void (ensure_default_report_template u p)
      | OpenPeriod p d \<Rightarrow> void (open_reporting_period p d)
      | CloseDuePeriods t n \<Rightarrow> void (close_due_reporting_periods t n)
      | OpenCurrentPeriods d n \<Rightarrow> void (open_current_reporting_periods d n)
      | ConfigureSchedule u p w t z v \<Rightarrow> void (configure_project_report_schedule u p w t z v)
      | RemoveSchedule u p v \<Rightarrow> remove_project_report_schedule u p v
      | SubmitStructured u p k rs key \<Rightarrow> void (submit_structured_report u p k rs key)
      | SubmitReport u p a \<Rightarrow> void (submit_report u p a)
      | ReviewReport u p k st \<Rightarrow> void (update_report_review u p k st)
      | CreateComment u p tt k a b \<Rightarrow> void (create_comment u p tt k a b)
      | SetCommentStatus u p k st \<Rightarrow> void (set_comment_status u p k st)
      | CreateDraft u p t \<Rightarrow> void (create_draft u p t)
      | SubmitDraftVersion u p k ref sm \<Rightarrow> void (submit_draft_version u p k ref sm)
      | ReviewDraft u p k st \<Rightarrow> void (update_draft_review u p k st))"

lemmas report_steps = create_template_draft_step replace_template_fields_step publish_step ensure_default_step
  open_reporting_period_step close_due_step open_current_step configure_step remove_step submit_structured_report_step
  submit_report_step update_report_review_step create_comment_step set_comment_status_step create_draft_step
  submit_draft_version_step update_draft_review_step

lemma report_command_step: "report_step s (snd (report_command c s))"
proof (cases c)
  case (RemoveSchedule u p v)
  then show ?thesis using remove_step [OF prod.collapse [symmetric]] by (simp add: report_command_def)
qed (simp_all add: report_command_def report_steps [OF prod.collapse [symmetric]])

interpretation report_system: command_system report_command reports_ok
  by unfold_locales (use report_command_step in \<open>auto simp: report_step_def\<close>)

text \<open>Over any run: what was published and what was handed in stays.\<close>

lemma run_report_step: "report_step s (run_all report_command cs s)"
  by (induction cs arbitrary: s) (auto simp: rep.reflexive intro: rep.transitive [OF report_command_step])

text \<open>A project without a schedule is at version zero: that is what the first client has read.\<close>

definition deadline_version :: "pk \<Rightarrow> 'a report_db_scheme \<Rightarrow> nat option" where
  "deadline_version pid s = Some (case schedule_of s pid of None \<Rightarrow> 0 | Some (_, w) \<Rightarrow> wk_version w)"

interpretation deadline_edit: optimistic_update "deadline_version (fst project)"
    "\<lambda>v. configure_project_report_schedule u project weekday deadline zone (Some (int v))" reports_ok
  for u project weekday deadline zone
proof unfold_locales
  fix s :: "'a report_db_scheme" and v
  assume n: "deadline_version (fst project) s \<noteq> Some v"
  obtain r s' where e: "configure_project_report_schedule u project weekday deadline zone (Some (int v)) s = (r, s')" by fastforce
  from e show "\<exists>e. configure_project_report_schedule u project weekday deadline zone (Some (int v)) s = (Inl e, s)"
    by (cases rule: configure_cases) (use n e in \<open>auto simp: deadline_version_def\<close>)
next
  fix s :: "'a report_db_scheme" and v x s'
  assume ok: "reports_ok s" and e: "configure_project_report_schedule u project weekday deadline zone (Some (int v)) s = (Inr x, s')"
  have wf: "tbl_wf (db_report_schedules s)" using ok by (simp add: reports_ok_def schedules_fine_def)
  have ev: "schedule_of (schedule_event pid u a k t) q = schedule_of t q" for pid a k q and t :: "'a report_db_scheme"
    by (simp add: schedule_of_def schedule_event_def record_event_def)
  from e show "\<exists>v'. deadline_version (fst project) s' = Some v' \<and> v < v'"
  proof (cases rule: configure_cases)
    case (2 k w w')
    have "tbl_first (\<lambda>_ w. wk_project w = fst project) (tbl_put k w' (db_report_schedules s)) = Some (k, w')"
      by (rule tbl_first_put [OF wf]) (use 2(1,3) schedule_ofD [OF 2(1) reports_okD(1) [OF ok]] in \<open>simp_all add: schedule_of_def\<close>)
    then have "schedule_of s' (fst project) = Some (k, w')" by (simp add: 2(6) ev) (simp add: schedule_of_def)
    then show ?thesis using 2(2,3) by (simp add: deadline_version_def)
  next
    case (3 w)
    have "tbl_first (\<lambda>_ w. wk_project w = fst project) (tbl_insert w (db_report_schedules s)) = Some (tbl_next (db_report_schedules s), w)"
      by (rule tbl_first_insert) (use 3(2,4) in \<open>simp_all add: schedule_of_def\<close>)
    then have "schedule_of s' (fst project) = Some (tbl_next (db_report_schedules s), w)" by (simp add: 3(7) ev) (simp add: schedule_of_def)
    then show ?thesis using 3(3,5) by (simp add: deadline_version_def)
  qed simp
qed

end
