(* ===== verification/ReportFacts.thy ===== *)
theory ReportFacts
  imports ReportSystem
begin

text \<open>
  What the report services do: the loop that looks for the deadline returns exactly for the seven weekdays; a structured
  submission can be repeated (an instance of \<open>retry_safe\<close>); stored numbers keep the bounds of their field; publishing
  makes a version the active one; a project whose default template cannot be made stops the weekly job.
\<close>

section \<open>The deadline\<close>

lemma iso_weekday_range: "1 \<le> iso_weekday d \<and> iso_weekday d \<le> 7"
  unfolding iso_weekday_def by (simp add: pos_mod_bound add_le_same_cancel1 zle_add1_eq_le flip: zle_add1_eq_le)

lemma weekdays_ahead: "(w - iso_weekday d) mod 7 = (w - d - 4) mod 7"
proof -
  have "(w - iso_weekday d) mod 7 = (w - 1 - (d + 3) mod 7) mod 7" by (simp add: iso_weekday_def algebra_simps)
  also have "\<dots> = (w - 1 - (d + 3)) mod 7" by (rule mod_diff_right_eq)
  finally show ?thesis by (simp add: algebra_simps)
qed

lemma mod_7_pred:
  fixes x :: int
  assumes "0 < x mod 7" shows "(x - 1) mod 7 = x mod 7 - 1"
proof -
  have "(x - 1) mod 7 = (x mod 7 - 1) mod 7" by (simp add: mod_diff_left_eq)
  also have "\<dots> = x mod 7 - 1" using assms pos_mod_bound [of 7 x] by (intro mod_pos_pos_trivial) linarith+
  finally show ?thesis .
qed

lemma next_weekday_returns:
  assumes "1 \<le> w" "w \<le> 7"
  shows "next_weekday w d = Some (d + (w - iso_weekday d) mod 7)"
proof (induction "nat ((w - iso_weekday d) mod 7)" arbitrary: d)
  case 0
  have "(w - iso_weekday d) mod 7 = 0" using 0 by (simp add: dual_order.antisym)
  moreover have "iso_weekday d = w" using calculation iso_weekday_range [of d] assms by presburger
  ultimately show ?case by (simp add: next_weekday.simps)
next
  case (Suc n)
  have ne: "iso_weekday d \<noteq> w" using Suc(2) by auto
  have "w - (d + 1) - 4 = w - d - 4 - 1" by simp
  then have step: "(w - iso_weekday (d + 1)) mod 7 = (w - iso_weekday d) mod 7 - 1"
    unfolding weekdays_ahead using mod_7_pred [of "w - d - 4"] Suc(2) by (simp add: weekdays_ahead)
  then have "next_weekday w (d + 1) = Some (d + 1 + (w - iso_weekday (d + 1)) mod 7)" using Suc(2) by (intro Suc(1)) simp
  then show ?case using ne step by (subst next_weekday.simps) simp
qed

lemma next_weekday_is: "next_weekday w d = Some y \<Longrightarrow> iso_weekday y = w"
  by (rule next_weekday.raw_induct [where P = "\<lambda>w d y. iso_weekday y = w"]) (auto split: if_splits)

text \<open>For any other number the search goes on for ever.\<close>

lemma next_weekday_diverges: "\<not> (1 \<le> w \<and> w \<le> 7) \<Longrightarrow> next_weekday w d = None"
  using next_weekday_is [of w d] iso_weekday_range by (cases "next_weekday w d") auto

lemma period_deadline_returns:
  assumes "reports_ok s" shows "\<exists>at. period_deadline s pid d = Some at"
proof (cases "schedule_of s pid")
  case (Some x)
  obtain k w where x: "x = (k, w)" by fastforce
  have "tbl_get (db_report_schedules s) k = Some w" using schedule_ofD [OF Some [unfolded x] reports_okD(1) [OF assms]] by simp
  then have "1 \<le> wk_weekday w" "wk_weekday w \<le> 7"
    using reports_okD(1) [OF assms] tbl_getD [of "db_report_schedules s" k w] by (auto simp: schedules_fine_def)
  then show ?thesis by (simp add: period_deadline_def Some x next_weekday_returns)
qed (simp add: period_deadline_def)

section \<open>Submitting again\<close>

lemma insert_responses_frame:
  "insert_responses pid k xs s = (r, s') \<Longrightarrow> \<exists>t. s' = s\<lparr>db_report_responses := t\<rparr>"
  by (auto simp: insert_responses_def split: sum.splits if_splits intro: exI [of _ "db_report_responses s"])

lemma store_structured_frame:
  assumes "store_structured u pid period p responses key prepared s = (Inr k, s')"
  obtains x where "db_weekly_reports s' = tbl_insert x (db_weekly_reports s)" "k = tbl_next (db_weekly_reports s)"
    "x = structured_report pid (u_id u) period p responses (next_revision s pid (u_id u) (pd_starts_on p)) key (db_now s)"
    "db_memberships s' = db_memberships s" "db_reporting_periods s' = db_reporting_periods s"
proof -
  let ?x = "structured_report pid (u_id u) period p responses (next_revision s pid (u_id u) (pd_starts_on p)) key (db_now s)"
  obtain s1 s2 s3 where 1: "insert_report ?x s = (Inr k, s1)" "insert_responses pid k prepared s1 = (Inr (), s2)"
      "notify_members pid {ProjectMembership_ADVISOR, ProjectMembership_CO_ADVISOR} u (''WeeklyProgressReport'', k)
         ''Structured progress report submitted'' (''/projects/'' @ str_of_nat pid @ ''/reviews'') Notification_REPORT s2 = (Inr (), s3)"
    and s': "s' = structured_event pid u k (next_revision s pid (u_id u) (pd_starts_on p)) s3"
    using assms by (auto simp: store_structured_def Let_def split: prod.splits sum.splits)
  obtain t where s2: "s2 = s1\<lparr>db_report_responses := t\<rparr>" using insert_responses_frame [OF 1(2)] by blast
  obtain n where s3: "s3 = s2\<lparr>db_notifications := n\<rparr>" using notify_members_frame [OF 1(3)] by blast
  have "db_weekly_reports s' = tbl_insert ?x (db_weekly_reports s)" "k = tbl_next (db_weekly_reports s)"
    "db_memberships s' = db_memberships s" "db_reporting_periods s' = db_reporting_periods s"
    using 1(1) by (auto simp: insert_report_def s' s3 s2 structured_event_def record_event_def split: if_splits)
  then show ?thesis using that by blast
qed

lemma submit_structured_cases:
  assumes "submit_structured_report u project period responses key s = (Inr k, s')"
  obtains p r xs where "structured_allowed s u project = Inr ()" "tbl_get (db_reporting_periods s) period = Some p"
      "pd_project p = fst project" "reports_by s (fst project) (u_id u) (\<lambda>r. wr_idempotency_key r = key) = (k, r) # xs" "s' = s"
  | p prepared where "structured_allowed s u project = Inr ()" "tbl_get (db_reporting_periods s) period = Some p"
      "pd_project p = fst project" "reports_by s (fst project) (u_id u) (\<lambda>r. wr_idempotency_key r = key) = []"
      "case latest_report (reports_by s (fst project) (u_id u) (\<lambda>r. wr_reporting_period r = Some period)) of
         None \<Rightarrow> True | Some (_, r) \<Rightarrow> wr_review_status r = Report_NEEDS_REVISION"
      "prepare_responses s (fst project) (fields_of s (pd_template_version p)) responses = Inr prepared"
      "store_structured u (fst project) period p responses key prepared s = (Inr k, s')"
  using assms unfolding submit_structured_report_def atomic_def Let_def
  by (auto split: sum.splits option.splits if_splits list.splits prod.splits intro: that)

interpretation structured: retry_safe "submit_structured_report u project period responses key"
  for u project period responses key
proof unfold_locales
  fix s :: "'a report_db_scheme" and k s'
  assume e: "submit_structured_report u project period responses key s = (Inr k, s')"
  from e show "submit_structured_report u project period responses key s' = (Inr k, s')"
  proof (cases rule: submit_structured_cases)
    case (2 p prepared)
    obtain x where x: "db_weekly_reports s' = tbl_insert x (db_weekly_reports s)" "k = tbl_next (db_weekly_reports s)"
      "x = structured_report (fst project) (u_id u) period p responses
         (next_revision s (fst project) (u_id u) (pd_starts_on p)) key (db_now s)"
      and m: "db_memberships s' = db_memberships s" "db_reporting_periods s' = db_reporting_periods s"
      by (rule store_structured_frame [OF 2(7)])
    have "reports_by s' (fst project) (u_id u) (\<lambda>r. wr_idempotency_key r = key) = [(k, x)]"
      using 2(4) x by (simp add: reports_by_def tbl_filter_def structured_report_def)
    moreover have "structured_allowed s' u project = Inr ()"
      using 2(1) m by (simp add: structured_allowed_def active_student_member_def)
    ultimately show ?thesis using 2(2,3) m by (simp add: submit_structured_report_def atomic_def)
  qed (use e in simp)
qed

section \<open>Numbers\<close>

lemma number_response_bounds:
  assumes "number_response ft f v = Inr (x, n, st, sid)"
  obtains d where "n = Some d" "\<And>lo. fl_min_value f = Some lo \<Longrightarrow> dec_less d lo = Inr False"
    "\<And>hi. fl_max_value f = Some hi \<Longrightarrow> dec_less hi d = Inr False"
proof -
  obtain d where d: "read_decimal (py_str v) = Some d" using assms by (cases "read_decimal (py_str v)") (simp_all add: number_response_def)
  then have "n = Some d" "refuse_if (below d (fl_min_value f)) (ValueError (fl_label_en f @ '' is below its minimum.'')) = Inr ()"
    "refuse_if (above d (fl_max_value f)) (ValueError (fl_label_en f @ '' exceeds its maximum.'')) = Inr ()"
    using assms by (auto simp: number_response_def split: sum.splits)
  then show ?thesis
    by (intro that [of d]) (auto simp: refuse_if_def below_def above_def split: sum.splits bool.splits)
qed

text \<open>Rounding to four places does not pass an integer multiple of the last place.\<close>

lemma round_div:
  fixes m d l :: int
  assumes "0 < d"
  shows "l * d \<le> m \<Longrightarrow> l \<le> (2 * m + d) div (2 * d)" and "m \<le> l * d \<Longrightarrow> (2 * m + d) div (2 * d) \<le> l"
proof -
  show "l \<le> (2 * m + d) div (2 * d)" if "l * d \<le> m"
  proof -
    have "l * (2 * d) \<le> 2 * m + d" using that assms by (simp add: algebra_simps)
    then have "l * (2 * d) div (2 * d) \<le> (2 * m + d) div (2 * d)" using assms by (intro zdiv_mono1) auto
    then show ?thesis using assms by simp
  qed
  show "(2 * m + d) div (2 * d) \<le> l" if "m \<le> l * d"
  proof -
    let ?c = "2 * d" and ?x = "2 * m + d"
    have lt: "?x < (l + 1) * ?c" using that assms by (simp add: algebra_simps)
    have le: "(?x div ?c) * ?c \<le> ?x" using pos_mod_sign [of ?c ?x] assms by (simp flip: minus_mod_eq_div_mult)
    have "(?x div ?c) * ?c < (l + 1) * ?c" using le lt by (rule le_less_trans)
    then show ?thesis using assms by (simp add: mult_less_cancel_right)
  qed
qed

lemma scaled_column:
  assumes "numeric_column (Finite neg m e) = Inr y"
  shows "scaled_to (- 4) y = signed neg (round_to_4 m e)" "is_finite y" "dec_exponent y = - 4"
  using assms by (auto simp: numeric_column_def Let_def scaled_to_def is_finite_def dec_exponent_def split: if_splits)

text \<open>A number that keeps a bound of four places keeps it when it is stored.\<close>

lemma stored_keeps_bound:
  assumes y: "numeric_column d = Inr y" and b: "is_finite b" "dec_exponent b = - 4"
  shows "dec_less d b = Inr False \<Longrightarrow> dec_less y b = Inr False" and "dec_less b d = Inr False \<Longrightarrow> dec_less b y = Inr False"
proof -
  obtain neg m e where d: "d = Finite neg m e" using y by (cases d) (simp_all add: numeric_column_def)
  note s = scaled_column [OF y [unfolded d]]
  have fin: "is_finite d" "dec_exponent d = e" by (simp_all add: d is_finite_def dec_exponent_def)
  let ?B = "scaled_to (- 4) b"
  have yb: "dec_less y b = Inr (scaled_to (- 4) y < ?B)" "dec_less b y = Inr (?B < scaled_to (- 4) y)"
    by (rule dec_less_scaled; simp add: s b)+
  have goals: "(dec_less d b = Inr False \<longrightarrow> \<not> scaled_to (- 4) y < ?B) \<and> (dec_less b d = Inr False \<longrightarrow> \<not> ?B < scaled_to (- 4) y)"
  proof (cases "0 \<le> e + 4")
    case True
    then have "scaled_to (- 4) y = scaled_to (- 4) d" unfolding s(1) by (simp add: d round_to_4_def scaled_to_def signed_def)
    moreover have "dec_less d b = Inr (scaled_to (- 4) d < ?B)" "dec_less b d = Inr (?B < scaled_to (- 4) d)"
      by (rule dec_less_scaled; use True in \<open>simp add: fin b\<close>)+
    ultimately show ?thesis by simp
  next
    case False
    let ?D = "10 ^ nat (- (e + 4)) :: int"
    have "nat (- 4 - e) = nat (- (e + 4))" by simp
    then have lowb: "scaled_to e b = ?B * ?D" using scaled_to_lower [of e "- 4" b] False b by simp
    have lowd: "scaled_to e d = signed neg m" by (simp add: d scaled_to_def)
    have "dec_less d b = Inr (signed neg m < ?B * ?D)" "dec_less b d = Inr (?B * ?D < signed neg m)"
      unfolding lowb [symmetric] lowd [symmetric] by (rule dec_less_scaled; use False in \<open>simp add: fin b\<close>)+
    moreover have "scaled_to (- 4) y = signed neg ((2 * m + ?D) div (2 * ?D))" using False by (simp add: s round_to_4_def Let_def)
    moreover have "0 < ?D" by simp
    note r = round_div [OF this]
    have "?B * ?D \<le> signed neg m \<Longrightarrow> ?B \<le> signed neg ((2 * m + ?D) div (2 * ?D))"
      using r(1) [of ?B m] r(2) [of m "- ?B"] by (cases neg) (simp_all add: signed_def)
    moreover have "signed neg m \<le> ?B * ?D \<Longrightarrow> signed neg ((2 * m + ?D) div (2 * ?D)) \<le> ?B"
      using r(2) [of m ?B] r(1) [of "- ?B" m] by (cases neg) (simp_all add: signed_def)
    ultimately show ?thesis by (simp add: not_less)
  qed
  show "dec_less d b = Inr False \<Longrightarrow> dec_less y b = Inr False" "dec_less b d = Inr False \<Longrightarrow> dec_less b y = Inr False"
    using goals by (simp_all add: yb)
qed

lemma field_row_bounds:
  assumes "field_row v f = Inr row"
  shows "fl_min_value row = Some lo \<Longrightarrow> is_finite lo \<and> dec_exponent lo = - 4"
    and "fl_max_value row = Some hi \<Longrightarrow> is_finite hi \<and> dec_exponent hi = - 4"
  using assms
  by (auto simp: field_row_def numeric_option_def map_sum_Inr field_definition.defs template_field.defs
      dest: numeric_columnD split: if_splits sum.splits option.splits)

section \<open>Publishing\<close>

lemma publish_activates:
  assumes e: "publish_template_version u k expected s = (Inr j, s')" and ok: "reports_ok s"
  obtains v t where "j = k" "tbl_get (db_template_versions s') k = Some v" "tv_status v = Template_PUBLISHED"
    "tbl_get (db_report_templates s') (tv_template v) = Some t" "tp_active_version t = Some k"
    "\<And>j' v'. tbl_get (db_template_versions s') j' = Some v' \<Longrightarrow> tv_template v' = tv_template v
       \<Longrightarrow> tv_status v' = Template_PUBLISHED \<Longrightarrow> j' = k"
proof -
  have ok': "reports_ok s'" using publish_step [OF e] ok by (simp add: report_step_def)
  note f = reports_okD(2) [OF ok']
  have jk: "j = k" using e by (cases rule: publish_cases) auto
  have "\<exists>v. tbl_get (db_template_versions s') k = Some v \<and> tv_status v = Template_PUBLISHED"
    using e
  proof (cases rule: publish_cases)
    case (2 v p)
    then show ?thesis using locked_versionD [OF 2(1)] by auto
  next
    case (3 v p)
    have "tbl_wf (db_template_versions (supersede_published (tv_template v) s))"
      using ok by (simp add: supersede_published_def reports_ok_def templates_fine_def wf_tbl_update_where)
    then show ?thesis by (simp add: 3(6) activate_version_def tbl.get_put published_version_def)
  qed simp
  then obtain v where v: "tbl_get (db_template_versions s') k = Some v" "tv_status v = Template_PUBLISHED" by blast
  obtain t where t: "tbl_get (db_report_templates s') (tv_template v) = Some t"
    using f v(1) unfolding templates_fine_def by blast
  have a: "tp_active_version t = Some j' \<longleftrightarrow>
      (\<exists>w. tbl_get (db_template_versions s') j' = Some w \<and> tv_template w = tv_template v \<and> tv_status w = Template_PUBLISHED)" for j'
    using f t unfolding templates_fine_def by blast
  have "tp_active_version t = Some k" using a v by blast
  show ?thesis
  proof (rule that [OF jk v t \<open>tp_active_version t = Some k\<close>])
    fix j' v' assume "tbl_get (db_template_versions s') j' = Some v'" "tv_template v' = tv_template v" "tv_status v' = Template_PUBLISHED"
    then have "tp_active_version t = Some j'" using a by blast
    then show "j' = k" using \<open>tp_active_version t = Some k\<close> by simp
  qed
qed

section \<open>A project that stops the weekly job\<close>

lemma held_cannot_manage:
  assumes "rp_governance_state p = ResearchProject_HOLD" shows "\<not> canManageReportTemplates (project_capabilities s u pid p)"
  using assms by (simp add: project_capabilities_def capabilities_of_def Let_def)

lemma open_each_append:
  assumes "open_each d before s = (Inr n, s1)" "open_current_for d p s1 = (Inl e, s2)"
  shows "open_each d (before @ p # after) s = (Inl e, s2)"
  using assms
proof (induction before arbitrary: s n)
  case (Cons q qs)
  then show ?case by (auto split: prod.splits sum.splits)
qed simp

end
