(* ===== verification/ReportSamples.thy ===== *)
theory ReportSamples
  imports ExecutionSamples ReportFacts
begin

text \<open>
  The sample project with a published template of three fields, its period of the week of day 20000, and a weekly report
  that student \<open>sam\<close> wrote for that week and nobody reviewed; and a database without templates whose only project is held.
\<close>

definition sample_field :: "string \<Rightarrow> field_type \<Rightarrow> bool \<Rightarrow> int \<Rightarrow> field_definition" where
  "sample_field key ft required n =
     \<lparr>fl_key = key, fl_label_en = key, fl_label_zh = key, fl_help_text_en = [], fl_help_text_zh = [], fl_field_type = ft,
      fl_required = required, fl_order = n, fl_unit = [], fl_options = PList [],
      fl_min_value = (if ft = Field_PERCENTAGE then Some (Finite False 0 (- 4)) else None),
      fl_max_value = (if ft = Field_PERCENTAGE then Some (Finite False 1000000 (- 4)) else None),
      fl_analytics_enabled = False\<rparr>"

definition sample_row :: "field_definition \<Rightarrow> template_field" where
  "sample_row f = field_definition.extend f (template_field.fields 1)"

definition sample_template :: report_template where
  "sample_template = \<lparr>tp_project = 1, tp_name = ''Weekly'', tp_active_version = Some 1, tp_created_by = 1,
     tp_created_at = 0, tp_updated_at = 0\<rparr>"

definition sample_version :: template_version where
  "sample_version = \<lparr>tv_project = 1, tv_template = 1, tv_version_number = 1, tv_status = Template_PUBLISHED, tv_version = 2,
     tv_created_by = 1, tv_created_at = 0, tv_published_by = Some 1, tv_published_at = Some 0\<rparr>"

definition second_version :: template_version where
  "second_version = sample_version\<lparr>tv_version_number := 2, tv_status := Template_DRAFT, tv_published_by := None, tv_published_at := None\<rparr>"

definition sample_period :: reporting_period where
  "sample_period =
     \<lparr>pd_project = 1, pd_starts_on = 20000, pd_ends_on = 20007, pd_deadline_at = 1728604799999999, pd_template_version = 1,
      pd_state = Period_OPEN, pd_opened_at = 0, pd_closed_at = None, pd_generation_key = ''weekly:1:2024-10-04''\<rparr>"

definition sample_args :: report_args where
  "sample_args = \<lparr>rg_report_week_start = 20000, rg_completed_work = ''Aligned'', rg_blockers = [], rg_next_steps = ''Measure'',
     rg_attachment_reference = []\<rparr>"

definition sample_report :: weekly_report where
  "sample_report = written_report 1 2 sample_args 1 0"

definition progress_row :: template_field where
  "progress_row = sample_row (sample_field ''progress'' Field_PERCENTAGE False 2)"

definition sample_fields :: "template_field table" where
  "sample_fields = \<lparr>tbl_rows =
     [(1, sample_row (sample_field ''completed_work'' Field_LONG_TEXT True 0)),
      (2, sample_row (sample_field ''blockers'' Field_RISK_BLOCKER False 1)), (3, progress_row),
      (4, (sample_row (sample_field ''completed_work'' Field_LONG_TEXT True 0))\<lparr>fl_template_version := 2\<rparr>)],
     tbl_next = 5\<rparr>"

definition sample_schedule_row :: report_schedule where
  "sample_schedule_row = \<lparr>wk_project = 1, wk_weekday = 5, wk_deadline_time = 0, wk_timezone = ''UTC'', wk_version = 3,
     wk_updated_by = 1, wk_created_at = 0, wk_updated_at = 0\<rparr>"

definition sample_reports :: report_db where
  "sample_reports = execution_db.extend (sample_execution\<lparr>db_report_project := [1 \<mapsto> 1]\<rparr>)
     (report_db.fields
        \<lparr>tbl_rows = [(1, sample_schedule_row)], tbl_next = 2\<rparr> \<lparr>tbl_rows = [(1, sample_template)], tbl_next = 2\<rparr>
        \<lparr>tbl_rows = [(1, sample_version), (2, second_version)], tbl_next = 3\<rparr> sample_fields
        \<lparr>tbl_rows = [(1, sample_period)], tbl_next = 2\<rparr> \<lparr>tbl_rows = [(1, sample_report)], tbl_next = 2\<rparr>
        tbl_empty tbl_empty tbl_empty tbl_empty (\<lambda>_. ''1.0''))"

lemmas sample_report_defs = sample_reports_def execution_db.defs report_db.defs sample_execution_def

lemma sample_values:
  "tv_status sample_version = Template_PUBLISHED" "tv_status second_version = Template_DRAFT"
  "tv_template sample_version = 1" "tv_template second_version = 1" "tv_version_number sample_version = 1"
  "tv_version_number second_version = 2" "tp_active_version sample_template = Some 1"
  "wr_revision_number sample_report = 1" "wr_project sample_report = 1" "wr_reporting_period sample_report = None"
  "pd_template_version sample_period = 1" "pd_ends_on sample_period = pd_starts_on sample_period + 7" "wk_weekday sample_schedule_row = 5"
  by (simp_all add: sample_version_def second_version_def sample_template_def sample_report_def written_report_def
      sample_period_def sample_schedule_row_def)

lemma two_rows: "tbl_get \<lparr>tbl_rows = [(1, x), (2, y)], tbl_next = n\<rparr> k = Some v \<longleftrightarrow> (k = 1 \<and> v = x) \<or> (k = 2 \<and> v = y)"
  and one_row: "tbl_get \<lparr>tbl_rows = [(1, x)], tbl_next = n\<rparr> k = Some v \<longleftrightarrow> k = 1 \<and> v = x"
  by (auto simp: tbl_get_def)

lemma sample_templates_fine:
  "templates_fine \<lparr>tbl_rows = [(1, sample_template)], tbl_next = 2\<rparr> \<lparr>tbl_rows = [(1, sample_version), (2, second_version)], tbl_next = 3\<rparr>"
  unfolding templates_fine_def two_rows one_row
  by (auto simp: tbl_wf_def unique_on_def report_keys sample_values tbl_get_def split: if_splits)

lemma unique_on_distinct:
  assumes "distinct (map (\<lambda>(k, r). g r) (tbl_rows t))" shows "unique_on g t"
  unfolding unique_on_def
proof (intro allI impI)
  fix k r k' r' key
  assume "(k, r) \<in> set (tbl_rows t)" "(k', r') \<in> set (tbl_rows t)" "g r = Some key" "g r' = Some key"
  then have "(k, r) = (k', r')" using assms inj_onD [of "\<lambda>(k, r). g r" "set (tbl_rows t)" "(k, r)" "(k', r')"]
    by (simp add: distinct_map)
  then show "k = k'" by simp
qed

lemma sample_fields_fine:
  "fields_fine \<lparr>tbl_rows = [(1, sample_version), (2, second_version)], tbl_next = 3\<rparr> sample_fields"
proof -
  have "distinct (map (\<lambda>(k, f). field_name_key f) (tbl_rows sample_fields))"
    "distinct (map (\<lambda>(k, f). field_order_key f) (tbl_rows sample_fields))"
    "tbl_wf sample_fields" "list_all (\<lambda>(k, f). fl_template_version f \<in> {1, 2}) (tbl_rows sample_fields)"
    by code_simp+
  then show ?thesis by (auto simp: fields_fine_def list_all_iff tbl_get_def intro: unique_on_distinct)
qed

lemma sample_reports_ok: "reports_ok sample_reports"
proof -
  have "schedules_fine \<lparr>tbl_rows = [(1, sample_schedule_row)], tbl_next = 2\<rparr>"
    by (simp add: schedules_fine_def tbl_wf_def unique_on_def sample_values)
  moreover have "periods_fine \<lparr>tbl_rows = [(1, sample_version), (2, second_version)], tbl_next = 3\<rparr> \<lparr>tbl_rows = [(1, sample_period)], tbl_next = 2\<rparr>"
    by (simp add: periods_fine_def tbl_wf_def unique_on_def sample_values released_def tbl_get_def)
  moreover have "weekly_fine \<lparr>tbl_rows = [(1, sample_period)], tbl_next = 2\<rparr> \<lparr>tbl_rows = [(1, sample_report)], tbl_next = 2\<rparr>"
    by (simp add: weekly_fine_def tbl_wf_def unique_on_def sample_values revisions_contiguous_def report_of_period_def)
  ultimately show ?thesis
    using sample_templates_fine sample_fields_fine
    by (simp add: reports_ok_def sample_report_defs responses_fine_def wf_tbl_empty unique_on_empty)
      (simp add: tbl_empty_def tbl_get_def sample_values fun_eq_iff)
qed

definition good_responses :: pydict where
  "good_responses = [(''completed_work'', PStr ''Measured''), (''progress'', PInt 40)]"

definition held_reports :: report_db where
  "held_reports = execution_db.extend
     (held_execution\<lparr>db_projects := \<lparr>tbl_rows = [(1, held_project), (2, sample_project)], tbl_next = 3\<rparr>\<rparr>)
     (report_db.fields tbl_empty tbl_empty tbl_empty tbl_empty tbl_empty tbl_empty tbl_empty tbl_empty tbl_empty tbl_empty (\<lambda>_. ''1.0''))"

lemma held_reports_ok: "reports_ok held_reports"
  by (simp add: reports_ok_def held_reports_def execution_db.defs report_db.defs held_execution_def sample_execution_def
      schedules_fine_def templates_fine_def fields_fine_def periods_fine_def weekly_fine_def responses_fine_def
      revisions_contiguous_def wf_tbl_empty unique_on_empty) (simp add: tbl_empty_def tbl_get_def)

definition report_run :: "report_command list" where
  "report_run =
     [SubmitStructured sam (1, sample_project) 1 good_responses ''k'', PublishTemplate ada 2 (Some 2),
      ConfigureSchedule ada (1, sample_project) 6 0 ''UTC'' (Some 3), CloseDuePeriods None 5]"

end
