(* ===== verification/ReportViews.thy ===== *)
theory ReportViews
  imports ReportSystem Tasks
begin

text \<open>
  The endpoints of the report services (\<open>apps/submissions/views.py\<close>): what they read from a request, which service they
  call, and which errors of it become validation errors. Serialised results are the keys of their rows. The writing
  endpoints are not here.
\<close>

section \<open>Requests\<close>

definition get_project :: "'a project_db_scheme \<Rightarrow> actor \<Rightarrow> pk \<Rightarrow> error + pk \<times> research_project" where
  "get_project s u pid =
     (case visible_project s u pid of None \<Rightarrow> Inl (DoesNotExist ''ResearchProject'') | Some p \<Rightarrow> Inr p)"

text \<open>\<open>except (DjangoPermissionDenied, ValueError)\<close>\<close>

definition as_validation_error :: "error \<Rightarrow> error" where
  "as_validation_error e = (case e of PermissionDenied m \<Rightarrow> ValidationError m | ValueError m \<Rightarrow> ValidationError m | _ \<Rightarrow> e)"

definition refused :: "('s, 'b) op \<Rightarrow> ('s, 'b) op" where
  "refused m s = (case m s of (Inl e, s') \<Rightarrow> (Inl (as_validation_error e), s') | (Inr x, s') \<Rightarrow> (Inr x, s'))"

text \<open>The elements of a JSON value that a loop calls \<open>get\<close> on.\<close>

definition items_of :: "pyval \<Rightarrow> error + pydict list" where
  "items_of v =
     (case v of
        PList xs \<Rightarrow> dicts_in v
      | PDict d \<Rightarrow> if d = [] then Inr [] else Inl (AttributeError ''object has no attribute get'')
      | PStr t \<Rightarrow> if t = [] then Inr [] else Inl (AttributeError ''object has no attribute get'')
      | _ \<Rightarrow> Inl (TypeError ''object is not iterable''))"

text \<open>The integer a JSON value is equal to.\<close>

definition equal_int :: "pyval \<Rightarrow> int option" where
  "equal_int v =
     (case v of
        PInt i \<Rightarrow> Some i
      | PBool b \<Rightarrow> Some (if b then 1 else 0)
      | PFloat t \<Rightarrow> (case int_of_value v of Inr i \<Rightarrow> if py_equal v (PInt i) then Some i else None | Inl _ \<Rightarrow> None)
      | _ \<Rightarrow> None)"

section \<open>Templates\<close>

record report_capabilities =
  canEditTemplate :: bool
  canPublishTemplate :: bool
  canSubmitReport :: bool
  canViewAnalytics :: bool
  canExportAnalytics :: bool

definition report_capabilities_of :: "'a project_db_scheme \<Rightarrow> actor \<Rightarrow> pk \<times> research_project \<Rightarrow> report_capabilities" where
  "report_capabilities_of s u project =
     (let c = project_capabilities s u (fst project) (snd project)
      in \<lparr>canEditTemplate = canManageReportTemplates c, canPublishTemplate = canManageReportTemplates c,
          canSubmitReport = (cap_role c = ''student'' \<and> \<not> isReadOnly c), canViewAnalytics = canViewReportAnalytics c,
          canExportAnalytics = canViewReportAnalytics c\<rparr>)"

definition list_templates :: "'a report_db_scheme \<Rightarrow> actor \<Rightarrow> pk \<Rightarrow> error + pk list \<times> report_capabilities" where
  "list_templates s u pid =
     map_sum id (\<lambda>p. (map fst (sort_key (\<lambda>(_, v). - int (tv_version_number v))
         (tbl_filter (\<lambda>_ v. tv_project v = fst p) (db_template_versions s))), report_capabilities_of s u p))
       (get_project s u pid)"

definition post_template :: "actor \<Rightarrow> pk \<Rightarrow> pydict \<Rightarrow> ('a report_db_scheme, pk) op" where
  "post_template u pid data s =
     (case get_project s u pid of
        Inl e \<Rightarrow> (Inl e, s)
      | Inr p \<Rightarrow> refused (create_template_draft u p (py_str (dict_get_or ''name'' (PStr []) data))) s)"

definition template_version_in :: "'a report_db_scheme \<Rightarrow> actor \<Rightarrow> pk \<Rightarrow> pk \<Rightarrow> error + template_version" where
  "template_version_in s u pid k =
     (case get_project s u pid of
        Inl e \<Rightarrow> Inl e
      | Inr p \<Rightarrow>
          (case tbl_get (db_template_versions s) k of
             None \<Rightarrow> Inl (DoesNotExist ''ReportTemplateVersion'')
           | Some v \<Rightarrow> if tv_project v = fst p then Inr v else Inl (DoesNotExist ''ReportTemplateVersion'')))"

text \<open>A field as the request spells it; a missing key, label, type or order is \<open>None\<close>.\<close>

definition template_item :: "pydict \<Rightarrow> pydict" where
  "template_item d =
     [(''key'', dict_get ''key'' d), (''label_en'', dict_get ''labelEn'' d), (''label_zh'', dict_get ''labelZh'' d),
      (''help_text_en'', dict_get_or ''helpTextEn'' (PStr []) d), (''help_text_zh'', dict_get_or ''helpTextZh'' (PStr []) d),
      (''field_type'', dict_get ''fieldType'' d), (''required'', dict_get_or ''required'' (PBool False) d),
      (''order'', dict_get ''order'' d), (''unit'', dict_get_or ''unit'' (PStr []) d),
      (''options'', dict_get_or ''options'' (PList []) d), (''min_value'', dict_get ''minValue'' d),
      (''max_value'', dict_get ''maxValue'' d), (''analytics_enabled'', dict_get_or ''analyticsEnabled'' (PBool False) d)]"

text \<open>The name is saved after the fields are, outside their transaction.\<close>

definition rename_template :: "pk \<Rightarrow> pyval \<Rightarrow> ('a report_db_scheme, unit) op" where
  "rename_template tk name s =
     (if \<not> py_truthy name then (Inr (), s)
      else case name of
        PStr t \<Rightarrow>
          if 255 < length (py_strip t) then (Inl (DataError ''value too long''), s)
          else (Inr (), s\<lparr>db_report_templates := tbl_update_where (\<lambda>j _. j = tk)
                  (\<lambda>x. x\<lparr>tp_name := py_strip t, tp_updated_at := db_now s\<rparr>) (db_report_templates s)\<rparr>)
      | _ \<Rightarrow> (Inl (AttributeError ''object has no attribute strip''), s))"

definition patch_template :: "actor \<Rightarrow> pk \<Rightarrow> pk \<Rightarrow> pydict \<Rightarrow> ('a report_db_scheme, pk) op" where
  "patch_template u pid k data s =
     (case template_version_in s u pid k of
        Inl e \<Rightarrow> (Inl e, s)
      | Inr v \<Rightarrow>
     (case items_of (dict_get_or ''fields'' (PList []) data) of
        Inl e \<Rightarrow> (Inl e, s)
      | Inr ds \<Rightarrow>
     (case refused (replace_template_fields u k (equal_int (dict_get ''expectedVersion'' data))
             (map (\<lambda>d. data_of_dict (template_item d)) ds)) s of
        (Inl e, s1) \<Rightarrow> (Inl e, s1)
      | (Inr k, s1) \<Rightarrow>
     (case rename_template (tv_template v) (dict_get ''name'' data) s1 of
        (Inl e, s2) \<Rightarrow> (Inl e, s2) | (Inr _, s2) \<Rightarrow> (Inr k, s2)))))"

definition publish_template_view :: "actor \<Rightarrow> pk \<Rightarrow> pk \<Rightarrow> pydict \<Rightarrow> ('a report_db_scheme, pk) op" where
  "publish_template_view u pid k data s =
     (case template_version_in s u pid k of
        Inl e \<Rightarrow> (Inl e, s)
      | Inr _ \<Rightarrow> refused (publish_template_version u k (equal_int (dict_get ''expectedVersion'' data))) s)"

section \<open>Periods and structured reports\<close>

definition bounded_page :: "string option \<Rightarrow> error + nat" where
  "bounded_page requested =
     (case requested of
        None \<Rightarrow> Inr 50
      | Some t \<Rightarrow> (case py_int t of None \<Rightarrow> Inl (ValueError ''invalid literal for int()'') | Some n \<Rightarrow> Inr (nat (min (max n 1) 100))))"

definition list_periods :: "'a report_db_scheme \<Rightarrow> actor \<Rightarrow> pk \<Rightarrow> string \<Rightarrow> string option \<Rightarrow> error + pk list" where
  "list_periods s u pid state requested =
     (case get_project s u pid of
        Inl e \<Rightarrow> Inl e
      | Inr p \<Rightarrow>
          map_sum id (\<lambda>n. take n (map fst (sort_key (\<lambda>(_, r). - pd_starts_on r)
              (tbl_filter (\<lambda>_ r. pd_project r = fst p \<and> (state = [] \<or> period_state_value (pd_state r) = state))
                 (db_reporting_periods s))))) (bounded_page requested))"

text \<open>\<open>currentUserReportStatus\<close> of a period.\<close>

definition current_user_report_status :: "'a report_db_scheme \<Rightarrow> actor \<Rightarrow> pk \<Rightarrow> string" where
  "current_user_report_status s u period =
     (case latest_report (tbl_filter (\<lambda>_ r. wr_reporting_period r = Some period \<and> wr_student r = u_id u) (db_weekly_reports s)) of
        None \<Rightarrow> ''missing'' | Some (_, r) \<Rightarrow> report_review_value (wr_review_status r))"

definition id_filter :: "string \<Rightarrow> error + (pk option \<Rightarrow> bool)" where
  "id_filter t =
     (if t = [] then Inr (\<lambda>_. True)
      else map_sum id (\<lambda>n k. case k of None \<Rightarrow> False | Some j \<Rightarrow> int j = n) (pk_value t))"

text \<open>Students see their own reports; everybody else who may see the project sees all of them.\<close>

definition list_structured ::
  "'a report_db_scheme \<Rightarrow> actor \<Rightarrow> pk \<Rightarrow> string \<Rightarrow> string \<Rightarrow> string \<Rightarrow> string option \<Rightarrow> error + pk list \<times> report_capabilities"
where
  "list_structured s u pid period student status requested =
     (case get_project s u pid of
        Inl e \<Rightarrow> Inl e
      | Inr p \<Rightarrow>
     (case id_filter period of Inl e \<Rightarrow> Inl e | Inr in_period \<Rightarrow>
     (case id_filter student of Inl e \<Rightarrow> Inl e | Inr by_student \<Rightarrow>
        map_sum id (\<lambda>n. (take n (map fst (sort_key (\<lambda>(_, r). (- wr_report_week_start r, - int (wr_revision_number r)))
            (tbl_filter (\<lambda>_ r. wr_project r = fst p \<and> wr_reporting_period r \<noteq> None
               \<and> (cap_role (project_capabilities s u (fst p) (snd p)) = ''student'' \<longrightarrow> wr_student r = u_id u)
               \<and> in_period (wr_reporting_period r) \<and> by_student (Some (wr_student r))
               \<and> (status = [] \<or> report_review_value (wr_review_status r) = status)) (db_weekly_reports s)))),
            report_capabilities_of s u p)) (bounded_page requested))))"

text \<open>One response of the request: the field it names, and its value, merged with the source it points to.\<close>

definition response_value :: "pydict \<Rightarrow> pyval" where
  "response_value d =
     (let v = dict_get ''value'' d
      in if py_truthy (dict_get ''sourceType'' d)
         then PDict (dict_build ([(''sourceType'', dict_get ''sourceType'' d), (''sourceId'', dict_get ''sourceId'' d)]
                @ (case v of PDict e \<Rightarrow> e | _ \<Rightarrow> [(''value'', v)])))
         else v)"

definition response_entry :: "(pk \<times> template_field) list \<Rightarrow> string \<Rightarrow> pydict \<Rightarrow> error + string \<times> pyval" where
  "response_entry fs message d =
     (case int_of_value (dict_get_or ''fieldId'' (PInt 0) d) of
        Inl e \<Rightarrow> Inl e
      | Inr n \<Rightarrow>
          (case find (\<lambda>(k, _). int k = n) fs of
             None \<Rightarrow> Inl (ValidationError message)
           | Some (_, f) \<Rightarrow> Inr (fl_key f, response_value d)))"

definition response_map :: "(pk \<times> template_field) list \<Rightarrow> string \<Rightarrow> pydict list \<Rightarrow> error + pydict" where
  "response_map fs message ds = map_sum id dict_build (bulk_rows (response_entry fs message) ds)"

definition clean_submission :: "pydict list \<Rightarrow> string \<Rightarrow> error + string" where
  "clean_submission items key =
     (if items = [] then Inl (FieldError ''responses'' ''Ensure this field has at least 1 elements.'')
      else if length (py_strip key) < 8 then Inl (FieldError ''idempotencyKey'' ''Ensure this field has at least 8 characters.'')
      else if 100 < length (py_strip key) then Inl (FieldError ''idempotencyKey'' ''Ensure this field has no more than 100 characters.'')
      else Inr (py_strip key))"

definition submit_in_period :: "actor \<Rightarrow> pk \<times> research_project \<Rightarrow> pk \<Rightarrow> pydict list \<Rightarrow> string \<Rightarrow> string \<Rightarrow> ('a report_db_scheme, pk) op" where
  "submit_in_period u p period items key message s =
     (case clean_submission items key of
        Inl e \<Rightarrow> (Inl e, s)
      | Inr key' \<Rightarrow>
     (case tbl_get (db_reporting_periods s) period of
        None \<Rightarrow> (Inl (DoesNotExist ''ReportingPeriod''), s)
      | Some r \<Rightarrow>
          if pd_project r \<noteq> fst p then (Inl (DoesNotExist ''ReportingPeriod''), s)
          else (case response_map (fields_of s (pd_template_version r)) message items of
                  Inl e \<Rightarrow> (Inl e, s)
                | Inr responses \<Rightarrow> refused (submit_structured_report u p period responses key') s)))"

definition post_structured :: "actor \<Rightarrow> pk \<Rightarrow> pk \<Rightarrow> pydict list \<Rightarrow> string \<Rightarrow> ('a report_db_scheme, pk) op" where
  "post_structured u pid period items key s =
     (case get_project s u pid of
        Inl e \<Rightarrow> (Inl e, s)
      | Inr p \<Rightarrow> submit_in_period u p period items key ''Response field does not belong to this period.'' s)"

text \<open>The older endpoint takes both kinds of report.\<close>

datatype weekly_request = In_period pk "pydict list" string | In_week report_args

definition create_weekly :: "actor \<Rightarrow> pk \<Rightarrow> weekly_request \<Rightarrow> ('a report_db_scheme, pk) op" where
  "create_weekly u pid request s =
     (case get_project s u pid of
        Inl e \<Rightarrow> (Inl e, s)
      | Inr p \<Rightarrow>
          (case request of
             In_period period items key \<Rightarrow>
               submit_in_period u p period items key ''Response field does not belong to this reporting period.'' s
           | In_week a \<Rightarrow> submit_report u p a s))"

definition review_report_view :: "actor \<Rightarrow> pk \<Rightarrow> pk \<Rightarrow> report_review \<Rightarrow> ('a report_db_scheme, pk) op" where
  "review_report_view u pid k status s =
     (case get_project s u pid of
        Inl e \<Rightarrow> (Inl e, s)
      | Inr p \<Rightarrow>
          (case tbl_get (db_weekly_reports s) k of
             None \<Rightarrow> (Inl (DoesNotExist ''WeeklyProgressReport''), s)
           | Some r \<Rightarrow>
               if wr_project r = fst p then update_report_review u p k status s
               else (Inl (DoesNotExist ''WeeklyProgressReport''), s)))"

section \<open>The deadline schedule\<close>

definition report_schedule_view :: "'a report_db_scheme \<Rightarrow> actor \<Rightarrow> pk \<Rightarrow> error + report_schedule option" where
  "report_schedule_view s u pid = map_sum id (\<lambda>p. map_option snd (schedule_of s (fst p))) (get_project s u pid)"

definition put_report_schedule :: "actor \<Rightarrow> pk \<Rightarrow> int \<Rightarrow> int \<Rightarrow> string \<Rightarrow> int option \<Rightarrow> ('a report_db_scheme, pk) op" where
  "put_report_schedule u pid weekday deadline zone expected s =
     (case get_project s u pid of
        Inl e \<Rightarrow> (Inl e, s)
      | Inr p \<Rightarrow>
          if \<not> (1 \<le> weekday \<and> weekday \<le> 7) then (Inl (FieldError ''weekday'' ''out of range''), s)
          else if 64 < length zone then (Inl (FieldError ''timezone'' ''Ensure this field has no more than 64 characters.''), s)
          else if (case expected of None \<Rightarrow> False | Some v \<Rightarrow> v < 0) then (Inl (FieldError ''expectedVersion'' ''out of range''), s)
          else configure_project_report_schedule u p weekday deadline zone expected s)"

definition delete_report_schedule :: "actor \<Rightarrow> pk \<Rightarrow> int \<Rightarrow> ('a report_db_scheme, unit) op" where
  "delete_report_schedule u pid expected s =
     (case get_project s u pid of
        Inl e \<Rightarrow> (Inl e, s)
      | Inr p \<Rightarrow>
          if expected < 1 then (Inl (FieldError ''expectedVersion'' ''out of range''), s)
          else remove_project_report_schedule u p expected s)"

section \<open>Comments\<close>

definition post_comment :: "actor \<Rightarrow> pk \<Rightarrow> comment_target \<Rightarrow> pk \<Rightarrow> string \<Rightarrow> string \<Rightarrow> ('a report_db_scheme, pk) op" where
  "post_comment u pid tt tid anchor body s =
     (case get_project s u pid of Inl e \<Rightarrow> (Inl e, s) | Inr p \<Rightarrow> create_comment u p tt tid anchor body s)"

definition comment_status_view :: "actor \<Rightarrow> pk \<Rightarrow> pk \<Rightarrow> comment_status \<Rightarrow> ('a report_db_scheme, pk) op" where
  "comment_status_view u pid k status s =
     (case get_project s u pid of
        Inl e \<Rightarrow> (Inl e, s)
      | Inr p \<Rightarrow>
          (case tbl_get (db_inline_comments s) k of
             None \<Rightarrow> (Inl (DoesNotExist ''InlineComment''), s)
           | Some c \<Rightarrow>
               if ic_project c = fst p then set_comment_status u p k status s
               else (Inl (DoesNotExist ''InlineComment''), s)))"

section \<open>The endpoints keep the invariant\<close>

lemma refused_step: "refused m s = (r, s') \<Longrightarrow> (\<And>q t. m s = (q, t) \<Longrightarrow> report_step s t) \<Longrightarrow> report_step s s'"
  by (auto simp: refused_def split: prod.splits sum.splits)

lemma templates_fine_same:
  assumes f: "templates_fine ts vs" and wf: "tbl_wf ts'" "unique_on template_project_key ts'"
    and same: "\<And>j. map_option tp_active_version (tbl_get ts' j) = map_option tp_active_version (tbl_get ts j)"
  shows "templates_fine ts' vs"
proof -
  note g = f [unfolded templates_fine_def]
  have "tbl_get ts' j \<noteq> None" if "tbl_get ts j \<noteq> None" for j using same [of j] that by auto
  then have 1: "tbl_get ts' (tv_template v) \<noteq> None" if "tbl_get vs k = Some v" for k v using g that by blast
  have 2: "tp_active_version t = Some k \<longleftrightarrow>
      (\<exists>v. tbl_get vs k = Some v \<and> tv_template v = tk \<and> tv_status v = Template_PUBLISHED)" if t: "tbl_get ts' tk = Some t" for tk t k
  proof -
    obtain x where "tbl_get ts tk = Some x" "tp_active_version x = tp_active_version t"
      using same [of tk] t by (cases "tbl_get ts tk") auto
    moreover then have "tp_active_version x = Some k \<longleftrightarrow>
        (\<exists>v. tbl_get vs k = Some v \<and> tv_template v = tk \<and> tv_status v = Template_PUBLISHED)" using g by blast
    ultimately show ?thesis by simp
  qed
  show ?thesis unfolding templates_fine_def using g wf 1 2 by blast
qed

lemma rename_template_step: "rename_template tk name s = (r, s') \<Longrightarrow> report_step s s'"
proof -
  have "report_step s (s\<lparr>db_report_templates := tbl_update_where (\<lambda>j _. j = tk) (\<lambda>x. x\<lparr>tp_name := n, tp_updated_at := t\<rparr>)
      (db_report_templates s)\<rparr>)" (is "report_step s (s\<lparr>db_report_templates := ?ts\<rparr>)") for n t
  proof (rule versions_step [where vs = "db_template_versions s" and ts = ?ts], goal_cases)
    case 2
    note f = reports_okD(2) [OF 2]
    then have "tbl_wf ?ts" "unique_on template_project_key ?ts"
      by (auto simp: templates_fine_def template_project_key_def intro!: wf_tbl_update_where unique_on_update_where)
    moreover have "map_option tp_active_version (tbl_get ?ts j) = map_option tp_active_version (tbl_get (db_report_templates s) j)" for j
      by (cases "tbl_get (db_report_templates s) j") (simp_all add: tbl_get_update_where)
    ultimately show ?case by (rule templates_fine_same [OF f])
  qed (simp_all add: versions_grow_def)
  then show "rename_template tk name s = (r, s') \<Longrightarrow> report_step s s'"
    by (auto simp: rename_template_def rep.reflexive split: if_splits pyval.splits)
qed

lemma patch_template_step: "patch_template u pid k data s = (r, s') \<Longrightarrow> report_step s s'"
proof -
  assume e: "patch_template u pid k data s = (r, s')"
  show ?thesis
  proof (cases "template_version_in s u pid k")
    case v: (Inr v)
    show ?thesis
    proof (cases "items_of (dict_get_or ''fields'' (PList []) data)")
      case (Inr ds)
      show ?thesis
      proof (rule rep.of_case [OF e [unfolded patch_template_def v Inr sum.case]], goal_cases)
        case (1 q t)
        then show ?case by (rule refused_step) (rule replace_template_fields_step)
      next
        case (2 j t)
        show ?case by (rule rep.of_case [OF 2(3)]) (auto simp: rep.reflexive intro: rename_template_step)
      qed
    qed (use e v in \<open>simp add: patch_template_def rep.reflexive\<close>)
  qed (use e in \<open>simp add: patch_template_def rep.reflexive\<close>)
qed

lemma submit_in_period_step: "submit_in_period u p period items key message s = (r, s') \<Longrightarrow> report_step s s'"
  by (auto simp: submit_in_period_def rep.reflexive intro: refused_step submit_structured_report_step
      split: sum.splits option.splits if_splits)

text \<open>A field sent without key and labels passes as one that is called \<open>None\<close>.\<close>

lemma missing_labels_are_None:
  "map_sum id (\<lambda>f. (fl_key f, fl_label_en f, fl_label_zh f))
     (validate_field_definition (data_of_dict (template_item [(''fieldType'', PStr ''long_text''), (''order'', PInt 0)])))
   = Inr (''None'', ''None'', ''None'')"
  by code_simp

end
