(* ===== verification/Spec2Isabelle.thy ===== *)
theory Spec2Isabelle
  imports GovernanceSamples CollaborationSamples AccountSamples TaskSamples ScheduleSamples ReportSamples ReportViews
begin

text \<open>
  A verification development for GradSync, a Django service for research groups
  (\<open>src/backend/apps\<close>): accounts with recovery and sessions, projects with members and governance, milestones
  and deliverables with review, tasks, progress reports with their templates and deadlines, laboratory resources with bookings and stock, schedules with audiences and reminders,
  notifications, and an audit trail.

  \<^bold>\<open>The parts and how they interact.\<close> A request calls a service function with an account (the
  actor), rows and plain arguments. The service checks rights (\<open>projects/access_services.py\<close>),
  reads and writes rows inside \<open>transaction.atomic\<close>, records events in the audit trail
  (\<open>audit/services.py\<close>), queues notifications (\<open>notifications/services.py\<close>,
  \<open>notifications/outcome_services.py\<close>) and may register callbacks to run after the commit.

  \<^bold>\<open>How state and operations are modelled.\<close> A database is a record of tables; \<open>Tables\<close> has a table
  as its rows in insertion order with the next primary key. The records extend each other as the
  applications do (\<open>core_db\<close>, \<open>audit_db\<close>, \<open>project_db\<close>, \<open>notification_db\<close>, then \<open>resource_db\<close> or
  \<open>execution_db\<close> with \<open>governance_db\<close> and \<open>report_db\<close>, \<open>collaboration_db\<close>, \<open>security_db\<close>, \<open>schedule_db\<close>; \<open>task_db\<close> extends \<open>project_db\<close>), and an
  operation is polymorphic in what follows. A service is an \<open>op\<close>: from a state to an
  error or a result, and a state. \<open>atomic\<close> is the transaction: an error restores the state. Every
  exception the code raises, the database's own among them, is a constructor of \<open>error\<close>.

  \<^bold>\<open>Which theory models what.\<close>
  \<^item> \<open>Prelude\<close>, \<open>Tables\<close>, \<open>Interfaces\<close>: Python values and strings, operations, tables with keys and
    unique constraints; the contracts \<open>transactional\<close>, \<open>invariant_call\<close>, \<open>optimistic_update\<close>,
    \<open>retry_safe\<close> and \<open>command_system\<close>, each interpreted below on the services.
  \<^item> \<open>Calendar\<close>: instants in microseconds since the epoch (UTC), days, ISO texts.
  \<^item> \<open>Accounts\<close>, \<open>AuditTrail\<close>, \<open>Common\<close>, \<open>Projects\<close>: accounts (\<open>accounts/models.py\<close>), redaction and
    recording (\<open>audit/services.py\<close>), versions, idempotency and pagination (\<open>common/concurrency.py\<close>,
    \<open>common/pagination.py\<close>), memberships and capabilities (\<open>projects/access_services.py\<close>).
  \<^item> \<open>NotificationModel\<close>, \<open>NotificationDelivery\<close>, \<open>NotificationOutcomes\<close>: the notification tables, queueing,
    masking, preferences and quiet hours, attempts, project policies, follow-ups and their outcomes.
  \<^item> \<open>ResourceModel\<close>, \<open>Inventory\<close>, \<open>Operations\<close>, \<open>Bookings\<close>: \<open>resources/models.py\<close> and the service
    classes of \<open>resources/services.py\<close>; \<open>Capacity\<close> and \<open>ResourceCommands\<close> hold their invariants.
  \<^item> \<open>ExecutionModel\<close>, \<open>Milestones\<close>, \<open>Deliverables\<close>: the execution records of \<open>projects/models.py\<close>, all of
    \<open>projects/execution_services.py\<close>, \<open>submissions/review_assignment_services.py\<close>;
    \<open>ExecutionCommands\<close> and \<open>ExecutionHistory\<close> hold their invariants.
  \<^item> \<open>GovernanceRecords\<close>, \<open>RiskRegister\<close>: decision records and the risk register
    (\<open>projects/decision_risk_services.py\<close>); \<open>GovernanceCommands\<close> holds their invariants.
  \<^item> \<open>Collaboration\<close>: creating and changing projects, members, collaborators, the transfer of ownership
    (\<open>projects/services.py\<close>, \<open>projects/collaboration_services.py\<close>, \<open>projects/archive_services.py\<close>);
    \<open>CollaborationRules\<close> holds the invariant of the memberships and what a transfer does.
  \<^item> \<open>AccountModel\<close>, \<open>AccountSessions\<close>, \<open>AccountLifecycle\<close>, \<open>AccountSecurity\<close>, \<open>AccountAuth\<close>: the records of
    account security, sessions (\<open>accounts/session_services.py\<close>), registration to archive
    (\<open>accounts/services.py\<close>), recovery and change of address (\<open>accounts/security_services.py\<close>), authentication,
    tokens and the views that change state (\<open>accounts/authentication.py\<close>, \<open>accounts/tokens.py\<close>,
    \<open>accounts/views.py\<close>). \<open>AccountRules\<close> and \<open>AccountCommands\<close> show that every operation keeps the
    constraints and takes nothing closed back; \<open>AccountHistory\<close> lifts this to runs.
  \<^item> \<open>Tasks\<close>: the hierarchy of tasks (\<open>tasks/models.py\<close>, \<open>tasks/services.py\<close>, \<open>tasks/views.py\<close>); \<open>TaskRules\<close> shows
    that it has no cycles.
  \<^item> \<open>ScheduleModel\<close>, \<open>ScheduleAudience\<close>, \<open>ScheduleServices\<close>, \<open>ScheduleCalendar\<close>, \<open>ScheduleReminders\<close>: the
    tables, cleaning rules and permissions (\<open>schedules/models.py\<close>, \<open>schedules/permissions.py\<close>), audiences with
    their grants and announcements (\<open>schedules/audience_services.py\<close>, \<open>schedules/signals.py\<close>,
    \<open>schedules/reminder_services.py\<close>), all of \<open>schedules/services.py\<close>, the expansion of a series
    (\<open>schedules/recurrence.py\<close>) and the calendar of authored items (\<open>schedules/projection_services.py\<close>).
    \<open>ScheduleRules\<close>, \<open>ScheduleCommands\<close> and \<open>ScheduleSystem\<close> show that every service keeps the tables sound;
    \<open>ScheduleFacts\<close> and \<open>ScheduleEffects\<close> say who receives what, and what single services do.
  \<^item> \<open>Decimals\<close>, \<open>ReportModel\<close>, \<open>ReportTemplates\<close>, \<open>ReportSubmissions\<close>, \<open>ReportViews\<close>: Python's texts of values
    and decimals; the report tables of \<open>submissions/models.py\<close>; templates, reporting periods and deadline schedules
    (\<open>submissions/report_template_services.py\<close>, \<open>submissions/report_period_services.py\<close>, \<open>submissions/services.py\<close>);
    reports, comments and drafts (\<open>submissions/report_services.py\<close>, \<open>submissions/comment_services.py\<close>,
    \<open>submissions/draft_services.py\<close>); and their endpoints (\<open>submissions/views.py\<close>). \<open>ReportRules\<close>, \<open>ReportWrites\<close>,
    \<open>ReportCommands\<close> and \<open>ReportSystem\<close> show that every operation keeps the tables sound and changes nothing that was
    published or handed in (locale \<open>composable\<close>); \<open>ReportFacts\<close> says what single operations do.
  \<^item> \<open>Samples\<close>, \<open>ExecutionSamples\<close>, \<open>GovernanceSamples\<close>, \<open>CollaborationSamples\<close>, \<open>AccountSamples\<close>,
    \<open>TaskSamples\<close>, \<open>ScheduleSamples\<close>, \<open>ReportSamples\<close>: databases for the witnesses.

  \<^bold>\<open>What the lemmas show.\<close> For each family of services the commands are one datatype and a run is a
  list of them; the invariants (capacity, ledger, constraints, acceptances) hold over every run, and
  what must not be taken back (ended bookings, retired resources, outcomes, decisions, revisions, closed
  recoveries, ended sessions) is a relation between the first and the last state of a run (for the account
  services the locale \<open>evolving_system\<close>). Edits carry the version the client read and
  a stale one is refused; repeated requests write nothing. Where the code does not keep what it means
  to keep, a theorem shows the run that breaks it.

  \<^bold>\<open>Bounds and termination.\<close> No fuel is used: loops run over finite lists of rows, redaction recurses into
  a value of smaller size, and the masking of texts consumes at least one character a step. The climb along
  the parents of a task and the collection of the tasks below one end because each step meets a stored key
  that was not met before; over every run the climb takes at most as many steps as there are tasks. The search for
  the weekday of a deadline is a \<open>partial_function\<close>: it is shown to return within a week for every stored schedule, and
  to return for no other number.

  \<^bold>\<open>Modelling choices.\<close> Keys are natural numbers also where the code draws a UUID. A column's length is
  checked where a service can exceed it (\<open>source_id_snapshot\<close>, texts that \<open>full_clean\<close> validates).
  Where a query names no order the rows come in insertion order. The unique constraint on orders is
  checked at the end of a statement. The server's time zone is UTC; the zone database is a parameter
  (\<open>zone_db\<close>), and so are the action resolvers and the verdict on bracketed hosts in a URL. Row locks are
  not modelled: the services run one after the other, and where the code works on an instance it
  does not read again the instance is an argument of the operation, current or not.

  The recurrence rule and the addition of years of \<open>dateutil\<close> are the parameter \<open>dateutil\<close>. Of the ISO forms that
  \<open>fromisoformat\<close> reads for an occurrence key the extended calendar form is modelled; the basic and week forms are
  refused. The reminder scan works on the rows it fetched when it began (\<open>s0\<close>), as the code does.

  Digests, password encoding and what a token carries are the parameter \<open>account_crypto\<close>; random tokens and
  codes, the account the framework's authentication names, and what the mail server answers are arguments.
  Characters are those of ASCII where a service tests their class.

  The text Python prints for a float is the parameter \<open>db_float_text\<close> of the report tables; a numeric column rounds half
  away from zero, as PostgreSQL does.

  \<^bold>\<open>Not modelled.\<close> Serializers, middleware, file storage, migrations, the worker that sends mail, and the views
  of the other applications are input and output. The manuscripts of the submissions application, its
  statistics, closeout, the library and search are not modelled: they are file handling, read-only
  queries and import parsers; the execution services read only the projects of their rows.
\<close>

section \<open>Resources\<close>

text \<open>
  C1. Whatever commands the three resource services execute (every service of the file, item updates
  here leaving quantity and kind alone), at no instant do the bookings that hold a resource together
  exceed its total quantity.
\<close>

theorem capacity_never_exceeded: "capacity_ok s \<Longrightarrow> capacity_ok (run_all resource_step cs s)"
  by (rule resources.run_inv)

theorem capacity_never_exceeded_witness:
  "capacity_ok (run_all resource_step [CancelBooking sam 1, ReturnBooking sam 1] sample_resources)"
  by (rule capacity_never_exceeded [OF sample_capacity])




text \<open>
  C4. The sweep over start and end events computes the largest number of bookings open at the start
  of one of them, or 1, which is the largest number open at any instant.
\<close>

theorem safe_minimum_is_the_peak:
  assumes "\<forall>(a, b) \<in> set bs. a < b"
  shows "safe_minimum bs = peak_concurrency bs \<and> open_at bs t \<le> safe_minimum bs"
  using safe_minimum_peak [OF assms] safe_minimum_upper [OF assms] by simp

theorem safe_minimum_is_the_peak_witness:
  "safe_minimum [(1, 4), (2, 3), (3, 5)] = peak_concurrency [(1, 4), (2, 3), (3, 5)]
   \<and> open_at [(1, 4), (2, 3), (3, 5)] 2 \<le> safe_minimum [(1, 4), (2, 3), (3, 5)]"
  by (rule safe_minimum_is_the_peak) simp



text \<open>
  C6. A rejected, cancelled or completed booking is final: no run of the services that updates only
  current booking instances changes its status again.
\<close>

theorem ended_booking_is_final:
  assumes "capacity_ok s" "current_run s cs"
    and "tbl_get (db_bookings s) k = Some b" "bk_status b \<in> TERMINAL_BOOKING"
  shows "\<exists>b'. tbl_get (db_bookings (run_all resource_step cs s)) k = Some b' \<and> bk_status b' = bk_status b"
  using evolve_run [OF assms(1,2)] assms(3,4) terminal_booking_final unfolding bookings_evolve_def by blast

theorem ended_booking_is_final_witness:
  "\<exists>b'. tbl_get (db_bookings (run_all resource_step [DecideBooking ada 1 True []] cancelled_resources)) 1 = Some b'
     \<and> bk_status b' = Booking_CANCELLED"
proof -
  have b: "tbl_get (db_bookings cancelled_resources) 1 = Some cancelled_booking" by code_simp
  have st: "bk_status cancelled_booking = Booking_CANCELLED" by code_simp
  show ?thesis
    using ended_booking_is_final [OF cancelled_capacity _ b, of "[DecideBooking ada 1 True []]"]
    by (simp add: st TERMINAL_BOOKING_def)
qed

text \<open>
  An instance that is not current breaks that: a change sent with the booking as it was read
  before its cancellation succeeds on the database after it, and makes the cancelled booking
  confirmed again.
\<close>

definition changed_quantity :: booking_changes where
  "changed_quantity =
     \<lparr>bc_starts_at = None, bc_ends_at = None, bc_quantity = Some 1, bc_purpose = None, bc_version = Some 1\<rparr>"

theorem stale_update_revives_booking:
  "\<exists>s'. map_option bk_status (tbl_get (db_bookings cancelled_resources) 1) = Some Booking_CANCELLED
     \<and> update_booking sam (1, sample_booking 1 3 2 Booking_CONFIRMED) changed_quantity cancelled_resources = (Inr 1, s')
     \<and> map_option bk_status (tbl_get (db_bookings s') 1) = Some Booking_CONFIRMED"
proof -
  let ?m = "update_booking sam (1, sample_booking 1 3 2 Booking_CONFIRMED) changed_quantity cancelled_resources"
  have 1: "map_option bk_status (tbl_get (db_bookings cancelled_resources) 1) = Some Booking_CANCELLED" by code_simp
  have 2: "fst ?m = Inr 1" by code_simp
  then have m: "?m = (Inr 1, snd ?m)" by (metis prod.collapse)
  have 3: "map_option bk_status (tbl_get (db_bookings (snd ?m)) 1) = Some Booking_CONFIRMED" by code_simp
  show ?thesis using 1 m 3 by metis
qed

text \<open>
  A retired resource stays retired: after a run without item updates the row is retired or gone.
\<close>

theorem retired_stays_retired:
  assumes "tbl_wf (db_resource_items s)" "list_all (\<lambda>c. \<not> is_update_item c) cs"
    and "tbl_get (db_resource_items s) rid = Some r" "ri_status r = ResourceItem_RETIRED"
    and "tbl_get (db_resource_items (run_all resource_step cs s)) rid = Some r'"
  shows "ri_status r' = ResourceItem_RETIRED"
  using retired_run [OF assms(1,2)] assms tbl.below_fresh [OF assms(1,3)] unfolding retired_kept_def by force

theorem retired_stays_retired_witness:
  "\<exists>s r'. s = run_all resource_step [RetireItem ada 1] sample_resources
     \<and> tbl_get (db_resource_items (run_all resource_step [OperationAlerts None] s)) 1 = Some r'
     \<and> ri_status r' = ResourceItem_RETIRED"
proof -
  let ?s = "run_all resource_step [RetireItem ada 1] sample_resources"
  have wf: "tbl_wf (db_resource_items ?s)"
    using resources.run_inv [OF sample_capacity, of "[RetireItem ada 1]"] cap_okD(1) by (auto simp: capacity_ok_def)
  have "map_option ri_status (tbl_get (db_resource_items ?s) 1) = Some ResourceItem_RETIRED" by code_simp
  then obtain r where r: "tbl_get (db_resource_items ?s) 1 = Some r" "ri_status r = ResourceItem_RETIRED" by auto
  have "tbl_get (db_resource_items (run_all resource_step [OperationAlerts None] ?s)) 1 \<noteq> None" by code_simp
  then obtain r' where r': "tbl_get (db_resource_items (run_all resource_step [OperationAlerts None] ?s)) 1 = Some r'"
    by blast
  show ?thesis using retired_stays_retired [OF wf _ r r'] r' by auto
qed

text \<open>
  Of two advisors who edit the same version of a resource, the second is refused and nothing of
  the second edit is stored.
\<close>

theorem second_item_edit_refused:
  assumes "tbl_wf (db_resource_items s)"
    and "update_resource u rid (a\<lparr>ra_version := Some (int v)\<rparr>) s = (Inr k, s')"
  shows "\<exists>e. update_resource w rid (b\<lparr>ra_version := Some (int v)\<rparr>) s' = (Inl e, s')"
  using item_update.moves_on [OF assms] by (intro item_update.stale_refused) auto

theorem second_item_edit_refused_witness:
  "\<exists>s' e. update_resource ada 1 (no_attrs\<lparr>ra_name := Some ''A'', ra_version := Some (int 1)\<rparr>) sample_resources = (Inr 1, s')
     \<and> update_resource ann 1 (no_attrs\<lparr>ra_name := Some ''B'', ra_version := Some (int 1)\<rparr>) s' = (Inl e, s')"
proof -
  let ?m = "update_resource ada 1 (no_attrs\<lparr>ra_name := Some ''A'', ra_version := Some (int 1)\<rparr>) sample_resources"
  have "fst ?m = Inr 1" by code_simp
  then have m: "?m = (Inr 1, snd ?m)" by (metis prod.collapse)
  have wf: "tbl_wf (db_resource_items sample_resources)" using sample_capacity cap_okD(1) by (auto simp: capacity_ok_def)
  show ?thesis using second_item_edit_refused [OF wf m] m by blast
qed

text \<open>
  A second decision on a booking is refused: the bookings stay as they are, and the attempt is on
  record as one event more.
\<close>

theorem duplicate_decision_recorded:
  assumes "require_booking_manager u = Inr x" "tbl_get (db_bookings s) k = Some b" "bk_status b \<noteq> Booking_PENDING"
  shows "\<exists>payload s' i e. decide_booking u k approve note s = (Inl (ResourceConflict payload), s')
     \<and> db_bookings s' = db_bookings s
     \<and> tbl_rows (db_audit s') = tbl_rows (db_audit s) @ [(i, e)] \<and> ae_event_type e = ''booking.duplicate_decision''"
  using assms
  by (auto simp: decide_booking_def decide_in_transaction_def atomic_def booking_event_def rows_record_event
      event_of_def dict_get_def Let_def)

theorem duplicate_decision_recorded_witness:
  "\<exists>payload s' i e. decide_booking ada 1 True [] sample_resources = (Inl (ResourceConflict payload), s')
     \<and> db_bookings s' = db_bookings sample_resources
     \<and> tbl_rows (db_audit s') = tbl_rows (db_audit sample_resources) @ [(i, e)]
     \<and> ae_event_type e = ''booking.duplicate_decision''"
  by (rule duplicate_decision_recorded [where x = "()" and b = "sample_booking 1 3 2 Booking_CONFIRMED"]) code_simp+

text \<open>
  The event that records a refused deletion never survives: it is written inside the transaction
  the refusal rolls back.
\<close>

theorem refused_deletion_leaves_no_event: "delete_resource u rid s = (Inl e, s') \<Longrightarrow> s' = s"
  by (simp add: delete_resource_def)

theorem refused_deletion_leaves_no_event_witness:
  "snd (delete_resource ada 1 sample_resources) = sample_resources"
proof -
  let ?m = "delete_resource ada 1 sample_resources"
  have "(case fst ?m of Inl e \<Rightarrow> True | Inr x \<Rightarrow> False)" by code_simp
  then obtain e where "?m = (Inl e, snd ?m)" by (metis prod.collapse sum.exhaust sum.simps(6))
  then show ?thesis by (rule refused_deletion_leaves_no_event)
qed

section \<open>Project execution\<close>

text \<open>
  C7. Over every run of the execution services the tables keep their constraints: one order for one
  milestone or deliverable, one revision number, one open recommendation for a reviewer, one final
  decision for a revision, and an accepted decision behind every accepted deliverable.
\<close>

theorem execution_constraints_hold: "execution_ok s \<Longrightarrow> execution_ok (run_all execution_step cs s)"
  by (rule execution.run_inv)

theorem execution_constraints_hold_witness: "execution_ok (run_all execution_step reviewed_run sample_execution)"
  by (rule execution_constraints_hold [OF sample_execution_ok])

text \<open>
  C8. After any run a deliverable that is accepted names a revision of its own which a recorded final
  decision accepts.
\<close>

theorem accepted_deliverable_was_decided:
  assumes "execution_ok s" "tbl_get (db_deliverables (run_all execution_step cs s)) k = Some d"
    and "dl_current_status d = Deliverable_ACCEPTED"
  shows "\<exists>rk r j x. dl_accepted_revision d = Some rk
    \<and> tbl_get (db_revisions (run_all execution_step cs s)) rk = Some r \<and> rv_deliverable r = k
    \<and> tbl_get (db_decisions (run_all execution_step cs s)) j = Some x
    \<and> fd_revision x = rk \<and> fd_decision x = Decision_ACCEPTED"
  using execution_okD(6) [OF execution.run_inv [OF assms(1)]] assms(2,3) unfolding acceptances_ok_def backed_def by blast

theorem accepted_deliverable_was_decided_witness:
  "\<exists>d rk r j x. tbl_get (db_deliverables (run_all execution_step reviewed_run sample_execution)) 1 = Some d
    \<and> dl_accepted_revision d = Some rk
    \<and> tbl_get (db_revisions (run_all execution_step reviewed_run sample_execution)) rk = Some r \<and> rv_deliverable r = 1
    \<and> tbl_get (db_decisions (run_all execution_step reviewed_run sample_execution)) j = Some x
    \<and> fd_revision x = rk \<and> fd_decision x = Decision_ACCEPTED"
proof -
  let ?s = "run_all execution_step reviewed_run sample_execution"
  have "map_option dl_current_status (tbl_get (db_deliverables ?s) 1) = Some Deliverable_ACCEPTED" by code_simp
  then obtain d where d: "tbl_get (db_deliverables ?s) 1 = Some d" "dl_current_status d = Deliverable_ACCEPTED" by auto
  show ?thesis using accepted_deliverable_was_decided [OF sample_execution_ok d] d(1) by blast
qed

text \<open>
  C9. No run takes back what was decided: final decisions stay as they are, revisions change nothing
  but their state, recommendations nothing but the time they were superseded, which is set once.
\<close>

theorem history_is_kept: "execution_ok s \<Longrightarrow> history_kept s (run_all execution_step cs s)"
  by (rule history_kept_run)

theorem history_is_kept_witness: "history_kept sample_execution (run_all execution_step reviewed_run sample_execution)"
  by (rule history_is_kept [OF sample_execution_ok])



text \<open>
  C11. A milestone is completed exactly when it is not archived, has a required deliverable and all of
  them are accepted, and reconciling it stores that status and a completion time with it.
\<close>

theorem milestone_completion:
  assumes "milestones_ok (db_milestones s)" "tbl_get (db_milestones s) k = Some m"
  shows "\<exists>m' s'. reconcile_milestone k s = (Inr m', s') \<and> tbl_get (db_milestones s') k = Some m'
    \<and> (ms_current_status m' = Milestone_COMPLETED \<longleftrightarrow> ms_archived_at m = None \<and> required_deliverables s k \<noteq> []
         \<and> list_all (\<lambda>d. dl_current_status d = Deliverable_ACCEPTED) (required_deliverables s k))
    \<and> (ms_completed_at m' \<noteq> None \<longleftrightarrow> ms_current_status m' = Milestone_COMPLETED)"
  using reconcile_milestone_ok [OF assms] derived_status_completed [of _ m "required_deliverables s k"]
  by (auto simp: tbl.get_put [OF milestones_okD(1) [OF assms(1)]] reconciled_def list_all_iff split: option.splits)

theorem milestone_completion_witness:
  "\<exists>m' s'. reconcile_milestone 1 sample_execution = (Inr m', s') \<and> tbl_get (db_milestones s') 1 = Some m'
    \<and> (ms_current_status m' = Milestone_COMPLETED \<longleftrightarrow> ms_archived_at sample_milestone = None
         \<and> required_deliverables sample_execution 1 \<noteq> []
         \<and> list_all (\<lambda>d. dl_current_status d = Deliverable_ACCEPTED) (required_deliverables sample_execution 1))
    \<and> (ms_completed_at m' \<noteq> None \<longleftrightarrow> ms_current_status m' = Milestone_COMPLETED)"
  by (rule milestone_completion [OF execution_okD(1) [OF sample_execution_ok]]) code_simp

text \<open>
  A submission sent again with its idempotency key returns the revision of the first call and
  changes nothing; without a key it would create another revision.
\<close>

theorem submission_retry:
  assumes "key \<noteq> []" "submit_deliverable u k ds ev key s = (Inr x, s')"
  shows "submit_deliverable u k ds ev key s' = (Inr x, s')"
  using submission.retry [of u k ds ev "hd key" "tl key" s x s'] assms by simp

theorem submission_retry_witness:
  "\<exists>s'. submit_deliverable sam 1 ''v2'' [task_evidence] ''b'' sample_execution = (Inr 2, s')
     \<and> submit_deliverable sam 1 ''v2'' [task_evidence] ''b'' s' = (Inr 2, s')"
proof -
  have "fst (submit_deliverable sam 1 ''v2'' [task_evidence] ''b'' sample_execution) = Inr 2" by code_simp
  then have m: "submit_deliverable sam 1 ''v2'' [task_evidence] ''b'' sample_execution
    = (Inr 2, snd (submit_deliverable sam 1 ''v2'' [task_evidence] ''b'' sample_execution))" by (metis prod.collapse)
  then show ?thesis using submission_retry [OF _ m] by blast
qed

text \<open>
  Of two managers who edit the same version of a deliverable, the second is refused and nothing
  of the second edit is stored.
\<close>

theorem second_deliverable_edit_refused:
  assumes "deliverables_ok (db_deliverables s)" "update_deliverable u k (int v) c s = (Inr x, s')"
  shows "\<exists>e. update_deliverable w k (int v) c' s' = (Inl e, s')"
  using deliverable_update.moves_on [OF assms] by (intro deliverable_update.stale_refused) auto

theorem second_deliverable_edit_refused_witness:
  "\<exists>s' e. update_deliverable ada 1 (int 2) progress_note sample_execution = (Inr 1, s')
     \<and> update_deliverable ada 1 (int 2) progress_note s' = (Inl e, s')"
proof -
  let ?m = "update_deliverable ada 1 (int 2) progress_note sample_execution"
  have "fst ?m = Inr 1" by code_simp
  then have m: "?m = (Inr 1, snd ?m)" by (metis prod.collapse)
  show ?thesis using second_deliverable_edit_refused [OF execution_okD(2) [OF sample_execution_ok] m] m by blast
qed

text \<open>
  C12. In a project that is archived or held no milestone is created and no deliverable is submitted,
  changed or decided: each call is refused as read-only and leaves the database as it was.
\<close>

theorem read_only_project_refuses_writes:
  assumes "tbl_get (db_projects s) pid = Some p" "\<not> project_writable p"
    and "tbl_get (db_deliverables s) k = Some d" "dl_project d = pid"
    and "tbl_get (db_revisions s) rk = Some r" "rv_project r = pid"
  shows "create_milestone u (pid, p) t ds day os s = (Inl (PermissionDenied ''Project execution is read-only.''), s)
    \<and> update_deliverable u k v c s = (Inl (PermissionDenied ''Project execution is read-only.''), s)
    \<and> submit_deliverable u k ds ev key s = (Inl (PermissionDenied ''Project execution is read-only.''), s)
    \<and> decide_deliverable u rk dec ra key s = (Inl (PermissionDenied ''Project execution is read-only.''), s)"
  using assms
  by (simp add: create_milestone_def update_deliverable_def submit_deliverable_def decide_deliverable_def atomic_def
      require_capability_def require_writable_def project_row_def Let_def)

theorem read_only_project_refuses_writes_witness:
  "create_milestone ada (1, held_project) ''M'' [] 20020 [2] held_execution
       = (Inl (PermissionDenied ''Project execution is read-only.''), held_execution)
   \<and> update_deliverable ada 1 2 progress_note held_execution
       = (Inl (PermissionDenied ''Project execution is read-only.''), held_execution)
   \<and> submit_deliverable sam 1 ''v2'' [task_evidence] ''b'' held_execution
       = (Inl (PermissionDenied ''Project execution is read-only.''), held_execution)
   \<and> decide_deliverable ada 1 ''accepted'' [] ''d'' held_execution
       = (Inl (PermissionDenied ''Project execution is read-only.''), held_execution)"
proof -
  have "tbl_get (db_projects held_execution) 1 = Some held_project" by code_simp
  moreover have "\<not> project_writable held_project" by code_simp
  moreover have "tbl_get (db_deliverables held_execution) 1 = Some sample_deliverable" by code_simp
  moreover have "tbl_get (db_revisions held_execution) 1 = Some sample_revision" by code_simp
  ultimately show ?thesis
    using read_only_project_refuses_writes [of held_execution 1 held_project 1 sample_deliverable 1 sample_revision]
    by (simp add: sample_deliverable_def sample_revision_def)
qed


text \<open>
  A project never gets a second milestone: once its only order is 0 the next order is computed as 0
  again, and the unique order of the table refuses the row.
\<close>

theorem second_milestone_refused:
  assumes "project_orders s pid = [0]"
  shows "\<exists>e. create_milestone u (pid, p) t ds day os s = (Inl e, s)"
proof -
  have "0 \<in> set (project_orders s pid)" using assms by simp
  then obtain k m where "(k, m) \<in> set (tbl_rows (db_milestones s))" "ms_project m = pid" "ms_order m = 0"
    by (auto simp: project_orders_def set_tbl_filter)
  then show ?thesis
    by (auto simp: create_milestone_def atomic_def insert_milestone_def assms next_order_after_first key_taken_def
        milestone_order_key_def tbl_exists_iff milestone_checks_def Let_def split: sum.splits)
qed

theorem second_milestone_refused_witness:
  "\<exists>e. create_milestone ada (1, sample_project) ''M2'' [] 20020 [2] sample_execution = (Inl e, sample_execution)"
  by (rule second_milestone_refused) code_simp

section \<open>Reports\<close>

text \<open>
  C14. Over every run of the report services the tables keep their constraints: a template has at most one draft and one
  published version, which is its active one, periods use versions that left their draft, the revisions of a week are
  numbered from one without a gap, responses answer fields of their report's version. And no run changes what was
  published or handed in: the fields of a version that left its draft, the text of a report, its responses.
\<close>

theorem published_and_submitted_stay:
  assumes "reports_ok s"
  shows "reports_ok (run_all report_command cs s)
    \<and> (\<forall>v. released (db_template_versions s) v \<longrightarrow> fields_of (run_all report_command cs s) v = fields_of s v)
    \<and> (\<forall>k r. tbl_get (db_weekly_reports s) k = Some r \<longrightarrow>
         (\<exists>r'. tbl_get (db_weekly_reports (run_all report_command cs s)) k = Some r' \<and> written r' = written r))
    \<and> (\<forall>k q. tbl_get (db_report_responses s) k = Some q \<longrightarrow>
         tbl_get (db_report_responses (run_all report_command cs s)) k = Some q)"
  using run_report_step [of s cs] assms by (auto simp: report_step_def reports_kept_def entries_kept_def fields_of_alt)

theorem published_and_submitted_stay_witness:
  "reports_ok (run_all report_command report_run sample_reports)
   \<and> fields_of (run_all report_command report_run sample_reports) 1 = fields_of sample_reports 1"
proof -
  have "released (db_template_versions sample_reports) 1" by code_simp
  then show ?thesis using published_and_submitted_stay [OF sample_reports_ok, of report_run] by blast
qed




text \<open>
  C17. The number stored for an accepted response keeps the bounds of its field, also after it is rounded to the four places of
  the column: the bounds are rows of the same four places.
\<close>

theorem stored_numbers_keep_bounds:
  assumes row: "field_row v f = Inr row" and type: "fl_field_type row \<in> numeric_types"
    and response: "validate_response_value s pid row value = Inr (x, Some d, st, sid)" and stored: "numeric_column d = Inr y"
  shows "(\<forall>lo. fl_min_value row = Some lo \<longrightarrow> dec_less y lo = Inr False)
    \<and> (\<forall>hi. fl_max_value row = Some hi \<longrightarrow> dec_less hi y = Inr False)"
proof -
  have "number_response (db_float_text s) row value = Inr (x, Some d, st, sid)"
    using type response by (auto simp: validate_response_value_def numeric_types_def plain_def split: if_splits)
  then obtain d' where d: "Some d = Some d'" "\<And>lo. fl_min_value row = Some lo \<Longrightarrow> dec_less d' lo = Inr False"
    "\<And>hi. fl_max_value row = Some hi \<Longrightarrow> dec_less hi d' = Inr False"
    by (rule number_response_bounds) blast
  note b = field_row_bounds [OF row] and k = stored_keeps_bound [OF stored]
  show ?thesis using b k d by (metis option.inject)
qed

theorem stored_numbers_keep_bounds_witness:
  "\<exists>x y. validate_response_value sample_reports 1 progress_row (PStr ''99.99995'') = Inr x
    \<and> numeric_column (Finite False 9999995 (- 5)) = Inr y \<and> dec_less (Finite False 1000000 (- 4)) y = Inr False"
proof -
  let ?y = "Finite False 1000000 (- 4)" and ?d = "Finite False 9999995 (- 5)"
  have row: "field_row 1 (sample_field ''progress'' Field_PERCENTAGE False 2) = Inr progress_row" by code_simp
  have t: "fl_field_type progress_row \<in> numeric_types" and hi: "fl_max_value progress_row = Some ?y" by code_simp+
  have r: "validate_response_value sample_reports 1 progress_row (PStr ''99.99995'') = Inr (PFloat ''1.0'', Some ?d, [], [])"
    by code_simp
  have y: "numeric_column ?d = Inr ?y" by code_simp
  show ?thesis using stored_numbers_keep_bounds [OF row t r y] r y hi by blast
qed





section \<open>Decisions and risks\<close>

text \<open>
  C20. Over every run of the decision and risk services decisions form chains inside their project (a
  decision is superseded exactly when one younger decision names it, and one only), and the revisions of a
  risk are the walk it took: numbered without a gap up to its version, each from where the one before ended,
  the last in its state; its severity is the matrix entry and a closed risk has a rationale and a closing time.
\<close>

theorem governance_constraints_hold: "governance_ok s \<Longrightarrow> governance_ok (run_all governance_step cs s)"
  by (rule governance.run_inv)

theorem governance_constraints_hold_witness: "governance_ok (run_all governance_step governed_run sample_governance)"
  by (rule governance_constraints_hold [OF sample_governance_ok])

text \<open>
  No run takes back a published decision or a revision of a risk: a decision keeps every field but its
  status, which only becomes superseded, and revisions are only added at the end.
\<close>

theorem published_records_are_kept: "governance_ok s \<Longrightarrow> record_kept s (run_all governance_step cs s)"
  by (rule record_kept_run)

theorem published_records_are_kept_witness:
  "record_kept sample_governance (run_all governance_step governed_run sample_governance)"
  by (rule published_records_are_kept [OF sample_governance_ok])

text \<open>
  Triage opens a closed risk again and leaves its closure in place: the risk is open, still has its
  closing time and its rationale, although only reopening is to lead out of the closed states and clears both.
\<close>

theorem triage_reopens_with_closure:
  assumes "governance_ok s" "tbl_get (db_risks s) k = Some r" "rk_state r \<in> {Risk_ACCEPTED, Risk_RESOLVED}"
    and "triage_risk u k v a s = (Inr j, s')"
  shows "\<exists>r'. tbl_get (db_risks s') k = Some r' \<and> rk_state r' = Risk_OPEN
    \<and> rk_closed_at r' = rk_closed_at r \<and> rk_closed_at r' \<noteq> None
    \<and> rk_closure_rationale r' = rk_closure_rationale r \<and> rk_closure_rationale r' \<noteq> []"
proof -
  have "risk_checks r" using assms(1,2) by (simp add: governance_ok_def risks_ok_def)
  then show ?thesis
    using triage_success [OF assms(4)] assms(2,3) save_and_append_success
    by (fastforce simp: put_notification_get triaged_def risk_checks_def)
qed

theorem triage_reopens_with_closure_witness:
  "\<exists>s' r'. triage_risk ada 2 3 fresh_triage sample_governance = (Inr 2, s') \<and> tbl_get (db_risks s') 2 = Some r'
    \<and> rk_state r' = Risk_OPEN \<and> rk_closed_at r' = Some 0 \<and> rk_closure_rationale r' = ''tolerable''"
proof -
  let ?s = "snd (triage_risk ada 2 3 fresh_triage sample_governance)" and ?r = "sample_risk ''noise'' Risk_ACCEPTED 3"
  have "fst (triage_risk ada 2 3 fresh_triage sample_governance) = Inr 2" by code_simp
  then have t: "triage_risk ada 2 3 fresh_triage sample_governance = (Inr 2, ?s)" by (metis prod.collapse)
  have r: "tbl_get (db_risks sample_governance) 2 = Some ?r" by code_simp
  have c: "rk_state ?r \<in> {Risk_ACCEPTED, Risk_RESOLVED}" "rk_closed_at ?r = Some 0" "rk_closure_rationale ?r = ''tolerable''"
    by (simp_all add: sample_risk_def)
  show ?thesis using triage_reopens_with_closure [OF sample_governance_ok r c(1) t] c t by auto
qed

section \<open>Members and owners\<close>



text \<open>
  C22. A transfer makes the chosen teacher the advisor of the project, lifts a hold, and leaves that teacher
  as the only active primary advisor among the members.
\<close>

theorem transfer_moves_ownership:
  assumes "collaboration_ok s" "transfer_ownership u pid a s = (Inr k, s')"
    and "existing_transfer s pid (tf_idempotency_key a) = None"
  shows "\<exists>p' j m. tbl_get (db_projects s') pid = Some p' \<and> rp_advisor p' = fst (tf_new_advisor a)
    \<and> rp_governance_state p' = ResearchProject_NORMAL
    \<and> tbl_get (db_memberships s') j = Some m \<and> pm_user m = fst (tf_new_advisor a)
    \<and> (\<forall>j' m'. tbl_get (db_memberships s') j' = Some m' \<and> primary_advisor_key m' = Some pid \<longleftrightarrow> j' = j \<and> m' = m)"
proof -
  obtain p' where p': "tbl_get (db_projects s') pid = Some p'" "rp_advisor p' = fst (tf_new_advisor a)"
    "rp_governance_state p' = ResearchProject_NORMAL"
    using transfer_effect(1) [OF assms(2,1,3)] by blast
  obtain j m where m: "tbl_get (db_memberships s') j = Some m" "primary_advisor_key m = Some pid" "pm_user m = fst (tf_new_advisor a)"
    using transfer_effect(2) [OF assms(2,1,3)] by blast
  have "tbl_get (db_memberships s') j' = Some m' \<and> primary_advisor_key m' = Some pid \<longleftrightarrow> j' = j \<and> m' = m" for j' m'
    using only_primary_advisor [OF collaboration_ok_transfer [OF assms(2,1)] m(1,2), of j' m'] m(1,2) by auto
  then show ?thesis using p' m by blast
qed

theorem transfer_moves_ownership_witness:
  "\<exists>k s' p' m. transfer_ownership ada 1 to_rob sample_collaboration = (Inr k, s') \<and> tbl_get (db_projects s') 1 = Some p'
    \<and> rp_advisor p' = 3 \<and> tbl_get (db_memberships s') 3 = Some m \<and> primary_advisor_key m = Some 1"
proof -
  let ?m = "transfer_ownership ada 1 to_rob sample_collaboration"
  have "fst ?m = Inr 1" by code_simp
  then have t: "?m = (Inr 1, snd ?m)" by (metis prod.collapse)
  have f: "existing_transfer sample_collaboration 1 (tf_idempotency_key to_rob) = None" by code_simp
  have g: "map_option primary_advisor_key (tbl_get (db_memberships (snd ?m)) 3) = Some (Some 1)" by code_simp
  have r: "fst (tf_new_advisor to_rob) = 3" by (simp add: to_rob_def)
  show ?thesis using transfer_moves_ownership [OF sample_collaboration_ok t f] t g r by auto
qed

text \<open>
  A transfer cannot be repeated: the same request, retry key and all, is refused once it took place,
  because its version is checked before the key is looked up.
\<close>

theorem completed_transfer_retry_refused:
  assumes "collaboration_ok s" "transfer_ownership u pid a s = (Inr k, s')"
    and "existing_transfer s pid (tf_idempotency_key a) = None"
  shows "\<exists>e. transfer_ownership u pid a s' = (Inl e, s')"
  by (rule transfer_again_refused [OF assms(2,1,3)])

theorem completed_transfer_retry_refused_witness:
  "\<exists>s' e. transfer_ownership ada 1 to_rob sample_collaboration = (Inr 1, s') \<and> tf_idempotency_key to_rob \<noteq> []
    \<and> transfer_ownership ada 1 to_rob s' = (Inl e, s')"
proof -
  let ?m = "transfer_ownership ada 1 to_rob sample_collaboration"
  have "fst ?m = Inr 1" by code_simp
  then have t: "?m = (Inr 1, snd ?m)" by (metis prod.collapse)
  have f: "existing_transfer sample_collaboration 1 (tf_idempotency_key to_rob) = None" by code_simp
  show ?thesis using completed_transfer_retry_refused [OF sample_collaboration_ok t f] t by (auto simp: to_rob_def)
qed

text \<open>
  Whoever else may manage members, a co-advisor for one, can remove the primary advisor: the project is
  left without any active primary advisor, while its row still names the one removed.
\<close>

theorem manager_can_remove_the_owner:
  assumes "collaboration_ok s" "tbl_get (db_memberships s) k = Some m" "primary_advisor_key m = Some pid"
    and "pm_user m \<noteq> u_id u" "canManageMembers (project_capabilities s u pid p)"
  shows "\<exists>s'. remove_member u (k, m) p s = (Inr k, s') \<and> \<not> has_primary_advisor s' pid \<and> db_projects s' = db_projects s"
  by (rule manager_removes_owner [OF assms])

theorem manager_can_remove_the_owner_witness:
  "has_primary_advisor sample_collaboration 1
    \<and> (\<exists>s'. remove_member rob (1, sample_member 1 ProjectMembership_ADVISOR) sample_project sample_collaboration = (Inr 1, s')
        \<and> \<not> has_primary_advisor s' 1)"
proof -
  have m: "tbl_get (db_memberships sample_collaboration) 1 = Some (sample_member 1 ProjectMembership_ADVISOR)"
    "primary_advisor_key (sample_member 1 ProjectMembership_ADVISOR) = Some 1"
    "pm_user (sample_member 1 ProjectMembership_ADVISOR) \<noteq> u_id rob" by code_simp+
  have c: "canManageMembers (project_capabilities sample_collaboration rob 1 sample_project)" by code_simp
  have "has_primary_advisor sample_collaboration 1" by code_simp
  then show ?thesis using manager_can_remove_the_owner [OF sample_collaboration_ok m c] by blast
qed

section \<open>Tasks\<close>

text \<open>
  C23. Over every run of the task services each stored task is well formed: its title is not blank and at most 255
  characters, and its parent, if it has one, is a stored task of the same project.
\<close>

theorem task_rows_stay_well_formed:
  assumes "tasks_ok (db_tasks s)" "tbl_get (db_tasks (run_all task_step cs s)) k = Some r"
  shows "ta_title r \<noteq> [] \<and> length (ta_title r) \<le> 255
    \<and> (\<forall>j. ta_parent_task r = Some j \<longrightarrow>
         (\<exists>q. tbl_get (db_tasks (run_all task_step cs s)) j = Some q \<and> ta_project q = ta_project r))"
  using tasks_okD(2) [OF tasks.run_inv [OF assms(1)] assms(2)] by (simp add: task_row_ok_def)

theorem task_rows_stay_well_formed_witness:
  "\<exists>r. tbl_get (db_tasks (run_all task_step [CreateTask ada 1 ''Measure'' (child_args 3)] sample_tasks)) 4 = Some r
    \<and> ta_title r \<noteq> [] \<and> length (ta_title r) \<le> 255"
proof -
  let ?s = "run_all task_step [CreateTask ada 1 ''Measure'' (child_args 3)] sample_tasks"
  have "map_option ta_title (tbl_get (db_tasks ?s) 4) = Some ''Measure''" by code_simp
  then obtain r where "tbl_get (db_tasks ?s) 4 = Some r" by auto
  then show ?thesis using task_rows_stay_well_formed [OF sample_tasks_ok] by blast
qed

text \<open>
  C24. The hierarchy of tasks never gets a cycle: after every run the climb from a stored task ends after at most as
  many steps as there are tasks. So the loop that checks a new parent ends, and it refuses the parent exactly when
  the task itself is met on the way up; no other error is possible there.
\<close>

theorem task_climb_ends:
  assumes "tasks_ok (db_tasks s)" "t = db_tasks (run_all task_step cs s)" "tbl_get t p = Some r"
  shows "(\<exists>ks. chain t (Some p) ks \<and> length ks \<le> length (tbl_rows t))
    \<and> walk_parents t [k] (Some p)
      = (if \<exists>ks. chain t (Some p) ks \<and> k \<in> set ks
         then Inl (ValidationError ''Task hierarchy cannot contain cycles'') else Inr ())"
proof -
  have ok: "tasks_ok t" using tasks.run_inv [OF assms(1)] by (simp add: assms(2))
  obtain ks where ks: "chain t (Some p) ks" using tasks_okD(3) [OF ok assms(3)] by blast
  have "parents_exist t" using tasks_okD(2) [OF ok] by (force simp: parents_exist_def task_row_ok_def)
  then have w: "walk_parents t [k] (Some p) \<in> {Inr (), Inl (ValidationError ''Task hierarchy cannot contain cycles'')}"
    by (rule walk_cases) (simp add: assms(3))
  have "walk_parents t [k] (Some p) = Inr () \<longleftrightarrow> k \<notin> set ks"
    using walk_iff [of t "[k]" "Some p"] ks chain_unique by fastforce
  moreover have "(\<exists>ks. chain t (Some p) ks \<and> k \<in> set ks) \<longleftrightarrow> k \<in> set ks" using ks chain_unique by blast
  ultimately show ?thesis using w ks chain_length by auto
qed

theorem task_climb_ends_witness:
  "walk_parents (db_tasks (run_all task_step task_run sample_tasks)) [1] (Some 1)
    = Inl (ValidationError ''Task hierarchy cannot contain cycles'')"
proof -
  let ?t = "db_tasks (run_all task_step task_run sample_tasks)"
  have "map_option ta_parent_task (tbl_get ?t 1) = Some None" by code_simp
  then obtain r where r: "tbl_get ?t 1 = Some r" "ta_parent_task r = None" by auto
  have "chain ?t (Some 1) [1] \<and> 1 \<in> set [1 :: pk]" using r by simp
  then have "\<exists>ks. chain ?t (Some 1) ks \<and> 1 \<in> set ks" by blast
  then show ?thesis using task_climb_ends [OF sample_tasks_ok refl r(1), of 1] by (simp only: if_True)
qed

text \<open>
  C25. Deleting a task deletes what is below it and nothing else: a stored task is gone afterwards exactly when the
  climb from it meets the deleted one, and every other row is as it was.
\<close>

theorem deletion_takes_the_subtree:
  assumes "tasks_ok (db_tasks s)" "delete_task u p (k, t) s = (Inr (), s')"
  shows "tbl_get (db_tasks s') j =
    (case tbl_get (db_tasks s) j of None \<Rightarrow> None
     | Some r \<Rightarrow> if \<exists>ks. chain (db_tasks s) (Some j) ks \<and> k \<in> set ks then None else Some r)"
  by (rule delete_task_effect [OF assms(2,1)])

theorem deletion_takes_the_subtree_witness:
  "\<exists>s'. delete_task ada (1, sample_project) (2, sample_task (Some 1) 8 Task_COMPLETED) sample_tasks = (Inr (), s')
    \<and> tbl_get (db_tasks s') 3 = None \<and> tbl_get (db_tasks s') 1 = Some (sample_task None 10 Task_IN_PROGRESS)"
proof -
  let ?m = "delete_task ada (1, sample_project) (2, sample_task (Some 1) 8 Task_COMPLETED) sample_tasks"
  have "fst ?m = Inr ()" by code_simp
  then have m: "?m = (Inr (), snd ?m)" by (metis prod.collapse)
  note d = deletion_takes_the_subtree [OF sample_tasks_ok m]
  have c: "chain (db_tasks sample_tasks) (Some 3) [3, 2, 1]" "chain (db_tasks sample_tasks) (Some 1) [1]"
    by (simp_all add: sample_task_rows sample_task_def tbl_get_def)
  have "2 \<in> set [3, 2, 1 :: pk]" by simp
  then have e: "\<exists>ks. chain (db_tasks sample_tasks) (Some 3) ks \<and> 2 \<in> set ks" using c(1) by blast
  have f: "\<not> (\<exists>ks. chain (db_tasks sample_tasks) (Some 1) ks \<and> 2 \<in> set ks)" using chain_unique [OF c(2)] by fastforce
  show ?thesis using m d [of 3] d [of 1] e f by (auto simp: sample_task_rows tbl_get_def)
qed

text \<open>
  A completed or cancelled task is not final: a member it is assigned to, without being an advisor, sets it to
  any other status, and the time of its completion stays in the row.
\<close>

theorem assignee_reopens_task:
  assumes "tasks_ok (db_tasks s)" "user_is_active_project_member s u (fst p)" "rp_status (snd p) \<noteq> ResearchProject_ARCHIVED"
    and "ta_assignee t = Some (u_id u)" "full_clean_task s (Some k) t = Inr ()" "st \<noteq> Task_COMPLETED"
  shows "\<exists>s' t'. update_task u p (k, t) (status_change st) s = (Inr k, s') \<and> tbl_get (db_tasks s') k = Some t'
    \<and> ta_status t' = st \<and> ta_completed_at t' = ta_completed_at t"
  by (rule assignee_sets_status [OF assms(2-6) tasks_okD(1) [OF assms(1)]])

theorem assignee_reopens_task_witness:
  "\<not> is_project_advisor sample_tasks sam 1
    \<and> (\<exists>s' t'. update_task sam (1, sample_project) (2, sample_task (Some 1) 8 Task_COMPLETED) (status_change Task_IN_PROGRESS)
          sample_tasks = (Inr 2, s')
        \<and> tbl_get (db_tasks s') 2 = Some t' \<and> ta_status t' = Task_IN_PROGRESS \<and> ta_completed_at t' = Some 7)"
proof -
  let ?t = "sample_task (Some 1) 8 Task_COMPLETED"
  have m: "user_is_active_project_member sample_tasks sam (fst (1, sample_project))"
    "rp_status (snd (1 :: pk, sample_project)) \<noteq> ResearchProject_ARCHIVED" by code_simp+
  have c: "ta_assignee ?t = Some (u_id sam)" "full_clean_task sample_tasks (Some 2) ?t = Inr ()" by code_simp+
  have a: "\<not> is_project_advisor sample_tasks sam 1" "ta_completed_at ?t = Some 7" by code_simp+
  show ?thesis
    using assignee_reopens_task [OF sample_tasks_ok m c, of Task_IN_PROGRESS] a by simp
qed

text \<open>
  The deadline of a task without parent moves to any time, before the deadlines of its children too: those rows stay
  as they are, later than their parent.
\<close>

theorem parent_deadline_moves_before_children:
  assumes "tasks_ok (db_tasks s)" "user_is_active_project_member s u (fst p)" "rp_status (snd p) \<noteq> ResearchProject_ARCHIVED"
    and "is_project_advisor s u (fst p)" "full_clean_task s (Some k) t = Inr ()" "ta_parent_task t = None"
    and "tbl_get (db_tasks s) j = Some c" "j \<noteq> k"
  shows "\<exists>s' t'. update_task u p (k, t) (deadline_change d) s = (Inr k, s')
    \<and> tbl_get (db_tasks s') k = Some t' \<and> ta_deadline_at t' = Some d \<and> tbl_get (db_tasks s') j = Some c"
  by (rule deadline_moves_without_children [OF assms(2-6) tasks_okD(1) [OF assms(1)] assms(7,8)])

section \<open>Schedules\<close>

text \<open>
  C26. Over every run of the schedule services, the membership signal and the reminder scan each stored item would pass
  its cleaning rules, audiences and grants belong to group items and the unique constraints hold; and an item that was
  published to a group is never deleted and never private again.
\<close>

theorem schedule_tables_stay_sound:
  assumes "schedules_ok s"
  shows "schedules_ok (run_all schedule_step cs s) \<and> (grouped s k \<longrightarrow> grouped (run_all schedule_step cs s) k)"
  using schedules.run_inv [OF assms] run_keeps_grouped [OF assms] by blast

theorem schedule_tables_stay_sound_witness:
  "schedules_ok (run_all schedule_step schedule_run sample_schedules) \<and> grouped (run_all schedule_step schedule_run sample_schedules) 3"
proof -
  have "grouped sample_schedules 3" by code_simp
  then show ?thesis using schedule_tables_stay_sound [OF sample_schedules_ok, of schedule_run 3] by blast
qed

text \<open>
  C27. Resolving an audience again makes the open grants exactly those of the selection: the active accounts selected
  themselves and the active members of the selected projects, without the publisher, one grant each; everyone else loses
  theirs, and the count returned is the number of recipients.
\<close>

theorem grants_follow_the_selection:
  assumes "reresolve_audience k i at s = (Inr (added, removed, active), s')" "si_scope i = Schedule_GROUP" "schedules_ok s"
  shows "(\<forall>r. r \<in> set (open_recipients s' k) \<longleftrightarrow> should_receive s k (si_owner i) r)
    \<and> distinct (open_recipients s' k) \<and> active = length (open_recipients s' k)"
  using reresolve_reaches_selection [OF assms] by auto

theorem grants_follow_the_selection_witness:
  "\<exists>s'. reresolve_audience 3 stand_up None sample_schedules = (Inr (1, 0, 2), s')
    \<and> 2 \<in> set (open_recipients s' 3) \<and> 1 \<notin> set (open_recipients s' 3)"
proof -
  let ?m = "reresolve_audience 3 stand_up None sample_schedules"
  have "fst ?m = Inr (1, 0, 2)" by code_simp
  then have m: "?m = (Inr (1, 0, 2), snd ?m)" by (metis prod.collapse)
  have i: "si_scope stand_up = Schedule_GROUP" by code_simp
  have r: "should_receive sample_schedules 3 (si_owner stand_up) 2" "\<not> should_receive sample_schedules 3 (si_owner stand_up) 1"
    by code_simp+
  show ?thesis using grants_follow_the_selection [OF m i sample_schedules_ok] m r by blast
qed

text \<open>
  An event of one version of an item is announced to a recipient once: announcing it again, by whomever, makes no
  notification and changes nothing.
\<close>

theorem event_is_announced_once:
  assumes "dispatch_group_event k i u ev rs s = (Inr n, s')"
  shows "dispatch_group_event k i u' ev rs s' = (Inr 0, s')"
  by (rule dispatch_group_event_again [OF assms])

theorem event_is_announced_once_witness:
  "\<exists>s'. dispatch_group_event 3 stand_up 1 Dispatch_CANCELLED None sample_schedules = (Inr 1, s')
    \<and> dispatch_group_event 3 stand_up 4 Dispatch_CANCELLED None s' = (Inr 0, s')"
proof -
  let ?m = "dispatch_group_event 3 stand_up 1 Dispatch_CANCELLED None sample_schedules"
  have "fst ?m = Inr 1" by code_simp
  then have m: "?m = (Inr 1, snd ?m)" by (metis prod.collapse)
  show ?thesis using event_is_announced_once [OF m] m by blast
qed

text \<open>
  C28. Changing a series from an occurrence on splits it: the old item ends on the day before, a new item of the same
  owner and scope goes on (to the old end unless the change gives another), both are sound, and the recipients of a
  group item are the recipients of its continuation.
\<close>

theorem future_change_splits_the_series:
  assumes "update_schedule u k expected Change_FUTURE f key s = (Inr nk, s')"
    and "si_recurrence_frequency i \<noteq> Recurrence_NONE" "tbl_get (db_schedules s) k = Some i" "schedules_ok s"
  shows "\<exists>v past future. parse_occurrence_key (db_zones s) i key = Inr v \<and> nk \<noteq> k
    \<and> tbl_get (db_schedules s') k = Some past \<and> tbl_get (db_schedules s') nk = Some future
    \<and> series_split (db_zones s) i v past future
    \<and> (fd_recurrence f = None \<longrightarrow> si_recurrence_until future = si_recurrence_until i)
    \<and> (si_scope i = Schedule_GROUP \<longrightarrow> open_recipients s' nk = open_recipients s k)"
proof (rule update_future_splits [OF assms], goal_cases)
  case (1 v past future)
  show ?case by (rule exI [of _ v], rule exI [of _ past], rule exI [of _ future], intro conjI impI) (rule 1; assumption)+
qed

theorem future_change_splits_the_series_witness:
  "\<exists>s' past future. update_schedule ada 3 1 Change_FUTURE later_stand_up (Some ''2024-10-06T02:00:00+00:00'') sample_schedules = (Inr 4, s')
    \<and> tbl_get (db_schedules s') 3 = Some past \<and> si_recurrence_until past = Some 20001
    \<and> tbl_get (db_schedules s') 4 = Some future \<and> si_recurrence_until future = Some 20005
    \<and> open_recipients s' 4 = [3]"
proof -
  let ?key = "Some ''2024-10-06T02:00:00+00:00''"
  let ?m = "update_schedule ada 3 1 Change_FUTURE later_stand_up ?key sample_schedules"
  have "fst ?m = Inr 4" by code_simp
  then have m: "?m = (Inr 4, snd ?m)" by (metis prod.collapse)
  have i: "si_recurrence_frequency stand_up \<noteq> Recurrence_NONE" "tbl_get (db_schedules sample_schedules) 3 = Some stand_up"
    and v: "(case parse_occurrence_key (db_zones sample_schedules) stand_up ?key of
        Inr v \<Rightarrow> local_date_of (db_zones sample_schedules) stand_up v = 20002 | Inl _ \<Rightarrow> False)"
    and f: "fd_recurrence later_stand_up = None" "si_recurrence_until stand_up = Some 20005" "si_scope stand_up = Schedule_GROUP"
      "open_recipients sample_schedules 3 = [3]"
    by code_simp+
  show ?thesis
    using future_change_splits_the_series [OF m i sample_schedules_ok] m v f by (auto simp: series_split_def)
qed

text \<open>
  C29. The calendar shows an account that is no administrator only items of its own and occurrences of group items that
  begin while a grant of that account is open.
\<close>

theorem calendar_keeps_to_the_grants:
  assumes "authored_schedule_occurrences lib s u starts_at ends_at = Inr out" "r \<in> set out" "\<not> is_administrator u"
  shows "\<exists>i. (co_source_id r, i) \<in> set (tbl_rows (db_schedules s))
    \<and> (si_owner i = u_id u
       \<or> si_scope i = Schedule_GROUP
         \<and> (\<exists>g \<in> set (grants_of s (co_source_id r)). sg_recipient g = u_id u
              \<and> grant_covers g (occurrence_time (co_starts_at r) (co_starts_on r))))"
  by (rule calendar_covers [OF assms]) blast

theorem calendar_keeps_to_the_grants_witness:
  "\<exists>r i g. authored_schedule_occurrences daily_dateutil sample_schedules rob (hours 0) (hours 24) = Inr [r]
    \<and> (co_source_id r, i) \<in> set (tbl_rows (db_schedules sample_schedules)) \<and> si_owner i \<noteq> u_id rob
    \<and> sg_recipient g = u_id rob \<and> grant_covers g (hours 2)"
proof -
  let ?out = "authored_schedule_occurrences daily_dateutil sample_schedules rob (hours 0) (hours 24)"
  have "(case ?out of Inr [r] \<Rightarrow> co_starts_at r = Some (hours 2) | _ \<Rightarrow> False)" by code_simp
  then obtain r where r: "?out = Inr [r]" "co_starts_at r = Some (hours 2)" by (auto split: sum.splits list.splits)
  have a: "\<not> is_administrator rob" and o: "\<forall>(k, i) \<in> set (tbl_rows (db_schedules sample_schedules)). si_owner i \<noteq> u_id rob"
    by code_simp+
  obtain i where i: "(co_source_id r, i) \<in> set (tbl_rows (db_schedules sample_schedules))"
    "si_owner i = u_id rob \<or> (\<exists>g. sg_recipient g = u_id rob \<and> grant_covers g (occurrence_time (co_starts_at r) (co_starts_on r)))"
    using calendar_keeps_to_the_grants [OF r(1) _ a, of r] by auto
  then have "si_owner i \<noteq> u_id rob" using o by blast
  then show ?thesis using r i by (auto simp: occurrence_time_def)
qed



text \<open>
  With two timed items the second is looked for in the window of the first: one that begins later, well inside the
  window asked for, is missing.
\<close>

theorem calendar_loses_the_second:
  assumes "visible_items s u a b = [(k, i), (k', i')]"
    and "single_item (db_zones s) i" "\<not> si_all_day i" "si_starts_at i = Some t" "si_ends_at i = Some t'"
      "t < b" "a < t'" "exceptions_of s k = []" "si_owner i = u_id u"
    and "single_item (db_zones s) i'" "\<not> si_all_day i'" "si_starts_at i' = Some v" "si_ends_at i' = Some v'" "t' \<le> v"
  shows "\<exists>r. authored_schedule_occurrences lib s u a b = Inr [r] \<and> co_source_id r = k"
  by (rule calendar_window_of_the_first [OF assms])

text \<open>
  An administrator is offered every active project as an audience, but selecting one without being a member is
  refused: publishing asks for the right to manage it, which administration does not give.
\<close>

theorem offered_project_is_refused:
  assumes "can_publish_group_item u" "is_administrator u" "si_scope i = Schedule_GROUP"
    and "tbl_get (db_projects s) p = Some r" "rp_status r = ResearchProject_ACTIVE"
    and "active_membership s u p = None" "p \<in> set project_ids"
  shows "(p, r) \<in> set (project_options s u [])
    \<and> resolve_audience u k i project_ids account_ids at s
        = (Inl (FieldError ''audience'' ''A selected project is no longer eligible.''), s)"
  using administrator_is_offered [OF assms(2,4,5)] resolve_needs_management [OF assms(1,3,7,4,6)] by blast

theorem offered_project_is_refused_witness:
  "(1, sample_project) \<in> set (project_options sample_schedules ann [])
    \<and> fst (resolve_audience ann 3 stand_up [1] [] None sample_schedules)
        = Inl (FieldError ''audience'' ''A selected project is no longer eligible.'')"
proof -
  have a: "can_publish_group_item ann" "is_administrator ann" "si_scope stand_up = Schedule_GROUP"
    and p: "tbl_get (db_projects sample_schedules) 1 = Some sample_project" "rp_status sample_project = ResearchProject_ACTIVE"
      "active_membership sample_schedules ann 1 = None"
    by code_simp+
  show ?thesis using offered_project_is_refused [OF a p, of "[1]"] by simp
qed

text \<open>
  A change of the future of an item that does not recur is accepted and does nothing: the fields are applied to the
  item in memory, which is not saved.
\<close>

theorem future_change_of_single_is_lost:
  assumes "tbl_get (db_schedules s) k = Some i" "si_recurrence_frequency i = Recurrence_NONE"
    and "si_scope i = Schedule_PERSONAL" "si_owner i = u_id u" "int (si_version i) = expected"
    and "parse_occurrence_key (db_zones s) i key = Inr v"
  shows "update_schedule u k expected Change_FUTURE f key s = (Inr k, s)"
  by (rule update_future_of_single [OF assms])

text \<open>
  A reminder whose notifications cannot be made is lost: the claims stay, and the next scan takes it for sent.
\<close>

theorem failed_reminder_is_not_retried:
  assumes "remind_occurrence s0 k i now off oc s = (Inl e, s')"
    and "claim_reminders k (occurrence_key i oc) off (reminder_recipients s0 k i (occurrence_start (db_zones s) i oc)) s
      = (Inr claims, s1)" "db_zones s1 = db_zones s"
  shows "remind_occurrence s0 k i now off oc s' = (Inr 0, s')"
  by (rule remind_occurrence_lost [OF assms])

text \<open>Of two clients that edit the same version of a series, the second is refused and nothing of its change is kept.\<close>

theorem second_series_edit_is_refused:
  assumes "schedules_ok s" "update_schedule u k (int v) Change_SERIES f key s = (Inr x, s')"
  shows "\<exists>e. update_schedule u' k (int v) Change_SERIES f' key' s' = (Inl e, s')"
proof -
  have "schedule_version k s' \<noteq> Some v" using schedule_edit.version_grows [OF assms] by auto
  then show ?thesis by (rule schedule_edit.stale_refused)
qed

section \<open>Recovery, sessions and administration\<close>

text \<open>
  C31. Over every run of the account services and their views the tables keep their constraints (one pending
  recovery and one pending change for an account, one pending change for an address, secrets and browser sessions
  once), and nothing closed is taken back: a recovery or a change of address that is no longer pending keeps its
  status, a revoked session stays revoked, and no session becomes active again.
\<close>

theorem closed_security_records_stay_closed:
  assumes "security_ok s"
  shows "security_ok (run_all security_step cs s) \<and> security_evolves s (run_all security_step cs s)"
  using security.run_inv [OF assms] security.run_forward [OF assms] by blast

theorem closed_security_records_stay_closed_witness:
  "security_ok (run_all security_step security_run sample_security)
    \<and> security_evolves sample_security (run_all security_step security_run sample_security)"
  by (rule closed_security_records_stay_closed [OF sample_security_ok])

text \<open>
  C32. A session that has ended never lets a request in again, by token or by browser, whatever the services do in
  between and whosever account the request names.
\<close>

theorem ended_session_stays_out:
  assumes "security_ok s" "tbl_get (db_sessions s) k = Some x" "ss_status x \<noteq> Session_ACTIVE"
  shows "\<exists>e. fst (session_gate ku (Some (str_of_nat k)) q (run_all security_step cs s)) = Inl e"
  by (rule ended_session_refused [OF assms])

theorem ended_session_stays_out_witness:
  "\<exists>e. fst (session_gate (1, sample_user ''ada'' User_ADVISOR) (Some (str_of_nat 3)) None
      (run_all security_step security_run sample_security)) = Inl e"
proof -
  have "map_option ss_status (tbl_get (db_sessions sample_security) 3) = Some Session_REVOKED" by code_simp
  then obtain x where "tbl_get (db_sessions sample_security) 3 = Some x" "ss_status x \<noteq> Session_ACTIVE" by auto
  then show ?thesis by (rule ended_session_stays_out [OF sample_security_ok])
qed

text \<open>
  C33. A recovery that succeeds stores the new password, uses its request up and shuts every session out: right
  after it no session id lets a request in for the account, and the same link is refused ever after, with any
  token and password.
\<close>

theorem recovery_shuts_the_account_out:
  assumes ok: "security_ok s" and c: "consume_password_recovery k token password s = (Inr user, s')"
  shows "db_credentials s' = db_credentials (save_password user password s)
    \<and> (\<forall>u sid q. \<exists>e. fst (session_gate (user, u) (Some sid) q s') = Inl e)
    \<and> (\<forall>cs token' password'. fst (consume_password_recovery k token' password' (run_all security_step cs s')) = Inl recovery_invalid)"
proof -
  obtain r where r: "tbl_get (db_recovery_requests s') k = Some r" "rq_status r = Recovery_CONSUMED"
    using recovery_effect(1) [OF c] by auto
  have "security_ok s'" using sound_consume [OF c] ok by (simp add: sound_def)
  then have "fst (consume_password_recovery k token' password' (run_all security_step cs s')) = Inl recovery_invalid"
    for cs token' password'
    by (rule closed_recovery_refused [OF _ r(1)]) (simp_all add: r(2))
  moreover have "\<exists>e. fst (session_gate (user, u) (Some sid) q s') = Inl e" for u sid q
    by (rule no_active_session_refused) (use recovery_effect(3) [OF c] in simp)
  ultimately show ?thesis using recovery_effect(2) [OF c] by blast
qed

theorem recovery_shuts_the_account_out_witness:
  "\<exists>s'. consume_password_recovery 1 ''tok'' ''Secret-2b'' sample_security = (Inr 2, s')
    \<and> (\<exists>e. fst (session_gate (2, sample_user ''sam'' User_STUDENT) (Some ''1'') None s') = Inl e)
    \<and> fst (consume_password_recovery 1 ''tok'' ''Secret-3c'' s') = Inl recovery_invalid"
proof -
  let ?m = "consume_password_recovery 1 ''tok'' ''Secret-2b'' sample_security"
  have "fst ?m = Inr 2" by code_simp
  then have m: "?m = (Inr 2, snd ?m)" by (metis prod.collapse)
  note r = recovery_shuts_the_account_out [OF sample_security_ok m]
  then have "fst (consume_password_recovery 1 ''tok'' ''Secret-3c'' (run_all security_step [] (snd ?m))) = Inl recovery_invalid"
    by blast
  then show ?thesis using m r by auto
qed

text \<open>
  A recovery found to have run out is never marked so: the mark is written inside the transaction the refusal
  rolls back. The request stays pending and the database as it was.
\<close>

theorem expired_recovery_is_never_marked:
  assumes "tbl_get (db_recovery_requests s) k = Some r" "rq_status r = Recovery_PENDING" "rq_expires_at r < db_now s"
  shows "consume_password_recovery k token password s = (Inl recovery_invalid, s)
    \<and> db_recovery_requests (expire_recovery k r s) \<noteq> db_recovery_requests s"
proof -
  have "map_option rq_status (tbl_get (db_recovery_requests (expire_recovery k r s)) k) = Some Recovery_EXPIRED"
    using assms by (simp add: expire_recovery_def tbl_get_update_where)
  then show ?thesis
    using assms by (auto simp: consume_password_recovery_def atomic_def recovery_is_usable_def)
qed

theorem expired_recovery_is_never_marked_witness:
  "consume_password_recovery 2 ''old'' ''Secret-2b'' sample_security = (Inl recovery_invalid, sample_security)"
proof -
  have "map_option (\<lambda>r. (rq_status r, rq_expires_at r < db_now sample_security)) (tbl_get (db_recovery_requests sample_security) 2)
      = Some (Recovery_PENDING, True)" by code_simp
  then obtain r where "tbl_get (db_recovery_requests sample_security) 2 = Some r" "rq_status r = Recovery_PENDING"
    "rq_expires_at r < db_now sample_security" by auto
  then show ?thesis using expired_recovery_is_never_marked by blast
qed

text \<open>
  A verified change moves the sign-in address of its own account and closes the request, and ends every
  session of the account.
\<close>

theorem verified_change_moves_the_address:
  assumes "security_ok s" "tbl_get (db_users s) user = Some u"
    and "verify_email_change user k code answer1 answer2 s = (Inr y, s')"
  shows "\<exists>c. tbl_get (db_email_changes s) k = Some c \<and> ec_user c = user
    \<and> map_option u_email (tbl_get (db_users s') user) = Some (ec_new_email c)
    \<and> map_option ec_status (tbl_get (db_email_changes s') k) = Some EmailChange_VERIFIED
    \<and> (\<forall>sid q v. \<exists>e. fst (session_gate (user, v) (Some sid) q s') = Inl e)"
proof -
  have wf: "tbl_wf (db_email_changes s)" using assms(1) by (simp add: security_ok_def email_changes_ok_def)
  obtain c where c: "tbl_get (db_email_changes s) k = Some c" "ec_user c = user"
    "map_option u_email (tbl_get (db_users s') user) = Some (ec_new_email c)"
    "map_option ec_status (tbl_get (db_email_changes s') k) = Some EmailChange_VERIFIED"
    "\<forall>j x. tbl_get (db_sessions s') j = Some x \<longrightarrow> ss_user x = user \<longrightarrow> ss_status x \<noteq> Session_ACTIVE"
    using change_effect [OF assms(3) wf] assms(2) by auto
  then have "\<exists>e. fst (session_gate (user, v) (Some sid) q s') = Inl e" for sid q v
    by (intro no_active_session_refused) simp
  then show ?thesis using c by blast
qed

theorem verified_change_moves_the_address_witness:
  "\<exists>s'. verify_email_change 1 1 ''123456'' (Delivered 1) (Delivered 1) sample_security = (Inr 1, s')
    \<and> map_option u_email (tbl_get (db_users s') 1) = Some ''ada@new.org''"
proof -
  let ?m = "verify_email_change 1 1 ''123456'' (Delivered 1) (Delivered 1) sample_security"
  have "fst ?m = Inr 1" by code_simp
  then have m: "?m = (Inr 1, snd ?m)" by (metis prod.collapse)
  have u: "tbl_get (db_users sample_security) 1 = Some (sample_user ''ada'' User_ADVISOR)" by code_simp
  have "map_option ec_new_email (tbl_get (db_email_changes sample_security) 1) = Some ''ada@new.org''" by code_simp
  then show ?thesis using verified_change_moves_the_address [OF sample_security_ok u m] m by auto
qed

text \<open>
  C34. Administration never takes the last active administrator away: whatever an administrator does to an account,
  and however an account is edited, an active administrator remains.
\<close>

theorem administration_keeps_an_active_administrator:
  assumes "tbl_wf (db_users s)" "0 < active_admin_count s"
  shows "0 < active_admin_count (snd (account_post u k action s))
    \<and> 0 < active_admin_count (snd (account_update u k new_name role s))"
  using account_post_keeps_admin [OF assms] account_update_keeps_admin [OF assms] by blast

theorem administration_keeps_an_active_administrator_witness:
  "active_admin_count sample_security = 1
    \<and> 0 < active_admin_count (snd (account_post ann 4 ''suspend'' sample_security))
    \<and> 0 < active_admin_count (snd (account_update ann 4 None (Some User_STUDENT) sample_security))"
proof -
  have w: "tbl_wf (db_users sample_security)" by code_simp
  have c: "active_admin_count sample_security = 1" by code_simp
  then have "0 < active_admin_count sample_security" by simp
  then show ?thesis using administration_keeps_an_active_administrator [OF w] c by blast
qed

text \<open>
  Verifying an address lifts a suspension halfway: the verification of a suspended student whose code is still
  usable makes the account active, does not enable it, and it can no longer be reactivated.
\<close>

theorem verification_lifts_suspension:
  assumes "latest_code s email = Some (vk, c)" "code_is_usable c (db_now s)" "vc_code_hash c = hash_code s code"
    and "tbl_first (\<lambda>_ u. u_email u = email) (db_users s) = Some (k, u)" "tbl_wf (db_users s)"
    and "u_status u = User_SUSPENDED" "u_requested_role u = Requested_STUDENT"
  shows "\<exists>s'. verify_email email code s = (Inr k, s')
    \<and> map_option u_status (tbl_get (db_users s') k) = Some User_ACTIVE \<and> db_credentials s' = db_credentials s
    \<and> (\<forall>v. \<exists>e. account_post v k ''reactivate'' s' = (Inl e, s'))"
proof -
  let ?s = "(update_user k (verified_user (db_now s)) s)\<lparr>db_verification_codes := tbl_update_where (\<lambda>j _. j = vk)
      (\<lambda>c. c\<lparr>vc_status := Code_CONSUMED, vc_consumed_at := Some (db_now s)\<rparr>) (db_verification_codes s)\<rparr>"
  have v: "verify_email email code s = (Inr k, ?s)"
    using assms by (simp add: verify_email_def atomic_def)
  have u: "tbl_get (db_users s) k = Some u" using tbl_firstD [OF assms(4)] tbl_get_iff [OF assms(5)] by blast
  have a: "map_option u_status (tbl_get (db_users ?s) k) = Some User_ACTIVE"
    using u assms(7) by (simp add: update_user_def tbl_get_update_where verified_user_def)
  then have "\<exists>e. account_post w k ''reactivate'' ?s = (Inl e, ?s)" for w
    by (auto simp: account_post_def reactivate_account_def)
  then show ?thesis using v a by (intro exI [of _ ?s]) (simp add: update_user_def)
qed

theorem verification_lifts_suspension_witness:
  "\<exists>s'. verify_email ''sam@example.org'' ''123456'' (suspended_security 2) = (Inr 2, s')
    \<and> map_option u_status (tbl_get (db_users s') 2) = Some User_ACTIVE
    \<and> db_credentials s' 2 = Some \<lparr>cr_password = ''$Secret-1a'', cr_is_active = False\<rparr>"
proof -
  let ?s = "suspended_security 2"
  have 1: "latest_code ?s ''sam@example.org'' = Some (1, sample_code ''sam@example.org'')"
    "code_is_usable (sample_code ''sam@example.org'') (db_now ?s)"
    "vc_code_hash (sample_code ''sam@example.org'') = hash_code ?s ''123456''" by code_simp+
  have 2: "tbl_first (\<lambda>_ u. u_email u = ''sam@example.org'') (db_users ?s)
      = Some (2, (sample_user ''sam'' User_STUDENT)\<lparr>u_status := User_SUSPENDED\<rparr>)" "tbl_wf (db_users ?s)" by code_simp+
  have 3: "db_credentials ?s 2 = Some \<lparr>cr_password = ''$Secret-1a'', cr_is_active = False\<rparr>" by code_simp
  show ?thesis
    using verification_lifts_suspension [OF 1 2] 3 by (auto simp: sample_user_def)
qed

text \<open>
  C35. Registering again lifts a suspension: the resubmission of a teacher whose request was rejected looks at the
  address, the password and the last decision but not at the status of the account, which may be suspended or
  archived, and enables it again.
\<close>

theorem resubmission_lifts_suspension:
  assumes "registration_guard a = Inr ()" "tbl_first (\<lambda>_ u. u_email u = rg_email a) (db_users s) = Some (k, u)"
    and "can_resubmit s (k, u) a" "tbl_wf (db_users s)"
  shows "\<exists>s'. register_account a code answer s = (Inr (k, None), s')
    \<and> map_option u_status (tbl_get (db_users s') k) = Some User_PENDING_ROLE_ACTIVATION
    \<and> map_option cr_is_active (db_credentials s' k) = Some True"
proof -
  have u: "tbl_get (db_users s) k = Some u" using tbl_firstD [OF assms(2)] tbl_get_iff [OF assms(4)] by blast
  have "db_credentials s k \<noteq> None"
    using assms(3) by (auto simp: can_resubmit_def check_password_def split: option.splits)
  then show ?thesis
    using assms u
    by (auto simp: register_account_def atomic_def resubmit_registration_def Let_def record_role_activation_def
        update_user_def set_is_active_def tbl_get_update_where)
qed

theorem resubmission_lifts_suspension_witness:
  "\<exists>a s'. map_option u_status (tbl_get (db_users (suspended_security 3)) 3) = Some User_SUSPENDED
    \<and> register_account a [] (Delivered 1) (suspended_security 3) = (Inr (3, None), s')
    \<and> map_option cr_is_active (db_credentials s' 3) = Some True"
proof -
  let ?a = "\<lparr>rg_email = ''rob@example.org'', rg_password = ''Secret-1a'', rg_name = ''rob'', rg_nickname = ''rob'',
    rg_requested_role = ''teacher'', rg_degree_type = None\<rparr>"
  let ?u = "(sample_user ''rob'' User_ADVISOR)\<lparr>u_status := User_SUSPENDED, u_requested_role := Requested_TEACHER\<rparr>"
  have 1: "registration_guard ?a = Inr ()" by code_simp
  have 2: "tbl_first (\<lambda>_ u. u_email u = rg_email ?a) (db_users (suspended_security 3)) = Some (3, ?u)" by code_simp
  have 3: "can_resubmit (suspended_security 3) (3, ?u) ?a" "tbl_wf (db_users (suspended_security 3))" by code_simp+
  have "map_option u_status (tbl_get (db_users (suspended_security 3)) 3) = Some User_SUSPENDED" by code_simp
  then show ?thesis using resubmission_lifts_suspension [OF 1 2 3] by blast
qed

section \<open>Notifications\<close>

text \<open>
  C36. Over every run of the notification services the constraints of the table hold: a requirement
  matches its outcome, and no account has two open follow-ups with one key.
\<close>

theorem one_open_follow_up: "mail_ok s \<Longrightarrow> mail_ok (run_all notification_command_step cs s)"
  by (rule mail.run_inv)

theorem one_open_follow_up_witness:
  "mail_ok (run_all notification_command_step [FollowUp ''k'' (enqueue_defaults 1 PENDING_REVIEW ''Project'' ''1'' ''S'')]
     sample_mail)"
  by (rule one_open_follow_up [OF sample_mail_ok])

text \<open>
  C37. An acknowledgement and a completed action are final: no run of the services changes that outcome.
\<close>

theorem outcome_is_final:
  assumes "mail_ok s" "tbl_get (db_notifications s) k = Some n"
    and "nt_outcome_state n = Notification_COMPLETED
      \<or> nt_requirement_type n = Notification_ACKNOWLEDGEMENT \<and> nt_outcome_state n = Notification_ACKNOWLEDGED"
  shows "\<exists>n'. tbl_get (db_notifications (run_all notification_command_step cs s)) k = Some n'
    \<and> nt_outcome_state n' = nt_outcome_state n"
proof -
  obtain n' where "tbl_get (db_notifications (run_all notification_command_step cs s)) k = Some n'"
    and "outcome_reaches (nt_requirement_type n) (nt_outcome_state n) (nt_outcome_state n')"
    using run_evolves [OF assms(1), of cs] assms(2) unfolding evolves_def by blast
  then show ?thesis using assms(3) completed_final acknowledged_final by metis
qed

theorem outcome_is_final_witness:
  "\<exists>s n n'. s = run_all notification_command_step [Acknowledge 2 sam] sample_mail
     \<and> tbl_get (db_notifications s) 2 = Some n \<and> nt_outcome_state n = Notification_ACKNOWLEDGED
     \<and> tbl_get (db_notifications (run_all notification_command_step [Expire 2] s)) 2 = Some n'
     \<and> nt_outcome_state n' = Notification_ACKNOWLEDGED"
proof -
  let ?s = "run_all notification_command_step [Acknowledge 2 sam] sample_mail"
  have ok: "mail_ok ?s" by (rule mail.run_inv [OF sample_mail_ok])
  have "map_option (\<lambda>n. (nt_requirement_type n, nt_outcome_state n)) (tbl_get (db_notifications ?s) 2)
    = Some (Notification_ACKNOWLEDGEMENT, Notification_ACKNOWLEDGED)" by code_simp
  then obtain n where n: "tbl_get (db_notifications ?s) 2 = Some n" "nt_requirement_type n = Notification_ACKNOWLEDGEMENT"
    "nt_outcome_state n = Notification_ACKNOWLEDGED" by auto
  show ?thesis using outcome_is_final [OF ok n(1), of "[Expire 2]"] n by auto
qed

text \<open>
  Acknowledging twice is acknowledging once: the repeated call returns the same notification and
  writes nothing, neither the row nor an event.
\<close>

theorem acknowledging_again_is_quiet:
  "acknowledge_notification k u s = (Inr x, s') \<Longrightarrow> acknowledge_notification k u s' = (Inr x, s')"
  by (rule acknowledgement.retry)

theorem acknowledging_again_is_quiet_witness:
  "acknowledge_notification 2 sam (snd (acknowledge_notification 2 sam sample_mail))
   = (Inr 2, snd (acknowledge_notification 2 sam sample_mail))"
proof -
  have "fst (acknowledge_notification 2 sam sample_mail) = Inr 2" by code_simp
  then show ?thesis using acknowledging_again_is_quiet [of 2 sam sample_mail 2] by (metis prod.collapse)
qed

text \<open>
  An action that has expired can still be completed: reconciling asks only that it is not
  completed yet, although an expired outcome is listed as terminal.
\<close>

theorem expired_action_completes:
  "\<exists>s'. map_option nt_outcome_state (tbl_get (db_notifications sample_mail) 3) = Some Notification_EXPIRED
     \<and> Notification_EXPIRED \<in> TERMINAL_OUTCOMES
     \<and> reconcile_authoritative_action 3 ''execution.deliverable.decided'' ''1'' sample_mail = (Inr 3, s')
     \<and> map_option nt_outcome_state (tbl_get (db_notifications s') 3) = Some Notification_COMPLETED"
proof -
  let ?m = "reconcile_authoritative_action 3 ''execution.deliverable.decided'' ''1'' sample_mail"
  have 1: "map_option nt_outcome_state (tbl_get (db_notifications sample_mail) 3) = Some Notification_EXPIRED" by code_simp
  have 2: "fst ?m = Inr 3" by code_simp
  have 3: "map_option nt_outcome_state (tbl_get (db_notifications (snd ?m)) 3) = Some Notification_COMPLETED" by code_simp
  have "Notification_EXPIRED \<in> TERMINAL_OUTCOMES" by (simp add: TERMINAL_OUTCOMES_def)
  then show ?thesis using 1 2 3 by (metis prod.collapse)
qed

text \<open>
  In a zone with a fixed offset an email is held back exactly through the quiet hours it falls in:
  it may go at the end of them, not later and not inside them.
\<close>

theorem quiet_hours_end:
  assumes "steady_zone zd (pp_timezone_name p) off" "pp_quiet_hours_enabled p"
    and "pp_quiet_hours_start p = Some start" "pp_quiet_hours_end p = Some until"
    and "0 \<le> start" "start < usec_per_day" "0 \<le> until" "until < usec_per_day" "start \<noteq> until"
  shows "\<exists>e. quiet_hours_eligible_at_for_profile zd p t = Inr e \<and> t \<le> e
    \<and> \<not> inside_quiet_hours start until (time_of (e + off))
    \<and> (t \<le> x \<longrightarrow> x < e \<longrightarrow> inside_quiet_hours start until (time_of (x + off)))"
proof (cases "inside_quiet_hours start until (time_of (t + off))")
  case True
  note q = quiet_end_props [OF assms(5-9) True]
  show ?thesis using eligible_at_steady [OF assms(1-4,9), of t] True q(1,2) q(3) [of "x + off"] by auto
qed (use eligible_at_steady [OF assms(1-4,9), of t] in auto)

theorem quiet_hours_end_witness:
  "\<exists>e. quiet_hours_eligible_at_for_profile utc_zones
       ((new_profile 2 0)\<lparr>pp_timezone_name := ''UTC'', pp_quiet_hours_enabled := True,
          pp_quiet_hours_start := Some (22 * usec_per_hour), pp_quiet_hours_end := Some (6 * usec_per_hour)\<rparr>) (hours 20) = Inr e
     \<and> hours 20 \<le> e \<and> \<not> inside_quiet_hours (22 * usec_per_hour) (6 * usec_per_hour) (time_of (e + 0))
     \<and> (hours 20 \<le> hours 21 \<longrightarrow> hours 21 < e
         \<longrightarrow> inside_quiet_hours (22 * usec_per_hour) (6 * usec_per_hour) (time_of (hours 21 + 0)))"
  by (rule quiet_hours_end) (simp_all add: steady_zone_def utc_zones_def usec_defs)

text \<open>
  What a failed delivery records of the error never exceeds 500 characters, whatever the provider said.
\<close>

theorem failure_reason_is_bounded: "length (mask_notification_failure_reason t) \<le> 500"
  by (rule mask_length)

definition sample_policy :: policy_changes where
  "sample_policy = \<lparr>new_reminder_lead_minutes = None, new_escalation_delay_minutes = None,
     new_repeat_interval_minutes = None, new_max_reminders = Some 2\<rparr>"

text \<open>
  Of two managers who edit the same version of a project's notification policy, the second is refused.
\<close>

theorem second_policy_edit_refused:
  assumes "tbl_wf (db_notification_policies s)" "update_project_policy u (pid, proj) (int v) c s = (Inr k, s')"
  shows "\<exists>e. update_project_policy w (pid, proj') (int v) d s' = (Inl e, s')"
  using policy_update.moves_on [OF assms] by (intro policy_update.stale_refused) auto

theorem second_policy_edit_refused_witness:
  "\<exists>s' e. update_project_policy ada (1, sample_project) (int 0) sample_policy sample_mail = (Inr 1, s')
     \<and> update_project_policy ada (1, sample_project) (int 0) sample_policy s' = (Inl e, s')"
proof -
  let ?m = "update_project_policy ada (1, sample_project) (int 0) sample_policy sample_mail"
  have "fst ?m = Inr 1" by code_simp
  then have m: "?m = (Inr 1, snd ?m)" by (metis prod.collapse)
  have wf: "tbl_wf (db_notification_policies sample_mail)" by (simp add: sample_mail_def tbl_wf_def tbl_empty_def)
  show ?thesis using second_policy_edit_refused [OF wf m] m by blast
qed

section \<open>Audit trail, concurrency, query parameters\<close>

text \<open>
  C38. A stored snapshot holds no denied key at any depth, no text over 1000 characters and no list
  over 100 entries, and redacting it again changes nothing.
\<close>

theorem snapshot_is_redacted:
  "redacted (PDict (redact_snapshot d allowed))
   \<and> redact_snapshot (Some (redact_snapshot d allowed)) None = redact_snapshot d allowed"
  by (simp only: redact_snapshot_redacted redact_snapshot_again)

text \<open>
  The event of a booking conflict never says which conflict it was: the payload's \<open>code\<close> is a
  denied key and is dropped.
\<close>

theorem conflict_code_is_lost:
  "\<exists>e. tbl_rows (db_audit (record_booking_conflict u rid payload project s)) =
         tbl_rows (db_audit s) @ [(tbl_next (db_audit s), e)]
     \<and> ''code'' \<notin> fst ` set (ae_target_snapshot e)"
proof -
  let ?d = "dict_build ([(''resourceId'', PInt (int rid)), (''outcome'', PStr ''resource_conflict'')] @ payload)"
  have "redacted (PDict (redact_snapshot (Some ?d) None))" by (rule redact_snapshot_redacted)
  moreover have "is_denied_key ''code''" by code_simp
  ultimately have "''code'' \<notin> fst ` set (redact_snapshot (Some ?d) None)"
    by (auto simp: list_all_iff)
  then show ?thesis
    by (simp add: record_booking_conflict_def rows_record_event event_of_def event_defaults_def next_event_def)
qed

text \<open>
  A creation made idempotent by a lookup that its own row answers is safe to repeat: the second
  call returns the row of the first, says so, and writes nothing.
\<close>

theorem idempotent_creation_retry:
  assumes "idempotent_mutation lookup m s = (Inr (x, c), s')"
    and "\<And>t y t'. m t = (Inr y, t') \<Longrightarrow> lookup t' = Some y"
  shows "idempotent_mutation lookup m s' = (Inr (x, False), s')"
  by (rule idempotent_mutation_retry [OF assms])

theorem idempotent_creation_retry_witness:
  "idempotent_mutation id (\<lambda>s. (Inr (1 :: nat), Some 1)) (Some 1) = (Inr (1, False), Some 1)"
  proof (rule idempotent_creation_retry [where s = None and c = True])
  show "idempotent_mutation id (\<lambda>s. (Inr 1, Some 1)) None = (Inr (1 :: nat, True), Some 1)"
    by (simp add: idempotent_mutation_def) (simp add: atomic_def)
qed simp

text \<open>
  What a page request becomes is within the bounds of the endpoint: a size from 1 to the maximum
  and a positive cursor, or an error.
\<close>

theorem page_request_is_bounded:
  assumes "1 \<le> dflt" "dflt \<le> maximum" "parse_bounded_cursor v requested dflt maximum = Inr p"
  shows "1 \<le> page_size p \<and> page_size p \<le> maximum \<and> (case after_id p of None \<Rightarrow> True | Some a \<Rightarrow> 1 \<le> a)"
  using parse_bounded_cursor_bounds [OF assms] by (auto split: option.splits)

theorem page_request_is_bounded_witness:
  "\<exists>p. parse_bounded_cursor (Some ''12'') (Some ''50'') 25 100 = Inr p \<and> 1 \<le> page_size p \<and> page_size p \<le> 100"
proof -
  have "(case parse_bounded_cursor (Some ''12'') (Some ''50'') 25 100 of Inr p \<Rightarrow> True | Inl e \<Rightarrow> False)" by code_simp
  then obtain p where "parse_bounded_cursor (Some ''12'') (Some ''50'') 25 100 = Inr p" by (auto split: sum.splits)
  then show ?thesis using page_request_is_bounded [of 25 100 "Some ''12''" "Some ''50''" p] by auto
qed


section \<open>Projects\<close>



end
